(* ===== verification/Prelude.thy ===== *)
theory Prelude
  imports Main "HOL-Library.Word" "HOL-Library.List_Lexorder" "HOL-Library.Char_ord"
    "HOL-Library.Product_Lexorder"
begin

text \<open>
  Shared vocabulary of the development: results, machine integers, instants and durations,
  byte predicates on strings, the generic notion of a reachable state and the two locales
  through which every state machine of the development gets its invariants.

  Conventions. A Rust \<open>Result<T, E>\<close> is the sum \<open>'e + 'a\<close> (\<open>Err\<close> left, \<open>Ok\<close> right). A method
  behind a lock takes the state and returns the result together with the state it leaves,
  on the error paths too. A \<open>String\<close> is the list of its UTF-8 bytes, so \<open>length\<close> is \<open>len()\<close> and the
  lexicographic order is Rust's. Identifier newtypes are strings.
\<close>

subsection \<open>Results\<close>

abbreviation Ok :: "'a \<Rightarrow> 'e + 'a" where
  "Ok \<equiv> Inr"

abbreviation Err :: "'e \<Rightarrow> 'e + 'a" where
  "Err \<equiv> Inl"

fun is_ok :: "'e + 'a \<Rightarrow> bool" where
  "is_ok (Inr _) = True"
| "is_ok (Inl _) = False"

lemma is_ok_iff: "is_ok r \<longleftrightarrow> (\<exists>x. r = Ok x)"
  by (cases r) auto

lemma not_is_ok_iff: "\<not> is_ok r \<longleftrightarrow> (\<exists>e. r = Err e)"
  by (cases r) auto

fun res_bind :: "'e + 'a \<Rightarrow> ('a \<Rightarrow> 'e + 'b) \<Rightarrow> 'e + 'b" where
  "res_bind (Inl e) f = Inl e"
| "res_bind (Inr x) f = f x"

lemma res_bind_Ok_iff: "res_bind r f = Ok y \<longleftrightarrow> (\<exists>x. r = Ok x \<and> f x = Ok y)"
  by (cases r) auto

definition reject_if :: "bool \<Rightarrow> 'e \<Rightarrow> 'e + unit" where
  "reject_if b e = (if b then Err e else Ok ())"

lemma reject_if_simps [simp]:
  "reject_if True e = Err e"
  "reject_if False e = Ok ()"
  "reject_if b e = Ok u \<longleftrightarrow> \<not> b"
  "reject_if b e = Err e' \<longleftrightarrow> b \<and> e' = e"
  by (auto simp: reject_if_def)

subsection \<open>Machine integers, instants, durations\<close>

type_synonym u8 = "8 word"
type_synonym u16 = "16 word"
type_synonym u32 = "32 word"
type_synonym u64 = "64 word"

text \<open>\<open>saturating_add\<close> and \<open>checked_add\<close> of the unsigned integer types.\<close>

definition saturating_add :: "'l::len word \<Rightarrow> 'l word \<Rightarrow> 'l word" where
  "saturating_add x y = (if unat x + unat y < 2 ^ LENGTH('l) then x + y else - 1)"

definition checked_add :: "'l::len word \<Rightarrow> 'l word \<Rightarrow> 'l word option" where
  "checked_add x y = (if unat x + unat y < 2 ^ LENGTH('l) then Some (x + y) else None)"

lemma unat_add_no_wrap:
  fixes x y :: "'l::len word"
  assumes "unat x + unat y < 2 ^ LENGTH('l)"
  shows "unat (x + y) = unat x + unat y"
  using assms by (simp add: unat_word_ariths)

lemma unat_bound:
  fixes x :: "'l::len word"
  shows "unat x < 2 ^ LENGTH('l)"
  by (metis unsigned_less)

lemma unat_max_word: "unat (- 1 :: 'l::len word) = 2 ^ LENGTH('l) - 1"
  by (simp add: unsigned_minus_1_eq_mask mask_eq_exp_minus_1)

lemma unat_saturating_add:
  fixes x y :: "'l::len word"
  shows "unat (saturating_add x y) = min (unat x + unat y) (2 ^ LENGTH('l) - 1)"
proof (cases "unat x + unat y < 2 ^ LENGTH('l)")
  case True
  then show ?thesis by (simp add: saturating_add_def unat_add_no_wrap)
next
  case False
  then show ?thesis by (simp add: saturating_add_def unat_max_word)
qed

lemma saturating_add_ge:
  fixes x y :: "'l::len word"
  shows "x \<le> saturating_add x y"
proof -
  have "unat x \<le> 2 ^ LENGTH('l) - Suc 0"
    using unat_bound [of x] by linarith
  then have "unat x \<le> unat (saturating_add x y)"
    by (simp add: unat_saturating_add)
  then show ?thesis
    by (simp add: word_le_nat_alt)
qed

lemma unat_plus_one:
  fixes x :: "'l::len word"
  assumes "x < y"
  shows "unat (x + 1) = Suc (unat x)"
proof -
  have "unat x < unat y" using assms by (simp add: word_less_nat_alt)
  with unat_bound [of y] have "Suc (unat x) < 2 ^ LENGTH('l)" by linarith
  then show ?thesis by (simp add: unat_word_ariths)
qed

lemma checked_add_Some_iff:
  fixes x y :: "'l::len word"
  shows "checked_add x y = Some z \<longleftrightarrow> unat x + unat y < 2 ^ LENGTH('l) \<and> z = x + y"
  by (auto simp: checked_add_def)

lemma checked_add_less:
  fixes x :: "'l::len word"
  assumes "checked_add x 1 = Some z"
  shows "unat z = Suc (unat x)"
  using assms by (auto simp: checked_add_Some_iff unat_word_ariths split: if_splits)

text \<open>
  A wall-clock \<open>DateTime<Utc>\<close> is the number of nanoseconds since the epoch; a monotonic
  \<open>Instant\<close> and a \<open>Duration\<close> are non-negative numbers of nanoseconds, so the truncated
  subtraction of \<^typ>\<open>nat\<close> is \<open>Instant::elapsed\<close>, which saturates at zero.
\<close>

type_synonym datetime = int
type_synonym duration = nat
type_synonym monotime = nat

definition chrono_microseconds :: "int \<Rightarrow> int" where
  "chrono_microseconds n = n * 1000"

definition chrono_seconds :: "int \<Rightarrow> int" where
  "chrono_seconds n = n * 1000000000"

definition chrono_minutes :: "int \<Rightarrow> int" where
  "chrono_minutes n = n * (60 * 1000000000)"

definition chrono_hours :: "int \<Rightarrow> int" where
  "chrono_hours n = n * (3600 * 1000000000)"

definition chrono_days :: "int \<Rightarrow> int" where
  "chrono_days n = n * (86400 * 1000000000)"

definition duration_from_secs :: "nat \<Rightarrow> duration" where
  "duration_from_secs n = n * 1000000000"

definition elapsed :: "monotime \<Rightarrow> monotime \<Rightarrow> duration" where
  "elapsed now since = now - since"

subsection \<open>Byte predicates\<close>

definition byte_between :: "char \<Rightarrow> char \<Rightarrow> char \<Rightarrow> bool" where
  "byte_between lo hi c \<longleftrightarrow> lo \<le> c \<and> c \<le> hi"

definition is_ascii_digit :: "char \<Rightarrow> bool" where
  "is_ascii_digit c \<longleftrightarrow> byte_between CHR ''0'' CHR ''9'' c"

definition is_ascii_uppercase :: "char \<Rightarrow> bool" where
  "is_ascii_uppercase c \<longleftrightarrow> byte_between CHR ''A'' CHR ''Z'' c"

definition is_ascii_lowercase :: "char \<Rightarrow> bool" where
  "is_ascii_lowercase c \<longleftrightarrow> byte_between CHR ''a'' CHR ''z'' c"

definition is_ascii_alphanumeric :: "char \<Rightarrow> bool" where
  "is_ascii_alphanumeric c \<longleftrightarrow>
     is_ascii_digit c \<or> is_ascii_uppercase c \<or> is_ascii_lowercase c"

definition is_ascii_hexdigit :: "char \<Rightarrow> bool" where
  "is_ascii_hexdigit c \<longleftrightarrow>
     is_ascii_digit c \<or> byte_between CHR ''a'' CHR ''f'' c \<or> byte_between CHR ''A'' CHR ''F'' c"

lemmas byte_defs = byte_between_def is_ascii_digit_def is_ascii_uppercase_def
  is_ascii_lowercase_def is_ascii_alphanumeric_def is_ascii_hexdigit_def

definition to_ascii_lower :: "char \<Rightarrow> char" where
  "to_ascii_lower c = (if is_ascii_uppercase c then char_of (of_char c + (32 :: nat)) else c)"

definition to_ascii_lowercase :: "string \<Rightarrow> string" where
  "to_ascii_lowercase s = map to_ascii_lower s"

text \<open>\<open>str::strip_suffix\<close> and \<open>str::contains\<close> for a string needle.\<close>

definition strip_suffix :: "string \<Rightarrow> string \<Rightarrow> string option" where
  "strip_suffix suf s =
     (if length suf \<le> length s \<and> drop (length s - length suf) s = suf
      then Some (take (length s - length suf) s) else None)"

definition strip_prefix :: "string \<Rightarrow> string \<Rightarrow> string option" where
  "strip_prefix pre s = (if take (length pre) s = pre then Some (drop (length pre) s) else None)"

fun str_contains :: "string \<Rightarrow> string \<Rightarrow> bool" where
  "str_contains [] needle = (needle = [])"
| "str_contains (c # cs) needle =
     (take (length needle) (c # cs) = needle \<or> str_contains cs needle)"

subsection \<open>Reachable states and invariants\<close>

inductive reach :: "('s \<Rightarrow> bool) \<Rightarrow> ('s \<Rightarrow> 's \<Rightarrow> bool) \<Rightarrow> 's \<Rightarrow> bool"
  for init :: "'s \<Rightarrow> bool" and step :: "'s \<Rightarrow> 's \<Rightarrow> bool" where
  reach_init: "init s \<Longrightarrow> reach init step s"
| reach_step: "reach init step s \<Longrightarrow> step s t \<Longrightarrow> reach init step t"

text \<open>A predicate that every step of a machine keeps.\<close>

locale kept_by_steps =
  fixes step :: "'s \<Rightarrow> 's \<Rightarrow> bool"
    and keep :: "'s \<Rightarrow> bool"
  assumes step_keeps: "step s t \<Longrightarrow> keep s \<Longrightarrow> keep t"
begin

lemma steps_keep: "step\<^sup>*\<^sup>* s t \<Longrightarrow> keep s \<Longrightarrow> keep t"
  by (induction rule: rtranclp_induct) (auto intro: step_keeps)

lemma reach_keeps:
  assumes "reach init step s" and "\<And>u. init u \<Longrightarrow> keep u"
  shows "keep s"
  using assms(1) by induction (auto intro: step_keeps assms(2))

end

text \<open>A machine with its initial states and an invariant.\<close>

locale invariant_system = kept_by_steps step keep
  for step :: "'s \<Rightarrow> 's \<Rightarrow> bool" and keep :: "'s \<Rightarrow> bool" +
  fixes init :: "'s \<Rightarrow> bool"
  assumes init_keep: "init s \<Longrightarrow> keep s"
begin

lemma reach_inv: "reach init step s \<Longrightarrow> keep s"
  by (rule reach_keeps [of init]) (auto intro: init_keep)

end

subsection \<open>Lists\<close>

lemma last_filter_append:
  "filter P (xs @ [x]) = (if P x then filter P xs @ [x] else filter P xs)"
  by simp

lemma find_rev_append_single:
  "find P (rev (xs @ [x])) = (if P x then Some x else find P (rev xs))"
  by simp

lemma length_filter_mono:
  "(\<And>x. x \<in> set xs \<Longrightarrow> P x \<Longrightarrow> Q x) \<Longrightarrow> length (filter P xs) \<le> length (filter Q xs)"
  by (induction xs) (auto simp: le_Suc_eq)

end
