(* ===== verification/BTree_Map.thy ===== *)
theory BTree_Map
  imports Prelude
begin

text \<open>
  The ordered map \<open>BTreeMap<K, V>\<close> of the Rust standard library: an association list in
  strictly ascending key order, so that \<open>values()\<close>, \<open>keys()\<close> and \<open>len()\<close> are what the code
  iterates over and counts. The two locales state what the components rely on: the lookup laws
  of insertion and removal, and, for maps in key order, how the number of entries changes.
\<close>

type_synonym ('k, 'v) btree = "('k \<times> 'v) list"

definition bt_empty :: "('k, 'v) btree" where
  "bt_empty = []"

definition bt_get :: "('k, 'v) btree \<Rightarrow> 'k \<Rightarrow> 'v option" where
  "bt_get m k = map_of m k"

fun bt_insert :: "'k::linorder \<Rightarrow> 'v \<Rightarrow> ('k, 'v) btree \<Rightarrow> ('k, 'v) btree" where
  "bt_insert k v [] = [(k, v)]"
| "bt_insert k v ((k', v') # m) =
     (if k < k' then (k, v) # (k', v') # m
      else if k = k' then (k, v) # m
      else (k', v') # bt_insert k v m)"

definition bt_remove :: "'k \<Rightarrow> ('k, 'v) btree \<Rightarrow> ('k, 'v) btree" where
  "bt_remove k m = filter (\<lambda>(k', v). k' \<noteq> k) m"

definition bt_retain :: "('k \<Rightarrow> 'v \<Rightarrow> bool) \<Rightarrow> ('k, 'v) btree \<Rightarrow> ('k, 'v) btree" where
  "bt_retain P m = filter (\<lambda>(k, v). P k v) m"

definition bt_values :: "('k, 'v) btree \<Rightarrow> 'v list" where
  "bt_values m = map snd m"

definition bt_keys :: "('k, 'v) btree \<Rightarrow> 'k list" where
  "bt_keys m = map fst m"

definition bt_len :: "('k, 'v) btree \<Rightarrow> nat" where
  "bt_len m = length m"

definition bt_contains :: "('k, 'v) btree \<Rightarrow> 'k \<Rightarrow> bool" where
  "bt_contains m k \<longleftrightarrow> bt_get m k \<noteq> None"

text \<open>Collecting pairs inserts them one after the other.\<close>

definition bt_of_list :: "('k::linorder \<times> 'v) list \<Rightarrow> ('k, 'v) btree" where
  "bt_of_list kvs = fold (\<lambda>(k, v) m. bt_insert k v m) kvs bt_empty"

definition bt_ok :: "('k::linorder, 'v) btree \<Rightarrow> bool" where
  "bt_ok m \<longleftrightarrow> sorted_wrt (<) (map fst m)"

subsection \<open>The lookup interface\<close>

locale lookup_map =
  fixes get :: "'m \<Rightarrow> 'k \<Rightarrow> 'v option"
    and put :: "'k \<Rightarrow> 'v \<Rightarrow> 'm \<Rightarrow> 'm"
    and del :: "'k \<Rightarrow> 'm \<Rightarrow> 'm"
    and none :: "'m"
  assumes get_none: "get none k = None"
    and get_put: "get (put k v m) k' = (if k' = k then Some v else get m k')"
    and get_del: "get (del k m) k' = (if k' = k then None else get m k')"
begin

lemma get_put_same: "get (put k v m) k = Some v"
  by (simp add: get_put)

lemma get_put_other: "k' \<noteq> k \<Longrightarrow> get (put k v m) k' = get m k'"
  by (simp add: get_put)

lemma get_put_twice: "get (put k w (put k v m)) = get (put k w m)"
  by (rule ext) (simp add: get_put)

lemma get_put_swap: "k \<noteq> k' \<Longrightarrow> get (put k v (put k' v' m)) = get (put k' v' (put k v m))"
  by (rule ext) (auto simp: get_put)

lemma get_put_id: "get m k = Some v \<Longrightarrow> get (put k v m) = get m"
  by (rule ext) (auto simp: get_put)

text \<open>A predicate of every entry survives an update that stores a good entry.\<close>

lemma all_entries_put:
  "(\<And>j w. get m j = Some w \<Longrightarrow> P j w) \<Longrightarrow> P k v \<Longrightarrow> get (put k v m) j = Some w \<Longrightarrow> P j w"
  by (auto simp: get_put split: if_splits)

lemma all_entries_del:
  "(\<And>j w. get m j = Some w \<Longrightarrow> P j w) \<Longrightarrow> get (del k m) j = Some w \<Longrightarrow> P j w"
  by (auto simp: get_del split: if_splits)

end

locale counted_map = lookup_map get put del none
  for get :: "'m \<Rightarrow> 'k \<Rightarrow> 'v option" and put :: "'k \<Rightarrow> 'v \<Rightarrow> 'm \<Rightarrow> 'm"
    and del :: "'k \<Rightarrow> 'm \<Rightarrow> 'm" and none :: "'m" +
  fixes ok :: "'m \<Rightarrow> bool" and len :: "'m \<Rightarrow> nat"
  assumes ok_none: "ok none"
    and ok_put: "ok m \<Longrightarrow> ok (put k v m)"
    and ok_del: "ok m \<Longrightarrow> ok (del k m)"
    and len_none: "len none = 0"
    and len_put: "ok m \<Longrightarrow> len (put k v m) = (if get m k = None then Suc (len m) else len m)"
begin

lemma len_put_fresh: "ok m \<Longrightarrow> get m k = None \<Longrightarrow> len (put k v m) = Suc (len m)"
  by (simp add: len_put)

lemma len_put_present: "ok m \<Longrightarrow> get m k \<noteq> None \<Longrightarrow> len (put k v m) = len m"
  by (auto simp: len_put)

lemma len_put_le: "ok m \<Longrightarrow> len (put k v m) \<le> Suc (len m)"
  by (simp add: len_put)

lemma len_put_ge: "ok m \<Longrightarrow> len m \<le> len (put k v m)"
  by (simp add: len_put)

end

subsection \<open>The association list provides it\<close>

lemma bt_get_insert: "bt_get (bt_insert k v m) k' = (if k' = k then Some v else bt_get m k')"
  unfolding bt_get_def by (induction m) auto

lemma bt_get_remove: "bt_get (bt_remove k m) k' = (if k' = k then None else bt_get m k')"
  unfolding bt_get_def bt_remove_def by (induction m) auto

lemma keys_bt_insert: "set (bt_keys (bt_insert k v m)) = insert k (set (bt_keys m))"
  unfolding bt_keys_def by (induction m) (force split: if_splits)+

lemma bt_ok_insert: "bt_ok m \<Longrightarrow> bt_ok (bt_insert k v m)"
proof (induction m)
  case Nil
  then show ?case by (simp add: bt_ok_def)
next
  case (Cons p m)
  obtain k' v' where p: "p = (k', v')" by (cases p)
  have "set (map fst (bt_insert k v m)) = insert k (set (map fst m))"
    using keys_bt_insert [of k v m] by (simp add: bt_keys_def)
  with Cons show ?case
    by (auto simp: bt_ok_def p)
qed

lemma bt_ok_filter: "bt_ok m \<Longrightarrow> bt_ok (filter P m)"
  unfolding bt_ok_def by (induction m) auto

lemma bt_ok_remove: "bt_ok m \<Longrightarrow> bt_ok (bt_remove k m)"
  unfolding bt_remove_def by (rule bt_ok_filter)

lemma bt_ok_retain: "bt_ok m \<Longrightarrow> bt_ok (bt_retain P m)"
  unfolding bt_retain_def by (rule bt_ok_filter)

lemma bt_ok_distinct: "bt_ok m \<Longrightarrow> distinct (map fst m)"
  unfolding bt_ok_def by (induction m) auto

lemma bt_get_None_iff: "bt_get m k = None \<longleftrightarrow> k \<notin> set (bt_keys m)"
  by (simp add: bt_get_def bt_keys_def map_of_eq_None_iff)

lemma bt_len_insert:
  "bt_ok m \<Longrightarrow> bt_len (bt_insert k v m) = (if bt_get m k = None then Suc (bt_len m) else bt_len m)"
proof (induction m)
  case Nil
  then show ?case by (simp add: bt_len_def bt_get_def)
next
  case (Cons p m)
  obtain k' v' where p: "p = (k', v')" by (cases p)
  have ok: "bt_ok m" and above: "\<forall>x \<in> set (map fst m). k' < x"
    using Cons.prems by (auto simp: bt_ok_def p)
  have "k < k' \<Longrightarrow> map_of m k = None"
    using above by (auto simp: map_of_eq_None_iff)
  with Cons.IH [OF ok] show ?case
    by (auto simp: bt_len_def bt_get_def p)
qed

interpretation bt: counted_map bt_get bt_insert bt_remove bt_empty bt_ok bt_len
  by unfold_locales
    (simp_all add: bt_get_insert bt_get_remove bt_ok_insert bt_ok_remove bt_len_insert,
     simp_all add: bt_empty_def bt_get_def bt_ok_def bt_len_def)

lemmas bt_simps = bt.get_none bt.get_put bt.get_del bt.ok_none bt.ok_put bt.ok_del bt.len_none

declare bt.get_none [simp] bt.get_put_same [simp] bt.ok_none [simp] bt.len_none [simp]
  bt.ok_put [intro, simp] bt.ok_del [intro, simp] bt_ok_retain [intro, simp]

lemma bt_get_retain:
  "bt_ok m \<Longrightarrow> bt_get (bt_retain P m) k =
     (case bt_get m k of None \<Rightarrow> None | Some v \<Rightarrow> if P k v then Some v else None)"
proof (induction m)
  case Nil
  then show ?case by (simp add: bt_get_def bt_retain_def)
next
  case (Cons p m)
  obtain k' v' where p: "p = (k', v')" by (cases p)
  have ok: "bt_ok m" and above: "k' \<notin> set (map fst m)"
    using Cons.prems by (auto simp: bt_ok_def p)
  then have "map_of m k' = None" "map_of (filter (\<lambda>(k, v). P k v) m) k' = None"
    by (auto simp: map_of_eq_None_iff)
  with Cons.IH [OF ok] show ?case
    by (auto simp: bt_get_def bt_retain_def p split: option.splits)
qed

lemma bt_len_retain_le: "bt_len (bt_retain P m) \<le> bt_len m"
  by (simp add: bt_len_def bt_retain_def)

lemma in_set_bt_iff: "bt_ok m \<Longrightarrow> (k, v) \<in> set m \<longleftrightarrow> bt_get m k = Some v"
  using bt_ok_distinct [of m] by (simp add: bt_get_def)

lemma in_bt_values_iff: "bt_ok m \<Longrightarrow> v \<in> set (bt_values m) \<longleftrightarrow> (\<exists>k. bt_get m k = Some v)"
  by (force simp: bt_values_def in_set_bt_iff [symmetric])

lemma bt_contains_iff: "bt_contains m k \<longleftrightarrow> (\<exists>v. bt_get m k = Some v)"
  by (auto simp: bt_contains_def)

lemma set_bt_insert_subset: "set (bt_insert k v m) \<subseteq> insert (k, v) (set m)"
  by (induction m) (auto split: if_splits)

text \<open>Two maps in key order with the same lookups are equal.\<close>

lemma bt_ext: "bt_ok m \<Longrightarrow> bt_ok n \<Longrightarrow> bt_get m = bt_get n \<Longrightarrow> m = n"
proof -
  assume m: "bt_ok m" and n: "bt_ok n" and eq: "bt_get m = bt_get n"
  have "set m = set n"
  proof (rule set_eqI)
    fix x :: "'a \<times> 'b"
    obtain k v where x: "x = (k, v)" by (cases x)
    show "x \<in> set m \<longleftrightarrow> x \<in> set n"
      using in_set_bt_iff [OF m, of k v] in_set_bt_iff [OF n, of k v] eq x by simp
  qed
  then have "map fst m = map fst n"
    using m n strict_sorted_equal [of "map fst m" "map fst n"]
    by (simp add: bt_ok_def strict_sorted_iff image_def)
  moreover have "inj_on fst (set m)"
    using bt_ok_distinct [OF m] by (simp add: distinct_map)
  ultimately show "m = n"
    using \<open>set m = set n\<close> by (metis inj_on_map_eq_map map_eq_conv subset_refl
      inj_on_Un_image_eq_iff map_inj_on Un_absorb)
qed

text \<open>Collecting the entries of a map gives the map back.\<close>

lemma bt_of_list_aux:
  "distinct (map fst kvs) \<Longrightarrow> bt_ok m \<Longrightarrow>
   bt_ok (fold (\<lambda>(k, v) m. bt_insert k v m) kvs m)
   \<and> bt_get (fold (\<lambda>(k, v) m. bt_insert k v m) kvs m) j =
       (case map_of kvs j of None \<Rightarrow> bt_get m j | Some v \<Rightarrow> Some v)"
proof (induction kvs arbitrary: m)
  case Nil
  then show ?case by simp
next
  case (Cons kv kvs)
  obtain k v where kv: "kv = (k, v)" by (cases kv)
  then have "map_of kvs k = None"
    using Cons.prems(1) by (simp add: map_of_eq_None_iff)
  then show ?case
    using Cons.IH [of "bt_insert k v m"] Cons.prems kv
    by (auto simp: bt.get_put split: option.splits)
qed

lemma bt_of_list_same: "bt_ok m \<Longrightarrow> bt_of_list m = m"
  using bt_of_list_aux [OF bt_ok_distinct [of m] bt.ok_none]
  by (intro bt_ext) (auto simp: bt_of_list_def bt_get_def bt_empty_def split: option.splits)

subsection \<open>Counting the entries of one owner\<close>

text \<open>Several components bound the number of entries whose key or value belongs to one tenant.\<close>

definition bt_count :: "('k \<Rightarrow> 'v \<Rightarrow> bool) \<Rightarrow> ('k, 'v) btree \<Rightarrow> nat" where
  "bt_count P m = length (filter (\<lambda>(k, v). P k v) m)"

lemma bt_count_insert_fresh:
  "bt_get m k = None \<Longrightarrow>
   bt_count P (bt_insert k v m) = (if P k v then Suc (bt_count P m) else bt_count P m)"
  unfolding bt_get_def bt_count_def by (induction m) auto

lemma bt_count_retain_le: "bt_count P (bt_retain Q m) \<le> bt_count P m"
  unfolding bt_count_def bt_retain_def by (induction m) auto

lemma bt_count_le_len: "bt_count P m \<le> bt_len m"
  by (simp add: bt_count_def bt_len_def)

lemma bt_count_empty [simp]: "bt_count P bt_empty = 0"
  by (simp add: bt_count_def bt_empty_def)

end
