(* ===== verification/Contracts.thy ===== *)
theory Contracts
  imports BTree_Map
begin

text \<open>
  The shared contracts (\<open>rust/crates/contracts/src/lib.rs\<close>): the status and classification
  enumerations, the records that cross component boundaries, the authorization lease check, the
  execution authorization and its verification, and the guard of the task life cycle.

  Code outside the repository is a parameter: \<open>uuid_ok\<close> is \<open>Uuid::parse_str(..).is_ok()\<close>, a
  \<open>signer\<close> bundles what the code uses of Ed25519 and URL-safe base64, \<open>jcs\<close> is the canonical
  JSON serialization (\<open>None\<close> when it fails) and \<open>sha256_hex\<close> the hexadecimal SHA-256 digest.
\<close>

subsection \<open>JSON values and third-party code\<close>

datatype json = JNull | JBool bool | JNumber string | JString string
  | JArray "json list" | JObject "(string \<times> json) list"

record ('sk, 'vk) signer =
  sg_sign :: "'sk \<Rightarrow> string \<Rightarrow> string"
  sg_public :: "'sk \<Rightarrow> 'vk"
  sg_decodes :: "string \<Rightarrow> bool"
  sg_verify :: "'vk \<Rightarrow> string \<Rightarrow> string \<Rightarrow> bool"

text \<open>
  \<open>sg_sign k m\<close> is the base64 text of the signature, \<open>sg_decodes s\<close> says that the text decodes to
  64 signature bytes, \<open>sg_verify v m s\<close> that those bytes verify. What the libraries document: a
  signature made with a key decodes and verifies with the key's public half.
\<close>

definition signer_correct :: "('sk, 'vk) signer \<Rightarrow> bool" where
  "signer_correct sg \<longleftrightarrow>
     (\<forall>k m. sg_decodes sg (sg_sign sg k m) \<and> sg_verify sg (sg_public sg k) m (sg_sign sg k m))"

subsection \<open>Enumerations\<close>

datatype task_status = TCreated | TPlanned | TPolicyChecked | TApprovalPending | TApproved
  | TRunning | TPauseRequested | TPaused | TCancelRequested | TCancelling | TKillRequested
  | TKilled | TVerifying | TCompleted | TDenied | TFailed | TEvaluationFailed | TCompensating
  | TRolledBack | TNeedsHuman | TManualRecoveryRequired

datatype execution_status = Prepared | Running | Succeeded | Failed | TimedOut | Cancelled
  | Killed | Compensating | Compensated | CompensationFailed | Unknown

datatype risk_level = Low | Medium | High | Critical

datatype effect_class = Pure | Idempotent | Compensatable | Irreversible

datatype decision = Allow | Deny | RequireApproval | Pause | Kill

datatype enforcement_stage = PreApproval | PreExecution | Continuous

datatype data_classification = Public | Internal | Confidential | Restricted | Regulated

datatype evaluation_status = Pass | Fail | EvalNeedsHuman | EvalRolledBack
  | EvalManualRecoveryRequired

text \<open>\<open>RiskLevel\<close> and \<open>DataClassification\<close> derive \<open>Ord\<close>: the order of the constructors.\<close>

fun risk_rank :: "risk_level \<Rightarrow> nat" where
  "risk_rank Low = 0"
| "risk_rank Medium = 1"
| "risk_rank High = 2"
| "risk_rank Critical = 3"

fun class_rank :: "data_classification \<Rightarrow> nat" where
  "class_rank Public = 0"
| "class_rank Internal = 1"
| "class_rank Confidential = 2"
| "class_rank Restricted = 3"
| "class_rank Regulated = 4"

lemma risk_rank_inj: "risk_rank a = risk_rank b \<Longrightarrow> a = b"
  by (cases a; cases b) auto

lemma class_rank_inj: "class_rank a = class_rank b \<Longrightarrow> a = b"
  by (cases a; cases b) auto

instantiation risk_level :: linorder
begin

definition less_eq_risk_level :: "risk_level \<Rightarrow> risk_level \<Rightarrow> bool" where
  "a \<le> b \<longleftrightarrow> risk_rank a \<le> risk_rank b"

definition less_risk_level :: "risk_level \<Rightarrow> risk_level \<Rightarrow> bool" where
  "a < b \<longleftrightarrow> risk_rank a < risk_rank b"

instance
  by standard
    (auto simp: less_eq_risk_level_def less_risk_level_def dest: risk_rank_inj)

end

instantiation data_classification :: linorder
begin

definition less_eq_data_classification :: "data_classification \<Rightarrow> data_classification \<Rightarrow> bool" where
  "a \<le> b \<longleftrightarrow> class_rank a \<le> class_rank b"

definition less_data_classification :: "data_classification \<Rightarrow> data_classification \<Rightarrow> bool" where
  "a < b \<longleftrightarrow> class_rank a < class_rank b"

instance
  by standard
    (auto simp: less_eq_data_classification_def less_data_classification_def dest: class_rank_inj)

end

datatype contract_error = InvalidId string | UnknownVersion | VersionRequired | HashMismatch
  | CExpired | CRevoked | ScopeExceeded | FactUnavailable | Canonicalization | SignatureInvalid

definition CONTRACT_SCHEMA_VERSION :: string where
  "CONTRACT_SCHEMA_VERSION = ''agenttrust.contracts.v1''"

definition EXECUTION_AUTHORIZATION_SCHEMA_VERSION :: string where
  "EXECUTION_AUTHORIZATION_SCHEMA_VERSION = ''agenttrust.execution-authorization.v2''"

definition PEP_EXECUTION_AUTHORIZATION_KEY_USAGE :: string where
  "PEP_EXECUTION_AUTHORIZATION_KEY_USAGE = ''PEP_EXECUTION_AUTHORIZATION''"

subsection \<open>Identifier and digest checks\<close>

definition is_lower_hex_digest :: "string \<Rightarrow> bool" where
  "is_lower_hex_digest value \<longleftrightarrow> length value = 64 \<and>
     list_all (\<lambda>b. is_ascii_digit b \<or> byte_between CHR ''a'' CHR ''f'' b) value"

definition bounded_nonempty :: "string \<Rightarrow> nat \<Rightarrow> bool" where
  "bounded_nonempty value maximum \<longleftrightarrow> value \<noteq> [] \<and> length value \<le> maximum"

definition valid_idempotency_key :: "string \<Rightarrow> bool" where
  "valid_idempotency_key value \<longleftrightarrow> bounded_nonempty value 128 \<and>
     list_all (\<lambda>b. is_ascii_alphanumeric b \<or> b \<in> set ''._:-'') value"

definition valid_contract_identifier :: "string \<Rightarrow> nat \<Rightarrow> bool" where
  "valid_contract_identifier value maximum \<longleftrightarrow> bounded_nonempty value maximum \<and>
     list_all (\<lambda>b. is_ascii_alphanumeric b \<or> b \<in> set ''._:/-'') value"

definition valid_implementation_digest :: "string \<Rightarrow> bool" where
  "valid_implementation_digest value =
     (case strip_prefix ''sha256:'' value of None \<Rightarrow> False | Some d \<Rightarrow> is_lower_hex_digest d)"

lemma is_lower_hex_digest_replicate:
  "is_lower_hex_digest (replicate 64 CHR ''a'')"
  by (simp add: is_lower_hex_digest_def byte_defs less_eq_char_def list_all_iff)

subsection \<open>Tools, goals, plans\<close>

record tool_ref =
  tr_tool_id :: string
  tr_tool_version :: string

definition validate_exact :: "tool_ref \<Rightarrow> contract_error + unit" where
  "validate_exact t =
     (if tr_tool_version t = [] \<or> to_ascii_lowercase (tr_tool_version t) = ''latest''
         \<or> CHR ''*'' \<in> set (tr_tool_version t)
      then Err VersionRequired else Ok ())"

record signed_goal =
  sgo_schema_version :: string
  sgo_goal_id :: string
  sgo_normalized_goal :: string
  sgo_goal_hash :: string
  sgo_constraints :: "(string, string) btree"
  sgo_approved_by :: string
  sgo_signed_at :: datetime
  sgo_signer_key_id :: string
  sgo_signature :: string

record plan_step =
  ps_step_id :: string
  ps_sequence :: u32
  ps_intent :: string
  ps_dependencies :: "string list"
  ps_tool :: "tool_ref option"
  ps_resource_scope :: "string list"
  ps_risk :: risk_level

record plan_manifest =
  pm_schema_version :: string
  pm_plan_id :: string
  pm_goal_hash :: string
  pm_plan_hash :: string
  pm_steps :: "plan_step list"
  pm_max_scope :: "string list"
  pm_risk_budget :: risk_level
  pm_cost_budget_microunits :: u64
  pm_valid_until :: datetime

subsection \<open>Leases and delegation envelopes\<close>

record authorization_lease =
  al_schema_version :: string
  al_lease_id :: string
  al_task_id :: string
  al_goal_hash :: string
  al_plan_hash :: string
  al_policy_snapshot :: string
  al_allowed_tools :: "tool_ref set"
  al_allowed_resources :: "string set"
  al_revocation_epoch :: u64
  al_valid_until :: datetime

record delegation_envelope =
  de_schema_version :: string
  de_parent_agent :: string
  de_child_agent :: string
  de_delegated_tools :: "tool_ref set"
  de_delegated_resources :: "string set"
  de_budget_ceiling_microunits :: u64
  de_expiry :: datetime

definition is_within :: "delegation_envelope \<Rightarrow> authorization_lease \<Rightarrow> bool" where
  "is_within e parent \<longleftrightarrow>
     de_delegated_tools e \<subseteq> al_allowed_tools parent
     \<and> de_delegated_resources e \<subseteq> al_allowed_resources parent
     \<and> de_expiry e \<le> al_valid_until parent"

definition lease_verify ::
  "authorization_lease \<Rightarrow> string \<Rightarrow> string \<Rightarrow> tool_ref \<Rightarrow> string \<Rightarrow> u64 \<Rightarrow> datetime
   \<Rightarrow> contract_error + unit" where
  "lease_verify lease goal_hash plan_hash tool resource minimum_revocation_epoch now =
     (if al_schema_version lease \<noteq> CONTRACT_SCHEMA_VERSION then Err UnknownVersion
      else if al_goal_hash lease \<noteq> goal_hash \<or> al_plan_hash lease \<noteq> plan_hash then Err HashMismatch
      else if now \<ge> al_valid_until lease then Err CExpired
      else if al_revocation_epoch lease < minimum_revocation_epoch then Err CRevoked
      else if tool \<notin> al_allowed_tools lease \<or> resource \<notin> al_allowed_resources lease
        then Err ScopeExceeded
      else Ok ())"

subsection \<open>Obligations and decisions\<close>

datatype obligation =
    ObRequireApproval bool
  | UseSandboxProfile string
  | UseNetworkProfile string
  | UseFilesystemProfile string
  | UseCredentialProfile string
  | MaxExecutionTime u64
  | MaxResultBytes u64
  | RedactFields "string list"
  | RequireFreshResourceState
  | RequireResourceVersion
  | RequireSimulation
  | PauseTask
  | KillTask
  | EmitSecurityAlert string
  | SetRetryLimit u32
  | RequireEvaluator string

record policy_decision =
  pd_schema_version :: string
  pd_decision_id :: string
  pd_decision :: decision
  pd_reason_codes :: "string list"
  pd_policy_version :: string
  pd_policy_bundle_hash :: string
  pd_input_hash :: string
  pd_evaluated_at :: datetime
  pd_expires_at :: datetime
  pd_obligations :: "obligation list"
  pd_risk_summary :: risk_level

datatype policy_environment = EnvDev | EnvStaging | EnvCanary | EnvProduction

definition from_deployment :: "string \<Rightarrow> contract_error + policy_environment" where
  "from_deployment value =
     (if value \<in> {''DEV'', ''dev''} then Ok EnvDev
      else if value \<in> {''STAGING'', ''staging''} then Ok EnvStaging
      else if value \<in> {''CANARY'', ''canary''} then Ok EnvCanary
      else if value \<in> {''PRODUCTION'', ''production''} then Ok EnvProduction
      else Err ScopeExceeded)"

fun environment_as_str :: "policy_environment \<Rightarrow> string" where
  "environment_as_str EnvDev = ''DEV''"
| "environment_as_str EnvStaging = ''STAGING''"
| "environment_as_str EnvCanary = ''CANARY''"
| "environment_as_str EnvProduction = ''PRODUCTION''"

lemma from_deployment_as_str: "from_deployment (environment_as_str e) = Ok e"
  by (cases e) (simp_all add: from_deployment_def)

subsection \<open>Evaluation results and the task life cycle\<close>

record evaluation_result =
  ev_schema_version :: string
  ev_status :: evaluation_status
  ev_score_millionths :: u32
  ev_hard_gate_results :: "(string, bool) btree"
  ev_findings :: "string list"
  ev_evidence_refs :: "string list"
  ev_evaluator_id :: string
  ev_evaluator_version :: string
  ev_evaluated_at :: datetime

definition hard_gates_pass :: "evaluation_result \<Rightarrow> bool" where
  "hard_gates_pass e \<longleftrightarrow> ev_status e = Pass \<and> list_all id (bt_values (ev_hard_gate_results e))"

text \<open>The transitions that need no fact about the task, in the order of the \<open>match\<close>.\<close>

definition plain_transitions :: "(task_status \<times> task_status) set" where
  "plain_transitions =
     {(TCreated, TPlanned), (TPlanned, TPolicyChecked), (TPolicyChecked, TApprovalPending),
      (TPolicyChecked, TApproved), (TApprovalPending, TApproved), (TApproved, TRunning),
      (TRunning, TVerifying), (TRunning, TPauseRequested), (TPauseRequested, TPaused),
      (TPaused, TRunning), (TRunning, TCancelRequested), (TCancelRequested, TCancelling),
      (TRunning, TKillRequested), (TPaused, TKillRequested), (TKillRequested, TKilled)}"

definition escape_statuses :: "task_status set" where
  "escape_statuses = {TDenied, TNeedsHuman, TManualRecoveryRequired}"

definition guard_allows ::
  "task_status \<Rightarrow> task_status \<Rightarrow> evaluation_result option \<Rightarrow> bool \<Rightarrow> bool \<Rightarrow> bool" where
  "guard_allows from to evaluation has_side_effects compensation_verified =
     (if (from, to) \<in> plain_transitions \<or> to \<in> escape_statuses then True
      else if (from, to) = (TVerifying, TCompleted)
        then (case evaluation of None \<Rightarrow> False | Some e \<Rightarrow> hard_gates_pass e)
      else if (from, to) = (TRunning, TFailed) then \<not> has_side_effects
      else if (from, to) = (TRunning, TCompensating) \<or> (from, to) = (TFailed, TCompensating)
        then has_side_effects
      else if (from, to) = (TCompensating, TRolledBack) then compensation_verified
      else False)"

lemmas guard_defs = guard_allows_def plain_transitions_def escape_statuses_def

end
