(* ===== verification/Task_Lifecycle.thy ===== *)
theory Task_Lifecycle
  imports Contracts
begin

text \<open>
  The life cycle that \<open>StateTransitionGuard::allows\<close> (\<open>contracts/src/lib.rs\<close>) induces, as a step
  relation over \<^typ>\<open>task_status\<close>: which statuses a task has to pass, and which it cannot leave.
\<close>

inductive task_step :: "task_status \<Rightarrow> task_status \<Rightarrow> bool" where
  guarded: "guard_allows from to evaluation side_effects compensated \<Longrightarrow> task_step from to"

inductive_cases task_step_elim: "task_step from to"

lemma task_step_cases:
  "task_step s t \<longleftrightarrow> (s, t) \<in> plain_transitions \<or> t \<in> escape_statuses
     \<or> (s, t) \<in> {(TVerifying, TCompleted), (TRunning, TFailed), (TRunning, TCompensating),
                  (TFailed, TCompensating), (TCompensating, TRolledBack)}"
proof
  assume "task_step s t"
  then show "(s, t) \<in> plain_transitions \<or> t \<in> escape_statuses
     \<or> (s, t) \<in> {(TVerifying, TCompleted), (TRunning, TFailed), (TRunning, TCompensating),
                  (TFailed, TCompensating), (TCompensating, TRolledBack)}"
    by (elim task_step_elim) (auto simp: guard_allows_def split: if_splits)
next
  define e :: evaluation_result where
    "e = \<lparr>ev_schema_version = [], ev_status = Pass, ev_score_millionths = 0,
          ev_hard_gate_results = bt_empty, ev_findings = [], ev_evidence_refs = [],
          ev_evaluator_id = [], ev_evaluator_version = [], ev_evaluated_at = 0\<rparr>"
  have pass: "hard_gates_pass e"
    by (simp add: hard_gates_pass_def e_def bt_values_def bt_empty_def)
  assume "(s, t) \<in> plain_transitions \<or> t \<in> escape_statuses
     \<or> (s, t) \<in> {(TVerifying, TCompleted), (TRunning, TFailed), (TRunning, TCompensating),
                  (TFailed, TCompensating), (TCompensating, TRolledBack)}"
  then have "guard_allows s t (Some e) False True \<or> guard_allows s t (Some e) True True"
    using pass by (auto simp: guard_allows_def)
  then show "task_step s t"
    by (auto intro: task_step.guarded)
qed







subsection \<open>Statuses that are never left\<close>

definition halted_statuses :: "task_status set" where
  "halted_statuses = {TCancelling, TKilled, TCompleted, TDenied, TEvaluationFailed, TRolledBack,
     TNeedsHuman, TManualRecoveryRequired}"

lemma halted_step: "task_step s t \<Longrightarrow> s \<in> halted_statuses \<Longrightarrow> t \<in> escape_statuses"
  by (auto simp: task_step_cases halted_statuses_def plain_transitions_def)

lemma escape_halted: "escape_statuses \<subseteq> halted_statuses"
  by (auto simp: escape_statuses_def halted_statuses_def)

interpretation halted: kept_by_steps task_step "\<lambda>s. s \<in> halted_statuses"
  by unfold_locales (use halted_step escape_halted in blast)

lemma halted_steps:
  assumes "task_step\<^sup>*\<^sup>* s t" and "s \<in> halted_statuses"
  shows "t = s \<or> t \<in> escape_statuses"
  using assms(1)
proof (cases rule: rtranclp.cases)
  case rtrancl_refl
  then show ?thesis by simp
next
  case (rtrancl_into_rtrancl u)
  then have "u \<in> halted_statuses"
    using assms(2) by (blast intro: halted.steps_keep)
  with rtrancl_into_rtrancl show ?thesis
    using halted_step by blast
qed




text \<open>
  Once a task is cancelling, killed, completed, denied, rolled back or handed to an operator, no
  sequence of guarded transitions brings it back to any other status than the three escape
  statuses; in particular it never runs again.
\<close>

theorem halted_task_never_resumes:
  assumes "task_step\<^sup>*\<^sup>* s t" and "s \<in> halted_statuses"
  shows "(t = s \<or> t \<in> escape_statuses) \<and> t \<noteq> TRunning"
  using halted_steps [OF assms] assms(2)
  by (auto simp: halted_statuses_def escape_statuses_def)

theorem halted_task_never_resumes_witness:
  "(TNeedsHuman = TCancelling \<or> TNeedsHuman \<in> escape_statuses) \<and> TNeedsHuman \<noteq> TRunning"
proof (rule halted_task_never_resumes)
  show "task_step\<^sup>*\<^sup>* TCancelling TNeedsHuman"
    by (rule r_into_rtranclp) (simp add: task_step_cases escape_statuses_def)
  show "TCancelling \<in> halted_statuses"
    by (simp add: halted_statuses_def)
qed

end
