(* ===== verification/Ledger.thy ===== *)
theory Ledger
  imports Contracts
begin

text \<open>
  The transaction ledger (\<open>rust/crates/transaction-ledger/src/lib.rs\<close>): execution intents, the
  in-memory implementation of \<open>ExecutionLedger\<close> with its idempotency index, fencing tokens and
  outbox, and its snapshots. The compensation coordinator, the recovery scanner and the PostgreSQL
  implementation are in the theories that import this one.

  \<open>uuid\<close> is \<open>Uuid::parse_str\<close>, giving the canonical text of the identifier. What a call draws from
  the clock and from \<open>Uuid::new_v4\<close> is its \<open>ledger_env\<close>.
\<close>

subsection \<open>Data\<close>

definition LEDGER_SCHEMA_VERSION :: string where
  "LEDGER_SCHEMA_VERSION = ''agenttrust.ledger.v1''"

datatype ledger_error = IntentInvalid | IdempotencyConflict | CompensationRequired
  | CompensationPreconditionFailed | LedgerCompensationFailed | StaleFence | TransitionInvalid
  | LedgerNotFound | StoreFailure

record compensation_step =
  cs_step_id :: string
  cs_tool :: tool_ref
  cs_arguments_hash :: string
  cs_required_current_version :: "string option"
  cs_expected_current_value :: "json option"

record compensation_plan =
  cp_plan_id :: string
  cp_forward_action_hash :: string
  cp_steps :: "compensation_step list"
  cp_created_at :: datetime

record execution_intent =
  ei_schema_version :: string
  ei_tenant_id :: string
  ei_task_id :: string
  ei_step_id :: string
  ei_action_hash :: string
  ei_idempotency_key :: string
  ei_tool :: tool_ref
  ei_effect_class :: effect_class
  ei_resource_version :: "string option"
  ei_canonical_arguments_hash :: string
  ei_compensation_plan :: "compensation_plan option"
  ei_requested_at :: datetime

record execution_fence =
  ef_tenant_id :: string
  ef_execution_id :: string
  ef_token :: u64

record reservation =
  rs_execution_id :: string
  rs_fence :: execution_fence
  rs_existing :: bool
  rs_status :: execution_status

record manual_recovery_case =
  mr_case_id :: string
  mr_impact_scope :: string
  mr_last_known_state :: string
  mr_recommended_actions :: "string list"
  mr_evidence_refs :: "string list"
  mr_opened_at :: datetime

record execution_record =
  er_intent :: execution_intent
  er_execution_id :: string
  er_fence_token :: u64
  er_status :: execution_status
  er_attempt :: u32
  er_external_operation_id :: "string option"
  er_result_ref :: "string option"
  er_evidence_ref :: "string option"
  er_last_error_code :: "string option"
  er_created_at :: datetime
  er_updated_at :: datetime
  er_manual_recovery :: "manual_recovery_case option"

record outbox_event =
  oe_event_id :: string
  oe_execution_id :: string
  oe_event_type :: string
  oe_payload :: json
  oe_created_at :: datetime
  oe_published_at :: "datetime option"

record ledger_event_fact =
  lf_event_id :: string
  lf_event_ref :: string
  lf_event_digest :: string

record memory_state =
  ms_by_execution :: "(string, execution_record) btree"
  ms_by_idempotency :: "(string \<times> string, string) btree"
  ms_outbox :: "outbox_event list"

record in_memory_ledger = memory_state +
  ml_next_fence :: u64

definition ledger_default :: in_memory_ledger where
  "ledger_default = \<lparr>ms_by_execution = bt_empty, ms_by_idempotency = bt_empty, ms_outbox = [],
     ml_next_fence = 1\<rparr>"

record ledger_env =
  le_now :: datetime
  le_event_now :: datetime
  le_execution_id :: string
  le_event_id :: string
  le_case_id :: string
  le_opened_at :: datetime

subsection \<open>Reservation\<close>

definition validate_intent ::
  "(string \<Rightarrow> string option) \<Rightarrow> execution_intent \<Rightarrow> ledger_error + unit" where
  "validate_intent uuid intent =
     (if ei_schema_version intent \<noteq> LEDGER_SCHEMA_VERSION
         \<or> ei_idempotency_key intent = []
         \<or> length (ei_idempotency_key intent) > 128
         \<or> \<not> list_all (\<lambda>b. is_ascii_alphanumeric b \<or> b \<in> set '':-_.'') (ei_idempotency_key intent)
      then Err IntentInvalid
      else if list_ex (\<lambda>v. uuid v = None) [ei_tenant_id intent, ei_task_id intent, ei_step_id intent]
      then Err IntentInvalid
      else if ei_effect_class intent = Compensatable \<and> ei_compensation_plan intent = None
      then Err CompensationRequired
      else if ei_effect_class intent \<noteq> Pure \<and> ei_resource_version intent = None
      then Err IntentInvalid
      else Ok ())"

definition intent_key :: "execution_intent \<Rightarrow> string \<times> string" where
  "intent_key intent = (ei_tenant_id intent, ei_idempotency_key intent)"

definition existing_reservation :: "string \<Rightarrow> execution_record \<Rightarrow> reservation" where
  "existing_reservation execution_id existing =
     \<lparr>rs_execution_id = execution_id,
      rs_fence = \<lparr>ef_tenant_id = ei_tenant_id (er_intent existing),
                  ef_execution_id = execution_id, ef_token = er_fence_token existing\<rparr>,
      rs_existing = True, rs_status = er_status existing\<rparr>"

definition new_record :: "ledger_env \<Rightarrow> u64 \<Rightarrow> execution_intent \<Rightarrow> execution_record" where
  "new_record env fence_token intent =
     \<lparr>er_intent = intent, er_execution_id = le_execution_id env, er_fence_token = fence_token,
      er_status = Prepared, er_attempt = 0, er_external_operation_id = None,
      er_result_ref = None, er_evidence_ref = None, er_last_error_code = None,
      er_created_at = le_now env, er_updated_at = le_now env, er_manual_recovery = None\<rparr>"

definition reserved_event :: "ledger_env \<Rightarrow> outbox_event" where
  "reserved_event env =
     \<lparr>oe_event_id = le_event_id env, oe_execution_id = le_execution_id env,
      oe_event_type = ''EXECUTION_RESERVED'', oe_payload = JNull,
      oe_created_at = le_now env, oe_published_at = None\<rparr>"

definition reserve ::
  "(string \<Rightarrow> string option) \<Rightarrow> ledger_env \<Rightarrow> execution_intent \<Rightarrow> in_memory_ledger
   \<Rightarrow> (ledger_error + reservation) \<times> in_memory_ledger" where
  "reserve uuid env intent lg =
     (case validate_intent uuid intent of
        Inl e \<Rightarrow> (Err e, lg)
      | Inr _ \<Rightarrow>
        (case bt_get (ms_by_idempotency lg) (intent_key intent) of
           Some execution_id \<Rightarrow>
             (case bt_get (ms_by_execution lg) execution_id of
                None \<Rightarrow> (Err StoreFailure, lg)
              | Some existing \<Rightarrow>
                  if ei_action_hash (er_intent existing) \<noteq> ei_action_hash intent
                  then (Err IdempotencyConflict, lg)
                  else (Ok (existing_reservation execution_id existing), lg))
         | None \<Rightarrow>
             (Ok \<lparr>rs_execution_id = le_execution_id env,
                  rs_fence = \<lparr>ef_tenant_id = ei_tenant_id intent,
                              ef_execution_id = le_execution_id env,
                              ef_token = ml_next_fence lg\<rparr>,
                  rs_existing = False, rs_status = Prepared\<rparr>,
              lg\<lparr>ml_next_fence := ml_next_fence lg + 1,
                 ms_by_idempotency :=
                   bt_insert (intent_key intent) (le_execution_id env) (ms_by_idempotency lg),
                 ms_by_execution :=
                   bt_insert (le_execution_id env) (new_record env (ml_next_fence lg) intent)
                     (ms_by_execution lg),
                 ms_outbox := ms_outbox lg @ [reserved_event env]\<rparr>)))"

subsection \<open>Transitions\<close>

fun status_debug :: "execution_status \<Rightarrow> string" where
  "status_debug Prepared = ''Prepared''"
| "status_debug Running = ''Running''"
| "status_debug Succeeded = ''Succeeded''"
| "status_debug Failed = ''Failed''"
| "status_debug TimedOut = ''TimedOut''"
| "status_debug Cancelled = ''Cancelled''"
| "status_debug Killed = ''Killed''"
| "status_debug Compensating = ''Compensating''"
| "status_debug Compensated = ''Compensated''"
| "status_debug CompensationFailed = ''CompensationFailed''"
| "status_debug Unknown = ''Unknown''"

definition transition_event :: "ledger_env \<Rightarrow> string \<Rightarrow> execution_status \<Rightarrow> outbox_event" where
  "transition_event env execution_id next =
     \<lparr>oe_event_id = le_event_id env, oe_execution_id = execution_id,
      oe_event_type = ''EXECUTION_'' @ status_debug next,
      oe_payload = JObject [(''status'', JString (status_debug next))],
      oe_created_at = le_event_now env, oe_published_at = None\<rparr>"

definition transition ::
  "ledger_env \<Rightarrow> execution_fence \<Rightarrow> execution_status list \<Rightarrow> execution_status
   \<Rightarrow> (execution_record \<Rightarrow> execution_record) \<Rightarrow> in_memory_ledger
   \<Rightarrow> (ledger_error + unit) \<times> in_memory_ledger" where
  "transition env fence allowed next update lg =
     (case bt_get (ms_by_execution lg) (ef_execution_id fence) of
        None \<Rightarrow> (Err LedgerNotFound, lg)
      | Some record \<Rightarrow>
          if ei_tenant_id (er_intent record) \<noteq> ef_tenant_id fence
             \<or> er_fence_token record \<noteq> ef_token fence
          then (Err StaleFence, lg)
          else if er_status record \<notin> set allowed then (Err TransitionInvalid, lg)
          else
            (Ok (),
             lg\<lparr>ms_by_execution :=
                  bt_insert (ef_execution_id fence)
                    (update (record\<lparr>er_status := next, er_updated_at := le_now env\<rparr>))
                    (ms_by_execution lg),
                ms_outbox :=
                  ms_outbox lg @ [transition_event env (ef_execution_id fence) next]\<rparr>))"

definition mark_started ::
  "ledger_env \<Rightarrow> execution_fence \<Rightarrow> string option \<Rightarrow> in_memory_ledger
   \<Rightarrow> (ledger_error + unit) \<times> in_memory_ledger" where
  "mark_started env fence operation =
     transition env fence [Prepared] Running
       (\<lambda>r. r\<lparr>er_attempt := er_attempt r + 1, er_external_operation_id := operation\<rparr>)"

definition mark_succeeded ::
  "ledger_env \<Rightarrow> execution_fence \<Rightarrow> string \<Rightarrow> string \<Rightarrow> in_memory_ledger
   \<Rightarrow> (ledger_error + unit) \<times> in_memory_ledger" where
  "mark_succeeded env fence result evidence =
     transition env fence [Running, Unknown] Succeeded
       (\<lambda>r. r\<lparr>er_result_ref := Some result, er_evidence_ref := Some evidence\<rparr>)"

definition mark_failed ::
  "ledger_env \<Rightarrow> execution_fence \<Rightarrow> string \<Rightarrow> in_memory_ledger
   \<Rightarrow> (ledger_error + unit) \<times> in_memory_ledger" where
  "mark_failed env fence error =
     transition env fence [Prepared, Running] Failed (\<lambda>r. r\<lparr>er_last_error_code := Some error\<rparr>)"

definition mark_unknown ::
  "ledger_env \<Rightarrow> execution_fence \<Rightarrow> string \<Rightarrow> in_memory_ledger
   \<Rightarrow> (ledger_error + unit) \<times> in_memory_ledger" where
  "mark_unknown env fence error =
     transition env fence [Running] Unknown (\<lambda>r. r\<lparr>er_last_error_code := Some error\<rparr>)"

definition mark_manual_recovery ::
  "ledger_env \<Rightarrow> execution_fence \<Rightarrow> manual_recovery_case \<Rightarrow> in_memory_ledger
   \<Rightarrow> (ledger_error + unit) \<times> in_memory_ledger" where
  "mark_manual_recovery env fence recovery =
     transition env fence [Running, Unknown, CompensationFailed] Unknown
       (\<lambda>r. r\<lparr>er_manual_recovery := Some recovery\<rparr>)"

subsection \<open>Queries\<close>

definition ledger_get ::
  "in_memory_ledger \<Rightarrow> string \<Rightarrow> string \<Rightarrow> ledger_error + execution_record" where
  "ledger_get lg tenant_id execution_id =
     (case bt_get (ms_by_execution lg) execution_id of
        None \<Rightarrow> Err LedgerNotFound
      | Some record \<Rightarrow>
          if ei_tenant_id (er_intent record) \<noteq> tenant_id then Err LedgerNotFound else Ok record)"

record ledger_event_digest_material =
  dm_schema_version :: string
  dm_tenant_id :: string
  dm_event_id :: string
  dm_execution_id :: string
  dm_event_type :: string
  dm_payload :: json
  dm_created_at :: datetime

definition ledger_event_fact ::
  "(string \<Rightarrow> string option) \<Rightarrow> (ledger_event_digest_material \<Rightarrow> string option) \<Rightarrow> (string \<Rightarrow> string)
   \<Rightarrow> string \<Rightarrow> outbox_event \<Rightarrow> ledger_error + ledger_event_fact" where
  "ledger_event_fact uuid jcs sha256_hex tenant_id event =
     (case uuid (oe_event_id event) of
        None \<Rightarrow> Err StoreFailure
      | Some event_id \<Rightarrow>
          if event_id \<noteq> oe_event_id event then Err StoreFailure
          else
            (case jcs \<lparr>dm_schema_version = ''agenttrust.ledger-event-fact.v1'',
                       dm_tenant_id = tenant_id, dm_event_id = oe_event_id event,
                       dm_execution_id = oe_execution_id event,
                       dm_event_type = oe_event_type event, dm_payload = oe_payload event,
                       dm_created_at = oe_created_at event\<rparr> of
               None \<Rightarrow> Err StoreFailure
             | Some canonical \<Rightarrow>
                 Ok \<lparr>lf_event_id = oe_event_id event,
                     lf_event_ref = ''ledger-event:'' @ oe_event_id event,
                     lf_event_digest = sha256_hex canonical\<rparr>))"

definition status_event_fact ::
  "(string \<Rightarrow> string option) \<Rightarrow> (ledger_event_digest_material \<Rightarrow> string option) \<Rightarrow> (string \<Rightarrow> string)
   \<Rightarrow> in_memory_ledger \<Rightarrow> string \<Rightarrow> string \<Rightarrow> ledger_error + ledger_event_fact" where
  "status_event_fact uuid jcs sha256_hex lg tenant_id execution_id =
     (case bt_get (ms_by_execution lg) execution_id of
        None \<Rightarrow> Err LedgerNotFound
      | Some record \<Rightarrow>
          if ei_tenant_id (er_intent record) \<noteq> tenant_id then Err LedgerNotFound
          else
            (case find (\<lambda>e. oe_execution_id e = execution_id) (rev (ms_outbox lg)) of
               None \<Rightarrow> Err LedgerNotFound
             | Some event \<Rightarrow> ledger_event_fact uuid jcs sha256_hex tenant_id event))"

definition stale_non_terminal ::
  "in_memory_ledger \<Rightarrow> string \<Rightarrow> datetime \<Rightarrow> ledger_error + execution_record list" where
  "stale_non_terminal lg tenant_id before =
     Ok (filter (\<lambda>r. ei_tenant_id (er_intent r) = tenant_id \<and> er_updated_at r \<le> before
                     \<and> er_status r \<in> {Running, Unknown})
           (bt_values (ms_by_execution lg)))"

subsection \<open>Snapshots\<close>

type_synonym ledger_image = "(string, execution_record) btree \<times> outbox_event list"

definition snapshot :: "(ledger_image \<Rightarrow> string option) \<Rightarrow> in_memory_ledger \<Rightarrow> ledger_error + string" where
  "snapshot to_vec lg =
     (case to_vec (ms_by_execution lg, ms_outbox lg) of
        None \<Rightarrow> Err StoreFailure | Some bytes \<Rightarrow> Ok bytes)"

definition restored_index :: "(string, execution_record) btree \<Rightarrow> (string \<times> string, string) btree" where
  "restored_index by_execution =
     fold (\<lambda>(i, r) m. bt_insert (intent_key (er_intent r)) i m) by_execution bt_empty"

definition restored_max_fence :: "(string, execution_record) btree \<Rightarrow> u64" where
  "restored_max_fence by_execution = fold (\<lambda>(i, r) m. max m (er_fence_token r)) by_execution 0"

definition from_snapshot ::
  "(string \<Rightarrow> ledger_image option) \<Rightarrow> string \<Rightarrow> ledger_error + in_memory_ledger" where
  "from_snapshot from_slice bytes =
     (case from_slice bytes of
        None \<Rightarrow> Err StoreFailure
      | Some (by_execution, outbox) \<Rightarrow>
          Ok \<lparr>ms_by_execution = by_execution,
              ms_by_idempotency = restored_index by_execution,
              ms_outbox = outbox,
              ml_next_fence = restored_max_fence by_execution + 1\<rparr>)"

lemmas mark_defs = mark_started_def mark_succeeded_def mark_failed_def mark_unknown_def
  mark_manual_recovery_def

end
