(* ===== verification/Ledger_Invariant.thy ===== *)
theory Ledger_Invariant
  imports Ledger
begin

text \<open>
  The in-memory ledger as a state machine: any interleaving of the calls of \<open>ExecutionLedger\<close>
  (each runs under the lock of \<open>InMemoryExecutionLedger::state\<close>), its invariant, and what holds
  along every run. Identifiers drawn for a new execution are fresh (\<open>Uuid::new_v4\<close>) and the fence
  counter has not reached the end of \<open>u64\<close>; both are the guard of a step.
\<close>

subsection \<open>Calls and steps\<close>

datatype ledger_call =
    Reserve execution_intent
  | MarkStarted execution_fence "string option"
  | MarkSucceeded execution_fence string string
  | MarkFailed execution_fence string
  | MarkUnknown execution_fence string
  | MarkManualRecovery execution_fence manual_recovery_case

fun ledger_apply ::
  "(string \<Rightarrow> string option) \<Rightarrow> ledger_env \<Rightarrow> ledger_call \<Rightarrow> in_memory_ledger \<Rightarrow> in_memory_ledger" where
  "ledger_apply uuid env (Reserve intent) lg = snd (reserve uuid env intent lg)"
| "ledger_apply uuid env (MarkStarted fence op) lg = snd (mark_started env fence op lg)"
| "ledger_apply uuid env (MarkSucceeded fence result evidence) lg =
     snd (mark_succeeded env fence result evidence lg)"
| "ledger_apply uuid env (MarkFailed fence error) lg = snd (mark_failed env fence error lg)"
| "ledger_apply uuid env (MarkUnknown fence error) lg = snd (mark_unknown env fence error lg)"
| "ledger_apply uuid env (MarkManualRecovery fence recovery) lg =
     snd (mark_manual_recovery env fence recovery lg)"

inductive ledger_step ::
  "(string \<Rightarrow> string option) \<Rightarrow> in_memory_ledger \<Rightarrow> in_memory_ledger \<Rightarrow> bool"
  for uuid :: "string \<Rightarrow> string option" where
  called: "bt_get (ms_by_execution lg) (le_execution_id env) = None
     \<Longrightarrow> ml_next_fence lg \<noteq> - 1
     \<Longrightarrow> ledger_step uuid lg (ledger_apply uuid env call lg)"

inductive_cases ledger_step_elim: "ledger_step uuid lg lg'"

abbreviation ledger_run :: "(string \<Rightarrow> string option) \<Rightarrow> in_memory_ledger \<Rightarrow> bool" where
  "ledger_run uuid \<equiv> reach (\<lambda>lg. lg = ledger_default) (ledger_step uuid)"

text \<open>What a transition leaves behind: the ledger as it was, or one rewritten record.\<close>

definition rewritten ::
  "ledger_env \<Rightarrow> string \<Rightarrow> execution_status \<Rightarrow> execution_record \<Rightarrow> in_memory_ledger \<Rightarrow> in_memory_ledger" where
  "rewritten env e next r lg =
     lg\<lparr>ms_by_execution := bt_insert e r (ms_by_execution lg),
        ms_outbox := ms_outbox lg @ [transition_event env e next]\<rparr>"

lemma rewritten_sel [simp]:
  "ms_by_execution (rewritten env e next r lg) = bt_insert e r (ms_by_execution lg)"
  "ms_by_idempotency (rewritten env e next r lg) = ms_by_idempotency lg"
  "ms_outbox (rewritten env e next r lg) = ms_outbox lg @ [transition_event env e next]"
  "ml_next_fence (rewritten env e next r lg) = ml_next_fence lg"
  by (simp_all add: rewritten_def)

definition holds_fence :: "execution_fence \<Rightarrow> execution_record \<Rightarrow> bool" where
  "holds_fence fence r \<longleftrightarrow>
     ei_tenant_id (er_intent r) = ef_tenant_id fence \<and> er_fence_token r = ef_token fence"

text \<open>The five transitions as one: the fence presented, the statuses allowed and the new record.\<close>

definition next_of_call :: "ledger_env \<Rightarrow> ledger_call \<Rightarrow> execution_record \<Rightarrow> execution_record option" where
  "next_of_call env call r =
     (case call of
        Reserve _ \<Rightarrow> None
      | MarkStarted _ op \<Rightarrow>
          if er_status r = Prepared
          then Some (r\<lparr>er_status := Running, er_updated_at := le_now env,
                        er_attempt := er_attempt r + 1, er_external_operation_id := op\<rparr>)
          else None
      | MarkSucceeded _ result evidence \<Rightarrow>
          if er_status r \<in> {Running, Unknown}
          then Some (r\<lparr>er_status := Succeeded, er_updated_at := le_now env,
                        er_result_ref := Some result, er_evidence_ref := Some evidence\<rparr>)
          else None
      | MarkFailed _ error \<Rightarrow>
          if er_status r \<in> {Prepared, Running}
          then Some (r\<lparr>er_status := Failed, er_updated_at := le_now env,
                        er_last_error_code := Some error\<rparr>)
          else None
      | MarkUnknown _ error \<Rightarrow>
          if er_status r = Running
          then Some (r\<lparr>er_status := Unknown, er_updated_at := le_now env,
                        er_last_error_code := Some error\<rparr>)
          else None
      | MarkManualRecovery _ recovery \<Rightarrow>
          if er_status r \<in> {Running, Unknown, CompensationFailed}
          then Some (r\<lparr>er_status := Unknown, er_updated_at := le_now env,
                        er_manual_recovery := Some recovery\<rparr>)
          else None)"

fun call_fence :: "ledger_call \<Rightarrow> execution_fence option" where
  "call_fence (Reserve _) = None"
| "call_fence (MarkStarted fence _) = Some fence"
| "call_fence (MarkSucceeded fence _ _) = Some fence"
| "call_fence (MarkFailed fence _) = Some fence"
| "call_fence (MarkUnknown fence _) = Some fence"
| "call_fence (MarkManualRecovery fence _) = Some fence"

lemma ledger_apply_mark:
  assumes "call_fence call = Some fence"
  shows "ledger_apply uuid env call lg =
    (case bt_get (ms_by_execution lg) (ef_execution_id fence) of
       None \<Rightarrow> lg
     | Some r \<Rightarrow>
         if holds_fence fence r then
           (case next_of_call env call r of
              None \<Rightarrow> lg
            | Some r' \<Rightarrow> rewritten env (ef_execution_id fence) (er_status r') r' lg)
         else lg)"
  using assms
  by (cases call)
    (auto simp: mark_defs transition_def next_of_call_def rewritten_def holds_fence_def
      split: option.splits)

definition extended :: "ledger_env \<Rightarrow> execution_intent \<Rightarrow> in_memory_ledger \<Rightarrow> in_memory_ledger" where
  "extended env intent lg =
     lg\<lparr>ml_next_fence := ml_next_fence lg + 1,
        ms_by_idempotency :=
          bt_insert (intent_key intent) (le_execution_id env) (ms_by_idempotency lg),
        ms_by_execution :=
          bt_insert (le_execution_id env) (new_record env (ml_next_fence lg) intent)
            (ms_by_execution lg),
        ms_outbox := ms_outbox lg @ [reserved_event env]\<rparr>"

lemma extended_sel [simp]:
  "ms_by_execution (extended env intent lg) =
     bt_insert (le_execution_id env) (new_record env (ml_next_fence lg) intent) (ms_by_execution lg)"
  "ms_by_idempotency (extended env intent lg) =
     bt_insert (intent_key intent) (le_execution_id env) (ms_by_idempotency lg)"
  "ms_outbox (extended env intent lg) = ms_outbox lg @ [reserved_event env]"
  "ml_next_fence (extended env intent lg) = ml_next_fence lg + 1"
  by (simp_all add: extended_def)

lemma reserve_state:
  "snd (reserve uuid env intent lg) =
     (if validate_intent uuid intent = Ok () \<and> bt_get (ms_by_idempotency lg) (intent_key intent) = None
      then extended env intent lg else lg)"
  by (auto simp: reserve_def extended_def split: sum.splits option.splits)

text \<open>A step leaves the ledger alone, adds one execution, or rewrites the record a fence names.\<close>

lemma ledger_apply_cases:
  obtains (same) "ledger_apply uuid env call lg = lg"
  | (added) intent where "call = Reserve intent" "validate_intent uuid intent = Ok ()"
      "bt_get (ms_by_idempotency lg) (intent_key intent) = None"
      "ledger_apply uuid env call lg = extended env intent lg"
  | (rewrote) fence r r' where "call_fence call = Some fence"
      "bt_get (ms_by_execution lg) (ef_execution_id fence) = Some r"
      "holds_fence fence r" "next_of_call env call r = Some r'"
      "ledger_apply uuid env call lg =
         rewritten env (ef_execution_id fence) (er_status r') r' lg"
proof (cases "call_fence call")
  case None
  then obtain intent where "call = Reserve intent" by (cases call) auto
  then show ?thesis
    using reserve_state [of uuid env intent lg] that(1, 2) by (auto split: if_splits)
next
  case (Some fence)
  then show ?thesis
    using ledger_apply_mark [OF Some, of uuid env lg] that(1, 3)
    by (auto split: option.splits if_splits)
qed

text \<open>A rewritten record keeps what it was reserved with.\<close>

lemma next_of_call_keeps:
  assumes "next_of_call env call r = Some r'"
  shows "er_intent r' = er_intent r" "er_execution_id r' = er_execution_id r"
    "er_fence_token r' = er_fence_token r"
  using assms by (auto simp: next_of_call_def split: ledger_call.splits if_splits)

lemma next_of_call_live:
  assumes "next_of_call env call r = Some r'"
  shows "er_status r \<notin> {Succeeded, Failed}" "er_status r' \<noteq> Prepared"
  using assms by (auto simp: next_of_call_def split: ledger_call.splits if_splits)

subsection \<open>The invariant\<close>

text \<open>The index names, for every tenant and key, the one execution reserved under it.\<close>

definition index_ok :: "in_memory_ledger \<Rightarrow> bool" where
  "index_ok lg \<longleftrightarrow> bt_ok (ms_by_execution lg) \<and> bt_ok (ms_by_idempotency lg) \<and>
     (\<forall>k e. bt_get (ms_by_idempotency lg) k = Some e \<longleftrightarrow>
            (\<exists>r. bt_get (ms_by_execution lg) e = Some r \<and> intent_key (er_intent r) = k))"

text \<open>Fences are handed out once each, below the counter, and the last one handed out is kept.\<close>

definition fences_ok :: "in_memory_ledger \<Rightarrow> bool" where
  "fences_ok lg \<longleftrightarrow> 0 < ml_next_fence lg \<and>
     (\<forall>e r. bt_get (ms_by_execution lg) e = Some r \<longrightarrow>
        er_execution_id r = e \<and> 0 < er_fence_token r \<and> er_fence_token r < ml_next_fence lg) \<and>
     (\<forall>e e' r r'. bt_get (ms_by_execution lg) e = Some r \<longrightarrow>
        bt_get (ms_by_execution lg) e' = Some r' \<longrightarrow> er_fence_token r = er_fence_token r' \<longrightarrow> e = e') \<and>
     (ml_next_fence lg = 1 \<or>
      (\<exists>e r. bt_get (ms_by_execution lg) e = Some r \<and> er_fence_token r + 1 = ml_next_fence lg))"

text \<open>What a record of each status carries.\<close>

definition record_ok :: "execution_record \<Rightarrow> bool" where
  "record_ok r \<longleftrightarrow>
     (case er_status r of
        Prepared \<Rightarrow> er_attempt r = 0 \<and> er_external_operation_id r = None \<and> er_result_ref r = None
                    \<and> er_evidence_ref r = None \<and> er_manual_recovery r = None
      | Running \<Rightarrow> er_attempt r = 1 \<and> er_result_ref r = None \<and> er_evidence_ref r = None
                    \<and> er_manual_recovery r = None
      | Unknown \<Rightarrow> er_attempt r = 1 \<and> er_result_ref r = None \<and> er_evidence_ref r = None
                    \<and> (er_last_error_code r \<noteq> None \<or> er_manual_recovery r \<noteq> None)
      | Succeeded \<Rightarrow> er_attempt r = 1 \<and> er_result_ref r \<noteq> None \<and> er_evidence_ref r \<noteq> None
      | Failed \<Rightarrow> er_attempt r \<le> 1 \<and> er_result_ref r = None \<and> er_evidence_ref r = None
                    \<and> er_last_error_code r \<noteq> None
      | _ \<Rightarrow> False)"

definition records_ok :: "in_memory_ledger \<Rightarrow> bool" where
  "records_ok lg \<longleftrightarrow>
     (\<forall>e r. bt_get (ms_by_execution lg) e = Some r \<longrightarrow> record_ok r)"

text \<open>The latest outbox event of an execution names the status its record has.\<close>

definition status_event_type :: "execution_status \<Rightarrow> string" where
  "status_event_type s =
     (if s = Prepared then ''EXECUTION_RESERVED'' else ''EXECUTION_'' @ status_debug s)"

definition latest_event :: "in_memory_ledger \<Rightarrow> string \<Rightarrow> outbox_event option" where
  "latest_event lg e = find (\<lambda>x. oe_execution_id x = e) (rev (ms_outbox lg))"

definition outbox_ok :: "in_memory_ledger \<Rightarrow> bool" where
  "outbox_ok lg \<longleftrightarrow>
     (\<forall>e r. bt_get (ms_by_execution lg) e = Some r \<longrightarrow>
        map_option oe_event_type (latest_event lg e) = Some (status_event_type (er_status r)))"

definition ledger_ok :: "in_memory_ledger \<Rightarrow> bool" where
  "ledger_ok lg \<longleftrightarrow> index_ok lg \<and> fences_ok lg \<and> records_ok lg \<and> outbox_ok lg"

lemma index_ok_extended:
  assumes "index_ok lg" "bt_get (ms_by_execution lg) (le_execution_id env) = None"
    "bt_get (ms_by_idempotency lg) (intent_key intent) = None"
  shows "index_ok (extended env intent lg)"
  using assms
  by (auto simp: index_ok_def bt.get_put new_record_def split: if_splits) (metis option.distinct(1))+

lemma index_ok_rewritten:
  assumes "index_ok lg" "bt_get (ms_by_execution lg) e = Some r" "er_intent r' = er_intent r"
  shows "index_ok (rewritten env e s r' lg)"
  using assms by (auto simp: index_ok_def bt.get_put split: if_splits)

lemma fences_ok_extended:
  assumes ok: "fences_ok lg" and room: "ml_next_fence lg \<noteq> - 1"
  shows "fences_ok (extended env intent lg)"
proof -
  have bump: "unat (ml_next_fence lg + 1) = Suc (unat (ml_next_fence lg))"
    using room by (intro unat_plus_one [of _ "- 1"]) (simp add: word_order.not_eq_extremum)
  have top: "ml_next_fence lg < ml_next_fence lg + 1" "0 < ml_next_fence lg + 1"
    using bump by (simp_all add: word_less_nat_alt)
  note up = order.strict_trans [OF _ top(1)]
  have old: "\<forall>e r. bt_get (ms_by_execution lg) e = Some r \<longrightarrow> er_fence_token r \<noteq> ml_next_fence lg"
    using ok by (metis fences_ok_def order_less_irrefl)
  have last: "bt_get (ms_by_execution (extended env intent lg)) (le_execution_id env) =
      Some (new_record env (ml_next_fence lg) intent)"
    and token: "er_fence_token (new_record env (ml_next_fence lg) intent) + 1 =
      ml_next_fence (extended env intent lg)"
    by (simp_all add: new_record_def)
  have fresh: "er_fence_token r \<noteq> ml_next_fence lg" "ml_next_fence lg \<noteq> er_fence_token r"
    if "bt_get (ms_by_execution lg) e = Some r" for e r
    using that old by metis+
  show ?thesis
    unfolding fences_ok_def
  proof (intro conjI)
    show "\<forall>e e' r r'. bt_get (ms_by_execution (extended env intent lg)) e = Some r \<longrightarrow>
        bt_get (ms_by_execution (extended env intent lg)) e' = Some r' \<longrightarrow>
        er_fence_token r = er_fence_token r' \<longrightarrow> e = e'"
      using ok fresh
      by (simp add: fences_ok_def bt.get_put new_record_def)
    show "ml_next_fence (extended env intent lg) = 1 \<or>
      (\<exists>e r. bt_get (ms_by_execution (extended env intent lg)) e = Some r \<and>
             er_fence_token r + 1 = ml_next_fence (extended env intent lg))"
      using last token by blast
  qed (use ok top up in
      \<open>auto simp: fences_ok_def bt.get_put new_record_def split: if_splits\<close>)
qed

lemma fences_ok_rewritten:
  assumes ok: "fences_ok lg" and r: "bt_get (ms_by_execution lg) e = Some r"
    and same: "er_execution_id r' = er_execution_id r" "er_fence_token r' = er_fence_token r"
  shows "fences_ok (rewritten env e s r' lg)"
proof -
  have "ml_next_fence lg = 1 \<or>
    (\<exists>e' q. bt_get (bt_insert e r' (ms_by_execution lg)) e' = Some q \<and>
            er_fence_token q + 1 = ml_next_fence lg)"
    using ok r same(2) by (metis bt.get_put fences_ok_def option.inject)
  then show ?thesis
    using ok r same by (auto simp: fences_ok_def bt.get_put split: if_splits)
qed

lemma record_ok_next:
  assumes "record_ok r" "next_of_call env call r = Some r'"
  shows "record_ok r'"
  using assms
  by (auto simp: next_of_call_def record_ok_def split: ledger_call.splits if_splits)

lemma records_ok_extended: "records_ok lg \<Longrightarrow> records_ok (extended env intent lg)"
  by (auto simp: records_ok_def bt.get_put new_record_def record_ok_def split: if_splits)

lemma records_ok_rewritten:
  "records_ok lg \<Longrightarrow> record_ok r' \<Longrightarrow> records_ok (rewritten env e s r' lg)"
  by (auto simp: records_ok_def bt.get_put split: if_splits)

lemma outbox_ok_extended:
  "outbox_ok lg \<Longrightarrow> outbox_ok (extended env intent lg)"
  by (auto simp: outbox_ok_def latest_event_def bt.get_put new_record_def reserved_event_def
      status_event_type_def split: if_splits)

lemma outbox_ok_rewritten:
  "outbox_ok lg \<Longrightarrow> er_status r' \<noteq> Prepared \<Longrightarrow> outbox_ok (rewritten env e (er_status r') r' lg)"
  by (auto simp: outbox_ok_def latest_event_def bt.get_put transition_event_def
      status_event_type_def split: if_splits)

lemma ledger_ok_default: "ledger_ok ledger_default"
  by (simp add: ledger_ok_def ledger_default_def index_ok_def fences_ok_def records_ok_def
      outbox_ok_def)

lemma ledger_ok_step: "ledger_step uuid lg lg' \<Longrightarrow> ledger_ok lg \<Longrightarrow> ledger_ok lg'"
proof (elim ledger_step_elim)
  fix env call
  assume ok: "ledger_ok lg" and lg': "lg' = ledger_apply uuid env call lg"
    and fresh: "bt_get (ms_by_execution lg) (le_execution_id env) = None"
    and room: "ml_next_fence lg \<noteq> - 1"
  show "ledger_ok lg'"
  proof (cases rule: ledger_apply_cases [of uuid env call lg])
    case same
    then show ?thesis using ok lg' by simp
  next
    case (added intent)
    then show ?thesis
      using ok lg' fresh room
      by (simp add: ledger_ok_def index_ok_extended fences_ok_extended records_ok_extended
          outbox_ok_extended)
  next
    case (rewrote fence r r')
    have "record_ok r'"
      using ok rewrote(2) record_ok_next [OF _ rewrote(4)] by (auto simp: ledger_ok_def records_ok_def)
    then show ?thesis
      using ok lg' rewrote next_of_call_keeps [OF rewrote(4)] next_of_call_live [OF rewrote(4)]
      by (simp add: ledger_ok_def index_ok_rewritten fences_ok_rewritten records_ok_rewritten
          outbox_ok_rewritten)
  qed
qed

interpretation ledger_machine: invariant_system "ledger_step uuid" ledger_ok
  "\<lambda>lg. lg = ledger_default" for uuid
  by unfold_locales (auto intro: ledger_ok_step ledger_ok_default)

subsection \<open>What no step undoes\<close>

text \<open>
  An execution keeps its intent and its fence for ever, and its whole record once it has
  succeeded or failed.
\<close>

definition settled_as :: "string \<Rightarrow> execution_record \<Rightarrow> in_memory_ledger \<Rightarrow> bool" where
  "settled_as e r lg \<longleftrightarrow> bt_get (ms_by_execution lg) e = Some r \<and> er_status r \<in> {Succeeded, Failed}"

definition reserved_as :: "string \<Rightarrow> execution_intent \<Rightarrow> u64 \<Rightarrow> in_memory_ledger \<Rightarrow> bool" where
  "reserved_as e intent token lg \<longleftrightarrow> ledger_ok lg \<and>
     (\<exists>r. bt_get (ms_by_execution lg) e = Some r \<and> er_intent r = intent \<and> er_fence_token r = token)"

lemma settled_as_step: "ledger_step uuid lg lg' \<Longrightarrow> settled_as e r lg \<Longrightarrow> settled_as e r lg'"
proof (elim ledger_step_elim)
  fix env call
  assume settled: "settled_as e r lg" and lg': "lg' = ledger_apply uuid env call lg"
    and fresh: "bt_get (ms_by_execution lg) (le_execution_id env) = None"
  then show "settled_as e r lg'"
    using next_of_call_live(1)
    by (cases rule: ledger_apply_cases [of uuid env call lg])
      (auto simp: settled_as_def bt.get_put)
qed

lemma reserved_as_step:
  "ledger_step uuid lg lg' \<Longrightarrow> reserved_as e i t lg \<Longrightarrow> reserved_as e i t lg'"
proof -
  assume step: "ledger_step uuid lg lg'" and reserved: "reserved_as e i t lg"
  from step reserved have "ledger_ok lg'"
    by (auto simp: reserved_as_def intro: ledger_ok_step)
  moreover from step reserved
  have "\<exists>r. bt_get (ms_by_execution lg') e = Some r \<and> er_intent r = i \<and> er_fence_token r = t"
  proof (elim ledger_step_elim)
    fix env call
    assume lg': "lg' = ledger_apply uuid env call lg"
      and "bt_get (ms_by_execution lg) (le_execution_id env) = None"
    then show ?thesis
      using reserved next_of_call_keeps(1) next_of_call_keeps(3)
      by (cases rule: ledger_apply_cases [of uuid env call lg])
        (auto simp: reserved_as_def bt.get_put)
  qed
  ultimately show ?thesis by (simp add: reserved_as_def)
qed

interpretation settled: kept_by_steps "ledger_step uuid" "settled_as e r" for uuid e r
  by unfold_locales (rule settled_as_step)

interpretation reserved: kept_by_steps "ledger_step uuid" "reserved_as e i t" for uuid e i t
  by unfold_locales (rule reserved_as_step)

subsection \<open>Restoring a snapshot\<close>

lemma bt_get_fold_insert_other:
  "\<forall>(i, r) \<in> set xs. f r \<noteq> k \<Longrightarrow>
   bt_get (fold (\<lambda>(i, r) m. bt_insert (f r) i m) xs m) k = bt_get m k"
  by (induction xs arbitrary: m) (auto simp: bt.get_put)

lemma bt_get_fold_insert:
  assumes "\<exists>r. (i, r) \<in> set xs \<and> f r = k" "\<forall>(j, q) \<in> set xs. f q = k \<longrightarrow> j = i"
  shows "bt_get (fold (\<lambda>(i, r) m. bt_insert (f r) i m) xs m) k = Some i"
  using assms
proof (induction xs arbitrary: m)
  case (Cons x xs)
  show ?case
  proof (cases "\<exists>r. (i, r) \<in> set xs \<and> f r = k")
    case True
    then show ?thesis
      using Cons.IH [OF True] Cons.prems(2) by (cases x) simp
  next
    case False
    then have none: "\<forall>(i, r) \<in> set xs. f r \<noteq> k"
      using Cons.prems(2) by fastforce
    from False Cons.prems(1) obtain r where "x = (i, r)" "f r = k" by auto
    then show ?thesis
      using bt_get_fold_insert_other [OF none] by simp
  qed
qed simp

lemma bt_ok_fold_insert: "bt_ok m \<Longrightarrow> bt_ok (fold (\<lambda>(i, r) m. bt_insert (f r) i m) xs m)"
  by (induction xs arbitrary: m) (auto split: prod.splits)

lemma restored_index_eq:
  assumes "index_ok lg"
  shows "restored_index (ms_by_execution lg) = ms_by_idempotency lg"
proof (rule bt_ext)
  have ok: "bt_ok (ms_by_execution lg)"
    and index: "\<And>k e. bt_get (ms_by_idempotency lg) k = Some e \<longleftrightarrow>
          (\<exists>r. (e, r) \<in> set (ms_by_execution lg) \<and> intent_key (er_intent r) = k)"
    using assms by (auto simp: index_ok_def in_set_bt_iff)
  show "bt_get (restored_index (ms_by_execution lg)) = bt_get (ms_by_idempotency lg)"
  proof
    fix k
    show "bt_get (restored_index (ms_by_execution lg)) k = bt_get (ms_by_idempotency lg) k"
    proof (cases "bt_get (ms_by_idempotency lg) k")
      case None
      then have "bt_get (restored_index (ms_by_execution lg)) k = bt_get bt_empty k"
        unfolding restored_index_def
        using index [of k]
        by (intro bt_get_fold_insert_other [where f = "\<lambda>r. intent_key (er_intent r)"]) auto
      then show ?thesis using None by simp
    next
      case (Some e)
      then have only: "\<And>j q. (j, q) \<in> set (ms_by_execution lg) \<Longrightarrow> intent_key (er_intent q) = k \<Longrightarrow> j = e"
        using index by (metis option.inject)
      have "bt_get (restored_index (ms_by_execution lg)) k = Some e"
        unfolding restored_index_def
        using index [of k] Some only by (intro bt_get_fold_insert [where f = "\<lambda>r. intent_key (er_intent r)"]) auto
      then show ?thesis using Some by simp
    qed
  qed
  show "bt_ok (restored_index (ms_by_execution lg))"
    unfolding restored_index_def
    by (rule bt_ok_fold_insert [where f = "\<lambda>r. intent_key (er_intent r)"]) simp
  show "bt_ok (ms_by_idempotency lg)"
    using assms by (simp add: index_ok_def)
qed

lemma fold_max_bounds:
  fixes f :: "'r \<Rightarrow> u64"
  shows "m \<le> fold (\<lambda>(i, r) m. max m (f r)) xs m
    \<and> (\<forall>(i, r) \<in> set xs. f r \<le> fold (\<lambda>(i, r) m. max m (f r)) xs m)
    \<and> (fold (\<lambda>(i, r) m. max m (f r)) xs m = m
       \<or> (\<exists>(i, r) \<in> set xs. fold (\<lambda>(i, r) m. max m (f r)) xs m = f r))"
proof (induction xs arbitrary: m)
  case (Cons x xs)
  obtain j q where x: "x = (j, q)" by (cases x)
  show ?case
    using Cons.IH [of "max m (f q)"] by (auto simp: x max_def split: if_splits)
qed simp

lemma word_less_plus_one:
  fixes x y :: "'l::len word"
  assumes "x < y + 1"
  shows "x \<le> y"
proof (cases "y = - 1")
  case True
  then show ?thesis by simp
next
  case False
  then have "unat (y + 1) = Suc (unat y)"
    by (intro unat_plus_one [of _ "- 1"]) (simp add: word_order.not_eq_extremum)
  with assms show ?thesis
    by (simp add: word_less_nat_alt word_le_nat_alt)
qed

lemma restored_max_fence_eq:
  assumes "ledger_ok lg"
  shows "restored_max_fence (ms_by_execution lg) + 1 = ml_next_fence lg"
proof -
  let ?m = "restored_max_fence (ms_by_execution lg)"
  have ok: "bt_ok (ms_by_execution lg)" and fences: "fences_ok lg"
    using assms by (auto simp: ledger_ok_def index_ok_def)
  have upper: "\<And>e r. bt_get (ms_by_execution lg) e = Some r \<Longrightarrow> er_fence_token r \<le> ?m"
    and hit: "?m = 0 \<or> (\<exists>e r. bt_get (ms_by_execution lg) e = Some r \<and> ?m = er_fence_token r)"
    using fold_max_bounds [where f = er_fence_token and m = 0 and xs = "ms_by_execution lg"]
    by (auto simp: restored_max_fence_def in_set_bt_iff [OF ok, symmetric])
  have below: "\<And>e r. bt_get (ms_by_execution lg) e = Some r \<Longrightarrow>
      0 < er_fence_token r \<and> er_fence_token r < ml_next_fence lg"
    using fences by (auto simp: fences_ok_def)
  consider "ml_next_fence lg = 1"
    | e r where "bt_get (ms_by_execution lg) e = Some r" "er_fence_token r + 1 = ml_next_fence lg"
    using fences by (auto simp: fences_ok_def)
  then show ?thesis
  proof cases
    case 1
    then have "?m = 0"
      using hit below by (metis less_one word_less_1 word_greater_zero_iff less_irrefl)
    then show ?thesis using 1 by simp
  next
    case 2
    have "?m < er_fence_token r + 1"
      using hit below 2 fences by (auto simp: fences_ok_def)
    then have "?m \<le> er_fence_token r"
      by (rule word_less_plus_one)
    with upper [OF 2(1)] show ?thesis using 2(2) by simp
  qed
qed

subsection \<open>A run\<close>

text \<open>One tenant reserves an execution and takes it through to success.\<close>

definition sample_uuid :: "string \<Rightarrow> string option" where
  "sample_uuid s = (if s = [] then None else Some s)"

definition sample_env :: "string \<Rightarrow> string \<Rightarrow> ledger_env" where
  "sample_env e ev = \<lparr>le_now = 5, le_event_now = 6, le_execution_id = e, le_event_id = ev,
     le_case_id = ''case'', le_opened_at = 7\<rparr>"

definition sample_intent :: "string \<Rightarrow> execution_intent" where
  "sample_intent action_hash =
     \<lparr>ei_schema_version = LEDGER_SCHEMA_VERSION, ei_tenant_id = ''t1'', ei_task_id = ''k1'',
      ei_step_id = ''s1'', ei_action_hash = action_hash, ei_idempotency_key = ''key-1'',
      ei_tool = \<lparr>tr_tool_id = ''tool'', tr_tool_version = ''1''\<rparr>,
      ei_effect_class = Pure, ei_resource_version = None, ei_canonical_arguments_hash = ''h'',
      ei_compensation_plan = None, ei_requested_at = 1\<rparr>"

definition sample_fence :: execution_fence where
  "sample_fence = \<lparr>ef_tenant_id = ''t1'', ef_execution_id = ''e1'', ef_token = 1\<rparr>"

definition sample_reserved :: in_memory_ledger where
  "sample_reserved = ledger_apply sample_uuid (sample_env ''e1'' ''v1'') (Reserve (sample_intent ''a''))
     ledger_default"

definition sample_running :: in_memory_ledger where
  "sample_running = ledger_apply sample_uuid (sample_env ''e2'' ''v2'') (MarkStarted sample_fence None)
     sample_reserved"

definition sample_done :: in_memory_ledger where
  "sample_done = ledger_apply sample_uuid (sample_env ''e3'' ''v3'')
     (MarkSucceeded sample_fence ''result'' ''evidence'') sample_running"

lemmas sample_defs = sample_uuid_def sample_env_def sample_intent_def sample_fence_def
  sample_reserved_def sample_running_def sample_done_def

lemma sample_valid [simp]: "validate_intent sample_uuid (sample_intent a) = Ok ()"
  by (simp add: validate_intent_def sample_defs byte_defs)

lemma sample_reserved_value:
  "sample_reserved = extended (sample_env ''e1'' ''v1'') (sample_intent ''a'') ledger_default"
  by (simp add: sample_reserved_def reserve_state) (simp add: ledger_default_def)

definition sample_record :: execution_record where
  "sample_record = new_record (sample_env ''e1'' ''v1'') 1 (sample_intent ''a'')"

lemma sample_reserved_sel [simp]:
  "bt_get (ms_by_execution sample_reserved) e = (if e = ''e1'' then Some sample_record else None)"
  "ml_next_fence sample_reserved = 2"
  by (simp_all add: sample_reserved_value sample_record_def ledger_default_def bt.get_put sample_env_def)

lemma sample_running_value:
  "sample_running = rewritten (sample_env ''e2'' ''v2'') ''e1'' Running
     (sample_record\<lparr>er_status := Running, er_attempt := 1, er_updated_at := 5\<rparr>) sample_reserved"
  unfolding sample_running_def
  by (subst ledger_apply_mark)
    (auto simp: sample_record_def new_record_def sample_env_def sample_fence_def sample_intent_def
      holds_fence_def next_of_call_def)

lemma sample_running_sel [simp]:
  "bt_get (ms_by_execution sample_running) e =
     (if e = ''e1'' then Some (sample_record\<lparr>er_status := Running, er_attempt := 1, er_updated_at := 5\<rparr>)
      else None)"
  "ml_next_fence sample_running = 2"
  by (simp_all add: sample_running_value bt.get_put)

definition sample_done_record :: execution_record where
  "sample_done_record = sample_record\<lparr>er_status := Succeeded, er_attempt := 1, er_updated_at := 5,
     er_result_ref := Some ''result'', er_evidence_ref := Some ''evidence''\<rparr>"

lemma sample_done_value:
  "sample_done = rewritten (sample_env ''e3'' ''v3'') ''e1'' Succeeded sample_done_record sample_running"
  unfolding sample_done_def sample_done_record_def
  by (subst ledger_apply_mark)
    (auto simp: sample_record_def new_record_def sample_env_def sample_fence_def sample_intent_def
      holds_fence_def next_of_call_def)

lemma sample_done_sel [simp]:
  "bt_get (ms_by_execution sample_done) e = (if e = ''e1'' then Some sample_done_record else None)"
  "ml_next_fence sample_done = 2"
  by (simp_all add: sample_done_value bt.get_put)

lemma sample_steps:
  "ledger_step sample_uuid ledger_default sample_reserved"
  "ledger_step sample_uuid sample_reserved sample_running"
  "ledger_step sample_uuid sample_running sample_done"
proof -
  show "ledger_step sample_uuid ledger_default sample_reserved"
    unfolding sample_reserved_def by (rule ledger_step.called) (simp_all add: ledger_default_def)
  show "ledger_step sample_uuid sample_reserved sample_running"
    unfolding sample_running_def by (rule ledger_step.called) (simp_all add: sample_env_def)
  show "ledger_step sample_uuid sample_running sample_done"
    unfolding sample_done_def by (rule ledger_step.called) (simp_all add: sample_env_def)
qed

lemma sample_runs:
  "ledger_run sample_uuid ledger_default"
  "ledger_run sample_uuid sample_reserved"
  "ledger_run sample_uuid sample_done"
proof -
  show start: "ledger_run sample_uuid ledger_default"
    by (rule reach_init) simp
  show reserved: "ledger_run sample_uuid sample_reserved"
    by (rule reach_step [OF start sample_steps(1)])
  show "ledger_run sample_uuid sample_done"
    by (rule reach_step [OF reach_step [OF reserved sample_steps(2)] sample_steps(3)])
qed

subsection \<open>Properties\<close>

text \<open>Along every run, a tenant's idempotency key belongs to one execution, a fencing token to one
  execution, an execution is started at most once, and a succeeded one has its result and its
  evidence.\<close>

theorem ledger_executions_unique:
  assumes "ledger_run uuid lg"
    and "bt_get (ms_by_execution lg) e = Some r" and "bt_get (ms_by_execution lg) e' = Some r'"
  shows "(intent_key (er_intent r) = intent_key (er_intent r') \<or> er_fence_token r = er_fence_token r'
            \<longrightarrow> e = e')
    \<and> er_attempt r \<le> 1
    \<and> (er_status r = Succeeded \<longrightarrow> er_result_ref r \<noteq> None \<and> er_evidence_ref r \<noteq> None)"
proof -
  have ok: "ledger_ok lg"
    using assms(1) by (rule ledger_machine.reach_inv)
  have "intent_key (er_intent r) = intent_key (er_intent r') \<Longrightarrow> e = e'"
    using ok assms(2,3) by (metis ledger_ok_def index_ok_def option.inject)
  moreover have "er_fence_token r = er_fence_token r' \<Longrightarrow> e = e'"
    using ok assms(2,3) by (auto simp: ledger_ok_def fences_ok_def)
  moreover have "record_ok r"
    using ok assms(2) by (auto simp: ledger_ok_def records_ok_def)
  ultimately show ?thesis
    by (auto simp: record_ok_def split: execution_status.splits)
qed

theorem ledger_executions_unique_witness:
  "(''e1'' = ''e1'') \<and> er_attempt sample_done_record \<le> 1
     \<and> er_evidence_ref sample_done_record \<noteq> None"
  using ledger_executions_unique [OF sample_runs(3), of "''e1''" sample_done_record "''e1''" sample_done_record]
  by (simp add: sample_done_record_def)

lemma reserve_outcome:
  assumes "ledger_ok lg" "reserve uuid env i lg = (Ok rs, lg')"
    and "bt_get (ms_by_execution lg) (le_execution_id env) = None" "ml_next_fence lg \<noteq> - 1"
  shows "\<exists>stored. reserved_as (rs_execution_id rs) stored (ef_token (rs_fence rs)) lg'
    \<and> intent_key stored = intent_key i \<and> ei_action_hash stored = ei_action_hash i
    \<and> rs_fence rs = \<lparr>ef_tenant_id = ei_tenant_id i, ef_execution_id = rs_execution_id rs,
                      ef_token = ef_token (rs_fence rs)\<rparr>"
proof -
  have "ledger_step uuid lg (ledger_apply uuid env (Reserve i) lg)"
    using assms(3,4) by (rule ledger_step.called)
  then have ok: "ledger_ok lg'"
    using assms(1,2) by (auto intro: ledger_ok_step)
  show ?thesis
  proof (cases "bt_get (ms_by_idempotency lg) (intent_key i)")
    case None
    then show ?thesis
      using assms(2) ok
      by (auto simp: reserve_def reserved_as_def new_record_def split: sum.splits)
  next
    case (Some e)
    then obtain r where "bt_get (ms_by_execution lg) e = Some r" "intent_key (er_intent r) = intent_key i"
      using assms(1) by (metis ledger_ok_def index_ok_def)
    then show ?thesis
      using assms(2) ok Some
      by (auto simp: reserve_def reserved_as_def existing_reservation_def intent_key_def
          split: sum.splits if_splits)
  qed
qed

lemma reserve_again:
  assumes "reserved_as e stored t lg" "intent_key j = intent_key stored" "validate_intent uuid j = Ok ()"
  shows "reserve uuid env j lg =
    (if ei_action_hash j = ei_action_hash stored
     then Ok \<lparr>rs_execution_id = e,
              rs_fence = \<lparr>ef_tenant_id = ei_tenant_id stored, ef_execution_id = e, ef_token = t\<rparr>,
              rs_existing = True,
              rs_status = er_status (the (bt_get (ms_by_execution lg) e))\<rparr>
     else Err IdempotencyConflict, lg)"
proof -
  obtain r where r: "bt_get (ms_by_execution lg) e = Some r" "er_intent r = stored" "er_fence_token r = t"
    using assms(1) by (auto simp: reserved_as_def)
  then have "bt_get (ms_by_idempotency lg) (intent_key j) = Some e"
    using assms(1,2) by (metis reserved_as_def ledger_ok_def index_ok_def)
  with r assms(3) show ?thesis
    by (simp add: reserve_def existing_reservation_def)
qed

text \<open>A reservation is idempotent. Whatever calls follow a successful reservation, reserving the
  same tenant and key again changes nothing: with the same action hash it returns the same
  execution and the same fence, marked as existing and with the current status, and with another
  action hash it is a conflict.\<close>

theorem reserve_is_idempotent:
  assumes "ledger_run uuid lg"
    and "bt_get (ms_by_execution lg) (le_execution_id env) = None" and "ml_next_fence lg \<noteq> - 1"
    and "reserve uuid env i lg = (Ok rs, lg')" and "(ledger_step uuid)\<^sup>*\<^sup>* lg' lg''"
    and "validate_intent uuid j = Ok ()" and "intent_key j = intent_key i"
  shows "reserve uuid env' j lg'' =
    (if ei_action_hash j = ei_action_hash i
     then Ok \<lparr>rs_execution_id = rs_execution_id rs, rs_fence = rs_fence rs, rs_existing = True,
              rs_status = er_status (the (bt_get (ms_by_execution lg'') (rs_execution_id rs)))\<rparr>
     else Err IdempotencyConflict, lg'')"
proof -
  obtain stored where stored: "reserved_as (rs_execution_id rs) stored (ef_token (rs_fence rs)) lg'"
      "intent_key stored = intent_key i" "ei_action_hash stored = ei_action_hash i"
      "rs_fence rs = \<lparr>ef_tenant_id = ei_tenant_id i, ef_execution_id = rs_execution_id rs,
                      ef_token = ef_token (rs_fence rs)\<rparr>"
    using reserve_outcome [OF ledger_machine.reach_inv [OF assms(1)] assms(4,2,3)] by blast
  have later: "reserved_as (rs_execution_id rs) stored (ef_token (rs_fence rs)) lg''"
    using assms(5) stored(1) by (rule reserved.steps_keep)
  have "rs_fence rs = \<lparr>ef_tenant_id = ei_tenant_id stored, ef_execution_id = rs_execution_id rs,
                      ef_token = ef_token (rs_fence rs)\<rparr>"
    using stored(2,4) by (simp add: intent_key_def)
  then show ?thesis
    using reserve_again [OF later _ assms(6), of env'] stored(2,3) assms(7) by simp
qed

theorem reserve_is_idempotent_witness:
  "reserve sample_uuid (sample_env ''e9'' ''v9'') (sample_intent ''a'') sample_done =
     (Ok \<lparr>rs_execution_id = ''e1'', rs_fence = sample_fence, rs_existing = True,
          rs_status = Succeeded\<rparr>, sample_done)"
proof -
  have "reserve sample_uuid (sample_env ''e1'' ''v1'') (sample_intent ''a'') ledger_default =
      (Ok \<lparr>rs_execution_id = ''e1'', rs_fence = sample_fence, rs_existing = False,
           rs_status = Prepared\<rparr>, sample_reserved)"
    using sample_valid [of "''a''"]
    by (simp add: reserve_def sample_reserved_value extended_def)
      (simp add: ledger_default_def sample_env_def sample_fence_def sample_intent_def)
  moreover have "(ledger_step sample_uuid)\<^sup>*\<^sup>* sample_reserved sample_done"
    using sample_steps(2,3) by (meson converse_rtranclp_into_rtranclp rtranclp.rtrancl_refl)
  ultimately show ?thesis
    using reserve_is_idempotent [OF sample_runs(1), of "sample_env ''e1'' ''v1''" "sample_intent ''a''"
        _ sample_reserved sample_done "sample_intent ''a''" "sample_env ''e9'' ''v9''"]
    by (auto simp: ledger_default_def sample_done_record_def)
qed

text \<open>C40: a record that has succeeded or failed never changes again, whatever calls are made with
  whatever fences.\<close>

theorem settled_records_are_final:
  assumes "bt_get (ms_by_execution lg) e = Some r" and "er_status r \<in> {Succeeded, Failed}"
    and "(ledger_step uuid)\<^sup>*\<^sup>* lg lg'"
  shows "bt_get (ms_by_execution lg') e = Some r"
  using settled.steps_keep [OF assms(3), of e r] assms(1,2) by (simp add: settled_as_def)

theorem settled_records_are_final_witness:
  "bt_get (ms_by_execution (ledger_apply sample_uuid (sample_env ''e4'' ''v4'')
      (MarkFailed sample_fence ''late'') sample_done)) ''e1'' = Some sample_done_record"
proof (rule settled_records_are_final)
  show "(ledger_step sample_uuid)\<^sup>*\<^sup>* sample_done (ledger_apply sample_uuid (sample_env ''e4'' ''v4'')
      (MarkFailed sample_fence ''late'') sample_done)"
    by (rule r_into_rtranclp, rule ledger_step.called) (simp_all add: sample_env_def)
qed (simp_all add: sample_done_record_def)

text \<open>C1: only the holder of the tenant and the fencing token of an unsettled execution changes its
  record; a call with a stale token or another tenant leaves the whole ledger as it is.\<close>

theorem only_the_fence_holder_writes:
  assumes "bt_get (ms_by_execution lg) (le_execution_id env) = None"
    and "bt_get (ms_by_execution lg) e = Some r"
    and "bt_get (ms_by_execution (ledger_apply uuid env call lg)) e \<noteq> Some r"
  shows "\<exists>fence. call_fence call = Some fence \<and> ef_execution_id fence = e
    \<and> ei_tenant_id (er_intent r) = ef_tenant_id fence \<and> er_fence_token r = ef_token fence
    \<and> er_status r \<notin> {Succeeded, Failed}"
  using assms
  by (cases rule: ledger_apply_cases [of uuid env call lg])
    (auto simp: bt.get_put holds_fence_def dest: next_of_call_live split: if_splits)

theorem only_the_fence_holder_writes_witness:
  "\<exists>fence. call_fence (MarkSucceeded sample_fence ''result'' ''evidence'') = Some fence
     \<and> ef_execution_id fence = ''e1'' \<and> ef_token fence = 1"
proof -
  let ?running = "sample_record\<lparr>er_status := Running, er_attempt := 1, er_updated_at := 5\<rparr>"
  have "er_status sample_done_record \<noteq> er_status ?running"
    by (simp add: sample_done_record_def)
  then have "sample_done_record \<noteq> ?running"
    by metis
  then show ?thesis
    using only_the_fence_holder_writes [of sample_running "sample_env ''e3'' ''v3''" "''e1''" ?running
        sample_uuid "MarkSucceeded sample_fence ''result'' ''evidence''"]
    by (auto simp: sample_done_def [symmetric] sample_env_def sample_fence_def)
qed

text \<open>The status fact of an execution is the fact of its latest outbox event, that event names the
  current status, and to any other tenant the execution does not exist.\<close>

theorem status_fact_is_current:
  assumes "ledger_run uuid lg" and "bt_get (ms_by_execution lg) e = Some r"
  shows "\<exists>event. oe_execution_id event = e \<and> event \<in> set (ms_outbox lg)
      \<and> oe_event_type event = status_event_type (er_status r)
      \<and> (\<forall>tenant. status_event_fact uuid jcs sha256_hex lg tenant e =
           (if ei_tenant_id (er_intent r) = tenant
            then ledger_event_fact uuid jcs sha256_hex tenant event else Err LedgerNotFound)
         \<and> ledger_get lg tenant e =
           (if ei_tenant_id (er_intent r) = tenant then Ok r else Err LedgerNotFound))"
proof -
  have "outbox_ok lg"
    using ledger_machine.reach_inv [OF assms(1)] by (simp add: ledger_ok_def)
  then obtain event where event: "find (\<lambda>x. oe_execution_id x = e) (rev (ms_outbox lg)) = Some event"
      "oe_event_type event = status_event_type (er_status r)"
    using assms(2) by (auto simp: outbox_ok_def latest_event_def)
  then have "oe_execution_id event = e" "event \<in> set (ms_outbox lg)"
    by (auto simp: find_Some_iff) (metis nth_mem rev_nth set_rev length_rev)
  then show ?thesis
    using event assms(2)
    by (intro exI [of _ event]) (simp add: status_event_fact_def ledger_get_def)
qed

theorem status_fact_is_current_witness:
  "\<exists>event. oe_execution_id event = ''e1'' \<and> oe_event_type event = ''EXECUTION_Succeeded''
     \<and> status_event_fact sample_uuid (\<lambda>m. Some (dm_event_id m)) id sample_done ''t1'' ''e1'' =
         ledger_event_fact sample_uuid (\<lambda>m. Some (dm_event_id m)) id ''t1'' event"
proof -
  have "er_status sample_done_record = Succeeded" "ei_tenant_id (er_intent sample_done_record) = ''t1''"
    by (simp_all add: sample_done_record_def sample_record_def new_record_def sample_intent_def)
  then show ?thesis
    using status_fact_is_current [OF sample_runs(3), of "''e1''" sample_done_record
        "\<lambda>m. Some (dm_event_id m)" id]
    by (auto simp: status_event_type_def)
qed

text \<open>C24: restoring a snapshot gives back the very ledger, the idempotency index and the next fencing
  token included, so a restart neither loses a reservation nor hands out a token twice.\<close>

theorem snapshot_round_trip:
  assumes "ledger_run uuid lg" and "to_vec (ms_by_execution lg, ms_outbox lg) = Some bytes"
    and "from_slice bytes = Some (ms_by_execution lg, ms_outbox lg)"
  shows "snapshot to_vec lg = Ok bytes \<and> from_snapshot from_slice bytes = Ok lg"
proof -
  have ok: "ledger_ok lg"
    using assms(1) by (rule ledger_machine.reach_inv)
  then have "restored_index (ms_by_execution lg) = ms_by_idempotency lg"
    by (intro restored_index_eq) (simp add: ledger_ok_def)
  then show ?thesis
    using assms(2,3) restored_max_fence_eq [OF ok] by (simp add: snapshot_def from_snapshot_def)
qed

theorem snapshot_round_trip_witness:
  "snapshot (\<lambda>image. Some ''image'') sample_done = Ok ''image''
   \<and> from_snapshot (\<lambda>bytes. Some (ms_by_execution sample_done, ms_outbox sample_done)) ''image''
       = Ok sample_done"
  by (rule snapshot_round_trip [OF sample_runs(3)]) simp_all

end
