(* ===== verification/Ledger_Recovery.thy ===== *)
theory Ledger_Recovery
  imports Ledger_Invariant
begin

text \<open>
  Compensation and recovery on top of a ledger (\<open>transaction-ledger/src/lib.rs\<close>):
  \<open>CompensationCoordinator::execute\<close> undoes a plan step by step from the last one, and
  \<open>RecoveryScanner::reconcile\<close> settles the executions whose outcome is not known. The external
  system behind \<open>CompensationExecutor\<close> and the \<open>OutcomeResolver\<close> are parameters.
\<close>

subsection \<open>Compensation\<close>

record 'x compensation_executor =
  ce_current_resource_version ::
    "compensation_step \<Rightarrow> 'x \<Rightarrow> (ledger_error + string option) \<times> 'x"
  ce_execute :: "compensation_step \<Rightarrow> string \<Rightarrow> 'x \<Rightarrow> (ledger_error + unit) \<times> 'x"

record compensation_receipt =
  rc_plan_id :: string
  rc_completed_steps :: "string list"
  rc_already_completed_steps :: "string list"

definition compensation_key :: "string \<Rightarrow> compensation_step \<Rightarrow> string" where
  "compensation_key plan_id step = ''comp:'' @ plan_id @ '':'' @ cs_step_id step"

text \<open>
  The precondition of a step: without a required version the executor is not asked; otherwise the
  version it reports has to be the required one.
\<close>

definition version_precondition ::
  "'x compensation_executor \<Rightarrow> compensation_step \<Rightarrow> 'x \<Rightarrow> (ledger_error + unit) \<times> 'x" where
  "version_precondition ex step x =
     (case cs_required_current_version step of
        None \<Rightarrow> (Ok (), x)
      | Some required \<Rightarrow>
          (case ce_current_resource_version ex step x of
             (Inl e, x') \<Rightarrow> (Err e, x')
           | (Inr current, x') \<Rightarrow>
               (if current \<noteq> Some required then Err CompensationPreconditionFailed else Ok (), x')))"

fun compensate_steps ::
  "'x compensation_executor \<Rightarrow> string \<Rightarrow> compensation_step list \<Rightarrow> string list \<Rightarrow> string list
   \<Rightarrow> (string \<times> string) set \<times> 'x
   \<Rightarrow> (ledger_error + string list \<times> string list) \<times> (string \<times> string) set \<times> 'x" where
  "compensate_steps ex plan_id [] done already (completed, x) = (Ok (done, already), completed, x)"
| "compensate_steps ex plan_id (step # steps) done already (completed, x) =
     (if (plan_id, cs_step_id step) \<in> completed
      then compensate_steps ex plan_id steps done (already @ [cs_step_id step]) (completed, x)
      else
        (case version_precondition ex step x of
           (Inl e, x') \<Rightarrow> (Err e, completed, x')
         | (Inr _, x') \<Rightarrow>
             (case ce_execute ex step (compensation_key plan_id step) x' of
                (Inl e, x'') \<Rightarrow> (Err e, completed, x'')
              | (Inr _, x'') \<Rightarrow>
                  compensate_steps ex plan_id steps (done @ [cs_step_id step]) already
                    (insert (plan_id, cs_step_id step) completed, x''))))"

definition compensate ::
  "'x compensation_executor \<Rightarrow> compensation_plan \<Rightarrow> (string \<times> string) set \<times> 'x
   \<Rightarrow> (ledger_error + compensation_receipt) \<times> (string \<times> string) set \<times> 'x" where
  "compensate ex plan s =
     (case compensate_steps ex (cp_plan_id plan) (rev (cp_steps plan)) [] [] s of
        (Inl e, s') \<Rightarrow> (Err e, s')
      | (Inr (completed_steps, already_completed_steps), s') \<Rightarrow>
          (Ok \<lparr>rc_plan_id = cp_plan_id plan, rc_completed_steps = completed_steps,
               rc_already_completed_steps = already_completed_steps\<rparr>, s'))"

text \<open>An executor that also keeps the list of the steps it has executed, with their keys.\<close>

definition logged ::
  "'x compensation_executor \<Rightarrow> ('x \<times> (compensation_step \<times> string) list) compensation_executor" where
  "logged ex =
     \<lparr>ce_current_resource_version = (\<lambda>step (x, log).
        (case ce_current_resource_version ex step x of (r, x') \<Rightarrow> (r, x', log))),
      ce_execute = (\<lambda>step key (x, log).
        (case ce_execute ex step key x of
           (Inl e, x') \<Rightarrow> (Err e, x', log)
         | (Inr u, x') \<Rightarrow> (Ok u, x', log @ [(step, key)])))\<rparr>"

text \<open>
  The steps to do, in the order they are met: each step id that is not completed, at its first step.
\<close>

fun pending :: "string \<Rightarrow> (string \<times> string) set \<Rightarrow> compensation_step list \<Rightarrow> compensation_step list" where
  "pending plan_id completed [] = []"
| "pending plan_id completed (s # steps) =
     (if (plan_id, cs_step_id s) \<in> completed then pending plan_id completed steps
      else s # pending plan_id (insert (plan_id, cs_step_id s) completed) steps)"

definition step_key :: "string \<Rightarrow> compensation_step \<Rightarrow> string \<times> string" where
  "step_key plan_id s = (plan_id, cs_step_id s)"

lemma set_pending:
  "cs_step_id ` set (pending p completed steps) = {i \<in> cs_step_id ` set steps. (p, i) \<notin> completed}"
proof (induction p completed steps rule: pending.induct)
  case (2 p completed s steps)
  then show ?case by (cases "(p, cs_step_id s) \<in> completed") auto
qed simp

lemma distinct_pending: "distinct (map cs_step_id (pending p completed steps))"
proof (induction p completed steps rule: pending.induct)
  case (2 p completed s steps)
  then show ?case
    using set_pending [of p "insert (p, cs_step_id s) completed" steps] by (auto simp: image_iff)
qed simp

lemma pending_distinct:
  "distinct (map cs_step_id steps) \<Longrightarrow>
   pending p completed steps = filter (\<lambda>s. (p, cs_step_id s) \<notin> completed) steps"
proof (induction p completed steps rule: pending.induct)
  case (2 p completed s steps)
  then show ?case
    by (auto intro!: filter_cong simp: image_iff)
qed simp

lemma version_precondition_logged:
  "version_precondition (logged ex) s (x, log) =
     (case version_precondition ex s x of (r, x') \<Rightarrow> (r, x', log))"
  by (auto simp: version_precondition_def logged_def split: option.split prod.split sum.split)

lemma compensate_steps_log:
  assumes "compensate_steps (logged ex) p steps done already (completed, x, log) =
           (result, completed', x', log')"
  shows "\<exists>n. n \<le> length (pending p completed steps)
    \<and> log' = log @ map (\<lambda>s. (s, compensation_key p s)) (take n (pending p completed steps))
    \<and> completed' = completed \<union> step_key p ` set (take n (pending p completed steps))
    \<and> (is_ok result \<longleftrightarrow> n = length (pending p completed steps))
    \<and> (\<forall>d a. result = Ok (d, a) \<longrightarrow> d = done @ map cs_step_id (pending p completed steps))"
  using assms
proof (induction steps arbitrary: "done" already completed x log)
  case Nil
  then show ?case by auto
next
  case (Cons s steps)
  show ?case
  proof (cases "(p, cs_step_id s) \<in> completed")
    case True
    then show ?thesis
      using Cons.IH [of "done" "already @ [cs_step_id s]" completed x log] Cons.prems by simp
  next
    case False
    let ?rest = "pending p (insert (p, cs_step_id s) completed) steps"
    have stop: ?thesis if "log' = log" "completed' = completed" "\<not> is_ok result"
      using that False by (intro exI [of _ 0]) auto
    obtain r x1 where pre: "version_precondition (logged ex) s (x, log) = (r, x1, log)"
      by (cases "version_precondition ex s x") (simp add: version_precondition_logged)
    show ?thesis
    proof (cases r)
      case (Inl e)
      then show ?thesis
        using Cons.prems False pre by (intro stop) auto
    next
      case (Inr u)
      obtain r2 x2 where run: "ce_execute ex s (compensation_key p s) x1 = (r2, x2)"
        by (cases "ce_execute ex s (compensation_key p s) x1")
      show ?thesis
      proof (cases r2)
        case (Inl e)
        then show ?thesis
          using Cons.prems False pre \<open>r = Inr u\<close> run by (intro stop) (auto simp: logged_def)
      next
        case (Inr v)
        have "compensate_steps (logged ex) p steps (done @ [cs_step_id s]) already
            (insert (p, cs_step_id s) completed, x2, log @ [(s, compensation_key p s)])
            = (result, completed', x', log')"
          using Cons.prems False pre \<open>r = Inr u\<close> run Inr by (auto simp: logged_def)
        from Cons.IH [OF this] obtain n
          where n: "n \<le> length ?rest"
            "log' = (log @ [(s, compensation_key p s)]) @ map (\<lambda>s. (s, compensation_key p s)) (take n ?rest)"
            "completed' = insert (p, cs_step_id s) completed \<union> step_key p ` set (take n ?rest)"
            "is_ok result \<longleftrightarrow> n = length ?rest"
            "\<forall>d a. result = Ok (d, a) \<longrightarrow> d = (done @ [cs_step_id s]) @ map cs_step_id ?rest"
          by blast
        then show ?thesis
          using False by (intro exI [of _ "Suc n"]) (auto simp: step_key_def)
      qed
    qed
  qed
qed

lemma compensate_steps_all_done:
  "\<forall>s \<in> set steps. (p, cs_step_id s) \<in> completed \<Longrightarrow>
   compensate_steps ex p steps done already (completed, x) =
     (Ok (done, already @ map cs_step_id steps), completed, x)"
  by (induction steps arbitrary: already) auto

text \<open>
  C38: compensation runs backwards and at most once per step id, whatever the plan. The steps the
  executor performs are a prefix of the plan's pending ones, from the last to the first, each under
  its own idempotency key; exactly these become completed, whether the run ends well or not; and it
  ends well exactly when none is left. Pending is every step id that is not completed, once. Steps of a
  plan that share an id count as one: only the last of them is performed.
\<close>

theorem compensation_runs_backwards_once:
  assumes "compensate (logged ex) plan (completed, x, []) = (result, completed', x', log)"
  shows "(\<exists>n \<le> length (pending (cp_plan_id plan) completed (rev (cp_steps plan))).
      log = map (\<lambda>s. (s, compensation_key (cp_plan_id plan) s))
              (take n (pending (cp_plan_id plan) completed (rev (cp_steps plan))))
    \<and> completed' = completed \<union>
        step_key (cp_plan_id plan) `
          set (take n (pending (cp_plan_id plan) completed (rev (cp_steps plan))))
    \<and> (is_ok result \<longleftrightarrow> n = length (pending (cp_plan_id plan) completed (rev (cp_steps plan)))))
    \<and> distinct (map (\<lambda>e. cs_step_id (fst e)) log)
    \<and> cs_step_id ` set (pending (cp_plan_id plan) completed (rev (cp_steps plan)))
        = {i \<in> cs_step_id ` set (cp_steps plan). (cp_plan_id plan, i) \<notin> completed}
    \<and> (distinct (map cs_step_id (cp_steps plan)) \<longrightarrow>
         pending (cp_plan_id plan) completed (rev (cp_steps plan))
           = rev (filter (\<lambda>s. (cp_plan_id plan, cs_step_id s) \<notin> completed) (cp_steps plan)))"
proof -
  let ?due = "pending (cp_plan_id plan) completed (rev (cp_steps plan))"
  obtain res where steps: "compensate_steps (logged ex) (cp_plan_id plan) (rev (cp_steps plan)) [] []
      (completed, x, []) = (res, completed', x', log)"
    and ok: "is_ok result = is_ok res"
    using assms by (auto simp: compensate_def split: prod.splits sum.splits)
  obtain n where n: "n \<le> length ?due" "log = map (\<lambda>s. (s, compensation_key (cp_plan_id plan) s)) (take n ?due)"
      "completed' = completed \<union> step_key (cp_plan_id plan) ` set (take n ?due)"
      "is_ok res \<longleftrightarrow> n = length ?due"
    using compensate_steps_log [OF steps] by auto
  have "distinct (map cs_step_id (take n ?due))"
    using distinct_pending [of "cp_plan_id plan" completed "rev (cp_steps plan)"]
    by (metis distinct_take take_map)
  then have "distinct (map (\<lambda>e. cs_step_id (fst e)) log)"
    by (simp add: n(2) comp_def)
  moreover have "distinct (map cs_step_id (cp_steps plan)) \<Longrightarrow>
      ?due = rev (filter (\<lambda>s. (cp_plan_id plan, cs_step_id s) \<notin> completed) (cp_steps plan))"
    by (subst pending_distinct) (simp_all add: rev_map [symmetric] rev_filter)
  moreover have "cs_step_id ` set ?due = {i \<in> cs_step_id ` set (cp_steps plan). (cp_plan_id plan, i) \<notin> completed}"
    by (simp add: set_pending)
  ultimately show ?thesis
    using n ok by blast
qed

text \<open>A plan that was compensated is not compensated again. After a successful run the next one
  leaves the external system and the coordinator untouched and reports every step as already
  completed, even through an executor that would refuse everything.\<close>

theorem compensation_is_idempotent:
  assumes "compensate (logged ex) plan (completed, x, []) = (Ok receipt, completed', x', log)"
  shows "compensate ex' plan (completed', y) =
    (Ok \<lparr>rc_plan_id = cp_plan_id plan, rc_completed_steps = [],
         rc_already_completed_steps = map cs_step_id (rev (cp_steps plan))\<rparr>, completed', y)"
proof -
  let ?due = "pending (cp_plan_id plan) completed (rev (cp_steps plan))"
  obtain res where steps: "compensate_steps (logged ex) (cp_plan_id plan) (rev (cp_steps plan)) [] []
      (completed, x, []) = (Ok res, completed', x', log)"
    using assms by (auto simp: compensate_def split: prod.splits sum.splits)
  have done_all: "completed' = completed \<union> step_key (cp_plan_id plan) ` set ?due"
    using compensate_steps_log [OF steps] by auto
  have "(cp_plan_id plan, cs_step_id s) \<in> completed'" if "s \<in> set (cp_steps plan)" for s
  proof (cases "(cp_plan_id plan, cs_step_id s) \<in> completed")
    case False
    then have "cs_step_id s \<in> cs_step_id ` set ?due"
      using that by (simp add: set_pending)
    then show ?thesis by (auto simp: done_all step_key_def)
  qed (simp add: done_all)
  then show ?thesis
    by (simp add: compensate_def compensate_steps_all_done)
qed

text \<open>A two-step plan whose first step has been compensated already.\<close>

definition sample_comp_step :: "string \<Rightarrow> compensation_step" where
  "sample_comp_step i = \<lparr>cs_step_id = i, cs_tool = \<lparr>tr_tool_id = ''undo'', tr_tool_version = ''1''\<rparr>,
     cs_arguments_hash = ''h'', cs_required_current_version = Some ''v1'',
     cs_expected_current_value = None\<rparr>"

definition sample_plan :: compensation_plan where
  "sample_plan = \<lparr>cp_plan_id = ''p'', cp_forward_action_hash = ''f'',
     cp_steps = [sample_comp_step ''a'', sample_comp_step ''b''], cp_created_at = 0\<rparr>"

definition sample_executor :: "nat compensation_executor" where
  "sample_executor = \<lparr>ce_current_resource_version = (\<lambda>s n. (Ok (Some ''v1''), n)),
     ce_execute = (\<lambda>s k n. (Ok (), Suc n))\<rparr>"

lemma sample_compensation:
  "compensate (logged sample_executor) sample_plan ({(''p'', ''a'')}, 0, []) =
     (Ok \<lparr>rc_plan_id = ''p'', rc_completed_steps = [''b''], rc_already_completed_steps = [''a'']\<rparr>,
      {(''p'', ''b''), (''p'', ''a'')}, 1, [(sample_comp_step ''b'', ''comp:p:b'')])"
  by (simp add: compensate_def sample_plan_def sample_comp_step_def logged_def sample_executor_def
      version_precondition_def compensation_key_def)

theorem compensation_runs_backwards_once_witness:
  "\<exists>n. [(sample_comp_step ''b'', ''comp:p:b'')] =
        map (\<lambda>s. (s, compensation_key (cp_plan_id sample_plan) s))
          (take n (pending (cp_plan_id sample_plan) {(''p'', ''a'')} (rev (cp_steps sample_plan))))"
  using compensation_runs_backwards_once [OF sample_compensation]
  by (elim exE conjE) (rule exI, assumption)

text \<open>Two steps with one id: the first of the plan is reported as already completed and never undone.\<close>

lemma repeated_step_is_skipped:
  "let undo = sample_comp_step ''a''; plan = sample_plan\<lparr>cp_steps := [undo\<lparr>cs_arguments_hash := ''g''\<rparr>, undo]\<rparr>
   in compensate (logged sample_executor) plan ({}, 0, []) =
     (Ok \<lparr>rc_plan_id = ''p'', rc_completed_steps = [''a''], rc_already_completed_steps = [''a'']\<rparr>,
      {(''p'', ''a'')}, 1, [(undo, ''comp:p:a'')])"
  by (simp add: compensate_def sample_plan_def sample_comp_step_def logged_def sample_executor_def
      version_precondition_def compensation_key_def)

theorem compensation_is_idempotent_witness:
  "compensate \<lparr>ce_current_resource_version = \<lambda>s x. (Err StoreFailure, x),
      ce_execute = \<lambda>s k x. (Err StoreFailure, x)\<rparr> sample_plan ({(''p'', ''b''), (''p'', ''a'')}, True) =
    (Ok \<lparr>rc_plan_id = ''p'', rc_completed_steps = [], rc_already_completed_steps = [''b'', ''a'']\<rparr>,
     {(''p'', ''b''), (''p'', ''a'')}, True)"
  by (subst compensation_is_idempotent [OF sample_compensation])
    (simp add: sample_plan_def sample_comp_step_def)

subsection \<open>Recovery\<close>

datatype recovery_decision =
    RecoverySucceeded string string
  | RecoveryFailed string
  | RecoveryStillUnknown
  | RecoveryManual string

text \<open>
  The operations of \<open>ExecutionLedger\<close> the scanner calls. \<open>resolve n r\<close> is what the resolver answers
  when it is asked for the \<open>n\<close>-th time; \<open>envs n\<close> is what the \<open>n\<close>-th call draws.
\<close>

record 'l ledger_port =
  lp_stale :: "string \<Rightarrow> datetime \<Rightarrow> 'l \<Rightarrow> ledger_error + execution_record list"
  lp_succeed :: "ledger_env \<Rightarrow> execution_fence \<Rightarrow> string \<Rightarrow> string \<Rightarrow> 'l \<Rightarrow> (ledger_error + unit) \<times> 'l"
  lp_fail :: "ledger_env \<Rightarrow> execution_fence \<Rightarrow> string \<Rightarrow> 'l \<Rightarrow> (ledger_error + unit) \<times> 'l"
  lp_recover :: "ledger_env \<Rightarrow> execution_fence \<Rightarrow> manual_recovery_case \<Rightarrow> 'l \<Rightarrow> (ledger_error + unit) \<times> 'l"

definition record_fence :: "execution_record \<Rightarrow> execution_fence" where
  "record_fence r = \<lparr>ef_tenant_id = ei_tenant_id (er_intent r), ef_execution_id = er_execution_id r,
                     ef_token = er_fence_token r\<rparr>"

definition recovery_case :: "ledger_env \<Rightarrow> execution_record \<Rightarrow> string \<Rightarrow> manual_recovery_case" where
  "recovery_case env r reason =
     \<lparr>mr_case_id = le_case_id env, mr_impact_scope = tr_tool_id (ei_tool (er_intent r)),
      mr_last_known_state = status_debug (er_status r), mr_recommended_actions = [reason],
      mr_evidence_refs = [], mr_opened_at = le_opened_at env\<rparr>"

text \<open>What is done for one record: \<open>None\<close> when it is skipped.\<close>

definition reconcile_one ::
  "'l ledger_port \<Rightarrow> ledger_env \<Rightarrow> execution_record \<Rightarrow> recovery_decision \<Rightarrow> 'l
   \<Rightarrow> ((ledger_error + unit) \<times> 'l) option" where
  "reconcile_one port env r d l =
     (case d of
        RecoverySucceeded result_ref evidence_ref \<Rightarrow>
          Some (lp_succeed port env (record_fence r) result_ref evidence_ref l)
      | RecoveryFailed error_code \<Rightarrow>
          if er_status r = Running then Some (lp_fail port env (record_fence r) error_code l) else None
      | RecoveryManual reason \<Rightarrow>
          Some (lp_recover port env (record_fence r) (recovery_case env r reason) l)
      | RecoveryStillUnknown \<Rightarrow> None)"

fun reconcile_records ::
  "'l ledger_port \<Rightarrow> (nat \<Rightarrow> execution_record \<Rightarrow> ledger_error + recovery_decision) \<Rightarrow> (nat \<Rightarrow> ledger_env)
   \<Rightarrow> nat \<Rightarrow> execution_record list \<Rightarrow> nat \<Rightarrow> 'l \<Rightarrow> (ledger_error + nat) \<times> 'l" where
  "reconcile_records port resolve envs n [] reconciled l = (Ok reconciled, l)"
| "reconcile_records port resolve envs n (r # rs) reconciled l =
     (case resolve n r of
        Inl e \<Rightarrow> (Err e, l)
      | Inr d \<Rightarrow>
          (case reconcile_one port (envs n) r d l of
             None \<Rightarrow> reconcile_records port resolve envs (Suc n) rs reconciled l
           | Some (Inl e, l') \<Rightarrow> (Err e, l')
           | Some (Inr _, l') \<Rightarrow> reconcile_records port resolve envs (Suc n) rs (Suc reconciled) l'))"

definition reconcile ::
  "'l ledger_port \<Rightarrow> (nat \<Rightarrow> execution_record \<Rightarrow> ledger_error + recovery_decision) \<Rightarrow> (nat \<Rightarrow> ledger_env)
   \<Rightarrow> string \<Rightarrow> datetime \<Rightarrow> 'l \<Rightarrow> (ledger_error + nat) \<times> 'l" where
  "reconcile port resolve envs tenant_id before l =
     (case lp_stale port tenant_id before l of
        Inl e \<Rightarrow> (Err e, l)
      | Inr stale \<Rightarrow> reconcile_records port resolve envs 0 stale 0 l)"

text \<open>The record a decision leads to.\<close>

definition settled_record ::
  "ledger_env \<Rightarrow> recovery_decision \<Rightarrow> execution_record \<Rightarrow> execution_record option" where
  "settled_record env d r =
     (case d of
        RecoverySucceeded a b \<Rightarrow>
          next_of_call env (MarkSucceeded (record_fence r) a b) r
      | RecoveryFailed c \<Rightarrow>
          if er_status r = Running then next_of_call env (MarkFailed (record_fence r) c) r else None
      | RecoveryManual reason \<Rightarrow>
          next_of_call env (MarkManualRecovery (record_fence r) (recovery_case env r reason)) r
      | RecoveryStillUnknown \<Rightarrow> None)"

text \<open>
  What the scanner needs of a ledger: a call on an existing record whose fence it holds and whose
  status allows it succeeds, and rewrites that record and no other.
\<close>

locale settling_ledger =
  fixes port :: "'l ledger_port"
    and look :: "'l \<Rightarrow> string \<Rightarrow> execution_record option"
  assumes settles: "look l (er_execution_id r) = Some r \<Longrightarrow> er_status r \<in> {Running, Unknown} \<Longrightarrow>
      (case settled_record env d r of
         None \<Rightarrow> reconcile_one port env r d l = None
       | Some r' \<Rightarrow> \<exists>l'. reconcile_one port env r d l = Some (Ok (), l')
           \<and> look l' = (look l)(er_execution_id r \<mapsto> r'))"
begin

lemma records_reconciled:
  assumes "\<forall>r \<in> set rs. look l (er_execution_id r) = Some r \<and> er_status r \<in> {Running, Unknown}"
    and "distinct (map er_execution_id rs)"
    and "\<And>k r. resolve k r = Ok (decide r)"
    and "\<And>k. envs k = env"
  shows "fst (reconcile_records port resolve envs n rs c l) =
      Ok (c + length (filter (\<lambda>r. settled_record env (decide r) r \<noteq> None) rs))
    \<and> look (snd (reconcile_records port resolve envs n rs c l)) e =
        (case find (\<lambda>r. er_execution_id r = e) rs of
           None \<Rightarrow> look l e
         | Some r \<Rightarrow>
             (case settled_record env (decide r) r of None \<Rightarrow> look l e | Some r' \<Rightarrow> Some r'))"
  using assms(1,2)
proof (induction rs arbitrary: n c l)
  case (Cons r rs)
  have law: "look l (er_execution_id r) = Some r" "er_status r \<in> {Running, Unknown}"
    using Cons.prems(1) by auto
  have gone: "e = er_execution_id r \<Longrightarrow> find (\<lambda>r. er_execution_id r = e) rs = None"
    using Cons.prems(2) by (force simp: find_None_iff intro: rev_image_eqI)
  show ?case
  proof (cases "settled_record env (decide r) r")
    case None
    then have "reconcile_one port env r (decide r) l = None"
      using settles [OF law, of env "decide r"] by simp
    then show ?thesis
      using Cons.IH [of l "Suc n" c] Cons.prems None gone by (auto simp: assms(3,4))
  next
    case (Some r')
    then obtain l' where one: "reconcile_one port env r (decide r) l = Some (Ok (), l')"
      and upd: "look l' = (look l)(er_execution_id r \<mapsto> r')"
      using settles [OF law, of env "decide r"] by auto
    have rest: "\<forall>q \<in> set rs. look l' (er_execution_id q) = Some q \<and> er_status q \<in> {Running, Unknown}"
    proof
      fix q
      assume q: "q \<in> set rs"
      then have "er_execution_id q \<noteq> er_execution_id r"
        using Cons.prems(2) by (force intro: rev_image_eqI)
      then show "look l' (er_execution_id q) = Some q \<and> er_status q \<in> {Running, Unknown}"
        using Cons.prems(1) q by (simp add: upd)
    qed
    have step: "reconcile_records port resolve envs n (r # rs) c l =
        reconcile_records port resolve envs (Suc n) rs (Suc c) l'"
      by (simp add: assms(3,4) one)
    have "distinct (map er_execution_id rs)"
      using Cons.prems(2) by simp
    note ih = Cons.IH [OF rest this, of "Suc n" "Suc c"]
    show ?thesis
      unfolding step using ih gone
      by (cases "e = er_execution_id r") (simp_all add: Some upd split: option.split)
  qed
qed simp

end

definition memory_port :: "in_memory_ledger ledger_port" where
  "memory_port = \<lparr>lp_stale = (\<lambda>t b l. stale_non_terminal l t b), lp_succeed = mark_succeeded,
     lp_fail = mark_failed, lp_recover = mark_manual_recovery\<rparr>"

interpretation memory: settling_ledger memory_port "\<lambda>l :: in_memory_ledger. bt_get (ms_by_execution l)"
proof
  fix l :: in_memory_ledger and r d env
  assume "bt_get (ms_by_execution l) (er_execution_id r) = Some r" "er_status r \<in> {Running, Unknown}"
  then show "case settled_record env d r of
      None \<Rightarrow> reconcile_one memory_port env r d l = None
    | Some r' \<Rightarrow> \<exists>l'. reconcile_one memory_port env r d l = Some (Ok (), l')
        \<and> bt_get (ms_by_execution l') = (bt_get (ms_by_execution l))(er_execution_id r \<mapsto> r')"
    by (cases d)
      (auto simp: reconcile_one_def settled_record_def memory_port_def mark_defs transition_def
        record_fence_def next_of_call_def fun_eq_iff bt.get_put)
qed

definition is_stale :: "string \<Rightarrow> datetime \<Rightarrow> execution_record \<Rightarrow> bool" where
  "is_stale tenant_id before r \<longleftrightarrow> ei_tenant_id (er_intent r) = tenant_id \<and> er_updated_at r \<le> before
     \<and> er_status r \<in> {Running, Unknown}"

lemma stale_records:
  assumes "ledger_ok lg"
    and rs_def: "rs = filter (is_stale tenant_id before) (bt_values (ms_by_execution lg))"
  shows "stale_non_terminal lg tenant_id before = Ok rs"
    and "\<forall>r \<in> set rs. bt_get (ms_by_execution lg) (er_execution_id r) = Some r
           \<and> er_status r \<in> {Running, Unknown}"
    and "distinct (map er_execution_id rs)"
    and "find (\<lambda>r. er_execution_id r = e) rs =
           (case bt_get (ms_by_execution lg) e of
              None \<Rightarrow> None | Some r \<Rightarrow> if is_stale tenant_id before r then Some r else None)"
proof -
  let ?m = "ms_by_execution lg"
  have ok: "bt_ok ?m" and ids: "\<And>i r. (i, r) \<in> set ?m \<Longrightarrow> er_execution_id r = i"
    using assms(1) by (auto simp: ledger_ok_def index_ok_def fences_ok_def in_set_bt_iff)
  show "stale_non_terminal lg tenant_id before = Ok rs"
    unfolding rs_def stale_non_terminal_def is_stale_def ..
  have mem: "r \<in> set rs \<longleftrightarrow> bt_get ?m (er_execution_id r) = Some r \<and> is_stale tenant_id before r" for r
    using ids by (auto simp: rs_def in_bt_values_iff [OF ok] in_set_bt_iff [OF ok])
  then show "\<forall>r \<in> set rs. bt_get ?m (er_execution_id r) = Some r \<and> er_status r \<in> {Running, Unknown}"
    by (simp add: is_stale_def)
  have "map er_execution_id (bt_values ?m) = bt_keys ?m"
    using ids by (auto simp: bt_values_def bt_keys_def)
  then have "distinct (map er_execution_id (bt_values ?m))"
    using bt_ok_distinct [OF ok] by (simp add: bt_keys_def)
  then show dist: "distinct (map er_execution_id rs)"
    by (simp add: rs_def distinct_map_filter)
  show "find (\<lambda>r. er_execution_id r = e) rs =
      (case bt_get ?m e of None \<Rightarrow> None | Some r \<Rightarrow> if is_stale tenant_id before r then Some r else None)"
  proof (cases "find (\<lambda>r. er_execution_id r = e) rs")
    case None
    then have "\<And>r. r \<in> set rs \<Longrightarrow> er_execution_id r \<noteq> e"
      by (auto simp: find_None_iff)
    then show ?thesis
      using None mem ids by (auto simp: in_set_bt_iff [OF ok] split: option.splits)
  next
    case (Some r)
    then have "r \<in> set rs" "er_execution_id r = e"
      by (auto simp: find_Some_iff)
    then show ?thesis
      using Some mem by auto
  qed
qed

text \<open>Recovery settles the stale executions of one tenant and nothing else. On a reachable ledger,
  with a resolver that answers, \<open>reconcile\<close> succeeds, counts the executions it decided, gives each
  of them the outcome the resolver named, and leaves every other record, those of other tenants
  included, as it was.\<close>

theorem recovery_settles_stale_executions:
  assumes "ledger_run uuid lg"
  shows "fst (reconcile memory_port (\<lambda>k r. Ok (decide r)) (\<lambda>k. env) tenant_id before lg) =
      Ok (length (filter (\<lambda>r. is_stale tenant_id before r \<and> settled_record env (decide r) r \<noteq> None)
            (bt_values (ms_by_execution lg))))
    \<and> bt_get (ms_by_execution
          (snd (reconcile memory_port (\<lambda>k r. Ok (decide r)) (\<lambda>k. env) tenant_id before lg))) e =
        (case bt_get (ms_by_execution lg) e of
           None \<Rightarrow> None
         | Some r \<Rightarrow>
             (case settled_record env (decide r) r of
                None \<Rightarrow> Some r
              | Some r' \<Rightarrow> if is_stale tenant_id before r then Some r' else Some r))"
proof -
  let ?rs = "filter (is_stale tenant_id before) (bt_values (ms_by_execution lg))"
  note stale = stale_records [OF ledger_machine.reach_inv [OF assms] refl, where tenant_id = tenant_id
      and before = before]
  have "reconcile memory_port (\<lambda>k r. Ok (decide r)) (\<lambda>k. env) tenant_id before lg =
      reconcile_records memory_port (\<lambda>k r. Ok (decide r)) (\<lambda>k. env) 0 ?rs 0 lg"
    using stale(1) by (simp add: reconcile_def memory_port_def)
  moreover note memory.records_reconciled [OF stale(2,3), where resolve = "\<lambda>k r. Ok (decide r)"
      and envs = "\<lambda>k. env" and env = env and decide = decide and n = 0 and c = 0 and e = e,
      OF refl refl]
  moreover have "filter (\<lambda>r. settled_record env (decide r) r \<noteq> None) ?rs =
      filter (\<lambda>r. is_stale tenant_id before r \<and> settled_record env (decide r) r \<noteq> None)
        (bt_values (ms_by_execution lg))"
    by (simp add: conj_commute)
  ultimately show ?thesis
    by (auto simp: stale(4) split: option.splits)
qed

theorem recovery_settles_stale_executions_witness:
  "bt_get (ms_by_execution (snd (reconcile memory_port (\<lambda>k r. Ok (RecoverySucceeded ''res'' ''ev''))
     (\<lambda>k. sample_env ''e5'' ''v5'') ''t1'' 100 sample_done))) ''e1'' = Some sample_done_record"
  by (subst recovery_settles_stale_executions [OF sample_runs(3),
        where decide = "\<lambda>r. RecoverySucceeded ''res'' ''ev''", THEN conjunct2])
    (simp add: settled_record_def next_of_call_def sample_done_record_def)

end
