(* ===== verification/Ledger_Postgres.thy ===== *)
theory Ledger_Postgres
  imports Ledger_Invariant
begin

text \<open>
  The PostgreSQL implementation of \<open>ExecutionLedger\<close> (\<open>transaction-ledger/src/lib.rs\<close>,
  \<open>PostgresExecutionLedger\<close>, \<open>pg_transition\<close>, \<open>row_to_record\<close>, \<open>parse_status\<close>) over the tables of
  \<open>migrations/transaction-ledger\<close>, with its failures, and its refinement of the in-memory ledger.

  The database is the part of the schema these functions read and write. A call is one
  transaction; calls run one after the other, which is what the advisory lock (for one key) and
  the row locks of the updates enforce. \<open>pe_ok n\<close> says whether the \<open>n\<close>-th statement of the
  transaction succeeds; a failed statement rolls everything back except the fence sequence.
  \<open>pe_commit_applied\<close> and \<open>pe_commit_ok\<close> are the two sides of a commit: a commit whose
  acknowledgement is lost has been applied and yet fails. Serialization to \<open>jsonb\<close> and back is the
  parameter \<open>pg_codec\<close>.
\<close>

subsection \<open>Tables\<close>

record pg_execution =
  px_execution_id :: string
  px_tenant_id :: string
  px_task_id :: string
  px_step_id :: string
  px_action_hash :: string
  px_idempotency_key :: string
  px_fence_token :: u64
  px_status :: string
  px_intent :: json
  px_attempt :: u32
  px_external_operation_id :: "string option"
  px_result_ref :: "string option"
  px_evidence_ref :: "string option"
  px_last_error_code :: "string option"
  px_manual_recovery :: "json option"
  px_created_at :: datetime
  px_updated_at :: datetime

record pg_event =
  pv_event_id :: string
  pv_tenant_id :: string
  pv_execution_id :: string
  pv_event_type :: string
  pv_payload :: json
  pv_created_at :: datetime

record pg_db =
  pd_executions :: "(string, pg_execution) btree"
  pd_idempotency_records :: "(string \<times> string, string \<times> string) btree"
  pd_outbox :: "pg_event list"
  pd_fence_seq :: u64

record pg_codec =
  pc_intent_to_value :: "execution_intent \<Rightarrow> json option"
  pc_intent_from_value :: "json \<Rightarrow> execution_intent option"
  pc_case_to_value :: "manual_recovery_case \<Rightarrow> json option"
  pc_case_from_value :: "json \<Rightarrow> manual_recovery_case option"

record pg_env = ledger_env +
  pe_ok :: "nat \<Rightarrow> bool"
  pe_commit_applied :: bool
  pe_commit_ok :: bool

text \<open>A column of type \<open>char(64)\<close> pads with blanks and refuses a longer value.\<close>

definition char64 :: "string \<Rightarrow> string option" where
  "char64 s = (if length s \<le> 64 then Some (s @ replicate (64 - length s) CHR '' '') else None)"

fun status_column :: "execution_status \<Rightarrow> string" where
  "status_column Prepared = ''PREPARED''"
| "status_column Running = ''RUNNING''"
| "status_column Succeeded = ''SUCCEEDED''"
| "status_column Failed = ''FAILED''"
| "status_column TimedOut = ''TIMED_OUT''"
| "status_column Cancelled = ''CANCELLED''"
| "status_column Killed = ''KILLED''"
| "status_column Compensating = ''COMPENSATING''"
| "status_column Compensated = ''COMPENSATED''"
| "status_column CompensationFailed = ''COMPENSATION_FAILED''"
| "status_column Unknown = ''UNKNOWN''"

definition parse_status :: "string \<Rightarrow> ledger_error + execution_status" where
  "parse_status s =
     (if s = ''PREPARED'' then Ok Prepared
      else if s = ''RUNNING'' then Ok Running
      else if s = ''SUCCEEDED'' then Ok Succeeded
      else if s = ''FAILED'' then Ok Failed
      else if s = ''TIMED_OUT'' then Ok TimedOut
      else if s = ''CANCELLED'' then Ok Cancelled
      else if s = ''KILLED'' then Ok Killed
      else if s = ''COMPENSATING'' then Ok Compensating
      else if s = ''COMPENSATED'' then Ok Compensated
      else if s = ''COMPENSATION_FAILED'' then Ok CompensationFailed
      else if s = ''UNKNOWN'' then Ok Unknown
      else Err StoreFailure)"

lemma parse_status_column [simp]: "parse_status (status_column s) = Ok s"
  by (cases s) (simp_all add: parse_status_def)

lemma status_column_inj [simp]: "status_column s = status_column t \<longleftrightarrow> s = t"
  by (metis parse_status_column sum.inject(2))

definition decode_case :: "pg_codec \<Rightarrow> json option \<Rightarrow> ledger_error + manual_recovery_case option" where
  "decode_case codec column =
     (case column of
        None \<Rightarrow> Ok None
      | Some value \<Rightarrow>
          (case pc_case_from_value codec value of
             None \<Rightarrow> Err StoreFailure | Some recovery \<Rightarrow> Ok (Some recovery)))"

definition row_to_record :: "pg_codec \<Rightarrow> pg_execution \<Rightarrow> ledger_error + execution_record" where
  "row_to_record codec row =
     (case pc_intent_from_value codec (px_intent row) of
        None \<Rightarrow> Err StoreFailure
      | Some intent \<Rightarrow>
          res_bind (parse_status (px_status row)) (\<lambda>status.
          res_bind (decode_case codec (px_manual_recovery row)) (\<lambda>recovery.
            Ok \<lparr>er_intent = intent, er_execution_id = px_execution_id row,
                er_fence_token = px_fence_token row, er_status = status,
                er_attempt = px_attempt row,
                er_external_operation_id = px_external_operation_id row,
                er_result_ref = px_result_ref row, er_evidence_ref = px_evidence_ref row,
                er_last_error_code = px_last_error_code row,
                er_created_at = px_created_at row, er_updated_at = px_updated_at row,
                er_manual_recovery = recovery\<rparr>)))"

text \<open>Ending a transaction that has got as far as its commit.\<close>

definition pg_commit ::
  "pg_env \<Rightarrow> pg_db \<Rightarrow> pg_db \<Rightarrow> 'r \<Rightarrow> (ledger_error + 'r) \<times> pg_db" where
  "pg_commit env before after r =
     (if pe_commit_applied env
      then (if pe_commit_ok env then Ok r else Err StoreFailure, after)
      else (Err StoreFailure, before))"

subsection \<open>Reservation\<close>

definition pg_find_key :: "pg_db \<Rightarrow> string \<Rightarrow> string \<Rightarrow> pg_execution option" where
  "pg_find_key db tenant_uuid key =
     find (\<lambda>row. px_tenant_id row = tenant_uuid \<and> px_idempotency_key row = key)
       (bt_values (pd_executions db))"

definition pg_new_row ::
  "pg_env \<Rightarrow> u64 \<Rightarrow> string \<Rightarrow> string \<Rightarrow> string \<Rightarrow> string \<Rightarrow> json \<Rightarrow> execution_intent \<Rightarrow> pg_execution" where
  "pg_new_row env fence_token tenant_uuid task_uuid step_uuid hash intent_json intent =
     \<lparr>px_execution_id = le_execution_id env, px_tenant_id = tenant_uuid, px_task_id = task_uuid,
      px_step_id = step_uuid, px_action_hash = hash,
      px_idempotency_key = ei_idempotency_key intent, px_fence_token = fence_token,
      px_status = ''PREPARED'', px_intent = intent_json, px_attempt = 0,
      px_external_operation_id = None, px_result_ref = None, px_evidence_ref = None,
      px_last_error_code = None, px_manual_recovery = None,
      px_created_at = le_now env, px_updated_at = le_now env\<rparr>"

definition pg_event_row :: "pg_env \<Rightarrow> string \<Rightarrow> string \<Rightarrow> string \<Rightarrow> json \<Rightarrow> pg_event" where
  "pg_event_row env tenant_uuid execution_uuid event_type payload =
     \<lparr>pv_event_id = le_event_id env, pv_tenant_id = tenant_uuid, pv_execution_id = execution_uuid,
      pv_event_type = event_type, pv_payload = payload, pv_created_at = le_now env\<rparr>"

text \<open>The three inserts: the primary keys and the unique key have to be free.\<close>

definition pg_insert_execution ::
  "pg_env \<Rightarrow> pg_execution \<Rightarrow> pg_db \<Rightarrow> pg_db option" where
  "pg_insert_execution env row db =
     (if bt_contains (pd_executions db) (px_execution_id row)
         \<or> pg_find_key db (px_tenant_id row) (px_idempotency_key row) \<noteq> None
         \<or> bt_contains (pd_idempotency_records db) (px_tenant_id row, px_idempotency_key row)
      then None
      else Some (db\<lparr>pd_executions := bt_insert (px_execution_id row) row (pd_executions db),
                    pd_idempotency_records :=
                      bt_insert (px_tenant_id row, px_idempotency_key row)
                        (px_action_hash row, px_execution_id row) (pd_idempotency_records db),
                    pd_outbox := pd_outbox db @
                      [pg_event_row env (px_tenant_id row) (px_execution_id row)
                        ''EXECUTION_RESERVED'' (JObject [])]\<rparr>))"

definition pg_reserve ::
  "pg_codec \<Rightarrow> (string \<Rightarrow> string option) \<Rightarrow> pg_env \<Rightarrow> execution_intent \<Rightarrow> pg_db
   \<Rightarrow> (ledger_error + reservation) \<times> pg_db" where
  "pg_reserve codec uuid env intent db =
     (case validate_intent uuid intent of
        Inl e \<Rightarrow> (Err e, db)
      | Inr _ \<Rightarrow>
     (case (uuid (ei_tenant_id intent), uuid (ei_task_id intent), uuid (ei_step_id intent)) of
        (Some tenant_uuid, Some task_uuid, Some step_uuid) \<Rightarrow>
          if \<not> (pe_ok env 0 \<and> pe_ok env 1 \<and> pe_ok env 2 \<and> pe_ok env 3) then (Err StoreFailure, db)
          else
            (case pg_find_key db tenant_uuid (ei_idempotency_key intent) of
               Some row \<Rightarrow>
                 if px_action_hash row \<noteq> ei_action_hash intent then (Err IdempotencyConflict, db)
                 else
                   (case parse_status (px_status row) of
                      Inl e \<Rightarrow> (Err e, db)
                    | Inr status \<Rightarrow>
                        pg_commit env db db
                          \<lparr>rs_execution_id = px_execution_id row,
                           rs_fence = \<lparr>ef_tenant_id = ei_tenant_id intent,
                                       ef_execution_id = px_execution_id row,
                                       ef_token = px_fence_token row\<rparr>,
                           rs_existing = True, rs_status = status\<rparr>)
             | None \<Rightarrow>
                 if \<not> pe_ok env 4 then (Err StoreFailure, db)
                 else
                   (let fence_token = pd_fence_seq db;
                        drawn = db\<lparr>pd_fence_seq := pd_fence_seq db + 1\<rparr>
                    in (case (pc_intent_to_value codec intent, char64 (ei_action_hash intent)) of
                          (Some intent_json, Some hash) \<Rightarrow>
                            (if \<not> (pe_ok env 5 \<and> pe_ok env 6 \<and> pe_ok env 7) then (Err StoreFailure, drawn)
                             else
                               (case pg_insert_execution env
                                       (pg_new_row env fence_token tenant_uuid task_uuid step_uuid hash
                                          intent_json intent) drawn of
                                  None \<Rightarrow> (Err StoreFailure, drawn)
                                | Some after \<Rightarrow>
                                    pg_commit env drawn after
                                      \<lparr>rs_execution_id = le_execution_id env,
                                       rs_fence = \<lparr>ef_tenant_id = ei_tenant_id intent,
                                                   ef_execution_id = le_execution_id env,
                                                   ef_token = fence_token\<rparr>,
                                       rs_existing = False, rs_status = Prepared\<rparr>))
                        | _ \<Rightarrow> (Err StoreFailure, drawn))))
      | _ \<Rightarrow> (Err IntentInvalid, db)))"

subsection \<open>Transitions\<close>

text \<open>SQL's \<open>COALESCE\<close> of a bound parameter and a column.\<close>

definition coalesce :: "'a option \<Rightarrow> 'a option \<Rightarrow> 'a option" where
  "coalesce x column = (case x of None \<Rightarrow> column | Some _ \<Rightarrow> x)"

definition json_of_option :: "string option \<Rightarrow> json" where
  "json_of_option x = (case x of None \<Rightarrow> JNull | Some s \<Rightarrow> JString s)"

definition pg_row_matches :: "pg_execution \<Rightarrow> string \<Rightarrow> u64 \<Rightarrow> execution_status list \<Rightarrow> bool" where
  "pg_row_matches row tenant_uuid token allowed \<longleftrightarrow>
     px_tenant_id row = tenant_uuid \<and> px_fence_token row = token
     \<and> px_status row \<in> set (map status_column allowed)"

definition pg_transition ::
  "(string \<Rightarrow> string option) \<Rightarrow> pg_env \<Rightarrow> execution_fence \<Rightarrow> execution_status list \<Rightarrow> execution_status
   \<Rightarrow> string option \<Rightarrow> string option \<Rightarrow> string option \<Rightarrow> string option \<Rightarrow> pg_db
   \<Rightarrow> (ledger_error + unit) \<times> pg_db" where
  "pg_transition uuid env fence allowed next external_operation_id error_code result evidence db =
     (case (uuid (ef_execution_id fence), uuid (ef_tenant_id fence)) of
        (Some execution_uuid, Some tenant_uuid) \<Rightarrow>
          if \<not> (pe_ok env 0 \<and> pe_ok env 1 \<and> pe_ok env 2) then (Err StoreFailure, db)
          else
            (case bt_get (pd_executions db) execution_uuid of
               None \<Rightarrow> (Err StaleFence, db)
             | Some row \<Rightarrow>
                 if \<not> pg_row_matches row tenant_uuid (ef_token fence) allowed then (Err StaleFence, db)
                 else if \<not> pe_ok env 3 then (Err StoreFailure, db)
                 else
                   pg_commit env db
                     (db\<lparr>pd_executions := bt_insert execution_uuid
                           (row\<lparr>px_status := status_column next,
                                px_external_operation_id :=
                                  coalesce external_operation_id (px_external_operation_id row),
                                px_last_error_code := coalesce error_code (px_last_error_code row),
                                px_result_ref := coalesce result (px_result_ref row),
                                px_evidence_ref := coalesce evidence (px_evidence_ref row),
                                px_attempt := (if next = Running then px_attempt row + 1
                                               else px_attempt row),
                                px_updated_at := le_now env\<rparr>) (pd_executions db),
                         pd_outbox := pd_outbox db @
                           [pg_event_row env tenant_uuid execution_uuid
                             (''EXECUTION_'' @ status_column next)
                             (JObject [(''status'', JString (status_column next)),
                                (''external_operation_id'', json_of_option external_operation_id),
                                (''error_code'', json_of_option error_code),
                                (''result_ref'', json_of_option result),
                                (''evidence_ref'', json_of_option evidence)])]\<rparr>) ())
      | _ \<Rightarrow> (Err StoreFailure, db))"

definition pg_mark_started where
  "pg_mark_started uuid env fence operation =
     pg_transition uuid env fence [Prepared] Running operation None None None"

definition pg_mark_succeeded where
  "pg_mark_succeeded uuid env fence result evidence =
     pg_transition uuid env fence [Running, Unknown] Succeeded None None (Some result) (Some evidence)"

definition pg_mark_failed where
  "pg_mark_failed uuid env fence error =
     pg_transition uuid env fence [Prepared, Running] Failed None (Some error) None None"

definition pg_mark_unknown where
  "pg_mark_unknown uuid env fence error =
     pg_transition uuid env fence [Running] Unknown None (Some error) None None"

definition pg_mark_manual_recovery ::
  "pg_codec \<Rightarrow> (string \<Rightarrow> string option) \<Rightarrow> pg_env \<Rightarrow> execution_fence \<Rightarrow> manual_recovery_case \<Rightarrow> pg_db
   \<Rightarrow> (ledger_error + unit) \<times> pg_db" where
  "pg_mark_manual_recovery codec uuid env fence recovery db =
     (case (pc_case_to_value codec recovery, uuid (ef_execution_id fence), uuid (ef_tenant_id fence)) of
        (Some value, Some execution_uuid, Some tenant_uuid) \<Rightarrow>
          if \<not> (pe_ok env 0 \<and> pe_ok env 1 \<and> pe_ok env 2) then (Err StoreFailure, db)
          else
            (case bt_get (pd_executions db) execution_uuid of
               None \<Rightarrow> (Err StaleFence, db)
             | Some row \<Rightarrow>
                 if \<not> pg_row_matches row tenant_uuid (ef_token fence)
                        [Running, Unknown, CompensationFailed]
                 then (Err StaleFence, db)
                 else if \<not> pe_ok env 3 then (Err StoreFailure, db)
                 else
                   pg_commit env db
                     (db\<lparr>pd_executions := bt_insert execution_uuid
                           (row\<lparr>px_manual_recovery := Some value, px_updated_at := le_now env\<rparr>)
                           (pd_executions db),
                         pd_outbox := pd_outbox db @
                           [pg_event_row env tenant_uuid execution_uuid
                             ''MANUAL_RECOVERY_REQUIRED'' value]\<rparr>) ())
      | _ \<Rightarrow> (Err StoreFailure, db))"

lemmas pg_mark_defs = pg_mark_started_def pg_mark_succeeded_def pg_mark_failed_def pg_mark_unknown_def

subsection \<open>Queries\<close>

definition pg_get ::
  "pg_codec \<Rightarrow> (string \<Rightarrow> string option) \<Rightarrow> pg_env \<Rightarrow> pg_db \<Rightarrow> string \<Rightarrow> string
   \<Rightarrow> ledger_error + execution_record" where
  "pg_get codec uuid env db tenant_id execution_id =
     (case (uuid tenant_id, uuid execution_id) of
        (Some tenant_uuid, Some execution_uuid) \<Rightarrow>
          if \<not> (pe_ok env 0 \<and> pe_ok env 1 \<and> pe_ok env 2) then Err StoreFailure
          else
            (case bt_get (pd_executions db) execution_uuid of
               None \<Rightarrow> Err LedgerNotFound
             | Some row \<Rightarrow>
                 if px_tenant_id row \<noteq> tenant_uuid then Err LedgerNotFound
                 else res_bind (row_to_record codec row) (\<lambda>record.
                   if pe_commit_applied env \<and> pe_commit_ok env then Ok record else Err StoreFailure))
      | _ \<Rightarrow> Err LedgerNotFound)"

definition pg_stale_non_terminal ::
  "pg_codec \<Rightarrow> (string \<Rightarrow> string option) \<Rightarrow> pg_env \<Rightarrow> pg_db \<Rightarrow> string \<Rightarrow> datetime
   \<Rightarrow> ledger_error + execution_record list" where
  "pg_stale_non_terminal codec uuid env db tenant_id before =
     (case uuid tenant_id of
        None \<Rightarrow> Err LedgerNotFound
      | Some tenant_uuid \<Rightarrow>
          if \<not> (pe_ok env 0 \<and> pe_ok env 1 \<and> pe_ok env 2) then Err StoreFailure
          else if \<not> (pe_commit_applied env \<and> pe_commit_ok env) then Err StoreFailure
          else
            foldr (\<lambda>row acc. res_bind (row_to_record codec row) (\<lambda>r.
                     res_bind acc (\<lambda>rs. Ok (r # rs))))
              (take 100 (sort_key px_updated_at
                 (filter (\<lambda>row. px_tenant_id row = tenant_uuid \<and> px_updated_at row \<le> before
                            \<and> px_status row \<in> {''RUNNING'', ''UNKNOWN''})
                    (bt_values (pd_executions db)))))
              (Ok []))"

subsection \<open>Refinement of the in-memory ledger\<close>

definition codec_restores :: "pg_codec \<Rightarrow> execution_intent \<Rightarrow> bool" where
  "codec_restores codec i \<longleftrightarrow>
     (case pc_intent_to_value codec i of
        None \<Rightarrow> False | Some v \<Rightarrow> pc_intent_from_value codec v = Some i)"

definition row_for :: "pg_codec \<Rightarrow> pg_execution \<Rightarrow> execution_record \<Rightarrow> bool" where
  "row_for codec row r \<longleftrightarrow> row_to_record codec row = Ok r
     \<and> px_tenant_id row = ei_tenant_id (er_intent r)
     \<and> px_idempotency_key row = ei_idempotency_key (er_intent r)
     \<and> px_action_hash row = ei_action_hash (er_intent r)
     \<and> px_status row = status_column (er_status r)"

definition pg_refines :: "pg_codec \<Rightarrow> pg_db \<Rightarrow> in_memory_ledger \<Rightarrow> bool" where
  "pg_refines codec db lg \<longleftrightarrow> bt_ok (pd_executions db) \<and> pd_fence_seq db = ml_next_fence lg
     \<and> (\<forall>e. rel_option (row_for codec) (bt_get (pd_executions db) e) (bt_get (ms_by_execution lg) e))
     \<and> (\<forall>k. bt_get (pd_idempotency_records db) k = None \<longleftrightarrow> bt_get (ms_by_idempotency lg) k = None)"

definition pg_all_ok :: "pg_env \<Rightarrow> bool" where
  "pg_all_ok env \<longleftrightarrow> (\<forall>n. pe_ok env n) \<and> pe_commit_applied env \<and> pe_commit_ok env"

definition faultless :: "pg_env \<Rightarrow> pg_env" where
  "faultless env = env\<lparr>pe_ok := \<lambda>_. True, pe_commit_applied := True, pe_commit_ok := True\<rparr>"

lemma row_for_fields:
  assumes "row_for codec row r"
  shows "er_execution_id r = px_execution_id row" "er_fence_token r = px_fence_token row"
    "parse_status (px_status row) = Ok (er_status r)"
  using assms
  by (auto simp: row_for_def row_to_record_def res_bind_Ok_iff split: option.splits)

lemma pg_find_key_eq:
  assumes refines: "pg_refines codec db lg" and ok: "ledger_ok lg"
  shows "pg_find_key db t k =
    (case bt_get (ms_by_idempotency lg) (t, k) of
       None \<Rightarrow> None | Some e \<Rightarrow> bt_get (pd_executions db) e)"
proof -
  have rows: "bt_ok (pd_executions db)"
    and rel: "\<And>e. rel_option (row_for codec) (bt_get (pd_executions db) e) (bt_get (ms_by_execution lg) e)"
    using refines by (auto simp: pg_refines_def)
  have hit: "bt_get (ms_by_idempotency lg) (t, k) = Some e"
    if row: "bt_get (pd_executions db) e = Some row" "px_tenant_id row = t" "px_idempotency_key row = k"
    for e row
  proof -
    obtain r where "bt_get (ms_by_execution lg) e = Some r" "row_for codec row r"
      using rel [of e] row(1) by (auto simp: option_rel_Some1)
    then show ?thesis
      using ok row(2,3) by (simp add: ledger_ok_def index_ok_def row_for_def) (auto simp: intent_key_def)
  qed
  show ?thesis
  proof (cases "pg_find_key db t k")
    case None
    then have miss: "bt_get (pd_executions db) e = Some row \<Longrightarrow>
        \<not> (px_tenant_id row = t \<and> px_idempotency_key row = k)" for e row
      using in_bt_values_iff [OF rows] by (fastforce simp: pg_find_key_def find_None_iff)
    have "bt_get (ms_by_idempotency lg) (t, k) = None"
    proof (rule ccontr)
      assume "bt_get (ms_by_idempotency lg) (t, k) \<noteq> None"
      then obtain e where "bt_get (ms_by_idempotency lg) (t, k) = Some e" by blast
      then obtain r where r: "bt_get (ms_by_execution lg) e = Some r" "intent_key (er_intent r) = (t, k)"
        using ok by (metis ledger_ok_def index_ok_def)
      then obtain row where "bt_get (pd_executions db) e = Some row" "row_for codec row r"
        using rel [of e] by (auto simp: option_rel_Some2)
      then show False
        using miss r(2) by (auto simp: row_for_def intent_key_def)
    qed
    then show ?thesis using None by simp
  next
    case (Some row)
    then obtain e where "bt_get (pd_executions db) e = Some row" "px_tenant_id row = t"
        "px_idempotency_key row = k"
      using in_bt_values_iff [OF rows] by (auto simp: pg_find_key_def find_Some_iff set_conv_nth)
    then show ?thesis
      using hit Some by simp
  qed
qed

lemma pg_refines_insert:
  assumes "pg_refines codec db lg" "row_for codec row r"
  shows "rel_option (row_for codec) (bt_get (bt_insert e row (pd_executions db)) e')
    (bt_get (bt_insert e r (ms_by_execution lg)) e')"
  using assms by (auto simp: pg_refines_def bt.get_put)

lemma row_for_iff:
  "row_for codec row r \<longleftrightarrow>
     pc_intent_from_value codec (px_intent row) = Some (er_intent r)
     \<and> px_status row = status_column (er_status r)
     \<and> decode_case codec (px_manual_recovery row) = Ok (er_manual_recovery r)
     \<and> px_execution_id row = er_execution_id r \<and> px_fence_token row = er_fence_token r
     \<and> px_attempt row = er_attempt r \<and> px_external_operation_id row = er_external_operation_id r
     \<and> px_result_ref row = er_result_ref r \<and> px_evidence_ref row = er_evidence_ref r
     \<and> px_last_error_code row = er_last_error_code r \<and> px_created_at row = er_created_at r
     \<and> px_updated_at row = er_updated_at r
     \<and> px_tenant_id row = ei_tenant_id (er_intent r)
     \<and> px_idempotency_key row = ei_idempotency_key (er_intent r)
     \<and> px_action_hash row = ei_action_hash (er_intent r)"
  by (cases r) (auto simp: row_for_def row_to_record_def res_bind_Ok_iff split: option.splits)

lemma truncate_env [simp]:
  "le_now (ledger_env.truncate env) = le_now env"
  "le_execution_id (ledger_env.truncate env) = le_execution_id env"
  by (simp_all add: ledger_env.truncate_def)

definition outcomes_agree ::
  "pg_codec \<Rightarrow> (ledger_error + unit) \<times> pg_db \<Rightarrow> (ledger_error + unit) \<times> in_memory_ledger \<Rightarrow> bool" where
  "outcomes_agree codec p m \<longleftrightarrow> pg_refines codec (snd p) (snd m)
     \<and> (fst p = Ok () \<and> fst m = Ok ()
        \<or> fst p = Err StaleFence \<and> fst m \<in> {Err LedgerNotFound, Err StaleFence, Err TransitionInvalid})"

lemma pg_transition_agrees:
  assumes refines: "pg_refines codec db lg" and ok: "ledger_ok lg" and env: "pg_all_ok env"
    and uuids: "uuid (ef_tenant_id fence) = Some (ef_tenant_id fence)"
      "uuid (ef_execution_id fence) = Some (ef_execution_id fence)"
    and fields: "\<And>row r. row_for codec row r \<Longrightarrow> record_ok r \<Longrightarrow> er_status r \<in> set allowed \<Longrightarrow>
      row_for codec
        (row\<lparr>px_status := status_column next,
             px_external_operation_id := coalesce operation (px_external_operation_id row),
             px_last_error_code := coalesce error (px_last_error_code row),
             px_result_ref := coalesce result (px_result_ref row),
             px_evidence_ref := coalesce evidence (px_evidence_ref row),
             px_attempt := (if next = Running then px_attempt row + 1 else px_attempt row),
             px_updated_at := le_now env\<rparr>)
        (update (r\<lparr>er_status := next, er_updated_at := le_now env\<rparr>))"
  shows "outcomes_agree codec (pg_transition uuid env fence allowed next operation error result evidence db)
    (transition (ledger_env.truncate env) fence allowed next update lg)"
proof (cases "bt_get (ms_by_execution lg) (ef_execution_id fence)")
  case None
  then have "bt_get (pd_executions db) (ef_execution_id fence) = None"
    using refines by (auto simp: pg_refines_def option_rel_Some1 dest!: spec [of _ "ef_execution_id fence"])
  then show ?thesis
    using None refines env
    by (simp add: outcomes_agree_def pg_transition_def transition_def uuids pg_all_ok_def)
next
  case (Some r)
  then obtain row where row: "bt_get (pd_executions db) (ef_execution_id fence) = Some row" "row_for codec row r"
    using refines by (auto simp: pg_refines_def option_rel_Some2 dest!: spec [of _ "ef_execution_id fence"])
  have same: "pg_row_matches row (ef_tenant_id fence) (ef_token fence) allowed \<longleftrightarrow>
      ei_tenant_id (er_intent r) = ef_tenant_id fence \<and> er_fence_token r = ef_token fence
      \<and> er_status r \<in> set allowed"
    using row(2) by (auto simp: pg_row_matches_def row_for_iff)
  have good: "record_ok r"
    using ok Some by (auto simp: ledger_ok_def records_ok_def)
  show ?thesis
  proof (cases "pg_row_matches row (ef_tenant_id fence) (ef_token fence) allowed")
    case False
    then show ?thesis
      using Some row refines env same
      by (auto simp: outcomes_agree_def pg_transition_def transition_def uuids pg_all_ok_def)
  next
    case True
    then have "er_status r \<in> set allowed" using same by simp
    note new = fields [OF row(2) good this]
    show ?thesis
      using Some row env same True refines pg_refines_insert [OF refines new]
      by (auto simp: outcomes_agree_def pg_transition_def transition_def uuids pg_all_ok_def
          pg_commit_def pg_refines_def)
  qed
qed

text \<open>An empty database, and one with the reservation of a sample intent.\<close>

definition pg_empty :: pg_db where
  "pg_empty = \<lparr>pd_executions = bt_empty, pd_idempotency_records = bt_empty, pd_outbox = [],
     pd_fence_seq = 1\<rparr>"

lemma pg_empty_refines: "pg_refines codec pg_empty ledger_default"
  by (simp add: pg_refines_def pg_empty_def ledger_default_def)

definition sample_hash :: string where
  "sample_hash = replicate 64 CHR ''a''"

definition sample_codec :: pg_codec where
  "sample_codec = \<lparr>pc_intent_to_value = \<lambda>_. Some JNull,
     pc_intent_from_value = \<lambda>_. Some (sample_intent sample_hash),
     pc_case_to_value = \<lambda>_. None, pc_case_from_value = \<lambda>_. None\<rparr>"

definition sample_pg_env :: "string \<Rightarrow> pg_env" where
  "sample_pg_env e = ledger_env.extend (sample_env e ''v'')
     \<lparr>pe_ok = \<lambda>_. True, pe_commit_applied = True, pe_commit_ok = True\<rparr>"

definition sample_row :: pg_execution where
  "sample_row = pg_new_row (sample_pg_env ''e1'') 1 ''t1'' ''k1'' ''s1'' sample_hash JNull
     (sample_intent sample_hash)"

definition sample_db :: pg_db where
  "sample_db = \<lparr>pd_executions = bt_insert ''e1'' sample_row bt_empty,
     pd_idempotency_records = bt_insert (''t1'', ''key-1'') (sample_hash, ''e1'') bt_empty,
     pd_outbox = [], pd_fence_seq = 2\<rparr>"

definition sample_memory :: in_memory_ledger where
  "sample_memory = extended (sample_env ''e1'' ''v'') (sample_intent sample_hash) ledger_default"

lemma sample_pg_env_ok: "pg_all_ok (sample_pg_env e)"
  by (simp add: pg_all_ok_def sample_pg_env_def ledger_env.extend_def)

lemma sample_memory_ok: "ledger_ok sample_memory"
proof -
  have "ledger_step sample_uuid ledger_default
      (ledger_apply sample_uuid (sample_env ''e1'' ''v'') (Reserve (sample_intent sample_hash)) ledger_default)"
    by (rule ledger_step.called) (simp_all add: ledger_default_def)
  moreover have "ledger_apply sample_uuid (sample_env ''e1'' ''v'') (Reserve (sample_intent sample_hash))
      ledger_default = sample_memory"
    by (simp add: reserve_state sample_memory_def) (simp add: ledger_default_def)
  ultimately show ?thesis
    using ledger_ok_default by (auto intro: ledger_ok_step)
qed

lemma sample_db_refines: "pg_refines sample_codec sample_db sample_memory"
  by (auto simp: pg_refines_def sample_db_def sample_memory_def ledger_default_def bt.get_put
      row_for_iff sample_row_def pg_new_row_def new_record_def sample_codec_def decode_case_def
      sample_intent_def sample_env_def sample_pg_env_def ledger_env.extend_def intent_key_def)

text \<open>C32: the database implements the in-memory ledger in its four ordinary transitions. On related states,
  when no statement fails and the identifiers of the fence are UUIDs in canonical form, marking an
  execution started, succeeded, failed or unknown succeeds in one exactly when it succeeds in the other,
  and leaves related states: the same executions with the same status, fence, attempt, results and
  errors. The fifth, \<open>mark_manual_recovery\<close>, is not among them: it diverges
  (\<open>manual_recovery_diverges\<close>).\<close>

theorem pg_transitions_refine_memory:
  assumes "pg_refines codec db lg" and "ledger_ok lg" and "pg_all_ok env"
    and "uuid (ef_tenant_id fence) = Some (ef_tenant_id fence)"
    and "uuid (ef_execution_id fence) = Some (ef_execution_id fence)"
  shows "outcomes_agree codec (pg_mark_started uuid env fence operation db)
        (mark_started (ledger_env.truncate env) fence operation lg)
    \<and> outcomes_agree codec (pg_mark_succeeded uuid env fence result evidence db)
        (mark_succeeded (ledger_env.truncate env) fence result evidence lg)
    \<and> outcomes_agree codec (pg_mark_failed uuid env fence error db)
        (mark_failed (ledger_env.truncate env) fence error lg)
    \<and> outcomes_agree codec (pg_mark_unknown uuid env fence error db)
        (mark_unknown (ledger_env.truncate env) fence error lg)"
  unfolding pg_mark_defs mark_defs
  by (intro conjI pg_transition_agrees [OF assms])
    (auto simp: row_for_iff coalesce_def record_ok_def split: option.split)

theorem pg_transitions_refine_memory_witness:
  "outcomes_agree sample_codec
     (pg_mark_started sample_uuid (sample_pg_env ''e2'') sample_fence (Some ''op'') sample_db)
     (mark_started (ledger_env.truncate (sample_pg_env ''e2'')) sample_fence (Some ''op'') sample_memory)"
  using pg_transitions_refine_memory [OF sample_db_refines sample_memory_ok sample_pg_env_ok,
      of sample_uuid sample_fence "''e2''" "Some ''op''"]
  by (simp add: sample_uuid_def sample_fence_def)

text \<open>
  Sending a running execution to manual recovery succeeds in both, but only the in-memory ledger makes
  it unknown; the row in the database stays running, so the states are not related any more.
\<close>

lemma manual_recovery_diverges:
  assumes "pg_refines codec db lg" and "pg_all_ok env"
    and "uuid (ef_tenant_id fence) = Some (ef_tenant_id fence)"
    and "uuid (ef_execution_id fence) = Some (ef_execution_id fence)"
    and "bt_get (ms_by_execution lg) (ef_execution_id fence) = Some r" and "er_status r = Running"
    and "ei_tenant_id (er_intent r) = ef_tenant_id fence" and "er_fence_token r = ef_token fence"
    and "pc_case_to_value codec recovery = Some v"
  shows "fst (pg_mark_manual_recovery codec uuid env fence recovery db) = Ok ()
    \<and> fst (mark_manual_recovery (ledger_env.truncate env) fence recovery lg) = Ok ()
    \<and> \<not> pg_refines codec (snd (pg_mark_manual_recovery codec uuid env fence recovery db))
        (snd (mark_manual_recovery (ledger_env.truncate env) fence recovery lg))"
proof -
  obtain row where row: "bt_get (pd_executions db) (ef_execution_id fence) = Some row" "row_for codec row r"
    using assms(1,5) by (auto simp: pg_refines_def option_rel_Some2 dest!: spec [of _ "ef_execution_id fence"])
  then have matches: "pg_row_matches row (ef_tenant_id fence) (ef_token fence) [Running, Unknown, CompensationFailed]"
    using assms(6-8) by (auto simp: pg_row_matches_def row_for_iff)
  let ?db = "snd (pg_mark_manual_recovery codec uuid env fence recovery db)"
  let ?lg = "snd (mark_manual_recovery (ledger_env.truncate env) fence recovery lg)"
  have pg: "fst (pg_mark_manual_recovery codec uuid env fence recovery db) = Ok ()"
    "bt_get (pd_executions ?db) (ef_execution_id fence)
       = Some (row\<lparr>px_manual_recovery := Some v, px_updated_at := le_now env\<rparr>)"
    using row(1) matches assms(2-4,9)
    by (simp_all add: pg_mark_manual_recovery_def pg_all_ok_def pg_commit_def bt.get_put)
  have mem: "fst (mark_manual_recovery (ledger_env.truncate env) fence recovery lg) = Ok ()"
    "\<exists>r'. bt_get (ms_by_execution ?lg) (ef_execution_id fence) = Some r' \<and> er_status r' = Unknown"
    using assms(5-8) by (auto simp: mark_manual_recovery_def transition_def bt.get_put)
  have "\<not> pg_refines codec ?db ?lg"
  proof
    assume "pg_refines codec ?db ?lg"
    then have "rel_option (row_for codec) (bt_get (pd_executions ?db) (ef_execution_id fence))
        (bt_get (ms_by_execution ?lg) (ef_execution_id fence))"
      unfolding pg_refines_def by blast
    with pg(2) mem(2) have "px_status row = status_column Unknown"
      by (auto simp: row_for_iff)
    then show False
      using row(2) assms(6) by (simp add: row_for_iff)
  qed
  with pg(1) mem(1) show ?thesis by simp
qed

text \<open>Reserving in the database gives the very reservation the in-memory ledger gives, the new
  execution and fence or the existing one or the same error, and related states.\<close>

theorem pg_reserve_refines_memory:
  assumes refines: "pg_refines codec db lg" and ok: "ledger_ok lg" and env: "pg_all_ok env"
    and codec: "codec_restores codec intent"
    and fresh: "bt_get (ms_by_execution lg) (le_execution_id env) = None"
    and uuid: "uuid (ei_tenant_id intent) = Some (ei_tenant_id intent)"
    and hash: "length (ei_action_hash intent) = 64"
  shows "fst (pg_reserve codec uuid env intent db) = fst (reserve uuid (ledger_env.truncate env) intent lg)
    \<and> pg_refines codec (snd (pg_reserve codec uuid env intent db))
        (snd (reserve uuid (ledger_env.truncate env) intent lg))"
proof (cases "validate_intent uuid intent")
  case (Inl e)
  then show ?thesis using refines by (simp add: pg_reserve_def reserve_def)
next
  case (Inr u)
  then obtain task step where ids: "uuid (ei_task_id intent) = Some task" "uuid (ei_step_id intent) = Some step"
    by (auto simp: validate_intent_def split: if_splits)
  let ?t = "ei_tenant_id intent" and ?k = "ei_idempotency_key intent"
  have find: "pg_find_key db ?t ?k =
      (case bt_get (ms_by_idempotency lg) (?t, ?k) of None \<Rightarrow> None | Some e \<Rightarrow> bt_get (pd_executions db) e)"
    by (rule pg_find_key_eq [OF refines ok])
  show ?thesis
  proof (cases "bt_get (ms_by_idempotency lg) (?t, ?k)")
    case (Some e)
    then obtain r where r: "bt_get (ms_by_execution lg) e = Some r" "intent_key (er_intent r) = (?t, ?k)"
      using ok by (metis ledger_ok_def index_ok_def)
    then obtain row where row: "bt_get (pd_executions db) e = Some row" "row_for codec row r"
      using refines by (auto simp: pg_refines_def option_rel_Some2 dest!: spec [of _ e])
    have "er_execution_id r = e"
      using ok r(1) by (auto simp: ledger_ok_def fences_ok_def)
    with Some r row show ?thesis
      using Inr uuid ids env find refines
      by (auto simp: pg_reserve_def reserve_def pg_all_ok_def pg_commit_def intent_key_def row_for_iff
          existing_reservation_def)
  next
    case None
    obtain v where v: "pc_intent_to_value codec intent = Some v" "pc_intent_from_value codec v = Some intent"
      using codec by (auto simp: codec_restores_def split: option.splits)
    let ?row = "pg_new_row env (pd_fence_seq db) ?t task step (ei_action_hash intent) v intent"
    let ?r = "new_record (ledger_env.truncate env) (ml_next_fence lg) intent"
    have new: "row_for codec ?row ?r"
      using refines v by (simp add: row_for_iff pg_new_row_def new_record_def decode_case_def pg_refines_def)
    have free: "bt_get (pd_executions db) (le_execution_id env) = None"
      using refines fresh by (auto simp: pg_refines_def option_rel_Some1 dest!: spec [of _ "le_execution_id env"])
    have unused: "bt_get (pd_idempotency_records db) (?t, ?k) = None"
      using refines None by (simp add: pg_refines_def)
    let ?drawn = "db\<lparr>pd_fence_seq := pd_fence_seq db + 1\<rparr>"
    let ?after = "?drawn\<lparr>pd_executions := bt_insert (le_execution_id env) ?row (pd_executions db),
        pd_idempotency_records := bt_insert (?t, ?k) (ei_action_hash intent, le_execution_id env)
          (pd_idempotency_records db),
        pd_outbox := pd_outbox db @ [pg_event_row env ?t (le_execution_id env)
          ''EXECUTION_RESERVED'' (JObject [])]\<rparr>"
    have insert: "pg_insert_execution env ?row ?drawn = Some ?after"
      using find None free unused
      by (simp add: pg_insert_execution_def pg_new_row_def bt_contains_def pg_find_key_def)
    have seq: "pd_fence_seq db = ml_next_fence lg"
      using refines by (simp add: pg_refines_def)
    have db': "pg_reserve codec uuid env intent db =
        (Ok \<lparr>rs_execution_id = le_execution_id env,
             rs_fence = \<lparr>ef_tenant_id = ?t, ef_execution_id = le_execution_id env,
                         ef_token = pd_fence_seq db\<rparr>,
             rs_existing = False, rs_status = Prepared\<rparr>, ?after)"
      unfolding pg_reserve_def
      using Inr uuid ids env find None v(1) hash insert
      by (simp add: pg_all_ok_def Let_def char64_def pg_commit_def)
    have lg': "reserve uuid (ledger_env.truncate env) intent lg =
        (Ok \<lparr>rs_execution_id = le_execution_id env,
             rs_fence = \<lparr>ef_tenant_id = ?t, ef_execution_id = le_execution_id env,
                         ef_token = ml_next_fence lg\<rparr>,
             rs_existing = False, rs_status = Prepared\<rparr>, extended (ledger_env.truncate env) intent lg)"
      using Inr None by (simp add: reserve_def intent_key_def extended_def)
    have "pg_refines codec ?after (extended (ledger_env.truncate env) intent lg)"
      using refines pg_refines_insert [OF refines new]
      by (auto simp: pg_refines_def bt.get_put intent_key_def)
    then show ?thesis
      unfolding db' lg' by (simp add: seq)
  qed
qed

theorem pg_reserve_refines_memory_witness:
  "fst (pg_reserve sample_codec sample_uuid (sample_pg_env ''e1'') (sample_intent sample_hash) pg_empty) =
     fst (reserve sample_uuid (ledger_env.truncate (sample_pg_env ''e1'')) (sample_intent sample_hash)
            ledger_default)"
  by (rule pg_reserve_refines_memory [OF pg_empty_refines ledger_ok_default sample_pg_env_ok, THEN conjunct1])
    (simp_all add: codec_restores_def sample_codec_def ledger_default_def sample_uuid_def
      sample_intent_def sample_hash_def)

text \<open>A transition in the database is atomic, whichever statement fails and wherever the commit is
  lost: either nothing has changed and the call fails, or the whole effect of the undisturbed call
  has happened, and success is reported only when the commit was acknowledged as well.\<close>

theorem pg_transition_is_atomic:
  "pg_transition uuid env fence allowed next operation error result evidence db =
    (case pg_transition uuid (faultless env) fence allowed next operation error result evidence db of
       (r, after) \<Rightarrow>
         if \<not> (pe_ok env 0 \<and> pe_ok env 1 \<and> pe_ok env 2) then (Err StoreFailure, db)
         else if \<not> is_ok r then (r, db)
         else if \<not> (pe_ok env 3 \<and> pe_commit_applied env) then (Err StoreFailure, db)
         else (if pe_commit_ok env then r else Err StoreFailure, after))"
  by (auto simp: pg_transition_def pg_commit_def faultless_def pg_event_row_def split: option.splits)

end
