(* ===== verification/Authorization.thy ===== *)
theory Authorization
  imports Contracts
begin

text \<open>
  The single-use execution authorization a policy enforcement point issues
  (\<open>contracts/src/lib.rs\<close>, \<open>ExecutionAuthorization\<close>): its evidence digest, its signature and its
  verification. \<open>jcs\<close> is the canonical JSON text of an authorization, \<open>uuid_ok\<close> is
  \<open>Uuid::parse_str(..).is_ok()\<close>, \<open>sha256_hex\<close> the hexadecimal digest; all three are parameters.
\<close>

record execution_authorization =
  xa_schema_version :: string
  xa_authorization_id :: string
  xa_tenant_id :: string
  xa_task_id :: string
  xa_step_id :: string
  xa_agent_instance_id :: string
  xa_action_hash :: string
  xa_tool_id :: string
  xa_tool_version :: string
  xa_tool_snapshot_hash :: string
  xa_implementation_digest :: string
  xa_executor_profile :: string
  xa_operation :: string
  xa_resource :: string
  xa_canonical_arguments_hash :: string
  xa_target_profile :: string
  xa_environment :: string
  xa_idempotency_key :: string
  xa_ledger_execution_id :: string
  xa_ledger_event_id :: string
  xa_ledger_event_digest :: string
  xa_fence_digest :: string
  xa_policy_decision_id :: string
  xa_policy_decision_digest :: string
  xa_policy_version :: string
  xa_policy_bundle_hash :: string
  xa_policy_input_hash :: string
  xa_authorization_evidence_ref :: string
  xa_authorization_evidence_digest :: string
  xa_preapproval_digest :: string
  xa_approval_ids :: "string list"
  xa_approval_consumption_ref :: "string option"
  xa_approval_receipt_digest :: "string option"
  xa_resource_version :: string
  xa_sandbox_profile :: string
  xa_network_profile :: string
  xa_credential_profile :: string
  xa_workload_credential_id :: string
  xa_workload_credential_claims_digest :: string
  xa_workload_credential_audience :: string
  xa_workload_credential_revocation_epoch :: u64
  xa_max_execution_ms :: u64
  xa_max_result_bytes :: u64
  xa_issued_at :: datetime
  xa_expires_at :: datetime
  xa_single_use :: bool
  xa_issuer :: string
  xa_key_id :: string
  xa_key_usage :: string
  xa_signature :: string

subsection \<open>Evidence digest and signature\<close>

definition compute_evidence_digest ::
  "(execution_authorization \<Rightarrow> string option) \<Rightarrow> (string \<Rightarrow> string) \<Rightarrow> execution_authorization
   \<Rightarrow> contract_error + string" where
  "compute_evidence_digest jcs sha256_hex a =
     (case jcs (a\<lparr>xa_authorization_evidence_ref := [], xa_authorization_evidence_digest := [],
                  xa_signature := []\<rparr>) of
        None \<Rightarrow> Err Canonicalization
      | Some bytes \<Rightarrow> Ok (sha256_hex bytes))"

definition evidence_ref_of :: "execution_authorization \<Rightarrow> string" where
  "evidence_ref_of a =
     ''urn:agenttrust:pep-authorization:'' @ xa_tenant_id a @ '':'' @ xa_authorization_id a
       @ '':sha256:'' @ xa_authorization_evidence_digest a"

definition bind_evidence ::
  "(execution_authorization \<Rightarrow> string option) \<Rightarrow> (string \<Rightarrow> string) \<Rightarrow> execution_authorization
   \<Rightarrow> (contract_error + unit) \<times> execution_authorization" where
  "bind_evidence jcs sha256_hex a =
     (let cleared = a\<lparr>xa_authorization_evidence_ref := [], xa_authorization_evidence_digest := [],
                      xa_signature := []\<rparr>
      in (case compute_evidence_digest jcs sha256_hex cleared of
            Inl e \<Rightarrow> (Err e, cleared)
          | Inr digest \<Rightarrow>
              (let bound = cleared\<lparr>xa_authorization_evidence_digest := digest\<rparr>
               in (Ok (), bound\<lparr>xa_authorization_evidence_ref := evidence_ref_of bound\<rparr>))))"

definition signing_bytes ::
  "(execution_authorization \<Rightarrow> string option) \<Rightarrow> execution_authorization \<Rightarrow> contract_error + string" where
  "signing_bytes jcs a =
     (case jcs (a\<lparr>xa_signature := []\<rparr>) of None \<Rightarrow> Err Canonicalization | Some bytes \<Rightarrow> Ok bytes)"

definition authorization_sign ::
  "('sk, 'vk) signer \<Rightarrow> (execution_authorization \<Rightarrow> string option) \<Rightarrow> 'sk \<Rightarrow> execution_authorization
   \<Rightarrow> (contract_error + unit) \<times> execution_authorization" where
  "authorization_sign sg jcs key a =
     (case signing_bytes jcs a of
        Inl e \<Rightarrow> (Err e, a)
      | Inr bytes \<Rightarrow> (Ok (), a\<lparr>xa_signature := sg_sign sg key bytes\<rparr>))"

subsection \<open>Verification\<close>

definition approval_binding_present :: "execution_authorization \<Rightarrow> bool" where
  "approval_binding_present a \<longleftrightarrow>
     xa_approval_consumption_ref a \<noteq> None \<and> xa_approval_receipt_digest a \<noteq> None"

definition identifiers_valid :: "(string \<Rightarrow> bool) \<Rightarrow> execution_authorization \<Rightarrow> bool" where
  "identifiers_valid uuid_ok a \<longleftrightarrow>
     xa_schema_version a = EXECUTION_AUTHORIZATION_SCHEMA_VERSION
     \<and> xa_key_usage a = PEP_EXECUTION_AUTHORIZATION_KEY_USAGE
     \<and> list_all uuid_ok [xa_authorization_id a, xa_tenant_id a, xa_task_id a, xa_step_id a,
          xa_agent_instance_id a, xa_ledger_execution_id a, xa_ledger_event_id a]
     \<and> uuid_ok (xa_workload_credential_id a)"

definition digests_valid :: "execution_authorization \<Rightarrow> bool" where
  "digests_valid a \<longleftrightarrow>
     list_all is_lower_hex_digest [xa_ledger_event_digest a, xa_action_hash a,
       xa_tool_snapshot_hash a, xa_canonical_arguments_hash a, xa_fence_digest a,
       xa_policy_bundle_hash a, xa_policy_input_hash a, xa_preapproval_digest a,
       xa_policy_decision_digest a, xa_workload_credential_claims_digest a]
     \<and> valid_implementation_digest (xa_implementation_digest a)"

definition approvals_valid :: "(string \<Rightarrow> bool) \<Rightarrow> execution_authorization \<Rightarrow> bool" where
  "approvals_valid uuid_ok a \<longleftrightarrow>
     (case xa_approval_receipt_digest a of None \<Rightarrow> True | Some digest \<Rightarrow> is_lower_hex_digest digest)
     \<and> length (xa_approval_ids a) \<le> 64
     \<and> card (set (xa_approval_ids a)) = length (xa_approval_ids a)
     \<and> list_all uuid_ok (xa_approval_ids a)
     \<and> approval_binding_present a \<noteq> (xa_approval_ids a = [])
     \<and> (xa_approval_consumption_ref a \<noteq> None) = (xa_approval_receipt_digest a \<noteq> None)
     \<and> (case xa_approval_consumption_ref a of
          None \<Rightarrow> True | Some reference \<Rightarrow> bounded_nonempty reference 2048)"

definition texts_bounded :: "execution_authorization \<Rightarrow> bool" where
  "texts_bounded a \<longleftrightarrow>
     list_all (\<lambda>t. bounded_nonempty t 256) [xa_tool_id a, xa_tool_version a, xa_executor_profile a,
       xa_operation a, xa_target_profile a, xa_policy_decision_id a, xa_policy_version a,
       xa_resource_version a, xa_sandbox_profile a, xa_network_profile a, xa_credential_profile a,
       xa_issuer a, xa_key_id a]
     \<and> bounded_nonempty (xa_resource a) 2048 \<and> bounded_nonempty (xa_environment a) 128
     \<and> valid_idempotency_key (xa_idempotency_key a)
     \<and> xa_workload_credential_audience a = ''tool-proxy''"

definition limits_valid :: "execution_authorization \<Rightarrow> bool" where
  "limits_valid a \<longleftrightarrow>
     xa_max_execution_ms a \<noteq> 0 \<and> xa_max_execution_ms a \<le> 86400000
     \<and> xa_max_result_bytes a \<noteq> 0 \<and> xa_max_result_bytes a \<le> 1073741824
     \<and> xa_single_use a
     \<and> xa_issued_at a < xa_expires_at a
     \<and> xa_expires_at a - xa_issued_at a \<le> chrono_minutes 5"

definition well_scoped :: "(string \<Rightarrow> bool) \<Rightarrow> execution_authorization \<Rightarrow> bool" where
  "well_scoped uuid_ok a \<longleftrightarrow> identifiers_valid uuid_ok a \<and> digests_valid a
     \<and> approvals_valid uuid_ok a \<and> texts_bounded a \<and> limits_valid a"

definition authorization_verify ::
  "('sk, 'vk) signer \<Rightarrow> (execution_authorization \<Rightarrow> string option) \<Rightarrow> (string \<Rightarrow> string)
   \<Rightarrow> (string \<Rightarrow> bool) \<Rightarrow> 'vk \<Rightarrow> datetime \<Rightarrow> execution_authorization \<Rightarrow> contract_error + unit" where
  "authorization_verify sg jcs sha256_hex uuid_ok key now a =
     (if \<not> well_scoped uuid_ok a then Err ScopeExceeded
      else if now < xa_issued_at a \<or> now \<ge> xa_expires_at a then Err CExpired
      else if \<not> sg_decodes sg (xa_signature a) then Err SignatureInvalid
      else res_bind (signing_bytes jcs a) (\<lambda>bytes.
        if \<not> sg_verify sg key bytes (xa_signature a) then Err SignatureInvalid
        else if \<not> is_lower_hex_digest (xa_authorization_evidence_digest a)
             \<or> xa_authorization_evidence_ref a \<noteq> evidence_ref_of a
        then Err ScopeExceeded
        else res_bind (compute_evidence_digest jcs sha256_hex a) (\<lambda>digest.
          if digest \<noteq> xa_authorization_evidence_digest a then Err ScopeExceeded else Ok ())))"

lemmas scope_defs = identifiers_valid_def digests_valid_def approvals_valid_def texts_bounded_def
  limits_valid_def approval_binding_present_def

lemma well_scoped_ignores_evidence [simp]:
  "well_scoped uuid_ok (a\<lparr>xa_authorization_evidence_ref := r\<rparr>) = well_scoped uuid_ok a"
  "well_scoped uuid_ok (a\<lparr>xa_authorization_evidence_digest := d\<rparr>) = well_scoped uuid_ok a"
  "well_scoped uuid_ok (a\<lparr>xa_signature := s\<rparr>) = well_scoped uuid_ok a"
  by (simp_all add: well_scoped_def scope_defs)

text \<open>The digest depends on neither the evidence fields nor the signature.\<close>

lemma evidence_digest_ignores [simp]:
  "compute_evidence_digest jcs h (a\<lparr>xa_authorization_evidence_ref := r\<rparr>) = compute_evidence_digest jcs h a"
  "compute_evidence_digest jcs h (a\<lparr>xa_authorization_evidence_digest := d\<rparr>) = compute_evidence_digest jcs h a"
  "compute_evidence_digest jcs h (a\<lparr>xa_signature := s\<rparr>) = compute_evidence_digest jcs h a"
  by (simp_all add: compute_evidence_digest_def)

text \<open>What a policy enforcement point issues is accepted. An authorization within the scope rules,
  bound to its evidence and signed with a key, verifies under the public half of the key at every
  instant of its life.\<close>

lemma signed_authorization_verifies:
  assumes "signer_correct sg"
    and "\<And>x. is_lower_hex_digest (sha256_hex x)"
    and "well_scoped uuid_ok a" and "xa_issued_at a \<le> now" and "now < xa_expires_at a"
    and "bind_evidence jcs sha256_hex a = (Ok (), bound)"
    and "authorization_sign sg jcs key bound = (Ok (), issued)"
  shows "authorization_verify sg jcs sha256_hex uuid_ok (sg_public sg key) now issued = Ok ()"
proof -
  obtain digest where digest: "compute_evidence_digest jcs sha256_hex a = Ok digest"
    and bound: "bound = a\<lparr>xa_authorization_evidence_digest := digest,
        xa_authorization_evidence_ref :=
          evidence_ref_of (a\<lparr>xa_authorization_evidence_digest := digest\<rparr>), xa_signature := []\<rparr>"
    using assms(6)
    by (auto simp: bind_evidence_def Let_def evidence_ref_of_def split: sum.splits)
  have "is_lower_hex_digest digest"
    using digest assms(2) by (auto simp: compute_evidence_digest_def split: option.splits)
  moreover obtain bytes where bytes: "signing_bytes jcs bound = Ok bytes"
    and issued: "issued = bound\<lparr>xa_signature := sg_sign sg key bytes\<rparr>"
    using assms(7) by (auto simp: authorization_sign_def split: sum.splits)
  moreover have "signing_bytes jcs issued = Ok bytes"
    using bytes by (simp add: signing_bytes_def issued)
  ultimately show ?thesis
    using assms(1,3-5) digest
    by (simp add: authorization_verify_def bound evidence_ref_of_def signer_correct_def)
qed

text \<open>A concrete authorization, for the witnesses.\<close>

definition sample_digest :: string where
  "sample_digest = replicate 64 CHR ''a''"

definition sample_authorization :: execution_authorization where
  "sample_authorization =
     \<lparr>xa_schema_version = EXECUTION_AUTHORIZATION_SCHEMA_VERSION, xa_authorization_id = ''u'',
      xa_tenant_id = ''u'', xa_task_id = ''u'', xa_step_id = ''u'', xa_agent_instance_id = ''u'',
      xa_action_hash = sample_digest, xa_tool_id = ''t'', xa_tool_version = ''1'',
      xa_tool_snapshot_hash = sample_digest,
      xa_implementation_digest = ''sha256:'' @ sample_digest, xa_executor_profile = ''p'',
      xa_operation = ''o'', xa_resource = ''r'', xa_canonical_arguments_hash = sample_digest,
      xa_target_profile = ''p'', xa_environment = ''e'', xa_idempotency_key = ''k'',
      xa_ledger_execution_id = ''u'', xa_ledger_event_id = ''u'',
      xa_ledger_event_digest = sample_digest, xa_fence_digest = sample_digest,
      xa_policy_decision_id = ''d'', xa_policy_decision_digest = sample_digest,
      xa_policy_version = ''1'', xa_policy_bundle_hash = sample_digest,
      xa_policy_input_hash = sample_digest, xa_authorization_evidence_ref = [],
      xa_authorization_evidence_digest = [], xa_preapproval_digest = sample_digest,
      xa_approval_ids = [], xa_approval_consumption_ref = None, xa_approval_receipt_digest = None,
      xa_resource_version = ''1'', xa_sandbox_profile = ''p'', xa_network_profile = ''p'',
      xa_credential_profile = ''p'', xa_workload_credential_id = ''u'',
      xa_workload_credential_claims_digest = sample_digest,
      xa_workload_credential_audience = ''tool-proxy'', xa_workload_credential_revocation_epoch = 0,
      xa_max_execution_ms = 1000, xa_max_result_bytes = 1000, xa_issued_at = 10, xa_expires_at = 20,
      xa_single_use = True, xa_issuer = ''i'', xa_key_id = ''k'',
      xa_key_usage = PEP_EXECUTION_AUTHORIZATION_KEY_USAGE, xa_signature = []\<rparr>"

text \<open>A signer whose signatures are the messages, a serialization that lists the two evidence fields.\<close>

definition sample_signer :: "(unit, unit) signer" where
  "sample_signer = \<lparr>sg_sign = \<lambda>_ m. m, sg_public = \<lambda>_. (), sg_decodes = \<lambda>_. True,
     sg_verify = \<lambda>_ m s. m = s\<rparr>"

definition sample_jcs :: "execution_authorization \<Rightarrow> string option" where
  "sample_jcs a = Some (xa_authorization_evidence_ref a @ xa_authorization_evidence_digest a)"

lemma sample_digest_valid [simp]: "is_lower_hex_digest sample_digest"
  by (simp add: sample_digest_def is_lower_hex_digest_replicate)

lemma sample_scoped: "well_scoped (\<lambda>_. True) sample_authorization"
  by (simp add: well_scoped_def scope_defs sample_authorization_def bounded_nonempty_def
      valid_implementation_digest_def strip_prefix_def valid_idempotency_key_def chrono_minutes_def
      byte_defs)

lemma sample_signer_correct: "signer_correct sample_signer"
  by (simp add: signer_correct_def sample_signer_def)

definition sample_bound :: execution_authorization where
  "sample_bound = snd (bind_evidence sample_jcs (\<lambda>_. sample_digest) sample_authorization)"

definition sample_issued :: execution_authorization where
  "sample_issued = snd (authorization_sign sample_signer sample_jcs () sample_bound)"

lemma sample_authorization_steps:
  "bind_evidence sample_jcs (\<lambda>_. sample_digest) sample_authorization = (Ok (), sample_bound)"
  "authorization_sign sample_signer sample_jcs () sample_bound = (Ok (), sample_issued)"
  by (simp_all add: sample_issued_def sample_bound_def bind_evidence_def authorization_sign_def
      Let_def compute_evidence_digest_def signing_bytes_def sample_jcs_def)

lemma signed_authorization_verifies_witness:
  "authorization_verify sample_signer sample_jcs (\<lambda>_. sample_digest) (\<lambda>_. True)
     (sg_public sample_signer ()) 15 sample_issued = Ok ()"
  by (rule signed_authorization_verifies [OF sample_signer_correct _ sample_scoped _ _ sample_authorization_steps])
    (simp_all add: sample_authorization_def)

text \<open>What the evidence digest is taken of: the authorization without its evidence and signature.\<close>

definition evidence_material :: "execution_authorization \<Rightarrow> execution_authorization" where
  "evidence_material a =
     a\<lparr>xa_authorization_evidence_ref := [], xa_authorization_evidence_digest := [], xa_signature := []\<rparr>"

text \<open>C16: what an accepted authorization guarantees. It is single use, lives at most five minutes and
  is live now, its bounds on time and result size hold, it names approvals exactly when it carries
  the receipt of their consumption, each once; its evidence digest is the SHA-256 of the canonical
  text of all its fields but the two evidence fields and the signature; and any other accepted
  authorization with the same evidence digest is the same one up to its signature, provided that
  SHA-256 does not collide on the two texts and that the serializer does not give these two
  different records one text.\<close>

theorem accepted_authorization_is_bound:
  assumes "authorization_verify sg jcs sha256_hex uuid_ok key now a = Ok ()"
    and "authorization_verify sg jcs sha256_hex uuid_ok key' now' b = Ok ()"
    and "xa_authorization_evidence_digest a = xa_authorization_evidence_digest b"
    and "\<And>x y. jcs (evidence_material a) = Some x \<Longrightarrow> jcs (evidence_material b) = Some y \<Longrightarrow>
      sha256_hex x = sha256_hex y \<Longrightarrow> x = y"
    and "jcs (evidence_material a) = jcs (evidence_material b) \<Longrightarrow>
      evidence_material a = evidence_material b"
  shows "xa_single_use a \<and> xa_issued_at a \<le> now \<and> now < xa_expires_at a
    \<and> xa_expires_at a - xa_issued_at a \<le> chrono_minutes 5
    \<and> xa_max_execution_ms a \<le> 86400000 \<and> xa_max_result_bytes a \<le> 1073741824
    \<and> distinct (xa_approval_ids a)
    \<and> (xa_approval_ids a \<noteq> []) = (xa_approval_receipt_digest a \<noteq> None)
    \<and> (\<exists>x. jcs (evidence_material a) = Some x \<and> xa_authorization_evidence_digest a = sha256_hex x)
    \<and> b\<lparr>xa_signature := xa_signature a\<rparr> = a"
proof -
  have a: "well_scoped uuid_ok a" "xa_issued_at a \<le> now" "now < xa_expires_at a"
      "compute_evidence_digest jcs sha256_hex a = Ok (xa_authorization_evidence_digest a)"
      "xa_authorization_evidence_ref a = evidence_ref_of a"
    using assms(1) by (auto simp: authorization_verify_def res_bind_Ok_iff split: if_splits)
  have b: "compute_evidence_digest jcs sha256_hex b = Ok (xa_authorization_evidence_digest b)"
      "xa_authorization_evidence_ref b = evidence_ref_of b"
    using assms(2) by (auto simp: authorization_verify_def res_bind_Ok_iff split: if_splits)
  obtain x where x: "jcs (evidence_material a) = Some x" "xa_authorization_evidence_digest a = sha256_hex x"
    using a(4) by (auto simp: compute_evidence_digest_def evidence_material_def split: option.splits)
  obtain y where y: "jcs (evidence_material b) = Some y" "xa_authorization_evidence_digest b = sha256_hex y"
    using b(1) by (auto simp: compute_evidence_digest_def evidence_material_def split: option.splits)
  have "evidence_material a = evidence_material b"
    using assms(3) assms(4) [OF x(1) y(1)] assms(5) x y by simp
  then have core: "a\<lparr>xa_authorization_evidence_ref := [], xa_authorization_evidence_digest := [], xa_signature := []\<rparr> =
      b\<lparr>xa_authorization_evidence_ref := [], xa_authorization_evidence_digest := [], xa_signature := []\<rparr>"
    by (simp add: evidence_material_def)
  have ids: "xa_tenant_id a = xa_tenant_id b" "xa_authorization_id a = xa_authorization_id b"
    using arg_cong [OF core, of xa_tenant_id] arg_cong [OF core, of xa_authorization_id] by simp_all
  then have "xa_authorization_evidence_ref a = xa_authorization_evidence_ref b"
    using a(5) b(2) assms(3) by (simp add: evidence_ref_of_def)
  then have "b\<lparr>xa_signature := xa_signature a\<rparr> =
      b\<lparr>xa_authorization_evidence_ref := [], xa_authorization_evidence_digest := [], xa_signature := []\<rparr>
       \<lparr>xa_authorization_evidence_ref := xa_authorization_evidence_ref a,
        xa_authorization_evidence_digest := xa_authorization_evidence_digest a,
        xa_signature := xa_signature a\<rparr>"
    using assms(3) by simp
  also have "\<dots> = a"
    unfolding core [symmetric] by simp
  finally have "b\<lparr>xa_signature := xa_signature a\<rparr> = a" .
  then show ?thesis
    using a(1-3) x card_distinct
    by (auto simp: well_scoped_def approvals_valid_def limits_valid_def approval_binding_present_def)
qed

lemma sample_issued_verifies:
  "authorization_verify sample_signer sample_jcs (\<lambda>_. sample_digest) (\<lambda>_. True) () 15 sample_issued = Ok ()"
  using sample_scoped
  by (simp add: authorization_verify_def sample_issued_def sample_bound_def bind_evidence_def
      authorization_sign_def compute_evidence_digest_def signing_bytes_def sample_jcs_def
      sample_signer_def evidence_ref_of_def)
    (simp add: sample_authorization_def)

theorem accepted_authorization_is_bound_witness:
  "xa_expires_at sample_issued - xa_issued_at sample_issued \<le> chrono_minutes 5 \<and> xa_single_use sample_issued"
  using accepted_authorization_is_bound [OF sample_issued_verifies sample_issued_verifies refl]
  by simp

end
