(* ===== verification/Gateway.thy ===== *)
theory Gateway
  imports BTree_Map
begin

text \<open>
  The agent gateway (\<open>rust/crates/gateway/src/lib.rs\<close>): configuration, admission control (semaphores
  per tenant and agent, request rate, idempotency records, circuit breaker) and the HTTP handlers.

  A semaphore is the number of its available permits; a permit is the pair of tenant and agent it
  was taken for, and dropping it gives both halves back. A handler that awaits is split where it
  does: the part up to the downstream call, the answer of the downstream (\<open>None\<close> when the time
  limit strikes first), and the part after it; other requests run in between. Time is the
  monotonic clock, read once per check. The identity verifier, the orchestrator behind the gateway,
  \<open>HeaderValue::to_str\<close> and \<open>Uuid::parse_str\<close> are parameters.
\<close>

subsection \<open>Data\<close>

datatype gateway_error = GUnauthenticated | GForbidden | GTenantMismatch | GRateLimited
  | GConcurrencyLimited | GBodyTooLarge | GHeaderTooLarge | GUnsupportedProtocol
  | GDeadlineExceeded | GIdempotencyConflict | GDownstreamUnavailable
  | GProductionIdentityNotConfigured | GNotFoundOrForbidden | GConfigurationInvalid

datatype ingress_protocol = Http | Grpc | WebSocket | Sse | McpInternal

datatype http_method = GET | POST

type_synonym header_map = "(string \<times> string) list"

record request_parts =
  rp_method :: http_method
  rp_route :: string
  rp_headers :: header_map
  rp_peer_identity :: "string option"

record identity_context =
  ic_subject :: string
  ic_tenant_id :: string
  ic_agent_instance_id :: string
  ic_owner_subject :: string
  ic_trust_level :: string

record tenant_context =
  tc_tenant_id :: string
  tc_quota_profile :: string

record trace_context =
  tx_trace_id :: string
  tx_parent_span_id :: "string option"
  tx_invalid_input_replaced :: bool

record inbound_envelope =
  ie_request_id :: string
  ie_trace_context :: trace_context
  ie_identity_context :: identity_context
  ie_tenant_context :: tenant_context
  ie_protocol :: ingress_protocol
  ie_content_type :: string
  ie_schema_version :: string
  ie_idempotency_key :: "string option"
  ie_received_at :: datetime
  ie_payload :: string
  ie_payload_hash :: string

record gateway_config =
  gc_production :: bool
  gc_global_concurrency :: nat
  gc_max_body_bytes :: nat
  gc_max_header_bytes :: nat
  gc_max_headers :: nat
  gc_per_tenant_concurrency :: nat
  gc_per_agent_concurrency :: nat
  gc_per_tenant_requests_per_minute :: u32
  gc_require_idempotency_key :: bool
  gc_idempotency_ttl :: duration
  gc_max_idempotency_records :: nat
  gc_max_idempotency_records_per_tenant :: nat
  gc_request_timeout :: duration
  gc_downstream_timeout :: duration
  gc_circuit_failure_threshold :: u32
  gc_circuit_open_duration :: duration
  gc_max_stream_events :: nat
  gc_max_stream_duration :: duration

definition gateway_config_default :: gateway_config where
  "gateway_config_default =
     \<lparr>gc_production = True, gc_global_concurrency = 512, gc_max_body_bytes = 1048576,
      gc_max_header_bytes = 32768, gc_max_headers = 64, gc_per_tenant_concurrency = 16,
      gc_per_agent_concurrency = 8, gc_per_tenant_requests_per_minute = 600,
      gc_require_idempotency_key = True, gc_idempotency_ttl = duration_from_secs (24 * 60 * 60),
      gc_max_idempotency_records = 100000, gc_max_idempotency_records_per_tenant = 10000,
      gc_request_timeout = duration_from_secs 30, gc_downstream_timeout = duration_from_secs 20,
      gc_circuit_failure_threshold = 5, gc_circuit_open_duration = duration_from_secs 30,
      gc_max_stream_events = 100, gc_max_stream_duration = duration_from_secs (60 * 60)\<rparr>"

record rate_window =
  rw_started :: monotime
  rw_count :: u32

record replay_record =
  rr_payload_hash :: string
  rr_recorded_at :: monotime

record circuit_state =
  ct_consecutive_failures :: u32
  ct_open_until :: "monotime option"

record admission_state =
  ad_tenant_semaphores :: "(string, nat) btree"
  ad_agent_semaphores :: "(string \<times> string, nat) btree"
  ad_rate_windows :: "(string, rate_window) btree"
  ad_idempotency :: "(string \<times> string, replay_record) btree"
  ad_circuit :: circuit_state

definition admission_default :: admission_state where
  "admission_default =
     \<lparr>ad_tenant_semaphores = bt_empty, ad_agent_semaphores = bt_empty, ad_rate_windows = bt_empty,
      ad_idempotency = bt_empty,
      ad_circuit = \<lparr>ct_consecutive_failures = 0, ct_open_until = None\<rparr>\<rparr>"

type_synonym permit = "string \<times> string"

subsection \<open>Configuration\<close>

definition gateway_new :: "gateway_config \<Rightarrow> bool \<Rightarrow> gateway_error + admission_state" where
  "gateway_new config production_ready =
     (if gc_production config \<and> \<not> production_ready then Err GProductionIdentityNotConfigured
      else if gc_max_body_bytes config = 0
         \<or> gc_global_concurrency config = 0
         \<or> gc_per_tenant_concurrency config = 0
         \<or> gc_per_agent_concurrency config = 0
         \<or> gc_per_tenant_requests_per_minute config = 0
         \<or> gc_idempotency_ttl config = 0
         \<or> gc_max_idempotency_records config = 0
         \<or> gc_max_idempotency_records_per_tenant config = 0
         \<or> gc_max_idempotency_records_per_tenant config > gc_max_idempotency_records config
         \<or> gc_request_timeout config = 0
         \<or> gc_downstream_timeout config = 0
         \<or> gc_downstream_timeout config > gc_request_timeout config
         \<or> gc_circuit_failure_threshold config = 0
         \<or> gc_circuit_open_duration config = 0
         \<or> gc_max_stream_events config = 0
         \<or> gc_max_stream_duration config = 0
      then Err GConfigurationInvalid
      else Ok admission_default)"

subsection \<open>Headers\<close>

definition header_get :: "header_map \<Rightarrow> string \<Rightarrow> string option" where
  "header_get headers name = map_of headers name"

definition header_text :: "(string \<Rightarrow> bool) \<Rightarrow> header_map \<Rightarrow> string \<Rightarrow> string option" where
  "header_text to_str_ok headers name =
     (case header_get headers name of
        None \<Rightarrow> None | Some v \<Rightarrow> if to_str_ok v then Some v else None)"

definition valid_token :: "string \<Rightarrow> nat \<Rightarrow> bool" where
  "valid_token value maximum \<longleftrightarrow> value \<noteq> [] \<and> length value \<le> maximum
     \<and> list_all (\<lambda>b. is_ascii_alphanumeric b \<or> b \<in> set ''-_.:'') value"

definition validate_headers :: "header_map \<Rightarrow> gateway_config \<Rightarrow> gateway_error + unit" where
  "validate_headers headers config =
     (if length headers > gc_max_headers config then Err GHeaderTooLarge
      else if sum_list (map (\<lambda>(name, value). length name + length value) headers)
                > gc_max_header_bytes config
      then Err GHeaderTooLarge
      else Ok ())"

definition traceparent_valid :: "string \<Rightarrow> bool" where
  "traceparent_valid value \<longleftrightarrow> length value = 55 \<and> take 3 value = ''00-''
     \<and> list_all (\<lambda>b. is_ascii_hexdigit b \<or> b = CHR ''-'') value"

definition extract_trace :: "(string \<Rightarrow> bool) \<Rightarrow> string \<Rightarrow> header_map \<Rightarrow> trace_context" where
  "extract_trace to_str_ok fresh_trace_id headers =
     (let supplied = header_text to_str_ok headers ''traceparent''
      in (case supplied of
            Some value \<Rightarrow>
              if traceparent_valid value
              then \<lparr>tx_trace_id = take 32 (drop 3 value),
                    tx_parent_span_id = Some (take 16 (drop 36 value)),
                    tx_invalid_input_replaced = False\<rparr>
              else \<lparr>tx_trace_id = fresh_trace_id, tx_parent_span_id = None,
                    tx_invalid_input_replaced = True\<rparr>
          | None \<Rightarrow> \<lparr>tx_trace_id = fresh_trace_id, tx_parent_span_id = None,
                     tx_invalid_input_replaced = False\<rparr>))"

definition resolve_tenant ::
  "(string \<Rightarrow> bool) \<Rightarrow> identity_context \<Rightarrow> header_map \<Rightarrow> gateway_error + tenant_context" where
  "resolve_tenant to_str_ok identity headers =
     (case header_text to_str_ok headers ''x-tenant-id'' of
        Some claimed \<Rightarrow>
          if claimed \<noteq> ic_tenant_id identity then Err GTenantMismatch
          else Ok \<lparr>tc_tenant_id = ic_tenant_id identity, tc_quota_profile = ''default''\<rparr>
      | None \<Rightarrow> Ok \<lparr>tc_tenant_id = ic_tenant_id identity, tc_quota_profile = ''default''\<rparr>)"

text \<open>What a request brings along from outside: fresh identifiers, clocks, and the verifier's answer.\<close>

record gateway_env =
  ge_to_str_ok :: "string \<Rightarrow> bool"
  ge_fresh_request_id :: string
  ge_fresh_trace_id :: string
  ge_verify :: "request_parts \<Rightarrow> (gateway_error + identity_context) option"
  ge_sha256_hex :: "string \<Rightarrow> string"
  ge_received_at :: datetime
  ge_rate_now :: monotime
  ge_idempotency_now :: monotime
  ge_circuit_now :: monotime

definition authenticate_and_tenant ::
  "gateway_config \<Rightarrow> gateway_env \<Rightarrow> http_method \<Rightarrow> string \<Rightarrow> header_map
   \<Rightarrow> gateway_error + identity_context \<times> tenant_context \<times> trace_context \<times> string" where
  "authenticate_and_tenant config env method route headers =
     res_bind (validate_headers headers config) (\<lambda>_.
       let request_id =
             (case header_text (ge_to_str_ok env) headers ''x-request-id'' of
                Some rid \<Rightarrow> if valid_token rid 128 then rid else ge_fresh_request_id env
              | None \<Rightarrow> ge_fresh_request_id env);
           trace = extract_trace (ge_to_str_ok env) (ge_fresh_trace_id env) headers
       in (case ge_verify env \<lparr>rp_method = method, rp_route = route, rp_headers = headers,
                               rp_peer_identity = None\<rparr> of
             None \<Rightarrow> Err GDeadlineExceeded
           | Some (Inl e) \<Rightarrow> Err e
           | Some (Inr identity) \<Rightarrow>
               res_bind (resolve_tenant (ge_to_str_ok env) identity headers) (\<lambda>tenant.
                 Ok (identity, tenant, trace, request_id))))"

subsection \<open>Admission\<close>

definition available :: "('k, nat) btree \<Rightarrow> 'k \<Rightarrow> nat \<Rightarrow> nat" where
  "available semaphores k limit = (case bt_get semaphores k of None \<Rightarrow> limit | Some n \<Rightarrow> n)"

text \<open>\<open>entry(..).or_insert_with(..)\<close>, then \<open>try_acquire_owned\<close>.\<close>

definition acquire_concurrency ::
  "gateway_config \<Rightarrow> string \<Rightarrow> string \<Rightarrow> admission_state
   \<Rightarrow> (gateway_error + permit) \<times> admission_state" where
  "acquire_concurrency config tenant agent ad =
     (let t = available (ad_tenant_semaphores ad) tenant (gc_per_tenant_concurrency config);
          ad1 = ad\<lparr>ad_tenant_semaphores := bt_insert tenant t (ad_tenant_semaphores ad)\<rparr>
      in if t = 0 then (Err GConcurrencyLimited, ad1)
         else
           (let a = available (ad_agent_semaphores ad1) (tenant, agent)
                      (gc_per_agent_concurrency config);
                ad2 = ad1\<lparr>ad_agent_semaphores :=
                            bt_insert (tenant, agent) a (ad_agent_semaphores ad1)\<rparr>
            in if a = 0 then (Err GConcurrencyLimited, ad2)
               else (Ok (tenant, agent),
                     ad2\<lparr>ad_tenant_semaphores := bt_insert tenant (t - 1) (ad_tenant_semaphores ad2),
                         ad_agent_semaphores :=
                           bt_insert (tenant, agent) (a - 1) (ad_agent_semaphores ad2)\<rparr>)))"

text \<open>Dropping the permits.\<close>

definition give_back :: "'k::linorder \<Rightarrow> ('k, nat) btree \<Rightarrow> ('k, nat) btree" where
  "give_back k semaphores =
     (case bt_get semaphores k of None \<Rightarrow> semaphores | Some n \<Rightarrow> bt_insert k (Suc n) semaphores)"

definition release_permits :: "permit \<Rightarrow> admission_state \<Rightarrow> admission_state" where
  "release_permits p ad =
     ad\<lparr>ad_tenant_semaphores := give_back (fst p) (ad_tenant_semaphores ad),
        ad_agent_semaphores := give_back p (ad_agent_semaphores ad)\<rparr>"

definition check_rate ::
  "gateway_config \<Rightarrow> monotime \<Rightarrow> string \<Rightarrow> admission_state
   \<Rightarrow> (gateway_error + unit) \<times> admission_state" where
  "check_rate config now tenant ad =
     (let entry = (case bt_get (ad_rate_windows ad) tenant of
                     None \<Rightarrow> \<lparr>rw_started = now, rw_count = 0\<rparr> | Some w \<Rightarrow> w);
          window = (if elapsed now (rw_started entry) \<ge> duration_from_secs 60
                    then \<lparr>rw_started = now, rw_count = 0\<rparr> else entry)
      in if rw_count window \<ge> gc_per_tenant_requests_per_minute config
         then (Err GRateLimited,
               ad\<lparr>ad_rate_windows := bt_insert tenant window (ad_rate_windows ad)\<rparr>)
         else (Ok (),
               ad\<lparr>ad_rate_windows := bt_insert tenant (window\<lparr>rw_count := rw_count window + 1\<rparr>)
                                       (ad_rate_windows ad)\<rparr>))"

definition check_idempotency ::
  "gateway_config \<Rightarrow> monotime \<Rightarrow> string \<Rightarrow> string option \<Rightarrow> string \<Rightarrow> admission_state
   \<Rightarrow> (gateway_error + unit) \<times> admission_state" where
  "check_idempotency config now tenant key payload_hash ad =
     (case key of
        None \<Rightarrow> (if gc_require_idempotency_key config then Err GIdempotencyConflict else Ok (), ad)
      | Some key \<Rightarrow>
          if \<not> valid_token key 128 then (Err GIdempotencyConflict, ad)
          else
            (let records = bt_retain (\<lambda>_ r. elapsed now (rr_recorded_at r) < gc_idempotency_ttl config)
                             (ad_idempotency ad);
                 ad' = ad\<lparr>ad_idempotency := records\<rparr>
             in (case bt_get records (tenant, key) of
                   Some existing \<Rightarrow>
                     (if rr_payload_hash existing \<noteq> payload_hash then Err GIdempotencyConflict
                      else Ok (), ad')
                 | None \<Rightarrow>
                     if bt_len records \<ge> gc_max_idempotency_records config
                        \<or> bt_count (\<lambda>k _. fst k = tenant) records
                            \<ge> gc_max_idempotency_records_per_tenant config
                     then (Err GRateLimited, ad')
                     else (Ok (), ad'\<lparr>ad_idempotency :=
                             bt_insert (tenant, key)
                               \<lparr>rr_payload_hash = payload_hash, rr_recorded_at = now\<rparr> records\<rparr>))))"

subsection \<open>Circuit breaker\<close>

definition before_downstream :: "monotime \<Rightarrow> circuit_state \<Rightarrow> (gateway_error + unit) \<times> circuit_state" where
  "before_downstream now circuit =
     (case ct_open_until circuit of
        None \<Rightarrow> (Ok (), circuit)
      | Some open_until \<Rightarrow>
          if open_until > now then (Err GDownstreamUnavailable, circuit)
          else (Ok (), circuit\<lparr>ct_open_until := None, ct_consecutive_failures := 0\<rparr>))"

definition record_downstream ::
  "gateway_config \<Rightarrow> monotime \<Rightarrow> gateway_error + 'a \<Rightarrow> circuit_state \<Rightarrow> circuit_state" where
  "record_downstream config now result circuit =
     (if result = Err GDownstreamUnavailable \<or> result = Err GDeadlineExceeded
      then (let failures = saturating_add (ct_consecutive_failures circuit) 1
            in circuit\<lparr>ct_consecutive_failures := failures,
                       ct_open_until :=
                         (if failures \<ge> gc_circuit_failure_threshold config
                          then Some (now + gc_circuit_open_duration config)
                          else ct_open_until circuit)\<rparr>)
      else circuit\<lparr>ct_consecutive_failures := 0, ct_open_until := None\<rparr>)"

text \<open>The answer of the downstream under the time limit.\<close>

definition timed :: "(gateway_error + 'a) option \<Rightarrow> gateway_error + 'a" where
  "timed answer = (case answer of None \<Rightarrow> Err GDeadlineExceeded | Some r \<Rightarrow> r)"

text \<open>
  \<open>call_downstream\<close> in two halves: the circuit is asked before, and records the answer after.
\<close>

definition call_begin ::
  "gateway_env \<Rightarrow> permit \<Rightarrow> 'r \<Rightarrow> admission_state \<Rightarrow> (gateway_error + 'r \<times> permit) \<times> admission_state" where
  "call_begin env p request ad =
     (case before_downstream (ge_circuit_now env) (ad_circuit ad) of
        (Inl e, circuit) \<Rightarrow> (Err e, release_permits p (ad\<lparr>ad_circuit := circuit\<rparr>))
      | (Inr _, circuit) \<Rightarrow> (Ok (request, p), ad\<lparr>ad_circuit := circuit\<rparr>))"

definition call_end ::
  "gateway_config \<Rightarrow> monotime \<Rightarrow> permit \<Rightarrow> (gateway_error + 'a) option \<Rightarrow> admission_state
   \<Rightarrow> (gateway_error + 'a) \<times> admission_state" where
  "call_end config now p answer ad =
     (timed answer,
      release_permits p (ad\<lparr>ad_circuit := record_downstream config now (timed answer) (ad_circuit ad)\<rparr>))"

subsection \<open>Handlers\<close>

definition GATEWAY_SCHEMA_VERSION :: string where
  "GATEWAY_SCHEMA_VERSION = ''agenttrust.gateway.v1''"

text \<open>What every handler does first. A permit taken is dropped when a later check fails.\<close>

definition admit ::
  "gateway_config \<Rightarrow> gateway_env \<Rightarrow> http_method \<Rightarrow> string \<Rightarrow> header_map \<Rightarrow> admission_state
   \<Rightarrow> (gateway_error + (identity_context \<times> tenant_context \<times> trace_context \<times> string) \<times> permit)
      \<times> admission_state" where
  "admit config env method route headers ad =
     (case authenticate_and_tenant config env method route headers of
        Inl e \<Rightarrow> (Err e, ad)
      | Inr (identity, tenant, trace, request_id) \<Rightarrow>
          (case acquire_concurrency config (tc_tenant_id tenant) (ic_agent_instance_id identity) ad of
             (Inl e, ad1) \<Rightarrow> (Err e, ad1)
           | (Inr p, ad1) \<Rightarrow>
               (case check_rate config (ge_rate_now env) (tc_tenant_id tenant) ad1 of
                  (Inl e, ad2) \<Rightarrow> (Err e, release_permits p ad2)
                | (Inr _, ad2) \<Rightarrow> (Ok ((identity, tenant, trace, request_id), p), ad2))))"

definition envelope_of ::
  "gateway_env \<Rightarrow> header_map \<Rightarrow> string \<Rightarrow> identity_context \<times> tenant_context \<times> trace_context \<times> string
   \<Rightarrow> inbound_envelope" where
  "envelope_of env headers body request =
     (case request of (identity, tenant, trace, request_id) \<Rightarrow>
        \<lparr>ie_request_id = request_id, ie_trace_context = trace, ie_identity_context = identity,
         ie_tenant_context = tenant, ie_protocol = Http,
         ie_content_type =
           (case header_text (ge_to_str_ok env) headers ''content-type'' of
              None \<Rightarrow> ''application/json'' | Some t \<Rightarrow> t),
         ie_schema_version = GATEWAY_SCHEMA_VERSION,
         ie_idempotency_key = header_text (ge_to_str_ok env) headers ''idempotency-key'',
         ie_received_at = ge_received_at env, ie_payload = body,
         ie_payload_hash = ge_sha256_hex env body\<rparr>)"

definition post_action_begin ::
  "gateway_config \<Rightarrow> gateway_env \<Rightarrow> header_map \<Rightarrow> string \<Rightarrow> admission_state
   \<Rightarrow> (gateway_error + inbound_envelope \<times> permit) \<times> admission_state" where
  "post_action_begin config env headers body ad =
     (if length body > gc_max_body_bytes config then (Err GBodyTooLarge, ad)
      else
        (case admit config env POST ''/v1/actions'' headers ad of
           (Inl e, ad1) \<Rightarrow> (Err e, ad1)
         | (Inr (request, p), ad1) \<Rightarrow>
             (let envelope = envelope_of env headers body request
              in (case check_idempotency config (ge_idempotency_now env)
                         (tc_tenant_id (ie_tenant_context envelope)) (ie_idempotency_key envelope)
                         (ie_payload_hash envelope) ad1 of
                    (Inl e, ad2) \<Rightarrow> (Err e, release_permits p ad2)
                  | (Inr _, ad2) \<Rightarrow> call_begin env p envelope ad2))))"

text \<open>The downstream requests of the other handlers name the tenant and the owner of the caller.\<close>

datatype downstream_call =
    GetAction string string string
  | CancelAction string string string
  | KillAction string string string
  | StreamSnapshot string string string

definition command_begin ::
  "gateway_config \<Rightarrow> gateway_env \<Rightarrow> (string \<Rightarrow> bool) \<Rightarrow> http_method \<Rightarrow> string
   \<Rightarrow> (string \<Rightarrow> string \<Rightarrow> string \<Rightarrow> downstream_call) \<Rightarrow> string \<Rightarrow> header_map \<Rightarrow> admission_state
   \<Rightarrow> (gateway_error + downstream_call \<times> permit) \<times> admission_state" where
  "command_begin config env uuid_ok method route call target headers ad =
     (if \<not> uuid_ok target then (Err GNotFoundOrForbidden, ad)
      else
        (case admit config env method route headers ad of
           (Inl e, ad1) \<Rightarrow> (Err e, ad1)
         | (Inr ((identity, tenant, _, _), p), ad1) \<Rightarrow>
             call_begin env p (call (tc_tenant_id tenant) (ic_owner_subject identity) target) ad1))"

definition get_action_begin where
  "get_action_begin config env uuid_ok =
     command_begin config env uuid_ok GET ''/v1/actions/{id}'' GetAction"

definition stream_task_begin where
  "stream_task_begin config env uuid_ok =
     command_begin config env uuid_ok GET ''/v1/streams/{id}'' StreamSnapshot"

definition control_action_begin where
  "control_action_begin config env uuid_ok kill =
     command_begin config env uuid_ok POST
       (if kill then ''/v1/actions/{id}:kill'' else ''/v1/actions/{id}:cancel'')
       (if kill then KillAction else CancelAction)"

definition control_action_route_begin ::
  "gateway_config \<Rightarrow> gateway_env \<Rightarrow> (string \<Rightarrow> bool) \<Rightarrow> string \<Rightarrow> header_map \<Rightarrow> admission_state
   \<Rightarrow> (gateway_error + downstream_call \<times> permit) \<times> admission_state" where
  "control_action_route_begin config env uuid_ok operation headers ad =
     (case strip_suffix '':cancel'' operation of
        Some action_id \<Rightarrow> control_action_begin config env uuid_ok False action_id headers ad
      | None \<Rightarrow>
          (case strip_suffix '':kill'' operation of
             Some action_id \<Rightarrow> control_action_begin config env uuid_ok True action_id headers ad
           | None \<Rightarrow> (Err GNotFoundOrForbidden, ad)))"

definition stream_task_body :: "gateway_config \<Rightarrow> string list \<Rightarrow> string" where
  "stream_task_body config events =
     concat (map (\<lambda>event. ''data: '' @ event @ [CHR 0x0A, CHR 0x0A]) (take (gc_max_stream_events config) events))"

text \<open>Readiness holds no permit.\<close>

definition downstream_ready ::
  "gateway_config \<Rightarrow> monotime \<Rightarrow> monotime \<Rightarrow> bool option \<Rightarrow> circuit_state \<Rightarrow> bool \<times> circuit_state" where
  "downstream_ready config now later answer circuit =
     (case before_downstream now circuit of
        (Inl e, circuit') \<Rightarrow> (False, circuit')
      | (Inr _, circuit') \<Rightarrow>
          (let result = (case answer of
                           Some True \<Rightarrow> Ok ()
                         | Some False \<Rightarrow> Err GDownstreamUnavailable
                         | None \<Rightarrow> Err GDeadlineExceeded)
           in (is_ok result, record_downstream config later result circuit')))"

definition status_code :: "gateway_error \<Rightarrow> nat" where
  "status_code e =
     (if e = GUnauthenticated then 401
      else if e \<in> {GForbidden, GTenantMismatch} then 403
      else if e \<in> {GRateLimited, GConcurrencyLimited} then 429
      else if e \<in> {GBodyTooLarge, GHeaderTooLarge} then 413
      else if e = GDeadlineExceeded then 504
      else if e = GIdempotencyConflict then 409
      else if e = GNotFoundOrForbidden then 404
      else 503)"

end
