(* ===== verification/Gateway_Admission.thy ===== *)
theory Gateway_Admission
  imports Gateway
begin

text \<open>
  The gateway under load: any interleaving of requests entering (up to their downstream call) and
  leaving (after the answer), the invariant of admission control, and what it gives: bounded
  concurrency, no lost permit, bounded idempotency records, a bounded request rate, and a circuit
  breaker that opens.
\<close>

subsection \<open>Permits\<close>

definition pool_ok :: "nat \<Rightarrow> ('k, nat) btree \<Rightarrow> ('k \<Rightarrow> nat) \<Rightarrow> bool" where
  "pool_ok limit semaphores taken \<longleftrightarrow>
     (\<forall>k. case bt_get semaphores k of None \<Rightarrow> taken k = 0 | Some n \<Rightarrow> n + taken k = limit)"

definition tenant_taken :: "permit list \<Rightarrow> string \<Rightarrow> nat" where
  "tenant_taken held t = length (filter (\<lambda>p. fst p = t) held)"

definition permits_ok :: "gateway_config \<Rightarrow> admission_state \<Rightarrow> permit list \<Rightarrow> bool" where
  "permits_ok config ad held \<longleftrightarrow>
     pool_ok (gc_per_tenant_concurrency config) (ad_tenant_semaphores ad) (tenant_taken held)
     \<and> pool_ok (gc_per_agent_concurrency config) (ad_agent_semaphores ad) (count_list held)"

lemma tenant_taken_Cons [simp]:
  "tenant_taken (p # held) t = (if fst p = t then Suc (tenant_taken held t) else tenant_taken held t)"
  by (simp add: tenant_taken_def)

lemma tenant_taken_Nil [simp]: "tenant_taken [] t = 0"
  by (simp add: tenant_taken_def)

lemma tenant_taken_remove1:
  "p \<in> set held \<Longrightarrow> tenant_taken held j =
     (if j = fst p then Suc (tenant_taken (remove1 p held) j) else tenant_taken (remove1 p held) j)"
  by (induction held) auto

lemma count_list_remove1:
  "p \<in> set held \<Longrightarrow> count_list held j =
     (if j = p then Suc (count_list (remove1 p held) j) else count_list (remove1 p held) j)"
  by (induction held) auto

lemma pool_look: "pool_ok limit s taken \<Longrightarrow> available s k limit + taken k = limit"
  unfolding pool_ok_def available_def by (drule spec [of _ k]) (auto split: option.splits)

lemma pool_touch: "pool_ok limit s taken \<Longrightarrow> pool_ok limit (bt_insert k (available s k limit) s) taken"
  using pool_look [of limit s taken k] by (auto simp: pool_ok_def bt.get_put split: option.splits)

lemma pool_take:
  assumes "pool_ok limit s taken" "available s k limit \<noteq> 0"
  shows "pool_ok limit (bt_insert k (available s k limit - 1) s) (\<lambda>j. if j = k then Suc (taken j) else taken j)"
  using pool_look [OF assms(1), of k] assms by (auto simp: pool_ok_def bt.get_put split: option.splits)

lemma pool_give:
  assumes "pool_ok limit s (\<lambda>j. if j = k then Suc (taken j) else taken j)"
  shows "pool_ok limit (give_back k s) taken"
  unfolding pool_ok_def
proof
  fix j
  show "case bt_get (give_back k s) j of None \<Rightarrow> taken j = 0 | Some n \<Rightarrow> n + taken j = limit"
    using assms unfolding pool_ok_def
    by (drule_tac x = j in spec) (auto simp: give_back_def bt.get_put split: option.splits if_splits)
qed

lemma acquire_permits:
  assumes "permits_ok config ad held"
    and "acquire_concurrency config t a ad = (r, ad')"
  shows "case r of Inl e \<Rightarrow> permits_ok config ad' held
    | Inr p \<Rightarrow> p = (t, a) \<and> permits_ok config ad' (p # held)"
proof -
  let ?lt = "gc_per_tenant_concurrency config" and ?la = "gc_per_agent_concurrency config"
  let ?ts = "ad_tenant_semaphores ad" and ?as = "ad_agent_semaphores ad"
  have t: "pool_ok ?lt ?ts (tenant_taken held)" and a: "pool_ok ?la ?as (count_list held)"
    using assms(1) by (auto simp: permits_ok_def)
  note take_t = pool_take [OF pool_touch [OF t, of t], of t]
  note take_a = pool_take [OF pool_touch [OF a, of "(t, a)"], of "(t, a)"]
  have avail: "available (bt_insert k (available s k l) s) k l = available s k l"
    for k :: "'k::linorder" and s l
    by (simp add: available_def bt.get_put split: option.split)
  have "count_list ((t, a) # held) = (\<lambda>j. if j = (t, a) then Suc (count_list held j) else count_list held j)"
    "tenant_taken ((t, a) # held) = (\<lambda>j. if j = t then Suc (tenant_taken held j) else tenant_taken held j)"
    by auto
  then show ?thesis
    using assms(2) t a pool_touch [OF t, of t] pool_touch [OF a, of "(t, a)"] take_t take_a
    by (auto simp: acquire_concurrency_def Let_def permits_ok_def avail split: if_splits)
qed

lemma release_permits_ok:
  assumes "permits_ok config ad held" "p \<in> set held"
  shows "permits_ok config (release_permits p ad) (remove1 p held)"
proof -
  have "tenant_taken held = (\<lambda>j. if j = fst p then Suc (tenant_taken (remove1 p held) j)
      else tenant_taken (remove1 p held) j)"
    "count_list held = (\<lambda>j. if j = p then Suc (count_list (remove1 p held) j)
      else count_list (remove1 p held) j)"
    using assms(2) by (auto intro!: tenant_taken_remove1 count_list_remove1)
  then show ?thesis
    using assms(1) by (simp add: permits_ok_def release_permits_def pool_give)
qed

lemma release_new_permit:
  "permits_ok config ad (p # held) \<Longrightarrow> permits_ok config (release_permits p ad) held"
  using release_permits_ok [of config ad "p # held" p] by simp

lemma permits_ok_frame:
  "ad_tenant_semaphores ad' = ad_tenant_semaphores ad \<Longrightarrow> ad_agent_semaphores ad' = ad_agent_semaphores ad
   \<Longrightarrow> permits_ok config ad' held = permits_ok config ad held"
  by (simp add: permits_ok_def)

lemma check_rate_frame [simp]:
  "ad_tenant_semaphores (snd (check_rate config now t ad)) = ad_tenant_semaphores ad"
  "ad_agent_semaphores (snd (check_rate config now t ad)) = ad_agent_semaphores ad"
  "ad_idempotency (snd (check_rate config now t ad)) = ad_idempotency ad"
  by (simp_all add: check_rate_def Let_def)

lemma check_idempotency_frame [simp]:
  "ad_tenant_semaphores (snd (check_idempotency config now t k h ad)) = ad_tenant_semaphores ad"
  "ad_agent_semaphores (snd (check_idempotency config now t k h ad)) = ad_agent_semaphores ad"
  "ad_rate_windows (snd (check_idempotency config now t k h ad)) = ad_rate_windows ad"
  by (simp_all add: check_idempotency_def Let_def split: option.split)

lemma acquire_frame [simp]:
  "ad_idempotency (snd (acquire_concurrency config t a ad)) = ad_idempotency ad"
  "ad_rate_windows (snd (acquire_concurrency config t a ad)) = ad_rate_windows ad"
  by (simp_all add: acquire_concurrency_def Let_def)

lemma release_frame [simp]:
  "ad_idempotency (release_permits p ad) = ad_idempotency ad"
  "ad_rate_windows (release_permits p ad) = ad_rate_windows ad"
  by (simp_all add: release_permits_def)

subsection \<open>Idempotency records\<close>

definition records_bounded :: "gateway_config \<Rightarrow> admission_state \<Rightarrow> bool" where
  "records_bounded config ad \<longleftrightarrow> bt_ok (ad_idempotency ad)
     \<and> bt_len (ad_idempotency ad) \<le> gc_max_idempotency_records config
     \<and> (\<forall>t. bt_count (\<lambda>k _. fst k = t) (ad_idempotency ad)
              \<le> gc_max_idempotency_records_per_tenant config)"

lemma records_bounded_frame:
  "ad_idempotency ad' = ad_idempotency ad \<Longrightarrow> records_bounded config ad' = records_bounded config ad"
  by (simp add: records_bounded_def)

lemma records_bounded_check:
  assumes "records_bounded config ad"
  shows "records_bounded config (snd (check_idempotency config now t k h ad))"
proof (cases k)
  case None
  then show ?thesis using assms by (simp add: check_idempotency_def)
next
  case (Some key)
  let ?live = "bt_retain (\<lambda>_ r. elapsed now (rr_recorded_at r) < gc_idempotency_ttl config) (ad_idempotency ad)"
  have live: "bt_ok ?live" "bt_len ?live \<le> gc_max_idempotency_records config"
      "bt_count (\<lambda>k _. fst k = u) ?live \<le> gc_max_idempotency_records_per_tenant config" for u
    using assms by (auto simp: records_bounded_def
        intro: order_trans [OF bt_len_retain_le] order_trans [OF bt_count_retain_le])
  show ?thesis
  proof (cases "valid_token key 128")
    case False
    then show ?thesis using assms Some by (simp add: check_idempotency_def)
  next
    case True
    show ?thesis
    proof (cases "bt_get ?live (t, key)")
      case None
      then show ?thesis
        using Some True live
        by (auto simp: check_idempotency_def Let_def records_bounded_def bt_len_insert
            bt_count_insert_fresh)
    next
      case (Some r)
      then show ?thesis
        using \<open>k = Some key\<close> True live
        by (auto simp: check_idempotency_def Let_def records_bounded_def)
    qed
  qed
qed

subsection \<open>Requests entering and leaving\<close>

text \<open>The requests of the data plane, and what is left of an entering one: its permit or an error.\<close>

datatype gateway_request =
    PostAction header_map string
  | GetActionReq string header_map
  | ControlAction string header_map
  | StreamTask string header_map

definition only_permit :: "(gateway_error + 'r \<times> permit) \<times> admission_state
   \<Rightarrow> (gateway_error + permit) \<times> admission_state" where
  "only_permit x = (case x of (Inl e, ad) \<Rightarrow> (Err e, ad) | (Inr (r, p), ad) \<Rightarrow> (Ok p, ad))"

fun gateway_begin ::
  "gateway_config \<Rightarrow> gateway_env \<Rightarrow> (string \<Rightarrow> bool) \<Rightarrow> gateway_request \<Rightarrow> admission_state
   \<Rightarrow> (gateway_error + permit) \<times> admission_state" where
  "gateway_begin config env uuid_ok (PostAction headers body) ad =
     only_permit (post_action_begin config env headers body ad)"
| "gateway_begin config env uuid_ok (GetActionReq i headers) ad =
     only_permit (get_action_begin config env uuid_ok i headers ad)"
| "gateway_begin config env uuid_ok (ControlAction operation headers) ad =
     only_permit (control_action_route_begin config env uuid_ok operation headers ad)"
| "gateway_begin config env uuid_ok (StreamTask i headers) ad =
     only_permit (stream_task_begin config env uuid_ok i headers ad)"

record gateway_run =
  gr_admission :: admission_state
  gr_in_flight :: "permit list"

inductive gateway_step :: "gateway_config \<Rightarrow> gateway_run \<Rightarrow> gateway_run \<Rightarrow> bool"
  for config :: gateway_config where
  entered: "gateway_begin config env uuid_ok request (gr_admission s) = (Inr p, ad)
     \<Longrightarrow> gateway_step config s \<lparr>gr_admission = ad, gr_in_flight = p # gr_in_flight s\<rparr>"
| refused: "gateway_begin config env uuid_ok request (gr_admission s) = (Inl e, ad)
     \<Longrightarrow> gateway_step config s \<lparr>gr_admission = ad, gr_in_flight = gr_in_flight s\<rparr>"
| left: "p \<in> set (gr_in_flight s)
     \<Longrightarrow> call_end config now p (answer :: (gateway_error + unit) option) (gr_admission s) = (r, ad)
     \<Longrightarrow> gateway_step config s \<lparr>gr_admission = ad, gr_in_flight = remove1 p (gr_in_flight s)\<rparr>"
| probed: "downstream_ready config now later alive (ad_circuit (gr_admission s)) = (r, circuit)
     \<Longrightarrow> gateway_step config s (s\<lparr>gr_admission := gr_admission s\<lparr>ad_circuit := circuit\<rparr>\<rparr>)"

definition gateway_start :: gateway_run where
  "gateway_start = \<lparr>gr_admission = admission_default, gr_in_flight = []\<rparr>"

abbreviation gateway_runs :: "gateway_config \<Rightarrow> gateway_run \<Rightarrow> bool" where
  "gateway_runs config \<equiv> reach (\<lambda>s. s = gateway_start) (gateway_step config)"

definition admission_ok :: "gateway_config \<Rightarrow> admission_state \<Rightarrow> permit list \<Rightarrow> bool" where
  "admission_ok config ad held \<longleftrightarrow> permits_ok config ad held \<and> records_bounded config ad"

text \<open>How an entering request leaves the admission state: with a permit more, or with none.\<close>

definition enters_ok ::
  "gateway_config \<Rightarrow> permit list \<Rightarrow> (gateway_error + permit) \<times> admission_state \<Rightarrow> bool" where
  "enters_ok config held x =
     (case x of (Inl e, ad) \<Rightarrow> admission_ok config ad held
              | (Inr p, ad) \<Rightarrow> admission_ok config ad (p # held))"

lemma entering_simps [simp]:
  "enters_ok config held (Err e, ad) = admission_ok config ad held"
  "enters_ok config held (Ok p, ad) = admission_ok config ad (p # held)"
  "only_permit (Err e, ad) = (Err e, ad)"
  "only_permit (Ok (r, p), ad) = (Ok p, ad)"
  by (simp_all add: enters_ok_def only_permit_def)

lemma call_begin_ok:
  assumes "admission_ok config ad (p # held)"
  shows "enters_ok config held (only_permit (call_begin env p request ad))"
proof -
  have "admission_ok config (ad\<lparr>ad_circuit := c\<rparr>) (p # held)" for c
    using assms by (simp add: admission_ok_def permits_ok_def records_bounded_def)
  then show ?thesis
    using release_new_permit
    by (auto simp: call_begin_def enters_ok_def only_permit_def admission_ok_def records_bounded_def
        split: prod.splits sum.splits)
qed

lemma admit_ok:
  assumes "admission_ok config ad held" "admit config env method route headers ad = (r, ad')"
  shows "case r of Inl e \<Rightarrow> admission_ok config ad' held
    | Inr (request, p) \<Rightarrow> admission_ok config ad' (p # held)"
proof (cases "authenticate_and_tenant config env method route headers")
  case (Inl e)
  then show ?thesis using assms by (auto simp: admit_def)
next
  case (Inr request)
  obtain identity tenant trace rid where request: "request = (identity, tenant, trace, rid)"
    by (cases request)
  obtain r1 ad1 where acq: "acquire_concurrency config (tc_tenant_id tenant)
      (ic_agent_instance_id identity) ad = (r1, ad1)"
    by (cases "acquire_concurrency config (tc_tenant_id tenant) (ic_agent_instance_id identity) ad")
  have records: "records_bounded config ad1"
    using assms(1) acquire_frame(1) [of config "tc_tenant_id tenant" "ic_agent_instance_id identity" ad]
    by (simp add: acq admission_ok_def records_bounded_def)
  have permits: "case r1 of Inl e \<Rightarrow> permits_ok config ad1 held | Inr p \<Rightarrow> permits_ok config ad1 (p # held)"
    using acquire_permits [OF _ acq, of held] assms(1) by (auto simp: admission_ok_def split: sum.splits)
  obtain r2 ad2 where rate: "check_rate config (ge_rate_now env) (tc_tenant_id tenant) ad1 = (r2, ad2)"
    by (cases "check_rate config (ge_rate_now env) (tc_tenant_id tenant) ad1")
  have records2: "records_bounded config ad2"
    and permits2: "permits_ok config ad2 h = permits_ok config ad1 h" for h
    using records check_rate_frame [of config "ge_rate_now env" "tc_tenant_id tenant" ad1]
    by (simp_all add: rate permits_ok_def records_bounded_def)
  show ?thesis
    using assms(2) records permits records2 permits2 release_new_permit
    by (auto simp: admit_def Inr request acq rate admission_ok_def records_bounded_def
        split: sum.splits)
qed

lemma post_action_begin_ok:
  assumes "admission_ok config ad held"
  shows "enters_ok config held (only_permit (post_action_begin config env headers body ad))"
proof (cases "length body > gc_max_body_bytes config")
  case True
  then show ?thesis using assms by (simp add: post_action_begin_def enters_ok_def only_permit_def)
next
  case False
  obtain r ad1 where adm: "admit config env POST ''/v1/actions'' headers ad = (r, ad1)"
    by (cases "admit config env POST ''/v1/actions'' headers ad")
  note ok1 = admit_ok [OF assms adm]
  show ?thesis
  proof (cases r)
    case (Inl e)
    then show ?thesis
      using ok1 False adm by (simp add: post_action_begin_def enters_ok_def only_permit_def)
  next
    case (Inr x)
    obtain request p where x: "x = (request, p)" by (cases x)
    let ?e = "envelope_of env headers body request"
    obtain r2 ad2 where idem: "check_idempotency config (ge_idempotency_now env)
        (tc_tenant_id (ie_tenant_context ?e)) (ie_idempotency_key ?e) (ie_payload_hash ?e) ad1 = (r2, ad2)"
      by (cases "check_idempotency config (ge_idempotency_now env)
        (tc_tenant_id (ie_tenant_context ?e)) (ie_idempotency_key ?e) (ie_payload_hash ?e) ad1")
    have "admission_ok config ad1 (p # held)"
      using ok1 Inr x by simp
    then have ok2: "admission_ok config ad2 (p # held)"
      using records_bounded_check [of config ad1 "ge_idempotency_now env"
          "tc_tenant_id (ie_tenant_context ?e)" "ie_idempotency_key ?e" "ie_payload_hash ?e"]
        check_idempotency_frame [of config "ge_idempotency_now env"
          "tc_tenant_id (ie_tenant_context ?e)" "ie_idempotency_key ?e" "ie_payload_hash ?e" ad1]
      by (simp add: idem admission_ok_def permits_ok_def)
    show ?thesis
    proof (cases r2)
      case (Inl e)
      then show ?thesis
        using ok2 False adm Inr x idem \<open>r = Inr x\<close> release_new_permit
        by (simp add: post_action_begin_def Let_def enters_ok_def only_permit_def admission_ok_def
            records_bounded_def)
    next
      case (Inr u)
      then show ?thesis
        using call_begin_ok [OF ok2] False adm \<open>r = Inr x\<close> x idem
        by (simp add: post_action_begin_def Let_def)
    qed
  qed
qed

lemma command_begin_ok:
  assumes "admission_ok config ad held"
  shows "enters_ok config held
    (only_permit (command_begin config env uuid_ok method route call target headers ad))"
proof (cases "uuid_ok target")
  case False
  then show ?thesis using assms by (simp add: command_begin_def enters_ok_def only_permit_def)
next
  case True
  obtain r ad1 where adm: "admit config env method route headers ad = (r, ad1)"
    by (cases "admit config env method route headers ad")
  show ?thesis
    using admit_ok [OF assms adm] True call_begin_ok
    by (auto simp: command_begin_def adm split: sum.splits)
qed

lemma gateway_begin_ok:
  assumes "admission_ok config ad held"
  shows "enters_ok config held (gateway_begin config env uuid_ok request ad)"
proof (cases request)
  case (ControlAction operation headers)
  have "enters_ok config held (only_permit (Err GNotFoundOrForbidden, ad))"
    using assms by (simp add: enters_ok_def only_permit_def)
  then show ?thesis
    using command_begin_ok [OF assms] ControlAction
    by (auto simp: control_action_route_begin_def control_action_begin_def split: option.split)
qed (use assms in \<open>simp_all add: post_action_begin_ok get_action_begin_def stream_task_begin_def command_begin_ok\<close>)

definition run_ok :: "gateway_config \<Rightarrow> gateway_run \<Rightarrow> bool" where
  "run_ok config s \<longleftrightarrow> admission_ok config (gr_admission s) (gr_in_flight s)"

lemma run_ok_step: "gateway_step config s t \<Longrightarrow> run_ok config s \<Longrightarrow> run_ok config t"
proof (induction rule: gateway_step.induct)
  case (entered env uuid_ok request s p ad)
  then show ?case
    using gateway_begin_ok [of config "gr_admission s" "gr_in_flight s" env uuid_ok request]
    by (simp add: run_ok_def enters_ok_def)
next
  case (refused env uuid_ok request s e ad)
  then show ?case
    using gateway_begin_ok [of config "gr_admission s" "gr_in_flight s" env uuid_ok request]
    by (simp add: run_ok_def enters_ok_def)
next
  case (left p s now answer r ad)
  have "admission_ok config (gr_admission s\<lparr>ad_circuit := c\<rparr>) (gr_in_flight s)" for c
    using left by (simp add: run_ok_def admission_ok_def permits_ok_def records_bounded_def)
  then show ?case
    using left by (auto simp: run_ok_def call_end_def admission_ok_def records_bounded_def
        intro!: release_permits_ok)
next
  case (probed now later alive s r circuit)
  then show ?case
    by (simp add: run_ok_def admission_ok_def permits_ok_def records_bounded_def)
qed

lemma run_ok_start: "run_ok config gateway_start"
  by (simp add: run_ok_def gateway_start_def admission_ok_def permits_ok_def pool_ok_def
      records_bounded_def admission_default_def)

interpretation gateway_machine: invariant_system "gateway_step config" "run_ok config"
  "\<lambda>s. s = gateway_start" for config
  by unfold_locales (auto intro: run_ok_step run_ok_start)

subsection \<open>The request rate of one tenant\<close>

text \<open>The times at which a tenant's requests are accepted, for requests checked at the given times.\<close>

fun accepted_times ::
  "gateway_config \<Rightarrow> string \<Rightarrow> monotime list \<Rightarrow> admission_state \<Rightarrow> monotime list \<times> admission_state" where
  "accepted_times config tenant [] ad = ([], ad)"
| "accepted_times config tenant (now # later) ad =
     (case check_rate config now tenant ad of
        (r, ad1) \<Rightarrow>
          (case accepted_times config tenant later ad1 of
             (rest, ad2) \<Rightarrow> (if is_ok r then now # rest else rest, ad2)))"

abbreviation minute :: duration where
  "minute \<equiv> duration_from_secs 60"

definition within :: "monotime \<Rightarrow> monotime \<Rightarrow> monotime list \<Rightarrow> nat" where
  "within a b ts = length (filter (\<lambda>t. a \<le> t \<and> t < b) ts)"

text \<open>
  The history of accepted times together with the tenant's window: the window counts the accepted
  times since its start, and no minute of the past holds more than two windows' worth.
\<close>

definition rate_ok :: "nat \<Rightarrow> rate_window option \<Rightarrow> monotime \<Rightarrow> monotime list \<Rightarrow> bool" where
  "rate_ok limit window now ts \<longleftrightarrow>
     (\<forall>t \<in> set ts. t \<le> now) \<and>
     (case window of
        None \<Rightarrow> ts = []
      | Some w \<Rightarrow>
          rw_started w \<le> now
          \<and> (\<forall>t \<in> set ts. t < rw_started w + minute)
          \<and> length (filter (\<lambda>t. rw_started w \<le> t) ts) = unat (rw_count w)
          \<and> unat (rw_count w) \<le> limit
          \<and> (\<forall>a. rw_started w < a + minute \<longrightarrow> within a (rw_started w) ts \<le> limit)
          \<and> (\<forall>a. a + minute \<le> rw_started w \<longrightarrow> within a (a + minute) ts \<le> 2 * limit))"

lemma within_le_since: "within a b ts \<le> length (filter (\<lambda>t. a \<le> t) ts)"
  unfolding within_def by (rule length_filter_mono) simp

lemma within_split: "a \<le> c \<Longrightarrow> within a b ts \<le> within a c ts + length (filter (\<lambda>t. c \<le> t) ts)"
  by (induction ts) (auto simp: within_def)

lemma rate_ok_minute:
  assumes "rate_ok limit window now ts"
  shows "within a (a + minute) ts \<le> 2 * limit"
proof (cases window)
  case None
  then show ?thesis using assms by (simp add: rate_ok_def within_def)
next
  case (Some w)
  show ?thesis
  proof (cases "a + minute \<le> rw_started w")
    case True
    then show ?thesis using assms Some by (simp add: rate_ok_def)
  next
    case False
    show ?thesis
    proof (cases "a \<le> rw_started w")
      case True
      then show ?thesis
        using assms Some False within_split [OF True, of "a + minute" ts]
        by (auto simp: rate_ok_def) (metis add_mono le_trans mult_2 not_le)
    next
      case False
      have "length (filter (\<lambda>t. a \<le> t) ts) \<le> length (filter (\<lambda>t. rw_started w \<le> t) ts)"
        using False by (intro length_filter_mono) simp
      then show ?thesis
        using assms Some within_le_since [of a "a + minute" ts] by (simp add: rate_ok_def)
    qed
  qed
qed

lemma within_none: "\<forall>t \<in> set ts. t < (b :: monotime) \<Longrightarrow> filter (\<lambda>t. b \<le> t) ts = []"
  by (simp add: filter_empty_conv not_le)

lemma within_snoc_late: "b \<le> t \<Longrightarrow> within a b (ts @ [t]) = within a b ts"
  by (simp add: within_def)

lemma rate_ok_accept:
  assumes ok: "rate_ok limit (Some w) now ts" and now: "now \<le> t"
    and same: "t - rw_started w < minute" and room: "unat (rw_count w) < limit"
    and limit: "limit < 2 ^ 32"
  shows "rate_ok limit (Some (w\<lparr>rw_count := rw_count w + 1\<rparr>)) t (ts @ [t])"
proof -
  have count: "unat (rw_count w + 1) = Suc (unat (rw_count w))"
    using room limit by (simp add: unat_word_ariths)
  have "rw_started w \<le> t"
    using ok now by (simp add: rate_ok_def)
  then show ?thesis
    using ok now same room count by (auto simp: rate_ok_def within_snoc_late)
qed

lemma rate_ok_refuse:
  "rate_ok limit (Some w) now ts \<Longrightarrow> now \<le> t \<Longrightarrow> rate_ok limit (Some w) t ts"
  by (auto simp: rate_ok_def)

lemma rate_ok_new_window:
  assumes ok: "rate_ok limit window now ts" and now: "now \<le> t"
    and stale: "case window of None \<Rightarrow> True | Some w \<Rightarrow> minute \<le> t - rw_started w"
  shows "rate_ok limit (Some \<lparr>rw_started = t, rw_count = 0\<rparr>) t ts"
proof -
  have past: "\<forall>x \<in> set ts. x < t" and recent: "t < a + minute \<Longrightarrow> within a t ts \<le> limit" for a
  proof -
    show "\<forall>x \<in> set ts. x < t"
    proof (cases window)
      case None
      then show ?thesis using ok by (simp add: rate_ok_def)
    next
      case (Some w)
      then have "rw_started w + minute \<le> t" "\<forall>x \<in> set ts. x < rw_started w + minute"
        using ok now stale by (auto simp: rate_ok_def)
      then show ?thesis by (meson less_le_trans)
    qed
    assume a: "t < a + minute"
    show "within a t ts \<le> limit"
    proof (cases window)
      case None
      then show ?thesis using ok by (simp add: rate_ok_def within_def)
    next
      case (Some w)
      have "rw_started w + minute \<le> t"
        using ok now stale Some by (auto simp: rate_ok_def)
      then have "length (filter (\<lambda>t. a \<le> t) ts) \<le> length (filter (\<lambda>t. rw_started w \<le> t) ts)"
        using a by (intro length_filter_mono) auto
      then show ?thesis
        using within_le_since [of a t ts] ok Some by (simp add: rate_ok_def)
    qed
  qed
  have "within a (a + minute) ts \<le> 2 * limit" for a
    using ok by (rule rate_ok_minute)
  then show ?thesis
    using past recent within_none [OF past] by (auto simp: rate_ok_def less_imp_le)
qed

lemma check_rate_ok:
  assumes ok: "rate_ok (unat (gc_per_tenant_requests_per_minute config))
      (bt_get (ad_rate_windows ad) tenant) now ts"
    and now: "now \<le> t" and check: "check_rate config t tenant ad = (r, ad')"
  shows "rate_ok (unat (gc_per_tenant_requests_per_minute config))
      (bt_get (ad_rate_windows ad') tenant) t (if is_ok r then ts @ [t] else ts)"
proof -
  let ?limit = "unat (gc_per_tenant_requests_per_minute config)"
  have bound: "?limit < 2 ^ 32" using unat_bound [where 'l = 32] by simp
  define w where "w = (case bt_get (ad_rate_windows ad) tenant of
      None \<Rightarrow> \<lparr>rw_started = t, rw_count = 0\<rparr> | Some w \<Rightarrow> w)"
  define v where "v = (if elapsed t (rw_started w) \<ge> minute then \<lparr>rw_started = t, rw_count = 0\<rparr> else w)"
  have window: "rate_ok ?limit (Some v) t ts \<and> t - rw_started v < minute"
  proof (cases "bt_get (ad_rate_windows ad) tenant")
    case None
    then have "v = \<lparr>rw_started = t, rw_count = 0\<rparr>" by (simp add: v_def w_def)
    then show ?thesis
      using rate_ok_new_window [OF ok now] None by (simp add: duration_from_secs_def)
  next
    case (Some u)
    then have "w = u" by (simp add: w_def)
    then show ?thesis
      using rate_ok_new_window [OF ok now] rate_ok_refuse [of ?limit u now ts t] ok now Some
      by (auto simp: v_def elapsed_def duration_from_secs_def)
  qed
  have "check_rate config t tenant ad =
      (if rw_count v \<ge> gc_per_tenant_requests_per_minute config
       then (Err GRateLimited, ad\<lparr>ad_rate_windows := bt_insert tenant v (ad_rate_windows ad)\<rparr>)
       else (Ok (), ad\<lparr>ad_rate_windows :=
              bt_insert tenant (v\<lparr>rw_count := rw_count v + 1\<rparr>) (ad_rate_windows ad)\<rparr>))"
    by (simp add: check_rate_def Let_def v_def w_def)
  then show ?thesis
    using check window rate_ok_accept [of ?limit v t ts t] bound
    by (auto simp: word_le_nat_alt split: if_splits)
qed

lemma accepted_times_ok:
  assumes "rate_ok (unat (gc_per_tenant_requests_per_minute config))
      (bt_get (ad_rate_windows ad) tenant) now ts"
    and "sorted (now # later)"
  shows "\<exists>end. rate_ok (unat (gc_per_tenant_requests_per_minute config))
      (bt_get (ad_rate_windows (snd (accepted_times config tenant later ad))) tenant) end
      (ts @ fst (accepted_times config tenant later ad))"
  using assms
proof (induction later arbitrary: ad now ts)
  case Nil
  then show ?case by auto
next
  case (Cons t later)
  obtain r ad1 where check: "check_rate config t tenant ad = (r, ad1)"
    by (cases "check_rate config t tenant ad")
  have "now \<le> t" "sorted (t # later)" using Cons.prems(2) by auto
  from Cons.IH [OF check_rate_ok [OF Cons.prems(1) this(1) check] this(2)]
  show ?case
    by (auto simp: check split: prod.splits if_splits)
qed

subsection \<open>A request\<close>

definition sample_identity :: identity_context where
  "sample_identity = \<lparr>ic_subject = ''s'', ic_tenant_id = ''t'', ic_agent_instance_id = ''a'',
     ic_owner_subject = ''o'', ic_trust_level = ''l''\<rparr>"

definition sample_gateway_env :: gateway_env where
  "sample_gateway_env = \<lparr>ge_to_str_ok = \<lambda>_. True, ge_fresh_request_id = ''r'',
     ge_fresh_trace_id = ''x'', ge_verify = \<lambda>_. Some (Ok sample_identity),
     ge_sha256_hex = \<lambda>s. s, ge_received_at = 0, ge_rate_now = 7, ge_idempotency_now = 8,
     ge_circuit_now = 9\<rparr>"

definition sample_headers :: header_map where
  "sample_headers = [(''x-tenant-id'', ''t''), (''idempotency-key'', ''k'')]"

definition sample_post :: "(gateway_error + inbound_envelope \<times> permit) \<times> admission_state" where
  "sample_post = post_action_begin gateway_config_default sample_gateway_env sample_headers ''body''
     admission_default"

lemma sample_post_value:
  "sample_post = (Ok (envelope_of sample_gateway_env sample_headers ''body''
      (sample_identity, \<lparr>tc_tenant_id = ''t'', tc_quota_profile = ''default''\<rparr>,
       \<lparr>tx_trace_id = ''x'', tx_parent_span_id = None, tx_invalid_input_replaced = False\<rparr>, ''r''),
      (''t'', ''a'')), snd sample_post)"
  by (simp add: sample_post_def post_action_begin_def gateway_config_default_def admit_def
      authenticate_and_tenant_def validate_headers_def sample_headers_def header_text_def
      header_get_def sample_gateway_env_def extract_trace_def resolve_tenant_def
      sample_identity_def acquire_concurrency_def available_def admission_default_def check_rate_def
      envelope_of_def check_idempotency_def valid_token_def byte_defs call_begin_def
      before_downstream_def bt_get_def bt_empty_def bt_retain_def bt_len_def bt_count_def
      elapsed_def duration_from_secs_def Let_def)

subsection \<open>Properties\<close>

text \<open>C15: admission control bounds concurrency under every interleaving of requests. However requests
  enter and leave, at most the configured number of a tenant's requests, and of an agent's, are in
  flight at the same time; the permits of the tenant, and of the agent, that are not in flight are
  available again, so none is ever lost; and the idempotency records stay within both of their limits.\<close>

theorem gateway_concurrency_bounded:
  assumes "gateway_runs config s"
  shows "tenant_taken (gr_in_flight s) t \<le> gc_per_tenant_concurrency config
    \<and> count_list (gr_in_flight s) (t, a) \<le> gc_per_agent_concurrency config
    \<and> available (ad_tenant_semaphores (gr_admission s)) t (gc_per_tenant_concurrency config)
        = gc_per_tenant_concurrency config - tenant_taken (gr_in_flight s) t
    \<and> available (ad_agent_semaphores (gr_admission s)) (t, a) (gc_per_agent_concurrency config)
        = gc_per_agent_concurrency config - count_list (gr_in_flight s) (t, a)
    \<and> bt_len (ad_idempotency (gr_admission s)) \<le> gc_max_idempotency_records config
    \<and> bt_count (\<lambda>k _. fst k = t) (ad_idempotency (gr_admission s))
        \<le> gc_max_idempotency_records_per_tenant config"
proof -
  have ok: "run_ok config s"
    using assms by (rule gateway_machine.reach_inv)
  then have "available (ad_tenant_semaphores (gr_admission s)) t (gc_per_tenant_concurrency config)
      + tenant_taken (gr_in_flight s) t = gc_per_tenant_concurrency config"
    and "available (ad_agent_semaphores (gr_admission s)) (t, a) (gc_per_agent_concurrency config)
      + count_list (gr_in_flight s) (t, a) = gc_per_agent_concurrency config"
    by (auto simp: run_ok_def admission_ok_def permits_ok_def intro!: pool_look)
  then show ?thesis
    using ok by (auto simp: run_ok_def admission_ok_def records_bounded_def)
qed

theorem gateway_concurrency_bounded_witness:
  "tenant_taken [(''t'', ''a'')] ''t'' \<le> 16 \<and> count_list [(''t'', ''a'')] (''t'', ''a'') \<le> 8"
proof -
  have enter: "gateway_begin gateway_config_default sample_gateway_env (\<lambda>_. True)
      (PostAction sample_headers ''body'') (gr_admission gateway_start) = (Inr (''t'', ''a''), snd sample_post)"
    using sample_post_value by (simp add: gateway_start_def sample_post_def [symmetric])
      (metis entering_simps(4))
  have "gateway_runs gateway_config_default
      \<lparr>gr_admission = snd sample_post, gr_in_flight = (''t'', ''a'') # gr_in_flight gateway_start\<rparr>"
    by (rule reach_step, rule reach_init, rule refl, rule gateway_step.entered [OF enter])
  from gateway_concurrency_bounded [OF this, of "''t''" "''a''"] show ?thesis
    by (simp add: gateway_start_def gateway_config_default_def)
qed

text \<open>C35: the request rate of a tenant is bounded over every minute, not only over the fixed windows the
  code counts in: of requests checked in time order, at most twice the configured number is accepted
  in any sixty seconds.\<close>

theorem gateway_rate_bounded:
  assumes "bt_get (ad_rate_windows ad) tenant = None" and "sorted ts"
  shows "within a (a + minute) (fst (accepted_times config tenant ts ad))
    \<le> 2 * unat (gc_per_tenant_requests_per_minute config)"
proof -
  have start: "rate_ok (unat (gc_per_tenant_requests_per_minute config))
      (bt_get (ad_rate_windows ad) tenant) 0 []"
    by (simp add: assms(1) rate_ok_def)
  have "sorted (0 # ts)" using assms(2) by simp
  from accepted_times_ok [OF start this] obtain last where
    "rate_ok (unat (gc_per_tenant_requests_per_minute config))
      (bt_get (ad_rate_windows (snd (accepted_times config tenant ts ad))) tenant) last
      (fst (accepted_times config tenant ts ad))"
    by auto
  then show ?thesis by (rule rate_ok_minute)
qed

theorem gateway_rate_bounded_witness:
  "within 5 (5 + minute) (fst (accepted_times gateway_config_default ''t'' [1, 6, 7] admission_default))
     \<le> 2 * unat (gc_per_tenant_requests_per_minute gateway_config_default)"
  by (rule gateway_rate_bounded) (simp_all add: admission_default_def)

text \<open>C34: an idempotency key stands for one payload while its record lives. After a request with a key
  has passed, a request of the same tenant with that key passes with the same payload hash, is a
  conflict with any other, and changes no record, until the time to live has run out.\<close>

theorem idempotency_key_binds_payload:
  assumes "check_idempotency config now tenant (Some key) payload_hash ad = (Ok (), ad1)"
    and "bt_ok (ad_idempotency ad)" and "0 < gc_idempotency_ttl config"
    and "elapsed later now < gc_idempotency_ttl config" and "now \<le> later"
    and "\<And>r. bt_get (ad_idempotency ad) (tenant, key) = Some r \<Longrightarrow>
      elapsed later (rr_recorded_at r) < gc_idempotency_ttl config"
  shows "fst (check_idempotency config later tenant (Some key) other_hash ad1) =
      (if other_hash = payload_hash then Ok () else Err GIdempotencyConflict)
    \<and> bt_get (ad_idempotency (snd (check_idempotency config later tenant (Some key) other_hash ad1)))
        (tenant, key) = bt_get (ad_idempotency ad1) (tenant, key)"
proof -
  let ?live = "bt_retain (\<lambda>_ r. elapsed now (rr_recorded_at r) < gc_idempotency_ttl config) (ad_idempotency ad)"
  have valid: "valid_token key 128"
    using assms(1) by (auto simp: check_idempotency_def split: if_splits)
  have ok: "bt_ok ?live" using assms(2) by simp
  obtain r where r: "bt_get (ad_idempotency ad1) (tenant, key) = Some r" "rr_payload_hash r = payload_hash"
      "elapsed later (rr_recorded_at r) < gc_idempotency_ttl config"
    and ok1: "bt_ok (ad_idempotency ad1)"
  proof (cases "bt_get ?live (tenant, key)")
    case None
    then show thesis
      using that assms(1,4) ok valid
      by (auto simp: check_idempotency_def Let_def bt.get_put split: if_splits)
  next
    case (Some q)
    then have "bt_get (ad_idempotency ad) (tenant, key) = Some q"
      using assms(2) by (auto simp: bt_get_retain split: option.splits if_splits)
    then show thesis
      using that assms(1,6) Some ok valid
      by (auto simp: check_idempotency_def Let_def split: if_splits)
  qed
  then show ?thesis
    using valid by (auto simp: check_idempotency_def Let_def bt_get_retain)
qed

theorem idempotency_key_binds_payload_witness:
  "fst (check_idempotency gateway_config_default 11 ''t'' (Some ''k'') ''other''
      (snd (check_idempotency gateway_config_default 10 ''t'' (Some ''k'') ''hash'' admission_default)))
     = Err GIdempotencyConflict"
proof -
  have "check_idempotency gateway_config_default 10 ''t'' (Some ''k'') ''hash'' admission_default =
      (Ok (), snd (check_idempotency gateway_config_default 10 ''t'' (Some ''k'') ''hash'' admission_default))"
    by (simp add: check_idempotency_def valid_token_def byte_defs admission_default_def
        gateway_config_default_def bt_retain_def bt_empty_def bt_get_def bt_len_def bt_count_def)
  from idempotency_key_binds_payload [OF this, of 11 "''other''"] show ?thesis
    by (simp add: admission_default_def gateway_config_default_def elapsed_def duration_from_secs_def)
qed

text \<open>Failures of the downstream recorded at the given times.\<close>

fun failures :: "gateway_config \<Rightarrow> monotime list \<Rightarrow> circuit_state \<Rightarrow> circuit_state" where
  "failures config [] circuit = circuit"
| "failures config (now # later) circuit =
     failures config later
       (record_downstream config now (Err GDownstreamUnavailable :: gateway_error + unit) circuit)"

lemma failures_append:
  "failures config (ts @ us) c = failures config us (failures config ts c)"
  by (induction ts arbitrary: c) auto

lemma failures_count:
  "min (length ts) (2 ^ 32 - 1) \<le> unat (ct_consecutive_failures (failures config ts c))"
proof (induction ts rule: rev_induct)
  case (snoc t ts)
  then show ?case
    by (simp add: failures_append record_downstream_def Let_def unat_saturating_add)
qed simp

text \<open>The circuit breaker opens. After as many failures in a row as the threshold, every downstream
  call before the end of the open period is refused and changes nothing, and the first one after it
  is let through with a clean count.\<close>

theorem circuit_opens_after_threshold:
  assumes "unat (gc_circuit_failure_threshold config) \<le> Suc (length ts)"
  shows "before_downstream now (failures config (ts @ [t]) c) =
    (if now < t + gc_circuit_open_duration config
     then (Err GDownstreamUnavailable, failures config (ts @ [t]) c)
     else (Ok (), failures config (ts @ [t]) c
             \<lparr>ct_open_until := None, ct_consecutive_failures := 0\<rparr>))"
proof -
  have "min (length (ts @ [t])) (2 ^ 32 - 1) \<le> unat (ct_consecutive_failures (failures config (ts @ [t]) c))"
    by (rule failures_count)
  moreover have "unat (gc_circuit_failure_threshold config) \<le> 2 ^ 32 - 1"
    using unat_bound [of "gc_circuit_failure_threshold config"] by simp
  ultimately have "gc_circuit_failure_threshold config \<le> ct_consecutive_failures (failures config (ts @ [t]) c)"
    using assms by (simp add: word_le_nat_alt)
  then have "ct_open_until (failures config (ts @ [t]) c) = Some (t + gc_circuit_open_duration config)"
    by (simp add: failures_append record_downstream_def Let_def)
  then show ?thesis
    by (simp add: before_downstream_def)
qed

theorem circuit_opens_after_threshold_witness:
  "fst (before_downstream 20 (failures gateway_config_default ([1, 2, 3, 4] @ [5])
      \<lparr>ct_consecutive_failures = 0, ct_open_until = None\<rparr>)) = Err GDownstreamUnavailable"
  by (subst circuit_opens_after_threshold)
    (simp_all add: gateway_config_default_def duration_from_secs_def)

text \<open>What reaches the orchestrator is bound to the verified caller. A submitted envelope carries the
  identity the verifier returned for this very request, the tenant of that identity, which is also
  the tenant the headers claim if they claim one, and the digest of a body within the size limit.\<close>

theorem submitted_envelope_is_bound:
  assumes "post_action_begin config env headers body ad = (Ok (envelope, p), ad')"
  shows "ge_verify env \<lparr>rp_method = POST, rp_route = ''/v1/actions'', rp_headers = headers,
        rp_peer_identity = None\<rparr> = Some (Ok (ie_identity_context envelope))
    \<and> tc_tenant_id (ie_tenant_context envelope) = ic_tenant_id (ie_identity_context envelope)
    \<and> header_text (ge_to_str_ok env) headers ''x-tenant-id''
        \<in> {None, Some (ic_tenant_id (ie_identity_context envelope))}
    \<and> p = (ic_tenant_id (ie_identity_context envelope),
           ic_agent_instance_id (ie_identity_context envelope))
    \<and> ie_payload envelope = body \<and> length body \<le> gc_max_body_bytes config
    \<and> ie_payload_hash envelope = ge_sha256_hex env body
    \<and> ie_idempotency_key envelope = header_text (ge_to_str_ok env) headers ''idempotency-key''"
proof -
  obtain request ad1 where adm: "admit config env POST ''/v1/actions'' headers ad = (Ok (request, p), ad1)"
    and env: "envelope = envelope_of env headers body request"
    and size: "length body \<le> gc_max_body_bytes config"
    using assms
    by (auto simp: post_action_begin_def call_begin_def Let_def split: if_splits prod.splits sum.splits)
  obtain identity tenant trace rid where request: "request = (identity, tenant, trace, rid)"
    by (cases request)
  have auth: "authenticate_and_tenant config env POST ''/v1/actions'' headers = Ok request"
    and p: "p = (tc_tenant_id tenant, ic_agent_instance_id identity)"
    using adm request
    by (auto simp: admit_def acquire_concurrency_def Let_def split: sum.splits prod.splits if_splits)
  then show ?thesis
    using request size
    by (auto simp: env envelope_of_def authenticate_and_tenant_def Let_def res_bind_Ok_iff
        resolve_tenant_def split: option.splits sum.splits if_splits)
qed

theorem submitted_envelope_is_bound_witness:
  "tc_tenant_id (ie_tenant_context (envelope_of sample_gateway_env sample_headers ''body''
      (sample_identity, \<lparr>tc_tenant_id = ''t'', tc_quota_profile = ''default''\<rparr>,
       \<lparr>tx_trace_id = ''x'', tx_parent_span_id = None, tx_invalid_input_replaced = False\<rparr>, ''r'')))
   = ic_tenant_id sample_identity"
  using submitted_envelope_is_bound [OF sample_post_value [unfolded sample_post_def]]
  by (simp add: envelope_of_def)

end
