(* ===== verification/Runtime.thy ===== *)
theory Runtime
  imports Task_Lifecycle Decimal_Text
begin

text \<open>
  The stateless transition engine behind the Temporal activity boundary
  (\<open>durable-orchestrator/src/runtime.rs\<close>): request validation, replay of processed commands, the
  capacity kept for a kill, the status path of every command and the evidence rules.

  A \<open>BTreeSet<String>\<close> is a finite set, of which \<open>digest_evidence\<close> reads the elements in order. The
  fact resolver, the clock, fresh event identifiers, the SHA-256 digest and the JSON text of a
  string map (\<open>None\<close> when it fails) are parameters: \<open>runtime_env\<close> is what one application draws.
\<close>

subsection \<open>Data\<close>

definition TRANSITION_REQUEST_SCHEMA_VERSION :: string where
  "TRANSITION_REQUEST_SCHEMA_VERSION = ''agenttrust.transition-request.v1''"

definition RUNTIME_STATE_SCHEMA_VERSION :: string where
  "RUNTIME_STATE_SCHEMA_VERSION = ''agenttrust.orchestrator-state.v1''"

definition RUNTIME_COMMAND_SCHEMA_VERSION :: string where
  "RUNTIME_COMMAND_SCHEMA_VERSION = ''agenttrust.orchestrator-command.v1''"

definition MAX_RUNTIME_EVENTS :: nat where "MAX_RUNTIME_EVENTS = 1024"
definition MAX_ROUTINE_COMMANDS :: nat where "MAX_ROUTINE_COMMANDS = 10000"
definition MAX_PROCESSED_COMMANDS :: nat where "MAX_PROCESSED_COMMANDS = 10257"

datatype runtime_command_type = RStart | RPause | RResume | RCancel | RKill | RCheckpoint | RVerify
  | RComplete | RNeedsHuman

datatype runtime_error = RequestInvalid | FactsInvalid | ConcurrentCommand | RIdempotencyConflict
  | TerminalTask | TransitionDenied | RAuthorizationInvalid | ContainmentIncomplete
  | CompletionEvidenceMissing | RCapacityExceeded | FactResolution string

record runtime_command =
  rc_schema_version :: string
  rc_command_id :: string
  rc_request_idempotency_key :: string
  rc_tenant_id :: string
  rc_task_id :: string
  rc_command_type :: runtime_command_type
  rc_expected_state_version :: u64
  rc_payload_digest :: string
  rc_requested_by :: string
  rc_requested_at :: datetime

record runtime_event =
  re_schema_version :: string
  re_event_id :: string
  re_command_id :: string
  re_from :: task_status
  re_to :: task_status
  re_recovery_cursor :: u64
  re_evidence_digest :: string
  re_occurred_at :: datetime

record runtime_execution =
  rx_ledger_execution_id :: string
  rx_fence_digest :: string
  rx_outcome_digest :: string
  rx_status :: execution_status
  rx_evidence_refs :: "string set"

record action_materialization =
  am_schema_version :: string
  am_tenant_id :: string
  am_action_id :: string
  am_payload_hash :: string
  am_store :: string
  am_uri :: string

record runtime_state =
  rt_schema_version :: string
  rt_tenant_id :: string
  rt_task_id :: string
  rt_action_id :: string
  rt_status :: task_status
  rt_recovery_cursor :: u64
  rt_terminal :: bool
  rt_evidence_refs :: "string set"
  rt_ingress_digest :: string
  rt_action_materialization :: action_materialization
  rt_has_side_effects :: bool
  rt_execution :: "runtime_execution option"
  rt_processed_commands :: "string set"
  rt_processed_command_fingerprints :: "(string, string) btree"
  rt_processed_idempotency_keys :: "(string, string) btree"
  rt_events :: "runtime_event list"

record transition_request =
  tq_schema_version :: string
  tq_current :: runtime_state
  tq_command :: runtime_command

record resolved_facts =
  fa_evidence_refs :: "string set"
  fa_ledger_status :: "execution_status option"
  fa_evaluation :: "evaluation_result option"
  fa_compensation_verified :: bool
  fa_credential_revoked :: bool
  fa_supervisor_acknowledged :: bool
  fa_execution :: "runtime_execution option"

record runtime_env =
  rv_now :: datetime
  rv_event_now :: datetime
  rv_event_id :: string
  rv_sha256_hex :: "string \<Rightarrow> string"
  rv_json_of_map :: "(string \<times> string) list \<Rightarrow> string option"

subsection \<open>Digests and tokens\<close>

definition is_digest :: "string \<Rightarrow> bool" where
  "is_digest value \<longleftrightarrow> length value = 64
     \<and> list_all (\<lambda>b. is_ascii_digit b \<or> byte_between CHR ''a'' CHR ''f'' b) value"

definition is_token :: "string \<Rightarrow> bool" where
  "is_token value \<longleftrightarrow> list_all (\<lambda>b. is_ascii_alphanumeric b \<or> b \<in> set ''._:-'') value"

fun command_type_name :: "runtime_command_type \<Rightarrow> string" where
  "command_type_name RStart = ''START''"
| "command_type_name RPause = ''PAUSE''"
| "command_type_name RResume = ''RESUME''"
| "command_type_name RCancel = ''CANCEL''"
| "command_type_name RKill = ''KILL''"
| "command_type_name RCheckpoint = ''CHECKPOINT''"
| "command_type_name RVerify = ''VERIFY''"
| "command_type_name RComplete = ''COMPLETE''"
| "command_type_name RNeedsHuman = ''NEEDS_HUMAN''"

definition payload_digest_of :: "(string \<Rightarrow> string) \<Rightarrow> runtime_command_type \<Rightarrow> string" where
  "payload_digest_of sha256_hex t =
     sha256_hex ([CHR 0x7B, CHR 0x22] @ ''command_type'' @ [CHR 0x22] @ '':'' @ [CHR 0x22]
       @ command_type_name t @ [CHR 0x22, CHR 0x7D])"

definition command_fingerprint :: "runtime_env \<Rightarrow> runtime_command \<Rightarrow> string" where
  "command_fingerprint env c =
     rv_sha256_hex env
       (case rv_json_of_map env
          [(''command_id'', rc_command_id c),
           (''command_type'', command_type_name (rc_command_type c)),
           (''expected_state_version'', decimal (unat (rc_expected_state_version c))),
           (''payload_digest'', rc_payload_digest c),
           (''request_idempotency_key'', rc_request_idempotency_key c),
           (''requested_by'', rc_requested_by c),
           (''schema_version'', rc_schema_version c),
           (''task_id'', rc_task_id c),
           (''tenant_id'', rc_tenant_id c)] of
          None \<Rightarrow> [] | Some encoded \<Rightarrow> encoded)"

definition digest_evidence :: "(string \<Rightarrow> string) \<Rightarrow> string set \<Rightarrow> string" where
  "digest_evidence sha256_hex values =
     sha256_hex (concat (map (\<lambda>v. v @ [CHR 0x0A]) (sorted_list_of_set values)))"

subsection \<open>Validation\<close>

definition materialization_valid :: "runtime_state \<Rightarrow> bool" where
  "materialization_valid s \<longleftrightarrow>
     (let a = rt_action_materialization s in
      am_schema_version a = ''agenttrust.action-materialization-ref.v1''
      \<and> am_tenant_id a = rt_tenant_id s \<and> am_action_id a = rt_action_id s
      \<and> is_digest (am_payload_hash a) \<and> am_store a = ''ORCHESTRATOR_INGRESS_POSTGRESQL''
      \<and> am_uri a = ''orchestrator-ingress://'' @ rt_tenant_id s @ ''/'' @ rt_action_id s)"

definition execution_valid :: "runtime_execution \<Rightarrow> bool" where
  "execution_valid x \<longleftrightarrow> rx_ledger_execution_id x \<noteq> [] \<and> length (rx_ledger_execution_id x) \<le> 256
     \<and> is_token (rx_ledger_execution_id x) \<and> is_digest (rx_fence_digest x)
     \<and> is_digest (rx_outcome_digest x) \<and> rx_evidence_refs x \<noteq> {} \<and> [] \<notin> rx_evidence_refs x"

definition command_valid :: "runtime_env \<Rightarrow> runtime_state \<Rightarrow> runtime_command \<Rightarrow> bool" where
  "command_valid env s c \<longleftrightarrow>
     rc_schema_version c = RUNTIME_COMMAND_SCHEMA_VERSION
     \<and> rt_tenant_id s = rc_tenant_id c \<and> rt_task_id s = rc_task_id c
     \<and> rc_command_id c \<noteq> [] \<and> length (rc_command_id c) \<le> 256
     \<and> rc_request_idempotency_key c \<noteq> [] \<and> length (rc_request_idempotency_key c) \<le> 256
     \<and> is_token (rc_command_id c) \<and> is_token (rc_request_idempotency_key c)
     \<and> rc_requested_by c \<noteq> [] \<and> length (rc_requested_by c) \<le> 512
     \<and> is_digest (rc_payload_digest c)
     \<and> rc_payload_digest c = payload_digest_of (rv_sha256_hex env) (rc_command_type c)
     \<and> rc_requested_at c \<le> rv_now env + chrono_minutes 5"

definition state_valid :: "runtime_state \<Rightarrow> bool" where
  "state_valid s \<longleftrightarrow>
     rt_schema_version s = RUNTIME_STATE_SCHEMA_VERSION
     \<and> rt_tenant_id s \<noteq> [] \<and> rt_task_id s \<noteq> [] \<and> rt_action_id s \<noteq> []
     \<and> is_digest (rt_ingress_digest s) \<and> materialization_valid s
     \<and> length (rt_events s) \<le> MAX_RUNTIME_EVENTS
     \<and> card (rt_processed_commands s) \<le> MAX_PROCESSED_COMMANDS
     \<and> bt_len (rt_processed_command_fingerprints s) \<le> MAX_PROCESSED_COMMANDS
     \<and> bt_len (rt_processed_idempotency_keys s) \<le> MAX_PROCESSED_COMMANDS
     \<and> card (rt_processed_commands s) = bt_len (rt_processed_command_fingerprints s)
     \<and> (case rt_execution s of None \<Rightarrow> True | Some x \<Rightarrow> execution_valid x)
     \<and> (\<forall>c \<in> rt_processed_commands s. bt_contains (rt_processed_command_fingerprints s) c)"

definition validate_request :: "runtime_env \<Rightarrow> transition_request \<Rightarrow> runtime_error + unit" where
  "validate_request env q =
     (if tq_schema_version q = TRANSITION_REQUEST_SCHEMA_VERSION
         \<and> state_valid (tq_current q) \<and> command_valid env (tq_current q) (tq_command q)
      then Ok () else Err RequestInvalid)"

definition facts_validate :: "resolved_facts \<Rightarrow> runtime_error + unit" where
  "facts_validate f =
     (if fa_evidence_refs f = {} \<or> (\<exists>r \<in> fa_evidence_refs f. r = [] \<or> length r > 2048)
      then Err FactsInvalid else Ok ())"

subsection \<open>Paths\<close>

definition transition_path ::
  "task_status \<Rightarrow> runtime_command_type \<Rightarrow> runtime_error + task_status list" where
  "transition_path from command =
     (if from = TCreated \<and> command = RStart
        then Ok [TPlanned, TPolicyChecked, TApproved, TRunning]
      else if from = TPaused \<and> command = RResume then Ok [TRunning]
      else if from = TRunning \<and> command = RPause then Ok [TPauseRequested, TPaused]
      else if from = TRunning \<and> command = RCancel then Ok [TCancelRequested, TCancelling]
      else if from \<in> {TRunning, TPaused} \<and> command = RKill then Ok [TKillRequested, TKilled]
      else if from = TRunning \<and> command = RVerify then Ok [TVerifying]
      else if from = TVerifying \<and> command = RComplete then Ok [TCompleted]
      else if from \<in> {TRunning, TVerifying} \<and> command = RNeedsHuman then Ok [TNeedsHuman]
      else if from \<in> {TRunning, TPaused} \<and> command = RCheckpoint then Ok []
      else Err TransitionDenied)"

definition preflight_transition :: "runtime_state \<Rightarrow> runtime_command \<Rightarrow> runtime_error + unit" where
  "preflight_transition s c =
     res_bind (transition_path (rt_status s) (rc_command_type c)) (\<lambda>_.
       let processed = card (rt_processed_commands s);
           lifecycle_control =
             rc_command_type c \<in> {RPause, RResume, RCancel, RVerify, RComplete, RNeedsHuman}
       in if (rc_command_type c \<noteq> RKill \<and> processed \<ge> MAX_PROCESSED_COMMANDS - 1)
             \<or> (\<not> lifecycle_control \<and> rc_command_type c \<noteq> RKill \<and> processed \<ge> MAX_ROUTINE_COMMANDS)
             \<or> card (rt_processed_commands s) \<ge> MAX_PROCESSED_COMMANDS
             \<or> bt_len (rt_processed_command_fingerprints s) \<ge> MAX_PROCESSED_COMMANDS
             \<or> bt_len (rt_processed_idempotency_keys s) \<ge> MAX_PROCESSED_COMMANDS
          then Err RCapacityExceeded else Ok ())"

text \<open>The loop over the path: the last status, if the guard allows every hop.\<close>

fun walk_path ::
  "resolved_facts \<Rightarrow> bool \<Rightarrow> task_status \<Rightarrow> task_status list \<Rightarrow> runtime_error + task_status" where
  "walk_path facts has_side_effects previous [] = Ok previous"
| "walk_path facts has_side_effects previous (step # path) =
     (if \<not> guard_allows previous step (if step = TCompleted then fa_evaluation facts else None)
            has_side_effects (fa_compensation_verified facts)
      then Err TransitionDenied
      else walk_path facts has_side_effects step path)"

definition terminal_status :: "task_status \<Rightarrow> bool" where
  "terminal_status s \<longleftrightarrow> s \<in> {TCompleted, TKilled, TFailed, TRolledBack, TDenied}"

definition completion_proven :: "runtime_state \<Rightarrow> resolved_facts \<Rightarrow> bool" where
  "completion_proven s f \<longleftrightarrow>
     (case fa_evaluation f of
        None \<Rightarrow> False
      | Some e \<Rightarrow> ev_status e = Pass \<and> ev_hard_gate_results e \<noteq> bt_empty
          \<and> list_all id (bt_values (ev_hard_gate_results e))
          \<and> \<not> (rt_has_side_effects s \<and> fa_ledger_status f \<noteq> Some Succeeded))"

definition human_needed :: "resolved_facts \<Rightarrow> bool" where
  "human_needed f \<longleftrightarrow> fa_ledger_status f \<in> Some ` {Failed, TimedOut, Cancelled, Compensated,
     CompensationFailed, Unknown}"

definition push_event :: "runtime_event list \<Rightarrow> runtime_event \<Rightarrow> runtime_event list" where
  "push_event events e =
     (if length events \<ge> MAX_RUNTIME_EVENTS then tl events else events) @ [e]"

definition apply_resolved_transition ::
  "runtime_env \<Rightarrow> runtime_state \<Rightarrow> runtime_command \<Rightarrow> resolved_facts \<Rightarrow> runtime_error + runtime_state" where
  "apply_resolved_transition env s c facts =
     res_bind (facts_validate facts) (\<lambda>_.
     res_bind (transition_path (rt_status s) (rc_command_type c)) (\<lambda>path.
     res_bind (walk_path facts (rt_has_side_effects s) (rt_status s) path) (\<lambda>target.
       if rc_command_type c \<in> {RStart, RResume} \<and> fa_credential_revoked facts
       then Err RAuthorizationInvalid
       else if rc_command_type c = RKill
               \<and> (\<not> fa_credential_revoked facts \<or> \<not> fa_supervisor_acknowledged facts)
       then Err ContainmentIncomplete
       else if rc_command_type c = RComplete \<and> \<not> completion_proven s facts
       then Err CompletionEvidenceMissing
       else if rc_command_type c = RNeedsHuman \<and> \<not> human_needed facts
       then Err TransitionDenied
       else
         (let evidence = rt_evidence_refs s \<union> fa_evidence_refs facts;
              cursor = saturating_add (rt_recovery_cursor s) 1;
              fingerprint = command_fingerprint env c
          in Ok (s\<lparr>rt_status := target,
                   rt_execution := (case fa_execution facts of None \<Rightarrow> rt_execution s | Some x \<Rightarrow> Some x),
                   rt_evidence_refs := evidence,
                   rt_recovery_cursor := cursor,
                   rt_processed_commands := insert (rc_command_id c) (rt_processed_commands s),
                   rt_processed_command_fingerprints :=
                     bt_insert (rc_command_id c) fingerprint (rt_processed_command_fingerprints s),
                   rt_processed_idempotency_keys :=
                     bt_insert (rc_request_idempotency_key c) fingerprint
                       (rt_processed_idempotency_keys s),
                   rt_terminal := terminal_status target,
                   rt_events := push_event (rt_events s)
                     \<lparr>re_schema_version = RUNTIME_STATE_SCHEMA_VERSION, re_event_id = rv_event_id env,
                      re_command_id = rc_command_id c, re_from = rt_status s, re_to = target,
                      re_recovery_cursor = cursor,
                      re_evidence_digest = digest_evidence (rv_sha256_hex env) evidence,
                      re_occurred_at = rv_event_now env\<rparr>\<rparr>)))))"

text \<open>\<open>AuthoritativeTransitionEngine::apply\<close>, over an arbitrary resolver.\<close>

definition runtime_apply ::
  "runtime_env \<Rightarrow> (runtime_state \<Rightarrow> runtime_command \<Rightarrow> runtime_error + resolved_facts)
   \<Rightarrow> transition_request \<Rightarrow> runtime_error + runtime_state" where
  "runtime_apply env resolve q =
     (let s = tq_current q; c = tq_command q in
      res_bind (validate_request env q) (\<lambda>_.
        let fingerprint = command_fingerprint env c in
        if rc_command_id c \<in> rt_processed_commands s
        then (case bt_get (rt_processed_command_fingerprints s) (rc_command_id c) of
                Some existing \<Rightarrow> if existing = fingerprint then Ok s else Err RIdempotencyConflict
              | None \<Rightarrow> Err RIdempotencyConflict)
        else
          (case bt_get (rt_processed_idempotency_keys s) (rc_request_idempotency_key c) of
             Some existing \<Rightarrow> if existing = fingerprint then Ok s else Err RIdempotencyConflict
           | None \<Rightarrow>
               if rc_expected_state_version c \<noteq> rt_recovery_cursor s then Err ConcurrentCommand
               else if rt_terminal s then Err TerminalTask
               else res_bind (preflight_transition s c) (\<lambda>_.
                 res_bind (resolve s c) (\<lambda>facts. apply_resolved_transition env s c facts)))))"

end
