(* ===== verification/Runtime_Safety.thy ===== *)
theory Runtime_Safety
  imports Runtime
begin

text \<open>
  What the transition engine guarantees along every run, whatever commands arrive and whatever the
  fact resolver answers: it stays on the guarded life cycle, completes only with proof, keeps room
  for a kill, never leaves a terminal status, and answers a replayed command with the current state.
\<close>

subsection \<open>Runs\<close>

inductive runtime_step :: "runtime_state \<Rightarrow> runtime_state \<Rightarrow> bool" where
  applied: "runtime_apply env resolve
       \<lparr>tq_schema_version = TRANSITION_REQUEST_SCHEMA_VERSION, tq_current = s, tq_command = c\<rparr> = Ok t
     \<Longrightarrow> runtime_step s t"

definition runtime_init :: "runtime_state \<Rightarrow> bool" where
  "runtime_init s \<longleftrightarrow> rt_status s = TCreated \<and> \<not> rt_terminal s \<and> rt_processed_commands s = {}
     \<and> rt_processed_command_fingerprints s = bt_empty \<and> rt_processed_idempotency_keys s = bt_empty
     \<and> rt_events s = [] \<and> rt_recovery_cursor s = 0"

text \<open>An application that succeeds replays a command or commits a transition.\<close>

definition commits ::
  "runtime_env \<Rightarrow> runtime_state \<Rightarrow> runtime_command \<Rightarrow> resolved_facts \<Rightarrow> runtime_state \<Rightarrow> bool" where
  "commits env s c facts t \<longleftrightarrow>
     state_valid s \<and> command_valid env s c \<and> rc_command_id c \<notin> rt_processed_commands s
     \<and> bt_get (rt_processed_idempotency_keys s) (rc_request_idempotency_key c) = None
     \<and> rc_expected_state_version c = rt_recovery_cursor s \<and> \<not> rt_terminal s
     \<and> preflight_transition s c = Ok () \<and> apply_resolved_transition env s c facts = Ok t"

lemma runtime_apply_cases:
  assumes "runtime_apply env resolve q = Ok t"
  obtains (replayed) "t = tq_current q"
      "bt_get (rt_processed_command_fingerprints (tq_current q)) (rc_command_id (tq_command q))
         = Some (command_fingerprint env (tq_command q))
       \<or> bt_get (rt_processed_idempotency_keys (tq_current q)) (rc_request_idempotency_key (tq_command q))
         = Some (command_fingerprint env (tq_command q))"
  | (committed) facts where "resolve (tq_current q) (tq_command q) = Ok facts"
      "commits env (tq_current q) (tq_command q) facts t"
  using assms
  by (auto simp: runtime_apply_def Let_def res_bind_Ok_iff validate_request_def commits_def
      split: if_splits option.splits)

lemma commits_walk:
  assumes "commits env s c facts t"
  obtains path where "facts_validate facts = Ok ()"
    "transition_path (rt_status s) (rc_command_type c) = Ok path"
    "walk_path facts (rt_has_side_effects s) (rt_status s) path = Ok (rt_status t)"
    "rt_terminal t = terminal_status (rt_status t)"
  using assms
  by (auto simp: commits_def apply_resolved_transition_def Let_def res_bind_Ok_iff split: if_splits)

lemma walk_path_steps:
  "walk_path facts h old path = Ok to \<Longrightarrow> task_step\<^sup>*\<^sup>* old to"
proof (induction path arbitrary: old)
  case (Cons step path)
  then have "task_step old step" "task_step\<^sup>*\<^sup>* step to"
    by (auto intro: task_step.guarded split: if_splits)
  then show ?case by (rule converse_rtranclp_into_rtranclp)
qed simp

lemma walk_path_last: "walk_path facts h old path = Ok to \<Longrightarrow> to = last (old # path)"
  by (induction path arbitrary: old) (auto split: if_splits)

lemma runtime_step_lifecycle: "runtime_step s t \<Longrightarrow> task_step\<^sup>*\<^sup>* (rt_status s) (rt_status t)"
proof (induction rule: runtime_step.induct)
  case (applied env resolve s c t)
  then show ?case
  proof (cases rule: runtime_apply_cases)
    case replayed
    then show ?thesis by simp
  next
    case (committed facts)
    then show ?thesis
      by (auto elim!: commits_walk intro: walk_path_steps)
  qed
qed

subsection \<open>The invariant of the engine's state\<close>

definition runtime_ok :: "runtime_state \<Rightarrow> bool" where
  "runtime_ok s \<longleftrightarrow>
     finite (rt_processed_commands s)
     \<and> bt_ok (rt_processed_command_fingerprints s) \<and> bt_ok (rt_processed_idempotency_keys s)
     \<and> (\<forall>i. bt_get (rt_processed_command_fingerprints s) i \<noteq> None \<longleftrightarrow> i \<in> rt_processed_commands s)
     \<and> bt_len (rt_processed_command_fingerprints s) = card (rt_processed_commands s)
     \<and> bt_len (rt_processed_idempotency_keys s) = card (rt_processed_commands s)
     \<and> unat (rt_recovery_cursor s) = card (rt_processed_commands s)
     \<and> card (rt_processed_commands s) \<le> MAX_PROCESSED_COMMANDS
     \<and> (rt_terminal s \<or> card (rt_processed_commands s) < MAX_PROCESSED_COMMANDS)
     \<and> rt_terminal s = terminal_status (rt_status s)
     \<and> length (rt_events s) \<le> MAX_RUNTIME_EVENTS
     \<and> (rt_events s \<noteq> [] \<longrightarrow> re_to (last (rt_events s)) = rt_status s)"

lemma preflight_room:
  assumes "preflight_transition s c = Ok ()"
  shows "card (rt_processed_commands s) < MAX_PROCESSED_COMMANDS"
    and "rc_command_type c \<noteq> RKill \<Longrightarrow> card (rt_processed_commands s) < MAX_PROCESSED_COMMANDS - 1"
  using assms by (auto simp: preflight_transition_def Let_def res_bind_Ok_iff split: if_splits)

lemma kill_path: "transition_path s RKill = Ok path \<Longrightarrow> path = [TKillRequested, TKilled]"
  by (auto simp: transition_path_def split: if_splits)

lemma commits_ok:
  assumes ok: "runtime_ok s" and commit: "commits env s c facts t"
  shows "runtime_ok t"
proof -
  let ?n = "card (rt_processed_commands s)"
  have new: "rc_command_id c \<notin> rt_processed_commands s"
      "bt_get (rt_processed_command_fingerprints s) (rc_command_id c) = None"
      "bt_get (rt_processed_idempotency_keys s) (rc_request_idempotency_key c) = None"
    using ok commit by (auto simp: runtime_ok_def commits_def)
  have fields: "rt_processed_commands t = insert (rc_command_id c) (rt_processed_commands s)"
      "rt_processed_command_fingerprints t = bt_insert (rc_command_id c) (command_fingerprint env c)
         (rt_processed_command_fingerprints s)"
      "rt_processed_idempotency_keys t = bt_insert (rc_request_idempotency_key c)
         (command_fingerprint env c) (rt_processed_idempotency_keys s)"
      "rt_recovery_cursor t = saturating_add (rt_recovery_cursor s) 1"
      "\<exists>e. rt_events t = push_event (rt_events s) e \<and> re_to e = rt_status t"
    using commit
    by (auto simp: commits_def apply_resolved_transition_def Let_def res_bind_Ok_iff split: if_splits)
  obtain path where path: "transition_path (rt_status s) (rc_command_type c) = Ok path"
      "walk_path facts (rt_has_side_effects s) (rt_status s) path = Ok (rt_status t)"
    and final: "rt_terminal t = terminal_status (rt_status t)"
    using commit by (rule commits_walk)
  have room: "?n < MAX_PROCESSED_COMMANDS"
      "rc_command_type c \<noteq> RKill \<Longrightarrow> ?n < MAX_PROCESSED_COMMANDS - 1"
    using commit by (auto simp: commits_def dest: preflight_room)
  have cursor: "unat (rt_recovery_cursor t) = Suc ?n"
    using ok room(1) by (simp add: fields(4) runtime_ok_def unat_saturating_add MAX_PROCESSED_COMMANDS_def)
  have kill: "rt_terminal t" if "rc_command_type c = RKill"
  proof -
    have "path = [TKillRequested, TKilled]"
      using path(1) that by (simp add: kill_path)
    then show ?thesis
      using walk_path_last [OF path(2)] by (simp add: final terminal_status_def)
  qed
  have events: "length (rt_events t) \<le> MAX_RUNTIME_EVENTS" "re_to (last (rt_events t)) = rt_status t"
    using ok fields(5) by (auto simp: runtime_ok_def push_event_def MAX_RUNTIME_EVENTS_def)
  have card: "card (rt_processed_commands t) = Suc ?n"
    using ok new(1) by (simp add: runtime_ok_def fields(1))
  have "rt_terminal t \<or> Suc ?n < MAX_PROCESSED_COMMANDS"
    using kill room(2) by fastforce
  then show ?thesis
    using ok new cursor events card room(1) final
    by (auto simp: runtime_ok_def fields(1-3) bt_len_insert bt.get_put)
qed

lemma runtime_ok_step: "runtime_step s t \<Longrightarrow> runtime_ok s \<Longrightarrow> runtime_ok t"
proof (induction rule: runtime_step.induct)
  case (applied env resolve s c t)
  from applied(1) show ?case
    by (cases rule: runtime_apply_cases) (use applied(2) in \<open>auto intro: commits_ok\<close>)
qed

lemma runtime_ok_init: "runtime_init s \<Longrightarrow> runtime_ok s"
  by (simp add: runtime_init_def runtime_ok_def terminal_status_def MAX_PROCESSED_COMMANDS_def)

interpretation runtime_machine: invariant_system runtime_step runtime_ok runtime_init
  by unfold_locales (auto intro: runtime_ok_step runtime_ok_init)

subsection \<open>What stays\<close>

definition processed_as :: "string \<Rightarrow> string \<Rightarrow> runtime_state \<Rightarrow> bool" where
  "processed_as i fingerprint s \<longleftrightarrow> i \<in> rt_processed_commands s
     \<and> bt_get (rt_processed_command_fingerprints s) i = Some fingerprint"

lemma processed_as_step: "runtime_step s t \<Longrightarrow> processed_as i f s \<Longrightarrow> processed_as i f t"
proof (induction rule: runtime_step.induct)
  case (applied env resolve s c t)
  from applied(1) show ?case
  proof (cases rule: runtime_apply_cases)
    case (committed facts)
    then show ?thesis
      using applied(2)
      by (auto simp: commits_def processed_as_def apply_resolved_transition_def Let_def
          res_bind_Ok_iff bt.get_put split: if_splits)
  qed (use applied(2) in simp)
qed

interpretation processed: kept_by_steps runtime_step "processed_as i f" for i f
  by unfold_locales (rule processed_as_step)

lemma terminal_step: "runtime_step s t \<Longrightarrow> rt_terminal s \<Longrightarrow> t = s"
proof (induction rule: runtime_step.induct)
  case (applied env resolve s c t)
  from applied(1) show ?case
    by (cases rule: runtime_apply_cases) (use applied(2) in \<open>auto simp: commits_def\<close>)
qed

interpretation terminal: kept_by_steps runtime_step "\<lambda>s. s = s0 \<and> rt_terminal s" for s0
  by unfold_locales (auto dest: terminal_step)

subsection \<open>A command, its facts and a run\<close>

definition sample_runtime_env :: runtime_env where
  "sample_runtime_env = \<lparr>rv_now = 0, rv_event_now = 0, rv_event_id = ''event'',
     rv_sha256_hex = \<lambda>_. replicate 64 CHR ''a'', rv_json_of_map = \<lambda>_. Some []\<rparr>"

definition sample_command :: "runtime_command_type \<Rightarrow> u64 \<Rightarrow> string \<Rightarrow> runtime_command" where
  "sample_command kind cursor i = \<lparr>rc_schema_version = RUNTIME_COMMAND_SCHEMA_VERSION, rc_command_id = i,
     rc_request_idempotency_key = i, rc_tenant_id = ''t'', rc_task_id = ''k'', rc_command_type = kind,
     rc_expected_state_version = cursor, rc_payload_digest = replicate 64 CHR ''a'',
     rc_requested_by = ''u'', rc_requested_at = 0\<rparr>"

definition sample_runtime_state :: runtime_state where
  "sample_runtime_state = \<lparr>rt_schema_version = RUNTIME_STATE_SCHEMA_VERSION, rt_tenant_id = ''t'',
     rt_task_id = ''k'', rt_action_id = ''a'', rt_status = TCreated, rt_recovery_cursor = 0,
     rt_terminal = False, rt_evidence_refs = {}, rt_ingress_digest = replicate 64 CHR ''a'',
     rt_action_materialization =
       \<lparr>am_schema_version = ''agenttrust.action-materialization-ref.v1'', am_tenant_id = ''t'',
        am_action_id = ''a'', am_payload_hash = replicate 64 CHR ''a'',
        am_store = ''ORCHESTRATOR_INGRESS_POSTGRESQL'', am_uri = ''orchestrator-ingress://t/a''\<rparr>,
     rt_has_side_effects = False, rt_execution = None, rt_processed_commands = {},
     rt_processed_command_fingerprints = bt_empty, rt_processed_idempotency_keys = bt_empty,
     rt_events = []\<rparr>"

definition sample_facts :: resolved_facts where
  "sample_facts = \<lparr>fa_evidence_refs = {''e''}, fa_ledger_status = None, fa_evaluation = None,
     fa_compensation_verified = False, fa_credential_revoked = False,
     fa_supervisor_acknowledged = False, fa_execution = None\<rparr>"

definition sample_started :: "runtime_error + runtime_state" where
  "sample_started = runtime_apply sample_runtime_env (\<lambda>_ _. Ok sample_facts)
     \<lparr>tq_schema_version = TRANSITION_REQUEST_SCHEMA_VERSION, tq_current = sample_runtime_state,
      tq_command = sample_command RStart 0 ''c1''\<rparr>"

lemma sample_runtime_valid:
  "state_valid sample_runtime_state"
  "command_valid sample_runtime_env sample_runtime_state (sample_command kind cursor ''c1'')"
  by (simp_all add: state_valid_def command_valid_def sample_runtime_state_def sample_command_def
      materialization_valid_def is_digest_def is_token_def byte_defs payload_digest_of_def
      sample_runtime_env_def MAX_RUNTIME_EVENTS_def MAX_PROCESSED_COMMANDS_def chrono_minutes_def
      list_all_iff)

lemma state_valid_status [simp]:
  "state_valid (s\<lparr>rt_status := x\<rparr>) = state_valid s"
  by (simp add: state_valid_def materialization_valid_def)

lemma command_valid_cong:
  "rt_tenant_id t = rt_tenant_id s \<Longrightarrow> rt_task_id t = rt_task_id s \<Longrightarrow>
   command_valid env t c = command_valid env s c"
  by (simp add: command_valid_def)

definition sample_replayable :: runtime_state where
  "sample_replayable = sample_runtime_state\<lparr>rt_processed_commands := {''c1''},
     rt_processed_command_fingerprints := [(''c1'', replicate 64 CHR ''a'')]\<rparr>"

lemma sample_replayable_valid:
  "state_valid sample_replayable"
  "command_valid sample_runtime_env sample_replayable (sample_command kind cursor ''c1'')"
proof -
  show "state_valid sample_replayable"
    by (simp add: state_valid_def sample_replayable_def sample_runtime_state_def
        materialization_valid_def is_digest_def byte_defs MAX_RUNTIME_EVENTS_def
        MAX_PROCESSED_COMMANDS_def list_all_iff bt_len_def bt_contains_def bt_get_def bt_empty_def)
  show "command_valid sample_runtime_env sample_replayable (sample_command kind cursor ''c1'')"
    using sample_runtime_valid(2) command_valid_cong [of sample_replayable sample_runtime_state]
    by (simp add: sample_replayable_def)
qed

lemma sample_replay_apply:
  assumes "state_valid s" "rt_tenant_id s = rt_tenant_id sample_replayable"
    "rt_task_id s = rt_task_id sample_replayable" "rt_processed_commands s = {''c1''}"
    "rt_processed_command_fingerprints s = [(''c1'', replicate 64 CHR ''a'')]"
  shows "runtime_apply sample_runtime_env (\<lambda>_ _. Err TransitionDenied)
      \<lparr>tq_schema_version = TRANSITION_REQUEST_SCHEMA_VERSION, tq_current = s,
       tq_command = sample_command RStart 0 ''c1''\<rparr> = Ok s"
proof -
  have "command_valid sample_runtime_env s (sample_command RStart 0 ''c1'')"
    using assms(2,3) sample_replayable_valid(2) command_valid_cong [of s sample_replayable] by simp
  then show ?thesis
    using assms(1,4,5)
    by (simp add: runtime_apply_def validate_request_def)
      (simp add: sample_command_def bt_get_def command_fingerprint_def sample_runtime_env_def)
qed

lemmas sample_replay_step = runtime_step.applied [OF sample_replay_apply]

lemma sample_started_value:
  "\<exists>t. sample_started = Ok t \<and> rt_status t = TRunning \<and> \<not> rt_terminal t
     \<and> rt_processed_commands t = {''c1''}"
  by (simp add: sample_started_def runtime_apply_def validate_request_def sample_runtime_valid)
    (simp add: sample_runtime_state_def sample_command_def preflight_transition_def transition_path_def
      MAX_PROCESSED_COMMANDS_def MAX_ROUTINE_COMMANDS_def apply_resolved_transition_def
      facts_validate_def sample_facts_def guard_defs terminal_status_def Let_def)

lemma sample_runtime_init: "runtime_init sample_runtime_state"
  by (simp add: runtime_init_def sample_runtime_state_def)

lemma sample_runtime_run:
  obtains t where "sample_started = Ok t" "reach runtime_init runtime_step t" "rt_status t = TRunning"
    "rt_processed_commands t = {''c1''}"
proof -
  obtain t where t: "sample_started = Ok t" "rt_status t = TRunning" "rt_processed_commands t = {''c1''}"
    using sample_started_value by blast
  have "runtime_step sample_runtime_state t"
    using t(1) unfolding sample_started_def by (rule runtime_step.applied)
  then have "reach runtime_init runtime_step t"
    by (rule reach_step [OF reach_init [of runtime_init, OF sample_runtime_init]])
  then show thesis
    using that t by blast
qed

subsection \<open>Properties\<close>

text \<open>The engine refines the guarded life cycle. Every state a run reaches is one the transition
  guard leads to from Created, its cursor counts the processed commands, its terminal flag is exact,
  and its bounded event log ends in its status.\<close>

theorem runtime_follows_lifecycle:
  assumes "reach runtime_init runtime_step s"
  shows "task_step\<^sup>*\<^sup>* TCreated (rt_status s)
    \<and> unat (rt_recovery_cursor s) = card (rt_processed_commands s)
    \<and> card (rt_processed_commands s) \<le> MAX_PROCESSED_COMMANDS
    \<and> rt_terminal s = terminal_status (rt_status s)
    \<and> length (rt_events s) \<le> MAX_RUNTIME_EVENTS
    \<and> (rt_events s \<noteq> [] \<longrightarrow> re_to (last (rt_events s)) = rt_status s)"
proof -
  have "task_step\<^sup>*\<^sup>* TCreated (rt_status s)"
    using assms
  proof (induction rule: reach.induct)
    case (reach_init s)
    then show ?case by (simp add: runtime_init_def)
  next
    case (reach_step s t)
    then show ?case by (meson runtime_step_lifecycle rtranclp_trans)
  qed
  then show ?thesis
    using runtime_machine.reach_inv [OF assms] by (simp add: runtime_ok_def)
qed

theorem runtime_follows_lifecycle_witness:
  "\<exists>t. sample_started = Ok t \<and> task_step\<^sup>*\<^sup>* TCreated (rt_status t) \<and> unat (rt_recovery_cursor t) = 1"
proof -
  obtain t where t: "sample_started = Ok t" "reach runtime_init runtime_step t"
      "rt_processed_commands t = {''c1''}"
    by (rule sample_runtime_run)
  show ?thesis
    using runtime_follows_lifecycle [OF t(2)] t by auto
qed

text \<open>C4: a task completes only with proof. When an application takes a task to Completed, the command
  was Complete on a task being verified, and the resolved facts had evidence, an evaluation that
  passed with at least one hard gate and all of them met, and, for a task with side effects, a
  ledger that says Succeeded.\<close>

theorem runtime_completion_is_proven:
  assumes "runtime_apply env resolve q = Ok t"
    and "rt_status t = TCompleted" and "rt_status (tq_current q) \<noteq> TCompleted"
  shows "\<exists>facts e. resolve (tq_current q) (tq_command q) = Ok facts
    \<and> rc_command_type (tq_command q) = RComplete \<and> rt_status (tq_current q) = TVerifying
    \<and> fa_evaluation facts = Some e \<and> ev_status e = Pass \<and> bt_values (ev_hard_gate_results e) \<noteq> []
    \<and> (\<forall>passed \<in> set (bt_values (ev_hard_gate_results e)). passed)
    \<and> fa_evidence_refs facts \<noteq> {} \<and> fa_evidence_refs facts \<subseteq> rt_evidence_refs t
    \<and> (rt_has_side_effects (tq_current q) \<longrightarrow> fa_ledger_status facts = Some Succeeded)"
  using assms(1)
proof (cases rule: runtime_apply_cases)
  case replayed
  then show ?thesis using assms(2,3) by simp
next
  case (committed facts)
  let ?s = "tq_current q" and ?c = "tq_command q"
  obtain path where path: "facts_validate facts = Ok ()"
      "transition_path (rt_status ?s) (rc_command_type ?c) = Ok path"
      "walk_path facts (rt_has_side_effects ?s) (rt_status ?s) path = Ok (rt_status t)"
    using committed(2) by (rule commits_walk)
  have at: "rc_command_type ?c = RComplete \<and> rt_status ?s = TVerifying"
    using path(2) walk_path_last [OF path(3)] assms(2,3)
    by (auto simp: transition_path_def split: if_splits)
  have result: "apply_resolved_transition env ?s ?c facts = Ok t"
    using committed(2) by (simp add: commits_def)
  have proven: "completion_proven ?s facts" and refs: "rt_evidence_refs t = rt_evidence_refs ?s \<union> fa_evidence_refs facts"
    using result at
    by (auto simp: apply_resolved_transition_def Let_def res_bind_Ok_iff split: if_splits)
  have "fa_evidence_refs facts \<noteq> {}"
    using path(1) by (auto simp: facts_validate_def)
  then show ?thesis
    using committed(1) at proven refs
    by (auto simp: completion_proven_def list_all_iff bt_values_def bt_empty_def split: option.splits)
qed

definition sample_evaluation :: evaluation_result where
  "sample_evaluation = \<lparr>ev_schema_version = [], ev_status = Pass, ev_score_millionths = 0,
     ev_hard_gate_results = [(''gate'', True)], ev_findings = [], ev_evidence_refs = [],
     ev_evaluator_id = [], ev_evaluator_version = [], ev_evaluated_at = 0\<rparr>"

definition sample_verifying :: transition_request where
  "sample_verifying = \<lparr>tq_schema_version = TRANSITION_REQUEST_SCHEMA_VERSION,
     tq_current = sample_runtime_state\<lparr>rt_status := TVerifying\<rparr>,
     tq_command = sample_command RComplete 0 ''c1''\<rparr>"

lemma sample_completes:
  "\<exists>t. runtime_apply sample_runtime_env (\<lambda>_ _. Ok (sample_facts\<lparr>fa_evaluation := Some sample_evaluation\<rparr>))
      sample_verifying = Ok t \<and> rt_status t = TCompleted"
proof -
  have "state_valid (sample_runtime_state\<lparr>rt_status := TVerifying\<rparr>)"
    "command_valid sample_runtime_env (sample_runtime_state\<lparr>rt_status := TVerifying\<rparr>)
       (sample_command RComplete 0 ''c1'')"
    using sample_runtime_valid command_valid_cong [of "sample_runtime_state\<lparr>rt_status := TVerifying\<rparr>"
        sample_runtime_state] by simp_all
  then show ?thesis
    by (simp add: sample_verifying_def runtime_apply_def validate_request_def)
      (simp add: sample_runtime_state_def sample_command_def preflight_transition_def transition_path_def
        MAX_PROCESSED_COMMANDS_def MAX_ROUTINE_COMMANDS_def apply_resolved_transition_def
        facts_validate_def sample_facts_def guard_defs hard_gates_pass_def sample_evaluation_def
        completion_proven_def bt_values_def bt_empty_def bt_get_def bt_len_def Let_def)
qed

theorem runtime_completion_is_proven_witness:
  "\<exists>t :: runtime_state. rt_status t = TCompleted \<and> {''e''} \<subseteq> rt_evidence_refs t"
proof -
  obtain t where t: "runtime_apply sample_runtime_env
      (\<lambda>_ _. Ok (sample_facts\<lparr>fa_evaluation := Some sample_evaluation\<rparr>)) sample_verifying = Ok t"
      "rt_status t = TCompleted"
    using sample_completes by blast
  have "rt_status (tq_current sample_verifying) \<noteq> TCompleted"
    by (simp add: sample_verifying_def)
  from runtime_completion_is_proven [OF t this] obtain facts
    where "Ok (sample_facts\<lparr>fa_evaluation := Some sample_evaluation\<rparr>) = (Ok facts :: runtime_error + resolved_facts)"
      and refs: "fa_evidence_refs facts \<subseteq> rt_evidence_refs t"
    by (elim exE conjE) (rule that)
  then have "facts = sample_facts\<lparr>fa_evaluation := Some sample_evaluation\<rparr>"
    by (elim Inr_inject [elim_format]) (rule sym)
  then have "fa_evidence_refs facts = {''e''}"
    by (simp add: sample_facts_def)
  with refs t(2) have "rt_status t = TCompleted \<and> {''e''} \<subseteq> rt_evidence_refs t"
    by simp
  then show ?thesis ..
qed

text \<open>A terminal state is final: whatever commands arrive, no application leaves it or changes it.\<close>

theorem runtime_terminal_is_final:
  assumes "rt_terminal s" and "runtime_step\<^sup>*\<^sup>* s t"
  shows "t = s"
  using terminal.steps_keep [OF assms(2), of s] assms(1) by simp

theorem runtime_terminal_is_final_witness:
  "\<exists>t. runtime_step\<^sup>*\<^sup>* (sample_replayable\<lparr>rt_terminal := True\<rparr>) t
     \<and> t = sample_replayable\<lparr>rt_terminal := True\<rparr>"
proof -
  let ?s = "sample_replayable\<lparr>rt_terminal := True\<rparr>"
  have "state_valid ?s"
    using sample_replayable_valid(1) by (simp add: state_valid_def materialization_valid_def)
  then have "runtime_step\<^sup>*\<^sup>* ?s ?s"
    by (intro r_into_rtranclp sample_replay_step) (simp_all add: sample_replayable_def)
  then show ?thesis
    using runtime_terminal_is_final [of ?s] by auto
qed

text \<open>A command is applied once. After it has been applied, sending it again to any later state of
  the task changes nothing and succeeds; another command under the same identifier is a conflict.\<close>

theorem runtime_replay_is_idempotent:
  assumes "runtime_apply env resolve
      \<lparr>tq_schema_version = TRANSITION_REQUEST_SCHEMA_VERSION, tq_current = s, tq_command = c\<rparr> = Ok t"
    and "rc_command_id c \<in> rt_processed_commands t" and "runtime_step\<^sup>*\<^sup>* t u"
    and "state_valid u" and "command_valid env u c'" and "rc_command_id c' = rc_command_id c"
  shows "runtime_apply env resolve'
      \<lparr>tq_schema_version = TRANSITION_REQUEST_SCHEMA_VERSION, tq_current = u, tq_command = c'\<rparr> =
    (if command_fingerprint env c' = command_fingerprint env c then Ok u else Err RIdempotencyConflict)"
proof -
  have "processed_as (rc_command_id c) (command_fingerprint env c) t"
    using assms(1)
  proof (cases rule: runtime_apply_cases)
    case replayed
    then have "rc_command_id c \<in> rt_processed_commands s"
      using assms(2) by simp
    then show ?thesis
      using assms(1) replayed(1)
      by (auto simp: runtime_apply_def res_bind_Ok_iff processed_as_def split: option.splits if_splits)
  next
    case (committed facts)
    then show ?thesis
      by (auto simp: commits_def processed_as_def apply_resolved_transition_def Let_def
          res_bind_Ok_iff split: if_splits)
  qed
  then have "processed_as (rc_command_id c) (command_fingerprint env c) u"
    using assms(3) by (rule processed.steps_keep [rotated])
  then show ?thesis
    using assms(4-6) by (simp add: runtime_apply_def validate_request_def processed_as_def)
qed

theorem runtime_replay_is_idempotent_witness:
  "runtime_apply sample_runtime_env (\<lambda>_ _. Err TerminalTask)
     \<lparr>tq_schema_version = TRANSITION_REQUEST_SCHEMA_VERSION, tq_current = sample_replayable,
      tq_command = sample_command RStart 0 ''c1''\<rparr> = Ok sample_replayable"
proof -
  have "runtime_apply sample_runtime_env (\<lambda>_ _. Err TransitionDenied)
     \<lparr>tq_schema_version = TRANSITION_REQUEST_SCHEMA_VERSION, tq_current = sample_replayable,
      tq_command = sample_command RStart 0 ''c1''\<rparr> = Ok sample_replayable"
    by (rule sample_replay_apply [OF sample_replayable_valid(1) refl refl])
      (simp_all add: sample_replayable_def)
  moreover have "rc_command_id (sample_command RStart 0 ''c1'') \<in> rt_processed_commands sample_replayable"
    by (simp add: sample_command_def sample_replayable_def)
  ultimately show ?thesis
    by (subst runtime_replay_is_idempotent [OF _ _ rtranclp.rtrancl_refl sample_replayable_valid refl]) simp_all
qed

text \<open>A running or paused task can always be killed. However many commands a run has processed, the
  capacity reserved for a kill is still there, and the kill ends in Killed as soon as the credential
  is revoked and the supervisor has acknowledged, and is refused as incomplete before.\<close>

theorem runtime_kill_is_always_possible:
  assumes "reach runtime_init runtime_step s" and "rt_status s \<in> {TRunning, TPaused}"
    and "rc_command_type c = RKill" and "facts_validate facts = Ok ()"
  shows "preflight_transition s c = Ok ()
    \<and> map_sum id rt_status (apply_resolved_transition env s c facts) =
      (if fa_credential_revoked facts \<and> fa_supervisor_acknowledged facts
       then Ok TKilled else Err ContainmentIncomplete)"
proof -
  have "runtime_ok s"
    using assms(1) by (rule runtime_machine.reach_inv)
  moreover have "\<not> terminal_status (rt_status s)"
    using assms(2) by (auto simp: terminal_status_def)
  ultimately have "card (rt_processed_commands s) < MAX_PROCESSED_COMMANDS"
      "bt_len (rt_processed_command_fingerprints s) = card (rt_processed_commands s)"
      "bt_len (rt_processed_idempotency_keys s) = card (rt_processed_commands s)"
    by (auto simp: runtime_ok_def)
  moreover have "transition_path (rt_status s) (rc_command_type c) = Ok [TKillRequested, TKilled]"
    using assms(2,3) by (auto simp: transition_path_def)
  ultimately show ?thesis
    using assms(2-4)
    by (auto simp: preflight_transition_def apply_resolved_transition_def Let_def guard_defs)
qed

theorem runtime_kill_is_always_possible_witness:
  "\<exists>t. sample_started = Ok t \<and> preflight_transition t (sample_command RKill 1 ''c2'') = Ok ()
    \<and> apply_resolved_transition sample_runtime_env t (sample_command RKill 1 ''c2'') sample_facts
        = Err ContainmentIncomplete"
proof -
  obtain t where t: "sample_started = Ok t" "reach runtime_init runtime_step t" "rt_status t = TRunning"
    by (rule sample_runtime_run)
  have "rt_status t \<in> {TRunning, TPaused}" "rc_command_type (sample_command RKill 1 ''c2'') = RKill"
    "facts_validate sample_facts = Ok ()"
    using t(3) by (simp_all add: sample_command_def facts_validate_def sample_facts_def)
  from runtime_kill_is_always_possible [OF t(2) this, of sample_runtime_env]
  have "preflight_transition t (sample_command RKill 1 ''c2'') = Ok ()"
    "map_sum id rt_status (apply_resolved_transition sample_runtime_env t (sample_command RKill 1 ''c2'')
        sample_facts) = Err ContainmentIncomplete"
    by (simp_all add: sample_facts_def)
  then show ?thesis
    using t(1)
    by (cases "apply_resolved_transition sample_runtime_env t (sample_command RKill 1 ''c2'') sample_facts")
      auto
qed

text \<open>A cancelling task is stuck. No command takes it anywhere, not even a kill, although its status
  is not a terminal one.\<close>

theorem runtime_cancelling_is_stuck:
  assumes "rt_status s = TCancelling" and "runtime_step s t"
  shows "t = s \<and> \<not> terminal_status (rt_status s)"
  using assms(2)
proof (cases rule: runtime_step.cases)
  case (applied env resolve c)
  from applied show ?thesis
    by (cases rule: runtime_apply_cases)
      (use assms(1) in \<open>auto simp: terminal_status_def transition_path_def elim: commits_walk\<close>)
qed

theorem runtime_cancelling_is_stuck_witness:
  "\<exists>t. runtime_step (sample_replayable\<lparr>rt_status := TCancelling\<rparr>) t
     \<and> t = sample_replayable\<lparr>rt_status := TCancelling\<rparr> \<and> \<not> terminal_status (rt_status t)"
proof -
  let ?s = "sample_replayable\<lparr>rt_status := TCancelling\<rparr>"
  have "runtime_step ?s ?s"
    by (intro sample_replay_step) (simp_all add: sample_replayable_valid(1), simp_all add: sample_replayable_def)
  then show ?thesis
    using runtime_cancelling_is_stuck [of ?s] by auto
qed

end
