(* ===== verification/Orchestrator.thy ===== *)
theory Orchestrator
  imports Contracts
begin

text \<open>
  The in-process task service (\<open>durable-orchestrator/src/lib.rs\<close>, \<open>TaskTransitionService\<close>): creation
  of tasks, authorization leases with their revocation epochs, authorization checkpoints, the
  binding of steps to ledger executions, event queries and snapshots. Its transition function is
  compiled for tests only; the transitions of the deployed program are those of \<open>Runtime\<close>.

  The two mutexes of the service are the fields \<open>ts_tasks\<close> and \<open>ts_events\<close>. \<open>now\<close> is the clock a
  call reads; \<open>to_vec\<close> and \<open>from_slice\<close> are the JSON serialization of a snapshot.
\<close>

subsection \<open>Data\<close>

definition ORCHESTRATOR_SCHEMA_VERSION :: string where
  "ORCHESTRATOR_SCHEMA_VERSION = ''agenttrust.orchestrator.v1''"

datatype orchestrator_error = OConfigurationInvalid | OIntentInvalid | OCapacityExceeded
  | ONotFound | OIdempotencyConflict | OAuthorizationInvalid | OCommandInvalid
  | OConcurrentCommand | OTransitionDenied | OCompletionEvidenceMissing | OContainmentIncomplete
  | OPersistenceFailed

record step_runtime =
  sr_schema_version :: string
  sr_step_id :: string
  sr_status :: task_status
  sr_stable_idempotency_key :: string
  sr_ledger_execution_id :: "string option"
  sr_attempt :: u32
  sr_updated_at :: datetime

record task_runtime =
  tk_schema_version :: string
  tk_tenant_id :: string
  tk_task_id :: string
  tk_status :: task_status
  tk_goal_hash :: string
  tk_plan_hash :: string
  tk_policy_snapshot :: "string option"
  tk_authorization_lease :: "authorization_lease option"
  tk_authorization_epoch :: u64
  tk_steps :: "(string, step_runtime) btree"
  tk_has_side_effects :: bool
  tk_evidence_refs :: "string set"
  tk_processed_commands :: "string set"
  tk_last_evaluation :: "evaluation_result option"
  tk_recovery_cursor :: u64
  tk_updated_at :: datetime

record workflow_event =
  we_schema_version :: string
  we_event_id :: string
  we_task_id :: string
  we_command_id :: string
  we_from :: task_status
  we_to :: task_status
  we_recovery_cursor :: u64
  we_evidence_digest :: string
  we_occurred_at :: datetime

record authorization_checkpoint =
  ck_schema_version :: string
  ck_task_id :: string
  ck_checkpoint :: string
  ck_goal_hash :: string
  ck_plan_hash :: string
  ck_policy_snapshot :: string
  ck_lease_id :: string
  ck_risk_signal_digest :: string
  ck_checked_at :: datetime

record orchestrator_snapshot =
  os_schema_version :: string
  os_tasks :: "task_runtime list"
  os_events :: "workflow_event list"

record task_service =
  ts_maximum_tasks :: nat
  ts_maximum_events :: nat
  ts_tasks :: "(string \<times> string, task_runtime) btree"
  ts_events :: "workflow_event list"

definition service_new :: "nat \<Rightarrow> nat \<Rightarrow> orchestrator_error + task_service" where
  "service_new maximum_tasks maximum_events =
     (if maximum_tasks = 0 \<or> maximum_events = 0 then Err OConfigurationInvalid
      else Ok \<lparr>ts_maximum_tasks = maximum_tasks, ts_maximum_events = maximum_events,
               ts_tasks = bt_empty, ts_events = []\<rparr>)"

subsection \<open>Creation\<close>

definition new_step :: "string \<Rightarrow> datetime \<Rightarrow> plan_step \<Rightarrow> string \<times> step_runtime" where
  "new_step task_id now step =
     (ps_step_id step,
      \<lparr>sr_schema_version = ORCHESTRATOR_SCHEMA_VERSION, sr_step_id = ps_step_id step,
       sr_status = TCreated, sr_stable_idempotency_key = task_id @ '':'' @ ps_step_id step,
       sr_ledger_execution_id = None, sr_attempt = 0, sr_updated_at = now\<rparr>)"

definition new_task :: "string \<Rightarrow> string \<Rightarrow> datetime \<Rightarrow> signed_goal \<Rightarrow> plan_manifest \<Rightarrow> task_runtime" where
  "new_task tenant_id task_id now goal plan =
     \<lparr>tk_schema_version = ORCHESTRATOR_SCHEMA_VERSION, tk_tenant_id = tenant_id,
      tk_task_id = task_id, tk_status = TCreated, tk_goal_hash = sgo_goal_hash goal,
      tk_plan_hash = pm_plan_hash plan, tk_policy_snapshot = None, tk_authorization_lease = None,
      tk_authorization_epoch = 0, tk_steps = bt_of_list (map (new_step task_id now) (pm_steps plan)),
      tk_has_side_effects = False, tk_evidence_refs = {}, tk_processed_commands = {},
      tk_last_evaluation = None, tk_recovery_cursor = 0, tk_updated_at = now\<rparr>"

definition task_create ::
  "datetime \<Rightarrow> string \<Rightarrow> string \<Rightarrow> signed_goal \<Rightarrow> plan_manifest \<Rightarrow> task_service
   \<Rightarrow> (orchestrator_error + task_runtime) \<times> task_service" where
  "task_create now tenant_id task_id goal plan sv =
     (if sgo_goal_hash goal \<noteq> pm_goal_hash plan \<or> length (sgo_goal_hash goal) \<noteq> 64
         \<or> length (pm_plan_hash plan) \<noteq> 64 \<or> pm_valid_until plan \<le> now
      then (Err OIntentInvalid, sv)
      else if bt_len (ts_tasks sv) \<ge> ts_maximum_tasks sv then (Err OCapacityExceeded, sv)
      else
        (case bt_get (ts_tasks sv) (tenant_id, task_id) of
           Some existing \<Rightarrow>
             (if tk_goal_hash existing = sgo_goal_hash goal \<and> tk_plan_hash existing = pm_plan_hash plan
              then Ok existing else Err OIdempotencyConflict, sv)
         | None \<Rightarrow>
             (let record = new_task tenant_id task_id now goal plan
              in (Ok record,
                  sv\<lparr>ts_tasks := bt_insert (tenant_id, task_id) record (ts_tasks sv)\<rparr>))))"

subsection \<open>Leases\<close>

definition with_task ::
  "string \<Rightarrow> string \<Rightarrow> (task_runtime \<Rightarrow> (orchestrator_error + unit) \<times> task_runtime) \<Rightarrow> task_service
   \<Rightarrow> (orchestrator_error + unit) \<times> task_service" where
  "with_task tenant task f sv =
     (case bt_get (ts_tasks sv) (tenant, task) of
        None \<Rightarrow> (Err ONotFound, sv)
      | Some record \<Rightarrow>
          (case f record of
             (r, record') \<Rightarrow> (r, sv\<lparr>ts_tasks := bt_insert (tenant, task) record' (ts_tasks sv)\<rparr>)))"

definition attach_lease ::
  "datetime \<Rightarrow> string \<Rightarrow> string \<Rightarrow> authorization_lease \<Rightarrow> task_service
   \<Rightarrow> (orchestrator_error + unit) \<times> task_service" where
  "attach_lease now tenant task lease =
     with_task tenant task (\<lambda>record.
       if al_task_id lease \<noteq> task \<or> al_goal_hash lease \<noteq> tk_goal_hash record
          \<or> al_plan_hash lease \<noteq> tk_plan_hash record \<or> al_valid_until lease \<le> now
          \<or> al_revocation_epoch lease < tk_authorization_epoch record
       then (Err OAuthorizationInvalid, record)
       else (Ok (), record\<lparr>tk_policy_snapshot := Some (al_policy_snapshot lease),
                           tk_authorization_epoch := al_revocation_epoch lease,
                           tk_authorization_lease := Some lease\<rparr>))"

definition revoke_lease ::
  "string \<Rightarrow> string \<Rightarrow> u64 \<Rightarrow> task_service \<Rightarrow> (orchestrator_error + unit) \<times> task_service" where
  "revoke_lease tenant task new_epoch =
     with_task tenant task (\<lambda>record.
       if new_epoch \<le> tk_authorization_epoch record then (Err OAuthorizationInvalid, record)
       else (Ok (), record\<lparr>tk_authorization_epoch := new_epoch, tk_authorization_lease := None\<rparr>))"

definition task_checkpoint ::
  "task_service \<Rightarrow> string \<Rightarrow> string \<Rightarrow> string \<Rightarrow> string \<Rightarrow> datetime
   \<Rightarrow> orchestrator_error + authorization_checkpoint" where
  "task_checkpoint sv tenant task checkpoint risk_signal_digest now =
     (case bt_get (ts_tasks sv) (tenant, task) of
        None \<Rightarrow> Err ONotFound
      | Some record \<Rightarrow>
          (case tk_authorization_lease record of
             None \<Rightarrow> Err OAuthorizationInvalid
           | Some lease \<Rightarrow>
               if checkpoint = [] \<or> length risk_signal_digest \<noteq> 64 \<or> now \<ge> al_valid_until lease
                  \<or> al_revocation_epoch lease < tk_authorization_epoch record
                  \<or> al_goal_hash lease \<noteq> tk_goal_hash record
                  \<or> al_plan_hash lease \<noteq> tk_plan_hash record
               then Err OAuthorizationInvalid
               else Ok \<lparr>ck_schema_version = ORCHESTRATOR_SCHEMA_VERSION, ck_task_id = task,
                        ck_checkpoint = checkpoint, ck_goal_hash = tk_goal_hash record,
                        ck_plan_hash = tk_plan_hash record,
                        ck_policy_snapshot = al_policy_snapshot lease,
                        ck_lease_id = al_lease_id lease,
                        ck_risk_signal_digest = risk_signal_digest, ck_checked_at = now\<rparr>))"

subsection \<open>Executions, queries, snapshots\<close>

definition bind_execution ::
  "datetime \<Rightarrow> string \<Rightarrow> string \<Rightarrow> string \<Rightarrow> string \<Rightarrow> bool \<Rightarrow> task_service
   \<Rightarrow> (orchestrator_error + unit) \<times> task_service" where
  "bind_execution now tenant task step_id execution_id has_side_effects =
     with_task tenant task (\<lambda>record.
       case bt_get (tk_steps record) step_id of
         None \<Rightarrow> (Err ONotFound, record)
       | Some step \<Rightarrow>
           (case sr_ledger_execution_id step of
              Some existing \<Rightarrow>
                (if existing = execution_id then Ok () else Err OIdempotencyConflict, record)
            | None \<Rightarrow>
                (Ok (),
                 record\<lparr>tk_steps := bt_insert step_id
                          (step\<lparr>sr_ledger_execution_id := Some execution_id,
                                sr_attempt := saturating_add (sr_attempt step) 1,
                                sr_updated_at := now\<rparr>) (tk_steps record),
                        tk_has_side_effects := (tk_has_side_effects record \<or> has_side_effects)\<rparr>)))"

definition task_get :: "task_service \<Rightarrow> string \<Rightarrow> string \<Rightarrow> orchestrator_error + task_runtime" where
  "task_get sv tenant task =
     (case bt_get (ts_tasks sv) (tenant, task) of None \<Rightarrow> Err ONotFound | Some record \<Rightarrow> Ok record)"

definition events_for ::
  "task_service \<Rightarrow> string \<Rightarrow> string \<Rightarrow> u64 \<Rightarrow> nat \<Rightarrow> orchestrator_error + workflow_event list" where
  "events_for sv tenant task after_recovery_cursor limit =
     (if limit = 0 \<or> limit > ts_maximum_events sv then Err OConfigurationInvalid
      else if \<not> bt_contains (ts_tasks sv) (tenant, task) then Err ONotFound
      else Ok (take limit
                (filter (\<lambda>e. we_task_id e = task \<and> we_recovery_cursor e > after_recovery_cursor)
                  (ts_events sv))))"

definition service_snapshot ::
  "(orchestrator_snapshot \<Rightarrow> string option) \<Rightarrow> task_service \<Rightarrow> orchestrator_error + string" where
  "service_snapshot to_vec sv =
     (case to_vec \<lparr>os_schema_version = ORCHESTRATOR_SCHEMA_VERSION, os_tasks = bt_values (ts_tasks sv),
                   os_events = ts_events sv\<rparr> of
        None \<Rightarrow> Err OPersistenceFailed | Some bytes \<Rightarrow> Ok bytes)"

definition service_restore ::
  "(string \<Rightarrow> orchestrator_snapshot option) \<Rightarrow> string \<Rightarrow> nat \<Rightarrow> nat \<Rightarrow> orchestrator_error + task_service" where
  "service_restore from_slice bytes maximum_tasks maximum_events =
     (case from_slice bytes of
        None \<Rightarrow> Err OPersistenceFailed
      | Some snapshot \<Rightarrow>
          if os_schema_version snapshot \<noteq> ORCHESTRATOR_SCHEMA_VERSION
             \<or> length (os_tasks snapshot) > maximum_tasks \<or> length (os_events snapshot) > maximum_events
          then Err OPersistenceFailed
          else Ok \<lparr>ts_maximum_tasks = maximum_tasks, ts_maximum_events = maximum_events,
                   ts_tasks = bt_of_list (map (\<lambda>r. ((tk_tenant_id r, tk_task_id r), r))
                                (os_tasks snapshot)),
                   ts_events = os_events snapshot\<rparr>)"

subsection \<open>Runs\<close>

inductive service_step :: "task_service \<Rightarrow> task_service \<Rightarrow> bool" where
  created: "service_step sv (snd (task_create now tenant task goal plan sv))"
| attached: "service_step sv (snd (attach_lease now tenant task lease sv))"
| revoked: "service_step sv (snd (revoke_lease tenant task epoch sv))"
| bound: "service_step sv (snd (bind_execution now tenant task step_id e effects sv))"

definition task_ok :: "string \<times> string \<Rightarrow> task_runtime \<Rightarrow> bool" where
  "task_ok k r \<longleftrightarrow> (tk_tenant_id r, tk_task_id r) = k
     \<and> (case tk_authorization_lease r of
          None \<Rightarrow> True
        | Some lease \<Rightarrow> al_revocation_epoch lease = tk_authorization_epoch r \<and> al_task_id lease = snd k
            \<and> al_goal_hash lease = tk_goal_hash r \<and> al_plan_hash lease = tk_plan_hash r)"

definition service_ok :: "task_service \<Rightarrow> bool" where
  "service_ok sv \<longleftrightarrow> bt_ok (ts_tasks sv) \<and> bt_len (ts_tasks sv) \<le> ts_maximum_tasks sv
     \<and> (\<forall>k r. bt_get (ts_tasks sv) k = Some r \<longrightarrow> task_ok k r)"

text \<open>What every operation does to one task's record: it is created, or updated in place.\<close>

lemma with_task_cases:
  obtains (missing) "with_task tenant task f sv = (Err ONotFound, sv)" "bt_get (ts_tasks sv) (tenant, task) = None"
  | (updated) r where "bt_get (ts_tasks sv) (tenant, task) = Some r"
      "with_task tenant task f sv = (fst (f r),
         sv\<lparr>ts_tasks := bt_insert (tenant, task) (snd (f r)) (ts_tasks sv)\<rparr>)"
  by (cases "bt_get (ts_tasks sv) (tenant, task)") (simp_all add: with_task_def case_prod_beta)

lemma service_ok_with_task:
  assumes "service_ok sv" and "\<And>r. task_ok (tenant, task) r \<Longrightarrow> task_ok (tenant, task) (snd (f r))"
  shows "service_ok (snd (with_task tenant task f sv))"
  using assms
  by (cases rule: with_task_cases [of tenant task f sv])
    (auto simp: service_ok_def bt.get_put bt_len_insert)

lemma task_ok_new: "task_ok (tenant, task) (new_task tenant task now goal plan)"
  by (simp add: task_ok_def new_task_def)

lemma service_ok_create:
  "service_ok sv \<Longrightarrow> service_ok (snd (task_create now tenant task goal plan sv))"
  by (auto simp: task_create_def Let_def service_ok_def bt.get_put bt_len_insert task_ok_new
      split: option.splits)

lemma service_ok_attach: "service_ok sv \<Longrightarrow> service_ok (snd (attach_lease now tenant task lease sv))"
  unfolding attach_lease_def
  by (erule service_ok_with_task) (auto simp: task_ok_def split: if_splits option.splits)

lemma service_ok_revoke: "service_ok sv \<Longrightarrow> service_ok (snd (revoke_lease tenant task epoch sv))"
  unfolding revoke_lease_def
  by (erule service_ok_with_task) (auto simp: task_ok_def split: if_splits option.splits)

lemma service_ok_bind:
  "service_ok sv \<Longrightarrow> service_ok (snd (bind_execution now tenant task step_id e effects sv))"
  unfolding bind_execution_def
  by (erule service_ok_with_task) (auto simp: task_ok_def split: option.splits if_splits)

lemma service_ok_step: "service_step sv sv' \<Longrightarrow> service_ok sv \<Longrightarrow> service_ok sv'"
  by (induction rule: service_step.induct)
    (simp_all add: service_ok_create service_ok_attach service_ok_revoke service_ok_bind)

lemma service_ok_new: "service_new m n = Ok sv \<Longrightarrow> service_ok sv"
  by (auto simp: service_new_def service_ok_def split: if_splits)

interpretation task_machine: invariant_system service_step service_ok
  "\<lambda>sv. \<exists>m n. service_new m n = Ok sv"
  by unfold_locales (auto intro: service_ok_new service_ok_step)

subsection \<open>What an update of a record keeps\<close>

text \<open>
  A predicate of one task's record that the three updates keep is kept by every step: creation
  never replaces a record.
\<close>

definition holds_at :: "string \<times> string \<Rightarrow> (task_runtime \<Rightarrow> bool) \<Rightarrow> task_service \<Rightarrow> bool" where
  "holds_at k P sv \<longleftrightarrow> (\<exists>r. bt_get (ts_tasks sv) k = Some r \<and> P r)"

lemma holds_at_with_task:
  assumes "holds_at k P sv" and "\<And>r. P r \<Longrightarrow> P (snd (f r))"
  shows "holds_at k P (snd (with_task tenant task f sv))"
  using assms
  by (cases rule: with_task_cases [of tenant task f sv]) (auto simp: holds_at_def bt.get_put)

lemma holds_at_create: "holds_at k P sv \<Longrightarrow> holds_at k P (snd (task_create now tenant task goal plan sv))"
  by (auto simp: task_create_def Let_def holds_at_def bt.get_put split: option.splits)

lemma holds_at_step:
  assumes "service_step sv sv'" and "holds_at k P sv"
    and "\<And>r v l. P r \<Longrightarrow> tk_authorization_epoch r \<le> v
          \<Longrightarrow> P (r\<lparr>tk_policy_snapshot := Some (al_policy_snapshot l), tk_authorization_epoch := v,
                 tk_authorization_lease := Some l\<rparr>)"
    and "\<And>r v. P r \<Longrightarrow> tk_authorization_epoch r < v
          \<Longrightarrow> P (r\<lparr>tk_authorization_epoch := v, tk_authorization_lease := None\<rparr>)"
    and "\<And>r j st now e b. P r \<Longrightarrow> bt_get (tk_steps r) j = Some st \<Longrightarrow> sr_ledger_execution_id st = None
          \<Longrightarrow> P (r\<lparr>tk_steps := bt_insert j (st\<lparr>sr_ledger_execution_id := Some e,
                      sr_attempt := saturating_add (sr_attempt st) 1, sr_updated_at := now\<rparr>) (tk_steps r),
                 tk_has_side_effects := b\<rparr>)"
  shows "holds_at k P sv'"
  using assms(1)
proof cases
  case created
  then show ?thesis using assms(2) by (simp add: holds_at_create)
next
  case (attached now tenant task lease)
  show ?thesis
    unfolding attached attach_lease_def
    by (rule holds_at_with_task [OF assms(2)]) (auto simp: not_less intro: assms(3))
next
  case (revoked tenant task epoch)
  show ?thesis
    unfolding revoked revoke_lease_def
    by (rule holds_at_with_task [OF assms(2)]) (simp add: assms(4))
next
  case (bound now tenant task step_id e effects)
  show ?thesis
    unfolding bound bind_execution_def
    by (rule holds_at_with_task [OF assms(2)]) (simp add: assms(5) split: option.splits)
qed

text \<open>Epochs only grow, the hashes of a task never change, a bound step stays bound.\<close>

definition epoch_at_least :: "string \<times> string \<Rightarrow> u64 \<Rightarrow> task_service \<Rightarrow> bool" where
  "epoch_at_least k e = holds_at k (\<lambda>r. e \<le> tk_authorization_epoch r)"

definition hashes_are :: "string \<times> string \<Rightarrow> string \<Rightarrow> string \<Rightarrow> task_service \<Rightarrow> bool" where
  "hashes_are k g p = holds_at k (\<lambda>r. tk_goal_hash r = g \<and> tk_plan_hash r = p)"

definition step_bound_to :: "string \<times> string \<Rightarrow> string \<Rightarrow> string \<Rightarrow> u32 \<Rightarrow> task_service \<Rightarrow> bool" where
  "step_bound_to k j e n = holds_at k (\<lambda>r. \<exists>st. bt_get (tk_steps r) j = Some st
     \<and> sr_ledger_execution_id st = Some e \<and> sr_attempt st = n)"

interpretation epoch_floor: kept_by_steps service_step "epoch_at_least k e" for k e
  by unfold_locales (unfold epoch_at_least_def, erule holds_at_step, auto)

interpretation fixed_hashes: kept_by_steps service_step "hashes_are k g p" for k g p
  by unfold_locales (unfold hashes_are_def, erule holds_at_step, auto)

interpretation stable_binding: kept_by_steps service_step "step_bound_to k j e n" for k j e n
  by unfold_locales (unfold step_bound_to_def, erule holds_at_step, auto simp: bt.get_put)

subsection \<open>Properties\<close>

lemma checkpoint_Ok:
  assumes "task_checkpoint sv tenant task checkpoint risk now = Ok c"
  obtains r l where "bt_get (ts_tasks sv) (tenant, task) = Some r" "tk_authorization_lease r = Some l"
    "now < al_valid_until l" "tk_authorization_epoch r \<le> al_revocation_epoch l"
    "al_goal_hash l = tk_goal_hash r" "al_plan_hash l = tk_plan_hash r" "ck_lease_id c = al_lease_id l"
    "ck_policy_snapshot c = al_policy_snapshot l"
  using assms by (auto simp: task_checkpoint_def not_le not_less split: option.splits if_splits)

lemma revoke_Ok_floor:
  "revoke_lease tenant task e sv = (Ok (), sv') \<Longrightarrow> epoch_at_least (tenant, task) e sv'"
  by (cases rule: with_task_cases [of tenant task _ sv])
    (auto simp: revoke_lease_def with_task_def epoch_at_least_def holds_at_def bt.get_put
      split: option.splits if_splits)

text \<open>
  Revocation is final. After a successful revocation at epoch \<open>e\<close>, in every later state of the
  service an authorization checkpoint passes only under a lease that was issued for the task's own
  goal and plan at an epoch of at least \<open>e\<close> and is still valid at the instant of the checkpoint; a
  lease of an earlier epoch never authorizes a checkpoint again.
\<close>

theorem revoked_lease_never_passes:
  assumes "reach (\<lambda>sv. \<exists>m n. service_new m n = Ok sv) service_step sv0"
    and "revoke_lease tenant task e sv0 = (Ok (), sv1)"
    and "service_step\<^sup>*\<^sup>* sv1 sv2"
    and "task_checkpoint sv2 tenant task checkpoint risk now = Ok c"
  shows "\<exists>r l. bt_get (ts_tasks sv2) (tenant, task) = Some r \<and> tk_authorization_lease r = Some l
    \<and> al_lease_id l = ck_lease_id c \<and> e \<le> al_revocation_epoch l \<and> now < al_valid_until l
    \<and> al_task_id l = task \<and> al_goal_hash l = tk_goal_hash r \<and> al_plan_hash l = tk_plan_hash r"
proof -
  have "service_ok sv0"
    using assms(1) by (rule task_machine.reach_inv)
  then have "service_ok sv1"
    using service_ok_revoke [of sv0 tenant task e] assms(2) by simp
  then have ok: "service_ok sv2"
    using assms(3) by (blast intro: task_machine.steps_keep)
  have "epoch_at_least (tenant, task) e sv2"
    using assms(3) revoke_Ok_floor [OF assms(2)] by (rule epoch_floor.steps_keep)
  moreover obtain r l where rl: "bt_get (ts_tasks sv2) (tenant, task) = Some r"
      "tk_authorization_lease r = Some l" "now < al_valid_until l"
      "tk_authorization_epoch r \<le> al_revocation_epoch l" "ck_lease_id c = al_lease_id l"
    using assms(4) by (rule checkpoint_Ok)
  moreover have "task_ok (tenant, task) r"
    using ok rl(1) by (simp add: service_ok_def)
  ultimately show ?thesis
    by (auto simp: epoch_at_least_def holds_at_def task_ok_def)
qed

text \<open>
  A created task keeps its identity. Whatever happens to the service after a task was created,
  as long as it has room and the plan has not expired, creating the same task again with the same
  goal and plan returns the record and changes nothing, and with another goal or plan is an
  idempotency conflict that changes nothing.
\<close>

theorem task_create_is_idempotent:
  assumes "task_create now tenant task goal plan sv0 = (Ok r0, sv1)"
    and "service_step\<^sup>*\<^sup>* sv1 sv2" and "bt_len (ts_tasks sv2) < ts_maximum_tasks sv2"
    and "sgo_goal_hash goal' = pm_goal_hash plan'" and "length (sgo_goal_hash goal') = 64"
    and "length (pm_plan_hash plan') = 64" and "now' < pm_valid_until plan'"
  shows "snd (task_create now' tenant task goal' plan' sv2) = sv2
    \<and> (if sgo_goal_hash goal' = sgo_goal_hash goal \<and> pm_plan_hash plan' = pm_plan_hash plan
       then fst (task_create now' tenant task goal' plan' sv2) = task_get sv2 tenant task
          \<and> is_ok (task_get sv2 tenant task)
       else fst (task_create now' tenant task goal' plan' sv2) = Err OIdempotencyConflict)"
proof -
  have "hashes_are (tenant, task) (sgo_goal_hash goal) (pm_plan_hash plan) sv1"
    using assms(1)
    by (auto simp: task_create_def Let_def hashes_are_def holds_at_def new_task_def bt.get_put
        split: option.splits if_splits)
  with assms(2) have "hashes_are (tenant, task) (sgo_goal_hash goal) (pm_plan_hash plan) sv2"
    by (rule fixed_hashes.steps_keep)
  then show ?thesis
    using assms(3-) by (auto simp: hashes_are_def holds_at_def task_create_def task_get_def)
qed

lemma bind_Ok_bound:
  "bind_execution now tenant task j e b sv = (Ok (), sv') \<Longrightarrow> \<exists>n. step_bound_to (tenant, task) j e n sv'"
  by (force simp: bind_execution_def with_task_def step_bound_to_def holds_at_def bt.get_put
      split: option.splits if_splits)

text \<open>
  A step is bound to one ledger execution. Once a binding succeeded, in every later state the
  step still names that execution, binding it again is accepted without touching the step's attempt
  counter, and binding it to any other execution is an idempotency conflict.
\<close>

theorem step_binding_is_stable:
  assumes "bind_execution now tenant task step_id e effects sv0 = (Ok (), sv1)"
    and "service_step\<^sup>*\<^sup>* sv1 sv2"
  shows "\<exists>n. step_bound_to (tenant, task) step_id e n sv2
    \<and> step_bound_to (tenant, task) step_id e n (snd (bind_execution now' tenant task step_id e' effects' sv2))
    \<and> fst (bind_execution now' tenant task step_id e' effects' sv2)
        = (if e' = e then Ok () else Err OIdempotencyConflict)"
proof -
  obtain n where n: "step_bound_to (tenant, task) step_id e n sv1"
    using bind_Ok_bound [OF assms(1)] by blast
  with assms(2) have *: "step_bound_to (tenant, task) step_id e n sv2"
    by (rule stable_binding.steps_keep)
  then have "step_bound_to (tenant, task) step_id e n
      (snd (bind_execution now' tenant task step_id e' effects' sv2))"
    using stable_binding.step_keeps [OF service_step.bound] by blast
  moreover have "fst (bind_execution now' tenant task step_id e' effects' sv2)
      = (if e' = e then Ok () else Err OIdempotencyConflict)"
    using * by (auto simp: step_bound_to_def holds_at_def bind_execution_def with_task_def)
  ultimately show ?thesis
    using * by blast
qed

lemma rekeyed_values:
  assumes "service_ok sv"
  shows "map (\<lambda>r. ((tk_tenant_id r, tk_task_id r), r)) (bt_values (ts_tasks sv)) = ts_tasks sv"
proof -
  have "\<forall>(k, r) \<in> set (ts_tasks sv). (tk_tenant_id r, tk_task_id r) = k"
    using assms in_set_bt_iff [of "ts_tasks sv"] by (auto simp: service_ok_def task_ok_def)
  then show ?thesis
    unfolding bt_values_def map_map by (intro map_idI) auto
qed

text \<open>
  A snapshot loses nothing. For every reachable service and every serialization that reads its
  own image back, restoring the snapshot under the same limits gives the very same service (its
  event log permitting), and a smaller limit than the number of stored tasks or events is refused.
\<close>

theorem service_snapshot_round_trip:
  assumes "reach (\<lambda>sv. \<exists>m n. service_new m n = Ok sv) service_step sv"
    and "service_snapshot to_vec sv = Ok bytes"
    and "\<forall>s. to_vec s = Some bytes \<longrightarrow> from_slice bytes = Some s"
  shows "service_restore from_slice bytes m n =
    (if bt_len (ts_tasks sv) \<le> m \<and> length (ts_events sv) \<le> n
     then Ok (sv\<lparr>ts_maximum_tasks := m, ts_maximum_events := n\<rparr>) else Err OPersistenceFailed)"
proof -
  have ok: "service_ok sv"
    using assms(1) by (rule task_machine.reach_inv)
  let ?s = "\<lparr>os_schema_version = ORCHESTRATOR_SCHEMA_VERSION, os_tasks = bt_values (ts_tasks sv),
             os_events = ts_events sv\<rparr>"
  have "from_slice bytes = Some ?s"
    using assms(2,3) by (auto simp: service_snapshot_def split: option.splits)
  moreover have "bt_of_list (ts_tasks sv) = ts_tasks sv"
    using ok by (simp add: service_ok_def bt_of_list_same)
  ultimately show ?thesis
    using rekeyed_values [OF ok]
    by (auto simp: service_restore_def bt_len_def bt_values_def)
qed

text \<open>
  The event query checks that the tenant owns a task of the given name and then selects events
  by the task name alone. So two tenants with tasks of the same name get the same answer, and every
  event of the one is among the events the query selects for the other.
\<close>

theorem event_query_ignores_tenant:
  assumes "bt_contains (ts_tasks sv) (tenant, task)" and "bt_contains (ts_tasks sv) (tenant', task)"
    and "0 < limit" and "limit \<le> ts_maximum_events sv" and "length (ts_events sv) \<le> limit"
    and "ev \<in> set (ts_events sv)" and "we_task_id ev = task" and "cursor < we_recovery_cursor ev"
  shows "events_for sv tenant task cursor limit = events_for sv tenant' task cursor limit
    \<and> (\<exists>evs. events_for sv tenant' task cursor limit = Ok evs \<and> ev \<in> set evs)"
proof -
  have "length (filter (\<lambda>e. we_task_id e = task \<and> cursor < we_recovery_cursor e) (ts_events sv)) \<le> limit"
    using assms(5) length_filter_le [of _ "ts_events sv"] by (meson le_trans)
  then show ?thesis
    using assms by (auto simp: events_for_def)
qed

subsection \<open>Witnesses\<close>

definition sample_hash64 :: "char \<Rightarrow> string" where
  "sample_hash64 c = replicate 64 c"

definition sample_goal :: signed_goal where
  "sample_goal = \<lparr>sgo_schema_version = ''v1'', sgo_goal_id = ''g'', sgo_normalized_goal = ''ship'',
     sgo_goal_hash = sample_hash64 CHR ''a'', sgo_constraints = bt_empty, sgo_approved_by = ''lead'',
     sgo_signed_at = 0, sgo_signer_key_id = ''k'', sgo_signature = ''s''\<rparr>"

definition sample_task_plan :: plan_manifest where
  "sample_task_plan = \<lparr>pm_schema_version = ''v1'', pm_plan_id = ''p'',
     pm_goal_hash = sample_hash64 CHR ''a'', pm_plan_hash = sample_hash64 CHR ''b'',
     pm_steps = [\<lparr>ps_step_id = ''s1'', ps_sequence = 1, ps_intent = ''ship'', ps_dependencies = [],
                  ps_tool = None, ps_resource_scope = [], ps_risk = Low\<rparr>],
     pm_max_scope = [], pm_risk_budget = Low, pm_cost_budget_microunits = 0, pm_valid_until = 1000\<rparr>"

definition sample_lease :: "u64 \<Rightarrow> authorization_lease" where
  "sample_lease e = \<lparr>al_schema_version = ''v1'', al_lease_id = ''lease'', al_task_id = ''task'',
     al_goal_hash = sample_hash64 CHR ''a'', al_plan_hash = sample_hash64 CHR ''b'',
     al_policy_snapshot = ''policy'', al_allowed_tools = {}, al_allowed_resources = {},
     al_revocation_epoch = e, al_valid_until = 500\<rparr>"

definition sample_service :: task_service where
  "sample_service = \<lparr>ts_maximum_tasks = 2, ts_maximum_events = 5, ts_tasks = bt_empty, ts_events = []\<rparr>"

definition sample_created :: task_service where
  "sample_created = snd (task_create 10 ''acme'' ''task'' sample_goal sample_task_plan sample_service)"

definition sample_revoked :: task_service where
  "sample_revoked = snd (revoke_lease ''acme'' ''task'' 3 sample_created)"

definition sample_leased :: task_service where
  "sample_leased = snd (attach_lease 20 ''acme'' ''task'' (sample_lease 4) sample_revoked)"

definition sample_bound_service :: task_service where
  "sample_bound_service = snd (bind_execution 30 ''acme'' ''task'' ''s1'' ''e1'' True sample_created)"

lemmas sample_service_defs = sample_hash64_def sample_goal_def sample_task_plan_def sample_lease_def
  sample_service_def sample_created_def sample_revoked_def sample_leased_def sample_bound_service_def
  task_create_def revoke_lease_def attach_lease_def bind_execution_def with_task_def new_task_def
  new_step_def bt_of_list_def bt_get_def bt_empty_def bt_len_def bt_contains_def Let_def

lemma sample_service_runs:
  "reach (\<lambda>sv. \<exists>m n. service_new m n = Ok sv) service_step sample_service"
  "reach (\<lambda>sv. \<exists>m n. service_new m n = Ok sv) service_step sample_created"
  "service_step\<^sup>*\<^sup>* sample_revoked sample_leased"
proof -
  have "service_new 2 5 = Ok sample_service"
    by (simp add: service_new_def sample_service_def)
  then show *: "reach (\<lambda>sv. \<exists>m n. service_new m n = Ok sv) service_step sample_service"
    by (blast intro: reach.reach_init)
  show "reach (\<lambda>sv. \<exists>m n. service_new m n = Ok sv) service_step sample_created"
    unfolding sample_created_def by (rule reach.reach_step [OF *]) (rule service_step.created)
  show "service_step\<^sup>*\<^sup>* sample_revoked sample_leased"
    unfolding sample_leased_def by (rule r_into_rtranclp) (rule service_step.attached)
qed

lemma sample_service_results:
  "is_ok (fst (task_create 10 ''acme'' ''task'' sample_goal sample_task_plan sample_service))"
  "revoke_lease ''acme'' ''task'' 3 sample_created = (Ok (), sample_revoked)"
  "is_ok (task_checkpoint sample_leased ''acme'' ''task'' ''before'' (sample_hash64 CHR ''c'') 30)"
  "bind_execution 30 ''acme'' ''task'' ''s1'' ''e1'' True sample_created = (Ok (), sample_bound_service)"
  by (simp_all add: sample_service_defs task_checkpoint_def)

theorem revoked_lease_never_passes_witness:
  "\<exists>r l. bt_get (ts_tasks sample_leased) (''acme'', ''task'') = Some r \<and> tk_authorization_lease r = Some l
    \<and> 3 \<le> al_revocation_epoch l"
proof -
  obtain c where "task_checkpoint sample_leased ''acme'' ''task'' ''before'' (sample_hash64 CHR ''c'') 30 = Ok c"
    using sample_service_results(3) by (auto simp: is_ok_iff)
  from revoked_lease_never_passes [OF sample_service_runs(2) sample_service_results(2)
      sample_service_runs(3) this]
  show ?thesis by blast
qed

theorem task_create_is_idempotent_witness:
  "fst (task_create 40 ''acme'' ''task'' sample_goal sample_task_plan sample_created)
     = task_get sample_created ''acme'' ''task''"
proof -
  obtain r where "task_create 10 ''acme'' ''task'' sample_goal sample_task_plan sample_service = (Ok r, sample_created)"
    using sample_service_results(1) by (auto simp: is_ok_iff sample_created_def prod_eq_iff)
  from task_create_is_idempotent [OF this, of sample_created sample_goal sample_task_plan 40]
  show ?thesis by (simp add: sample_service_defs)
qed

theorem step_binding_is_stable_witness:
  "fst (bind_execution 50 ''acme'' ''task'' ''s1'' ''e2'' True sample_bound_service) = Err OIdempotencyConflict"
  using step_binding_is_stable [OF sample_service_results(4) rtranclp.rtrancl_refl,
      of 50 "''e2''" True] by (auto simp del: not_None_eq)

theorem service_snapshot_round_trip_witness:
  "service_restore (\<lambda>bytes. Some \<lparr>os_schema_version = ORCHESTRATOR_SCHEMA_VERSION,
       os_tasks = bt_values (ts_tasks sample_created), os_events = []\<rparr>) ''image'' 9 9
     = Ok (sample_created\<lparr>ts_maximum_tasks := 9, ts_maximum_events := 9\<rparr>)"
proof -
  let ?s = "\<lparr>os_schema_version = ORCHESTRATOR_SCHEMA_VERSION,
       os_tasks = bt_values (ts_tasks sample_created), os_events = []\<rparr>"
  have "service_snapshot (\<lambda>s. if s = ?s then Some ''image'' else None) sample_created = Ok ''image''"
    by (simp add: service_snapshot_def sample_service_defs)
  from service_snapshot_round_trip [OF sample_service_runs(2) this, of "\<lambda>_. Some ?s" 9 9]
  show ?thesis by (simp add: sample_service_defs)
qed

definition sample_event :: workflow_event where
  "sample_event = \<lparr>we_schema_version = ORCHESTRATOR_SCHEMA_VERSION, we_event_id = ''e'',
     we_task_id = ''task'', we_command_id = ''c'', we_from = TCreated, we_to = TPlanned,
     we_recovery_cursor = 1, we_evidence_digest = [], we_occurred_at = 11\<rparr>"

theorem event_query_ignores_tenant_witness:
  "\<exists>evs. events_for (snd (task_create 10 ''rival'' ''task'' sample_goal sample_task_plan
       (sample_created\<lparr>ts_events := [sample_event]\<rparr>))) ''rival'' ''task'' 0 5 = Ok evs \<and> sample_event \<in> set evs"
  by (rule event_query_ignores_tenant [of _ "''acme''", THEN conjunct2])
    (simp_all add: sample_service_defs sample_event_def)

end
