(* ===== verification/A2a_Base.thy ===== *)
theory A2a_Base
  imports Contracts
begin

text \<open>
  What the parts of \<open>a2a-agui-adapter/src/lib.rs\<close> share: the error type, stateful calls that may
  fail, digests, the endpoint check, and the signed agent cards with their verifier. \<open>Url::parse\<close>
  and \<open>serde_jcs\<close> are parameters; \<open>url_view\<close> is what the code reads of a parsed URL.
\<close>

definition A2A_SCHEMA_VERSION :: string where
  "A2A_SCHEMA_VERSION = ''agenttrust.a2a-agui.v1''"

definition AGUI_SNAPSHOT_SCHEMA_VERSION :: string where
  "AGUI_SNAPSHOT_SCHEMA_VERSION = ''agenttrust.agui-safe-snapshot.v1''"

datatype a2a_error = AConfigurationInvalid | AAgentCardInvalid | AScopeExceeded | ATokenInvalid
  | ARevoked | ABudgetExceeded | AEventInvalid | ACapacityExceeded | AResumeExpired
  | AUiCannotAuthorize | APersistenceUnavailable | ATaskInvalid | ATaskTransitionInvalid
  | AProtocolInvalid | ARemoteRejected | ARemoteOutcomeUnknown

subsection \<open>Fallible calls that change a state\<close>

definition st_bind ::
  "('s \<Rightarrow> ('e + 'a) \<times> 's) \<Rightarrow> ('a \<Rightarrow> 's \<Rightarrow> ('e + 'b) \<times> 's) \<Rightarrow> 's \<Rightarrow> ('e + 'b) \<times> 's" where
  "st_bind f g s = (case f s of (Inl e, s') \<Rightarrow> (Inl e, s') | (Inr x, s') \<Rightarrow> g x s')"

definition st_lift :: "'e + 'a \<Rightarrow> 's \<Rightarrow> ('e + 'a) \<times> 's" where
  "st_lift r s = (r, s)"

lemma st_bind_Ok_iff:
  "st_bind f g s = (Ok y, s'') \<longleftrightarrow> (\<exists>x s'. f s = (Ok x, s') \<and> g x s' = (Ok y, s''))"
  by (auto simp: st_bind_def split: prod.splits sum.splits)

lemma st_bind_eqs [simp]:
  "f s = (Err e, s') \<Longrightarrow> st_bind f g s = (Err e, s')"
  "f s = (Ok x, s') \<Longrightarrow> st_bind f g s = g x s'"
  by (simp_all add: st_bind_def)

text \<open>A predicate of the state that both parts keep is kept by the sequence.\<close>

lemma st_bind_keeps:
  "P (snd (f s)) \<Longrightarrow> (\<And>x s'. f s = (Ok x, s') \<Longrightarrow> P s' \<Longrightarrow> P (snd (g x s'))) \<Longrightarrow> P (snd (st_bind f g s))"
  by (auto simp: st_bind_def split: prod.splits sum.splits)

subsection \<open>Digests and endpoints\<close>

definition valid_digest :: "string \<Rightarrow> bool" where
  "valid_digest value \<longleftrightarrow> length value = 64
     \<and> list_all (\<lambda>b. is_ascii_digit b \<or> byte_between CHR ''a'' CHR ''f'' b) value"

record url_view =
  url_scheme :: string
  url_username :: string
  url_password :: "string option"
  url_fragment :: "string option"
  url_host_str :: "string option"

definition secure_agent_endpoint :: "(string \<Rightarrow> url_view option) \<Rightarrow> string \<Rightarrow> bool" where
  "secure_agent_endpoint url_parse endpoint =
     (case url_parse endpoint of
        None \<Rightarrow> False
      | Some url \<Rightarrow>
          url_scheme url = ''https'' \<and> url_username url = [] \<and> url_password url = None
          \<and> url_fragment url = None
          \<and> (case url_host_str url of
               None \<Rightarrow> False
             | Some host \<Rightarrow> to_ascii_lowercase host \<notin>
                 set [''localhost'', ''127.0.0.1'', ''::1'', ''0.0.0.0'', ''169.254.169.254'']))"

subsection \<open>Agent cards\<close>

record agent_card =
  ac_schema_version :: string
  ac_protocol_version :: string
  ac_agent_id :: string
  ac_publisher_id :: string
  ac_endpoint :: string
  ac_capability_ids :: "string set"
  ac_card_hash :: string
  ac_trust_level :: string
  ac_verified :: bool
  ac_issued_at :: datetime
  ac_expires_at :: datetime
  ac_observed_at :: datetime
  ac_publisher_key_id :: string
  ac_signature :: string

type_synonym card_tuple =
  "string \<times> string \<times> string \<times> string \<times> string \<times> string set \<times> datetime \<times> datetime \<times> datetime \<times> string"

record ('sk, 'vk) card_env =
  ce_signer :: "('sk, 'vk) signer"
  ce_jcs_tuple :: "card_tuple \<Rightarrow> string option"
  ce_jcs_card :: "agent_card \<Rightarrow> string option"
  ce_sha256_hex :: "string \<Rightarrow> string"
  ce_url_parse :: "string \<Rightarrow> url_view option"

definition card_material :: "(card_tuple \<Rightarrow> string option) \<Rightarrow> agent_card \<Rightarrow> a2a_error + string" where
  "card_material jcs c =
     (case jcs (ac_schema_version c, ac_protocol_version c, ac_agent_id c,
                ac_publisher_id c, ac_endpoint c, ac_capability_ids c, ac_issued_at c,
                ac_expires_at c, ac_observed_at c, ac_publisher_key_id c) of
        None \<Rightarrow> Err AAgentCardInvalid | Some bytes \<Rightarrow> Ok bytes)"

definition card_signing_bytes :: "(agent_card \<Rightarrow> string option) \<Rightarrow> agent_card \<Rightarrow> a2a_error + string" where
  "card_signing_bytes jcs c =
     (case jcs (c\<lparr>ac_verified := False, ac_trust_level := [], ac_signature := []\<rparr>) of
        None \<Rightarrow> Err AAgentCardInvalid | Some bytes \<Rightarrow> Ok bytes)"

record 'vk card_verifier =
  cv_approved_publishers :: "string set"
  cv_approved_endpoints :: "string set"
  cv_publisher_keys :: "(string, string \<times> 'vk) btree"
  cv_require_verified :: bool

definition card_verifier_new :: "string set \<Rightarrow> string set \<Rightarrow> 'vk card_verifier" where
  "card_verifier_new publishers endpoints =
     \<lparr>cv_approved_publishers = publishers, cv_approved_endpoints = endpoints,
      cv_publisher_keys = bt_empty, cv_require_verified = False\<rparr>"

definition card_verifier_new_production ::
  "(string \<Rightarrow> url_view option) \<Rightarrow> string set \<Rightarrow> string set \<Rightarrow> (string, string \<times> 'vk) btree
   \<Rightarrow> a2a_error + 'vk card_verifier" where
  "card_verifier_new_production url_parse publishers endpoints keys =
     (if bt_len keys = 0 \<or> endpoints = {} \<or> (\<exists>e \<in> endpoints. \<not> secure_agent_endpoint url_parse e)
      then Err AConfigurationInvalid
      else Ok \<lparr>cv_approved_publishers = publishers, cv_approved_endpoints = endpoints,
               cv_publisher_keys = keys, cv_require_verified = True\<rparr>)"

text \<open>The expiry rules of a card, and the check of its signature against the publisher's key.\<close>

definition card_times_ok :: "datetime \<Rightarrow> agent_card \<Rightarrow> bool" where
  "card_times_ok now c \<longleftrightarrow>
     ac_issued_at c \<le> ac_observed_at c
     \<and> ac_observed_at c \<le> now + chrono_minutes 5
     \<and> ac_observed_at c < ac_expires_at c
     \<and> now < ac_expires_at c
     \<and> ac_expires_at c \<le> ac_issued_at c + chrono_days 30"

definition card_signature_valid ::
  "('sk, 'vk) card_env \<Rightarrow> 'vk card_verifier \<Rightarrow> agent_card \<Rightarrow> bool" where
  "card_signature_valid env v c =
     (case bt_get (cv_publisher_keys v) (ac_publisher_key_id c) of
        None \<Rightarrow> False
      | Some (publisher, key) \<Rightarrow>
          publisher = ac_publisher_id c \<and> sg_decodes (ce_signer env) (ac_signature c)
          \<and> (case card_signing_bytes (ce_jcs_card env) c of
               Inl _ \<Rightarrow> False
             | Inr bytes \<Rightarrow> sg_verify (ce_signer env) key bytes (ac_signature c)))"

definition card_verify ::
  "('sk, 'vk) card_env \<Rightarrow> 'vk card_verifier \<Rightarrow> datetime \<Rightarrow> agent_card \<Rightarrow> a2a_error + agent_card" where
  "card_verify env v now c =
     (if ac_schema_version c \<noteq> A2A_SCHEMA_VERSION
         \<or> ac_protocol_version c \<notin> {''0.3.0'', ''1.0''}
         \<or> ac_agent_id c = [] \<or> ac_capability_ids c = {} \<or> card (ac_capability_ids c) > 1024
         \<or> \<not> card_times_ok now c
      then Err AAgentCardInvalid
      else res_bind (card_material (ce_jcs_tuple env) c) (\<lambda>material.
        if ac_card_hash c \<noteq> ce_sha256_hex env material
           \<or> \<not> secure_agent_endpoint (ce_url_parse env) (ac_endpoint c)
        then Err AAgentCardInvalid
        else
          (let verified = card_signature_valid env v c
                 \<and> ac_publisher_id c \<in> cv_approved_publishers v
                 \<and> ac_endpoint c \<in> cv_approved_endpoints v;
               c' = c\<lparr>ac_verified := verified,
                       ac_trust_level := (if verified then ''verified-card'' else ''untrusted-card'')\<rparr>
           in if cv_require_verified v \<and> \<not> verified then Err AAgentCardInvalid else Ok c')))"

lemma card_signing_bytes_update [simp]:
  "card_signing_bytes jcs (c\<lparr>ac_verified := b\<rparr>) = card_signing_bytes jcs c"
  "card_signing_bytes jcs (c\<lparr>ac_trust_level := t\<rparr>) = card_signing_bytes jcs c"
  "card_signing_bytes jcs (c\<lparr>ac_signature := g\<rparr>) = card_signing_bytes jcs c"
  by (simp_all add: card_signing_bytes_def)

text \<open>
  Discovery grants no trust. Whatever trust a card claims for itself, the verifier keeps only
  its content: the trust fields of an accepted card are computed from the publisher's key, the
  approved publishers and the approved endpoints, and a production verifier accepts a card only when
  all three hold, so that it is signed for its publisher, live, and pinned by its hash to a secure
  approved endpoint.
\<close>

theorem accepted_card_is_pinned:
  assumes "card_verify env v now c = Ok c'"
  shows "(ac_verified c' \<longleftrightarrow> card_signature_valid env v c
          \<and> ac_publisher_id c \<in> cv_approved_publishers v \<and> ac_endpoint c \<in> cv_approved_endpoints v)
    \<and> c'\<lparr>ac_verified := ac_verified c, ac_trust_level := ac_trust_level c\<rparr> = c
    \<and> (cv_require_verified v \<le> ac_verified c')
    \<and> card_verify env v now (c\<lparr>ac_verified := b, ac_trust_level := t\<rparr>) = Ok c'
    \<and> secure_agent_endpoint (ce_url_parse env) (ac_endpoint c')
    \<and> card_times_ok now c'
    \<and> (\<exists>m. card_material (ce_jcs_tuple env) c' = Ok m \<and> ac_card_hash c' = ce_sha256_hex env m)"
  using assms
  by (auto simp: card_verify_def res_bind_Ok_iff Let_def card_times_ok_def card_material_def
      card_signature_valid_def split: if_splits option.splits prod.splits sum.splits)

subsection \<open>A signer for the witnesses\<close>

text \<open>Its signatures are the messages.\<close>

definition mirror_signer :: "(unit, unit) signer" where
  "mirror_signer = \<lparr>sg_sign = \<lambda>_ m. m, sg_public = \<lambda>_. (), sg_decodes = \<lambda>_. True,
     sg_verify = \<lambda>_ m s. m = s\<rparr>"

lemma mirror_signer_correct: "signer_correct mirror_signer"
  by (simp add: signer_correct_def mirror_signer_def)

definition sample_url_parse :: "string \<Rightarrow> url_view option" where
  "sample_url_parse u = Some \<lparr>url_scheme = ''https'', url_username = [], url_password = None,
     url_fragment = None, url_host_str = Some ''agents.example''\<rparr>"

definition sample_card_env :: "(unit, unit) card_env" where
  "sample_card_env = \<lparr>ce_signer = mirror_signer, ce_jcs_tuple = \<lambda>_. Some ''material'',
     ce_jcs_card = \<lambda>c. Some (ac_agent_id c), ce_sha256_hex = \<lambda>m. replicate 64 CHR ''a'',
     ce_url_parse = sample_url_parse\<rparr>"

definition sample_card :: agent_card where
  "sample_card = \<lparr>ac_schema_version = A2A_SCHEMA_VERSION, ac_protocol_version = ''1.0'',
     ac_agent_id = ''helper'', ac_publisher_id = ''acme'', ac_endpoint = ''https://agents.example/a2a'',
     ac_capability_ids = {''search''}, ac_card_hash = replicate 64 CHR ''a'', ac_trust_level = ''root'',
     ac_verified = True, ac_issued_at = 0, ac_expires_at = 100, ac_observed_at = 10,
     ac_publisher_key_id = ''k1'', ac_signature = ''helper''\<rparr>"

definition sample_card_verifier :: "unit card_verifier" where
  "sample_card_verifier = \<lparr>cv_approved_publishers = {''acme''},
     cv_approved_endpoints = {''https://agents.example/a2a''},
     cv_publisher_keys = bt_insert ''k1'' (''acme'', ()) bt_empty, cv_require_verified = True\<rparr>"

definition sample_pinned_card :: agent_card where
  "sample_pinned_card = sample_card\<lparr>ac_trust_level := ''verified-card''\<rparr>"

lemma sample_card_accepted:
  "card_verify sample_card_env sample_card_verifier 20 sample_card = Ok sample_pinned_card"
  by (simp add: card_verify_def sample_card_env_def sample_card_def sample_card_verifier_def
      card_times_ok_def card_material_def card_signature_valid_def card_signing_bytes_def
      secure_agent_endpoint_def sample_url_parse_def mirror_signer_def chrono_minutes_def
      chrono_days_def to_ascii_lowercase_def to_ascii_lower_def byte_defs sample_pinned_card_def)

theorem accepted_card_is_pinned_witness:
  "ac_verified sample_pinned_card \<and> card_verify sample_card_env sample_card_verifier 20
     (sample_card\<lparr>ac_verified := False, ac_trust_level := []\<rparr>) = Ok sample_pinned_card"
  using accepted_card_is_pinned [OF sample_card_accepted, where b = False and t = "[]"]
  by (simp add: sample_pinned_card_def sample_card_def)

end
