(* ===== verification/Delegation.thy ===== *)
theory Delegation
  imports A2a_Base
begin

text \<open>
  Delegation tokens and their limiter (\<open>a2a-agui-adapter/src/lib.rs\<close>, \<open>DelegationToken\<close>,
  \<open>DelegationLimiter\<close>). The limiter keeps revocations, tenant epochs and call counters in its own
  memory, or leaves the counters to a durable store: \<open>delegation_store\<close> is the interface of that
  store over a state of its own, \<open>None\<close> is a limiter made by \<open>new\<close>. Every method is one step; the
  identifier it draws, the clock it reads and the serialization are fields of \<open>delegation_env\<close>.
\<close>

subsection \<open>Tokens, state, limiter\<close>

record delegation_token =
  dt_schema_version :: string
  dt_token_id :: string
  dt_tenant_id :: string
  dt_root_task_id :: string
  dt_parent_task_id :: string
  dt_parent_step_id :: string
  dt_envelope :: delegation_envelope
  dt_depth :: u32
  dt_maximum_depth :: u32
  dt_remaining_calls :: u32
  dt_parent_token_id :: "string option"
  dt_revocation_epoch :: u64
  dt_issuer :: string
  dt_key_id :: string
  dt_signature :: string

record delegation_state =
  dst_revoked_tokens :: "string set"
  dst_revoked_tasks :: "string set"
  dst_remaining_calls :: "(string, u32) btree"
  dst_epoch_by_tenant :: "(string, u64) btree"

definition delegation_state_default :: delegation_state where
  "delegation_state_default = \<lparr>dst_revoked_tokens = {}, dst_revoked_tasks = {},
     dst_remaining_calls = bt_empty, dst_epoch_by_tenant = bt_empty\<rparr>"

record 'd delegation_store =
  dss_current_epoch :: "string \<Rightarrow> 'd \<Rightarrow> (a2a_error + u64) \<times> 'd"
  dss_issue :: "delegation_token \<Rightarrow> 'd \<Rightarrow> (a2a_error + unit) \<times> 'd"
  dss_issue_child :: "delegation_token \<Rightarrow> delegation_token \<Rightarrow> 'd \<Rightarrow> (a2a_error + unit) \<times> 'd"
  dss_consume_call :: "delegation_token \<Rightarrow> 'd \<Rightarrow> (a2a_error + u32) \<times> 'd"
  dss_is_revoked :: "delegation_token \<Rightarrow> 'd \<Rightarrow> (a2a_error + bool) \<times> 'd"
  dss_revoke_token :: "string \<Rightarrow> string \<Rightarrow> 'd \<Rightarrow> (a2a_error + unit) \<times> 'd"
  dss_revoke_root_task :: "string \<Rightarrow> string \<Rightarrow> 'd \<Rightarrow> (a2a_error + unit) \<times> 'd"
  dss_bump_tenant_epoch :: "string \<Rightarrow> 'd \<Rightarrow> (a2a_error + u64) \<times> 'd"

record ('sk, 'd) limiter =
  dl_issuer :: string
  dl_key_id :: string
  dl_signing_key :: 'sk
  dl_state :: delegation_state
  dl_durable :: 'd

record ('sk, 'vk) delegation_env =
  dn_signer :: "('sk, 'vk) signer"
  dn_jcs :: "delegation_token \<Rightarrow> string option"
  dn_new_id :: string
  dn_now :: datetime

definition limiter_new :: "string \<Rightarrow> string \<Rightarrow> 'sk \<Rightarrow> 'd \<Rightarrow> a2a_error + ('sk, 'd) limiter" where
  "limiter_new issuer key_id key d =
     (if issuer = [] \<or> key_id = [] then Err AConfigurationInvalid
      else Ok \<lparr>dl_issuer = issuer, dl_key_id = key_id, dl_signing_key = key,
               dl_state = delegation_state_default, dl_durable = d\<rparr>)"

text \<open>A call of the durable store.\<close>

definition on_store ::
  "('d \<Rightarrow> (a2a_error + 'a) \<times> 'd) \<Rightarrow> ('sk, 'd) limiter \<Rightarrow> (a2a_error + 'a) \<times> ('sk, 'd) limiter" where
  "on_store f lim = (case f (dl_durable lim) of (r, d) \<Rightarrow> (r, lim\<lparr>dl_durable := d\<rparr>))"

definition set_remaining :: "string \<Rightarrow> u32 \<Rightarrow> ('sk, 'd) limiter \<Rightarrow> ('sk, 'd) limiter" where
  "set_remaining token_id n lim =
     lim\<lparr>dl_state := (dl_state lim)\<lparr>dst_remaining_calls :=
           bt_insert token_id n (dst_remaining_calls (dl_state lim))\<rparr>\<rparr>"

definition epoch_of :: "delegation_state \<Rightarrow> string \<Rightarrow> u64" where
  "epoch_of st tenant = (case bt_get (dst_epoch_by_tenant st) tenant of None \<Rightarrow> 0 | Some e \<Rightarrow> e)"

subsection \<open>Signing and verifying\<close>

definition token_bytes :: "(delegation_token \<Rightarrow> string option) \<Rightarrow> delegation_token \<Rightarrow> a2a_error + string" where
  "token_bytes jcs t =
     (case jcs (t\<lparr>dt_signature := []\<rparr>) of None \<Rightarrow> Err ATokenInvalid | Some bytes \<Rightarrow> Ok bytes)"

definition sign_token ::
  "('sk, 'vk) delegation_env \<Rightarrow> 'd delegation_store option \<Rightarrow> string \<Rightarrow> string \<Rightarrow> string \<Rightarrow> string
   \<Rightarrow> delegation_envelope \<Rightarrow> u32 \<Rightarrow> u32 \<Rightarrow> u32 \<Rightarrow> string option \<Rightarrow> ('sk, 'd) limiter
   \<Rightarrow> (a2a_error + delegation_token) \<times> ('sk, 'd) limiter" where
  "sign_token env store tenant root_task parent_task parent_step envelope depth maximum_depth
     remaining_calls parent_token_id =
     st_bind
       (case store of
          Some st \<Rightarrow> on_store (dss_current_epoch st tenant)
        | None \<Rightarrow> (\<lambda>lim. (Ok (epoch_of (dl_state lim) tenant), lim)))
       (\<lambda>epoch lim.
          let t = \<lparr>dt_schema_version = A2A_SCHEMA_VERSION, dt_token_id = dn_new_id env,
                   dt_tenant_id = tenant, dt_root_task_id = root_task,
                   dt_parent_task_id = parent_task, dt_parent_step_id = parent_step,
                   dt_envelope = envelope, dt_depth = depth, dt_maximum_depth = maximum_depth,
                   dt_remaining_calls = remaining_calls, dt_parent_token_id = parent_token_id,
                   dt_revocation_epoch = epoch, dt_issuer = dl_issuer lim,
                   dt_key_id = dl_key_id lim, dt_signature = []\<rparr>
          in (case token_bytes (dn_jcs env) t of
                Inl e \<Rightarrow> (Err e, lim)
              | Inr bytes \<Rightarrow>
                  (Ok (t\<lparr>dt_signature := sg_sign (dn_signer env) (dl_signing_key lim) bytes\<rparr>),
                   set_remaining (dn_new_id env) remaining_calls lim)))"

definition signature_check ::
  "('sk, 'vk) delegation_env \<Rightarrow> ('sk, 'd) limiter \<Rightarrow> delegation_token \<Rightarrow> a2a_error + unit" where
  "signature_check env lim t =
     (if \<not> sg_decodes (dn_signer env) (dt_signature t) then Err ATokenInvalid
      else res_bind (token_bytes (dn_jcs env) t) (\<lambda>bytes.
        if sg_verify (dn_signer env) (sg_public (dn_signer env) (dl_signing_key lim)) bytes
             (dt_signature t)
        then Ok () else Err ATokenInvalid))"

definition limiter_verify ::
  "('sk, 'vk) delegation_env \<Rightarrow> 'd delegation_store option \<Rightarrow> delegation_token \<Rightarrow> datetime
   \<Rightarrow> ('sk, 'd) limiter \<Rightarrow> (a2a_error + unit) \<times> ('sk, 'd) limiter" where
  "limiter_verify env store t now lim =
     (if dt_issuer t \<noteq> dl_issuer lim \<or> dt_key_id t \<noteq> dl_key_id lim \<or> dt_depth t = 0
         \<or> dt_depth t > dt_maximum_depth t \<or> now \<ge> de_expiry (dt_envelope t)
      then (Err ATokenInvalid, lim)
      else
        st_bind
          (case store of
             None \<Rightarrow> st_lift (Ok False)
           | Some st \<Rightarrow> on_store (dss_is_revoked st t))
          (\<lambda>durable_revoked lim.
             if durable_revoked \<or> dt_token_id t \<in> dst_revoked_tokens (dl_state lim)
                \<or> dt_root_task_id t \<in> dst_revoked_tasks (dl_state lim)
                \<or> dt_revocation_epoch t < epoch_of (dl_state lim) (dt_tenant_id t)
             then (Err ARevoked, lim)
             else (signature_check env lim t, lim))
          lim)"

subsection \<open>Issuing\<close>

definition issue_root ::
  "('sk, 'vk) delegation_env \<Rightarrow> 'd delegation_store option \<Rightarrow> string \<Rightarrow> string \<Rightarrow> string
   \<Rightarrow> delegation_envelope \<Rightarrow> authorization_lease \<Rightarrow> u32 \<Rightarrow> u32 \<Rightarrow> ('sk, 'd) limiter
   \<Rightarrow> (a2a_error + delegation_token) \<times> ('sk, 'd) limiter" where
  "issue_root env store tenant root_task parent_step envelope parent_lease maximum_depth maximum_calls lim =
     (if maximum_depth = 0 \<or> maximum_calls = 0 \<or> \<not> is_within envelope parent_lease
         \<or> de_parent_agent envelope = de_child_agent envelope
      then (Err AScopeExceeded, lim)
      else
        st_bind
          (sign_token env store tenant root_task root_task parent_step envelope 1 maximum_depth
             maximum_calls None)
          (\<lambda>t. case store of
                 None \<Rightarrow> st_lift (Ok t)
               | Some st \<Rightarrow> st_bind (on_store (dss_issue st t)) (\<lambda>_. st_lift (Ok t)))
          lim)"

text \<open>Taking the child's calls out of the parent's counter, when the counters are in memory.\<close>

definition reserve_calls ::
  "delegation_token \<Rightarrow> delegation_token \<Rightarrow> u32 \<Rightarrow> ('sk, 'd) limiter \<Rightarrow> (a2a_error + unit) \<times> ('sk, 'd) limiter" where
  "reserve_calls parent t maximum_calls lim =
     (case bt_get (dst_remaining_calls (dl_state lim)) (dt_token_id parent) of
        None \<Rightarrow> (Err ARevoked, lim)
      | Some remaining \<Rightarrow>
          if remaining < maximum_calls
          then (Err ABudgetExceeded,
                lim\<lparr>dl_state := (dl_state lim)\<lparr>dst_remaining_calls :=
                      bt_remove (dt_token_id t) (dst_remaining_calls (dl_state lim))\<rparr>\<rparr>)
          else (Ok (), set_remaining (dt_token_id parent) (remaining - maximum_calls) lim))"

definition issue_child ::
  "('sk, 'vk) delegation_env \<Rightarrow> 'd delegation_store option \<Rightarrow> delegation_token \<Rightarrow> string
   \<Rightarrow> tool_ref set \<Rightarrow> string set \<Rightarrow> u64 \<Rightarrow> datetime \<Rightarrow> u32 \<Rightarrow> ('sk, 'd) limiter
   \<Rightarrow> (a2a_error + delegation_token) \<times> ('sk, 'd) limiter" where
  "issue_child env store parent child_agent tools resources budget_ceiling expiry maximum_calls =
     st_bind (limiter_verify env store parent (dn_now env)) (\<lambda>_ lim.
       if dt_depth parent \<ge> dt_maximum_depth parent \<or> maximum_calls = 0
          \<or> maximum_calls > dt_remaining_calls parent
          \<or> \<not> tools \<subseteq> de_delegated_tools (dt_envelope parent)
          \<or> \<not> resources \<subseteq> de_delegated_resources (dt_envelope parent)
          \<or> budget_ceiling > de_budget_ceiling_microunits (dt_envelope parent)
          \<or> expiry > de_expiry (dt_envelope parent)
       then (Err AScopeExceeded, lim)
       else
         (let envelope = \<lparr>de_schema_version = de_schema_version (dt_envelope parent),
                          de_parent_agent = de_child_agent (dt_envelope parent),
                          de_child_agent = child_agent, de_delegated_tools = tools,
                          de_delegated_resources = resources,
                          de_budget_ceiling_microunits = budget_ceiling, de_expiry = expiry\<rparr>
          in st_bind
               (sign_token env store (dt_tenant_id parent) (dt_root_task_id parent)
                  (dt_parent_task_id parent) (dt_parent_step_id parent) envelope
                  (dt_depth parent + 1) (dt_maximum_depth parent) maximum_calls
                  (Some (dt_token_id parent)))
               (\<lambda>t. st_bind
                      (case store of
                         Some st \<Rightarrow> on_store (dss_issue_child st parent t)
                       | None \<Rightarrow> reserve_calls parent t maximum_calls)
                      (\<lambda>_. st_lift (Ok t)))
               lim))"

subsection \<open>Calls and revocation\<close>

definition consume_call ::
  "('sk, 'vk) delegation_env \<Rightarrow> 'd delegation_store option \<Rightarrow> delegation_token \<Rightarrow> datetime
   \<Rightarrow> ('sk, 'd) limiter \<Rightarrow> (a2a_error + u32) \<times> ('sk, 'd) limiter" where
  "consume_call env store t now =
     st_bind (limiter_verify env store t now) (\<lambda>_ lim.
       case store of
         Some st \<Rightarrow> on_store (dss_consume_call st t) lim
       | None \<Rightarrow>
           (case bt_get (dst_remaining_calls (dl_state lim)) (dt_token_id t) of
              None \<Rightarrow> (Err ARevoked, lim)
            | Some remaining \<Rightarrow>
                if remaining = 0 then (Err ABudgetExceeded, lim)
                else (Ok (remaining - 1), set_remaining (dt_token_id t) (remaining - 1) lim)))"

definition revoke_token ::
  "'d delegation_store option \<Rightarrow> string \<Rightarrow> string \<Rightarrow> ('sk, 'd) limiter
   \<Rightarrow> (a2a_error + unit) \<times> ('sk, 'd) limiter" where
  "revoke_token store tenant token_id =
     st_bind
       (case store of None \<Rightarrow> st_lift (Ok ()) | Some st \<Rightarrow> on_store (dss_revoke_token st tenant token_id))
       (\<lambda>_ lim. (Ok (), lim\<lparr>dl_state := (dl_state lim)\<lparr>dst_revoked_tokens :=
                   insert token_id (dst_revoked_tokens (dl_state lim))\<rparr>\<rparr>))"

definition revoke_root_task ::
  "'d delegation_store option \<Rightarrow> string \<Rightarrow> string \<Rightarrow> ('sk, 'd) limiter
   \<Rightarrow> (a2a_error + unit) \<times> ('sk, 'd) limiter" where
  "revoke_root_task store tenant task =
     st_bind
       (case store of None \<Rightarrow> st_lift (Ok ()) | Some st \<Rightarrow> on_store (dss_revoke_root_task st tenant task))
       (\<lambda>_ lim. (Ok (), lim\<lparr>dl_state := (dl_state lim)\<lparr>dst_revoked_tasks :=
                   insert task (dst_revoked_tasks (dl_state lim))\<rparr>\<rparr>))"

definition set_epoch :: "string \<Rightarrow> u64 \<Rightarrow> ('sk, 'd) limiter \<Rightarrow> ('sk, 'd) limiter" where
  "set_epoch tenant e lim =
     lim\<lparr>dl_state := (dl_state lim)\<lparr>dst_epoch_by_tenant :=
           bt_insert tenant e (dst_epoch_by_tenant (dl_state lim))\<rparr>\<rparr>"

definition bump_tenant_epoch ::
  "'d delegation_store option \<Rightarrow> string \<Rightarrow> ('sk, 'd) limiter \<Rightarrow> (a2a_error + u64) \<times> ('sk, 'd) limiter" where
  "bump_tenant_epoch store tenant =
     (case store of
        Some st \<Rightarrow>
          st_bind (on_store (dss_bump_tenant_epoch st tenant)) (\<lambda>e lim. (Ok e, set_epoch tenant e lim))
      | None \<Rightarrow>
          (\<lambda>lim. let e = epoch_of (dl_state lim) tenant + 1 in (Ok e, set_epoch tenant e lim)))"

end
