(* ===== verification/BTree_Sum.thy ===== *)
theory BTree_Sum
  imports BTree_Map
begin

text \<open>The sum of a weight over the entries of a map, under insertion, replacement and removal.\<close>

definition bt_total :: "('k \<Rightarrow> 'v \<Rightarrow> nat) \<Rightarrow> ('k, 'v) btree \<Rightarrow> nat" where
  "bt_total w m = sum_list (map (\<lambda>(k, v). w k v) m)"

lemma bt_total_empty [simp]: "bt_total w bt_empty = 0"
  by (simp add: bt_total_def bt_empty_def)

lemma bt_total_cong:
  "(\<And>k v. (k, v) \<in> set m \<Longrightarrow> w k v = w' k v) \<Longrightarrow> bt_total w m = bt_total w' m"
  unfolding bt_total_def by (auto intro!: arg_cong [where f = sum_list] map_cong)

lemma bt_total_insert_fresh:
  "bt_get m k = None \<Longrightarrow> bt_total w (bt_insert k v m) = w k v + bt_total w m"
  unfolding bt_total_def bt_get_def by (induction m) (auto split: if_splits)

lemma bt_total_insert_replace:
  assumes "bt_ok m" and "bt_get m k = Some u"
  shows "bt_total w (bt_insert k v m) + w k u = bt_total w m + w k v"
  using assms
proof (induction m)
  case Nil
  then show ?case by (simp add: bt_get_def)
next
  case (Cons p m)
  obtain j x where p: "p = (j, x)" by (cases p)
  have ok: "bt_ok m" and less: "\<forall>q \<in> set m. j < fst q"
    using Cons.prems(1) p by (auto simp: bt_ok_def)
  show ?case
  proof (cases "k = j")
    case True
    then show ?thesis using Cons.prems(2) p by (simp add: bt_get_def bt_total_def)
  next
    case False
    then have get: "bt_get m k = Some u"
      using Cons.prems(2) p by (simp add: bt_get_def)
    then have "j < k"
      using less by (force simp: bt_get_def dest: map_of_SomeD)
    then show ?thesis
      using Cons.IH [OF ok get] p by (auto simp: bt_total_def)
  qed
qed

lemma bt_remove_insert_fresh:
  "bt_ok m \<Longrightarrow> bt_get m k = None \<Longrightarrow> bt_remove k (bt_insert k v m) = m"
  by (rule bt_ext) (auto simp: bt.get_put bt.get_del)

lemma bt_total_zero_insert:
  assumes "bt_ok m" and "\<And>u. w k u = 0"
  shows "bt_total w (bt_insert k v m) = bt_total w m"
  using assms bt_total_insert_fresh [of m k w v] bt_total_insert_replace [OF assms(1), of k _ w v]
  by (cases "bt_get m k") auto

lemma bt_total_ge_entry: "bt_ok m \<Longrightarrow> bt_get m k = Some u \<Longrightarrow> w k u \<le> bt_total w m"
  unfolding bt_total_def bt_get_def by (induction m) (auto simp: bt_ok_def split: if_splits)

end
