(* ===== verification/Delegation_Safety.thy ===== *)
theory Delegation_Safety
  imports Delegation BTree_Sum
begin

text \<open>
  What delegation guarantees: scopes only narrow along a chain, the calls of a tree of tokens are
  conserved, revocation is final for the token it names, and does not reach the children of that
  token.
\<close>

subsection \<open>What signing and verifying do\<close>

lemma on_store_simps [simp]:
  "dl_state (snd (on_store f lim)) = dl_state lim"
  "dl_issuer (snd (on_store f lim)) = dl_issuer lim"
  "dl_key_id (snd (on_store f lim)) = dl_key_id lim"
  "dl_signing_key (snd (on_store f lim)) = dl_signing_key lim"
  by (simp_all add: on_store_def split: prod.splits)

lemma on_store_state: "on_store f lim = (r, lim') \<Longrightarrow> dl_state lim' = dl_state lim"
  using on_store_simps(1) [of f lim] by simp

lemma set_remaining_simps [simp]:
  "dst_remaining_calls (dl_state (set_remaining k n lim)) = bt_insert k n (dst_remaining_calls (dl_state lim))"
  "dst_revoked_tokens (dl_state (set_remaining k n lim)) = dst_revoked_tokens (dl_state lim)"
  "dst_revoked_tasks (dl_state (set_remaining k n lim)) = dst_revoked_tasks (dl_state lim)"
  "dst_epoch_by_tenant (dl_state (set_remaining k n lim)) = dst_epoch_by_tenant (dl_state lim)"
  "dl_issuer (set_remaining k n lim) = dl_issuer lim"
  "dl_key_id (set_remaining k n lim) = dl_key_id lim"
  "dl_signing_key (set_remaining k n lim) = dl_signing_key lim"
  by (simp_all add: set_remaining_def)

lemma verify_state: "limiter_verify env store t now lim = (r, lim') \<Longrightarrow> dl_state lim' = dl_state lim"
  by (auto simp: limiter_verify_def st_bind_def st_lift_def dest!: on_store_state
      split: if_splits option.splits prod.splits sum.splits)

lemma verify_memory: "limiter_verify env None t now lim = (r, lim') \<Longrightarrow> lim' = lim"
  by (auto simp: limiter_verify_def st_bind_def st_lift_def split: if_splits)

lemma verify_Ok:
  "limiter_verify env store t now lim = (Ok u, lim') \<Longrightarrow>
     now < de_expiry (dt_envelope t) \<and> 0 < dt_depth t \<and> dt_depth t \<le> dt_maximum_depth t
     \<and> dt_token_id t \<notin> dst_revoked_tokens (dl_state lim)
     \<and> dt_root_task_id t \<notin> dst_revoked_tasks (dl_state lim)
     \<and> epoch_of (dl_state lim) (dt_tenant_id t) \<le> dt_revocation_epoch t"
  by (auto simp: limiter_verify_def st_bind_Ok_iff st_lift_def word_gt_0 dest!: on_store_state
      split: if_splits option.splits prod.splits sum.splits)

lemma sum_case_Ok:
  "(case r of Inl e \<Rightarrow> (Inl e, s) | Inr x \<Rightarrow> (Inr (f x), s')) = (Inr t, s'') \<longleftrightarrow>
     (\<exists>x. r = Inr x \<and> f x = t \<and> s' = s'')"
  by (cases r) auto

lemma sign_token_Ok:
  "sign_token env store tenant root parent step envelope d md n pid lim = (Ok t, lim') \<Longrightarrow>
     dt_token_id t = dn_new_id env \<and> dt_tenant_id t = tenant \<and> dt_root_task_id t = root
     \<and> dt_envelope t = envelope \<and> dt_depth t = d \<and> dt_maximum_depth t = md
     \<and> dt_remaining_calls t = n \<and> dt_parent_token_id t = pid
     \<and> dl_state lim' = dl_state (set_remaining (dn_new_id env) n lim)"
  by (auto simp: sign_token_def st_bind_Ok_iff Let_def set_remaining_def sum_case_Ok
      dest!: on_store_state split: option.splits)

lemma sign_token_memory:
  "sign_token env None tenant root parent step envelope d md n pid lim = (r, lim') \<Longrightarrow>
     lim' = (if is_ok r then set_remaining (dn_new_id env) n lim else lim)"
  by (auto simp: sign_token_def st_bind_def Let_def split: sum.splits)

lemma issue_root_Ok:
  "issue_root env store tenant root step envelope lease md mc lim = (Ok t, lim') \<Longrightarrow>
     is_within (dt_envelope t) lease \<and> dt_depth t = 1 \<and> md \<noteq> 0 \<and> dt_maximum_depth t = md
     \<and> dt_remaining_calls t = mc \<and> dt_token_id t = dn_new_id env
     \<and> dst_remaining_calls (dl_state lim')
         = bt_insert (dn_new_id env) mc (dst_remaining_calls (dl_state lim))"
  by (auto simp: issue_root_def st_bind_Ok_iff st_lift_def dest!: sign_token_Ok on_store_state
      split: if_splits option.splits)

lemma issue_root_memory_Err:
  "issue_root env None tenant root step envelope lease md mc lim = (Err e, lim') \<Longrightarrow> lim' = lim"
  by (auto simp: issue_root_def st_bind_def st_lift_def dest!: sign_token_memory
      split: if_splits prod.splits sum.splits)

subsection \<open>Scopes narrow\<close>

definition narrower :: "delegation_token \<Rightarrow> delegation_token \<Rightarrow> bool" where
  "narrower child parent \<longleftrightarrow>
     de_delegated_tools (dt_envelope child) \<subseteq> de_delegated_tools (dt_envelope parent)
     \<and> de_delegated_resources (dt_envelope child) \<subseteq> de_delegated_resources (dt_envelope parent)
     \<and> de_budget_ceiling_microunits (dt_envelope child)
         \<le> de_budget_ceiling_microunits (dt_envelope parent)
     \<and> de_expiry (dt_envelope child) \<le> de_expiry (dt_envelope parent)
     \<and> dt_remaining_calls child \<le> dt_remaining_calls parent
     \<and> dt_depth parent < dt_depth child \<and> dt_maximum_depth child = dt_maximum_depth parent
     \<and> dt_tenant_id child = dt_tenant_id parent \<and> dt_root_task_id child = dt_root_task_id parent"

lemma narrower_trans: "narrower c b \<Longrightarrow> narrower b a \<Longrightarrow> narrower c a"
  by (auto simp: narrower_def)

lemma issue_child_Ok:
  assumes "issue_child env store p agent tools resources budget expiry mc lim = (Ok t, lim')"
  shows "narrower t p \<and> unat (dt_depth t) = Suc (unat (dt_depth p)) \<and> dt_depth t \<le> dt_maximum_depth t
    \<and> dt_parent_token_id t = Some (dt_token_id p)
    \<and> de_parent_agent (dt_envelope t) = de_child_agent (dt_envelope p)
    \<and> dt_token_id t = dn_new_id env \<and> dt_remaining_calls t = mc"
proof -
  have depth: "unat (d + 1) = Suc (unat d) \<and> d < d + 1 \<and> d + 1 \<le> md" if "d < md" for d md :: u32
    using unat_plus_one [OF that] that by (simp add: word_less_nat_alt word_le_nat_alt)
  show ?thesis
    using assms depth [of "dt_depth p" "dt_maximum_depth p"]
    by (auto simp: issue_child_def st_bind_Ok_iff st_lift_def Let_def narrower_def
        not_le not_less dest!: sign_token_Ok split: if_splits)
qed

text \<open>The chains of tokens that issuing produces, the newest token first.\<close>

inductive delegation_chain ::
  "('sk, 'vk) signer \<Rightarrow> 'd delegation_store option \<Rightarrow> authorization_lease
   \<Rightarrow> delegation_token list \<Rightarrow> bool"
  for sg :: "('sk, 'vk) signer" and store and lease where
  chain_root: "dn_signer env = sg
    \<Longrightarrow> issue_root env store tenant root step envelope lease md mc lim = (Ok t, lim')
    \<Longrightarrow> delegation_chain sg store lease [t]"
| chain_child: "delegation_chain sg store lease (p # ts) \<Longrightarrow> dn_signer env = sg
    \<Longrightarrow> issue_child env store p agent tools resources budget expiry mc lim = (Ok t, lim')
    \<Longrightarrow> delegation_chain sg store lease (t # p # ts)"

lemma delegation_chain_shape:
  "delegation_chain sg store lease ts \<Longrightarrow> ts \<noteq> [] \<and> sorted_wrt narrower ts
     \<and> unat (dt_depth (hd ts)) = length ts \<and> dt_depth (hd ts) \<le> dt_maximum_depth (hd ts)
     \<and> is_within (dt_envelope (last ts)) lease"
proof (induction rule: delegation_chain.induct)
  case (chain_root env tenant root step envelope md mc lim t lim')
  then show ?case
    using issue_root_Ok [OF chain_root(2)] by (auto simp: word_le_nat_alt unat_gt_0 Suc_le_eq)
next
  case (chain_child p ts env agent tools resources budget expiry mc lim t lim')
  then show ?case
    using issue_child_Ok [OF chain_child(3)] by (auto intro: narrower_trans)
qed

text \<open>
  Delegation only narrows. However many times a grant is passed on, every token of the chain is
  within the lease at its root, each token is narrower than all before it (tools, resources, budget
  ceiling, expiry, call allowance; same tenant, root task and depth limit), its depth is its place in
  the chain, and the chain is never longer than the depth limit the root was given.
\<close>

theorem delegation_narrows:
  assumes "delegation_chain sg store lease ts"
  shows "sorted_wrt narrower ts
    \<and> list_all (\<lambda>t. is_within (dt_envelope t) lease) ts
    \<and> unat (dt_depth (hd ts)) = length ts \<and> length ts \<le> unat (dt_maximum_depth (last ts))"
proof -
  from delegation_chain_shape [OF assms] have shape: "ts \<noteq> []" "sorted_wrt narrower ts"
    "unat (dt_depth (hd ts)) = length ts" "dt_depth (hd ts) \<le> dt_maximum_depth (hd ts)"
    "is_within (dt_envelope (last ts)) lease" by blast+
  have split: "ts = butlast ts @ [last ts]"
    using shape(1) by simp
  then have below: "t = last ts \<or> narrower t (last ts)" if "t \<in> set ts" for t
    using shape(2) that by (metis (no_types) append_butlast_last_id in_set_conv_decomp
        in_set_butlastD sorted_wrt_append list.set_intros(1) rotate1.simps(2) set_rotate1 set_ConsD shape(1))
  then have "list_all (\<lambda>t. is_within (dt_envelope t) lease) ts"
    using shape(5) by (fastforce simp: list_all_iff narrower_def is_within_def)
  moreover have "dt_maximum_depth (hd ts) = dt_maximum_depth (last ts)"
    using below [of "hd ts"] shape(1) by (auto simp: narrower_def)
  ultimately show ?thesis
    using shape by (simp add: word_le_nat_alt)
qed

subsection \<open>Calls are conserved\<close>

text \<open>
  A run of a limiter without a durable store, with the bookkeeping the property speaks of: the root
  token each token descends from, the calls granted to each root, and the calls that were consumed.
  Every operation may be called with any arguments, forged tokens included; only the identifiers
  drawn are new.
\<close>

record 'sk call_run =
  cr_limiter :: "('sk, unit) limiter"
  cr_root_of :: "string \<Rightarrow> string option"
  cr_granted :: "string \<Rightarrow> nat option"
  cr_calls :: "string list"

abbreviation counters :: "('sk, 'd) limiter \<Rightarrow> (string, u32) btree" where
  "counters lim \<equiv> dst_remaining_calls (dl_state lim)"

inductive call_step :: "('sk, 'vk) signer \<Rightarrow> 'sk call_run \<Rightarrow> 'sk call_run \<Rightarrow> bool"
  for sg :: "('sk, 'vk) signer" where
  root_issued: "dn_signer env = sg \<Longrightarrow> bt_get (counters (cr_limiter s)) (dn_new_id env) = None
    \<Longrightarrow> issue_root env None tenant root step envelope lease md mc (cr_limiter s) = (Ok t, l)
    \<Longrightarrow> call_step sg s (s\<lparr>cr_limiter := l, cr_root_of := (cr_root_of s)(dt_token_id t \<mapsto> dt_token_id t),
          cr_granted := (cr_granted s)(dt_token_id t \<mapsto> unat mc)\<rparr>)"
| root_refused: "dn_signer env = sg
    \<Longrightarrow> issue_root env None tenant root step envelope lease md mc (cr_limiter s) = (Err e, l)
    \<Longrightarrow> call_step sg s (s\<lparr>cr_limiter := l\<rparr>)"
| child_issued: "dn_signer env = sg \<Longrightarrow> bt_get (counters (cr_limiter s)) (dn_new_id env) = None
    \<Longrightarrow> dn_new_id env \<noteq> dt_token_id p
    \<Longrightarrow> issue_child env None p agent tools resources budget expiry mc (cr_limiter s) = (Ok t, l)
    \<Longrightarrow> call_step sg s (s\<lparr>cr_limiter := l,
          cr_root_of := (cr_root_of s)(dt_token_id t := cr_root_of s (dt_token_id p))\<rparr>)"
| child_refused: "dn_signer env = sg \<Longrightarrow> bt_get (counters (cr_limiter s)) (dn_new_id env) = None
    \<Longrightarrow> dn_new_id env \<noteq> dt_token_id p
    \<Longrightarrow> issue_child env None p agent tools resources budget expiry mc (cr_limiter s) = (Err e, l)
    \<Longrightarrow> call_step sg s (s\<lparr>cr_limiter := l\<rparr>)"
| call_consumed: "dn_signer env = sg \<Longrightarrow> consume_call env None t now (cr_limiter s) = (Ok n, l)
    \<Longrightarrow> call_step sg s (s\<lparr>cr_limiter := l, cr_calls := cr_calls s @ [dt_token_id t]\<rparr>)"
| call_refused: "dn_signer env = sg \<Longrightarrow> consume_call env None t now (cr_limiter s) = (Err e, l)
    \<Longrightarrow> call_step sg s (s\<lparr>cr_limiter := l\<rparr>)"
| token_revoked: "call_step sg s (s\<lparr>cr_limiter := snd (revoke_token None tenant k (cr_limiter s))\<rparr>)"
| task_revoked: "call_step sg s (s\<lparr>cr_limiter := snd (revoke_root_task None tenant k (cr_limiter s))\<rparr>)"
| epoch_bumped: "call_step sg s (s\<lparr>cr_limiter := snd (bump_tenant_epoch None tenant (cr_limiter s))\<rparr>)"

definition weight :: "(string \<Rightarrow> string option) \<Rightarrow> string \<Rightarrow> string \<Rightarrow> u32 \<Rightarrow> nat" where
  "weight root_of r k v = (if root_of k = Some r then unat v else 0)"

definition calls_left :: "'sk call_run \<Rightarrow> string \<Rightarrow> nat" where
  "calls_left s r = bt_total (weight (cr_root_of s) r) (counters (cr_limiter s))"

definition calls_made :: "'sk call_run \<Rightarrow> string \<Rightarrow> nat" where
  "calls_made s r = length (filter (\<lambda>k. cr_root_of s k = Some r) (cr_calls s))"

definition calls_ok :: "'sk call_run \<Rightarrow> bool" where
  "calls_ok s \<longleftrightarrow> bt_ok (counters (cr_limiter s))
     \<and> (\<forall>r n. cr_granted s r = Some n \<longrightarrow> calls_made s r + calls_left s r = n)
     \<and> (\<forall>k r. cr_root_of s k = Some r \<longrightarrow> bt_contains (counters (cr_limiter s)) k \<and> cr_granted s r \<noteq> None)
     \<and> (\<forall>r. cr_granted s r \<noteq> None \<longrightarrow> bt_contains (counters (cr_limiter s)) r)
     \<and> (\<forall>k \<in> set (cr_calls s). bt_contains (counters (cr_limiter s)) k)"

lemma reserve_calls_cases:
  assumes "reserve_calls p t mc lim = (r, lim')"
  shows "(bt_get (counters lim) (dt_token_id p) = None \<and> r = Err ARevoked \<and> lim' = lim)
    \<or> (\<exists>n. bt_get (counters lim) (dt_token_id p) = Some n \<and> n < mc \<and> r = Err ABudgetExceeded
         \<and> counters lim' = bt_remove (dt_token_id t) (counters lim))
    \<or> (\<exists>n. bt_get (counters lim) (dt_token_id p) = Some n \<and> mc \<le> n \<and> r = Ok ()
         \<and> counters lim' = bt_insert (dt_token_id p) (n - mc) (counters lim))"
  using assms by (auto simp: reserve_calls_def not_less split: option.splits if_splits)

lemma issue_child_memory_Ok:
  assumes "issue_child env None p agent tools resources budget expiry mc lim = (Ok t, lim')"
    and "dn_new_id env \<noteq> dt_token_id p"
  obtains n where "bt_get (counters lim) (dt_token_id p) = Some n" "mc \<le> n"
    "counters lim' = bt_insert (dt_token_id p) (n - mc) (bt_insert (dn_new_id env) mc (counters lim))"
  using assms
  by (auto simp: issue_child_def st_bind_Ok_iff st_lift_def Let_def bt.get_put
      dest!: sign_token_Ok verify_memory reserve_calls_cases split: if_splits)

lemma issue_child_memory_Err:
  assumes "issue_child env None p agent tools resources budget expiry mc lim = (Err e, lim')"
  shows "counters lim' \<in> {counters lim, bt_insert (dn_new_id env) mc (counters lim),
    bt_remove (dn_new_id env) (bt_insert (dn_new_id env) mc (counters lim))}"
  using assms
  apply (clarsimp simp: issue_child_def st_bind_def st_lift_def Let_def split: prod.splits sum.splits if_splits)
  subgoal by (auto dest!: verify_memory)
  subgoal by (auto dest!: verify_memory)
  subgoal by (auto dest!: verify_memory sign_token_memory)
  subgoal by (frule sign_token_memory, auto dest!: verify_memory sign_token_Ok reserve_calls_cases)
  done

lemma consume_call_memory_Ok:
  assumes "consume_call env None t now lim = (Ok n, lim')"
  shows "bt_get (counters lim) (dt_token_id t) = Some (n + 1) \<and> n + 1 \<noteq> 0
    \<and> counters lim' = bt_insert (dt_token_id t) n (counters lim)"
  using assms
  by (auto simp: consume_call_def st_bind_Ok_iff dest!: verify_memory split: option.splits if_splits)

lemma consume_call_memory_Err:
  "consume_call env None t now lim = (Err e, lim') \<Longrightarrow> lim' = lim"
  by (auto simp: consume_call_def st_bind_def dest!: verify_memory
      split: option.splits if_splits prod.splits sum.splits)

lemma administration_counters [simp]:
  "counters (snd (revoke_token None tenant k lim)) = counters lim"
  "counters (snd (revoke_root_task None tenant k lim)) = counters lim"
  "counters (snd (bump_tenant_epoch None tenant lim)) = counters lim"
  by (simp_all add: revoke_token_def revoke_root_task_def bump_tenant_epoch_def st_bind_def
      st_lift_def Let_def set_epoch_def)

text \<open>The four ways the counters change, each of which keeps the books.\<close>

lemma calls_ok_same:
  "calls_ok s \<Longrightarrow> counters l = counters (cr_limiter s) \<Longrightarrow> calls_ok (s\<lparr>cr_limiter := l\<rparr>)"
  by (auto simp: calls_ok_def calls_left_def calls_made_def)

lemma calls_ok_orphan:
  assumes "calls_ok s" and "bt_get (counters (cr_limiter s)) k = None"
    and "counters l = bt_insert k n (counters (cr_limiter s))"
  shows "calls_ok (s\<lparr>cr_limiter := l\<rparr>)"
proof -
  have "cr_root_of s k = None"
    using assms(1,2) unfolding calls_ok_def bt_contains_def by (metis option.exhaust)
  then have "calls_left (s\<lparr>cr_limiter := l\<rparr>) r = calls_left s r" for r
    using assms by (simp add: calls_left_def weight_def bt_total_insert_fresh)
  then show ?thesis
    using assms by (auto simp: calls_ok_def calls_made_def bt_contains_def bt.get_put)
qed

lemma calls_ok_root:
  assumes "calls_ok s" and "bt_get (counters (cr_limiter s)) k = None"
    and "counters l = bt_insert k n (counters (cr_limiter s))"
  shows "calls_ok (s\<lparr>cr_limiter := l, cr_root_of := (cr_root_of s)(k \<mapsto> k),
                    cr_granted := (cr_granted s)(k \<mapsto> unat n)\<rparr>)" (is "calls_ok ?s")
proof -
  let ?m = "counters (cr_limiter s)"
  have new: "cr_granted s k = None" "\<forall>j. cr_root_of s j \<noteq> Some k" "k \<notin> set (cr_calls s)"
    "cr_root_of s k = None"
    using assms(1,2) unfolding calls_ok_def bt_contains_def by (metis option.exhaust)+
  have ok: "bt_ok ?m" using assms(1) by (simp add: calls_ok_def)
  have keys: "j \<noteq> k" if "(j, v) \<in> set ?m" for j v
    using that assms(2) in_set_bt_iff [OF ok, of j v] by auto
  have left: "calls_left ?s r = (if r = k then unat n else calls_left s r)" for r
  proof -
    have "bt_total (weight (cr_root_of ?s) r) ?m = bt_total (weight (cr_root_of s) r) ?m"
      by (rule bt_total_cong) (auto simp: weight_def dest: keys)
    moreover have "bt_total (weight (cr_root_of s) k) ?m = bt_total (\<lambda>_ _. 0) ?m"
      by (rule bt_total_cong) (simp add: weight_def new)
    ultimately show ?thesis
      using assms(2,3) by (simp add: calls_left_def bt_total_insert_fresh weight_def) (simp add: bt_total_def)
  qed
  have made: "calls_made ?s r = (if r = k then 0 else calls_made s r)" for r
    using new by (auto simp: calls_made_def filter_empty_conv intro!: arg_cong [where f = length] filter_cong)
  show ?thesis
    using assms new ok left made
    by (auto simp: calls_ok_def bt_contains_def bt.get_put split: if_splits)
qed

lemma calls_ok_child:
  assumes "calls_ok s" and "bt_get (counters (cr_limiter s)) k = None" and "p \<noteq> k"
    and "bt_get (counters (cr_limiter s)) p = Some n" and "mc \<le> n"
    and "counters l = bt_insert p (n - mc) (bt_insert k mc (counters (cr_limiter s)))"
  shows "calls_ok (s\<lparr>cr_limiter := l, cr_root_of := (cr_root_of s)(k := cr_root_of s p)\<rparr>)" (is "calls_ok ?s")
proof -
  let ?m = "counters (cr_limiter s)"
  have new: "k \<notin> set (cr_calls s)" "cr_root_of s k = None" "cr_granted s k = None"
    using assms(1,2) unfolding calls_ok_def bt_contains_def by (metis option.exhaust)+
  have ok: "bt_ok ?m" using assms(1) by (simp add: calls_ok_def)
  have keys: "j \<noteq> k" if "(j, v) \<in> set ?m" for j v
    using that assms(2) in_set_bt_iff [OF ok, of j v] by auto
  have left: "calls_left ?s r = calls_left s r" for r
  proof -
    let ?w = "weight (cr_root_of ?s) r"
    have "bt_total ?w ?m = calls_left s r"
      unfolding calls_left_def by (rule bt_total_cong) (auto simp: weight_def dest: keys)
    moreover have "bt_total ?w (bt_insert k mc ?m) = ?w k mc + bt_total ?w ?m"
      by (rule bt_total_insert_fresh) (rule assms(2))
    moreover have "bt_total ?w (counters l) + ?w p n = bt_total ?w (bt_insert k mc ?m) + ?w p (n - mc)"
      unfolding assms(6) using ok assms(3,4)
      by (intro bt_total_insert_replace) (auto simp: bt.get_put)
    moreover have "?w k mc + ?w p (n - mc) = ?w p n"
      using assms(3,5) by (auto simp: weight_def unat_sub word_le_nat_alt)
    ultimately show ?thesis by (simp add: calls_left_def)
  qed
  have made: "calls_made ?s r = calls_made s r" for r
    using new by (auto simp: calls_made_def intro!: arg_cong [where f = length] filter_cong)
  show ?thesis
    using assms new ok left made
    by (auto simp: calls_ok_def bt_contains_def bt.get_put split: if_splits)
qed

lemma calls_ok_call:
  assumes "calls_ok s" and "bt_get (counters (cr_limiter s)) k = Some (n + 1)" and "n + 1 \<noteq> 0"
    and "counters l = bt_insert k n (counters (cr_limiter s))"
  shows "calls_ok (s\<lparr>cr_limiter := l, cr_calls := cr_calls s @ [k]\<rparr>)" (is "calls_ok ?s")
proof -
  let ?m = "counters (cr_limiter s)"
  have ok: "bt_ok ?m" using assms(1) by (simp add: calls_ok_def)
  have "unat (n + 1) = Suc (unat n)"
    using unatSuc [of n] assms(3) by (simp add: add.commute)
  then have "calls_made ?s r + calls_left ?s r = calls_made s r + calls_left s r" for r
    using bt_total_insert_replace [OF ok assms(2), of "weight (cr_root_of s) r" n] assms(3,4)
    by (auto simp: calls_made_def calls_left_def weight_def)
  then show ?thesis
    using assms ok by (auto simp: calls_ok_def bt_contains_def bt.get_put)
qed

lemma calls_ok_step: "call_step sg s s' \<Longrightarrow> calls_ok s \<Longrightarrow> calls_ok s'"
proof (induction rule: call_step.induct)
  case (root_issued env s tenant root step envelope lease md mc t l)
  then show ?case
    using issue_root_Ok [OF root_issued(3)] by (auto intro!: calls_ok_root)
next
  case (child_issued env s p agent tools resources budget expiry mc t l)
  obtain n where n: "bt_get (counters (cr_limiter s)) (dt_token_id p) = Some n" "mc \<le> n"
      "counters l = bt_insert (dt_token_id p) (n - mc) (bt_insert (dn_new_id env) mc (counters (cr_limiter s)))"
    using issue_child_memory_Ok [OF child_issued(4,3)] .
  show ?case
    using calls_ok_child [OF child_issued(5,2) _ n] issue_child_Ok [OF child_issued(4)] child_issued(3)
    by simp
next
  case (child_refused env s p agent tools resources budget expiry mc e l)
  then have "bt_ok (counters (cr_limiter s))" by (simp add: calls_ok_def)
  then show ?case
    using issue_child_memory_Err [OF child_refused(4)] child_refused
    by (auto simp: bt_remove_insert_fresh intro: calls_ok_same calls_ok_orphan)
next
  case (call_consumed env t now s n l)
  then show ?case
    using consume_call_memory_Ok [OF call_consumed(2)] by (auto intro!: calls_ok_call)
qed (auto dest!: issue_root_memory_Err consume_call_memory_Err intro!: calls_ok_same)

definition call_init :: "'sk call_run \<Rightarrow> bool" where
  "call_init s \<longleftrightarrow> (\<exists>issuer key_id key. limiter_new issuer key_id key () = Ok (cr_limiter s))
     \<and> cr_root_of s = (\<lambda>_. None) \<and> cr_granted s = (\<lambda>_. None) \<and> cr_calls s = []"

lemma limiter_new_state: "limiter_new issuer key_id key d = Ok lim \<Longrightarrow> dl_state lim = delegation_state_default"
  by (auto simp: limiter_new_def split: if_splits)

lemma calls_ok_init: "call_init s \<Longrightarrow> calls_ok s"
  by (auto simp: call_init_def calls_ok_def delegation_state_default_def dest!: limiter_new_state)

interpretation call_machine: invariant_system "call_step sg" calls_ok call_init for sg
  by unfold_locales (auto intro: calls_ok_step calls_ok_init)

text \<open>
  C8: calls are conserved by a limiter that keeps its own counters. Whatever is issued, consumed, revoked or refused, in whatever order and
  with whatever tokens presented, the calls made under a root grant and the calls still left to the
  tokens that descend from it add up to exactly the calls the root was granted; in particular no
  sequence of sub-delegations makes more calls than that.
\<close>

theorem delegated_calls_conserved:
  assumes "reach call_init (call_step sg) s" and "cr_granted s r = Some n"
  shows "calls_made s r + calls_left s r = n"
  using call_machine.reach_inv [OF assms(1)] assms(2) by (simp add: calls_ok_def)

subsection \<open>Revocation\<close>

definition grows :: "(('sk, 'd) limiter \<Rightarrow> (a2a_error + 'a) \<times> ('sk, 'd) limiter) \<Rightarrow> bool" where
  "grows f \<longleftrightarrow> (\<forall>lim. dst_revoked_tokens (dl_state lim) \<subseteq> dst_revoked_tokens (dl_state (snd (f lim)))
     \<and> dst_revoked_tasks (dl_state lim) \<subseteq> dst_revoked_tasks (dl_state (snd (f lim))))"

lemma grows_at:
  "grows f \<Longrightarrow> dst_revoked_tokens (dl_state lim) \<subseteq> dst_revoked_tokens (dl_state (snd (f lim)))
     \<and> dst_revoked_tasks (dl_state lim) \<subseteq> dst_revoked_tasks (dl_state (snd (f lim)))"
  by (simp add: grows_def)

lemma grows_bind:
  assumes "grows f" and "\<And>x. grows (g x)"
  shows "grows (st_bind f g)"
  unfolding grows_def
proof
  fix lim
  show "dst_revoked_tokens (dl_state lim) \<subseteq> dst_revoked_tokens (dl_state (snd (st_bind f g lim)))
    \<and> dst_revoked_tasks (dl_state lim) \<subseteq> dst_revoked_tasks (dl_state (snd (st_bind f g lim)))"
    using assms(1) [unfolded grows_def, rule_format, of lim]
    by (cases "f lim"; cases "fst (f lim)")
      (use assms(2) in \<open>auto simp: st_bind_def grows_def split: sum.splits\<close>, blast+)
qed

lemma grows_lift [simp, intro]: "grows (st_lift r)"
  by (simp add: grows_def st_lift_def)

lemma grows_store [simp, intro]: "grows (on_store f)"
  by (simp add: grows_def)

lemma grows_verify [simp, intro]: "grows (limiter_verify env store t now)"
  unfolding grows_def by (metis verify_state surjective_pairing subset_refl)

lemma grows_sign [simp, intro]:
  "grows (sign_token env store tenant root parent step envelope d md n pid)"
  unfolding sign_token_def
  by (intro grows_bind) (auto simp: grows_def Let_def split: option.splits sum.splits)

lemma grows_issue_root [simp, intro]: "grows (issue_root env store tenant root step envelope lease md mc)"
proof -
  have "grows (st_bind (sign_token env store tenant root root step envelope 1 md mc None)
    (\<lambda>t. case store of None \<Rightarrow> st_lift (Ok t)
          | Some st \<Rightarrow> st_bind (on_store (dss_issue st t)) (\<lambda>_. st_lift (Ok t))))"
    by (intro grows_bind grows_sign) (auto intro: grows_bind split: option.split)
  then show ?thesis by (simp add: grows_def issue_root_def)
qed

lemma grows_reserve [simp, intro]: "grows (reserve_calls p t mc)"
  by (auto simp: grows_def reserve_calls_def split: option.splits)

lemma grows_issue_child [simp, intro]:
  "grows (issue_child env store p agent tools resources budget expiry mc)"
proof -
  have "grows (st_bind (sign_token env store tenant root parent step envelope d md n pid)
     (\<lambda>t. st_bind (case store of Some st \<Rightarrow> on_store (dss_issue_child st p t) | None \<Rightarrow> reserve_calls p t mc)
             (\<lambda>_. st_lift (Ok t))))" for tenant root parent step envelope d md n pid
    by (intro grows_bind grows_sign) (auto split: option.split)
  then show ?thesis
    unfolding issue_child_def by (intro grows_bind grows_verify) (simp add: grows_def Let_def)
qed

lemma grows_consume [simp, intro]: "grows (consume_call env store t now)"
  unfolding consume_call_def
  by (intro grows_bind grows_verify) (auto simp: grows_def split: option.splits)

lemma grows_revoke_token [simp, intro]: "grows (revoke_token store tenant k)"
  unfolding revoke_token_def by (intro grows_bind) (auto simp: grows_def st_lift_def split: option.splits)

lemma grows_revoke_task [simp, intro]: "grows (revoke_root_task store tenant k)"
  unfolding revoke_root_task_def by (intro grows_bind) (auto simp: grows_def st_lift_def split: option.splits)

lemma grows_bump [simp, intro]: "grows (bump_tenant_epoch store tenant)"
  by (cases store)
    (auto simp: bump_tenant_epoch_def Let_def set_epoch_def grows_def intro!: grows_bind [unfolded grows_def, rule_format])

inductive limiter_step ::
  "('sk, 'vk) signer \<Rightarrow> 'd delegation_store option \<Rightarrow> ('sk, 'd) limiter \<Rightarrow> ('sk, 'd) limiter \<Rightarrow> bool"
  for sg :: "('sk, 'vk) signer" and store where
  "dn_signer env = sg
    \<Longrightarrow> limiter_step sg store l (snd (issue_root env store tenant root step envelope lease md mc l))"
| "dn_signer env = sg
    \<Longrightarrow> limiter_step sg store l (snd (issue_child env store p agent tools resources budget expiry mc l))"
| "dn_signer env = sg \<Longrightarrow> limiter_step sg store l (snd (limiter_verify env store t now l))"
| "dn_signer env = sg \<Longrightarrow> limiter_step sg store l (snd (consume_call env store t now l))"
| "limiter_step sg store l (snd (revoke_token store tenant k l))"
| "limiter_step sg store l (snd (revoke_root_task store tenant k l))"
| "limiter_step sg store l (snd (bump_tenant_epoch store tenant l))"

lemma limiter_step_grows:
  "limiter_step sg store l l' \<Longrightarrow> dst_revoked_tokens (dl_state l) \<subseteq> dst_revoked_tokens (dl_state l')
     \<and> dst_revoked_tasks (dl_state l) \<subseteq> dst_revoked_tasks (dl_state l')"
  by (induction rule: limiter_step.induct) (rule grows_at, simp)+

definition token_dead :: "string \<Rightarrow> string \<Rightarrow> ('sk, 'd) limiter \<Rightarrow> bool" where
  "token_dead k task lim \<longleftrightarrow>
     k \<in> dst_revoked_tokens (dl_state lim) \<or> task \<in> dst_revoked_tasks (dl_state lim)"

interpretation revocation: kept_by_steps "limiter_step sg store" "token_dead k task" for sg store k task
  by unfold_locales (use limiter_step_grows in \<open>force simp: token_dead_def\<close>)

lemma dead_token_refused:
  assumes "token_dead (dt_token_id t) (dt_root_task_id t) lim"
  shows "\<not> is_ok (fst (limiter_verify env store t now lim))
    \<and> \<not> is_ok (fst (consume_call env store t now lim))
    \<and> \<not> is_ok (fst (issue_child env store t agent tools resources budget expiry mc lim))"
proof -
  have "fst (limiter_verify env store t now' lim) \<noteq> Ok u" for now' u
    using verify_Ok [of env store t now' lim u "snd (limiter_verify env store t now' lim)"] assms
    by (auto simp: token_dead_def prod_eq_iff)
  then show ?thesis
    by (auto simp: is_ok_iff consume_call_def issue_child_def st_bind_def split: prod.splits sum.splits)
      (metis fst_conv)+
qed

text \<open>
  Revocation is final. Once a token or its root task was revoked, then after any further
  operations the token neither verifies, nor pays for a call, nor issues a child, at any time and
  whatever the durable store answers.
\<close>

theorem revocation_is_final:
  assumes "revoke_token store tenant (dt_token_id t) lim0 = (Ok (), lim1)
      \<or> revoke_root_task store tenant (dt_root_task_id t) lim0 = (Ok (), lim1)"
    and "(limiter_step sg store)\<^sup>*\<^sup>* lim1 lim2"
  shows "\<not> is_ok (fst (limiter_verify env store t now lim2))
    \<and> \<not> is_ok (fst (consume_call env store t now lim2))
    \<and> \<not> is_ok (fst (issue_child env store t agent tools resources budget expiry mc lim2))"
proof (rule dead_token_refused)
  have "token_dead (dt_token_id t) (dt_root_task_id t) lim1"
    using assms(1) by (auto simp: token_dead_def revoke_token_def revoke_root_task_def st_bind_Ok_iff)
  with assms(2) show "token_dead (dt_token_id t) (dt_root_task_id t) lim2"
    by (rule revocation.steps_keep)
qed

lemma sign_token_verifies:
  assumes "sign_token env None tenant root parent step envelope d md n pid lim = (Ok t, lim')"
    and "signer_correct (dn_signer env)"
  shows "signature_check env lim t = Ok ()"
    and "dt_issuer t = dl_issuer lim" and "dt_key_id t = dl_key_id lim"
    and "dt_revocation_epoch t = epoch_of (dl_state lim) tenant"
  using assms
  by (auto simp: sign_token_def st_bind_Ok_iff Let_def sum_case_Ok signature_check_def token_bytes_def
      signer_correct_def split: option.splits)

lemma issue_child_memory_parts:
  assumes "issue_child env None p agent tools resources budget expiry mc lim = (Ok t, lim')"
  obtains l1 where "limiter_verify env None p (dn_now env) lim = (Ok (), lim)"
    "sign_token env None (dt_tenant_id p) (dt_root_task_id p) (dt_parent_task_id p) (dt_parent_step_id p)
       (dt_envelope t) (dt_depth t) (dt_maximum_depth p) mc (Some (dt_token_id p)) lim = (Ok t, l1)"
    "l1 = set_remaining (dn_new_id env) mc lim"
    "reserve_calls p t mc l1 = (Ok (), lim')" "mc \<noteq> 0"
    "de_expiry (dt_envelope t) = expiry"
proof -
  from assms obtain l0 e d l1 where parts: "limiter_verify env None p (dn_now env) lim = (Ok (), l0)"
    "sign_token env None (dt_tenant_id p) (dt_root_task_id p) (dt_parent_task_id p) (dt_parent_step_id p)
       e d (dt_maximum_depth p) mc (Some (dt_token_id p)) l0 = (Ok t, l1)"
    "reserve_calls p t mc l1 = (Ok (), lim')" "mc \<noteq> 0" "de_expiry e = expiry"
    by (fastforce simp: issue_child_def st_bind_Ok_iff st_lift_def Let_def split: if_splits)
  moreover from verify_memory [OF parts(1)] have "l0 = lim" .
  ultimately show ?thesis
    using that [of l1] sign_token_Ok [OF parts(2)] sign_token_memory [OF parts(2)] by auto
qed

text \<open>
  Revoking a token does not reach the tokens issued under it. A child that was issued before its
  parent was revoked still verifies until it expires, and its calls are still paid for, although the
  parent itself is refused from then on.
\<close>

theorem revoking_parent_spares_children:
  assumes "signer_correct (dn_signer env)"
    and "issue_child env None p agent tools resources budget expiry mc lim0 = (Ok t, lim1)"
    and "dn_new_id env \<noteq> dt_token_id p" and "dn_new_id env \<notin> dst_revoked_tokens (dl_state lim0)"
    and "now < expiry" and "revoke_token None tenant (dt_token_id p) lim1 = (Ok (), lim2)"
  shows "\<not> is_ok (fst (limiter_verify env None p now lim2))
    \<and> limiter_verify env None t now lim2 = (Ok (), lim2)
    \<and> fst (consume_call env None t now lim2) = Ok (mc - 1)"
proof -
  obtain l1 where parts: "limiter_verify env None p (dn_now env) lim0 = (Ok (), lim0)"
    "sign_token env None (dt_tenant_id p) (dt_root_task_id p) (dt_parent_task_id p) (dt_parent_step_id p)
       (dt_envelope t) (dt_depth t) (dt_maximum_depth p) mc (Some (dt_token_id p)) lim0 = (Ok t, l1)"
    "l1 = set_remaining (dn_new_id env) mc lim0"
    "reserve_calls p t mc l1 = (Ok (), lim1)" "mc \<noteq> 0" "de_expiry (dt_envelope t) = expiry"
    using issue_child_memory_parts [OF assms(2)] by metis
  note signed = sign_token_verifies [OF parts(2) assms(1)] sign_token_Ok [OF parts(2)]
  have lim2: "dl_issuer lim2 = dl_issuer lim0" "dl_key_id lim2 = dl_key_id lim0"
    "dl_signing_key lim2 = dl_signing_key lim0"
    "dst_revoked_tokens (dl_state lim2) = insert (dt_token_id p) (dst_revoked_tokens (dl_state lim0))"
    "dst_revoked_tasks (dl_state lim2) = dst_revoked_tasks (dl_state lim0)"
    "dst_epoch_by_tenant (dl_state lim2) = dst_epoch_by_tenant (dl_state lim0)"
    "counters lim2 = counters lim1"
    using parts(3,4) assms(6)
    by (auto simp: revoke_token_def st_bind_Ok_iff st_lift_def reserve_calls_def
        split: option.splits if_splits)
  have "signature_check env lim2 t = Ok ()"
    using signed(1) by (simp only: signature_check_def lim2(3))
  then have verify: "limiter_verify env None t now lim2 = (Ok (), lim2)"
    using signed lim2 issue_child_Ok [OF assms(2)] verify_Ok [OF parts(1)] assms(3-5) parts(6)
    by (auto simp: limiter_verify_def st_lift_def epoch_of_def word_gt_0)
  moreover have "bt_get (counters lim2) (dt_token_id t) = Some mc"
    using issue_child_memory_Ok [OF assms(2,3)] lim2(7) signed assms(3) by (metis bt.get_put)
  moreover have "token_dead (dt_token_id p) (dt_root_task_id p) lim2"
    using lim2(4) by (simp add: token_dead_def)
  ultimately show ?thesis
    using dead_token_refused [of p lim2 env None now] parts(5) by (simp add: consume_call_def)
qed

subsection \<open>Witnesses\<close>

definition sample_delegation_env :: "string \<Rightarrow> (unit, unit) delegation_env" where
  "sample_delegation_env i = \<lparr>dn_signer = mirror_signer, dn_jcs = \<lambda>t. Some (dt_token_id t), dn_new_id = i,
     dn_now = 10\<rparr>"

definition sample_parent_lease :: authorization_lease where
  "sample_parent_lease = \<lparr>al_schema_version = ''v1'', al_lease_id = ''lease'', al_task_id = ''task'',
     al_goal_hash = [], al_plan_hash = [], al_policy_snapshot = ''policy'', al_allowed_tools = {},
     al_allowed_resources = {''db''}, al_revocation_epoch = 0, al_valid_until = 500\<rparr>"

definition sample_envelope :: delegation_envelope where
  "sample_envelope = \<lparr>de_schema_version = ''v1'', de_parent_agent = ''lead'', de_child_agent = ''helper'',
     de_delegated_tools = {}, de_delegated_resources = {''db''}, de_budget_ceiling_microunits = 9,
     de_expiry = 400\<rparr>"

definition sample_limiter :: "(unit, unit) limiter" where
  "sample_limiter = \<lparr>dl_issuer = ''i'', dl_key_id = ''k'', dl_signing_key = (),
     dl_state = delegation_state_default, dl_durable = ()\<rparr>"

definition sample_root_result :: "(a2a_error + delegation_token) \<times> (unit, unit) limiter" where
  "sample_root_result = issue_root (sample_delegation_env ''root'') None ''acme'' ''task'' ''step''
     sample_envelope sample_parent_lease 3 5 sample_limiter"

definition sample_root_token :: delegation_token where
  "sample_root_token = \<lparr>dt_schema_version = A2A_SCHEMA_VERSION, dt_token_id = ''root'',
     dt_tenant_id = ''acme'', dt_root_task_id = ''task'', dt_parent_task_id = ''task'',
     dt_parent_step_id = ''step'', dt_envelope = sample_envelope, dt_depth = 1, dt_maximum_depth = 3,
     dt_remaining_calls = 5, dt_parent_token_id = None, dt_revocation_epoch = 0, dt_issuer = ''i'',
     dt_key_id = ''k'', dt_signature = ''root''\<rparr>"

definition sample_child_token :: delegation_token where
  "sample_child_token = sample_root_token\<lparr>dt_token_id := ''child'', dt_parent_token_id := Some ''root'',
     dt_envelope := sample_envelope\<lparr>de_parent_agent := ''helper'', de_child_agent := ''sub'',
       de_budget_ceiling_microunits := 4, de_expiry := 300\<rparr>,
     dt_depth := 2, dt_remaining_calls := 2, dt_signature := ''child''\<rparr>"

definition sample_child_result :: "(a2a_error + delegation_token) \<times> (unit, unit) limiter" where
  "sample_child_result = issue_child (sample_delegation_env ''child'') None sample_root_token ''sub'' {}
     {''db''} 4 300 2 (snd sample_root_result)"

lemmas sample_delegation_defs = sample_delegation_env_def sample_parent_lease_def sample_envelope_def
  sample_limiter_def sample_root_token_def sample_child_token_def sample_root_result_def
  sample_child_result_def mirror_signer_def issue_root_def issue_child_def is_within_def sign_token_def
  st_bind_def st_lift_def token_bytes_def set_remaining_def epoch_of_def delegation_state_default_def
  limiter_verify_def signature_check_def reserve_calls_def bt_get_def bt_empty_def

lemma sample_root_issued: "fst sample_root_result = Ok sample_root_token"
  by (simp add: sample_delegation_defs)

lemma sample_child_issued: "fst sample_child_result = Ok sample_child_token"
  by (simp add: sample_delegation_defs word_le_nat_alt)

lemma sample_results:
  "issue_root (sample_delegation_env ''root'') None ''acme'' ''task'' ''step'' sample_envelope
     sample_parent_lease 3 5 sample_limiter = (Ok sample_root_token, snd sample_root_result)"
  "issue_child (sample_delegation_env ''child'') None sample_root_token ''sub'' {} {''db''} 4 300 2
     (snd sample_root_result) = (Ok sample_child_token, snd sample_child_result)"
  using sample_root_issued sample_child_issued
  by (simp_all add: sample_root_result_def sample_child_result_def prod_eq_iff)

lemma sample_env_signer [simp]: "dn_signer (sample_delegation_env i) = mirror_signer"
  "dn_new_id (sample_delegation_env i) = i"
  by (simp_all add: sample_delegation_env_def)

theorem delegation_narrows_witness:
  "sorted_wrt narrower [sample_child_token, sample_root_token]
   \<and> length [sample_child_token, sample_root_token] \<le> unat (dt_maximum_depth sample_root_token)"
proof -
  have "delegation_chain mirror_signer (None :: unit delegation_store option) sample_parent_lease [sample_root_token]"
    by (rule delegation_chain.chain_root [OF _ sample_results(1)]) simp
  then have "delegation_chain mirror_signer (None :: unit delegation_store option) sample_parent_lease
      [sample_child_token, sample_root_token]"
    by (rule delegation_chain.chain_child [OF _ _ sample_results(2)]) simp
  from delegation_narrows [OF this] show ?thesis by simp
qed

definition sample_run_start :: "unit call_run" where
  "sample_run_start = \<lparr>cr_limiter = sample_limiter, cr_root_of = (\<lambda>_. None), cr_granted = (\<lambda>_. None),
     cr_calls = []\<rparr>"

definition sample_run_root :: "unit call_run" where
  "sample_run_root = sample_run_start\<lparr>cr_limiter := snd sample_root_result,
     cr_root_of := [''root'' \<mapsto> ''root''], cr_granted := [''root'' \<mapsto> 5]\<rparr>"

lemma sample_run_reach: "reach call_init (call_step mirror_signer) sample_run_root"
proof -
  have "call_init sample_run_start"
    by (auto simp: call_init_def sample_run_start_def limiter_new_def sample_limiter_def)
  moreover have "call_step mirror_signer sample_run_start (sample_run_start\<lparr>cr_limiter := snd sample_root_result,
      cr_root_of := (cr_root_of sample_run_start)(dt_token_id sample_root_token \<mapsto> dt_token_id sample_root_token),
      cr_granted := (cr_granted sample_run_start)(dt_token_id sample_root_token \<mapsto> unat (5 :: u32))\<rparr>)"
    using sample_results(1)
    by (intro call_step.root_issued [of "sample_delegation_env ''root''"])
      (simp_all add: sample_run_start_def sample_limiter_def delegation_state_default_def)
  ultimately show ?thesis
    by (auto simp: sample_run_root_def sample_run_start_def sample_root_token_def
        intro: reach.reach_init reach.reach_step)
qed

theorem delegated_calls_conserved_witness:
  "calls_made sample_run_root ''root'' + calls_left sample_run_root ''root'' = 5"
  by (rule delegated_calls_conserved [OF sample_run_reach]) (simp add: sample_run_root_def)

theorem revocation_is_final_witness:
  "\<not> is_ok (fst (limiter_verify (sample_delegation_env ''x'') None sample_root_token 20
      (snd (revoke_token None ''acme'' ''root'' (snd sample_root_result)))))"
proof -
  have "revoke_token None ''acme'' (dt_token_id sample_root_token) (snd sample_root_result)
      = (Ok (), snd (revoke_token None ''acme'' ''root'' (snd sample_root_result)))"
    by (simp add: revoke_token_def st_bind_def st_lift_def sample_root_token_def)
  from revocation_is_final [where sg = mirror_signer, OF disjI1 [OF this] rtranclp.rtrancl_refl]
  show ?thesis by blast
qed

theorem revoking_parent_spares_children_witness:
  "limiter_verify (sample_delegation_env ''child'') None sample_child_token 20
     (snd (revoke_token None ''acme'' ''root'' (snd sample_child_result)))
   = (Ok (), snd (revoke_token None ''acme'' ''root'' (snd sample_child_result)))"
proof -
  have "revoke_token None ''acme'' (dt_token_id sample_root_token) (snd sample_child_result)
      = (Ok (), snd (revoke_token None ''acme'' ''root'' (snd sample_child_result)))"
    by (simp add: revoke_token_def st_bind_def st_lift_def sample_root_token_def)
  moreover have "''child'' \<notin> dst_revoked_tokens (dl_state (snd sample_root_result))"
    by (simp add: sample_delegation_defs)
  ultimately show ?thesis
    using revoking_parent_spares_children [OF _ sample_results(2), of 20 "''acme''"]
    by (simp add: mirror_signer_correct sample_root_token_def)
qed

end
