(* ===== verification/Agui.thy ===== *)
theory Agui
  imports A2a_Base
begin

text \<open>
  The AG-UI event stream (\<open>a2a-agui-adapter/src/lib.rs\<close>, \<open>AgUiStreamAdapter\<close>): publication of
  signed, numbered events per task, resume tokens and replay, safe snapshots. \<open>agui_config\<close> holds
  the third-party code: Ed25519, canonical JSON, UUID parsing, base64, JSON parsing, RFC 3339. The
  adapter keeps the events in memory, or leaves them to a durable store over a state of its own
  (\<open>agui_store\<close>); its map of streams is behind one lock.
\<close>

subsection \<open>Payloads\<close>

definition forbidden_keys :: "string list" where
  "forbidden_keys = [''authorization'', ''bearer'', ''credential'', ''cookie'', ''password'',
     ''private_key'', ''secret'', ''api_key'', ''access_token'', ''refresh_token'', ''session_token'']"

definition payload_key_ok :: "string \<Rightarrow> bool" where
  "payload_key_ok key \<longleftrightarrow> length key \<le> 128 \<and> to_ascii_lowercase key \<notin> set forbidden_keys"

fun is_object :: "json \<Rightarrow> bool" where
  "is_object (JObject _) = True"
| "is_object _ = False"

function safe_payload_allowed :: "json \<Rightarrow> nat \<Rightarrow> bool" where
  "safe_payload_allowed v depth =
     (if depth > 16 \<or> depth = 0 \<and> \<not> is_object v then False
      else case v of
             JObject m \<Rightarrow> list_all (\<lambda>(key, w). payload_key_ok key \<and> safe_payload_allowed w (depth + 1)) m
           | JArray vs \<Rightarrow> length vs \<le> 1024 \<and> list_all (\<lambda>w. safe_payload_allowed w (depth + 1)) vs
           | JString s \<Rightarrow> length s \<le> 16 * 1024
           | _ \<Rightarrow> True)"
  by pat_completeness auto

termination safe_payload_allowed
  by (relation "measure (\<lambda>(v, depth). 17 - depth)") auto

declare safe_payload_allowed.simps [simp del]

subsection \<open>Events, tokens, configuration\<close>

datatype agui_kind = PlanUpdated | ToolRequested | ApprovalRequired | ApprovalRecorded
  | ExecutionStatus | ArtifactAvailable | EvaluationUpdated | Incident

record agui_event =
  ae_schema_version :: string
  ae_event_id :: string
  ae_tenant_id :: string
  ae_task_id :: string
  ae_sequence :: u64
  ae_kind :: agui_kind
  ae_trace_id :: string
  ae_safe_payload :: json
  ae_occurred_at :: datetime
  ae_backend_signature :: string

record resume_token =
  rs_schema_version :: string
  rs_tenant_id :: string
  rs_task_id :: string
  rs_after_sequence :: u64
  rs_expires_at :: datetime
  rs_signature :: string

record agui_snapshot =
  sn_schema_version :: string
  sn_tenant_id :: string
  sn_task_id :: string
  sn_sequence :: u64
  sn_safe_state :: json
  sn_next_resume_token :: string
  sn_generated_at :: datetime
  sn_backend_signature :: string

record ('sk, 'vk) agui_config =
  ag_signer :: "('sk, 'vk) signer"
  ag_jcs_value :: "json \<Rightarrow> string option"
  ag_jcs_event :: "agui_event \<Rightarrow> string option"
  ag_jcs_resume :: "resume_token \<Rightarrow> string option"
  ag_jcs_snapshot :: "agui_snapshot \<Rightarrow> string option"
  ag_resume_from_slice :: "string \<Rightarrow> resume_token option"
  ag_base64_encode :: "string \<Rightarrow> string"
  ag_base64_decode :: "string \<Rightarrow> string option"
  ag_uuid_ok :: "string \<Rightarrow> bool"
  ag_to_rfc3339 :: "datetime \<Rightarrow> string"
  ag_rfc3339_ok :: "string \<Rightarrow> bool"

record 'd agui_store =
  ags_reserve_sequence :: "string \<Rightarrow> string \<Rightarrow> u64 \<Rightarrow> 'd \<Rightarrow> (a2a_error + u64) \<times> 'd"
  ags_append :: "agui_event \<Rightarrow> 'd \<Rightarrow> (a2a_error + unit) \<times> 'd"
  ags_after :: "string \<Rightarrow> string \<Rightarrow> u64 \<Rightarrow> u64 \<Rightarrow> 'd \<Rightarrow> a2a_error + agui_event list"
  ags_latest :: "string \<Rightarrow> string \<Rightarrow> 'd \<Rightarrow> a2a_error + agui_event option"

record ('sk, 'd) agui_stream =
  as_key :: 'sk
  as_maximum_events_per_task :: u64
  as_events :: "(string \<times> string, agui_event list) btree"
  as_durable :: 'd

definition agui_new :: "'sk \<Rightarrow> u64 \<Rightarrow> 'd \<Rightarrow> a2a_error + ('sk, 'd) agui_stream" where
  "agui_new key maximum d =
     (if maximum = 0 then Err AConfigurationInvalid
      else Ok \<lparr>as_key = key, as_maximum_events_per_task = maximum, as_events = bt_empty,
               as_durable = d\<rparr>)"

definition event_bytes :: "(agui_event \<Rightarrow> string option) \<Rightarrow> agui_event \<Rightarrow> a2a_error + string" where
  "event_bytes jcs e =
     (case jcs (e\<lparr>ae_backend_signature := []\<rparr>) of None \<Rightarrow> Err AEventInvalid | Some b \<Rightarrow> Ok b)"

definition resume_bytes :: "(resume_token \<Rightarrow> string option) \<Rightarrow> resume_token \<Rightarrow> a2a_error + string" where
  "resume_bytes jcs t =
     (case jcs (t\<lparr>rs_signature := []\<rparr>) of None \<Rightarrow> Err AEventInvalid | Some b \<Rightarrow> Ok b)"

definition snapshot_bytes :: "(agui_snapshot \<Rightarrow> string option) \<Rightarrow> agui_snapshot \<Rightarrow> a2a_error + string" where
  "snapshot_bytes jcs s =
     (case jcs (s\<lparr>sn_backend_signature := []\<rparr>) of None \<Rightarrow> Err AEventInvalid | Some b \<Rightarrow> Ok b)"

text \<open>A signature text against the bytes it should sign: every failure is \<open>EventInvalid\<close>.\<close>

definition check_signature ::
  "('sk, 'vk) agui_config \<Rightarrow> 'sk \<Rightarrow> string \<Rightarrow> a2a_error + string \<Rightarrow> a2a_error + unit" where
  "check_signature cfg key signature bytes =
     (if \<not> sg_decodes (ag_signer cfg) signature then Err AEventInvalid
      else res_bind bytes (\<lambda>b.
        if sg_verify (ag_signer cfg) (sg_public (ag_signer cfg) key) b signature then Ok ()
        else Err AEventInvalid))"

subsection \<open>Publication\<close>

definition publish_backend ::
  "('sk, 'vk) agui_config \<Rightarrow> 'd agui_store option \<Rightarrow> string \<Rightarrow> datetime \<Rightarrow> string \<Rightarrow> string
   \<Rightarrow> agui_kind \<Rightarrow> string \<Rightarrow> json \<Rightarrow> ('sk, 'd) agui_stream
   \<Rightarrow> (a2a_error + agui_event) \<times> ('sk, 'd) agui_stream" where
  "publish_backend cfg store new_id now tenant task kind trace_id payload ad =
     (if trace_id = [] \<or> length trace_id > 256 \<or> \<not> safe_payload_allowed payload 0
         \<or> (case ag_jcs_value cfg payload of None \<Rightarrow> True | Some b \<Rightarrow> length b > 64 * 1024)
      then (Err AEventInvalid, ad)
      else
        (let stream = (case bt_get (as_events ad) (tenant, task) of None \<Rightarrow> [] | Some es \<Rightarrow> es);
             ad = ad\<lparr>as_events := bt_insert (tenant, task) stream (as_events ad)\<rparr>
         in st_bind
              (\<lambda>ad. case store of
                 Some st \<Rightarrow>
                   (case ags_reserve_sequence st tenant task (as_maximum_events_per_task ad) (as_durable ad) of
                      (r, d) \<Rightarrow> (r, ad\<lparr>as_durable := d\<rparr>))
               | None \<Rightarrow>
                   (if length stream \<ge> unat (as_maximum_events_per_task ad) then Err ACapacityExceeded
                    else Ok (word_of_nat (length stream) + 1), ad))
              (\<lambda>sequence ad.
                 let e = \<lparr>ae_schema_version = A2A_SCHEMA_VERSION, ae_event_id = new_id,
                          ae_tenant_id = tenant, ae_task_id = task, ae_sequence = sequence,
                          ae_kind = kind, ae_trace_id = trace_id, ae_safe_payload = payload,
                          ae_occurred_at = now, ae_backend_signature = []\<rparr>
                 in st_bind (st_lift (event_bytes (ag_jcs_event cfg) e)) (\<lambda>b ad.
                      let e = e\<lparr>ae_backend_signature := sg_sign (ag_signer cfg) (as_key ad) b\<rparr>
                      in st_bind
                           (\<lambda>ad. case store of
                              None \<Rightarrow> (Ok (), ad)
                            | Some st \<Rightarrow> (case ags_append st e (as_durable ad) of
                                            (r, d) \<Rightarrow> (r, ad\<lparr>as_durable := d\<rparr>)))
                           (\<lambda>_ ad. (Ok e, ad\<lparr>as_events :=
                              bt_insert (tenant, task) (stream @ [e]) (as_events ad)\<rparr>))
                           ad)
                      ad)
              ad))"

subsection \<open>Replay\<close>

definition make_resume_token ::
  "('sk, 'vk) agui_config \<Rightarrow> datetime \<Rightarrow> string \<Rightarrow> string \<Rightarrow> u64 \<Rightarrow> datetime \<Rightarrow> ('sk, 'd) agui_stream
   \<Rightarrow> a2a_error + resume_token" where
  "make_resume_token cfg now tenant task after_sequence expires_at ad =
     (if expires_at \<le> now \<or> expires_at > now + chrono_hours 24 then Err AEventInvalid
      else
        (let t = \<lparr>rs_schema_version = A2A_SCHEMA_VERSION, rs_tenant_id = tenant, rs_task_id = task,
                  rs_after_sequence = after_sequence, rs_expires_at = expires_at, rs_signature = []\<rparr>
         in res_bind (resume_bytes (ag_jcs_resume cfg) t) (\<lambda>b.
              Ok (t\<lparr>rs_signature := sg_sign (ag_signer cfg) (as_key ad) b\<rparr>))))"

definition verify_event ::
  "('sk, 'vk) agui_config \<Rightarrow> datetime \<Rightarrow> 'sk \<Rightarrow> agui_event \<Rightarrow> a2a_error + unit" where
  "verify_event cfg now key e =
     (if ae_schema_version e \<noteq> A2A_SCHEMA_VERSION \<or> ae_sequence e = 0 \<or> ae_event_id e = []
         \<or> \<not> ag_uuid_ok cfg (ae_event_id e) \<or> ae_trace_id e = [] \<or> length (ae_trace_id e) > 256
         \<or> \<not> safe_payload_allowed (ae_safe_payload e) 0
         \<or> ae_occurred_at e > now + chrono_minutes 5
      then Err AEventInvalid
      else check_signature cfg key (ae_backend_signature e) (event_bytes (ag_jcs_event cfg) e))"

fun check_replay ::
  "('sk, 'vk) agui_config \<Rightarrow> datetime \<Rightarrow> 'sk \<Rightarrow> resume_token \<Rightarrow> u64 \<Rightarrow> agui_event list \<Rightarrow> a2a_error + unit" where
  "check_replay cfg now key t prior [] = Ok ()"
| "check_replay cfg now key t prior (e # es) =
     res_bind (verify_event cfg now key e) (\<lambda>_.
       if ae_tenant_id e \<noteq> rs_tenant_id t \<or> ae_task_id e \<noteq> rs_task_id t \<or> ae_sequence e \<le> prior
       then Err AEventInvalid
       else check_replay cfg now key t (ae_sequence e) es)"

definition resume ::
  "('sk, 'vk) agui_config \<Rightarrow> 'd agui_store option \<Rightarrow> datetime \<Rightarrow> resume_token \<Rightarrow> datetime
   \<Rightarrow> ('sk, 'd) agui_stream \<Rightarrow> a2a_error + agui_event list" where
  "resume cfg store clock t now ad =
     (if rs_schema_version t \<noteq> A2A_SCHEMA_VERSION \<or> now \<ge> rs_expires_at t then Err AResumeExpired
      else
        res_bind (check_signature cfg (as_key ad) (rs_signature t) (resume_bytes (ag_jcs_resume cfg) t)) (\<lambda>_.
        res_bind
          (case store of
             Some st \<Rightarrow> ags_after st (rs_tenant_id t) (rs_task_id t) (rs_after_sequence t)
                          (as_maximum_events_per_task ad) (as_durable ad)
           | None \<Rightarrow>
               Ok (case bt_get (as_events ad) (rs_tenant_id t, rs_task_id t) of
                     None \<Rightarrow> []
                   | Some es \<Rightarrow> filter (\<lambda>e. ae_sequence e > rs_after_sequence t) es)) (\<lambda>events.
        if length events > unat (as_maximum_events_per_task ad) then Err ACapacityExceeded
        else res_bind (check_replay cfg clock (as_key ad) t (rs_after_sequence t) events)
               (\<lambda>_. Ok events))))"

subsection \<open>Safe snapshots\<close>

definition status_text_ok :: "string \<Rightarrow> bool" where
  "status_text_ok status \<longleftrightarrow> status \<noteq> [] \<and> length status \<le> 64
     \<and> list_all (\<lambda>b. is_ascii_uppercase b \<or> is_ascii_digit b \<or> b = CHR ''_'') status"

definition safe_state_of ::
  "('sk, 'vk) agui_config \<Rightarrow> string \<Rightarrow> string option \<Rightarrow> agui_event option \<Rightarrow> json" where
  "safe_state_of cfg status evidence_digest latest =
     JObject ((case evidence_digest of None \<Rightarrow> [] | Some d \<Rightarrow> [(''evidence_digest'', JString d)])
       @ (case latest of None \<Rightarrow> []
            | Some e \<Rightarrow> [(''occurred_at'', JString (ag_to_rfc3339 cfg (ae_occurred_at e)))])
       @ [(''status'', JString status)])"

definition safe_snapshot ::
  "('sk, 'vk) agui_config \<Rightarrow> 'd agui_store option \<Rightarrow> datetime \<Rightarrow> string \<Rightarrow> string \<Rightarrow> string
   \<Rightarrow> string option \<Rightarrow> datetime \<Rightarrow> ('sk, 'd) agui_stream \<Rightarrow> a2a_error + agui_snapshot" where
  "safe_snapshot cfg store now tenant task status evidence_digest token_expires_at ad =
     (if \<not> status_text_ok status
         \<or> (case evidence_digest of None \<Rightarrow> False | Some d \<Rightarrow> \<not> valid_digest d)
         \<or> token_expires_at \<le> now \<or> token_expires_at > now + chrono_hours 24
      then Err AEventInvalid
      else
        res_bind
          (case store of
             Some st \<Rightarrow> ags_latest st tenant task (as_durable ad)
           | None \<Rightarrow>
               Ok (case bt_get (as_events ad) (tenant, task) of
                     None \<Rightarrow> None | Some es \<Rightarrow> if es = [] then None else Some (last es))) (\<lambda>latest.
        res_bind
          (case latest of None \<Rightarrow> Ok () | Some e \<Rightarrow> verify_event cfg now (as_key ad) e) (\<lambda>_.
        let sequence = (case latest of None \<Rightarrow> 0 | Some e \<Rightarrow> ae_sequence e) in
        res_bind (make_resume_token cfg now tenant task sequence token_expires_at ad) (\<lambda>token.
        res_bind
          (case ag_jcs_resume cfg token of None \<Rightarrow> Err AEventInvalid | Some b \<Rightarrow> Ok b) (\<lambda>token_bytes.
        let snapshot = \<lparr>sn_schema_version = AGUI_SNAPSHOT_SCHEMA_VERSION, sn_tenant_id = tenant,
              sn_task_id = task, sn_sequence = sequence,
              sn_safe_state = safe_state_of cfg status evidence_digest latest,
              sn_next_resume_token = ag_base64_encode cfg token_bytes, sn_generated_at = now,
              sn_backend_signature = []\<rparr>
        in res_bind (snapshot_bytes (ag_jcs_snapshot cfg) snapshot) (\<lambda>b.
             Ok (snapshot\<lparr>sn_backend_signature := sg_sign (ag_signer cfg) (as_key ad) b\<rparr>)))))))"

definition json_field :: "(string \<times> json) list \<Rightarrow> string \<Rightarrow> json option" where
  "json_field m k = map_of m k"

fun as_str :: "json \<Rightarrow> string option" where
  "as_str (JString s) = Some s"
| "as_str _ = None"

definition safe_snapshot_state :: "('sk, 'vk) agui_config \<Rightarrow> json \<Rightarrow> bool" where
  "safe_snapshot_state cfg v =
     (case v of
        JObject m \<Rightarrow>
          m \<noteq> [] \<and> list_all (\<lambda>(k, _). k \<in> {''status'', ''evidence_digest'', ''occurred_at''}) m
          \<and> (case Option.bind (json_field m ''status'') as_str of
               None \<Rightarrow> False | Some status \<Rightarrow> status_text_ok status)
          \<and> (case json_field m ''evidence_digest'' of
               None \<Rightarrow> True
             | Some w \<Rightarrow> (case as_str w of None \<Rightarrow> False | Some d \<Rightarrow> valid_digest d))
          \<and> (case json_field m ''occurred_at'' of
               None \<Rightarrow> True
             | Some w \<Rightarrow> (case as_str w of None \<Rightarrow> False | Some t \<Rightarrow> ag_rfc3339_ok cfg t))
      | _ \<Rightarrow> False)"

definition verify_snapshot ::
  "('sk, 'vk) agui_config \<Rightarrow> datetime \<Rightarrow> 'sk \<Rightarrow> agui_snapshot \<Rightarrow> a2a_error + unit" where
  "verify_snapshot cfg now key sn =
     (if sn_schema_version sn \<noteq> AGUI_SNAPSHOT_SCHEMA_VERSION
         \<or> sn_generated_at sn > now + chrono_minutes 5 \<or> \<not> safe_snapshot_state cfg (sn_safe_state sn)
      then Err AEventInvalid
      else
        res_bind (check_signature cfg key (sn_backend_signature sn)
                    (snapshot_bytes (ag_jcs_snapshot cfg) sn)) (\<lambda>_.
        case Option.bind (ag_base64_decode cfg (sn_next_resume_token sn)) (ag_resume_from_slice cfg) of
          None \<Rightarrow> Err AEventInvalid
        | Some t \<Rightarrow>
            if \<not> sg_decodes (ag_signer cfg) (rs_signature t)
               \<or> rs_schema_version t \<noteq> A2A_SCHEMA_VERSION \<or> rs_tenant_id t \<noteq> sn_tenant_id sn
               \<or> rs_task_id t \<noteq> sn_task_id sn \<or> rs_after_sequence t \<noteq> sn_sequence sn
               \<or> rs_expires_at t \<le> sn_generated_at sn
            then Err AEventInvalid
            else check_signature cfg key (rs_signature t) (resume_bytes (ag_jcs_resume cfg) t)))"

definition accept_ui_event :: "agui_kind \<Rightarrow> a2a_error + unit" where
  "accept_ui_event kind = (if kind = ApprovalRecorded then Err AUiCannotAuthorize else Ok ())"

end
