(* ===== verification/Agui_Safety.thy ===== *)
theory Agui_Safety
  imports Agui
begin

text \<open>
  What the event stream guarantees: the payload filter is equivalent to a description without
  recursion on depth, replay returns the events after the position in order, and a snapshot carries
  a resume position that verifies.
\<close>

subsection \<open>The payload filter\<close>

text \<open>What occurs anywhere inside a value, and how deep it is.\<close>

fun json_keys :: "json \<Rightarrow> string list" where
  "json_keys (JObject m) = concat (map (\<lambda>(k, v). k # json_keys v) m)"
| "json_keys (JArray vs) = concat (map json_keys vs)"
| "json_keys _ = []"

fun json_strings :: "json \<Rightarrow> string list" where
  "json_strings (JObject m) = concat (map (\<lambda>(k, v). json_strings v) m)"
| "json_strings (JArray vs) = concat (map json_strings vs)"
| "json_strings (JString s) = [s]"
| "json_strings _ = []"

fun json_arrays :: "json \<Rightarrow> nat list" where
  "json_arrays (JObject m) = concat (map (\<lambda>(k, v). json_arrays v) m)"
| "json_arrays (JArray vs) = length vs # concat (map json_arrays vs)"
| "json_arrays _ = []"

fun json_depth :: "json \<Rightarrow> nat" where
  "json_depth (JObject m) = foldr max (map (\<lambda>(k, v). Suc (json_depth v)) m) 0"
| "json_depth (JArray vs) = foldr max (map (\<lambda>v. Suc (json_depth v)) vs) 0"
| "json_depth _ = 0"

lemma add_foldr_max_le_iff:
  "d + foldr max xs 0 \<le> (n :: nat) \<longleftrightarrow> d \<le> n \<and> (\<forall>x \<in> set xs. d + x \<le> n)"
  by (induction xs) (auto simp: max_def)

definition payload_safe :: "nat \<Rightarrow> json \<Rightarrow> bool" where
  "payload_safe d v \<longleftrightarrow> d + json_depth v \<le> 16 \<and> (\<forall>k \<in> set (json_keys v). payload_key_ok k)
     \<and> (\<forall>s \<in> set (json_strings v). length s \<le> 16384) \<and> (\<forall>n \<in> set (json_arrays v). n \<le> 1024)"

lemma payload_safe_simps:
  "payload_safe d (JObject m) \<longleftrightarrow> d \<le> 16
     \<and> (\<forall>(k, v) \<in> set m. payload_key_ok k \<and> payload_safe (Suc d) v)"
  "payload_safe d (JArray vs) \<longleftrightarrow> d \<le> 16 \<and> length vs \<le> 1024 \<and> (\<forall>v \<in> set vs. payload_safe (Suc d) v)"
  "payload_safe d (JString s) \<longleftrightarrow> d \<le> 16 \<and> length s \<le> 16384"
  "payload_safe d (JNumber s) \<longleftrightarrow> d \<le> 16" "payload_safe d (JBool b) \<longleftrightarrow> d \<le> 16" "payload_safe d JNull \<longleftrightarrow> d \<le> 16"
  by (fastforce simp: payload_safe_def add_foldr_max_le_iff)+

lemma safe_payload_leaves:
  "safe_payload_allowed (JString s) d \<longleftrightarrow> 0 < d \<and> d \<le> 16 \<and> length s \<le> 16384"
  "safe_payload_allowed (JNumber t) d \<longleftrightarrow> 0 < d \<and> d \<le> 16"
  "safe_payload_allowed (JBool b) d \<longleftrightarrow> 0 < d \<and> d \<le> 16"
  "safe_payload_allowed JNull d \<longleftrightarrow> 0 < d \<and> d \<le> 16"
  by (auto simp: safe_payload_allowed.simps [of "JString s"] safe_payload_allowed.simps [of "JNumber t"]
      safe_payload_allowed.simps [of "JBool b"] safe_payload_allowed.simps [of JNull])

lemma safe_payload_iff:
  "safe_payload_allowed v d \<longleftrightarrow> (d = 0 \<longrightarrow> is_object v) \<and> payload_safe d v"
proof (induction v d rule: safe_payload_allowed.induct)
  case (1 v depth)
  show ?case
  proof (cases v)
    case (JObject m)
    have "safe_payload_allowed w (depth + 1) \<longleftrightarrow> payload_safe (Suc depth) w"
      if "depth \<le> 16" "(k, w) \<in> set m" for k w
      using 1(2) [OF _ JObject that(2) refl] that JObject by simp
    then show ?thesis
      using JObject
      by (subst safe_payload_allowed.simps) (auto simp: payload_safe_simps list_all_iff)
  next
    case (JArray vs)
    have "safe_payload_allowed w (depth + 1) \<longleftrightarrow> payload_safe (Suc depth) w"
      if "\<not> (depth > 16 \<or> depth = 0 \<and> \<not> is_object v)" "length vs \<le> 1024" "w \<in> set vs" for w
      using 1(1) [OF that(1) JArray that(3)] by simp
    then show ?thesis
      using JArray
      by (subst safe_payload_allowed.simps) (auto simp: payload_safe_simps list_all_iff)
  qed (auto simp: payload_safe_simps safe_payload_leaves)
qed

text \<open>
  The recursive payload filter, which counts the depth as it descends, accepts exactly the
  objects in which no key anywhere is a credential name (in any letter case) or longer than 128
  bytes, no string is longer than 16 KiB, no array has more than 1024 elements, and nothing is
  nested deeper than 16 levels.
\<close>

theorem safe_payload_spec:
  "safe_payload_allowed v 0 = (is_object v \<and> json_depth v \<le> 16
     \<and> (\<forall>k \<in> set (json_keys v). length k \<le> 128 \<and> to_ascii_lowercase k \<notin> set forbidden_keys)
     \<and> (\<forall>s \<in> set (json_strings v). length s \<le> 16 * 1024)
     \<and> (\<forall>n \<in> set (json_arrays v). n \<le> 1024))"
  by (simp add: safe_payload_iff payload_safe_def payload_key_ok_def)

theorem safe_payload_spec_witness:
  "\<not> safe_payload_allowed (JObject [(''a'', JArray [JObject [(''Password'', JNull)]])]) 0
   \<and> safe_payload_allowed (JObject [(''a'', JArray [JObject [(''user'', JNull)]])]) 0"
  by (simp add: safe_payload_spec forbidden_keys_def to_ascii_lowercase_def to_ascii_lower_def byte_defs)
    code_simp

subsection \<open>Streams in memory\<close>

definition stream_of :: "('sk, 'd) agui_stream \<Rightarrow> string \<times> string \<Rightarrow> agui_event list" where
  "stream_of ad k = (case bt_get (as_events ad) k of None \<Rightarrow> [] | Some es \<Rightarrow> es)"

definition event_ok ::
  "('sk, 'vk) agui_config \<Rightarrow> datetime \<Rightarrow> 'sk \<Rightarrow> string \<times> string \<Rightarrow> nat \<Rightarrow> agui_event \<Rightarrow> bool" where
  "event_ok cfg horizon key k n e \<longleftrightarrow> unat (ae_sequence e) = n \<and> (ae_tenant_id e, ae_task_id e) = k
     \<and> (\<forall>now. horizon \<le> now + chrono_minutes 5 \<longrightarrow> verify_event cfg now key e = Ok ())"

definition streams_ok :: "('sk, 'vk) agui_config \<Rightarrow> datetime \<Rightarrow> ('sk, 'd) agui_stream \<Rightarrow> bool" where
  "streams_ok cfg horizon ad \<longleftrightarrow>
     (\<forall>k. length (stream_of ad k) \<le> unat (as_maximum_events_per_task ad)
        \<and> (\<forall>i < length (stream_of ad k).
              event_ok cfg horizon (as_key ad) k (Suc i) (stream_of ad k ! i)))"

text \<open>Publications up to an instant, with identifiers that are UUIDs.\<close>

inductive agui_step ::
  "('sk, 'vk) agui_config \<Rightarrow> datetime \<Rightarrow> ('sk, 'd) agui_stream \<Rightarrow> ('sk, 'd) agui_stream \<Rightarrow> bool"
  for cfg horizon where
  published: "now \<le> horizon \<Longrightarrow> ag_uuid_ok cfg new_id \<Longrightarrow> new_id \<noteq> []
    \<Longrightarrow> agui_step cfg horizon ad
          (snd (publish_backend cfg None new_id now tenant task kind trace_id payload ad))"

lemma check_signature_signed:
  "signer_correct (ag_signer cfg) \<Longrightarrow>
   check_signature cfg key (sg_sign (ag_signer cfg) key b) (Ok b) = Ok ()"
  by (simp add: check_signature_def signer_correct_def)

lemma event_bytes_signature [simp]: "event_bytes jcs (e\<lparr>ae_backend_signature := g\<rparr>) = event_bytes jcs e"
  by (simp add: event_bytes_def)

lemma resume_bytes_signature [simp]: "resume_bytes jcs (t\<lparr>rs_signature := g\<rparr>) = resume_bytes jcs t"
  by (simp add: resume_bytes_def)

lemma snapshot_bytes_signature [simp]: "snapshot_bytes jcs (sn\<lparr>sn_backend_signature := g\<rparr>) = snapshot_bytes jcs sn"
  by (simp add: snapshot_bytes_def)

lemma published_Ok:
  assumes "publish_backend cfg None new_id now tenant task kind trace_id payload ad = (Ok e, ad')"
    and "signer_correct (ag_signer cfg)" and "ag_uuid_ok cfg new_id" and "new_id \<noteq> []" and "now \<le> horizon"
  shows "length (stream_of ad (tenant, task)) < unat (as_maximum_events_per_task ad)
    \<and> event_ok cfg horizon (as_key ad) (tenant, task) (Suc (length (stream_of ad (tenant, task)))) e
    \<and> ad' = ad\<lparr>as_events := bt_insert (tenant, task) (stream_of ad (tenant, task) @ [e])
          (bt_insert (tenant, task) (stream_of ad (tenant, task)) (as_events ad))\<rparr>
    \<and> ae_safe_payload e = payload \<and> safe_payload_allowed payload 0"
proof -
  let ?st = "stream_of ad (tenant, task)"
  have seq: "unat (word_of_nat (length ?st) + 1 :: u64) = Suc (length ?st)"
    if "length ?st < unat (as_maximum_events_per_task ad)"
    using that unat_bound [of "as_maximum_events_per_task ad"] by (simp add: unat_word_ariths unat_of_nat)
  then have pos: "word_of_nat (length ?st) + 1 \<noteq> (0 :: u64)"
    if "length ?st < unat (as_maximum_events_per_task ad)"
    using that by (metis nat.distinct(1) unat_0)
  show ?thesis
    using assms seq pos
    by (auto simp: publish_backend_def Let_def st_bind_Ok_iff st_lift_def stream_of_def event_ok_def
        verify_event_def check_signature_signed not_le event_bytes_def split: if_splits option.splits)
qed

lemma published_Err:
  assumes "publish_backend cfg None new_id now tenant task kind trace_id payload ad = (Err e, ad')"
  shows "ad' = ad \<or> ad' = ad\<lparr>as_events := bt_insert (tenant, task) (stream_of ad (tenant, task)) (as_events ad)\<rparr>"
  using assms
  by (auto simp: publish_backend_def Let_def st_bind_def st_lift_def stream_of_def
      split: if_splits option.splits sum.splits)

lemma stream_of_insert [simp]:
  "stream_of (ad\<lparr>as_events := bt_insert k es m\<rparr>) j = (if j = k then es else stream_of (ad\<lparr>as_events := m\<rparr>) j)"
  by (simp add: stream_of_def bt.get_put)

lemma stream_of_same [simp]: "stream_of (ad\<lparr>as_events := as_events ad\<rparr>) j = stream_of ad j"
  by (simp add: stream_of_def)

lemma streams_ok_step:
  assumes "agui_step cfg horizon ad ad'" and "signer_correct (ag_signer cfg)" and "streams_ok cfg horizon ad"
  shows "streams_ok cfg horizon ad'"
  using assms(1)
proof cases
  case (published now new_id tenant task kind trace_id payload)
  let ?p = "publish_backend cfg None new_id now tenant task kind trace_id payload ad"
  show ?thesis
  proof (cases "fst ?p")
    case (Inl e)
    then have "?p = (Err e, ad')" using published(1) by (simp add: prod_eq_iff)
    from published_Err [OF this] assms(3) show ?thesis
      by (auto simp: streams_ok_def)
  next
    case (Inr e)
    then have "?p = (Ok e, ad')" using published(1) by (simp add: prod_eq_iff)
    from published_Ok [OF this assms(2) published(3,4,2)] assms(3) show ?thesis
      by (auto simp: streams_ok_def nth_append less_Suc_eq)
  qed
qed

lemma streams_ok_new: "agui_new key m d = Ok ad \<Longrightarrow> streams_ok cfg horizon ad"
  by (auto simp: agui_new_def streams_ok_def stream_of_def split: if_splits)

text \<open>The machine over the configurations whose signatures are sound.\<close>

inductive sound_agui_step ::
  "('sk, 'vk) agui_config \<Rightarrow> datetime \<Rightarrow> ('sk, 'd) agui_stream \<Rightarrow> ('sk, 'd) agui_stream \<Rightarrow> bool"
  for cfg horizon where
  "signer_correct (ag_signer cfg) \<Longrightarrow> agui_step cfg horizon ad ad' \<Longrightarrow> sound_agui_step cfg horizon ad ad'"

interpretation agui_machine: invariant_system "sound_agui_step cfg horizon" "streams_ok cfg horizon"
  "\<lambda>ad. \<exists>key m d. agui_new key m d = Ok ad" for cfg horizon
  by unfold_locales (auto elim!: sound_agui_step.cases intro: streams_ok_step streams_ok_new)

subsection \<open>Replay\<close>

lemma numbered_filter:
  assumes "\<forall>i < length es. unat (ae_sequence (es ! i)) = Suc i"
  shows "filter (\<lambda>e. ae_sequence e > k) es = drop (unat k) es"
  using assms
proof (induction es rule: rev_induct)
  case (snoc e es)
  have "unat (ae_sequence e) = Suc (length es)"
    using snoc.prems by (auto dest: spec [of _ "length es"])
  moreover have "\<forall>i < length es. unat (ae_sequence (es ! i)) = Suc i"
    using snoc.prems by (metis length_append_singleton less_SucI nth_append)
  ultimately show ?case
    using snoc.IH by (auto simp: word_less_nat_alt)
qed simp

lemma check_replay_ok:
  assumes "\<forall>i < length es. event_ok cfg horizon key (rs_tenant_id t, rs_task_id t) (n + Suc i) (es ! i)"
    and "unat prior \<le> n" and "horizon \<le> clock + chrono_minutes 5"
  shows "check_replay cfg clock key t prior es = Ok ()"
  using assms
proof (induction es arbitrary: n prior)
  case (Cons e es)
  have e: "event_ok cfg horizon key (rs_tenant_id t, rs_task_id t) (Suc n) e"
    using Cons.prems(1) by (auto dest: spec [of _ 0])
  have "\<forall>i < length es. event_ok cfg horizon key (rs_tenant_id t, rs_task_id t) (Suc n + Suc i) (es ! i)"
    using Cons.prems(1) by (metis Suc_less_eq add_Suc_shift length_Cons nth_Cons_Suc)
  from Cons.IH [OF this, of "ae_sequence e"] e Cons.prems(2,3) show ?case
    by (auto simp: event_ok_def word_le_nat_alt)
qed simp

text \<open>
  Replay is exact. In every state the stream can reach, a resume token it issued for a task at
  position \<open>k\<close> returns, until it expires, exactly the events of that task after the first \<open>k\<close>, in the
  order of their publication and each once; their numbers are consecutive, and every one of them
  passes its own verification.
\<close>

theorem resume_returns_the_rest:
  assumes "reach (\<lambda>ad. \<exists>key m d. agui_new key m d = Ok ad) (sound_agui_step cfg horizon) ad"
    and "signer_correct (ag_signer cfg)"
    and "make_resume_token cfg issued tenant task k expires ad = Ok t"
    and "now < expires" and "horizon \<le> clock + chrono_minutes 5"
  shows "resume cfg None clock t now ad = Ok (drop (unat k) (stream_of ad (tenant, task)))
    \<and> (\<forall>i < length (stream_of ad (tenant, task)).
         unat (ae_sequence (stream_of ad (tenant, task) ! i)) = Suc i
         \<and> verify_event cfg clock (as_key ad) (stream_of ad (tenant, task) ! i) = Ok ())"
proof -
  let ?es = "stream_of ad (tenant, task)"
  have ok: "length ?es \<le> unat (as_maximum_events_per_task ad)"
    "\<forall>i < length ?es. event_ok cfg horizon (as_key ad) (tenant, task) (Suc i) (?es ! i)"
    using agui_machine.reach_inv [OF assms(1)] by (auto simp: streams_ok_def)
  then have numbered: "\<forall>i < length ?es. unat (ae_sequence (?es ! i)) = Suc i
      \<and> verify_event cfg clock (as_key ad) (?es ! i) = Ok ()"
    using assms(5) by (auto simp: event_ok_def)
  have t: "rs_schema_version t = A2A_SCHEMA_VERSION" "rs_tenant_id t = tenant" "rs_task_id t = task"
    "rs_after_sequence t = k" "rs_expires_at t = expires"
    "check_signature cfg (as_key ad) (rs_signature t) (resume_bytes (ag_jcs_resume cfg) t) = Ok ()"
    using assms(3) check_signature_signed [OF assms(2)]
    by (auto simp: make_resume_token_def Let_def res_bind_Ok_iff resume_bytes_def
        split: if_splits option.splits)
  have filter: "(case bt_get (as_events ad) (tenant, task) of None \<Rightarrow> []
      | Some es \<Rightarrow> filter (\<lambda>e. ae_sequence e > k) es) = drop (unat k) ?es"
    using numbered_filter [of ?es k] numbered by (auto simp: stream_of_def split: option.split)
  have "\<forall>i < length (drop (unat k) ?es).
      event_ok cfg horizon (as_key ad) (rs_tenant_id t, rs_task_id t) (unat k + Suc i) (drop (unat k) ?es ! i)"
    using ok(2) t(2,3) by (auto simp: add.commute)
  then have "check_replay cfg clock (as_key ad) t k (drop (unat k) ?es) = Ok ()"
    using assms(5) by (intro check_replay_ok [of _ _ _ _ _ "unat k"]) auto
  then show ?thesis
    using t filter ok(1) assms(4) numbered by (auto simp: resume_def)
qed

subsection \<open>Snapshots\<close>

definition extends :: "'sk \<Rightarrow> string \<times> string \<Rightarrow> agui_event list \<Rightarrow> ('sk, 'd) agui_stream \<Rightarrow> bool" where
  "extends key k es ad \<longleftrightarrow> as_key ad = key \<and> take (length es) (stream_of ad k) = es"

lemma published_state_Ok:
  assumes "publish_backend cfg None new_id now tenant task kind trace_id payload ad = (Ok e, ad')"
  shows "ad' = ad\<lparr>as_events := bt_insert (tenant, task) (stream_of ad (tenant, task) @ [e])
          (bt_insert (tenant, task) (stream_of ad (tenant, task)) (as_events ad))\<rparr>"
  using assms
  by (auto simp: publish_backend_def Let_def st_bind_Ok_iff st_lift_def stream_of_def split: if_splits)

lemma extends_publish:
  assumes "extends key k es ad"
  shows "extends key k es (snd (publish_backend cfg None new_id now tenant task kind trace_id payload ad))"
proof -
  let ?p = "publish_backend cfg None new_id now tenant task kind trace_id payload ad"
  have "length es \<le> length (stream_of ad k)"
    using assms by (metis extends_def length_take min.cobounded1)
  moreover have "snd ?p = ad
      \<or> snd ?p = ad\<lparr>as_events := bt_insert (tenant, task) (stream_of ad (tenant, task)) (as_events ad)\<rparr>
      \<or> (\<exists>e. snd ?p = ad\<lparr>as_events := bt_insert (tenant, task) (stream_of ad (tenant, task) @ [e])
              (bt_insert (tenant, task) (stream_of ad (tenant, task)) (as_events ad))\<rparr>)"
    using published_Err [of cfg new_id now tenant task kind trace_id payload ad _ "snd ?p"]
      published_state_Ok [of cfg new_id now tenant task kind trace_id payload ad _ "snd ?p"]
    by (cases "fst ?p") (auto simp: prod_eq_iff)
  ultimately show ?thesis
    using assms by (auto simp: extends_def)
qed

interpretation growing_stream: kept_by_steps "sound_agui_step cfg horizon" "extends key k es"
  for cfg horizon key k es
  by unfold_locales (auto elim!: sound_agui_step.cases agui_step.cases intro: extends_publish)

lemma safe_snapshot_state_of:
  assumes "status_text_ok status" and "\<forall>d. evidence_digest = Some d \<longrightarrow> valid_digest d"
    and "\<forall>d. ag_rfc3339_ok cfg (ag_to_rfc3339 cfg d)"
  shows "safe_snapshot_state cfg (safe_state_of cfg status evidence_digest latest)"
  using assms
  by (auto simp: safe_snapshot_state_def safe_state_of_def json_field_def split: option.split)

lemma make_resume_token_Ok:
  assumes "make_resume_token cfg now tenant task k expires ad = Ok t" and "signer_correct (ag_signer cfg)"
  shows "rs_schema_version t = A2A_SCHEMA_VERSION \<and> rs_tenant_id t = tenant \<and> rs_task_id t = task
    \<and> rs_after_sequence t = k \<and> rs_expires_at t = expires \<and> now < expires
    \<and> sg_decodes (ag_signer cfg) (rs_signature t)
    \<and> check_signature cfg (as_key ad) (rs_signature t) (resume_bytes (ag_jcs_resume cfg) t) = Ok ()"
  using assms
  by (auto simp: make_resume_token_def Let_def res_bind_Ok_iff resume_bytes_def check_signature_def
      signer_correct_def split: if_splits option.splits)

lemma safe_snapshot_memory_Ok:
  assumes "safe_snapshot cfg None now tenant task status evidence_digest expires ad = Ok sn"
    and "signer_correct (ag_signer cfg)"
  obtains t b where "make_resume_token cfg now tenant task (sn_sequence sn) expires ad = Ok t"
    "ag_jcs_resume cfg t = Some b" "sn_next_resume_token sn = ag_base64_encode cfg b"
    "sn_tenant_id sn = tenant" "sn_task_id sn = task" "sn_generated_at sn = now"
    "sn_schema_version sn = AGUI_SNAPSHOT_SCHEMA_VERSION"
    "check_signature cfg (as_key ad) (sn_backend_signature sn) (snapshot_bytes (ag_jcs_snapshot cfg) sn) = Ok ()"
    "sn_sequence sn = (if stream_of ad (tenant, task) = [] then 0 else ae_sequence (last (stream_of ad (tenant, task))))"
    "\<exists>latest. sn_safe_state sn = safe_state_of cfg status evidence_digest latest"
    "status_text_ok status" "\<forall>d. evidence_digest = Some d \<longrightarrow> valid_digest d"
proof -
  define lat where "lat = (if stream_of ad (tenant, task) = [] then None
      else Some (last (stream_of ad (tenant, task))))"
  have latest: "(case bt_get (as_events ad) (tenant, task) of None \<Rightarrow> None
      | Some es \<Rightarrow> if es = [] then None else Some (last es)) = lat"
    by (simp add: lat_def stream_of_def split: option.split)
  have ok_iff: "(case x of None \<Rightarrow> Err e | Some y \<Rightarrow> Ok y) = Ok z \<longleftrightarrow> x = Some z" for x z and e :: a2a_error
    by (cases x) auto
  have digest: "(case evidence_digest of None \<Rightarrow> False | Some d \<Rightarrow> \<not> valid_digest d)
      \<longleftrightarrow> \<not> (\<forall>d. evidence_digest = Some d \<longrightarrow> valid_digest d)"
    by (cases evidence_digest) auto
  define seq where "seq = (case lat of None \<Rightarrow> 0 | Some e \<Rightarrow> ae_sequence e)"
  have seq_if: "seq = (if stream_of ad (tenant, task) = [] then 0
      else ae_sequence (last (stream_of ad (tenant, task))))"
    by (simp add: seq_def lat_def)
  define sn0 where "sn0 b = \<lparr>sn_schema_version = AGUI_SNAPSHOT_SCHEMA_VERSION, sn_tenant_id = tenant,
      sn_task_id = task, sn_sequence = seq,
      sn_safe_state = safe_state_of cfg status evidence_digest lat,
      sn_next_resume_token = ag_base64_encode cfg b, sn_generated_at = now,
      sn_backend_signature = []\<rparr>" for b
  from assms(1) obtain t b c where parts: "status_text_ok status"
    "\<forall>d. evidence_digest = Some d \<longrightarrow> valid_digest d"
    "make_resume_token cfg now tenant task seq expires ad = Ok t" "ag_jcs_resume cfg t = Some b"
    "snapshot_bytes (ag_jcs_snapshot cfg) (sn0 b) = Ok c"
    "sn = sn0 b\<lparr>sn_backend_signature := sg_sign (ag_signer cfg) (as_key ad) c\<rparr>"
    unfolding safe_snapshot_def Let_def latest digest
    by (auto simp: res_bind_Ok_iff ok_iff seq_def sn0_def split: if_splits)
  have "check_signature cfg (as_key ad) (sn_backend_signature sn) (snapshot_bytes (ag_jcs_snapshot cfg) sn) = Ok ()"
    using parts(5) check_signature_signed [OF assms(2)] by (simp add: parts(6))
  moreover have "sn_sequence sn = seq" "sn_next_resume_token sn = ag_base64_encode cfg b"
    "sn_tenant_id sn = tenant" "sn_task_id sn = task" "sn_generated_at sn = now"
    "sn_schema_version sn = AGUI_SNAPSHOT_SCHEMA_VERSION"
    "\<exists>latest. sn_safe_state sn = safe_state_of cfg status evidence_digest latest"
    by (auto simp: parts(6) sn0_def)
  ultimately show ?thesis
    using that [of t b] parts(1-4) seq_if by simp
qed

text \<open>
  C39: a snapshot of an in-memory stream and the replay from it lose nothing. Without a durable store,
  for a signer, base64, JSON and RFC 3339 library that behave as documented, and a verifying clock at
  most five minutes behind the clocks that stamped the snapshot and the events: a snapshot of a
  reachable stream verifies; its position is the number of events so far; and the resume token inside
  it, used in any later state before it expires, returns exactly the events published after the
  snapshot. With a durable store the sequences of a stream may have gaps and nothing is claimed here.
\<close>

theorem snapshot_then_resume_is_complete:
  assumes "reach (\<lambda>ad. \<exists>key m d. agui_new key m d = Ok ad) (sound_agui_step cfg horizon) ad"
    and "signer_correct (ag_signer cfg)"
    and "\<forall>t b. ag_jcs_resume cfg t = Some b \<longrightarrow> ag_resume_from_slice cfg b = Some t"
    and "\<forall>b. ag_base64_decode cfg (ag_base64_encode cfg b) = Some b"
    and "\<forall>d. ag_rfc3339_ok cfg (ag_to_rfc3339 cfg d)"
    and "safe_snapshot cfg None now tenant task status evidence_digest expires ad = Ok sn"
    and "now \<le> clock + chrono_minutes 5" and "horizon \<le> clock + chrono_minutes 5"
    and "(sound_agui_step cfg horizon)\<^sup>*\<^sup>* ad ad'" and "now' < expires"
  shows "verify_snapshot cfg clock (as_key ad) sn = Ok ()
    \<and> unat (sn_sequence sn) = length (stream_of ad (tenant, task))
    \<and> (\<exists>t rest. Option.bind (ag_base64_decode cfg (sn_next_resume_token sn)) (ag_resume_from_slice cfg) = Some t
         \<and> stream_of ad' (tenant, task) = stream_of ad (tenant, task) @ rest
         \<and> resume cfg None clock t now' ad' = Ok rest)"
proof -
  let ?es = "stream_of ad (tenant, task)"
  obtain t b where sn: "make_resume_token cfg now tenant task (sn_sequence sn) expires ad = Ok t"
    "ag_jcs_resume cfg t = Some b" "sn_next_resume_token sn = ag_base64_encode cfg b"
    "sn_tenant_id sn = tenant" "sn_task_id sn = task" "sn_generated_at sn = now"
    "sn_schema_version sn = AGUI_SNAPSHOT_SCHEMA_VERSION"
    "check_signature cfg (as_key ad) (sn_backend_signature sn) (snapshot_bytes (ag_jcs_snapshot cfg) sn) = Ok ()"
    "sn_sequence sn = (if ?es = [] then 0 else ae_sequence (last ?es))"
    "\<exists>latest. sn_safe_state sn = safe_state_of cfg status evidence_digest latest"
    "status_text_ok status" "\<forall>d. evidence_digest = Some d \<longrightarrow> valid_digest d"
    using safe_snapshot_memory_Ok [OF assms(6,2)] by blast
  note t = make_resume_token_Ok [OF sn(1) assms(2)]
  have token: "Option.bind (ag_base64_decode cfg (sn_next_resume_token sn)) (ag_resume_from_slice cfg) = Some t"
    using sn(2,3) assms(3,4) by simp
  have state: "safe_snapshot_state cfg (sn_safe_state sn)"
    using sn(10-12) assms(5) safe_snapshot_state_of by metis
  have verified: "verify_snapshot cfg clock (as_key ad) sn = Ok ()"
    using token sn t state assms(7) by (auto simp: verify_snapshot_def)
  have position: "unat (sn_sequence sn) = length ?es"
    using agui_machine.reach_inv [OF assms(1)] sn(9)
    by (auto simp: streams_ok_def event_ok_def last_conv_nth dest!: spec [of _ "(tenant, task)"])
  have "extends (as_key ad) (tenant, task) ?es ad'"
    using assms(9) by (rule growing_stream.steps_keep) (simp add: extends_def)
  then have same: "as_key ad' = as_key ad" "take (length ?es) (stream_of ad' (tenant, task)) = ?es"
    by (simp_all add: extends_def)
  have reach: "reach (\<lambda>ad. \<exists>key m d. agui_new key m d = Ok ad) (sound_agui_step cfg horizon) ad'"
    using assms(9,1) by (induction rule: rtranclp_induct) (auto intro: reach.reach_step)
  have "make_resume_token cfg now tenant task (sn_sequence sn) expires ad'
      = make_resume_token cfg now tenant task (sn_sequence sn) expires ad"
    by (simp add: make_resume_token_def same(1))
  then have "make_resume_token cfg now tenant task (sn_sequence sn) expires ad' = Ok t"
    using sn(1) by simp
  from resume_returns_the_rest [OF reach assms(2) this assms(10,8)]
  have "resume cfg None clock t now' ad' = Ok (drop (length ?es) (stream_of ad' (tenant, task)))"
    using position by simp
  moreover have "stream_of ad' (tenant, task) = ?es @ drop (length ?es) (stream_of ad' (tenant, task))"
    using same(2) by (metis append_take_drop_id)
  ultimately show ?thesis
    using verified position token by blast
qed

subsection \<open>Witnesses\<close>

definition sample_agui_config :: "(unit, unit) agui_config" where
  "sample_agui_config = \<lparr>ag_signer = mirror_signer, ag_jcs_value = \<lambda>_. Some [],
     ag_jcs_event = \<lambda>e. Some (ae_event_id e),
     ag_jcs_resume = \<lambda>t. if t = \<lparr>rs_schema_version = A2A_SCHEMA_VERSION, rs_tenant_id = ''acme'',
         rs_task_id = ''task'', rs_after_sequence = 1, rs_expires_at = 500, rs_signature = rs_signature t\<rparr>
         \<and> rs_signature t \<in> {[], ''r''} then Some (if rs_signature t = [] then ''r'' else ''s'') else None,
     ag_jcs_snapshot = \<lambda>_. Some ''snapshot'',
     ag_resume_from_slice = \<lambda>b. Some \<lparr>rs_schema_version = A2A_SCHEMA_VERSION, rs_tenant_id = ''acme'',
         rs_task_id = ''task'', rs_after_sequence = 1, rs_expires_at = 500,
         rs_signature = (if b = ''r'' then [] else ''r'')\<rparr>,
     ag_base64_encode = \<lambda>b. b, ag_base64_decode = Some, ag_uuid_ok = \<lambda>_. True,
     ag_to_rfc3339 = \<lambda>_. ''t'', ag_rfc3339_ok = \<lambda>_. True\<rparr>"

definition sample_agui_start :: "(unit, unit) agui_stream" where
  "sample_agui_start = \<lparr>as_key = (), as_maximum_events_per_task = 9, as_events = bt_empty, as_durable = ()\<rparr>"

definition sample_publish :: "string \<Rightarrow> (unit, unit) agui_stream \<Rightarrow> (unit, unit) agui_stream" where
  "sample_publish i ad = snd (publish_backend sample_agui_config None i 10 ''acme'' ''task'' PlanUpdated
     ''trace'' (JObject []) ad)"

lemma sample_publish_step: "i \<noteq> [] \<Longrightarrow> sound_agui_step sample_agui_config 10 ad (sample_publish i ad)"
  unfolding sample_publish_def
  by (intro sound_agui_step.intros agui_step.published)
    (simp_all add: sample_agui_config_def mirror_signer_correct)

definition sample_agui_one :: "(unit, unit) agui_stream" where
  "sample_agui_one = sample_publish ''e1'' sample_agui_start"

lemma sample_agui_reach:
  "reach (\<lambda>ad. \<exists>key m d. agui_new key m d = Ok ad) (sound_agui_step sample_agui_config 10) sample_agui_one"
proof -
  have "\<exists>key m d. agui_new key m d = Ok sample_agui_start"
    by (intro exI [of _ "()"] exI [of _ 9]) (simp add: agui_new_def sample_agui_start_def)
  then show ?thesis
    unfolding sample_agui_one_def
    by (rule reach.reach_step [OF reach.reach_init]) (simp_all add: sample_publish_step)
qed

definition sample_resume_token :: resume_token where
  "sample_resume_token = \<lparr>rs_schema_version = A2A_SCHEMA_VERSION, rs_tenant_id = ''acme'',
     rs_task_id = ''task'', rs_after_sequence = 1, rs_expires_at = 500, rs_signature = ''r''\<rparr>"

lemma sample_resume_issued:
  "make_resume_token sample_agui_config 10 ''acme'' ''task'' 1 500 ad = Ok sample_resume_token"
  by (simp add: make_resume_token_def Let_def resume_bytes_def sample_agui_config_def mirror_signer_def
      sample_resume_token_def chrono_hours_def)

lemma sample_agui_signer: "signer_correct (ag_signer sample_agui_config)"
  by (simp add: sample_agui_config_def mirror_signer_correct)

theorem resume_returns_the_rest_witness:
  "resume sample_agui_config None 10 sample_resume_token 20 sample_agui_one
     = Ok (drop 1 (stream_of sample_agui_one (''acme'', ''task'')))"
  using resume_returns_the_rest [OF sample_agui_reach sample_agui_signer sample_resume_issued, of 20 10]
  by (simp add: chrono_minutes_def)

lemma sample_codec:
  "\<forall>t b. ag_jcs_resume sample_agui_config t = Some b \<longrightarrow> ag_resume_from_slice sample_agui_config b = Some t"
  by (auto simp: sample_agui_config_def split: if_splits)

lemma sample_stream_one: "stream_of sample_agui_one (''acme'', ''task'') \<noteq> []"
    "ae_sequence (last (stream_of sample_agui_one (''acme'', ''task''))) = 1"
    "verify_event sample_agui_config 10 () (last (stream_of sample_agui_one (''acme'', ''task''))) = Ok ()"
    "bt_get (as_events sample_agui_one) (''acme'', ''task'') = Some (stream_of sample_agui_one (''acme'', ''task''))"
    "as_key sample_agui_one = ()"
  by (simp_all add: sample_agui_one_def sample_publish_def sample_agui_start_def publish_backend_def
      safe_payload_spec sample_agui_config_def st_bind_def st_lift_def event_bytes_def stream_of_def
      verify_event_def chrono_minutes_def check_signature_def mirror_signer_def Let_def)

lemma sample_safe_snapshot:
  "is_ok (safe_snapshot sample_agui_config None 10 ''acme'' ''task'' ''RUNNING'' None 500 sample_agui_one)"
proof -
  have "ag_jcs_resume sample_agui_config sample_resume_token = Some ''s''"
    by (simp add: sample_agui_config_def sample_resume_token_def)
  moreover have "ag_jcs_snapshot sample_agui_config x = Some ''snapshot''" for x
    by (simp add: sample_agui_config_def)
  ultimately show ?thesis
    using sample_stream_one
    by (simp add: safe_snapshot_def status_text_ok_def byte_defs chrono_hours_def sample_resume_issued
        snapshot_bytes_def)
qed

theorem snapshot_then_resume_is_complete_witness:
  "\<exists>sn. safe_snapshot sample_agui_config None 10 ''acme'' ''task'' ''RUNNING'' None 500 sample_agui_one = Ok sn
    \<and> verify_snapshot sample_agui_config 10 () sn = Ok ()
    \<and> (\<exists>t rest. stream_of (sample_publish ''e2'' sample_agui_one) (''acme'', ''task'')
           = stream_of sample_agui_one (''acme'', ''task'') @ rest
         \<and> resume sample_agui_config None 10 t 20 (sample_publish ''e2'' sample_agui_one) = Ok rest)"
proof -
  obtain sn where sn: "safe_snapshot sample_agui_config None 10 ''acme'' ''task'' ''RUNNING'' None 500
      sample_agui_one = Ok sn"
    using sample_safe_snapshot by (auto simp: is_ok_iff)
  have "(sound_agui_step sample_agui_config 10)\<^sup>*\<^sup>* sample_agui_one (sample_publish ''e2'' sample_agui_one)"
    by (rule r_into_rtranclp) (simp add: sample_publish_step)
  from snapshot_then_resume_is_complete [OF sample_agui_reach sample_agui_signer sample_codec _ _ sn _ _ this,
      of 10 20]
  show ?thesis
    using sn by (auto simp: sample_agui_config_def [THEN arg_cong [where f = ag_base64_decode]]
        sample_agui_config_def [THEN arg_cong [where f = ag_base64_encode]]
        sample_agui_config_def [THEN arg_cong [where f = ag_rfc3339_ok]] chrono_minutes_def)
qed

end
