(* ===== verification/A2a_Tasks.thy ===== *)
theory A2a_Tasks
  imports A2a_Base
begin

text \<open>
  Delegated tasks on remote agents (\<open>a2a-agui-adapter/src/lib.rs\<close>, \<open>NativeA2aClient\<close> and
  \<open>A2aTaskAdapter\<close>). The transport and the task store are traits without an implementation in the
  repository: \<open>transport\<close> is a call that may change a world \<open>'w\<close>, \<open>task_store\<close> the three operations
  of a store over its own state. Every change of a record is a load, a pure computation of the next
  record (\<open>cancelled_record\<close>, \<open>transitioned_record\<close>) and a compare-and-set on the revision, so
  that calls may interleave between the load and the write.
\<close>

subsection \<open>Records\<close>

datatype a2a_task_state = ASubmitted | AWorking | AInputRequired | AAuthRequired | AVerifying
  | ACompleted | ACancelling | ACancelled | ARejected | AFailed

record a2a_task_record =
  ar_schema_version :: string
  ar_tenant_id :: string
  ar_task_id :: string
  ar_remote_task_id :: string
  ar_agent_id :: string
  ar_agent_card_hash :: string
  ar_agent_endpoint :: string
  ar_protocol_version :: string
  ar_state :: a2a_task_state
  ar_remote_status :: string
  ar_evaluation_status :: "evaluation_status option"
  ar_revision :: u64
  ar_updated_at :: datetime
  ar_backend_signature :: string

record 'd task_store =
  tst_insert :: "a2a_task_record \<Rightarrow> 'd \<Rightarrow> (a2a_error + unit) \<times> 'd"
  tst_load :: "string \<Rightarrow> string \<Rightarrow> 'd \<Rightarrow> a2a_error + a2a_task_record"
  tst_compare_and_set :: "u64 \<Rightarrow> a2a_task_record \<Rightarrow> 'd \<Rightarrow> (a2a_error + unit) \<times> 'd"

record ('sk, 'vk) a2a_env =
  aa_signer :: "('sk, 'vk) signer"
  aa_key :: 'sk
  aa_jcs :: "a2a_task_record \<Rightarrow> string option"
  aa_jcs_value :: "json \<Rightarrow> string option"
  aa_url_parse :: "string \<Rightarrow> url_view option"

subsection \<open>The wire\<close>

record rpc_request =
  rq_jsonrpc :: string
  rq_id :: string
  rq_method :: string
  rq_params :: json

record rpc_error =
  rpe_code :: int
  rpe_message :: string
  rpe_data :: "json option"

record rpc_response =
  rp_jsonrpc :: string
  rp_id :: string
  rp_result :: "json option"
  rp_error :: "rpc_error option"

record remote_task =
  rmt_task_id :: string
  rmt_status :: string

type_synonym 'w transport = "string \<Rightarrow> rpc_request \<Rightarrow> 'w \<Rightarrow> (a2a_error + rpc_response) \<times> 'w"

datatype wire_operation = WSend | WGet | WCancel

definition wire_method :: "string \<Rightarrow> wire_operation \<Rightarrow> a2a_error + string" where
  "wire_method version operation =
     (if version = ''0.3.0''
      then Ok (case operation of WSend \<Rightarrow> ''message/send'' | WGet \<Rightarrow> ''tasks/get'' | WCancel \<Rightarrow> ''tasks/cancel'')
      else if version = ''1.0''
      then Ok (case operation of WSend \<Rightarrow> ''SendMessage'' | WGet \<Rightarrow> ''GetTask'' | WCancel \<Rightarrow> ''CancelTask'')
      else Err AProtocolInvalid)"

definition normalize_remote_state :: "string \<Rightarrow> string option" where
  "normalize_remote_state s =
     (if s \<in> {''submitted'', ''TASK_STATE_SUBMITTED''} then Some ''submitted''
      else if s \<in> {''working'', ''TASK_STATE_WORKING''} then Some ''working''
      else if s \<in> {''input-required'', ''TASK_STATE_INPUT_REQUIRED''} then Some ''input-required''
      else if s \<in> {''auth-required'', ''TASK_STATE_AUTH_REQUIRED''} then Some ''auth-required''
      else if s \<in> {''completed'', ''TASK_STATE_COMPLETED''} then Some ''completed''
      else if s \<in> {''canceled'', ''cancelled'', ''TASK_STATE_CANCELED''} then Some ''canceled''
      else if s \<in> {''rejected'', ''TASK_STATE_REJECTED''} then Some ''rejected''
      else if s \<in> {''failed'', ''TASK_STATE_FAILED''} then Some ''failed''
      else None)"

fun json_get :: "json \<Rightarrow> string \<Rightarrow> json option" where
  "json_get (JObject m) k = map_of m k"
| "json_get _ k = None"

fun json_str :: "json \<Rightarrow> string option" where
  "json_str (JString s) = Some s"
| "json_str _ = None"

definition parse_remote_task :: "json \<Rightarrow> a2a_error + remote_task" where
  "parse_remote_task v =
     (case Option.bind (json_get v ''id'') json_str of
        None \<Rightarrow> Err AProtocolInvalid
      | Some task_id \<Rightarrow>
          if task_id = [] \<or> length task_id > 512 then Err AProtocolInvalid
          else
            (case Option.bind (Option.bind (json_get v ''status'') (\<lambda>s. json_get s ''state'')) json_str of
               None \<Rightarrow> Err AProtocolInvalid
             | Some state \<Rightarrow>
                 (case normalize_remote_state state of
                    None \<Rightarrow> Err AProtocolInvalid
                  | Some status \<Rightarrow> Ok \<lparr>rmt_task_id = task_id, rmt_status = status\<rparr>)))"

definition exchange_task ::
  "('sk, 'vk) a2a_env \<Rightarrow> 'w transport \<Rightarrow> string \<Rightarrow> string \<Rightarrow> string \<Rightarrow> json \<Rightarrow> 'w
   \<Rightarrow> (a2a_error + remote_task) \<times> 'w" where
  "exchange_task env transport new_id endpoint method params w =
     (if \<not> secure_agent_endpoint (aa_url_parse env) endpoint then (Err AProtocolInvalid, w)
      else
        (let request = \<lparr>rq_jsonrpc = ''2.0'', rq_id = new_id, rq_method = method, rq_params = params\<rparr>
         in st_bind (transport endpoint request) (\<lambda>response.
              st_lift
                (if rp_jsonrpc response \<noteq> ''2.0'' \<or> rp_id response \<noteq> rq_id request
                    \<or> (rp_result response \<noteq> None) = (rp_error response \<noteq> None)
                 then Err AProtocolInvalid
                 else (case rp_result response of
                         None \<Rightarrow> Err ARemoteRejected
                       | Some result \<Rightarrow> parse_remote_task result))) w))"

definition send_message ::
  "('sk, 'vk) a2a_env \<Rightarrow> 'w transport \<Rightarrow> string \<Rightarrow> agent_card \<Rightarrow> json \<Rightarrow> 'w
   \<Rightarrow> (a2a_error + remote_task) \<times> 'w" where
  "send_message env transport new_id c params w =
     (if \<not> ac_verified c \<or> (case params of JObject _ \<Rightarrow> False | _ \<Rightarrow> True)
         \<or> (case aa_jcs_value env params of None \<Rightarrow> True | Some b \<Rightarrow> length b > 1048576)
      then (Err AProtocolInvalid, w)
      else
        (case wire_method (ac_protocol_version c) WSend of
           Inl e \<Rightarrow> (Err e, w)
         | Inr method \<Rightarrow> exchange_task env transport new_id (ac_endpoint c) method params w))"

definition remote_call ::
  "('sk, 'vk) a2a_env \<Rightarrow> 'w transport \<Rightarrow> wire_operation \<Rightarrow> string \<Rightarrow> string \<Rightarrow> string \<Rightarrow> string \<Rightarrow> 'w
   \<Rightarrow> (a2a_error + remote_task) \<times> 'w" where
  "remote_call env transport operation new_id endpoint version remote_task_id w =
     (case wire_method version operation of
        Inl e \<Rightarrow> (Err e, w)
      | Inr method \<Rightarrow>
          exchange_task env transport new_id endpoint method
            (JObject [(''id'', JString remote_task_id)]) w)"

subsection \<open>Signing, time, transitions\<close>

definition task_bytes :: "(a2a_task_record \<Rightarrow> string option) \<Rightarrow> a2a_task_record \<Rightarrow> a2a_error + string" where
  "task_bytes jcs r =
     (case jcs (r\<lparr>ar_backend_signature := []\<rparr>) of None \<Rightarrow> Err ATaskInvalid | Some b \<Rightarrow> Ok b)"

definition sign_task :: "('sk, 'vk) a2a_env \<Rightarrow> a2a_task_record \<Rightarrow> a2a_error + a2a_task_record" where
  "sign_task env r =
     res_bind (task_bytes (aa_jcs env) r) (\<lambda>b.
       Ok (r\<lparr>ar_backend_signature := sg_sign (aa_signer env) (aa_key env) b\<rparr>))"

definition verify_task :: "('sk, 'vk) a2a_env \<Rightarrow> a2a_task_record \<Rightarrow> a2a_error + unit" where
  "verify_task env r =
     (if ar_schema_version r \<noteq> A2A_SCHEMA_VERSION \<or> ar_revision r = 0 \<or> ar_remote_task_id r = []
         \<or> length (ar_remote_task_id r) > 512 \<or> ar_agent_id r = [] \<or> length (ar_agent_id r) > 256
         \<or> \<not> valid_digest (ar_agent_card_hash r)
         \<or> \<not> secure_agent_endpoint (aa_url_parse env) (ar_agent_endpoint r)
         \<or> ar_protocol_version r \<notin> {''0.3.0'', ''1.0''}
         \<or> \<not> sg_decodes (aa_signer env) (ar_backend_signature r)
      then Err ATaskInvalid
      else res_bind (task_bytes (aa_jcs env) r) (\<lambda>b.
        if sg_verify (aa_signer env) (sg_public (aa_signer env) (aa_key env)) b (ar_backend_signature r)
        then Ok () else Err ATaskInvalid))"

definition monotonic_update_time :: "datetime \<Rightarrow> datetime \<Rightarrow> datetime" where
  "monotonic_update_time now previous =
     (if now > previous then now else previous + chrono_microseconds 1)"

fun valid_task_transition :: "a2a_task_state \<Rightarrow> a2a_task_state \<Rightarrow> bool" where
  "valid_task_transition ASubmitted to = True"
| "valid_task_transition AWorking to = (to \<noteq> ASubmitted)"
| "valid_task_transition AInputRequired to = (to \<noteq> ASubmitted)"
| "valid_task_transition AAuthRequired to = (to \<noteq> ASubmitted)"
| "valid_task_transition AVerifying to =
     (to \<in> {AVerifying, ACompleted, ACancelling, ACancelled, ARejected, AFailed})"
| "valid_task_transition ACancelling to =
     (to \<in> {ACancelling, AVerifying, ACompleted, ACancelled, ARejected, AFailed})"
| "valid_task_transition _ to = False"

definition terminal_states :: "a2a_task_state set" where
  "terminal_states = {ACompleted, ACancelled, ARejected, AFailed}"

definition remote_statuses :: "string set" where
  "remote_statuses = {''submitted'', ''working'', ''input-required'', ''auth-required'', ''completed'',
     ''canceled'', ''rejected'', ''failed''}"

definition next_state ::
  "a2a_task_state \<Rightarrow> string \<Rightarrow> evaluation_status option \<Rightarrow> a2a_task_state option" where
  "next_state current status evaluation =
     (if current = ACancelling
         \<and> status \<in> {''submitted'', ''working'', ''input-required'', ''auth-required''}
      then Some ACancelling
      else if status = ''submitted'' then Some ASubmitted
      else if status = ''working'' then Some AWorking
      else if status = ''input-required'' then Some AInputRequired
      else if status = ''auth-required'' then Some AAuthRequired
      else if status = ''completed''
        then Some (if evaluation = Some Pass then ACompleted else AVerifying)
      else if status = ''canceled'' then Some ACancelled
      else if status = ''rejected'' then Some ARejected
      else if status = ''failed'' then Some AFailed
      else None)"

text \<open>The record after a change of state: next revision, later time, new signature.\<close>

definition bumped ::
  "('sk, 'vk) a2a_env \<Rightarrow> datetime \<Rightarrow> a2a_task_record \<Rightarrow> a2a_task_record \<Rightarrow> a2a_error + a2a_task_record" where
  "bumped env now current changed =
     (case checked_add (ar_revision current) 1 of
        None \<Rightarrow> Err ATaskTransitionInvalid
      | Some revision \<Rightarrow>
          sign_task env (changed\<lparr>ar_revision := revision,
            ar_updated_at := monotonic_update_time now (ar_updated_at current),
            ar_backend_signature := []\<rparr>))"

definition cancelled_record ::
  "('sk, 'vk) a2a_env \<Rightarrow> datetime \<Rightarrow> a2a_task_record \<Rightarrow> a2a_error + a2a_task_record" where
  "cancelled_record env now current =
     (if ar_state current \<in> terminal_states \<union> {ACancelling} then Err ATaskTransitionInvalid
      else bumped env now current (current\<lparr>ar_state := ACancelling\<rparr>))"

definition transitioned_record ::
  "('sk, 'vk) a2a_env \<Rightarrow> datetime \<Rightarrow> string \<Rightarrow> evaluation_status option \<Rightarrow> a2a_task_record
   \<Rightarrow> a2a_error + a2a_task_record" where
  "transitioned_record env now status evaluation current =
     (if ar_state current \<in> terminal_states \<or> status \<notin> remote_statuses
      then Err ATaskTransitionInvalid
      else
        (case next_state (ar_state current) status evaluation of
           None \<Rightarrow> Err ATaskTransitionInvalid
         | Some state \<Rightarrow>
             if \<not> valid_task_transition (ar_state current) state then Err ATaskTransitionInvalid
             else bumped env now current
                    (current\<lparr>ar_state := state, ar_remote_status := status,
                             ar_evaluation_status := evaluation\<rparr>)))"

subsection \<open>The adapter\<close>

definition a2a_status ::
  "('sk, 'vk) a2a_env \<Rightarrow> 'd task_store \<Rightarrow> string \<Rightarrow> string \<Rightarrow> 'd \<Rightarrow> a2a_error + a2a_task_record" where
  "a2a_status env st tenant task d =
     res_bind (tst_load st tenant task d) (\<lambda>r. res_bind (verify_task env r) (\<lambda>_. Ok r))"

definition submitted_record ::
  "('sk, 'vk) a2a_env \<Rightarrow> datetime \<Rightarrow> string \<Rightarrow> string \<Rightarrow> string \<Rightarrow> agent_card \<Rightarrow> a2a_error + a2a_task_record" where
  "submitted_record env now tenant task remote_task_id c =
     (if remote_task_id = [] \<or> length remote_task_id > 512 \<or> \<not> ac_verified c
         \<or> \<not> valid_digest (ac_card_hash c)
      then Err ATaskInvalid
      else sign_task env
        \<lparr>ar_schema_version = A2A_SCHEMA_VERSION, ar_tenant_id = tenant, ar_task_id = task,
         ar_remote_task_id = remote_task_id, ar_agent_id = ac_agent_id c,
         ar_agent_card_hash = ac_card_hash c, ar_agent_endpoint = ac_endpoint c,
         ar_protocol_version = ac_protocol_version c, ar_state = ASubmitted,
         ar_remote_status = ''submitted'', ar_evaluation_status = None, ar_revision = 1,
         ar_updated_at = now, ar_backend_signature = []\<rparr>)"

definition submit ::
  "('sk, 'vk) a2a_env \<Rightarrow> 'd task_store \<Rightarrow> datetime \<Rightarrow> string \<Rightarrow> string \<Rightarrow> string \<Rightarrow> agent_card \<Rightarrow> 'd
   \<Rightarrow> (a2a_error + a2a_task_record) \<times> 'd" where
  "submit env st now tenant task remote_task_id c =
     st_bind (st_lift (submitted_record env now tenant task remote_task_id c)) (\<lambda>r.
     st_bind (tst_insert st r) (\<lambda>_. st_lift (Ok r)))"

text \<open>Load, compute, compare and set.\<close>

definition update_task ::
  "('sk, 'vk) a2a_env \<Rightarrow> 'd task_store \<Rightarrow> string \<Rightarrow> string
   \<Rightarrow> (a2a_task_record \<Rightarrow> a2a_error + a2a_task_record) \<Rightarrow> 'd \<Rightarrow> (a2a_error + a2a_task_record) \<times> 'd" where
  "update_task env st tenant task f d =
     st_bind (st_lift (a2a_status env st tenant task d)) (\<lambda>current.
     st_bind (st_lift (f current)) (\<lambda>r.
     st_bind (tst_compare_and_set st (ar_revision current) r) (\<lambda>_. st_lift (Ok r)))) d"

definition cancel_task ::
  "('sk, 'vk) a2a_env \<Rightarrow> 'd task_store \<Rightarrow> datetime \<Rightarrow> string \<Rightarrow> string \<Rightarrow> 'd
   \<Rightarrow> (a2a_error + a2a_task_record) \<times> 'd" where
  "cancel_task env st now tenant task = update_task env st tenant task (cancelled_record env now)"

definition record_remote_status ::
  "('sk, 'vk) a2a_env \<Rightarrow> 'd task_store \<Rightarrow> datetime \<Rightarrow> string \<Rightarrow> string \<Rightarrow> string
   \<Rightarrow> evaluation_status option \<Rightarrow> 'd \<Rightarrow> (a2a_error + a2a_task_record) \<times> 'd" where
  "record_remote_status env st now tenant task status evaluation =
     update_task env st tenant task (transitioned_record env now status evaluation)"

text \<open>The remote calls, over the world of the transport and the state of the store.\<close>

definition on_world :: "('w \<Rightarrow> ('e + 'a) \<times> 'w) \<Rightarrow> 'w \<times> 'd \<Rightarrow> ('e + 'a) \<times> 'w \<times> 'd" where
  "on_world f s = (case f (fst s) of (r, w) \<Rightarrow> (r, w, snd s))"

definition on_tasks :: "('d \<Rightarrow> ('e + 'a) \<times> 'd) \<Rightarrow> 'w \<times> 'd \<Rightarrow> ('e + 'a) \<times> 'w \<times> 'd" where
  "on_tasks f s = (case f (snd s) of (r, d) \<Rightarrow> (r, fst s, d))"

definition submit_remote ::
  "('sk, 'vk) a2a_env \<Rightarrow> 'd task_store \<Rightarrow> 'w transport \<Rightarrow> string \<Rightarrow> datetime \<Rightarrow> datetime \<Rightarrow> string
   \<Rightarrow> string \<Rightarrow> agent_card \<Rightarrow> json \<Rightarrow> 'w \<times> 'd \<Rightarrow> (a2a_error + a2a_task_record) \<times> 'w \<times> 'd" where
  "submit_remote env st transport new_id now now' tenant task c params =
     st_bind (on_world (send_message env transport new_id c params)) (\<lambda>remote.
     st_bind (on_tasks (submit env st now tenant task (rmt_task_id remote) c)) (\<lambda>r.
       if rmt_status remote = ''submitted'' then st_lift (Ok r)
       else on_tasks (record_remote_status env st now' (ar_tenant_id r) (ar_task_id r)
                        (rmt_status remote) None)))"

definition cancel_remote ::
  "('sk, 'vk) a2a_env \<Rightarrow> 'd task_store \<Rightarrow> 'w transport \<Rightarrow> string \<Rightarrow> datetime \<Rightarrow> datetime \<Rightarrow> string
   \<Rightarrow> string \<Rightarrow> 'w \<times> 'd \<Rightarrow> (a2a_error + a2a_task_record) \<times> 'w \<times> 'd" where
  "cancel_remote env st transport new_id now now' tenant task =
     st_bind (on_tasks (cancel_task env st now tenant task)) (\<lambda>cancelling.
     st_bind (on_world (remote_call env transport WCancel new_id (ar_agent_endpoint cancelling)
                (ar_protocol_version cancelling) (ar_remote_task_id cancelling))) (\<lambda>remote.
       if rmt_task_id remote \<noteq> ar_remote_task_id cancelling then st_lift (Err AProtocolInvalid)
       else on_tasks (record_remote_status env st now' tenant task (rmt_status remote) None)))"

definition refresh_remote ::
  "('sk, 'vk) a2a_env \<Rightarrow> 'd task_store \<Rightarrow> 'w transport \<Rightarrow> string \<Rightarrow> datetime \<Rightarrow> string \<Rightarrow> string
   \<Rightarrow> evaluation_status option \<Rightarrow> 'w \<times> 'd \<Rightarrow> (a2a_error + a2a_task_record) \<times> 'w \<times> 'd" where
  "refresh_remote env st transport new_id now tenant task evaluation s =
     st_bind (\<lambda>s. (a2a_status env st tenant task (snd s), s)) (\<lambda>current.
     st_bind (on_world (remote_call env transport WGet new_id (ar_agent_endpoint current)
                (ar_protocol_version current) (ar_remote_task_id current))) (\<lambda>remote.
       if rmt_task_id remote \<noteq> ar_remote_task_id current then st_lift (Err AProtocolInvalid)
       else on_tasks (record_remote_status env st now tenant task (rmt_status remote) evaluation))) s"

definition map_remote_status :: "string \<Rightarrow> evaluation_status option \<Rightarrow> task_status" where
  "map_remote_status remote evaluation =
     (if remote = ''submitted'' then TCreated
      else if remote = ''working'' then TRunning
      else if remote = ''canceled'' then TCancelling
      else if remote = ''completed'' then (if evaluation = Some Pass then TCompleted else TVerifying)
      else TNeedsHuman)"

end
