(* ===== verification/A2a_Task_Safety.thy ===== *)
theory A2a_Task_Safety
  imports A2a_Tasks
begin

text \<open>
  Calls of the task adapter may interleave: between the load and the compare-and-set of one call,
  others may write. The machine below takes the load and the write of a call as separate steps, over
  any store that keeps its contract. It shows that every write extends the current record, so that
  what holds of single transitions holds of whole histories.
\<close>

subsection \<open>The contract of the store\<close>

definition record_key :: "a2a_task_record \<Rightarrow> string \<times> string" where
  "record_key r = (ar_tenant_id r, ar_task_id r)"

definition stored :: "'d task_store \<Rightarrow> 'd \<Rightarrow> string \<times> string \<Rightarrow> a2a_error + a2a_task_record" where
  "stored st d k = tst_load st (fst k) (snd k) d"

definition store_lawful :: "'d task_store \<Rightarrow> bool" where
  "store_lawful st \<longleftrightarrow>
     (\<forall>d k r. stored st d k = Ok r \<longrightarrow> record_key r = k)
     \<and> (\<forall>r d u d'. tst_insert st r d = (Ok u, d') \<longrightarrow> \<not> is_ok (stored st d (record_key r))
          \<and> stored st d' = (stored st d)(record_key r := Ok r))
     \<and> (\<forall>r d e d'. tst_insert st r d = (Err e, d') \<longrightarrow> stored st d' = stored st d)
     \<and> (\<forall>n r d u d'. tst_compare_and_set st n r d = (Ok u, d') \<longrightarrow>
          (\<exists>c. stored st d (record_key r) = Ok c \<and> ar_revision c = n)
          \<and> stored st d' = (stored st d)(record_key r := Ok r))
     \<and> (\<forall>n r d e d'. tst_compare_and_set st n r d = (Err e, d') \<longrightarrow> stored st d' = stored st d)"

lemma store_laws:
  assumes "store_lawful st"
  shows stored_key: "stored st d k = Ok r \<Longrightarrow> record_key r = k"
    and insert_Ok: "tst_insert st r d = (Ok u, d') \<Longrightarrow> \<not> is_ok (stored st d (record_key r))
      \<and> stored st d' = (stored st d)(record_key r := Ok r)"
    and insert_Err: "tst_insert st r d = (Err e, d') \<Longrightarrow> stored st d' = stored st d"
    and set_Ok: "tst_compare_and_set st n r d = (Ok u, d') \<Longrightarrow>
      (\<exists>c. stored st d (record_key r) = Ok c \<and> ar_revision c = n)
      \<and> stored st d' = (stored st d)(record_key r := Ok r)"
    and set_Err: "tst_compare_and_set st n r d = (Err e, d') \<Longrightarrow> stored st d' = stored st d"
  using assms unfolding store_lawful_def by - (elim conjE, metis)+

subsection \<open>One transition\<close>

lemma record_key_update [simp]:
  "record_key (r\<lparr>ar_state := s\<rparr>) = record_key r" "record_key (r\<lparr>ar_remote_status := t\<rparr>) = record_key r"
  "record_key (r\<lparr>ar_evaluation_status := e\<rparr>) = record_key r" "record_key (r\<lparr>ar_revision := n\<rparr>) = record_key r"
  "record_key (r\<lparr>ar_updated_at := u\<rparr>) = record_key r" "record_key (r\<lparr>ar_backend_signature := g\<rparr>) = record_key r"
  by (simp_all add: record_key_def)

definition same_task :: "a2a_task_record \<Rightarrow> a2a_task_record \<Rightarrow> bool" where
  "same_task r r' \<longleftrightarrow> record_key r' = record_key r \<and> ar_remote_task_id r' = ar_remote_task_id r
     \<and> ar_agent_id r' = ar_agent_id r \<and> ar_agent_card_hash r' = ar_agent_card_hash r
     \<and> ar_agent_endpoint r' = ar_agent_endpoint r \<and> ar_protocol_version r' = ar_protocol_version r"

definition advances :: "a2a_task_record \<Rightarrow> a2a_task_record \<Rightarrow> bool" where
  "advances r r' \<longleftrightarrow> same_task r r' \<and> unat (ar_revision r') = Suc (unat (ar_revision r))
     \<and> ar_updated_at r < ar_updated_at r'
     \<and> ar_state r \<notin> terminal_states \<and> valid_task_transition (ar_state r) (ar_state r')
     \<and> (ar_state r' = ACompleted \<longrightarrow> ar_evaluation_status r' = Some Pass \<and> ar_remote_status r' = ''completed'')"

lemma sign_task_Ok: "sign_task env r = Ok r' \<Longrightarrow> \<exists>g. r' = r\<lparr>ar_backend_signature := g\<rparr>"
  by (auto simp: sign_task_def res_bind_Ok_iff)

lemma bumped_Ok:
  assumes "bumped env now r c = Ok r'"
  shows "\<exists>g n. unat n = Suc (unat (ar_revision r)) \<and> r' = c\<lparr>ar_revision := n,
    ar_updated_at := monotonic_update_time now (ar_updated_at r), ar_backend_signature := g\<rparr>"
  using assms
  by (auto simp: bumped_def dest!: sign_task_Ok checked_add_less split: option.splits) blast

lemma monotonic_update_time_less: "previous < monotonic_update_time now previous"
  by (simp add: monotonic_update_time_def chrono_microseconds_def)

lemma next_state_completed:
  "next_state s status e = Some ACompleted \<Longrightarrow> e = Some Pass \<and> status = ''completed''"
  by (auto simp: next_state_def split: if_splits)

lemma cancelled_advances: "cancelled_record env now r = Ok r' \<Longrightarrow> advances r r' \<and> ar_state r' = ACancelling"
  by (cases "ar_state r")
    (auto simp: cancelled_record_def advances_def same_task_def terminal_states_def
      monotonic_update_time_less dest!: bumped_Ok split: if_splits)

lemma transitioned_advances: "transitioned_record env now status e r = Ok r' \<Longrightarrow> advances r r'"
  by (auto simp: transitioned_record_def advances_def same_task_def monotonic_update_time_less
      dest!: bumped_Ok dest: next_state_completed split: if_splits option.splits)

subsection \<open>Interleaved calls\<close>

text \<open>The state of the store and the records that calls under way have loaded.\<close>

inductive a2a_step ::
  "('sk, 'vk) a2a_env \<Rightarrow> 'd task_store \<Rightarrow> 'd \<times> a2a_task_record set \<Rightarrow> 'd \<times> a2a_task_record set \<Rightarrow> bool"
  for env :: "('sk, 'vk) a2a_env" and st :: "'d task_store" where
  submitted: "submitted_record env now tenant task remote c = Ok r
    \<Longrightarrow> a2a_step env st (d, p) (snd (tst_insert st r d), p)"
| loaded: "a2a_status env st tenant task d = Ok r \<Longrightarrow> a2a_step env st (d, p) (d, insert r p)"
| cancel_written: "r \<in> p \<Longrightarrow> cancelled_record env now r = Ok r'
    \<Longrightarrow> a2a_step env st (d, p) (snd (tst_compare_and_set st (ar_revision r) r' d), p)"
| status_written: "r \<in> p \<Longrightarrow> transitioned_record env now status e r = Ok r'
    \<Longrightarrow> a2a_step env st (d, p) (snd (tst_compare_and_set st (ar_revision r) r' d), p)"

definition not_ahead :: "'d task_store \<Rightarrow> 'd \<times> a2a_task_record set \<Rightarrow> bool" where
  "not_ahead st s \<longleftrightarrow> (\<forall>r \<in> snd s. \<exists>c. stored st (fst s) (record_key r) = Ok c
     \<and> ar_revision r \<le> ar_revision c \<and> (ar_revision r = ar_revision c \<longrightarrow> c = r))"

definition evolves :: "'d task_store \<Rightarrow> 'd \<Rightarrow> 'd \<Rightarrow> bool" where
  "evolves st d d' \<longleftrightarrow> (\<forall>k c. stored st d k = Ok c \<longrightarrow>
     (\<exists>c'. stored st d' k = Ok c' \<and> (c' = c \<or> advances c c')))"

lemma advances_less: "advances r r' \<Longrightarrow> ar_revision r < ar_revision r'"
  by (simp add: advances_def word_less_nat_alt)

lemma advances_key: "advances r r' \<Longrightarrow> record_key r' = record_key r"
  by (simp add: advances_def same_task_def)

text \<open>What an insertion and a write by a call under way do.\<close>

lemma put_effect:
  assumes "stored st d' = (stored st d)(record_key r := Ok r)"
    and "\<forall>c. stored st d (record_key r) = Ok c \<longrightarrow> advances c r"
    and "not_ahead st (d, p)"
  shows "evolves st d d' \<and> not_ahead st (d', p)"
proof -
  have "\<exists>c. stored st d' (record_key q) = Ok c \<and> ar_revision q \<le> ar_revision c
      \<and> (ar_revision q = ar_revision c \<longrightarrow> c = q)" if q: "q \<in> p" for q
  proof -
    obtain c where c: "stored st d (record_key q) = Ok c" "ar_revision q \<le> ar_revision c"
        "ar_revision q = ar_revision c \<longrightarrow> c = q"
      using assms(3) q by (auto simp: not_ahead_def)
    show ?thesis
    proof (cases "record_key q = record_key r")
      case True
      then have "ar_revision c < ar_revision r"
        using assms(2) c(1) advances_less [of c r] by simp
      then have "ar_revision q < ar_revision r"
        using c(2) by (rule order.strict_trans1 [rotated])
      then show ?thesis
        using assms(1) True by (auto simp: order.strict_implies_order)
    next
      case False
      then show ?thesis
        using assms(1) c by simp
    qed
  qed
  then show ?thesis
    using assms(1,2) by (auto simp: evolves_def not_ahead_def)
qed

lemma same_effect:
  "stored st d' = stored st d \<Longrightarrow> not_ahead st (d, p) \<Longrightarrow> evolves st d d' \<and> not_ahead st (d', p)"
  by (simp add: evolves_def not_ahead_def)

lemma insert_effect:
  assumes "store_lawful st" and "not_ahead st (d, p)"
  shows "evolves st d (snd (tst_insert st r d)) \<and> not_ahead st (snd (tst_insert st r d), p)"
proof (cases "tst_insert st r d")
  case (Pair x d')
  show ?thesis
  proof (cases x)
    case (Inl e)
    then have "stored st d' = stored st d"
      using insert_Err [OF assms(1), of r d e d'] Pair by simp
    then show ?thesis
      using same_effect assms(2) Pair by simp
  next
    case (Inr u)
    then have "\<not> is_ok (stored st d (record_key r))" "stored st d' = (stored st d)(record_key r := Ok r)"
      using insert_Ok [OF assms(1), of r d u d'] Pair by simp_all
    then show ?thesis
      using put_effect [of st d' d r p] assms(2) Pair by (auto simp: is_ok_iff)
  qed
qed

lemma write_effect:
  assumes "store_lawful st" and "not_ahead st (d, p)" and "r \<in> p" and "advances r r'"
  shows "evolves st d (snd (tst_compare_and_set st (ar_revision r) r' d))
    \<and> not_ahead st (snd (tst_compare_and_set st (ar_revision r) r' d), p)"
proof (cases "tst_compare_and_set st (ar_revision r) r' d")
  case (Pair x d')
  show ?thesis
  proof (cases x)
    case (Inl e)
    then have "stored st d' = stored st d"
      using set_Err [OF assms(1), of "ar_revision r" r' d e d'] Pair by simp
    then show ?thesis
      using same_effect assms(2) Pair by simp
  next
    case (Inr u)
    then obtain c where c: "stored st d (record_key r') = Ok c" "ar_revision c = ar_revision r"
        "stored st d' = (stored st d)(record_key r' := Ok r')"
      using set_Ok [OF assms(1), of "ar_revision r" r' d u d'] Pair by auto
    moreover have "c = r"
      using assms(2,3) c(1,2) advances_key [OF assms(4)] by (force simp: not_ahead_def)
    ultimately show ?thesis
      using put_effect [of st d' d r' p] assms(2,4) Pair by auto
  qed
qed

lemma a2a_status_Ok: "a2a_status env st tenant task d = Ok r \<Longrightarrow> stored st d (tenant, task) = Ok r"
  by (auto simp: a2a_status_def stored_def res_bind_Ok_iff)

lemma load_effect:
  assumes "store_lawful st" and "not_ahead st (d, p)" and "a2a_status env st tenant task d = Ok r"
  shows "not_ahead st (d, insert r p)"
proof -
  have "stored st d (tenant, task) = Ok r" using assms(3) by (rule a2a_status_Ok)
  moreover from this have "record_key r = (tenant, task)"
    using stored_key [OF assms(1)] by simp
  ultimately show ?thesis
    using assms(2) by (simp add: not_ahead_def)
qed

lemma step_effect:
  assumes "a2a_step env st s s'" and "store_lawful st" and "not_ahead st s"
  shows "evolves st (fst s) (fst s') \<and> not_ahead st s'"
  using assms(1)
proof cases
  case submitted
  then show ?thesis using insert_effect [OF assms(2)] assms(3) by simp
next
  case (loaded tenant task d r p)
  then show ?thesis using load_effect [of st d p env tenant task r] assms(2,3) by (auto simp: evolves_def)
next
  case (cancel_written r p now r' d)
  from write_effect [OF assms(2) _ cancel_written(3) conjunct1 [OF cancelled_advances [OF cancel_written(4)]]]
  show ?thesis using assms(3) cancel_written(1,2) by simp
next
  case (status_written r p now status e r' d)
  from write_effect [OF assms(2) _ status_written(3) transitioned_advances [OF status_written(4)]]
  show ?thesis using assms(3) status_written(1,2) by simp
qed

definition agreed :: "'d task_store \<Rightarrow> 'd \<times> a2a_task_record set \<Rightarrow> bool" where
  "agreed st s \<longleftrightarrow> store_lawful st \<and> not_ahead st s"

interpretation interleaving: kept_by_steps "a2a_step env st" "agreed st" for env st
  by unfold_locales (use step_effect in \<open>blast intro: agreed_def [THEN iffD2] dest: agreed_def [THEN iffD1]\<close>)

text \<open>Every call of the adapter is a path of the machine.\<close>

lemma update_is_a_path:
  assumes "update_task env st tenant task f d = (x, d')"
    and "\<And>r r'. f r = Ok r' \<Longrightarrow> (\<exists>now. cancelled_record env now r = Ok r')
      \<or> (\<exists>now status e. transitioned_record env now status e r = Ok r')"
  shows "\<exists>q. (a2a_step env st)\<^sup>*\<^sup>* (d, p) (d', q)"
proof (cases "a2a_status env st tenant task d")
  case (Inl e)
  then show ?thesis
    using assms(1) by (auto simp: update_task_def st_lift_def)
next
  case (Inr r)
  then have load: "a2a_step env st (d, p) (d, insert r p)"
    by (rule a2a_step.loaded)
  show ?thesis
  proof (cases "f r")
    case (Inl e)
    then show ?thesis
      using assms(1) Inr by (auto simp: update_task_def st_lift_def)
  next
    case r': (Inr r')
    have "d' = snd (tst_compare_and_set st (ar_revision r) r' d)"
      using assms(1) Inr r'
      by (auto simp: update_task_def st_lift_def st_bind_def split: prod.splits sum.splits)
    then have "a2a_step env st (d, insert r p) (d', insert r p)"
      using assms(2) [OF r'] by (auto intro: a2a_step.cancel_written a2a_step.status_written)
    with load show ?thesis
      by (meson converse_rtranclp_into_rtranclp r_into_rtranclp)
  qed
qed

lemma record_remote_status_path:
  "record_remote_status env st now tenant task status e d = (x, d') \<Longrightarrow>
     \<exists>q. (a2a_step env st)\<^sup>*\<^sup>* (d, p) (d', q)"
  unfolding record_remote_status_def by (rule update_is_a_path) blast+

lemma cancel_task_path:
  "cancel_task env st now tenant task d = (x, d') \<Longrightarrow> \<exists>q. (a2a_step env st)\<^sup>*\<^sup>* (d, p) (d', q)"
  unfolding cancel_task_def by (rule update_is_a_path) blast+

lemma advances_not_terminal: "advances r r' \<Longrightarrow> ar_state r \<notin> terminal_states"
  by (simp add: advances_def)

lemma evolves_path:
  assumes "(a2a_step env st)\<^sup>*\<^sup>* s s'" and "agreed st s" and "stored st (fst s) k = Ok c"
  shows "\<exists>c'. stored st (fst s') k = Ok c' \<and> advances\<^sup>*\<^sup>* c c'"
  using assms(1)
proof induction
  case base
  then show ?case using assms(3) by blast
next
  case (step t u)
  have "agreed st t"
    using step.hyps(1) assms(2) by (rule interleaving.steps_keep)
  then have "evolves st (fst t) (fst u)"
    using step_effect [OF step.hyps(2)] by (simp add: agreed_def)
  moreover obtain c' where "stored st (fst t) k = Ok c'" "advances\<^sup>*\<^sup>* c c'"
    using step.IH by blast
  ultimately show ?case
    unfolding evolves_def by (metis rtranclp.rtrancl_into_rtrancl)
qed

text \<open>
  Concurrent updates of a remote task are serial. Whatever calls are under way, the record of a
  task only ever moves along its state machine: each change keeps the identity of the task, its agent
  card and endpoint, raises the revision by exactly one, moves the update time forward and takes a
  transition the table allows; a write computed from a record that is no longer current is never
  stored, and a completed, cancelled, rejected or failed task never changes again.
\<close>

theorem task_updates_are_serial:
  assumes "store_lawful st" and "(a2a_step env st)\<^sup>*\<^sup>* (d0, {}) s" and "stored st (fst s) k = Ok c"
    and "(a2a_step env st)\<^sup>*\<^sup>* s s'"
  shows "\<exists>c'. stored st (fst s') k = Ok c' \<and> advances\<^sup>*\<^sup>* c c'
    \<and> (ar_state c \<in> terminal_states \<longrightarrow> c' = c)"
proof -
  have "agreed st (d0, {})"
    using assms(1) by (simp add: agreed_def not_ahead_def)
  with assms(2) have "agreed st s"
    by (rule interleaving.steps_keep)
  with assms(3,4) obtain c' where c': "stored st (fst s') k = Ok c'" "advances\<^sup>*\<^sup>* c c'"
    using evolves_path by blast
  moreover have "ar_state c \<in> terminal_states \<Longrightarrow> c' = c"
    using c'(2) by (auto elim: converse_rtranclpE dest: advances_not_terminal)
  ultimately show ?thesis by blast
qed

subsection \<open>Completion\<close>

definition well_completed :: "a2a_task_record \<Rightarrow> bool" where
  "well_completed r \<longleftrightarrow> (ar_state r = ACompleted \<longrightarrow>
     ar_evaluation_status r = Some Pass \<and> ar_remote_status r = ''completed'')"

definition all_well_completed :: "'d task_store \<Rightarrow> 'd \<times> a2a_task_record set \<Rightarrow> bool" where
  "all_well_completed st s \<longleftrightarrow> store_lawful st \<and> (\<forall>k c. stored st (fst s) k = Ok c \<longrightarrow> well_completed c)"

lemma advances_well_completed: "advances r r' \<Longrightarrow> well_completed r'"
  by (simp add: advances_def well_completed_def)

lemma insert_well_completed:
  assumes "all_well_completed st (d, p)" and "well_completed r"
  shows "all_well_completed st (snd (tst_insert st r d), p)"
    and "all_well_completed st (snd (tst_compare_and_set st n r d), p)"
proof -
  have law: "store_lawful st" using assms(1) by (simp add: all_well_completed_def)
  obtain x d' where i: "tst_insert st r d = (x, d')" by (cases "tst_insert st r d")
  show "all_well_completed st (snd (tst_insert st r d), p)"
    using assms insert_Ok [OF law, of r d _ d'] insert_Err [OF law, of r d _ d'] i
    by (cases x) (auto simp: all_well_completed_def)
  obtain y d'' where u: "tst_compare_and_set st n r d = (y, d'')" by (cases "tst_compare_and_set st n r d")
  show "all_well_completed st (snd (tst_compare_and_set st n r d), p)"
    using assms set_Ok [OF law, of n r d _ d''] set_Err [OF law, of n r d _ d''] u
    by (cases y) (auto simp: all_well_completed_def)
qed

lemma submitted_record_Ok:
  "submitted_record env now tenant task remote c = Ok r \<Longrightarrow> ar_state r = ASubmitted \<and> ar_revision r = 1
     \<and> record_key r = (tenant, task) \<and> ac_verified c \<and> ar_agent_card_hash r = ac_card_hash c
     \<and> ar_agent_endpoint r = ac_endpoint c"
  by (auto simp: submitted_record_def record_key_def dest!: sign_task_Ok split: if_splits)

interpretation completion: kept_by_steps "a2a_step env st" "all_well_completed st" for env st
proof
  fix s s'
  assume "a2a_step env st s s'" and "all_well_completed st s"
  then show "all_well_completed st s'"
  proof cases
    case (submitted now tenant task remote c r d p)
    then show ?thesis
      using insert_well_completed(1) [of st d p r] submitted_record_Ok [OF submitted(3)]
        \<open>all_well_completed st s\<close>
      by (simp add: well_completed_def)
  next
    case loaded
    then show ?thesis using \<open>all_well_completed st s\<close> by (simp add: all_well_completed_def)
  next
    case (cancel_written r p now r' d)
    then show ?thesis
      using insert_well_completed(2) [of st d p r'] cancelled_advances advances_well_completed
        \<open>all_well_completed st s\<close> by blast
  next
    case (status_written r p now status e r' d)
    then show ?thesis
      using insert_well_completed(2) [of st d p r'] transitioned_advances advances_well_completed
        \<open>all_well_completed st s\<close> by blast
  qed
qed

text \<open>
  A remote agent cannot complete a task by itself. In a store that started empty, whatever a
  remote agent reports and however calls interleave, a task is recorded as completed only if the
  remote status was completed and the local evaluation passed.
\<close>

theorem remote_completion_needs_evaluation:
  assumes "store_lawful st" and "\<forall>k. \<not> is_ok (stored st d0 k)"
    and "(a2a_step env st)\<^sup>*\<^sup>* (d0, {}) s" and "stored st (fst s) k = Ok c" and "ar_state c = ACompleted"
  shows "ar_evaluation_status c = Some Pass \<and> ar_remote_status c = ''completed''"
proof -
  have "all_well_completed st (d0, {})"
    using assms(1,2) unfolding all_well_completed_def by (metis fst_conv is_ok.simps(1))
  with assms(3) have "all_well_completed st s"
    by (rule completion.steps_keep)
  then show ?thesis
    using assms(4,5) unfolding all_well_completed_def well_completed_def by blast
qed

subsection \<open>Cancellation\<close>

lemma update_task_Ok:
  assumes "update_task env st tenant task f d = (Ok r', d')"
  obtains r where "a2a_status env st tenant task d = Ok r" "f r = Ok r'"
    "tst_compare_and_set st (ar_revision r) r' d = (Ok (), d')"
  using assms by (auto simp: update_task_def st_bind_Ok_iff st_lift_def)

lemma update_task_Err:
  assumes "store_lawful st" and "update_task env st tenant task f d = (Err e, d')"
  shows "stored st d' = stored st d"
  using assms(2) set_Err [OF assms(1)]
  by (auto simp: update_task_def st_bind_def st_lift_def split: prod.splits sum.splits)

lemma cancel_task_Ok:
  assumes "store_lawful st" and "cancel_task env st now tenant task d = (Ok c, d')"
  shows "stored st d' (tenant, task) = Ok c \<and> ar_state c = ACancelling"
proof -
  obtain r where r: "a2a_status env st tenant task d = Ok r" "cancelled_record env now r = Ok c"
    "tst_compare_and_set st (ar_revision r) c d = (Ok (), d')"
    using assms(2) unfolding cancel_task_def by (rule update_task_Ok)
  have "record_key c = (tenant, task)"
    using stored_key [OF assms(1) a2a_status_Ok [OF r(1)]] advances_key cancelled_advances [OF r(2)] by metis
  then show ?thesis
    using set_Ok [OF assms(1) r(3)] cancelled_advances [OF r(2)] by simp
qed

lemma transitioned_from_cancelling:
  "transitioned_record env now status None r = Ok r' \<Longrightarrow> ar_state r = ACancelling \<Longrightarrow>
     ar_state r' \<in> {ACancelling, AVerifying, ACancelled, ARejected, AFailed}"
  by (auto simp: transitioned_record_def next_state_def remote_statuses_def dest!: bumped_Ok
      split: if_splits option.splits)

text \<open>
  C37: a cancellation is recorded before it is sent. Over a lawful store that nothing else touches
  during the call: if cancelling a remote task reached the wire at all, the task was stored as
  cancelling before the request was made, for the agent, endpoint and remote task of the stored record;
  and when the call returns, whatever the wire answered, garbage and unknown outcomes included, the
  stored task is still cancelling, or verifying, cancelled, rejected or failed. The call itself never
  leaves it running or completed; a later status refresh may still take a cancelling or verifying task
  to completed, through its evaluation.
\<close>

theorem cancel_is_recorded_before_sent:
  assumes "store_lawful st"
    and "cancel_remote env st transport new_id now now' tenant task (w, d) = (x, w', d')" and "w' \<noteq> w"
  shows "\<exists>c d1. cancel_task env st now tenant task d = (Ok c, d1)
    \<and> stored st d1 (tenant, task) = Ok c \<and> ar_state c = ACancelling
    \<and> w' = snd (remote_call env transport WCancel new_id (ar_agent_endpoint c) (ar_protocol_version c)
              (ar_remote_task_id c) w)
    \<and> (\<exists>c'. stored st d' (tenant, task) = Ok c'
         \<and> ar_state c' \<in> {ACancelling, AVerifying, ACancelled, ARejected, AFailed})"
proof -
  obtain y d1 where cancel: "cancel_task env st now tenant task d = (y, d1)"
    by (cases "cancel_task env st now tenant task d")
  have "y \<noteq> Err e" for e
    using assms(2,3) cancel by (auto simp: cancel_remote_def on_tasks_def st_bind_def)
  then obtain c where c: "cancel_task env st now tenant task d = (Ok c, d1)"
    using cancel by (cases y) auto
  let ?call = "remote_call env transport WCancel new_id (ar_agent_endpoint c) (ar_protocol_version c)
    (ar_remote_task_id c) w"
  note stored = cancel_task_Ok [OF assms(1) c]
  have after: "w' = snd ?call \<and> (d' = d1
      \<or> (\<exists>status. record_remote_status env st now' tenant task status None d1 = (x, d')))"
    using assms(2) c
    by (auto simp: cancel_remote_def on_tasks_def on_world_def st_bind_def st_lift_def
        split: prod.splits sum.splits if_splits)
  have "\<exists>c'. stored st d' (tenant, task) = Ok c'
      \<and> ar_state c' \<in> {ACancelling, AVerifying, ACancelled, ARejected, AFailed}"
  proof (cases "d' = d1")
    case False
    then obtain status where u: "update_task env st tenant task
        (transitioned_record env now' status None) d1 = (x, d')"
      using after by (auto simp: record_remote_status_def)
    show ?thesis
    proof (cases x)
      case (Inl e)
      then have "stored st d' = stored st d1"
        using update_task_Err [OF assms(1)] u by blast
      then show ?thesis
        using stored by simp
    next
      case (Inr r')
      then have "update_task env st tenant task (transitioned_record env now' status None) d1 = (Ok r', d')"
        using u by simp
      then obtain r where r: "a2a_status env st tenant task d1 = Ok r"
        "transitioned_record env now' status None r = Ok r'"
        "tst_compare_and_set st (ar_revision r) r' d1 = (Ok (), d')"
        by (rule update_task_Ok)
      have "r = c"
        using a2a_status_Ok [OF r(1)] stored by simp
      moreover have "record_key r' = (tenant, task)"
        using stored_key [OF assms(1) a2a_status_Ok [OF r(1)]] advances_key
          transitioned_advances [OF r(2)] by metis
      ultimately show ?thesis
        using transitioned_from_cancelling [OF r(2)] set_Ok [OF assms(1) r(3)] stored by auto
    qed
  qed (use stored in auto)
  then show ?thesis
    using c stored after by blast
qed

subsection \<open>Witnesses\<close>

text \<open>A store in memory that keeps the contract.\<close>

definition sample_task_store :: "(string \<times> string, a2a_task_record) btree task_store" where
  "sample_task_store = \<lparr>
     tst_insert = \<lambda>r d. if bt_contains d (record_key r) then (Err ATaskTransitionInvalid, d)
                       else (Ok (), bt_insert (record_key r) r d),
     tst_load = \<lambda>tenant task d.
       (case bt_get d (tenant, task) of
          Some r \<Rightarrow> if record_key r = (tenant, task) then Ok r else Err ATaskInvalid
        | None \<Rightarrow> Err ATaskInvalid),
     tst_compare_and_set = \<lambda>n r d.
       (case bt_get d (record_key r) of
          Some c \<Rightarrow> if ar_revision c = n \<and> record_key c = record_key r
                    then (Ok (), bt_insert (record_key r) r d) else (Err ATaskTransitionInvalid, d)
        | None \<Rightarrow> (Err ATaskInvalid, d))\<rparr>"

lemma sample_stored: "stored sample_task_store d k =
    (case bt_get d k of Some r \<Rightarrow> if record_key r = k then Ok r else Err ATaskInvalid | None \<Rightarrow> Err ATaskInvalid)"
  by (cases k) (simp add: stored_def sample_task_store_def split: option.split)

lemma sample_store_operations:
  "tst_insert sample_task_store r d = (if bt_contains d (record_key r)
     then (Err ATaskTransitionInvalid, d) else (Ok (), bt_insert (record_key r) r d))"
  "tst_compare_and_set sample_task_store n r d =
     (case bt_get d (record_key r) of
        Some c \<Rightarrow> if ar_revision c = n \<and> record_key c = record_key r
                  then (Ok (), bt_insert (record_key r) r d) else (Err ATaskTransitionInvalid, d)
      | None \<Rightarrow> (Err ATaskInvalid, d))"
  by (simp_all add: sample_task_store_def)

lemma sample_stored_put:
  "stored sample_task_store (bt_insert (record_key r) r d) = (stored sample_task_store d)(record_key r := Ok r)"
  by (rule ext) (simp add: sample_stored bt.get_put)

lemma sample_store_lawful: "store_lawful sample_task_store"
  unfolding store_lawful_def
proof (intro conjI allI impI)
  show "record_key r = k" if "stored sample_task_store d k = Ok r" for d k r
    using that by (auto simp: sample_stored split: option.splits if_splits)
qed (auto simp: sample_store_operations sample_stored_put sample_stored bt_contains_def
    split: option.splits if_splits)

definition sample_a2a_env :: "(unit, unit) a2a_env" where
  "sample_a2a_env = \<lparr>aa_signer = mirror_signer, aa_key = (), aa_jcs = \<lambda>_. Some ''r'',
     aa_jcs_value = \<lambda>_. Some [], aa_url_parse = sample_url_parse\<rparr>"

definition sample_task_record :: a2a_task_record where
  "sample_task_record = \<lparr>ar_schema_version = A2A_SCHEMA_VERSION, ar_tenant_id = ''acme'',
     ar_task_id = ''task'', ar_remote_task_id = ''r1'', ar_agent_id = ''helper'',
     ar_agent_card_hash = replicate 64 CHR ''a'', ar_agent_endpoint = ''https://agents.example/a2a'',
     ar_protocol_version = ''1.0'', ar_state = ASubmitted, ar_remote_status = ''submitted'',
     ar_evaluation_status = None, ar_revision = 1, ar_updated_at = 10, ar_backend_signature = ''r''\<rparr>"

definition sample_completed_record :: a2a_task_record where
  "sample_completed_record = sample_task_record\<lparr>ar_state := ACompleted, ar_remote_status := ''completed'',
     ar_evaluation_status := Some Pass, ar_revision := 2, ar_updated_at := 20\<rparr>"

lemma sample_pinned_fields: "ac_verified sample_pinned_card" "valid_digest (ac_card_hash sample_pinned_card)"
  by (simp_all add: sample_pinned_card_def sample_card_def valid_digest_def byte_defs list_all_iff)

lemma sample_submitted:
  "submitted_record sample_a2a_env 10 ''acme'' ''task'' ''r1'' sample_pinned_card = Ok sample_task_record"
  using sample_pinned_fields
  by (simp add: submitted_record_def sign_task_def task_bytes_def sample_a2a_env_def mirror_signer_def
      sample_task_record_def sample_pinned_card_def sample_card_def)

lemma sample_verified: "verify_task sample_a2a_env sample_task_record = Ok ()"
  using sample_pinned_fields(2)
  by (simp add: verify_task_def task_bytes_def sample_a2a_env_def mirror_signer_def sample_task_record_def
      secure_agent_endpoint_def sample_url_parse_def to_ascii_lowercase_def to_ascii_lower_def byte_defs
      sample_pinned_card_def sample_card_def)

lemma sample_transitioned:
  "transitioned_record sample_a2a_env 20 ''completed'' (Some Pass) sample_task_record = Ok sample_completed_record"
  by (simp add: transitioned_record_def terminal_states_def remote_statuses_def next_state_def bumped_def
      checked_add_def sign_task_def task_bytes_def sample_a2a_env_def mirror_signer_def
      monotonic_update_time_def sample_task_record_def sample_completed_record_def)

definition sample_tasks :: "a2a_task_record \<Rightarrow> (string \<times> string, a2a_task_record) btree" where
  "sample_tasks r = bt_insert (''acme'', ''task'') r bt_empty"

lemma sample_store_steps:
  "snd (tst_insert sample_task_store sample_task_record bt_empty) = sample_tasks sample_task_record"
  "snd (tst_compare_and_set sample_task_store 1 sample_completed_record (sample_tasks sample_task_record))
     = sample_tasks sample_completed_record"
  "stored sample_task_store (sample_tasks sample_task_record) (''acme'', ''task'') = Ok sample_task_record"
  "stored sample_task_store (sample_tasks sample_completed_record) (''acme'', ''task'') = Ok sample_completed_record"
  by (simp_all add: sample_stored sample_store_operations sample_tasks_def record_key_def bt_contains_def
      sample_task_record_def sample_completed_record_def bt_empty_def bt_get_def)

lemma sample_task_paths:
  "(a2a_step sample_a2a_env sample_task_store)\<^sup>*\<^sup>* (bt_empty, {}) (sample_tasks sample_task_record, {})"
  "(a2a_step sample_a2a_env sample_task_store)\<^sup>*\<^sup>* (sample_tasks sample_task_record, {})
     (sample_tasks sample_completed_record, {sample_task_record})"
proof -
  show "(a2a_step sample_a2a_env sample_task_store)\<^sup>*\<^sup>* (bt_empty, {}) (sample_tasks sample_task_record, {})"
    using a2a_step.submitted [OF sample_submitted, of sample_task_store bt_empty "{}"]
    by (simp add: sample_store_steps)
  have "a2a_status sample_a2a_env sample_task_store ''acme'' ''task'' (sample_tasks sample_task_record)
      = Ok sample_task_record"
    using sample_store_steps(3) sample_verified by (simp add: a2a_status_def stored_def)
  then have "a2a_step sample_a2a_env sample_task_store (sample_tasks sample_task_record, {})
      (sample_tasks sample_task_record, {sample_task_record})"
    by (rule a2a_step.loaded)
  moreover have "a2a_step sample_a2a_env sample_task_store (sample_tasks sample_task_record, {sample_task_record})
      (sample_tasks sample_completed_record, {sample_task_record})"
    using a2a_step.status_written [OF _ sample_transitioned, of "{sample_task_record}" sample_task_store
        "sample_tasks sample_task_record"] sample_store_steps(2)
    by (simp add: sample_task_record_def)
  ultimately show "(a2a_step sample_a2a_env sample_task_store)\<^sup>*\<^sup>* (sample_tasks sample_task_record, {})
     (sample_tasks sample_completed_record, {sample_task_record})"
    by (meson converse_rtranclp_into_rtranclp r_into_rtranclp)
qed

theorem task_updates_are_serial_witness:
  "advances\<^sup>*\<^sup>* sample_task_record sample_completed_record"
  using task_updates_are_serial [OF sample_store_lawful sample_task_paths(1) _ sample_task_paths(2),
      of "(''acme'', ''task'')" sample_task_record]
  by (simp add: sample_store_steps)

theorem remote_completion_needs_evaluation_witness:
  "ar_evaluation_status sample_completed_record = Some Pass"
proof -
  have "\<forall>k. \<not> is_ok (stored sample_task_store bt_empty k)"
    by (simp add: sample_stored)
  from remote_completion_needs_evaluation [OF sample_store_lawful this
      rtranclp_trans [OF sample_task_paths], of "(''acme'', ''task'')" sample_completed_record]
  show ?thesis by (simp add: sample_store_steps) (simp add: sample_completed_record_def)
qed

text \<open>A wire that counts the requests and never answers.\<close>

definition sample_wire :: "nat transport" where
  "sample_wire endpoint request n = (Err ARemoteOutcomeUnknown, Suc n)"

theorem cancel_is_recorded_before_sent_witness:
  "\<exists>c'. stored sample_task_store (snd (snd (cancel_remote sample_a2a_env sample_task_store sample_wire ''q''
       20 30 ''acme'' ''task'' (0, sample_tasks sample_task_record)))) (''acme'', ''task'') = Ok c'
     \<and> ar_state c' \<in> {ACancelling, AVerifying, ACancelled, ARejected, AFailed}"
proof -
  let ?r = "cancel_remote sample_a2a_env sample_task_store sample_wire ''q'' 20 30 ''acme'' ''task''
      (0, sample_tasks sample_task_record)"
  have "a2a_status sample_a2a_env sample_task_store ''acme'' ''task'' (sample_tasks sample_task_record)
      = Ok sample_task_record"
    using sample_store_steps(3) sample_verified by (simp add: a2a_status_def stored_def)
  then have "fst (snd ?r) \<noteq> 0"
    by (simp add: cancel_remote_def on_tasks_def on_world_def st_bind_def st_lift_def cancel_task_def
        update_task_def cancelled_record_def terminal_states_def bumped_def checked_add_def sign_task_def
        task_bytes_def sample_a2a_env_def mirror_signer_def sample_task_store_def sample_tasks_def
        record_key_def sample_task_record_def bt_get_def bt_empty_def remote_call_def wire_method_def
        exchange_task_def secure_agent_endpoint_def sample_url_parse_def to_ascii_lowercase_def
        to_ascii_lower_def byte_defs Let_def sample_wire_def)
  from cancel_is_recorded_before_sent [OF sample_store_lawful _ this] show ?thesis
    by (metis prod.collapse)
qed

end
