(* ===== verification/Utf8_Text.thy ===== *)
theory Utf8_Text
  imports Prelude
begin

text \<open>
  What the code asks of the characters of a Rust \<open>String\<close>: the code points its UTF-8 bytes encode,
  \<open>char::is_whitespace\<close>, \<open>char::is_control\<close>, and the emptiness of \<open>str::trim\<close>. A \<open>String\<close> is
  always well formed; on other byte lists the decoder reads a stray byte as a character.
\<close>

definition continuation :: "char \<Rightarrow> nat" where
  "continuation c = of_char c mod 64"

fun utf8_chars :: "string \<Rightarrow> nat list" where
  "utf8_chars [] = []"
| "utf8_chars (a # s) =
     (let n = of_char a in
      if n < 192 then n # utf8_chars s
      else if n < 224 then
        (case s of
           b # r \<Rightarrow> ((n - 192) * 64 + continuation b) # utf8_chars r
         | _ \<Rightarrow> [n])
      else if n < 240 then
        (case s of
           b # c # r \<Rightarrow> ((n - 224) * 4096 + continuation b * 64 + continuation c) # utf8_chars r
         | _ \<Rightarrow> [n])
      else
        (case s of
           b # c # d # r \<Rightarrow>
             ((n - 240) * 262144 + continuation b * 4096 + continuation c * 64 + continuation d)
             # utf8_chars r
         | _ \<Rightarrow> [n]))"

definition is_control_char :: "nat \<Rightarrow> bool" where
  "is_control_char n \<longleftrightarrow> n \<le> 31 \<or> (127 \<le> n \<and> n \<le> 159)"

definition is_whitespace_char :: "nat \<Rightarrow> bool" where
  "is_whitespace_char n \<longleftrightarrow>
     (9 \<le> n \<and> n \<le> 13) \<or> n \<in> {32, 133, 160, 5760, 8232, 8233, 8239, 8287, 12288}
     \<or> (8192 \<le> n \<and> n \<le> 8202)"

definition trim_is_empty :: "string \<Rightarrow> bool" where
  "trim_is_empty s \<longleftrightarrow> list_all is_whitespace_char (utf8_chars s)"

definition any_control :: "string \<Rightarrow> bool" where
  "any_control s \<longleftrightarrow> list_ex is_control_char (utf8_chars s)"

definition any_whitespace_or_control :: "string \<Rightarrow> bool" where
  "any_whitespace_or_control s \<longleftrightarrow>
     list_ex (\<lambda>n. is_whitespace_char n \<or> is_control_char n) (utf8_chars s)"

text \<open>On ASCII text the code points are the bytes.\<close>

definition ascii :: "string \<Rightarrow> bool" where
  "ascii s \<longleftrightarrow> list_all (\<lambda>c. of_char c < (128 :: nat)) s"

lemma utf8_chars_ascii: "ascii s \<Longrightarrow> utf8_chars s = map of_char s"
  by (induction s) (simp_all add: ascii_def)

text \<open>A printable ASCII text that is not empty has no control character and survives \<open>trim\<close>.\<close>

definition printable :: "string \<Rightarrow> bool" where
  "printable s \<longleftrightarrow> s \<noteq> [] \<and> list_all (\<lambda>c. (32 :: nat) < of_char c \<and> of_char c < (127 :: nat)) s"

lemma printable_text:
  assumes "printable s"
  shows "\<not> trim_is_empty s" and "\<not> any_control s"
proof -
  have "ascii s"
    using assms by (auto simp: printable_def ascii_def list_all_iff)
  then have chars: "utf8_chars s = map of_char s"
    by (rule utf8_chars_ascii)
  obtain c r where s: "s = c # r"
    using assms by (cases s) (auto simp: printable_def)
  then have "(32 :: nat) < of_char c" "of_char c < (127 :: nat)"
    using assms by (auto simp: printable_def)
  then show "\<not> trim_is_empty s"
    by (auto simp: trim_is_empty_def chars s is_whitespace_char_def)
  show "\<not> any_control s"
    using assms by (auto simp: any_control_def chars printable_def list_ex_iff list_all_iff
        is_control_char_def)
qed

text \<open>\<open>str::split\<close> by a predicate on characters, for ASCII separators classes decided byte-wise:
  a byte that is not ASCII belongs to a character the predicate separates at.\<close>

fun split_bytes :: "(char \<Rightarrow> bool) \<Rightarrow> string \<Rightarrow> string list" where
  "split_bytes sep [] = [[]]"
| "split_bytes sep (c # cs) =
     (if sep c then [] # split_bytes sep cs
      else (case split_bytes sep cs of
              [] \<Rightarrow> [[c]]
            | w # ws \<Rightarrow> (c # w) # ws))"

lemma split_bytes_nonempty [simp]: "split_bytes sep s \<noteq> []"
  by (induction s) (auto split: list.splits)

lemma concat_split_bytes: "concat (split_bytes sep s) = filter (\<lambda>c. \<not> sep c) s"
  by (induction s) (auto split: list.splits)

lemma split_bytes_no_sep:
  assumes "w \<in> set (split_bytes sep s)" and "c \<in> set w"
  shows "\<not> sep c"
proof -
  have "c \<in> set (concat (split_bytes sep s))" using assms by auto
  then show ?thesis by (simp add: concat_split_bytes)
qed

end
