(* ===== verification/Evidence.thy ===== *)
theory Evidence
  imports Contracts Utf8_Text
begin

text \<open>
  The evidence wire of the shared contracts (\<open>contracts/src/lib.rs\<close>): evidence event drafts, signed
  events, authority event requests, their signed receipts, and the review material an approval is
  based on. The UUID library, canonical JSON, SHA-256, Ed25519 and base64 are the fields of
  \<open>evidence_env\<close>; \<open>ee_uuid_text v\<close> is the canonical text of the UUID that \<open>v\<close> parses to. A check that
  reads the wall clock itself takes what it reads as the argument \<open>utc_now\<close>.
\<close>

subsection \<open>Events\<close>

datatype evidence_event_type = EvTaskCreated | EvPlanGenerated | EvPolicyEvaluated
  | EvApprovalDecision | EvApprovalReviewPrepared | EvCredentialIssued | EvToolPrepared
  | EvToolExecuted | EvCompensation | EvEvaluation | EvSecurityAlert | EvStateTransition
  | EvAuditQuery | EvAuditExport | EvLegalHold | EvRetentionDeletion

record evidence_draft =
  evd_schema_version :: string
  evd_tenant_id :: string
  evd_task_id :: string
  evd_event_type :: evidence_event_type
  evd_actor_subject :: string
  evd_source_service :: string
  evd_trace_id :: string
  evd_span_id :: string
  evd_payload_hash :: string
  evd_safe_summary :: string
  evd_artifact_refs :: "string list"
  evd_occurred_at :: datetime

record signed_event =
  sev_schema_version :: string
  sev_event_id :: string
  sev_sequence :: u64
  sev_previous_hash :: string
  sev_event_hash :: string
  sev_key_id :: string
  sev_signature :: string
  sev_draft :: evidence_draft

datatype authority_source_kind = GovernedAction | AuthenticatedEvent

record control_binding =
  acb_action_hash :: string
  acb_ledger_execution_id :: string
  acb_ledger_event_id :: string
  acb_ledger_event_digest :: string
  acb_fence_digest :: string
  acb_policy_decision_id :: string
  acb_policy_decision_digest :: string
  acb_authorization_evidence_ref :: string
  acb_authorization_evidence_digest :: string

record authority_request =
  aer_schema_version :: string
  aer_tenant_id :: string
  aer_task_id :: string
  aer_authority_event_id :: string
  aer_idempotency_key :: string
  aer_source_kind :: authority_source_kind
  aer_control_binding :: "control_binding option"
  aer_event :: evidence_draft
  aer_requested_at :: datetime

record authority_receipt =
  sar_schema_version :: string
  sar_tenant_id :: string
  sar_task_id :: string
  sar_authority_event_id :: string
  sar_idempotency_key :: string
  sar_source_kind :: authority_source_kind
  sar_request_digest :: string
  sar_payload_digest :: string
  sar_evidence_ref :: string
  sar_evidence_digest :: string
  sar_event :: signed_event
  sar_persisted_at :: datetime
  sar_issuer :: string
  sar_key_id :: string
  sar_key_usage :: string
  sar_signature :: string

record coding_details =
  cd_diff_artifact_ref :: string
  cd_command_summary :: string
  cd_network_scope :: string
  cd_rollback_summary :: string

record industrial_details =
  in_current_value :: string
  in_target_value :: string
  in_allowed_range :: string
  in_interlock_summary :: string
  in_physical_impact :: string

datatype review_context = Coding coding_details | Industrial industrial_details

record review_material =
  arm_schema_version :: string
  arm_tenant_id :: string
  arm_task_id :: string
  arm_canonical_action_hash :: string
  arm_resource :: string
  arm_resource_version :: string
  arm_policy_version :: string
  arm_environment :: string
  arm_risk :: risk_level
  arm_review_context :: review_context
  arm_risk_package_ref :: string
  arm_risk_package_digest :: string
  arm_state_snapshot_ref :: string
  arm_state_snapshot_digest :: string

record review_issue_request =
  ari_schema_version :: string
  ari_request_id :: string
  ari_idempotency_key :: string
  ari_actor_subject :: string
  ari_source_service :: string
  ari_trace_id :: string
  ari_material :: review_material
  ari_requested_at :: datetime

record review_evidence =
  are_schema_version :: string
  are_material :: review_material
  are_authority_request :: authority_request
  are_receipt :: authority_receipt

record ('sk, 'vk) evidence_env =
  ee_signer :: "('sk, 'vk) signer"
  ee_uuid_text :: "string \<Rightarrow> string option"
  ee_sha256_hex :: "string \<Rightarrow> string"
  ee_jcs_event :: "signed_event \<Rightarrow> string option"
  ee_jcs_request :: "authority_request \<Rightarrow> string option"
  ee_jcs_receipt :: "authority_receipt \<Rightarrow> string option"
  ee_jcs_material :: "review_material \<Rightarrow> string option"

definition canonical_uuid :: "('sk, 'vk) evidence_env \<Rightarrow> string \<Rightarrow> bool" where
  "canonical_uuid env v \<longleftrightarrow> ee_uuid_text env v = Some v"

definition canonical_digest ::
  "('sk, 'vk) evidence_env \<Rightarrow> string option \<Rightarrow> contract_error + string" where
  "canonical_digest env bytes =
     (case bytes of None \<Rightarrow> Err Canonicalization | Some b \<Rightarrow> Ok (ee_sha256_hex env b))"

definition signature_ok ::
  "('sk, 'vk) evidence_env \<Rightarrow> 'vk \<Rightarrow> string \<Rightarrow> string \<Rightarrow> contract_error + unit" where
  "signature_ok env key bytes signature =
     (if \<not> sg_decodes (ee_signer env) signature then Err SignatureInvalid
      else if sg_verify (ee_signer env) key bytes signature then Ok () else Err SignatureInvalid)"

definition EVIDENCE_EVENT_SCHEMA_VERSION :: string where
  "EVIDENCE_EVENT_SCHEMA_VERSION = ''agenttrust.evidence.v1''"

definition AUTHORITY_EVIDENCE_EVENT_REQUEST_SCHEMA_VERSION :: string where
  "AUTHORITY_EVIDENCE_EVENT_REQUEST_SCHEMA_VERSION = ''agenttrust.authority-evidence-event-request.v1''"

definition AUTHORITY_EVIDENCE_RECEIPT_SCHEMA_VERSION :: string where
  "AUTHORITY_EVIDENCE_RECEIPT_SCHEMA_VERSION = ''agenttrust.signed-authority-evidence-receipt.v1''"

definition AUTHORITY_EVIDENCE_RECEIPT_KEY_USAGE :: string where
  "AUTHORITY_EVIDENCE_RECEIPT_KEY_USAGE = ''AUTHORITY_EVIDENCE_RECEIPT''"

definition APPROVAL_REVIEW_EVIDENCE_SCHEMA_VERSION :: string where
  "APPROVAL_REVIEW_EVIDENCE_SCHEMA_VERSION = ''agenttrust.approval-review-evidence-binding.v1''"

definition APPROVAL_REVIEW_MATERIAL_SCHEMA_VERSION :: string where
  "APPROVAL_REVIEW_MATERIAL_SCHEMA_VERSION = ''agenttrust.approval-review-material.v1''"

definition APPROVAL_REVIEW_EVIDENCE_ISSUE_SCHEMA_VERSION :: string where
  "APPROVAL_REVIEW_EVIDENCE_ISSUE_SCHEMA_VERSION = ''agenttrust.approval-review-evidence-issue.v2''"

definition APPROVAL_REVIEW_MAX_EVIDENCE_LIFETIME_SECONDS :: int where
  "APPROVAL_REVIEW_MAX_EVIDENCE_LIFETIME_SECONDS = 900"

definition APPROVAL_REVIEW_MAX_CLOCK_SKEW_SECONDS :: int where
  "APPROVAL_REVIEW_MAX_CLOCK_SKEW_SECONDS = 30"

subsection \<open>Drafts and signed events\<close>

definition draft_valid :: "('sk, 'vk) evidence_env \<Rightarrow> evidence_draft \<Rightarrow> bool" where
  "draft_valid env d \<longleftrightarrow>
     evd_schema_version d = EVIDENCE_EVENT_SCHEMA_VERSION
     \<and> canonical_uuid env (evd_tenant_id d) \<and> canonical_uuid env (evd_task_id d)
     \<and> bounded_nonempty (evd_actor_subject d) 512 \<and> bounded_nonempty (evd_source_service d) 256
     \<and> bounded_nonempty (evd_trace_id d) 256 \<and> bounded_nonempty (evd_span_id d) 256
     \<and> is_lower_hex_digest (evd_payload_hash d) \<and> length (evd_safe_summary d) \<le> 512
     \<and> length (evd_artifact_refs d) \<le> 256
     \<and> list_all (\<lambda>a. bounded_nonempty a 2048) (evd_artifact_refs d)"

definition draft_validate ::
  "('sk, 'vk) evidence_env \<Rightarrow> evidence_draft \<Rightarrow> contract_error + unit" where
  "draft_validate env d = reject_if (\<not> draft_valid env d) ScopeExceeded"

definition event_signing_bytes :: "('sk, 'vk) evidence_env \<Rightarrow> signed_event \<Rightarrow> string option" where
  "event_signing_bytes env e = ee_jcs_event env (e\<lparr>sev_event_hash := [], sev_signature := []\<rparr>)"

definition event_expected_hash ::
  "('sk, 'vk) evidence_env \<Rightarrow> signed_event \<Rightarrow> contract_error + string" where
  "event_expected_hash env e = canonical_digest env (event_signing_bytes env e)"

definition event_verify ::
  "('sk, 'vk) evidence_env \<Rightarrow> signed_event \<Rightarrow> 'vk \<Rightarrow> contract_error + unit" where
  "event_verify env e key =
     res_bind (draft_validate env (sev_draft e)) (\<lambda>_.
       if sev_schema_version e \<noteq> EVIDENCE_EVENT_SCHEMA_VERSION
          \<or> \<not> canonical_uuid env (sev_event_id e) \<or> sev_sequence e = 0
          \<or> \<not> is_lower_hex_digest (sev_previous_hash e) \<or> \<not> is_lower_hex_digest (sev_event_hash e)
       then Err HashMismatch
       else res_bind (event_expected_hash env e) (\<lambda>h.
         if sev_event_hash e \<noteq> h \<or> \<not> bounded_nonempty (sev_key_id e) 128 then Err HashMismatch
         else signature_ok env key (sev_event_hash e) (sev_signature e)))"

subsection \<open>Authority requests and receipts\<close>

definition binding_valid :: "('sk, 'vk) evidence_env \<Rightarrow> control_binding \<Rightarrow> bool" where
  "binding_valid env b \<longleftrightarrow>
     is_lower_hex_digest (acb_action_hash b) \<and> canonical_uuid env (acb_ledger_execution_id b)
     \<and> canonical_uuid env (acb_ledger_event_id b) \<and> is_lower_hex_digest (acb_ledger_event_digest b)
     \<and> is_lower_hex_digest (acb_fence_digest b) \<and> bounded_nonempty (acb_policy_decision_id b) 256
     \<and> is_lower_hex_digest (acb_policy_decision_digest b)
     \<and> bounded_nonempty (acb_authorization_evidence_ref b) 2048
     \<and> is_lower_hex_digest (acb_authorization_evidence_digest b)"

text \<open>\<open>kind_matches\<close>: a governed action carries its control binding, an observation carries none.\<close>

fun kind_matches :: "authority_source_kind \<Rightarrow> control_binding option \<Rightarrow> bool" where
  "kind_matches GovernedAction (Some _) = True"
| "kind_matches AuthenticatedEvent None = True"
| "kind_matches _ _ = False"

definition request_digest ::
  "('sk, 'vk) evidence_env \<Rightarrow> datetime \<Rightarrow> authority_request \<Rightarrow> contract_error + string" where
  "request_digest env utc_now r =
     res_bind (draft_validate env (aer_event r)) (\<lambda>_.
       if aer_schema_version r \<noteq> AUTHORITY_EVIDENCE_EVENT_REQUEST_SCHEMA_VERSION
          \<or> \<not> canonical_uuid env (aer_tenant_id r) \<or> \<not> canonical_uuid env (aer_task_id r)
          \<or> \<not> canonical_uuid env (aer_authority_event_id r)
          \<or> \<not> valid_idempotency_key (aer_idempotency_key r)
          \<or> evd_tenant_id (aer_event r) \<noteq> aer_tenant_id r
          \<or> evd_task_id (aer_event r) \<noteq> aer_task_id r
          \<or> \<not> kind_matches (aer_source_kind r) (aer_control_binding r)
          \<or> evd_event_type (aer_event r) \<in> {EvTaskCreated, EvPlanGenerated, EvToolExecuted}
          \<or> aer_requested_at r > utc_now + chrono_minutes 1
          \<or> evd_occurred_at (aer_event r) > aer_requested_at r + chrono_minutes 1
       then Err ScopeExceeded
       else res_bind
         (case aer_control_binding r of
            None \<Rightarrow> Ok () | Some b \<Rightarrow> reject_if (\<not> binding_valid env b) ScopeExceeded)
         (\<lambda>_. canonical_digest env (ee_jcs_request env r)))"

definition receipt_signing_bytes :: "('sk, 'vk) evidence_env \<Rightarrow> authority_receipt \<Rightarrow> string option" where
  "receipt_signing_bytes env r =
     ee_jcs_receipt env (r\<lparr>sar_evidence_digest := [], sar_signature := []\<rparr>)"

definition receipt_expected_digest ::
  "('sk, 'vk) evidence_env \<Rightarrow> authority_receipt \<Rightarrow> contract_error + string" where
  "receipt_expected_digest env r = canonical_digest env (receipt_signing_bytes env r)"

definition expected_evidence_ref :: "authority_receipt \<Rightarrow> string" where
  "expected_evidence_ref r =
     ''evidence://authority-event/'' @ sar_tenant_id r @ ''/'' @ sar_task_id r @ ''/''
     @ sar_authority_event_id r @ ''/'' @ sev_event_hash (sar_event r)"

definition receipt_sign ::
  "('sk, 'vk) evidence_env \<Rightarrow> 'sk \<Rightarrow> authority_receipt \<Rightarrow> contract_error + authority_receipt" where
  "receipt_sign env key r =
     res_bind (receipt_expected_digest env r) (\<lambda>d.
       Ok (r\<lparr>sar_evidence_digest := d, sar_signature := sg_sign (ee_signer env) key d\<rparr>))"

definition receipt_verify ::
  "('sk, 'vk) evidence_env \<Rightarrow> authority_receipt \<Rightarrow> 'vk \<Rightarrow> datetime \<Rightarrow> contract_error + unit" where
  "receipt_verify env r key now =
     res_bind (event_verify env (sar_event r) key) (\<lambda>_.
       if sar_schema_version r \<noteq> AUTHORITY_EVIDENCE_RECEIPT_SCHEMA_VERSION
          \<or> sar_key_usage r \<noteq> AUTHORITY_EVIDENCE_RECEIPT_KEY_USAGE
          \<or> \<not> canonical_uuid env (sar_tenant_id r) \<or> \<not> canonical_uuid env (sar_task_id r)
          \<or> \<not> canonical_uuid env (sar_authority_event_id r)
          \<or> \<not> valid_idempotency_key (sar_idempotency_key r)
          \<or> \<not> is_lower_hex_digest (sar_request_digest r)
          \<or> \<not> is_lower_hex_digest (sar_payload_digest r)
          \<or> sev_event_id (sar_event r) \<noteq> sar_authority_event_id r
          \<or> evd_tenant_id (sev_draft (sar_event r)) \<noteq> sar_tenant_id r
          \<or> evd_task_id (sev_draft (sar_event r)) \<noteq> sar_task_id r
          \<or> evd_payload_hash (sev_draft (sar_event r)) \<noteq> sar_payload_digest r
          \<or> sar_evidence_ref r \<noteq> expected_evidence_ref r
       then Err HashMismatch
       else res_bind (receipt_expected_digest env r) (\<lambda>d.
         if sar_evidence_digest r \<noteq> d
            \<or> sar_persisted_at r < evd_occurred_at (sev_draft (sar_event r))
            \<or> sar_persisted_at r > now
            \<or> \<not> bounded_nonempty (sar_issuer r) 256 \<or> \<not> bounded_nonempty (sar_key_id r) 128
            \<or> sar_key_id r \<noteq> sev_key_id (sar_event r)
         then Err HashMismatch
         else signature_ok env key (sar_evidence_digest r) (sar_signature r)))"

subsection \<open>Review material\<close>

definition secret_markers :: "string list" where
  "secret_markers = [''authorization:'', ''bearer '', ''password'', ''passwd'', ''client_secret'',
     ''api_key'', ''api-key'', ''apikey'', ''x-api-key'', ''private key'', ''-----begin'',
     ''cookie:'', ''set-cookie'', ''credential://'', ''vault-kv://'', ''secret://'', ''token='',
     ''token:'']"

definition approval_review_secret_marker :: "string \<Rightarrow> bool" where
  "approval_review_secret_marker value \<longleftrightarrow>
     list_ex (str_contains (to_ascii_lowercase value)) secret_markers"

definition approval_review_bounded :: "string \<Rightarrow> nat \<Rightarrow> bool" where
  "approval_review_bounded value maximum \<longleftrightarrow>
     \<not> trim_is_empty value \<and> length value \<le> maximum \<and> \<not> any_control value
     \<and> \<not> approval_review_secret_marker value"

definition is_ascii_alphabetic :: "char \<Rightarrow> bool" where
  "is_ascii_alphabetic c \<longleftrightarrow> is_ascii_uppercase c \<or> is_ascii_lowercase c"

text \<open>A fragment that looks like a credential: long, with letters and digits.\<close>

definition token_like :: "string \<Rightarrow> bool" where
  "token_like fragment \<longleftrightarrow>
     32 \<le> length fragment \<and> list_ex is_ascii_alphabetic fragment \<and> list_ex is_ascii_digit fragment"

definition approval_review_text :: "string \<Rightarrow> nat \<Rightarrow> bool" where
  "approval_review_text value maximum \<longleftrightarrow>
     approval_review_bounded value maximum
     \<and> \<not> list_ex token_like
           (split_bytes (\<lambda>c. \<not> (is_ascii_alphanumeric c \<or> c \<in> set ''-_'')) value)"

definition approval_review_identifier :: "string \<Rightarrow> nat \<Rightarrow> bool" where
  "approval_review_identifier value maximum \<longleftrightarrow>
     value \<noteq> [] \<and> length value \<le> maximum
     \<and> list_all (\<lambda>b. is_ascii_alphanumeric b \<or> b \<in> set ''-_.:/@'') value"

definition approval_review_source_identity :: "string \<Rightarrow> bool" where
  "approval_review_source_identity value \<longleftrightarrow>
     (case (case strip_prefix ''DNS:'' value of
              Some i \<Rightarrow> Some i | None \<Rightarrow> strip_prefix ''URI:'' value) of
        None \<Rightarrow> False
      | Some i \<Rightarrow> i \<noteq> [] \<and> approval_review_identifier value 256)"

definition approval_review_artifact_ref :: "string \<Rightarrow> bool" where
  "approval_review_artifact_ref value \<longleftrightarrow>
     (case strip_prefix ''artifact://sha256/'' value of
        None \<Rightarrow> False | Some d \<Rightarrow> is_lower_hex_digest d)"

definition approval_review_evidence_ref :: "string \<Rightarrow> bool" where
  "approval_review_evidence_ref value \<longleftrightarrow>
     (case (case strip_prefix ''evidence://'' value of
              Some x \<Rightarrow> Some x
            | None \<Rightarrow> (case strip_prefix ''urn:agenttrust:evidence:'' value of
                         Some x \<Rightarrow> Some x
                       | None \<Rightarrow> strip_prefix ''urn:agenttrust:ledger-evidence:'' value)) of
        None \<Rightarrow> False
      | Some suffix \<Rightarrow>
          suffix \<noteq> [] \<and> length value \<le> 2048 \<and> \<not> approval_review_secret_marker value
          \<and> \<not> any_whitespace_or_control value \<and> \<not> list_ex (\<lambda>c. c \<in> set ''?#'') value)"

definition industrial_prefixes :: "string list" where
  "industrial_prefixes = [''opcua:'', ''opc.tcp:'', ''mqtt:'', ''modbus:'', ''plc:'', ''scada:'',
     ''plant/'', ''urn:agenttrust:industrial:'']"

definition approval_review_resource_is_industrial :: "string \<Rightarrow> string \<Rightarrow> bool" where
  "approval_review_resource_is_industrial resource environment \<longleftrightarrow>
     list_ex (\<lambda>p. strip_prefix p (to_ascii_lowercase resource) \<noteq> None) industrial_prefixes
     \<or> environment \<in> {''industrial'', ''physical-production''}"

fun context_valid :: "review_context \<Rightarrow> bool" where
  "context_valid (Coding d) =
     (approval_review_artifact_ref (cd_diff_artifact_ref d)
      \<and> approval_review_text (cd_command_summary d) 2048
      \<and> approval_review_text (cd_network_scope d) 1024
      \<and> approval_review_text (cd_rollback_summary d) 2048)"
| "context_valid (Industrial d) =
     (approval_review_text (in_current_value d) 512
      \<and> approval_review_text (in_target_value d) 512
      \<and> approval_review_text (in_allowed_range d) 512
      \<and> approval_review_text (in_interlock_summary d) 2048
      \<and> approval_review_text (in_physical_impact d) 2048)"

fun context_industrial :: "review_context \<Rightarrow> bool" where
  "context_industrial (Industrial _) = True"
| "context_industrial (Coding _) = False"

definition material_valid :: "('sk, 'vk) evidence_env \<Rightarrow> review_material \<Rightarrow> bool" where
  "material_valid env m \<longleftrightarrow>
     arm_schema_version m = APPROVAL_REVIEW_MATERIAL_SCHEMA_VERSION
     \<and> canonical_uuid env (arm_tenant_id m) \<and> canonical_uuid env (arm_task_id m)
     \<and> is_lower_hex_digest (arm_canonical_action_hash m)
     \<and> approval_review_bounded (arm_resource m) 2048
     \<and> approval_review_bounded (arm_resource_version m) 2048
     \<and> approval_review_bounded (arm_policy_version m) 2048
     \<and> approval_review_bounded (arm_environment m) 2048
     \<and> context_valid (arm_review_context m)
     \<and> (approval_review_resource_is_industrial (arm_resource m) (arm_environment m)
        \<longleftrightarrow> context_industrial (arm_review_context m))
     \<and> approval_review_evidence_ref (arm_risk_package_ref m)
     \<and> is_lower_hex_digest (arm_risk_package_digest m)
     \<and> approval_review_evidence_ref (arm_state_snapshot_ref m)
     \<and> is_lower_hex_digest (arm_state_snapshot_digest m)
     \<and> arm_risk_package_ref m \<noteq> arm_state_snapshot_ref m"

definition payload_digest :: "('sk, 'vk) evidence_env \<Rightarrow> review_material \<Rightarrow> contract_error + string" where
  "payload_digest env m =
     (if \<not> material_valid env m then Err ScopeExceeded
      else canonical_digest env (ee_jcs_material env m))"

fun material_artifact_refs :: "review_material \<Rightarrow> string list" where
  "material_artifact_refs m =
     (case arm_review_context m of
        Coding d \<Rightarrow> [cd_diff_artifact_ref d, arm_risk_package_ref m, arm_state_snapshot_ref m]
      | Industrial _ \<Rightarrow> [arm_risk_package_ref m, arm_state_snapshot_ref m])"

definition material_safe_summary :: "review_material \<Rightarrow> string" where
  "material_safe_summary m =
     (case arm_review_context m of
        Coding _ \<Rightarrow> ''Approval coding review facts prepared''
      | Industrial _ \<Rightarrow> ''Approval industrial review facts prepared'')"

definition issue_valid ::
  "('sk, 'vk) evidence_env \<Rightarrow> review_issue_request \<Rightarrow> string \<Rightarrow> datetime \<Rightarrow> bool" where
  "issue_valid env i expected_source now \<longleftrightarrow>
     ari_schema_version i = APPROVAL_REVIEW_EVIDENCE_ISSUE_SCHEMA_VERSION
     \<and> canonical_uuid env (ari_request_id i) \<and> valid_idempotency_key (ari_idempotency_key i)
     \<and> approval_review_identifier (ari_actor_subject i) 512
     \<and> approval_review_source_identity (ari_source_service i)
     \<and> ari_source_service i = expected_source
     \<and> approval_review_identifier (ari_trace_id i) 256
     \<and> \<not> approval_review_secret_marker (ari_actor_subject i)
     \<and> \<not> approval_review_secret_marker (ari_source_service i)
     \<and> \<not> approval_review_secret_marker (ari_trace_id i)
     \<and> ari_requested_at i \<le> now + chrono_seconds APPROVAL_REVIEW_MAX_CLOCK_SKEW_SECONDS
     \<and> now - chrono_seconds APPROVAL_REVIEW_MAX_EVIDENCE_LIFETIME_SECONDS \<le> ari_requested_at i"

definition issue_event :: "review_issue_request \<Rightarrow> string \<Rightarrow> evidence_draft" where
  "issue_event i payload_hash =
     \<lparr>evd_schema_version = EVIDENCE_EVENT_SCHEMA_VERSION,
      evd_tenant_id = arm_tenant_id (ari_material i), evd_task_id = arm_task_id (ari_material i),
      evd_event_type = EvApprovalReviewPrepared, evd_actor_subject = ari_actor_subject i,
      evd_source_service = ari_source_service i, evd_trace_id = ari_trace_id i,
      evd_span_id = ari_request_id i, evd_payload_hash = payload_hash,
      evd_safe_summary = material_safe_summary (ari_material i),
      evd_artifact_refs = material_artifact_refs (ari_material i),
      evd_occurred_at = ari_requested_at i\<rparr>"

definition issue_authority_request :: "review_issue_request \<Rightarrow> string \<Rightarrow> authority_request" where
  "issue_authority_request i payload_hash =
     \<lparr>aer_schema_version = AUTHORITY_EVIDENCE_EVENT_REQUEST_SCHEMA_VERSION,
      aer_tenant_id = arm_tenant_id (ari_material i), aer_task_id = arm_task_id (ari_material i),
      aer_authority_event_id = ari_request_id i, aer_idempotency_key = ari_idempotency_key i,
      aer_source_kind = AuthenticatedEvent, aer_control_binding = None,
      aer_event = issue_event i payload_hash, aer_requested_at = ari_requested_at i\<rparr>"

definition to_authority_event ::
  "('sk, 'vk) evidence_env \<Rightarrow> datetime \<Rightarrow> review_issue_request \<Rightarrow> string \<Rightarrow> datetime
   \<Rightarrow> contract_error + authority_request" where
  "to_authority_event env utc_now i expected_source now =
     (if \<not> issue_valid env i expected_source now then Err ScopeExceeded
      else res_bind (payload_digest env (ari_material i)) (\<lambda>payload_hash.
        let r = issue_authority_request i payload_hash
        in res_bind (request_digest env utc_now r) (\<lambda>_. Ok r)))"

definition evidence_refs :: "review_evidence \<Rightarrow> string list" where
  "evidence_refs e = [arm_risk_package_ref (are_material e), arm_state_snapshot_ref (are_material e),
     sar_evidence_ref (are_receipt e)]"

subsection \<open>Concrete libraries\<close>

text \<open>
  Library functions the properties can be tried on: a signature is the key followed by the message,
  every serialization is empty and every digest the same. They satisfy what the properties assume of
  the libraries.
\<close>

definition sample_evidence_signer :: "(string, string) signer" where
  "sample_evidence_signer = \<lparr>sg_sign = (\<lambda>k m. k @ m), sg_public = (\<lambda>k. k), sg_decodes = (\<lambda>_. True),
     sg_verify = (\<lambda>k m s. s = k @ m)\<rparr>"

definition sample_sha :: string where
  "sample_sha = replicate 64 CHR ''a''"

definition sample_evidence_env :: "(string, string) evidence_env" where
  "sample_evidence_env = \<lparr>ee_signer = sample_evidence_signer, ee_uuid_text = Some,
     ee_sha256_hex = (\<lambda>_. sample_sha), ee_jcs_event = (\<lambda>_. Some []),
     ee_jcs_request = (\<lambda>_. Some []), ee_jcs_receipt = (\<lambda>_. Some []),
     ee_jcs_material = (\<lambda>_. Some [])\<rparr>"

lemma sample_evidence_signer_correct [simp]: "signer_correct (ee_signer sample_evidence_env)"
  by (simp add: signer_correct_def sample_evidence_env_def sample_evidence_signer_def)

definition sample_draft :: evidence_draft where
  "sample_draft = \<lparr>evd_schema_version = EVIDENCE_EVENT_SCHEMA_VERSION, evd_tenant_id = ''t'',
     evd_task_id = ''k'', evd_event_type = EvPolicyEvaluated, evd_actor_subject = ''user:1'',
     evd_source_service = ''DNS:gateway'', evd_trace_id = ''trace'', evd_span_id = ''span'',
     evd_payload_hash = sample_sha, evd_safe_summary = ''safe'', evd_artifact_refs = [],
     evd_occurred_at = 0\<rparr>"

end
