(* ===== verification/Review_Evidence.thy ===== *)
theory Review_Evidence
  imports Evidence
begin

text \<open>
  The review evidence of an approval request (\<open>enterprise-approval/src/review_evidence.rs\<close>): the
  keyring of the evidence authorities, how it is loaded, and the check that the facts a request was
  reviewed on are bound to a signed receipt. \<open>verify_at\<close> reads the wall clock twice through
  \<open>request_digest\<close>; what it reads are the arguments \<open>utc1\<close> and \<open>utc2\<close>.
\<close>

subsection \<open>Errors and requests\<close>

datatype approval_error = PConfigurationInvalid | PPolicyInvalid | PRequestInvalid | PCaseNotFound
  | PApproverNotEligible | PDuplicateApprover | PLifecycleInvalid | PExpired | PRevoked
  | PGrantInvalid | PGrantReplayed | PBindingChanged | PApproverRoleChanged | PBreakGlassDenied
  | PNotificationFailed | PDatabaseUnavailable | PIdempotencyInvalid | PIdempotencyConflict
  | PAuthenticationRequired | PScopeForbidden | PGrantNotReady | PConcurrentMutation

record approval_request =
  apr_tenant_id :: string
  apr_task_id :: string
  apr_step_id :: string
  apr_action_hash :: string
  apr_plan_hash :: string
  apr_parameter_hash :: string
  apr_resource :: string
  apr_resource_version :: string
  apr_policy_version :: string
  apr_environment :: string
  apr_risk :: risk_level
  apr_review_context :: review_context
  apr_review_evidence :: review_evidence
  apr_requester_subject :: string
  apr_agent_owner_subject :: string
  apr_justification :: string
  apr_requested_ttl_seconds :: u64
  apr_requested_uses :: u32

text \<open>\<open>res_map_err e r\<close> is \<open>r.map_err(|_| e)\<close>.\<close>

definition res_map_err :: "'e \<Rightarrow> 'f + 'a \<Rightarrow> 'e + 'a" where
  "res_map_err e r = (case r of Inl _ \<Rightarrow> Err e | Inr x \<Rightarrow> Ok x)"

lemma res_map_err_Ok_iff: "res_map_err e r = Ok x \<longleftrightarrow> r = Ok x"
  by (cases r) (auto simp: res_map_err_def)

subsection \<open>The keyring\<close>

record ring_key_document =
  rkd_issuer :: string
  rkd_key_id :: string
  rkd_source_services :: "string list"
  rkd_algorithm :: string
  rkd_usage :: string
  rkd_status :: string
  rkd_public_key :: string
  rkd_tenant_ids :: "string list"
  rkd_not_before :: datetime
  rkd_expires_at :: datetime

record ring_document =
  rd_schema_version :: string
  rd_keys :: "ring_key_document list"

record 'vk ring_key =
  rk_key :: 'vk
  rk_source_services :: "string list"
  rk_tenant_ids :: "string list"
  rk_not_before :: datetime
  rk_expires_at :: datetime
  rk_active :: bool

type_synonym 'vk keyring = "(string \<times> string, 'vk ring_key) btree"

text \<open>
  Reading a document: \<open>rg_parse\<close> is the JSON deserializer, which yields the sets in ascending order,
  \<open>rg_key\<close> decodes base64 to 32 bytes and these to an Ed25519 key.
\<close>

record 'vk ring_env =
  rg_parse :: "string \<Rightarrow> ring_document option"
  rg_key :: "string \<Rightarrow> 'vk option"

definition APPROVAL_REVIEW_EVIDENCE_KEYRING_SCHEMA_VERSION :: string where
  "APPROVAL_REVIEW_EVIDENCE_KEYRING_SCHEMA_VERSION =
     ''agenttrust.approval-review-evidence-keyring.v2''"

definition MAX_DOCUMENT_BYTES :: nat where "MAX_DOCUMENT_BYTES = 1048576"
definition MAX_KEYS :: nat where "MAX_KEYS = 128"
definition MAX_TENANTS_PER_KEY :: nat where "MAX_TENANTS_PER_KEY = 1024"

definition ring_identifier :: "string \<Rightarrow> nat \<Rightarrow> bool" where
  "ring_identifier value maximum \<longleftrightarrow>
     value \<noteq> [] \<and> length value \<le> maximum
     \<and> list_all (\<lambda>b. is_ascii_alphanumeric b \<or> b \<in> set ''-_.:/@'') value"

definition key_identifier :: "string \<Rightarrow> bool" where
  "key_identifier value \<longleftrightarrow>
     value \<noteq> [] \<and> length value \<le> 128
     \<and> list_all (\<lambda>b. is_ascii_alphanumeric b \<or> b \<in> set ''-_.:'') value"

definition source_identity :: "string \<Rightarrow> bool" where
  "source_identity value \<longleftrightarrow>
     (case (case strip_prefix ''DNS:'' value of
              Some i \<Rightarrow> Some i | None \<Rightarrow> strip_prefix ''URI:'' value) of
        None \<Rightarrow> False
      | Some i \<Rightarrow> i \<noteq> [] \<and> ring_identifier value 256)"

definition ring_entry_valid ::
  "('sk, 'vk) evidence_env \<Rightarrow> ring_key_document \<Rightarrow> bool" where
  "ring_entry_valid env d \<longleftrightarrow>
     ring_identifier (rkd_issuer d) 256 \<and> key_identifier (rkd_key_id d)
     \<and> rkd_source_services d \<noteq> [] \<and> length (rkd_source_services d) \<le> 128
     \<and> list_all source_identity (rkd_source_services d)
     \<and> rkd_algorithm d = ''Ed25519'' \<and> rkd_usage d = AUTHORITY_EVIDENCE_RECEIPT_KEY_USAGE
     \<and> rkd_status d \<in> {''ACTIVE'', ''RETIRED''} \<and> rkd_not_before d < rkd_expires_at d
     \<and> rkd_tenant_ids d \<noteq> [] \<and> length (rkd_tenant_ids d) \<le> MAX_TENANTS_PER_KEY
     \<and> list_all (canonical_uuid env) (rkd_tenant_ids d)"

definition ring_entry :: "ring_key_document \<Rightarrow> 'vk \<Rightarrow> 'vk ring_key" where
  "ring_entry d key =
     \<lparr>rk_key = key, rk_source_services = rkd_source_services d, rk_tenant_ids = rkd_tenant_ids d,
      rk_not_before = rkd_not_before d, rk_expires_at = rkd_expires_at d,
      rk_active = (rkd_status d = ''ACTIVE'')\<rparr>"

fun ring_load ::
  "('sk, 'vk) evidence_env \<Rightarrow> 'vk ring_env \<Rightarrow> ring_key_document list \<Rightarrow> 'vk keyring
   \<Rightarrow> approval_error + 'vk keyring" where
  "ring_load env rg [] keys = Ok keys"
| "ring_load env rg (d # ds) keys =
     (if \<not> ring_entry_valid env d then Err PConfigurationInvalid
      else (case rg_key rg (rkd_public_key d) of
              None \<Rightarrow> Err PConfigurationInvalid
            | Some key \<Rightarrow>
                if bt_get keys (rkd_issuer d, rkd_key_id d) \<noteq> None then Err PConfigurationInvalid
                else ring_load env rg ds
                       (bt_insert (rkd_issuer d, rkd_key_id d) (ring_entry d key) keys)))"

definition ring_from_json ::
  "('sk, 'vk) evidence_env \<Rightarrow> 'vk ring_env \<Rightarrow> string \<Rightarrow> approval_error + 'vk keyring" where
  "ring_from_json env rg raw =
     (if raw = [] \<or> length raw > MAX_DOCUMENT_BYTES then Err PConfigurationInvalid
      else (case rg_parse rg raw of
              None \<Rightarrow> Err PConfigurationInvalid
            | Some doc \<Rightarrow>
                if rd_schema_version doc \<noteq> APPROVAL_REVIEW_EVIDENCE_KEYRING_SCHEMA_VERSION
                   \<or> rd_keys doc = [] \<or> length (rd_keys doc) > MAX_KEYS
                then Err PConfigurationInvalid
                else ring_load env rg (rd_keys doc) bt_empty))"

definition covers_tenant_at :: "'vk keyring \<Rightarrow> string \<Rightarrow> datetime \<Rightarrow> bool" where
  "covers_tenant_at ring tenant now \<longleftrightarrow>
     list_ex (\<lambda>k. rk_active k \<and> tenant \<in> set (rk_tenant_ids k) \<and> rk_not_before k \<le> now
        \<and> rk_expires_at k > now + chrono_seconds APPROVAL_REVIEW_MAX_EVIDENCE_LIFETIME_SECONDS)
       (bt_values ring)"

definition covers_source_tenant_at :: "'vk keyring \<Rightarrow> string \<Rightarrow> string \<Rightarrow> datetime \<Rightarrow> bool" where
  "covers_source_tenant_at ring tenant source_service now \<longleftrightarrow>
     source_identity source_service
     \<and> list_ex (\<lambda>k. rk_active k \<and> tenant \<in> set (rk_tenant_ids k)
          \<and> source_service \<in> set (rk_source_services k) \<and> rk_not_before k \<le> now
          \<and> rk_expires_at k > now)
         (bt_values ring)"

subsection \<open>Verification\<close>

definition expected_material :: "approval_request \<Rightarrow> review_material" where
  "expected_material r =
     (let m = are_material (apr_review_evidence r) in
      \<lparr>arm_schema_version = APPROVAL_REVIEW_MATERIAL_SCHEMA_VERSION,
       arm_tenant_id = apr_tenant_id r, arm_task_id = apr_task_id r,
       arm_canonical_action_hash = apr_action_hash r, arm_resource = apr_resource r,
       arm_resource_version = apr_resource_version r, arm_policy_version = apr_policy_version r,
       arm_environment = apr_environment r, arm_risk = apr_risk r,
       arm_review_context = apr_review_context r,
       arm_risk_package_ref = arm_risk_package_ref m,
       arm_risk_package_digest = arm_risk_package_digest m,
       arm_state_snapshot_ref = arm_state_snapshot_ref m,
       arm_state_snapshot_digest = arm_state_snapshot_digest m\<rparr>)"

text \<open>What a receipt must agree with the authority request on.\<close>

definition receipt_matches :: "authority_receipt \<Rightarrow> authority_request \<Rightarrow> string \<Rightarrow> bool" where
  "receipt_matches r a digest \<longleftrightarrow>
     sar_schema_version r = AUTHORITY_EVIDENCE_RECEIPT_SCHEMA_VERSION
     \<and> sar_key_usage r = AUTHORITY_EVIDENCE_RECEIPT_KEY_USAGE
     \<and> sar_tenant_id r = aer_tenant_id a \<and> sar_task_id r = aer_task_id a
     \<and> sar_authority_event_id r = aer_authority_event_id a
     \<and> sar_idempotency_key r = aer_idempotency_key a
     \<and> sar_source_kind r = aer_source_kind a \<and> sar_request_digest r = digest
     \<and> sar_payload_digest r = evd_payload_hash (aer_event a)
     \<and> sev_draft (sar_event r) = aer_event a \<and> aer_requested_at a \<le> sar_persisted_at r"

definition verify_authority_delivery ::
  "('sk, 'vk) evidence_env \<Rightarrow> datetime \<Rightarrow> 'vk keyring \<Rightarrow> authority_request \<Rightarrow> authority_receipt
   \<Rightarrow> datetime \<Rightarrow> approval_error + unit" where
  "verify_authority_delivery env utc_now ring a r now =
     (case bt_get ring (sar_issuer r, sar_key_id r) of
        None \<Rightarrow> Err PGrantInvalid
      | Some k \<Rightarrow>
          res_bind (res_map_err PGrantInvalid (request_digest env utc_now a)) (\<lambda>digest.
            if aer_tenant_id a \<notin> set (rk_tenant_ids k)
               \<or> evd_source_service (aer_event a) \<notin> set (rk_source_services k)
               \<or> rk_not_before k > evd_occurred_at (aer_event a)
               \<or> rk_expires_at k \<le> sar_persisted_at r
            then Err PGrantInvalid
            else res_bind (res_map_err PGrantInvalid (receipt_verify env r (rk_key k) now)) (\<lambda>_.
              reject_if (\<not> receipt_matches r a digest) PGrantInvalid)))"

definition issue_of_evidence :: "review_evidence \<Rightarrow> review_issue_request" where
  "issue_of_evidence e =
     (let a = are_authority_request e in
      \<lparr>ari_schema_version = APPROVAL_REVIEW_EVIDENCE_ISSUE_SCHEMA_VERSION,
       ari_request_id = aer_authority_event_id a, ari_idempotency_key = aer_idempotency_key a,
       ari_actor_subject = evd_actor_subject (aer_event a),
       ari_source_service = evd_source_service (aer_event a),
       ari_trace_id = evd_trace_id (aer_event a), ari_material = are_material e,
       ari_requested_at = aer_requested_at a\<rparr>)"

definition verify_at ::
  "('sk, 'vk) evidence_env \<Rightarrow> datetime \<Rightarrow> datetime \<Rightarrow> 'vk keyring \<Rightarrow> approval_request \<Rightarrow> datetime
   \<Rightarrow> bool \<Rightarrow> approval_error + unit" where
  "verify_at env utc1 utc2 ring req verification_time require_active =
     (let e = apr_review_evidence req; a = are_authority_request e; r = are_receipt e in
      if are_schema_version e \<noteq> APPROVAL_REVIEW_EVIDENCE_SCHEMA_VERSION
         \<or> \<not> material_valid env (are_material e) \<or> are_material e \<noteq> expected_material req
      then Err PRequestInvalid
      else (case bt_get ring (sar_issuer r, sar_key_id r) of
        None \<Rightarrow> Err PRequestInvalid
      | Some k \<Rightarrow>
          if (require_active \<and> \<not> rk_active k) \<or> apr_tenant_id req \<notin> set (rk_tenant_ids k)
             \<or> evd_source_service (aer_event a) \<notin> set (rk_source_services k)
             \<or> rk_not_before k > evd_occurred_at (aer_event a)
             \<or> rk_expires_at k \<le> sar_persisted_at r
          then Err PRequestInvalid
          else
            res_bind (res_map_err PRequestInvalid (receipt_verify env r (rk_key k) verification_time))
            (\<lambda>_. res_bind (res_map_err PRequestInvalid
                    (to_authority_event env utc1 (issue_of_evidence e)
                       (evd_source_service (aer_event a)) verification_time))
            (\<lambda>expected. res_bind (res_map_err PRequestInvalid (request_digest env utc2 expected))
            (\<lambda>digest.
               if a \<noteq> expected \<or> sar_source_kind r \<noteq> AuthenticatedEvent
                  \<or> \<not> receipt_matches r a digest
               then Err PRequestInvalid else Ok ())))))"

definition verify_request ::
  "('sk, 'vk) evidence_env \<Rightarrow> datetime \<Rightarrow> datetime \<Rightarrow> 'vk keyring \<Rightarrow> approval_request \<Rightarrow> datetime
   \<Rightarrow> approval_error + unit" where
  "verify_request env utc1 utc2 ring req now = verify_at env utc1 utc2 ring req now True"

definition verify_historical_request ::
  "('sk, 'vk) evidence_env \<Rightarrow> datetime \<Rightarrow> datetime \<Rightarrow> 'vk keyring \<Rightarrow> approval_request \<Rightarrow> datetime
   \<Rightarrow> approval_error + unit" where
  "verify_historical_request env utc1 utc2 ring req case_created_at =
     verify_at env utc1 utc2 ring req case_created_at False"

end
