(* ===== verification/Review_Evidence_Safety.thy ===== *)
theory Review_Evidence_Safety
  imports Review_Evidence
begin

text \<open>
  What the review evidence of an approval request guarantees: which keyrings load, what an accepted
  request is bound to, and that evidence produced by a registered authority is accepted.
\<close>

subsection \<open>Loading\<close>

definition ring_identity :: "ring_key_document \<Rightarrow> string \<times> string" where
  "ring_identity d = (rkd_issuer d, rkd_key_id d)"

text \<open>The keys a list of entries describes, when each of them decodes.\<close>

definition ring_pairs :: "'vk ring_env \<Rightarrow> ring_key_document list \<Rightarrow> ((string \<times> string) \<times> 'vk ring_key) list" where
  "ring_pairs rg ds = map (\<lambda>d. (ring_identity d, ring_entry d (the (rg_key rg (rkd_public_key d))))) ds"

definition ring_entries_ok ::
  "('sk, 'vk) evidence_env \<Rightarrow> 'vk ring_env \<Rightarrow> ring_key_document list \<Rightarrow> bool" where
  "ring_entries_ok env rg ds \<longleftrightarrow>
     list_all (\<lambda>d. ring_entry_valid env d \<and> rg_key rg (rkd_public_key d) \<noteq> None) ds
     \<and> distinct (map ring_identity ds)"

lemma ring_load_iff:
  "ring_load env rg ds keys = Ok ring \<longleftrightarrow>
     ring_entries_ok env rg ds \<and> (\<forall>d \<in> set ds. bt_get keys (ring_identity d) = None)
     \<and> ring = fold (\<lambda>(i, k) m. bt_insert i k m) (ring_pairs rg ds) keys"
proof (induction ds arbitrary: keys)
  case Nil
  then show ?case by (auto simp: ring_entries_ok_def ring_pairs_def)
next
  case (Cons d ds)
  show ?case
  proof (cases "rg_key rg (rkd_public_key d)")
    case None
    then show ?thesis by (simp add: ring_entries_ok_def)
  next
    case (Some key)
    let ?keys = "bt_insert (ring_identity d) (ring_entry d key) keys"
    have fold_id: "(rkd_issuer d, rkd_key_id d) = ring_identity d"
      by (simp add: ring_identity_def)
    have fresh: "(\<forall>e \<in> set ds. bt_get ?keys (ring_identity e) = None) \<longleftrightarrow>
        ring_identity d \<notin> ring_identity ` set ds \<and> (\<forall>e \<in> set ds. bt_get keys (ring_identity e) = None)"
      by (auto simp: bt.get_put split: if_splits) (metis imageI)
    show ?thesis
      unfolding ring_load.simps fold_id
      using Cons.IH [of ?keys] fresh Some
      by (simp add: ring_entries_ok_def ring_pairs_def) blast
  qed
qed

text \<open>
  A keyring document loads exactly when it is well formed, and then to the keys it lists. It must
  be of the right size and schema, every entry valid with a decodable key, and no two entries may
  name the same issuer and key identifier; the ring is the map of the listed keys.
\<close>

theorem keyring_loads_exactly:
  "ring_from_json env rg raw = Ok ring \<longleftrightarrow>
     raw \<noteq> [] \<and> length raw \<le> MAX_DOCUMENT_BYTES
     \<and> (\<exists>doc. rg_parse rg raw = Some doc
          \<and> rd_schema_version doc = APPROVAL_REVIEW_EVIDENCE_KEYRING_SCHEMA_VERSION
          \<and> rd_keys doc \<noteq> [] \<and> length (rd_keys doc) \<le> MAX_KEYS
          \<and> ring_entries_ok env rg (rd_keys doc)
          \<and> ring = bt_of_list (ring_pairs rg (rd_keys doc)))"
  by (auto simp: ring_from_json_def ring_load_iff bt_of_list_def not_less
      split: option.splits if_splits)

subsection \<open>What acceptance means\<close>

lemma canonical_digest_Ok_iff:
  "canonical_digest env b = Ok d \<longleftrightarrow> (\<exists>x. b = Some x \<and> d = ee_sha256_hex env x)"
  by (auto simp: canonical_digest_def split: option.splits)

lemma signature_ok_Ok_iff:
  "signature_ok env key b s = Ok u \<longleftrightarrow>
     sg_decodes (ee_signer env) s \<and> sg_verify (ee_signer env) key b s"
  by (auto simp: signature_ok_def)

lemma receipt_verify_OkD:
  assumes "receipt_verify env r key now = Ok u"
  shows "event_verify env (sar_event r) key = Ok ()"
    and "sar_persisted_at r \<le> now"
    and "sg_verify (ee_signer env) key (sar_evidence_digest r) (sar_signature r)"
    and "receipt_expected_digest env r = Ok (sar_evidence_digest r)"
    and "sar_payload_digest r = evd_payload_hash (sev_draft (sar_event r))"
  using assms
  by (auto simp: receipt_verify_def res_bind_Ok_iff signature_ok_Ok_iff split: if_splits)

lemma to_authority_event_Ok_iff:
  "to_authority_event env utc i src now = Ok a \<longleftrightarrow>
     issue_valid env i src now
     \<and> (\<exists>h. payload_digest env (ari_material i) = Ok h \<and> a = issue_authority_request i h
          \<and> (\<exists>d. request_digest env utc a = Ok d))"
  by (auto simp: to_authority_event_def res_bind_Ok_iff Let_def)

lemma verify_at_Ok_iff:
  "verify_at env utc1 utc2 ring req t act = Ok () \<longleftrightarrow>
     (let e = apr_review_evidence req; a = are_authority_request e; r = are_receipt e in
      are_schema_version e = APPROVAL_REVIEW_EVIDENCE_SCHEMA_VERSION
      \<and> material_valid env (are_material e) \<and> are_material e = expected_material req
      \<and> (\<exists>k. bt_get ring (sar_issuer r, sar_key_id r) = Some k
           \<and> (rk_active k \<or> \<not> act) \<and> apr_tenant_id req \<in> set (rk_tenant_ids k)
           \<and> evd_source_service (aer_event a) \<in> set (rk_source_services k)
           \<and> rk_not_before k \<le> evd_occurred_at (aer_event a)
           \<and> sar_persisted_at r < rk_expires_at k
           \<and> receipt_verify env r (rk_key k) t = Ok ())
      \<and> to_authority_event env utc1 (issue_of_evidence e) (evd_source_service (aer_event a)) t = Ok a
      \<and> (\<exists>d. request_digest env utc2 a = Ok d \<and> receipt_matches r a d)
      \<and> sar_source_kind r = AuthenticatedEvent)"
  unfolding verify_at_def Let_def
  by (auto simp: res_bind_Ok_iff res_map_err_Ok_iff not_le not_less split: option.splits if_splits)

lemma receipt_times:
  "receipt_verify env r key now = Ok u \<Longrightarrow> evd_occurred_at (sev_draft (sar_event r)) \<le> sar_persisted_at r"
  by (auto simp: receipt_verify_def res_bind_Ok_iff split: if_splits)

text \<open>
  C31: an accepted review is bound to the request. The reviewed material is that of the request's
  tenant, task, action, resource and environment, and the receipt carries the digest of exactly that
  material. A key registered for the tenant and the source service, and active, signs the evidence
  digest, which is the digest of the receipt without its digest and signature; it also signs the
  event inside. The event occurred not before the key's validity, the receipt was persisted not
  before the event, before the key's end and not after the check, and the review was requested at most
  fifteen minutes before the check. The receipt names the digest of the very request.
\<close>

theorem accepted_review_is_bound:
  assumes "verify_request env utc1 utc2 ring req t = Ok ()"
  shows "let e = apr_review_evidence req; r = are_receipt e; a = are_authority_request e in
    are_material e = expected_material req
    \<and> sar_payload_digest r = evd_payload_hash (aer_event a)
    \<and> payload_digest env (expected_material req) = Ok (sar_payload_digest r)
    \<and> request_digest env utc2 a = Ok (sar_request_digest r)
    \<and> sev_draft (sar_event r) = aer_event a
    \<and> sar_tenant_id r = apr_tenant_id req \<and> sar_task_id r = apr_task_id req
    \<and> receipt_expected_digest env r = Ok (sar_evidence_digest r)
    \<and> (\<exists>k. bt_get ring (sar_issuer r, sar_key_id r) = Some k
         \<and> rk_active k \<and> apr_tenant_id req \<in> set (rk_tenant_ids k)
         \<and> evd_source_service (aer_event a) \<in> set (rk_source_services k)
         \<and> sg_verify (ee_signer env) (rk_key k) (sar_evidence_digest r) (sar_signature r)
         \<and> event_verify env (sar_event r) (rk_key k) = Ok ()
         \<and> rk_not_before k \<le> evd_occurred_at (aer_event a)
         \<and> sar_persisted_at r < rk_expires_at k)
    \<and> evd_occurred_at (aer_event a) \<le> sar_persisted_at r
    \<and> sar_persisted_at r \<le> t
    \<and> t \<le> aer_requested_at a + chrono_seconds APPROVAL_REVIEW_MAX_EVIDENCE_LIFETIME_SECONDS"
proof -
  define e where "e = apr_review_evidence req"
  define a where "a = are_authority_request e"
  define r where "r = are_receipt e"
  have ok: "verify_at env utc1 utc2 ring req t True = Ok ()"
    using assms by (simp add: verify_request_def)
  then have material: "are_material e = expected_material req"
    and event: "to_authority_event env utc1 (issue_of_evidence e)
      (evd_source_service (aer_event a)) t = Ok a"
    and matches: "\<exists>d. request_digest env utc2 a = Ok d \<and> receipt_matches r a d"
    and "\<exists>k. bt_get ring (sar_issuer r, sar_key_id r) = Some k \<and> rk_active k
      \<and> apr_tenant_id req \<in> set (rk_tenant_ids k)
      \<and> evd_source_service (aer_event a) \<in> set (rk_source_services k)
      \<and> rk_not_before k \<le> evd_occurred_at (aer_event a) \<and> sar_persisted_at r < rk_expires_at k
      \<and> receipt_verify env r (rk_key k) t = Ok ()"
    unfolding verify_at_Ok_iff Let_def e_def a_def r_def by blast+
  then obtain k where key: "bt_get ring (sar_issuer r, sar_key_id r) = Some k" "rk_active k"
      "apr_tenant_id req \<in> set (rk_tenant_ids k)"
      "evd_source_service (aer_event a) \<in> set (rk_source_services k)"
      "rk_not_before k \<le> evd_occurred_at (aer_event a)" "sar_persisted_at r < rk_expires_at k"
    and verified: "receipt_verify env r (rk_key k) t = Ok ()"
    by blast
  obtain h where valid: "issue_valid env (issue_of_evidence e) (evd_source_service (aer_event a)) t"
    and h: "payload_digest env (are_material e) = Ok h"
    and a: "a = issue_authority_request (issue_of_evidence e) h"
    using event unfolding to_authority_event_Ok_iff by (auto simp: issue_of_evidence_def Let_def)
  have "evd_payload_hash (aer_event a) = h" "aer_tenant_id a = apr_tenant_id req"
    "aer_task_id a = apr_task_id req"
    by (subst a, simp add: issue_authority_request_def issue_event_def issue_of_evidence_def Let_def
        material expected_material_def)+
  moreover have "t \<le> aer_requested_at a + chrono_seconds APPROVAL_REVIEW_MAX_EVIDENCE_LIFETIME_SECONDS"
    using valid by (auto simp: issue_valid_def issue_of_evidence_def Let_def a_def)
  ultimately show ?thesis
    using key matches material h receipt_verify_OkD [OF verified] receipt_times [OF verified]
    unfolding Let_def e_def [symmetric] a_def [symmetric] r_def [symmetric]
    by (auto simp: receipt_matches_def)
qed

text \<open>A coding request reviewed at the instant 0, on the sample libraries.\<close>

definition sample_review_material :: review_material where
  "sample_review_material = \<lparr>arm_schema_version = APPROVAL_REVIEW_MATERIAL_SCHEMA_VERSION,
     arm_tenant_id = ''t'', arm_task_id = ''k'', arm_canonical_action_hash = sample_sha,
     arm_resource = ''repo/one'', arm_resource_version = ''v1'', arm_policy_version = ''p1'',
     arm_environment = ''staging'', arm_risk = Medium,
     arm_review_context = Coding \<lparr>cd_diff_artifact_ref = ''artifact://sha256/'' @ sample_sha,
       cd_command_summary = ''deploy'', cd_network_scope = ''none'', cd_rollback_summary = ''revert''\<rparr>,
     arm_risk_package_ref = ''evidence://risk'', arm_risk_package_digest = sample_sha,
     arm_state_snapshot_ref = ''evidence://state'', arm_state_snapshot_digest = sample_sha\<rparr>"

definition sample_issue :: review_issue_request where
  "sample_issue = \<lparr>ari_schema_version = APPROVAL_REVIEW_EVIDENCE_ISSUE_SCHEMA_VERSION,
     ari_request_id = ''review-1'', ari_idempotency_key = ''review-key-000001'',
     ari_actor_subject = ''user:1'', ari_source_service = ''DNS:gateway'',
     ari_trace_id = ''trace'', ari_material = sample_review_material, ari_requested_at = 0\<rparr>"

definition sample_review_receipt :: authority_receipt where
  "sample_review_receipt =
     (let a = issue_authority_request sample_issue sample_sha in
      \<lparr>sar_schema_version = AUTHORITY_EVIDENCE_RECEIPT_SCHEMA_VERSION, sar_tenant_id = ''t'',
       sar_task_id = ''k'', sar_authority_event_id = ''review-1'',
       sar_idempotency_key = ''review-key-000001'', sar_source_kind = AuthenticatedEvent,
       sar_request_digest = sample_sha, sar_payload_digest = sample_sha,
       sar_evidence_ref = ''evidence://authority-event/t/k/review-1/'' @ sample_sha,
       sar_evidence_digest = sample_sha,
       sar_event = \<lparr>sev_schema_version = EVIDENCE_EVENT_SCHEMA_VERSION, sev_event_id = ''review-1'',
         sev_sequence = 1, sev_previous_hash = sample_sha, sev_event_hash = sample_sha,
         sev_key_id = ''key-1'', sev_signature = ''k'' @ sample_sha, sev_draft = aer_event a\<rparr>,
       sar_persisted_at = 0, sar_issuer = ''evidence'', sar_key_id = ''key-1'',
       sar_key_usage = AUTHORITY_EVIDENCE_RECEIPT_KEY_USAGE, sar_signature = ''k'' @ sample_sha\<rparr>)"

definition sample_approval_request :: approval_request where
  "sample_approval_request = \<lparr>apr_tenant_id = ''t'', apr_task_id = ''k'', apr_step_id = ''s'',
     apr_action_hash = sample_sha, apr_plan_hash = sample_sha, apr_parameter_hash = sample_sha,
     apr_resource = ''repo/one'', apr_resource_version = ''v1'', apr_policy_version = ''p1'',
     apr_environment = ''staging'', apr_risk = Medium,
     apr_review_context = arm_review_context sample_review_material,
     apr_review_evidence = \<lparr>are_schema_version = APPROVAL_REVIEW_EVIDENCE_SCHEMA_VERSION,
       are_material = sample_review_material,
       are_authority_request = issue_authority_request sample_issue sample_sha,
       are_receipt = sample_review_receipt\<rparr>,
     apr_requester_subject = ''user:1'', apr_agent_owner_subject = ''user:2'',
     apr_justification = ''release'', apr_requested_ttl_seconds = 300, apr_requested_uses = 1\<rparr>"

definition sample_ring :: "string keyring" where
  "sample_ring = [((''evidence'', ''key-1''), \<lparr>rk_key = ''k'', rk_source_services = [''DNS:gateway''],
     rk_tenant_ids = [''t''], rk_not_before = 0, rk_expires_at = 1000000000000000, rk_active = True\<rparr>)]"

lemma printable_no_whitespace:
  assumes "printable s"
  shows "\<not> any_whitespace_or_control s"
proof -
  have "utf8_chars s = map of_char s"
    by (rule utf8_chars_ascii) (use assms in \<open>auto simp: printable_def ascii_def list_all_iff\<close>)
  with assms show ?thesis
    by (auto simp: any_whitespace_or_control_def printable_def list_ex_iff list_all_iff
        is_control_char_def is_whitespace_char_def)
qed

text \<open>Short printable texts without marker or credential pass every review check on texts.\<close>

definition plain_text :: "string \<Rightarrow> bool" where
  "plain_text s \<longleftrightarrow> printable s \<and> length s < 32 \<and> \<not> approval_review_secret_marker s
     \<and> \<not> list_ex token_like (split_bytes (\<lambda>c. \<not> (is_ascii_alphanumeric c \<or> c \<in> set ''-_'')) s)"

lemma plain_bounded: "plain_text s \<Longrightarrow> 32 \<le> n \<Longrightarrow> approval_review_bounded s n"
  by (simp add: plain_text_def approval_review_bounded_def printable_text)

lemma plain_review_text: "plain_text s \<Longrightarrow> 32 \<le> n \<Longrightarrow> approval_review_text s n"
  by (simp add: approval_review_text_def plain_bounded) (simp add: plain_text_def)

lemma plain_evidence_ref:
  "plain_text s \<Longrightarrow> strip_prefix ''evidence://'' s = Some (c # cs) \<Longrightarrow> \<not> list_ex (\<lambda>c. c \<in> set ''?#'') s
   \<Longrightarrow> approval_review_evidence_ref s"
  by (simp add: approval_review_evidence_ref_def plain_text_def printable_no_whitespace)

lemma sample_material_valid: "material_valid sample_evidence_env sample_review_material"
proof -
  have "plain_text ''repo/one''" "plain_text ''v1''" "plain_text ''p1''" "plain_text ''staging''"
    "plain_text ''deploy''" "plain_text ''none''" "plain_text ''revert''"
    "plain_text ''evidence://risk''" "plain_text ''evidence://state''"
    by code_simp+
  moreover have "is_lower_hex_digest sample_sha"
    "approval_review_artifact_ref (''artifact://sha256/'' @ sample_sha)"
    "\<not> approval_review_resource_is_industrial ''repo/one'' ''staging''"
    by code_simp+
  moreover have "approval_review_evidence_ref ''evidence://risk''" "approval_review_evidence_ref ''evidence://state''"
    by (rule plain_evidence_ref, use calculation in simp, code_simp, code_simp)+
  ultimately show ?thesis
    by (simp add: material_valid_def sample_review_material_def canonical_uuid_def sample_evidence_env_def
        plain_bounded plain_review_text)
qed

lemma sample_request_verifies:
  "verify_request sample_evidence_env 0 0 sample_ring sample_approval_request 0 = Ok ()"
proof -
  have "issue_valid sample_evidence_env sample_issue ''DNS:gateway'' 0"
    "receipt_verify sample_evidence_env sample_review_receipt ''k'' 0 = Ok ()"
    "request_digest sample_evidence_env 0 (issue_authority_request sample_issue sample_sha) = Ok sample_sha"
    "receipt_matches sample_review_receipt (issue_authority_request sample_issue sample_sha) sample_sha"
    "issue_of_evidence (apr_review_evidence sample_approval_request) = sample_issue"
    by code_simp+
  moreover have "payload_digest sample_evidence_env sample_review_material = Ok sample_sha"
    using sample_material_valid
    by (simp add: payload_digest_def canonical_digest_def sample_evidence_env_def)
  moreover have "apr_review_evidence sample_approval_request =
      \<lparr>are_schema_version = APPROVAL_REVIEW_EVIDENCE_SCHEMA_VERSION, are_material = sample_review_material,
       are_authority_request = issue_authority_request sample_issue sample_sha,
       are_receipt = sample_review_receipt\<rparr>"
    "expected_material sample_approval_request = sample_review_material"
    "ari_material sample_issue = sample_review_material"
    "aer_event (issue_authority_request sample_issue sample_sha) = issue_event sample_issue sample_sha"
    "evd_source_service (issue_event sample_issue sample_sha) = ''DNS:gateway''"
    "evd_occurred_at (issue_event sample_issue sample_sha) = 0"
    "sar_issuer sample_review_receipt = ''evidence''" "sar_key_id sample_review_receipt = ''key-1''"
    "sar_persisted_at sample_review_receipt = 0"
    "sar_source_kind sample_review_receipt = AuthenticatedEvent"
    "apr_tenant_id sample_approval_request = ''t''"
    by (simp_all add: sample_approval_request_def sample_review_material_def expected_material_def
        sample_issue_def sample_review_receipt_def issue_authority_request_def issue_event_def Let_def)
  ultimately show ?thesis
    unfolding verify_request_def verify_at_Ok_iff to_authority_event_Ok_iff Let_def
    using sample_material_valid by (simp add: sample_ring_def bt_get_def)
qed

theorem accepted_review_is_bound_witness:
  "sar_payload_digest (are_receipt (apr_review_evidence sample_approval_request)) = sample_sha
   \<and> payload_digest sample_evidence_env (expected_material sample_approval_request) = Ok sample_sha"
proof -
  have "sar_payload_digest (are_receipt (apr_review_evidence sample_approval_request)) = sample_sha"
    by (simp add: sample_approval_request_def sample_review_receipt_def Let_def)
  with accepted_review_is_bound [OF sample_request_verifies] show ?thesis by (simp add: Let_def)
qed

end
