(* ===== verification/Evidence_Authority.thy ===== *)
theory Evidence_Authority
  imports Evidence
begin

text \<open>
  The evidence authority (\<open>evidence-evaluator/src/lib.rs\<close>): the audit chain kept in memory, the
  artifact store, evidence packages and their offline verifier, the evaluator runtime with its hard
  gates, evaluation requests and runs, disputes. Canonical JSON of these types is \<open>evidence_codec\<close>;
  an identifier a method draws and a clock it reads are arguments. A domain evaluator plugin answers
  \<open>None\<close> when the runtime's timeout cuts it off.
\<close>

subsection \<open>Errors, requests\<close>

datatype evidence_error = VConfigurationInvalid | VEventInvalid | VCapacityExceeded
  | VTenantMismatch | VCanonicalization | VChainIncomplete | VIntegrityInvalid | VUnknownKey
  | VSignatureInvalid | VArtifactDenied | VArtifactNotFound | VEvaluatorTimeout
  | VEvaluationInvalid | VAuthenticationRequired | VScopeForbidden | VRequestInvalid
  | VIdempotencyConflict | VLedgerBindingInvalid | VAuthorizationBindingInvalid
  | VPersistenceUnavailable | VDependencyUnavailable | VNotFound

fun from_contract_error :: "contract_error \<Rightarrow> evidence_error" where
  "from_contract_error Canonicalization = VCanonicalization"
| "from_contract_error SignatureInvalid = VSignatureInvalid"
| "from_contract_error _ = VIntegrityInvalid"

definition contract_try :: "contract_error + 'a \<Rightarrow> evidence_error + 'a" where
  "contract_try r = (case r of Inl e \<Rightarrow> Err (from_contract_error e) | Inr x \<Rightarrow> Ok x)"

record stored_artifact =
  sa_artifact_ref :: string
  sa_sha256 :: string
  sa_media_type :: string
  sa_classification :: string
  sa_retention_seconds :: u64
  sa_access_policy :: string
  sa_bytes :: u64
  sa_created_at :: datetime

record evidence_package =
  ep_schema_version :: string
  ep_package_id :: string
  ep_tenant_id :: string
  ep_task_id :: string
  ep_events :: "signed_event list"
  ep_artifacts :: "stored_artifact list"
  ep_package_hash :: string
  ep_built_at :: datetime

record signed_package =
  sp_schema_version :: string
  sp_package :: evidence_package
  sp_chain_head :: string
  sp_issuer :: string
  sp_key_id :: string
  sp_signature :: string

record event_request =
  erq_schema_version :: string
  erq_tenant_id :: string
  erq_task_id :: string
  erq_idempotency_key :: string
  erq_expected_task_state_version :: u64
  erq_event :: evidence_draft
  erq_requested_at :: datetime

record package_request =
  prq_schema_version :: string
  prq_tenant_id :: string
  prq_task_id :: string
  prq_idempotency_key :: string
  prq_expected_chain_head :: string
  prq_requested_at :: datetime

record evaluation_request =
  vrq_schema_version :: string
  vrq_tenant_id :: string
  vrq_task_id :: string
  vrq_idempotency_key :: string
  vrq_expected_chain_head :: string
  vrq_required_event_types :: "evidence_event_type list"
  vrq_requested_at :: datetime

record evaluation_run =
  erun_schema_version :: string
  erun_evaluation_id :: string
  erun_tenant_id :: string
  erun_task_id :: string
  erun_idempotency_key :: string
  erun_request_digest :: string
  erun_chain_head :: string
  erun_result :: evaluation_result
  erun_issuer :: string
  erun_key_id :: string
  erun_key_usage :: string
  erun_signature :: string

record evidence_codec =
  vc_jcs_package :: "evidence_package \<Rightarrow> string option"
  vc_jcs_signed_package :: "signed_package \<Rightarrow> string option"
  vc_jcs_event_request :: "event_request \<Rightarrow> string option"
  vc_jcs_package_request :: "package_request \<Rightarrow> string option"
  vc_jcs_evaluation_request :: "evaluation_request \<Rightarrow> string option"
  vc_jcs_run :: "evaluation_run \<Rightarrow> string option"

definition EVIDENCE_PACKAGE_SCHEMA_VERSION :: string where
  "EVIDENCE_PACKAGE_SCHEMA_VERSION = ''agenttrust.evidence-package.v1''"

definition EVIDENCE_PACKAGE_REQUEST_SCHEMA_VERSION :: string where
  "EVIDENCE_PACKAGE_REQUEST_SCHEMA_VERSION = ''agenttrust.evidence-package-request.v1''"

definition EVIDENCE_EVENT_REQUEST_SCHEMA_VERSION :: string where
  "EVIDENCE_EVENT_REQUEST_SCHEMA_VERSION = ''agenttrust.evidence-event-request.v1''"

definition EVALUATION_REQUEST_SCHEMA_VERSION :: string where
  "EVALUATION_REQUEST_SCHEMA_VERSION = ''agenttrust.evaluation-request.v1''"

definition EVALUATION_RUN_SCHEMA_VERSION :: string where
  "EVALUATION_RUN_SCHEMA_VERSION = ''agenttrust.evaluation-run.v1''"

definition EVALUATION_RUN_KEY_USAGE :: string where
  "EVALUATION_RUN_KEY_USAGE = ''EVIDENCE_EVALUATION_RUN''"

definition EVALUATION_RESULT_SCHEMA_VERSION :: string where
  "EVALUATION_RESULT_SCHEMA_VERSION = ''agenttrust.evaluation.v1''"

definition evidence_digest ::
  "('sk, 'vk) evidence_env \<Rightarrow> string option \<Rightarrow> evidence_error + string" where
  "evidence_digest env bytes =
     (case bytes of None \<Rightarrow> Err VCanonicalization | Some b \<Rightarrow> Ok (ee_sha256_hex env b))"

definition evidence_bytes :: "string option \<Rightarrow> evidence_error + string" where
  "evidence_bytes bytes = (case bytes of None \<Rightarrow> Err VCanonicalization | Some b \<Rightarrow> Ok b)"

text \<open>Checking a signature the way the package and run verifiers do.\<close>

definition evidence_signature_ok ::
  "('sk, 'vk) evidence_env \<Rightarrow> 'vk \<Rightarrow> string \<Rightarrow> string \<Rightarrow> evidence_error + unit" where
  "evidence_signature_ok env key bytes signature =
     (if sg_verify (ee_signer env) key bytes signature then Ok () else Err VSignatureInvalid)"

definition event_request_digest ::
  "('sk, 'vk) evidence_env \<Rightarrow> evidence_codec \<Rightarrow> datetime \<Rightarrow> event_request \<Rightarrow> evidence_error + string" where
  "event_request_digest env codec utc_now r =
     (if \<not> draft_valid env (erq_event r) then Err VEventInvalid
      else if erq_schema_version r \<noteq> EVIDENCE_EVENT_REQUEST_SCHEMA_VERSION
         \<or> evd_tenant_id (erq_event r) \<noteq> erq_tenant_id r \<or> evd_task_id (erq_event r) \<noteq> erq_task_id r
         \<or> erq_idempotency_key r = [] \<or> length (erq_idempotency_key r) > 128
         \<or> list_ex (\<lambda>b. \<not> (is_ascii_alphanumeric b \<or> b \<in> set ''._:/-'')) (erq_idempotency_key r)
         \<or> erq_requested_at r > utc_now + chrono_minutes 1
         \<or> evd_occurred_at (erq_event r) > erq_requested_at r + chrono_minutes 1
         \<or> evd_event_type (erq_event r) = EvToolExecuted
      then Err VEventInvalid
      else evidence_digest env (vc_jcs_event_request codec r))"

definition package_request_digest ::
  "('sk, 'vk) evidence_env \<Rightarrow> evidence_codec \<Rightarrow> package_request \<Rightarrow> evidence_error + string" where
  "package_request_digest env codec r =
     (if prq_schema_version r \<noteq> EVIDENCE_PACKAGE_REQUEST_SCHEMA_VERSION
         \<or> \<not> canonical_uuid env (prq_tenant_id r) \<or> \<not> canonical_uuid env (prq_task_id r)
         \<or> prq_idempotency_key r = [] \<or> length (prq_idempotency_key r) > 128
         \<or> \<not> is_lower_hex_digest (prq_expected_chain_head r)
      then Err VRequestInvalid
      else evidence_digest env (vc_jcs_package_request codec r))"

subsection \<open>The audit chain in memory\<close>

record 'sk audit_chain =
  ac_key_id :: string
  ac_signing_key :: 'sk
  ac_maximum_events_per_task :: nat
  ac_events :: "(string, signed_event list) btree"

definition audit_chain_new :: "string \<Rightarrow> 'sk \<Rightarrow> nat \<Rightarrow> evidence_error + 'sk audit_chain" where
  "audit_chain_new key_id key maximum =
     (if key_id = [] \<or> maximum = 0 then Err VConfigurationInvalid
      else Ok \<lparr>ac_key_id = key_id, ac_signing_key = key, ac_maximum_events_per_task = maximum,
               ac_events = bt_empty\<rparr>)"

definition contains_secret :: "string \<Rightarrow> bool" where
  "contains_secret bytes \<longleftrightarrow>
     list_ex (str_contains (to_ascii_lowercase bytes))
       [''password='', ''api_key='', ''authorization: bearer'', ''-----begin private key-----'']"

definition validate_draft :: "evidence_draft \<Rightarrow> evidence_error + unit" where
  "validate_draft d =
     reject_if
       (evd_actor_subject d = [] \<or> evd_source_service d = [] \<or> evd_trace_id d = []
        \<or> evd_span_id d = [] \<or> length (evd_safe_summary d) > 512
        \<or> length (evd_payload_hash d) \<noteq> 64 \<or> \<not> list_all is_ascii_hexdigit (evd_payload_hash d)
        \<or> contains_secret (evd_safe_summary d))
       VEventInvalid"

definition zero_hash :: string where
  "zero_hash = replicate 64 CHR ''0''"

text \<open>Hashing an event and signing the hash, shared by the memory and the database chain.\<close>

definition seal_event ::
  "('sk, 'vk) evidence_env \<Rightarrow> 'sk \<Rightarrow> signed_event \<Rightarrow> evidence_error + signed_event" where
  "seal_event env key e =
     res_bind (contract_try (event_expected_hash env e)) (\<lambda>h.
       Ok (e\<lparr>sev_event_hash := h, sev_signature := sg_sign (ee_signer env) key h\<rparr>))"

definition new_event ::
  "string \<Rightarrow> u64 \<Rightarrow> string \<Rightarrow> string \<Rightarrow> evidence_draft \<Rightarrow> signed_event" where
  "new_event event_id sequence previous_hash key_id draft =
     \<lparr>sev_schema_version = EVIDENCE_EVENT_SCHEMA_VERSION, sev_event_id = event_id,
      sev_sequence = sequence, sev_previous_hash = previous_hash, sev_event_hash = [],
      sev_key_id = key_id, sev_signature = [], sev_draft = draft\<rparr>"

definition chain_of :: "'sk audit_chain \<Rightarrow> string \<Rightarrow> signed_event list" where
  "chain_of ac task = (case bt_get (ac_events ac) task of None \<Rightarrow> [] | Some es \<Rightarrow> es)"

definition chain_append ::
  "('sk, 'vk) evidence_env \<Rightarrow> string \<Rightarrow> evidence_draft \<Rightarrow> 'sk audit_chain
   \<Rightarrow> (evidence_error + signed_event) \<times> 'sk audit_chain" where
  "chain_append env new_id draft ac =
     (case validate_draft draft of
        Inl e \<Rightarrow> (Err e, ac)
      | Inr _ \<Rightarrow>
          let chain = chain_of ac (evd_task_id draft);
              touched = ac\<lparr>ac_events := bt_insert (evd_task_id draft) chain (ac_events ac)\<rparr>
          in if length chain \<ge> ac_maximum_events_per_task ac then (Err VCapacityExceeded, touched)
             else if chain \<noteq> [] \<and> evd_tenant_id (sev_draft (hd chain)) \<noteq> evd_tenant_id draft
               then (Err VTenantMismatch, touched)
             else
               (case seal_event env (ac_signing_key ac)
                       (new_event new_id (of_nat (length chain) + 1)
                         (if chain = [] then zero_hash else sev_event_hash (last chain))
                         (ac_key_id ac) draft) of
                  Inl e \<Rightarrow> (Err e, touched)
                | Inr event \<Rightarrow>
                    (Ok event,
                     ac\<lparr>ac_events := bt_insert (evd_task_id draft) (chain @ [event]) (ac_events ac)\<rparr>)))"

subsection \<open>Artifacts\<close>

record artifact_store =
  as_maximum_artifact_bytes :: nat
  as_maximum_artifacts :: nat
  as_objects :: "(string, stored_artifact \<times> string) btree"

definition artifact_put ::
  "('sk, 'vk) evidence_env \<Rightarrow> datetime \<Rightarrow> string \<Rightarrow> string \<Rightarrow> string \<Rightarrow> u64 \<Rightarrow> string \<Rightarrow> artifact_store
   \<Rightarrow> (evidence_error + stored_artifact) \<times> artifact_store" where
  "artifact_put env now bytes media_type classification retention_seconds access_policy st =
     (if bytes = [] \<or> length bytes > as_maximum_artifact_bytes st \<or> media_type = []
         \<or> classification = [] \<or> retention_seconds = 0 \<or> contains_secret bytes
      then (Err VArtifactDenied, st)
      else
        let digest = ee_sha256_hex env bytes; ref = ''artifact:sha256:'' @ digest in
        if bt_len (as_objects st) \<ge> as_maximum_artifacts st \<and> \<not> bt_contains (as_objects st) ref
        then (Err VCapacityExceeded, st)
        else
          let artifact = \<lparr>sa_artifact_ref = ref, sa_sha256 = digest, sa_media_type = media_type,
                sa_classification = classification, sa_retention_seconds = retention_seconds,
                sa_access_policy = access_policy, sa_bytes = of_nat (length bytes),
                sa_created_at = now\<rparr>
          in (Ok artifact, st\<lparr>as_objects := bt_insert ref (artifact, bytes) (as_objects st)\<rparr>))"

definition artifact_get :: "artifact_store \<Rightarrow> string \<Rightarrow> evidence_error + string" where
  "artifact_get st ref =
     (case bt_get (as_objects st) ref of None \<Rightarrow> Err VArtifactNotFound | Some (_, bytes) \<Rightarrow> Ok bytes)"

subsection \<open>Packages\<close>

definition package_hash ::
  "('sk, 'vk) evidence_env \<Rightarrow> evidence_codec \<Rightarrow> evidence_package \<Rightarrow> evidence_error + string" where
  "package_hash env codec p = evidence_digest env (vc_jcs_package codec (p\<lparr>ep_package_hash := []\<rparr>))"

definition build_package ::
  "('sk, 'vk) evidence_env \<Rightarrow> evidence_codec \<Rightarrow> string \<Rightarrow> datetime \<Rightarrow> string \<Rightarrow> string
   \<Rightarrow> stored_artifact list \<Rightarrow> 'sk audit_chain \<Rightarrow> evidence_error + evidence_package" where
  "build_package env codec new_id now tenant task artifacts ac =
     (let events = chain_of ac task in
      if events = [] \<or> list_ex (\<lambda>e. evd_tenant_id (sev_draft e) \<noteq> tenant) events
      then Err VChainIncomplete
      else
        let p = \<lparr>ep_schema_version = EVIDENCE_EVENT_SCHEMA_VERSION, ep_package_id = new_id,
                 ep_tenant_id = tenant, ep_task_id = task, ep_events = events,
                 ep_artifacts = artifacts, ep_package_hash = [], ep_built_at = now\<rparr>
        in res_bind (package_hash env codec p) (\<lambda>h. Ok (p\<lparr>ep_package_hash := h\<rparr>)))"

record integrity_report =
  ir_valid :: bool
  ir_verified_events :: nat
  ir_verified_artifacts :: nat
  ir_findings :: "evidence_error list"

type_synonym 'vk event_keys = "(string, 'vk) btree"

text \<open>The loop over the events: the index so far and the hash the next event must link to.\<close>

fun verify_events ::
  "('sk, 'vk) evidence_env \<Rightarrow> 'vk event_keys \<Rightarrow> string \<Rightarrow> string \<Rightarrow> nat \<Rightarrow> string \<Rightarrow> signed_event list
   \<Rightarrow> evidence_error + unit" where
  "verify_events env keys tenant task index previous [] = Ok ()"
| "verify_events env keys tenant task index previous (e # es) =
     (if sev_sequence e \<noteq> of_nat index + 1 \<or> sev_previous_hash e \<noteq> previous
         \<or> evd_task_id (sev_draft e) \<noteq> task \<or> evd_tenant_id (sev_draft e) \<noteq> tenant
      then Err VIntegrityInvalid
      else res_bind (contract_try (event_expected_hash env e)) (\<lambda>h.
        if sev_event_hash e \<noteq> h then Err VIntegrityInvalid
        else
          (case bt_get keys (sev_key_id e) of
             None \<Rightarrow> Err VUnknownKey
           | Some key \<Rightarrow>
               if \<not> sg_decodes (ee_signer env) (sev_signature e) then Err VSignatureInvalid
               else res_bind (evidence_signature_ok env key (sev_event_hash e) (sev_signature e)) (\<lambda>_.
                 verify_events env keys tenant task (Suc index) (sev_event_hash e) es))))"

declare verify_events.simps(2) [simp del]

definition verify_inner ::
  "('sk, 'vk) evidence_env \<Rightarrow> evidence_codec \<Rightarrow> 'vk event_keys \<Rightarrow> evidence_package
   \<Rightarrow> evidence_error + unit" where
  "verify_inner env codec keys p =
     (if ep_schema_version p \<noteq> EVIDENCE_EVENT_SCHEMA_VERSION then Err VIntegrityInvalid
      else res_bind (package_hash env codec p) (\<lambda>h.
        if ep_package_hash p \<noteq> h \<or> ep_events p = [] then Err VIntegrityInvalid
        else res_bind
          (verify_events env keys (ep_tenant_id p) (ep_task_id p) 0 zero_hash (ep_events p)) (\<lambda>_.
          reject_if
            (list_ex (\<lambda>a. sa_artifact_ref a \<noteq> ''artifact:sha256:'' @ sa_sha256 a) (ep_artifacts p))
            VIntegrityInvalid)))"

definition verify_package ::
  "('sk, 'vk) evidence_env \<Rightarrow> evidence_codec \<Rightarrow> 'vk event_keys \<Rightarrow> evidence_package \<Rightarrow> integrity_report" where
  "verify_package env codec keys p =
     (case verify_inner env codec keys p of
        Inr _ \<Rightarrow> \<lparr>ir_valid = True, ir_verified_events = length (ep_events p),
                  ir_verified_artifacts = length (ep_artifacts p), ir_findings = []\<rparr>
      | Inl e \<Rightarrow> \<lparr>ir_valid = False, ir_verified_events = 0, ir_verified_artifacts = 0,
                  ir_findings = [e]\<rparr>)"

definition signed_package_bytes :: "evidence_codec \<Rightarrow> signed_package \<Rightarrow> evidence_error + string" where
  "signed_package_bytes codec p = evidence_bytes (vc_jcs_signed_package codec (p\<lparr>sp_signature := []\<rparr>))"

definition signed_package_sign ::
  "('sk, 'vk) evidence_env \<Rightarrow> evidence_codec \<Rightarrow> 'sk \<Rightarrow> signed_package \<Rightarrow> evidence_error + signed_package" where
  "signed_package_sign env codec key p =
     res_bind (signed_package_bytes codec p) (\<lambda>b.
       Ok (p\<lparr>sp_signature := sg_sign (ee_signer env) key b\<rparr>))"

definition signed_package_verify ::
  "('sk, 'vk) evidence_env \<Rightarrow> evidence_codec \<Rightarrow> 'vk \<Rightarrow> 'vk event_keys \<Rightarrow> signed_package
   \<Rightarrow> evidence_error + integrity_report" where
  "signed_package_verify env codec key keys p =
     (if sp_schema_version p \<noteq> EVIDENCE_PACKAGE_SCHEMA_VERSION then Err VIntegrityInvalid
      else if ep_events (sp_package p) = [] then Err VChainIncomplete
      else if sp_chain_head p \<noteq> sev_event_hash (last (ep_events (sp_package p)))
         \<or> sp_issuer p = [] \<or> length (sp_issuer p) > 256 \<or> sp_key_id p = [] \<or> length (sp_key_id p) > 128
      then Err VIntegrityInvalid
      else if \<not> sg_decodes (ee_signer env) (sp_signature p) then Err VSignatureInvalid
      else res_bind (signed_package_bytes codec p) (\<lambda>b.
        res_bind (evidence_signature_ok env key b (sp_signature p)) (\<lambda>_.
          let report = verify_package env codec keys (sp_package p)
          in if \<not> ir_valid report then Err VIntegrityInvalid else Ok report)))"

subsection \<open>Evaluation\<close>

record evaluation_input =
  vi_tenant_id :: string
  vi_task_id :: string
  vi_identity_valid :: bool
  vi_tool_registered :: bool
  vi_policy_allowed :: bool
  vi_approval_satisfied :: bool
  vi_credential_valid :: bool
  vi_trace_complete :: bool
  vi_ledger_terminal_known :: bool
  vi_unhandled_high_risk_alerts :: u32
  vi_evidence_refs :: "string list"
  vi_domain_input :: json

record domain_evaluation =
  dom_checks :: "(string, bool) btree"
  dom_score_millionths :: u32
  dom_findings :: "string list"
  dom_evidence_refs :: "string list"
  dom_uncertain :: bool

record evaluator_manifest =
  vm_evaluator_id :: string
  vm_version :: string
  vm_implementation_digest :: string
  vm_calibration_dataset_ref :: string
  vm_maximum_runtime_ms :: u64
  vm_signer_key_id :: string
  vm_signature :: string

record evaluator_plugin =
  vp_manifest :: evaluator_manifest
  vp_evaluate :: "json \<Rightarrow> (evidence_error + domain_evaluation) option"

definition validate_manifest :: "evaluator_manifest \<Rightarrow> evidence_error + unit" where
  "validate_manifest m =
     reject_if
       (vm_evaluator_id m = [] \<or> vm_version m = [] \<or> vm_calibration_dataset_ref m = []
        \<or> vm_maximum_runtime_ms m = 0 \<or> vm_maximum_runtime_ms m > 60000
        \<or> strip_prefix ''sha256:'' (vm_implementation_digest m) = None)
       VEvaluationInvalid"

definition core_gates :: "evaluation_input \<Rightarrow> (string \<times> bool) list" where
  "core_gates i =
     [(''identity_valid'', vi_identity_valid i), (''tool_registered'', vi_tool_registered i),
      (''policy_allowed'', vi_policy_allowed i), (''approval_satisfied'', vi_approval_satisfied i),
      (''credential_valid'', vi_credential_valid i), (''trace_complete'', vi_trace_complete i),
      (''ledger_terminal_known'', vi_ledger_terminal_known i),
      (''no_unhandled_high_risk_alerts'', vi_unhandled_high_risk_alerts i = 0)]"

text \<open>\<open>BTreeMap::extend\<close>: the entries of the second map replace those of the first.\<close>

definition bt_extend :: "('k::linorder, 'v) btree \<Rightarrow> ('k, 'v) btree \<Rightarrow> ('k, 'v) btree" where
  "bt_extend m n = fold (\<lambda>(k, v) m. bt_insert k v m) n m"

definition hard_gates :: "evaluation_input \<Rightarrow> domain_evaluation \<Rightarrow> (string, bool) btree" where
  "hard_gates i d = bt_extend (bt_of_list (core_gates i)) (dom_checks d)"

definition evaluation_verdict :: "(string, bool) btree \<Rightarrow> bool \<Rightarrow> evaluation_status" where
  "evaluation_verdict gates uncertain =
     (if list_all id (bt_values gates) \<and> \<not> uncertain then Pass
      else if uncertain then EvalNeedsHuman else Fail)"

definition evaluator_evaluate ::
  "evaluator_plugin \<Rightarrow> datetime \<Rightarrow> evaluation_input \<Rightarrow> evidence_error + evaluation_result" where
  "evaluator_evaluate plugin utc_now i =
     (let m = vp_manifest plugin in
      res_bind (validate_manifest m) (\<lambda>_.
      res_bind (case vp_evaluate plugin (vi_domain_input i) of
                  None \<Rightarrow> Err VEvaluatorTimeout | Some r \<Rightarrow> r) (\<lambda>d.
        let gates = hard_gates i d;
            status = evaluation_verdict gates (dom_uncertain d);
            refs = vi_evidence_refs i @ dom_evidence_refs d
        in if refs = [] \<and> status = Pass then Err VChainIncomplete
           else Ok \<lparr>ev_schema_version = EVALUATION_RESULT_SCHEMA_VERSION, ev_status = status,
                    ev_score_millionths = min (dom_score_millionths d) 1000000,
                    ev_hard_gate_results = gates, ev_findings = dom_findings d,
                    ev_evidence_refs = refs, ev_evaluator_id = vm_evaluator_id m,
                    ev_evaluator_version = vm_version m, ev_evaluated_at = utc_now\<rparr>)))"

definition mandatory_event_types :: "evidence_event_type list" where
  "mandatory_event_types = [EvTaskCreated, EvPlanGenerated, EvPolicyEvaluated, EvCredentialIssued,
     EvToolPrepared, EvToolExecuted]"

text \<open>The digest of an evaluation request; the method reads the clock twice.\<close>

definition evaluation_request_digest ::
  "('sk, 'vk) evidence_env \<Rightarrow> evidence_codec \<Rightarrow> datetime \<Rightarrow> datetime \<Rightarrow> evaluation_request
   \<Rightarrow> evidence_error + string" where
  "evaluation_request_digest env codec utc1 utc2 r =
     (if vrq_schema_version r \<noteq> EVALUATION_REQUEST_SCHEMA_VERSION
         \<or> \<not> canonical_uuid env (vrq_tenant_id r) \<or> \<not> canonical_uuid env (vrq_task_id r)
         \<or> vrq_idempotency_key r = [] \<or> length (vrq_idempotency_key r) > 128
         \<or> \<not> is_lower_hex_digest (vrq_expected_chain_head r)
         \<or> vrq_required_event_types r = [] \<or> length (vrq_required_event_types r) > 32
         \<or> \<not> distinct (vrq_required_event_types r)
         \<or> list_ex (\<lambda>t. t \<notin> set (vrq_required_event_types r)) mandatory_event_types
         \<or> vrq_requested_at r < utc1 - chrono_minutes 5
         \<or> vrq_requested_at r > utc2 + chrono_minutes 1
      then Err VEvaluationInvalid
      else evidence_digest env (vc_jcs_evaluation_request codec r))"

definition run_bytes :: "evidence_codec \<Rightarrow> evaluation_run \<Rightarrow> evidence_error + string" where
  "run_bytes codec r = evidence_bytes (vc_jcs_run codec (r\<lparr>erun_signature := []\<rparr>))"

definition run_sign ::
  "('sk, 'vk) evidence_env \<Rightarrow> evidence_codec \<Rightarrow> 'sk \<Rightarrow> evaluation_run \<Rightarrow> evidence_error + evaluation_run" where
  "run_sign env codec key r =
     res_bind (run_bytes codec r) (\<lambda>b. Ok (r\<lparr>erun_signature := sg_sign (ee_signer env) key b\<rparr>))"

definition run_verify ::
  "('sk, 'vk) evidence_env \<Rightarrow> evidence_codec \<Rightarrow> 'vk \<Rightarrow> evaluation_run \<Rightarrow> evidence_error + unit" where
  "run_verify env codec key r =
     (if erun_schema_version r \<noteq> EVALUATION_RUN_SCHEMA_VERSION
         \<or> erun_key_usage r \<noteq> EVALUATION_RUN_KEY_USAGE
         \<or> \<not> canonical_uuid env (erun_evaluation_id r)
         \<or> \<not> is_lower_hex_digest (erun_request_digest r) \<or> \<not> is_lower_hex_digest (erun_chain_head r)
         \<or> ev_schema_version (erun_result r) \<noteq> EVALUATION_RESULT_SCHEMA_VERSION
         \<or> erun_issuer r = [] \<or> erun_key_id r = []
      then Err VEvaluationInvalid
      else if \<not> sg_decodes (ee_signer env) (erun_signature r) then Err VSignatureInvalid
      else res_bind (run_bytes codec r) (\<lambda>b.
        evidence_signature_ok env key b (erun_signature r)))"

subsection \<open>Disputes\<close>

record dispute_case =
  dc_dispute_id :: string
  dc_task_id :: string
  dc_evaluation_hash :: string
  dc_reason :: string
  dc_opened_by :: string
  dc_opened_at :: datetime

definition open_dispute ::
  "string \<Rightarrow> dispute_case \<Rightarrow> (string, dispute_case) btree
   \<Rightarrow> (evidence_error + dispute_case) \<times> (string, dispute_case) btree" where
  "open_dispute new_id c cases =
     (if dc_reason c = [] \<or> dc_opened_by c = [] \<or> length (dc_evaluation_hash c) \<noteq> 64
      then (Err VEvaluationInvalid, cases)
      else let c' = c\<lparr>dc_dispute_id := new_id\<rparr> in (Ok c', bt_insert new_id c' cases))"

end
