(* ===== verification/Evidence_Store.thy ===== *)
theory Evidence_Store
  imports Evidence_Authority Authorization Ledger_Postgres Decimal_Text
begin

text \<open>
  The production evidence store (\<open>evidence-evaluator/src/postgres.rs\<close>, \<open>PostgresEvidenceStore\<close>)
  over the tables of \<open>migrations/evidence\<close>: appending lifecycle, authority and execution evidence,
  reading a chain, building packages, evaluating a task. It reads the tasks of the orchestrator, the
  authorizations of the policy enforcement point and the executions of the transaction ledger.

  A call is one transaction under an advisory lock on its task, so calls run one after the other.
  \<open>se_ok n\<close> says whether the \<open>n\<close>-th statement succeeds and the two commit fields are the two sides
  of a commit, as for the ledger; \<open>se_clock n\<close> is the \<open>n\<close>-th reading of the clock. A UUID is its
  canonical text and a \<open>jsonb\<close> column holds the value it was written from.
\<close>

subsection \<open>Execution evidence of the contracts\<close>

record 'c sanitized_tool_result =
  sr_schema_version :: string
  sr_value :: json
  sr_artifact_ref :: "string option"
  sr_redacted_paths :: "string list"
  sr_untrusted_content :: bool
  sr_result_hash :: string
  sr_credential_consumption_receipt :: 'c

record 'c execution_request =
  xr_schema_version :: string
  xr_tenant_id :: string
  xr_task_id :: string
  xr_step_id :: string
  xr_execution_id :: string
  xr_fence_digest :: string
  xr_action_hash :: string
  xr_authorization_id :: string
  xr_authorization_digest :: string
  xr_idempotency_key :: string
  xr_result :: "'c sanitized_tool_result"
  xr_event :: evidence_draft

record execution_receipt =
  xc_schema_version :: string
  xc_tenant_id :: string
  xc_task_id :: string
  xc_step_id :: string
  xc_execution_id :: string
  xc_action_hash :: string
  xc_authorization_id :: string
  xc_authorization_digest :: string
  xc_fence_digest :: string
  xc_idempotency_key :: string
  xc_request_digest :: string
  xc_result_hash :: string
  xc_chain_head :: string
  xc_evidence_ref :: string
  xc_event :: signed_event
  xc_persisted_at :: datetime
  xc_issuer :: string
  xc_key_id :: string
  xc_key_usage :: string
  xc_signature :: string

record 'c execution_codec =
  xj_request :: "'c execution_request \<Rightarrow> string option"
  xj_receipt :: "execution_receipt \<Rightarrow> string option"
  xj_fence :: "execution_fence \<Rightarrow> string option"

definition EXECUTION_EVIDENCE_REQUEST_SCHEMA_VERSION :: string where
  "EXECUTION_EVIDENCE_REQUEST_SCHEMA_VERSION = ''agenttrust.execution-evidence-request.v1''"

definition EXECUTION_EVIDENCE_RECEIPT_SCHEMA_VERSION :: string where
  "EXECUTION_EVIDENCE_RECEIPT_SCHEMA_VERSION = ''agenttrust.execution-evidence-receipt.v1''"

definition EVIDENCE_EXECUTION_RECEIPT_KEY_USAGE :: string where
  "EVIDENCE_EXECUTION_RECEIPT_KEY_USAGE = ''EVIDENCE_EXECUTION_RECEIPT''"

definition execution_request_digest ::
  "('sk, 'vk) evidence_env \<Rightarrow> 'c execution_codec \<Rightarrow> 'c execution_request \<Rightarrow> contract_error + string" where
  "execution_request_digest env xj r =
     (if xr_schema_version r \<noteq> EXECUTION_EVIDENCE_REQUEST_SCHEMA_VERSION
         \<or> \<not> list_all (canonical_uuid env) [xr_tenant_id r, xr_task_id r, xr_step_id r,
               xr_execution_id r, xr_authorization_id r]
         \<or> \<not> list_all is_lower_hex_digest [xr_fence_digest r, xr_action_hash r,
               xr_authorization_digest r]
         \<or> \<not> valid_idempotency_key (xr_idempotency_key r)
         \<or> evd_tenant_id (xr_event r) \<noteq> xr_tenant_id r \<or> evd_task_id (xr_event r) \<noteq> xr_task_id r
      then Err ScopeExceeded
      else res_bind (draft_validate env (xr_event r)) (\<lambda>_. canonical_digest env (xj_request xj r)))"

definition execution_receipt_bytes :: "'c execution_codec \<Rightarrow> execution_receipt \<Rightarrow> contract_error + string" where
  "execution_receipt_bytes xj r =
     (case xj_receipt xj (r\<lparr>xc_signature := []\<rparr>) of None \<Rightarrow> Err Canonicalization | Some b \<Rightarrow> Ok b)"

definition execution_evidence_ref :: "execution_receipt \<Rightarrow> string" where
  "execution_evidence_ref r =
     ''evidence://'' @ xc_tenant_id r @ ''/'' @ xc_task_id r @ ''/''
     @ decimal (unat (sev_sequence (xc_event r))) @ ''/'' @ sev_event_hash (xc_event r)"

definition execution_receipt_sign ::
  "('sk, 'vk) evidence_env \<Rightarrow> 'c execution_codec \<Rightarrow> 'sk \<Rightarrow> execution_receipt
   \<Rightarrow> contract_error + execution_receipt" where
  "execution_receipt_sign env xj key r =
     res_bind (execution_receipt_bytes xj r) (\<lambda>b.
       Ok (r\<lparr>xc_signature := sg_sign (ee_signer env) key b\<rparr>))"

definition execution_receipt_verify ::
  "('sk, 'vk) evidence_env \<Rightarrow> 'c execution_codec \<Rightarrow> execution_receipt \<Rightarrow> 'vk \<Rightarrow> datetime
   \<Rightarrow> contract_error + unit" where
  "execution_receipt_verify env xj r key now =
     res_bind (event_verify env (xc_event r) key) (\<lambda>_.
       if xc_schema_version r \<noteq> EXECUTION_EVIDENCE_RECEIPT_SCHEMA_VERSION
          \<or> xc_key_usage r \<noteq> EVIDENCE_EXECUTION_RECEIPT_KEY_USAGE
          \<or> \<not> list_all (canonical_uuid env) [xc_tenant_id r, xc_task_id r, xc_step_id r,
                xc_execution_id r, xc_authorization_id r]
          \<or> \<not> list_all is_lower_hex_digest [xc_action_hash r, xc_authorization_digest r,
                xc_fence_digest r, xc_request_digest r, xc_result_hash r]
          \<or> xc_chain_head r \<noteq> sev_event_hash (xc_event r)
          \<or> xc_evidence_ref r \<noteq> execution_evidence_ref r
          \<or> \<not> valid_idempotency_key (xc_idempotency_key r)
          \<or> evd_tenant_id (sev_draft (xc_event r)) \<noteq> xc_tenant_id r
          \<or> evd_task_id (sev_draft (xc_event r)) \<noteq> xc_task_id r
          \<or> evd_span_id (sev_draft (xc_event r)) \<noteq> xc_execution_id r
          \<or> evd_payload_hash (sev_draft (xc_event r)) \<noteq> xc_result_hash r
          \<or> xc_persisted_at r < evd_occurred_at (sev_draft (xc_event r)) \<or> xc_persisted_at r > now
          \<or> \<not> bounded_nonempty (xc_issuer r) 256 \<or> \<not> bounded_nonempty (xc_key_id r) 128
       then Err HashMismatch
       else if \<not> sg_decodes (ee_signer env) (xc_signature r) then Err SignatureInvalid
       else res_bind (execution_receipt_bytes xj r) (\<lambda>b.
         if sg_verify (ee_signer env) key b (xc_signature r) then Ok () else Err SignatureInvalid))"

subsection \<open>Tables\<close>

record audit_row =
  au_tenant :: string
  au_task :: string
  au_event :: signed_event
  au_request_digest :: string
  au_execution_id :: "string option"
  au_authorization_id :: "string option"
  au_result_hash :: "string option"

record head_row =
  hr_last_sequence :: u64
  hr_chain_hash :: string
  hr_key_id :: string
  hr_updated_at :: datetime

record event_request_row =
  eq_tenant :: string
  eq_task :: string
  eq_key :: string
  eq_digest :: string
  eq_event :: signed_event

record authority_row =
  ay_tenant :: string
  ay_event_id :: string
  ay_task :: string
  ay_key :: string
  ay_digest :: string
  ay_receipt :: authority_receipt

record receipt_row =
  rr_tenant :: string
  rr_receipt_id :: string
  rr_task :: string
  rr_execution_id :: string
  rr_key :: string
  rr_digest :: string
  rr_receipt_digest :: string
  rr_receipt :: execution_receipt

record package_row =
  pr_tenant :: string
  pr_key :: string
  pr_digest :: string
  pr_package :: signed_package

record evaluation_row =
  vr_tenant :: string
  vr_task :: string
  vr_key :: string
  vr_digest :: string
  vr_run :: evaluation_run

record outbox_row =
  or_tenant :: string
  or_outbox_id :: string
  or_task :: string
  or_event_id :: string
  or_event_type :: string
  or_payload :: json

record task_row =
  ot_tenant :: string
  ot_task :: string
  ot_state_version :: int
  ot_goal_digest :: string
  ot_plan_digest :: string

record pep_row =
  pp_tenant :: string
  pp_authorization_id :: string
  pp_ledger_execution_id :: string
  pp_ledger_event_id :: string
  pp_ledger_event_digest :: string
  pp_action_hash :: string
  pp_fence_digest :: string
  pp_authorization_digest :: string
  pp_expires_at :: datetime
  pp_authorization :: execution_authorization

record evidence_db =
  edb_audit_events :: "audit_row list"
  edb_heads :: "(string \<times> string, head_row) btree"
  edb_event_requests :: "event_request_row list"
  edb_authority_requests :: "authority_row list"
  edb_receipts :: "receipt_row list"
  edb_artifacts :: "(string \<times> string, stored_artifact) btree"
  edb_packages :: "package_row list"
  edb_evaluations :: "evaluation_row list"
  edb_outbox :: "outbox_row list"
  edb_tasks :: "task_row list"
  edb_owners :: "(string \<times> string, string) btree"
  edb_authorizations :: "pep_row list"
  edb_ledger :: pg_db

record ('sk, 'vk) evidence_store =
  es_issuer :: string
  es_key_id :: string
  es_signing_key :: 'sk
  es_verifying_keys :: "(string, 'vk) btree"

record store_env =
  se_ok :: "nat \<Rightarrow> bool"
  se_commit_applied :: bool
  se_commit_ok :: bool
  se_clock :: "nat \<Rightarrow> datetime"
  se_new_id :: string
  se_outbox_id :: string
  se_pick :: nat

subsection \<open>Transactions\<close>

definition stmt :: "store_env \<Rightarrow> nat \<Rightarrow> evidence_error + 'a \<Rightarrow> evidence_error + 'a" where
  "stmt se n k = (if se_ok se n then k else Err VPersistenceUnavailable)"

text \<open>Statements \<open>a\<close> to \<open>b - 1\<close> succeed.\<close>

definition stmts :: "store_env \<Rightarrow> nat \<Rightarrow> nat \<Rightarrow> evidence_error + 'a \<Rightarrow> evidence_error + 'a" where
  "stmts se a b k = (if list_all (se_ok se) [a..<b] then k else Err VPersistenceUnavailable)"

definition run_tx ::
  "store_env \<Rightarrow> evidence_db \<Rightarrow> evidence_error + ('r \<times> evidence_db)
   \<Rightarrow> (evidence_error + 'r) \<times> evidence_db" where
  "run_tx se db r =
     (case r of
        Inl e \<Rightarrow> (Err e, db)
      | Inr (x, db') \<Rightarrow>
          if se_commit_applied se
          then (if se_commit_ok se then Ok x else Err VPersistenceUnavailable, db')
          else (Err VPersistenceUnavailable, db))"

definition uuid_check :: "('sk, 'vk) evidence_env \<Rightarrow> string list \<Rightarrow> evidence_error + unit" where
  "uuid_check env vs = reject_if (\<not> list_all (canonical_uuid env) vs) VEventInvalid"

definition verification_key :: "('sk, 'vk) evidence_store \<Rightarrow> string \<Rightarrow> evidence_error + 'vk" where
  "verification_key st key_id =
     (case bt_get (es_verifying_keys st) key_id of None \<Rightarrow> Err VUnknownKey | Some k \<Rightarrow> Ok k)"

definition store_new ::
  "('sk, 'vk) evidence_env \<Rightarrow> string \<Rightarrow> string \<Rightarrow> 'sk \<Rightarrow> (string, 'vk) btree
   \<Rightarrow> evidence_error + ('sk, 'vk) evidence_store" where
  "store_new env issuer key_id key keys =
     (if issuer = [] \<or> length issuer > 256 \<or> key_id = [] \<or> length key_id > 128 \<or> keys = bt_empty
         \<or> bt_len keys > 1024
         \<or> list_ex (\<lambda>i. i = [] \<or> length i > 128) (bt_keys keys)
         \<or> bt_get keys key_id \<noteq> Some (sg_public (ee_signer env) key)
      then Err VConfigurationInvalid
      else Ok \<lparr>es_issuer = issuer, es_key_id = key_id, es_signing_key = key, es_verifying_keys = keys\<rparr>)"

subsection \<open>Appending to a chain\<close>

text \<open>The next position of a chain: the sequence number and the hash to link to.\<close>

definition next_position :: "evidence_db \<Rightarrow> string \<Rightarrow> string \<Rightarrow> u64 \<times> string" where
  "next_position db tenant task =
     (case bt_get (edb_heads db) (tenant, task) of
        None \<Rightarrow> (1, zero_hash)
      | Some h \<Rightarrow> (hr_last_sequence h + 1, hr_chain_hash h))"

definition sealed_event ::
  "('sk, 'vk) evidence_env \<Rightarrow> ('sk, 'vk) evidence_store \<Rightarrow> evidence_db \<Rightarrow> string \<Rightarrow> string
   \<Rightarrow> string \<Rightarrow> evidence_draft \<Rightarrow> evidence_error + signed_event" where
  "sealed_event env st db tenant task event_id draft =
     res_bind (seal_event env (es_signing_key st)
         (new_event event_id (fst (next_position db tenant task)) (snd (next_position db tenant task))
            (es_key_id st) draft)) (\<lambda>e.
     res_bind (contract_try (event_verify env e (sg_public (ee_signer env) (es_signing_key st)))) (\<lambda>_.
       Ok e))"

text \<open>
  Inserting an event: the primary key, the event identifier (unique over all tenants) and the hash
  within the chain are free.
\<close>

definition insert_audit ::
  "audit_row \<Rightarrow> evidence_db \<Rightarrow> evidence_error + evidence_db" where
  "insert_audit row db =
     (let e = au_event row in
      if list_ex (\<lambda>r. sev_event_id (au_event r) = sev_event_id e
            \<or> (au_tenant r = au_tenant row \<and> au_task r = au_task row
               \<and> (sev_sequence (au_event r) = sev_sequence e
                  \<or> sev_event_hash (au_event r) = sev_event_hash e)))
          (edb_audit_events db)
        then Err VPersistenceUnavailable
      else Ok (db\<lparr>edb_audit_events := edb_audit_events db @ [row]\<rparr>))"

text \<open>Moving the head, guarded by the trigger on updates.\<close>

definition upsert_head ::
  "string \<Rightarrow> string \<Rightarrow> head_row \<Rightarrow> evidence_db \<Rightarrow> evidence_error + evidence_db" where
  "upsert_head tenant task h db =
     (case bt_get (edb_heads db) (tenant, task) of
        Some old \<Rightarrow>
          if hr_last_sequence h \<noteq> hr_last_sequence old + 1 \<or> hr_chain_hash h = hr_chain_hash old
             \<or> hr_updated_at h < hr_updated_at old
          then Err VPersistenceUnavailable
          else Ok (db\<lparr>edb_heads := bt_insert (tenant, task) h (edb_heads db)\<rparr>)
      | None \<Rightarrow> Ok (db\<lparr>edb_heads := bt_insert (tenant, task) h (edb_heads db)\<rparr>))"

text \<open>
  The two writes every append makes, statements \<open>n\<close> and \<open>n + 1\<close>; the sequence number has to fit a
  \<open>bigint\<close>.
\<close>

definition append_to_chain ::
  "store_env \<Rightarrow> nat \<Rightarrow> datetime \<Rightarrow> audit_row \<Rightarrow> evidence_db \<Rightarrow> evidence_error + evidence_db" where
  "append_to_chain se n updated_at row db =
     (if 0x8000000000000000 \<le> sev_sequence (au_event row) then Err VCapacityExceeded
      else stmt se n (res_bind (insert_audit row db) (\<lambda>db.
     stmt se (Suc n) (upsert_head (au_tenant row) (au_task row)
       \<lparr>hr_last_sequence = sev_sequence (au_event row),
        hr_chain_hash = sev_event_hash (au_event row), hr_key_id = sev_key_id (au_event row),
        hr_updated_at = updated_at\<rparr> db))))"

definition outbox_event ::
  "store_env \<Rightarrow> string \<Rightarrow> string \<Rightarrow> string \<Rightarrow> string \<Rightarrow> json \<Rightarrow> evidence_db \<Rightarrow> evidence_db" where
  "outbox_event se tenant task event_id event_type payload db =
     db\<lparr>edb_outbox := edb_outbox db @ [\<lparr>or_tenant = tenant, or_outbox_id = se_outbox_id se,
       or_task = task, or_event_id = event_id, or_event_type = event_type, or_payload = payload\<rparr>]\<rparr>"

fun event_type_name :: "evidence_event_type \<Rightarrow> string" where
  "event_type_name EvTaskCreated = ''TASK_CREATED''"
| "event_type_name EvPlanGenerated = ''PLAN_GENERATED''"
| "event_type_name EvPolicyEvaluated = ''POLICY_EVALUATED''"
| "event_type_name EvApprovalDecision = ''APPROVAL_DECISION''"
| "event_type_name EvApprovalReviewPrepared = ''APPROVAL_REVIEW_PREPARED''"
| "event_type_name EvCredentialIssued = ''CREDENTIAL_ISSUED''"
| "event_type_name EvToolPrepared = ''TOOL_PREPARED''"
| "event_type_name EvToolExecuted = ''TOOL_EXECUTED''"
| "event_type_name EvCompensation = ''COMPENSATION''"
| "event_type_name EvEvaluation = ''EVALUATION''"
| "event_type_name EvSecurityAlert = ''SECURITY_ALERT''"
| "event_type_name EvStateTransition = ''STATE_TRANSITION''"
| "event_type_name EvAuditQuery = ''AUDIT_QUERY''"
| "event_type_name EvAuditExport = ''AUDIT_EXPORT''"
| "event_type_name EvLegalHold = ''LEGAL_HOLD''"
| "event_type_name EvRetentionDeletion = ''RETENTION_DELETION''"

subsection \<open>Lifecycle events\<close>

definition task_binding_ok :: "task_row \<Rightarrow> event_request \<Rightarrow> bool" where
  "task_binding_ok t req \<longleftrightarrow>
     0 \<le> ot_state_version t \<and> nat (ot_state_version t) = unat (erq_expected_task_state_version req)
     \<and> (evd_event_type (erq_event req) = EvTaskCreated \<longrightarrow>
          ot_goal_digest t = evd_payload_hash (erq_event req))
     \<and> (evd_event_type (erq_event req) = EvPlanGenerated \<longrightarrow>
          ot_plan_digest t = evd_payload_hash (erq_event req))"

definition append_event_tx ::
  "('sk, 'vk) evidence_env \<Rightarrow> evidence_codec \<Rightarrow> ('sk, 'vk) evidence_store \<Rightarrow> store_env
   \<Rightarrow> event_request \<Rightarrow> evidence_db \<Rightarrow> evidence_error + (signed_event \<times> evidence_db)" where
  "append_event_tx env codec st se req db =
     res_bind (event_request_digest env codec (se_clock se 0) req) (\<lambda>digest.
     res_bind (uuid_check env [erq_tenant_id req, erq_task_id req]) (\<lambda>_.
     stmts se 0 4
       (case find (\<lambda>r. eq_tenant r = erq_tenant_id req \<and> eq_key r = erq_idempotency_key req)
               (edb_event_requests db) of
          Some row \<Rightarrow>
            if eq_digest row \<noteq> digest then Err VIdempotencyConflict
            else res_bind (verification_key st (sev_key_id (eq_event row))) (\<lambda>key.
              res_bind (contract_try (event_verify env (eq_event row) key)) (\<lambda>_.
                Ok (eq_event row, db)))
        | None \<Rightarrow>
            stmt se 4
              (case find (\<lambda>t. ot_tenant t = erq_tenant_id req \<and> ot_task t = erq_task_id req)
                      (edb_tasks db) of
                 None \<Rightarrow> Err VLedgerBindingInvalid
               | Some t \<Rightarrow>
                   if \<not> task_binding_ok t req then Err VLedgerBindingInvalid
                   else stmt se 5
                     (res_bind (sealed_event env st db (erq_tenant_id req) (erq_task_id req)
                          (se_new_id se) (erq_event req)) (\<lambda>e.
                      res_bind (uuid_check env [sev_event_id e]) (\<lambda>_.
                      res_bind (append_to_chain se 6 (se_clock se 1)
                          \<lparr>au_tenant = erq_tenant_id req, au_task = erq_task_id req, au_event = e,
                           au_request_digest = digest, au_execution_id = None,
                           au_authorization_id = None, au_result_hash = None\<rparr> db) (\<lambda>db.
                      stmts se 8 10
                        (Ok (e, outbox_event se (erq_tenant_id req) (erq_task_id req)
                               (sev_event_id e) ''LIFECYCLE_EVIDENCE_APPENDED''
                               (JObject [(''event_id'', JString (sev_event_id e)),
                                  (''event_type'', JString (event_type_name (evd_event_type (sev_draft e)))),
                                  (''event_hash'', JString (sev_event_hash e)),
                                  (''task_state_version'',
                                     JNumber (decimal (unat (erq_expected_task_state_version req))))])
                               (db\<lparr>edb_event_requests := edb_event_requests db @
                                  [\<lparr>eq_tenant = erq_tenant_id req, eq_task = erq_task_id req,
                                    eq_key = erq_idempotency_key req, eq_digest = digest,
                                    eq_event = e\<rparr>]\<rparr>)))))))))))"

definition append_event ::
  "('sk, 'vk) evidence_env \<Rightarrow> evidence_codec \<Rightarrow> ('sk, 'vk) evidence_store \<Rightarrow> store_env
   \<Rightarrow> event_request \<Rightarrow> evidence_db \<Rightarrow> (evidence_error + signed_event) \<times> evidence_db" where
  "append_event env codec st se req db = run_tx se db (append_event_tx env codec st se req db)"

subsection \<open>Authority events\<close>

definition pep_matches_binding :: "pep_row \<Rightarrow> control_binding \<Rightarrow> string \<Rightarrow> bool" where
  "pep_matches_binding p b task \<longleftrightarrow>
     pp_ledger_event_id p = acb_ledger_event_id b
     \<and> pp_ledger_event_digest p = acb_ledger_event_digest b
     \<and> pp_action_hash p = acb_action_hash b \<and> pp_fence_digest p = acb_fence_digest b
     \<and> xa_task_id (pp_authorization p) = task
     \<and> xa_policy_decision_id (pp_authorization p) = acb_policy_decision_id b
     \<and> xa_policy_decision_digest (pp_authorization p) = acb_policy_decision_digest b
     \<and> xa_authorization_evidence_ref (pp_authorization p) = acb_authorization_evidence_ref b
     \<and> xa_authorization_evidence_digest (pp_authorization p) = acb_authorization_evidence_digest b"

text \<open>The check that the event has the standing its kind claims.\<close>

definition authority_standing ::
  "('sk, 'vk) evidence_env \<Rightarrow> authority_request \<Rightarrow> store_env \<Rightarrow> evidence_db \<Rightarrow> evidence_error + unit" where
  "authority_standing env a se db =
     (case (aer_source_kind a, aer_control_binding a) of
        (GovernedAction, Some b) \<Rightarrow>
          res_bind (uuid_check env [acb_ledger_execution_id b]) (\<lambda>_.
          stmt se 4
            (case find (\<lambda>p. pp_tenant p = aer_tenant_id a
                     \<and> pp_ledger_execution_id p = acb_ledger_execution_id b)
                    (edb_authorizations db) of
               None \<Rightarrow> Err VAuthorizationBindingInvalid
             | Some p \<Rightarrow>
                 reject_if (\<not> pep_matches_binding p b (aer_task_id a)) VAuthorizationBindingInvalid))
      | (AuthenticatedEvent, None) \<Rightarrow>
          stmt se 4
            (reject_if
              (\<not> list_ex (\<lambda>t. ot_tenant t = aer_tenant_id a \<and> ot_task t = aer_task_id a) (edb_tasks db))
              VLedgerBindingInvalid)
      | _ \<Rightarrow> Err VEventInvalid)"

text \<open>The receipt of an authority event, before and after it is signed.\<close>

definition unsigned_receipt ::
  "('sk, 'vk) evidence_store \<Rightarrow> authority_request \<Rightarrow> string \<Rightarrow> signed_event \<Rightarrow> datetime
   \<Rightarrow> authority_receipt" where
  "unsigned_receipt st a digest e persisted_at =
     (let r = \<lparr>sar_schema_version = AUTHORITY_EVIDENCE_RECEIPT_SCHEMA_VERSION,
          sar_tenant_id = aer_tenant_id a, sar_task_id = aer_task_id a,
          sar_authority_event_id = aer_authority_event_id a,
          sar_idempotency_key = aer_idempotency_key a, sar_source_kind = aer_source_kind a,
          sar_request_digest = digest, sar_payload_digest = evd_payload_hash (aer_event a),
          sar_evidence_ref = [], sar_evidence_digest = [], sar_event = e,
          sar_persisted_at = persisted_at, sar_issuer = es_issuer st, sar_key_id = es_key_id st,
          sar_key_usage = AUTHORITY_EVIDENCE_RECEIPT_KEY_USAGE, sar_signature = []\<rparr>
      in r\<lparr>sar_evidence_ref := expected_evidence_ref r\<rparr>)"

definition make_receipt ::
  "('sk, 'vk) evidence_env \<Rightarrow> ('sk, 'vk) evidence_store \<Rightarrow> authority_request \<Rightarrow> string
   \<Rightarrow> signed_event \<Rightarrow> datetime \<Rightarrow> datetime \<Rightarrow> evidence_error + authority_receipt" where
  "make_receipt env st a digest e persisted_at verified_at =
     res_bind (contract_try (receipt_sign env (es_signing_key st)
         (unsigned_receipt st a digest e persisted_at))) (\<lambda>r.
     res_bind (contract_try (receipt_verify env r
         (sg_public (ee_signer env) (es_signing_key st)) verified_at)) (\<lambda>_. Ok r))"

fun source_kind_name :: "authority_source_kind \<Rightarrow> string" where
  "source_kind_name GovernedAction = ''GOVERNED_ACTION''"
| "source_kind_name AuthenticatedEvent = ''AUTHENTICATED_EVENT''"

text \<open>
  A replay looks for a row with the idempotency key or with the event identifier; when it finds one
  of each the database may return either, which \<open>se_pick\<close> decides.
\<close>

definition find_authority :: "store_env \<Rightarrow> authority_request \<Rightarrow> evidence_db \<Rightarrow> authority_row option" where
  "find_authority se a db =
     (let rows = filter (\<lambda>r. ay_tenant r = aer_tenant_id a
          \<and> (ay_key r = aer_idempotency_key a \<or> ay_event_id r = aer_authority_event_id a))
          (edb_authority_requests db)
      in if rows = [] then None else Some (rows ! (se_pick se mod length rows)))"

definition append_authority_event_tx ::
  "('sk, 'vk) evidence_env \<Rightarrow> ('sk, 'vk) evidence_store \<Rightarrow> store_env
   \<Rightarrow> authority_request \<Rightarrow> evidence_db \<Rightarrow> evidence_error + (authority_receipt \<times> evidence_db)" where
  "append_authority_event_tx env st se a db =
     (case request_digest env (se_clock se 0) a of
       Inl _ \<Rightarrow> Err VEventInvalid
     | Inr digest \<Rightarrow>
     res_bind (uuid_check env [aer_tenant_id a, aer_task_id a, aer_authority_event_id a]) (\<lambda>_.
     stmts se 0 4
       (case find_authority se a db of
          Some row \<Rightarrow>
            if ay_digest row \<noteq> digest then Err VIdempotencyConflict
            else res_bind (verification_key st (sar_key_id (ay_receipt row))) (\<lambda>key.
              res_bind (contract_try (receipt_verify env (ay_receipt row) key (se_clock se 1))) (\<lambda>_.
                Ok (ay_receipt row, db)))
        | None \<Rightarrow>
            res_bind (authority_standing env a se db) (\<lambda>_.
            stmt se 5
              (res_bind (sealed_event env st db (aer_tenant_id a) (aer_task_id a)
                   (aer_authority_event_id a) (aer_event a)) (\<lambda>e.
               res_bind (make_receipt env st a digest e (se_clock se 1) (se_clock se 2)) (\<lambda>r.
               res_bind (append_to_chain se 6 (se_clock se 1)
                   \<lparr>au_tenant = aer_tenant_id a, au_task = aer_task_id a, au_event = e,
                    au_request_digest = digest, au_execution_id = None,
                    au_authorization_id = None, au_result_hash = None\<rparr> db) (\<lambda>db.
               stmts se 8 10
                 (Ok (r, outbox_event se (aer_tenant_id a) (aer_task_id a)
                        (aer_authority_event_id a) ''AUTHORITY_EVIDENCE_APPENDED''
                        (JObject [(''authority_event_id'', JString (aer_authority_event_id a)),
                           (''source_kind'', JString (source_kind_name (aer_source_kind a))),
                           (''evidence_ref'', JString (sar_evidence_ref r)),
                           (''evidence_digest'', JString (sar_evidence_digest r)),
                           (''event_hash'', JString (sev_event_hash e))])
                        (db\<lparr>edb_authority_requests := edb_authority_requests db @
                           [\<lparr>ay_tenant = aer_tenant_id a, ay_event_id = aer_authority_event_id a,
                             ay_task = aer_task_id a, ay_key = aer_idempotency_key a,
                             ay_digest = digest, ay_receipt = r\<rparr>]\<rparr>)))))))))))"

definition append_authority_event ::
  "('sk, 'vk) evidence_env \<Rightarrow> ('sk, 'vk) evidence_store \<Rightarrow> store_env
   \<Rightarrow> authority_request \<Rightarrow> evidence_db \<Rightarrow> (evidence_error + authority_receipt) \<times> evidence_db" where
  "append_authority_event env st se a db = run_tx se db (append_authority_event_tx env st se a db)"

subsection \<open>Execution evidence\<close>

definition ledger_binding_ok ::
  "'c execution_request \<Rightarrow> pg_execution \<Rightarrow> string \<Rightarrow> bool" where
  "ledger_binding_ok req x fence_digest \<longleftrightarrow>
     px_task_id x = xr_task_id req \<and> px_step_id x = xr_step_id req
     \<and> px_action_hash x = xr_action_hash req \<and> px_status x = ''RUNNING''
     \<and> fence_digest = xr_fence_digest req"

definition pep_matches_execution :: "pep_row \<Rightarrow> 'c execution_request \<Rightarrow> datetime \<Rightarrow> bool" where
  "pep_matches_execution p req now \<longleftrightarrow>
     pp_ledger_execution_id p = xr_execution_id req \<and> pp_action_hash p = xr_action_hash req
     \<and> pp_fence_digest p = xr_fence_digest req
     \<and> pp_authorization_digest p = xr_authorization_digest req \<and> now < pp_expires_at p"

text \<open>The three reads that tie the evidence to the ledger, the owner and the authorization.\<close>

definition execution_standing ::
  "('sk, 'vk) evidence_env \<Rightarrow> 'c execution_codec \<Rightarrow> store_env \<Rightarrow> 'c execution_request \<Rightarrow> evidence_db
   \<Rightarrow> evidence_error + unit" where
  "execution_standing env xj se req db =
     stmt se 4
       (case find (\<lambda>x. px_tenant_id x = xr_tenant_id req \<and> px_execution_id x = xr_execution_id req)
               (bt_values (pd_executions (edb_ledger db))) of
          None \<Rightarrow> Err VLedgerBindingInvalid
        | Some x \<Rightarrow>
            res_bind (evidence_digest env (xj_fence xj
                \<lparr>ef_tenant_id = xr_tenant_id req, ef_execution_id = xr_execution_id req,
                 ef_token = px_fence_token x\<rparr>)) (\<lambda>fence_digest.
            if \<not> ledger_binding_ok req x fence_digest then Err VLedgerBindingInvalid
            else stmt se 5
              (case bt_get (edb_owners db) (xr_tenant_id req, xr_task_id req) of
                 None \<Rightarrow> Err VLedgerBindingInvalid
               | Some owner \<Rightarrow>
                   if owner \<noteq> evd_actor_subject (xr_event req) then Err VLedgerBindingInvalid
                   else stmt se 6
                     (case find (\<lambda>p. pp_tenant p = xr_tenant_id req
                              \<and> pp_authorization_id p = xr_authorization_id req)
                             (edb_authorizations db) of
                        None \<Rightarrow> Err VAuthorizationBindingInvalid
                      | Some p \<Rightarrow>
                          reject_if (\<not> pep_matches_execution p req (se_clock se 0))
                            VAuthorizationBindingInvalid))))"

definition unsigned_execution_receipt ::
  "('sk, 'vk) evidence_store \<Rightarrow> 'c execution_request \<Rightarrow> string \<Rightarrow> signed_event \<Rightarrow> datetime
   \<Rightarrow> execution_receipt" where
  "unsigned_execution_receipt st req digest e persisted_at =
     (let r = \<lparr>xc_schema_version = EXECUTION_EVIDENCE_RECEIPT_SCHEMA_VERSION,
          xc_tenant_id = xr_tenant_id req, xc_task_id = xr_task_id req, xc_step_id = xr_step_id req,
          xc_execution_id = xr_execution_id req, xc_action_hash = xr_action_hash req,
          xc_authorization_id = xr_authorization_id req,
          xc_authorization_digest = xr_authorization_digest req,
          xc_fence_digest = xr_fence_digest req, xc_idempotency_key = xr_idempotency_key req,
          xc_request_digest = digest, xc_result_hash = sr_result_hash (xr_result req),
          xc_chain_head = sev_event_hash e, xc_evidence_ref = [], xc_event = e,
          xc_persisted_at = persisted_at, xc_issuer = es_issuer st, xc_key_id = es_key_id st,
          xc_key_usage = EVIDENCE_EXECUTION_RECEIPT_KEY_USAGE, xc_signature = []\<rparr>
      in r\<lparr>xc_evidence_ref := execution_evidence_ref r\<rparr>)"

text \<open>
  \<open>receipt_digest env xj r\<close> is the digest stored beside a receipt. The unique keys of the receipts
  are the idempotency key and the execution.
\<close>

definition receipt_digest ::
  "('sk, 'vk) evidence_env \<Rightarrow> 'c execution_codec \<Rightarrow> execution_receipt \<Rightarrow> evidence_error + string" where
  "receipt_digest env xj r = evidence_digest env (xj_receipt xj r)"

definition insert_receipt :: "receipt_row \<Rightarrow> evidence_db \<Rightarrow> evidence_error + evidence_db" where
  "insert_receipt row db =
     (if list_ex (\<lambda>r. rr_tenant r = rr_tenant row
           \<and> (rr_key r = rr_key row \<or> rr_execution_id r = rr_execution_id row
              \<or> rr_receipt_id r = rr_receipt_id row)) (edb_receipts db)
      then Err VPersistenceUnavailable
      else Ok (db\<lparr>edb_receipts := edb_receipts db @ [row]\<rparr>))"

definition append_execution_tx ::
  "('sk, 'vk) evidence_env \<Rightarrow> 'c execution_codec \<Rightarrow> ('sk, 'vk) evidence_store \<Rightarrow> store_env
   \<Rightarrow> 'c execution_request \<Rightarrow> evidence_db \<Rightarrow> evidence_error + (execution_receipt \<times> evidence_db)" where
  "append_execution_tx env xj st se req db =
     res_bind (contract_try (execution_request_digest env xj req)) (\<lambda>digest.
     if sr_result_hash (xr_result req) \<noteq> evd_payload_hash (xr_event req)
        \<or> evd_span_id (xr_event req) \<noteq> xr_execution_id req
        \<or> evd_schema_version (xr_event req) \<noteq> EVIDENCE_EVENT_SCHEMA_VERSION
        \<or> evd_event_type (xr_event req) \<noteq> EvToolExecuted
     then Err VEventInvalid
     else
     res_bind (uuid_check env [xr_tenant_id req, xr_task_id req, xr_step_id req,
         xr_execution_id req, xr_authorization_id req]) (\<lambda>_.
     stmts se 0 4
       (case find (\<lambda>r. rr_tenant r = xr_tenant_id req \<and> rr_key r = xr_idempotency_key req)
               (edb_receipts db) of
          Some row \<Rightarrow>
            if rr_digest row \<noteq> digest then Err VIdempotencyConflict
            else res_bind (verification_key st (xc_key_id (rr_receipt row))) (\<lambda>key.
              res_bind (contract_try (execution_receipt_verify env xj (rr_receipt row) key
                  (se_clock se 0))) (\<lambda>_. Ok (rr_receipt row, db)))
        | None \<Rightarrow>
            res_bind (execution_standing env xj se req db) (\<lambda>_.
            stmt se 7
              (res_bind (sealed_event env st db (xr_tenant_id req) (xr_task_id req)
                   (se_new_id se) (xr_event req)) (\<lambda>e.
               res_bind (contract_try (execution_receipt_sign env xj (es_signing_key st)
                   (unsigned_execution_receipt st req digest e (se_clock se 1)))) (\<lambda>r.
               res_bind (contract_try (execution_receipt_verify env xj r
                   (sg_public (ee_signer env) (es_signing_key st)) (se_clock se 2))) (\<lambda>_.
               res_bind (uuid_check env [sev_event_id e]) (\<lambda>_.
               res_bind (append_to_chain se 8 (se_clock se 1)
                   \<lparr>au_tenant = xr_tenant_id req, au_task = xr_task_id req, au_event = e,
                    au_request_digest = digest, au_execution_id = Some (xr_execution_id req),
                    au_authorization_id = Some (xr_authorization_id req),
                    au_result_hash = Some (xc_result_hash r)\<rparr> db) (\<lambda>db.
               res_bind (receipt_digest env xj r) (\<lambda>rdigest.
               stmt se 10
                 (res_bind (insert_receipt
                     \<lparr>rr_tenant = xr_tenant_id req, rr_receipt_id = sev_event_id e,
                      rr_task = xr_task_id req, rr_execution_id = xr_execution_id req,
                      rr_key = xr_idempotency_key req, rr_digest = digest,
                      rr_receipt_digest = rdigest, rr_receipt = r\<rparr> db) (\<lambda>db.
                  stmt se 11
                    (Ok (r, outbox_event se (xr_tenant_id req) (xr_task_id req) (sev_event_id e)
                           ''EXECUTION_EVIDENCE_APPENDED''
                           (JObject [(''receipt_id'', JString (sev_event_id e)),
                              (''execution_id'', JString (xr_execution_id req)),
                              (''evidence_ref'', JString (xc_evidence_ref r)),
                              (''receipt_digest'', JString rdigest)]) db)))))))))))))))"

definition append_execution ::
  "('sk, 'vk) evidence_env \<Rightarrow> 'c execution_codec \<Rightarrow> ('sk, 'vk) evidence_store \<Rightarrow> store_env
   \<Rightarrow> 'c execution_request \<Rightarrow> evidence_db \<Rightarrow> (evidence_error + execution_receipt) \<times> evidence_db" where
  "append_execution env xj st se req db = run_tx se db (append_execution_tx env xj st se req db)"

subsection \<open>Reading a chain\<close>

definition rows_of :: "evidence_db \<Rightarrow> string \<Rightarrow> string \<Rightarrow> audit_row list" where
  "rows_of db tenant task =
     sort_key (\<lambda>r. unat (sev_sequence (au_event r)))
       (filter (\<lambda>r. au_tenant r = tenant \<and> au_task r = task) (edb_audit_events db))"

definition events_of :: "evidence_db \<Rightarrow> string \<Rightarrow> string \<Rightarrow> signed_event list" where
  "events_of db tenant task = map au_event (rows_of db tenant task)"

fun verify_all ::
  "('sk, 'vk) evidence_env \<Rightarrow> ('sk, 'vk) evidence_store \<Rightarrow> signed_event list \<Rightarrow> evidence_error + unit" where
  "verify_all env st [] = Ok ()"
| "verify_all env st (e # es) =
     res_bind (verification_key st (sev_key_id e)) (\<lambda>key.
     res_bind (contract_try (event_verify env e key)) (\<lambda>_. verify_all env st es))"

definition read_chain_tx ::
  "('sk, 'vk) evidence_env \<Rightarrow> ('sk, 'vk) evidence_store \<Rightarrow> store_env \<Rightarrow> string \<Rightarrow> string \<Rightarrow> int
   \<Rightarrow> evidence_db \<Rightarrow> evidence_error + (signed_event list \<times> evidence_db)" where
  "read_chain_tx env st se tenant task limit db =
     (if limit < 1 \<or> limit > 10000 then Err VCapacityExceeded
     else res_bind (uuid_check env [tenant, task]) (\<lambda>_.
       stmts se 0 3
         (let events = take (nat limit) (events_of db tenant task)
          in res_bind (verify_all env st events) (\<lambda>_. Ok (events, db)))))"

definition read_chain ::
  "('sk, 'vk) evidence_env \<Rightarrow> ('sk, 'vk) evidence_store \<Rightarrow> store_env \<Rightarrow> string \<Rightarrow> string \<Rightarrow> int
   \<Rightarrow> evidence_db \<Rightarrow> (evidence_error + signed_event list) \<times> evidence_db" where
  "read_chain env st se tenant task limit db = run_tx se db (read_chain_tx env st se tenant task limit db)"

definition read_receipt_tx ::
  "('sk, 'vk) evidence_env \<Rightarrow> 'c execution_codec \<Rightarrow> ('sk, 'vk) evidence_store \<Rightarrow> store_env \<Rightarrow> string
   \<Rightarrow> string \<Rightarrow> evidence_db \<Rightarrow> evidence_error + (execution_receipt \<times> evidence_db)" where
  "read_receipt_tx env xj st se tenant receipt_id db =
     res_bind (uuid_check env [tenant, receipt_id]) (\<lambda>_.
     stmts se 0 3
       (case find (\<lambda>r. rr_tenant r = tenant \<and> rr_receipt_id r = receipt_id) (edb_receipts db) of
          None \<Rightarrow> Err VNotFound
        | Some row \<Rightarrow>
            res_bind (verification_key st (xc_key_id (rr_receipt row))) (\<lambda>key.
            res_bind (contract_try (execution_receipt_verify env xj (rr_receipt row) key (se_clock se 0)))
              (\<lambda>_. Ok (rr_receipt row, db)))))"

definition read_receipt ::
  "('sk, 'vk) evidence_env \<Rightarrow> 'c execution_codec \<Rightarrow> ('sk, 'vk) evidence_store \<Rightarrow> store_env \<Rightarrow> string
   \<Rightarrow> string \<Rightarrow> evidence_db \<Rightarrow> (evidence_error + execution_receipt) \<times> evidence_db" where
  "read_receipt env xj st se tenant receipt_id db = run_tx se db (read_receipt_tx env xj st se tenant receipt_id db)"

text \<open>The loop of \<open>validate_chain_snapshot\<close>; it returns the last hash.\<close>

fun snapshot_head ::
  "('sk, 'vk) evidence_env \<Rightarrow> string \<Rightarrow> string \<Rightarrow> nat \<Rightarrow> string \<Rightarrow> signed_event list
   \<Rightarrow> evidence_error + string" where
  "snapshot_head env tenant task index previous [] = Ok previous"
| "snapshot_head env tenant task index previous (e # es) =
     (if sev_sequence e \<noteq> of_nat index + 1 \<or> sev_previous_hash e \<noteq> previous then Err VIntegrityInvalid
      else res_bind (contract_try (event_expected_hash env e)) (\<lambda>h.
        if sev_event_hash e \<noteq> h \<or> evd_tenant_id (sev_draft e) \<noteq> tenant
           \<or> evd_task_id (sev_draft e) \<noteq> task
        then Err VIntegrityInvalid
        else snapshot_head env tenant task (Suc index) (sev_event_hash e) es))"

definition validate_chain_snapshot ::
  "('sk, 'vk) evidence_env \<Rightarrow> signed_event list \<Rightarrow> string \<Rightarrow> string \<Rightarrow> string \<Rightarrow> evidence_error + unit" where
  "validate_chain_snapshot env events tenant task expected_head =
     (if events = [] then Err VChainIncomplete
      else res_bind (snapshot_head env tenant task 0 zero_hash events) (\<lambda>previous.
        reject_if (previous \<noteq> expected_head) VIntegrityInvalid))"

subsection \<open>Packages\<close>

text \<open>The artifact digests the events refer to; every reference has to be a stored artifact's.\<close>

definition artifact_digest :: "string \<Rightarrow> string option" where
  "artifact_digest ref =
     (case strip_prefix ''artifact:sha256:'' ref of
        None \<Rightarrow> None | Some d \<Rightarrow> if length d = 64 then Some d else None)"

definition referenced_hashes :: "signed_event list \<Rightarrow> evidence_error + string list" where
  "referenced_hashes events =
     (let refs = concat (map (\<lambda>e. evd_artifact_refs (sev_draft e)) events) in
      if list_ex (\<lambda>r. artifact_digest r = None) refs then Err VIntegrityInvalid
      else Ok (remdups (sort (map (\<lambda>r. the (artifact_digest r)) refs))))"

definition artifact_rows :: "evidence_db \<Rightarrow> string \<Rightarrow> string list \<Rightarrow> stored_artifact list" where
  "artifact_rows db tenant hashes =
     List.map_filter (\<lambda>h. bt_get (edb_artifacts db) (tenant, h)) hashes"

definition store_build_package_tx ::
  "('sk, 'vk) evidence_env \<Rightarrow> evidence_codec \<Rightarrow> ('sk, 'vk) evidence_store \<Rightarrow> store_env
   \<Rightarrow> package_request \<Rightarrow> evidence_db \<Rightarrow> evidence_error + (signed_package \<times> evidence_db)" where
  "store_build_package_tx env codec st se req db =
     res_bind (package_request_digest env codec req) (\<lambda>digest.
     res_bind (uuid_check env [prq_tenant_id req, prq_task_id req]) (\<lambda>_.
     stmts se 0 4
       (case find (\<lambda>r. pr_tenant r = prq_tenant_id req \<and> pr_key r = prq_idempotency_key req)
               (edb_packages db) of
          Some row \<Rightarrow>
            if pr_digest row \<noteq> digest then Err VIdempotencyConflict
            else res_bind (verification_key st (sp_key_id (pr_package row))) (\<lambda>key.
              res_bind (signed_package_verify env codec key (es_verifying_keys st) (pr_package row))
                (\<lambda>_. Ok (pr_package row, db)))
        | None \<Rightarrow>
            stmt se 4
              (case bt_get (edb_heads db) (prq_tenant_id req, prq_task_id req) of
                 None \<Rightarrow> Err VChainIncomplete
               | Some head \<Rightarrow>
                   if hr_chain_hash head \<noteq> prq_expected_chain_head req then Err VIntegrityInvalid
                   else stmt se 5
                     (let events = events_of db (prq_tenant_id req) (prq_task_id req) in
                      res_bind (validate_chain_snapshot env events (prq_tenant_id req)
                          (prq_task_id req) (hr_chain_hash head)) (\<lambda>_.
                      res_bind (referenced_hashes events) (\<lambda>hashes.
                      (if hashes = [] then (\<lambda>k. k) else stmt se 6)
                        (let artifacts = artifact_rows db (prq_tenant_id req) hashes in
                         if length artifacts \<noteq> length hashes then Err VChainIncomplete
                         else
                           let p = \<lparr>ep_schema_version = EVIDENCE_EVENT_SCHEMA_VERSION,
                                ep_package_id = se_new_id se, ep_tenant_id = prq_tenant_id req,
                                ep_task_id = prq_task_id req, ep_events = events,
                                ep_artifacts = artifacts, ep_package_hash = [],
                                ep_built_at = se_clock se 0\<rparr>
                           in res_bind (package_hash env codec p) (\<lambda>h.
                              res_bind (signed_package_sign env codec (es_signing_key st)
                                 \<lparr>sp_schema_version = EVIDENCE_PACKAGE_SCHEMA_VERSION,
                                  sp_package = p\<lparr>ep_package_hash := h\<rparr>,
                                  sp_chain_head = hr_chain_hash head, sp_issuer = es_issuer st,
                                  sp_key_id = es_key_id st, sp_signature = []\<rparr>) (\<lambda>signed.
                              res_bind (verification_key st (sp_key_id signed)) (\<lambda>key.
                              res_bind (signed_package_verify env codec key (es_verifying_keys st)
                                  signed) (\<lambda>_.
                              res_bind (uuid_check env [se_new_id se]) (\<lambda>_.
                              stmts se 7 10
                                (Ok (signed, outbox_event se (prq_tenant_id req) (prq_task_id req)
                                   (se_new_id se) ''EVIDENCE_PACKAGE_BUILT''
                                   (JObject [(''package_id'', JString (se_new_id se)),
                                      (''package_hash'', JString h),
                                      (''chain_head'', JString (hr_chain_hash head))])
                                   (db\<lparr>edb_packages := edb_packages db @
                                      [\<lparr>pr_tenant = prq_tenant_id req,
                                        pr_key = prq_idempotency_key req, pr_digest = digest,
                                        pr_package = signed\<rparr>]\<rparr>))))))))))))))))"

definition store_build_package ::
  "('sk, 'vk) evidence_env \<Rightarrow> evidence_codec \<Rightarrow> ('sk, 'vk) evidence_store \<Rightarrow> store_env
   \<Rightarrow> package_request \<Rightarrow> evidence_db \<Rightarrow> (evidence_error + signed_package) \<times> evidence_db" where
  "store_build_package env codec st se req db = run_tx se db (store_build_package_tx env codec st se req db)"

subsection \<open>Evaluating a task\<close>

text \<open>The position, from one, of the first event of a type.\<close>

definition first_sequence :: "string list \<Rightarrow> string \<Rightarrow> nat option" where
  "first_sequence types name =
     map_option (\<lambda>(i, _). Suc i) (find (\<lambda>(i, t). t = name) (enumerate 0 types))"

definition before :: "string list \<Rightarrow> string \<Rightarrow> string \<Rightarrow> bool" where
  "before types a b =
     (case (first_sequence types a, first_sequence types b) of
        (Some i, Some j) \<Rightarrow> i < j | _ \<Rightarrow> False)"

definition ordered_names :: "string list" where
  "ordered_names = [''TASK_CREATED'', ''PLAN_GENERATED'', ''POLICY_EVALUATED'',
     ''CREDENTIAL_ISSUED'', ''TOOL_PREPARED'', ''TOOL_EXECUTED'']"

definition lifecycle_order_valid :: "string list \<Rightarrow> bool" where
  "lifecycle_order_valid types \<longleftrightarrow>
     list_all (\<lambda>(a, b). before types a b) (zip ordered_names (tl ordered_names))
     \<and> (case first_sequence types ''APPROVAL_DECISION'' of
          None \<Rightarrow> True
        | Some approval \<Rightarrow>
            (case first_sequence types ''POLICY_EVALUATED'' of
               None \<Rightarrow> False | Some policy \<Rightarrow> policy < approval)
            \<and> (case first_sequence types ''CREDENTIAL_ISSUED'' of
               None \<Rightarrow> False | Some credential \<Rightarrow> approval < credential))"

definition ledger_terminal :: "pg_execution list \<Rightarrow> bool" where
  "ledger_terminal executions \<longleftrightarrow>
     executions \<noteq> []
     \<and> list_all (\<lambda>x. px_status x = ''SUCCEEDED''
          \<and> (case px_evidence_ref x of None \<Rightarrow> False | Some r \<Rightarrow> r \<noteq> [])) executions"

definition production_gates ::
  "evaluation_request \<Rightarrow> string list \<Rightarrow> pg_execution list \<Rightarrow> (string, bool) btree" where
  "production_gates req types executions = bt_of_list
     [(''required_evidence_events'',
         list_all (\<lambda>t. event_type_name t \<in> set types) (vrq_required_event_types req)),
      (''lifecycle_order_valid'', lifecycle_order_valid types),
      (''trace_chain_complete'', True), (''expected_chain_head'', True),
      (''ledger_terminal_succeeded'', ledger_terminal executions),
      (''no_unhandled_high_risk_alerts'', ''SECURITY_ALERT'' \<notin> set types)]"

definition production_result ::
  "evaluation_request \<Rightarrow> signed_event list \<Rightarrow> pg_execution list \<Rightarrow> datetime \<Rightarrow> evaluation_result" where
  "production_result req events executions evaluated_at =
     (let gates = production_gates req (map (\<lambda>e. event_type_name (evd_event_type (sev_draft e))) events)
            executions;
          pass = list_all id (bt_values gates)
      in \<lparr>ev_schema_version = EVALUATION_RESULT_SCHEMA_VERSION,
          ev_status = (if pass then Pass else EvalNeedsHuman),
          ev_score_millionths = (if pass then 1000000 else 0), ev_hard_gate_results = gates,
          ev_findings = (if pass then [] else [''authoritative hard-gate evidence is incomplete'']),
          ev_evidence_refs = map (\<lambda>e. ''evidence://'' @ vrq_tenant_id req @ ''/'' @ vrq_task_id req
             @ ''/'' @ decimal (unat (sev_sequence e)) @ ''/'' @ sev_event_hash e) events,
          ev_evaluator_id = ''agenttrust.hard-gate.postgres'', ev_evaluator_version = ''1.0.0'',
          ev_evaluated_at = evaluated_at\<rparr>)"

definition evaluation_status_name :: "evaluation_status \<Rightarrow> string" where
  "evaluation_status_name s =
     (case s of Pass \<Rightarrow> ''PASS'' | Fail \<Rightarrow> ''FAIL'' | _ \<Rightarrow> ''NEEDS_HUMAN'')"

definition evaluate_task_tx ::
  "('sk, 'vk) evidence_env \<Rightarrow> evidence_codec \<Rightarrow> ('sk, 'vk) evidence_store \<Rightarrow> store_env
   \<Rightarrow> evaluation_request \<Rightarrow> evidence_db \<Rightarrow> evidence_error + (evaluation_run \<times> evidence_db)" where
  "evaluate_task_tx env codec st se req db =
     res_bind (evaluation_request_digest env codec (se_clock se 0) (se_clock se 1) req) (\<lambda>digest.
     res_bind (uuid_check env [vrq_tenant_id req, vrq_task_id req]) (\<lambda>_.
     stmts se 0 4
       (case find (\<lambda>r. vr_tenant r = vrq_tenant_id req \<and> vr_key r = vrq_idempotency_key req)
               (edb_evaluations db) of
          Some row \<Rightarrow>
            if vr_digest row \<noteq> digest then Err VIdempotencyConflict
            else res_bind (verification_key st (erun_key_id (vr_run row))) (\<lambda>key.
              res_bind (run_verify env codec key (vr_run row)) (\<lambda>_. Ok (vr_run row, db)))
        | None \<Rightarrow>
            stmt se 4
              (case bt_get (edb_heads db) (vrq_tenant_id req, vrq_task_id req) of
                 None \<Rightarrow> Err VChainIncomplete
               | Some head \<Rightarrow>
                   if hr_chain_hash head \<noteq> vrq_expected_chain_head req then Err VIntegrityInvalid
                   else stmt se 5
                     (let events = events_of db (vrq_tenant_id req) (vrq_task_id req) in
                      res_bind (validate_chain_snapshot env events (vrq_tenant_id req)
                          (vrq_task_id req) (hr_chain_hash head)) (\<lambda>_.
                      res_bind (verify_all env st events) (\<lambda>_.
                      stmt se 6
                        (let executions = filter (\<lambda>x. px_tenant_id x = vrq_tenant_id req
                               \<and> px_task_id x = vrq_task_id req)
                               (bt_values (pd_executions (edb_ledger db)));
                             result = production_result req events executions (se_clock se 2)
                         in res_bind (run_sign env codec (es_signing_key st)
                              \<lparr>erun_schema_version = EVALUATION_RUN_SCHEMA_VERSION,
                               erun_evaluation_id = se_new_id se, erun_tenant_id = vrq_tenant_id req,
                               erun_task_id = vrq_task_id req,
                               erun_idempotency_key = vrq_idempotency_key req,
                               erun_request_digest = digest, erun_chain_head = hr_chain_hash head,
                               erun_result = result, erun_issuer = es_issuer st,
                               erun_key_id = es_key_id st,
                               erun_key_usage = EVALUATION_RUN_KEY_USAGE, erun_signature = []\<rparr>) (\<lambda>run.
                            res_bind (run_verify env codec
                                (sg_public (ee_signer env) (es_signing_key st)) run) (\<lambda>_.
                            res_bind (uuid_check env [se_new_id se]) (\<lambda>_.
                            stmts se 7 9
                              (Ok (run, outbox_event se (vrq_tenant_id req) (vrq_task_id req)
                                 (se_new_id se) ''EVALUATION_RECORDED''
                                 (JObject [(''evaluation_id'', JString (se_new_id se)),
                                    (''status'', JString (evaluation_status_name (ev_status result))),
                                    (''chain_head'', JString (hr_chain_hash head)),
                                    (''request_digest'', JString digest)])
                                 (db\<lparr>edb_evaluations := edb_evaluations db @
                                    [\<lparr>vr_tenant = vrq_tenant_id req, vr_task = vrq_task_id req,
                                      vr_key = vrq_idempotency_key req, vr_digest = digest,
                                      vr_run = run\<rparr>]\<rparr>))))))))))))))"

definition evaluate_task ::
  "('sk, 'vk) evidence_env \<Rightarrow> evidence_codec \<Rightarrow> ('sk, 'vk) evidence_store \<Rightarrow> store_env
   \<Rightarrow> evaluation_request \<Rightarrow> evidence_db \<Rightarrow> (evidence_error + evaluation_run) \<times> evidence_db" where
  "evaluate_task env codec st se req db = run_tx se db (evaluate_task_tx env codec st se req db)"

end
