(* ===== verification/Evidence_Authority_Safety.thy ===== *)
theory Evidence_Authority_Safety
  imports Evidence_Authority
begin

text \<open>
  What the evidence authority promises: the chain it records verifies offline, a chain is determined
  by its last hash, and a passing evaluation is one whose every gate holds.
\<close>

subsection \<open>Chains\<close>

lemma contract_try_Ok_iff [simp]: "contract_try r = Ok x \<longleftrightarrow> r = Ok x"
  by (cases r) (auto simp: contract_try_def)

lemma evidence_signature_ok_Ok_iff [simp]:
  "evidence_signature_ok env key b s = Ok u \<longleftrightarrow> sg_verify (ee_signer env) key b s"
  by (auto simp: evidence_signature_ok_def)

text \<open>An event that may stand at a position of a chain.\<close>

definition event_fits ::
  "('sk, 'vk) evidence_env \<Rightarrow> 'vk event_keys \<Rightarrow> string \<Rightarrow> string \<Rightarrow> nat \<Rightarrow> string \<Rightarrow> signed_event \<Rightarrow> bool" where
  "event_fits env keys tenant task index previous e \<longleftrightarrow>
     sev_sequence e = of_nat index + 1 \<and> sev_previous_hash e = previous
     \<and> evd_task_id (sev_draft e) = task \<and> evd_tenant_id (sev_draft e) = tenant
     \<and> event_expected_hash env e = Ok (sev_event_hash e)
     \<and> sg_decodes (ee_signer env) (sev_signature e)
     \<and> (\<exists>key. bt_get keys (sev_key_id e) = Some key
          \<and> sg_verify (ee_signer env) key (sev_event_hash e) (sev_signature e))"

lemma verify_events_Cons_iff:
  "verify_events env keys tenant task index previous (e # es) = Ok () \<longleftrightarrow>
     event_fits env keys tenant task index previous e
     \<and> verify_events env keys tenant task (Suc index) (sev_event_hash e) es = Ok ()"
  by (auto simp: verify_events.simps(2) event_fits_def res_bind_Ok_iff split: option.splits)

lemma verify_events_snoc_iff:
  "verify_events env keys tenant task index previous (es @ [e]) = Ok () \<longleftrightarrow>
     verify_events env keys tenant task index previous es = Ok ()
     \<and> event_fits env keys tenant task (index + length es)
         (if es = [] then previous else sev_event_hash (last es)) e"
  by (induction es arbitrary: index previous)
    (auto simp: verify_events_Cons_iff)

lemma verify_events_tenant:
  "verify_events env keys tenant task index previous es = Ok () \<Longrightarrow> e \<in> set es \<Longrightarrow>
   evd_tenant_id (sev_draft e) = tenant"
  by (induction es arbitrary: index previous) (auto simp: verify_events_Cons_iff event_fits_def)

subsection \<open>The recorded chain\<close>

definition chain_tenant :: "signed_event list \<Rightarrow> string" where
  "chain_tenant es = evd_tenant_id (sev_draft (hd es))"

definition chains_sound :: "('sk, 'vk) evidence_env \<Rightarrow> 'sk audit_chain \<Rightarrow> bool" where
  "chains_sound env ac \<longleftrightarrow>
     (\<forall>task. verify_events env [(ac_key_id ac, sg_public (ee_signer env) (ac_signing_key ac))]
        (chain_tenant (chain_of ac task)) task 0 zero_hash (chain_of ac task) = Ok ())"

lemma event_expected_hash_strip:
  "event_expected_hash env (e\<lparr>sev_event_hash := h, sev_signature := s\<rparr>) = event_expected_hash env e"
  by (simp add: event_expected_hash_def event_signing_bytes_def)

lemma seal_event_Ok:
  assumes "seal_event env key e = Ok e'" and "signer_correct (ee_signer env)"
  shows "event_expected_hash env e' = Ok (sev_event_hash e')"
    and "sg_decodes (ee_signer env) (sev_signature e')"
    and "sg_verify (ee_signer env) (sg_public (ee_signer env) key) (sev_event_hash e') (sev_signature e')"
    and "sev_sequence e' = sev_sequence e" and "sev_previous_hash e' = sev_previous_hash e"
    and "sev_key_id e' = sev_key_id e" and "sev_draft e' = sev_draft e"
    and "sev_schema_version e' = sev_schema_version e" and "sev_event_id e' = sev_event_id e"
  using assms
  by (auto simp: seal_event_def res_bind_Ok_iff signer_correct_def event_expected_hash_strip)

lemma chain_of_touched:
  "chain_of (ac\<lparr>ac_events := bt_insert task (chain_of ac task) (ac_events ac)\<rparr>) = chain_of ac"
  by (rule ext) (auto simp: chain_of_def bt.get_put)

lemma chain_of_insert:
  "chain_of (ac\<lparr>ac_events := bt_insert task es (ac_events ac)\<rparr>) = (chain_of ac)(task := es)"
  by (rule ext) (auto simp: chain_of_def bt.get_put)

lemma chain_append_cases:
  obtains (unchanged) "chain_of (snd (chain_append env new_id draft ac)) = chain_of ac"
      "ac_key_id (snd (chain_append env new_id draft ac)) = ac_key_id ac"
      "ac_signing_key (snd (chain_append env new_id draft ac)) = ac_signing_key ac"
  | (appended) e where
      "seal_event env (ac_signing_key ac)
        (new_event new_id (of_nat (length (chain_of ac (evd_task_id draft))) + 1)
          (if chain_of ac (evd_task_id draft) = [] then zero_hash
           else sev_event_hash (last (chain_of ac (evd_task_id draft)))) (ac_key_id ac) draft) = Ok e"
      "chain_of ac (evd_task_id draft) = []
       \<or> chain_tenant (chain_of ac (evd_task_id draft)) = evd_tenant_id draft"
      "chain_append env new_id draft ac =
        (Ok e, ac\<lparr>ac_events := bt_insert (evd_task_id draft)
                   (chain_of ac (evd_task_id draft) @ [e]) (ac_events ac)\<rparr>)"
proof -
  let ?es = "chain_of ac (evd_task_id draft)"
  let ?sealed = "seal_event env (ac_signing_key ac)
        (new_event new_id (of_nat (length ?es) + 1)
          (if ?es = [] then zero_hash else sev_event_hash (last ?es)) (ac_key_id ac) draft)"
  show ?thesis
  proof (cases "validate_draft draft = Ok () \<and> length ?es < ac_maximum_events_per_task ac
      \<and> (?es = [] \<or> chain_tenant ?es = evd_tenant_id draft) \<and> is_ok ?sealed")
    case True
    then obtain e where "?sealed = Ok e" by (auto simp: is_ok_iff)
    with True show ?thesis
      by (intro appended [of e]) (auto simp: chain_append_def Let_def chain_tenant_def)
  next
    case False
    show ?thesis
      by (rule unchanged; insert False)
        (cases "validate_draft draft"; cases ?sealed;
         simp add: chain_append_def Let_def chain_tenant_def chain_of_touched)+
  qed
qed

lemma chains_sound_append:
  assumes sound: "chains_sound env ac" and signer: "signer_correct (ee_signer env)"
  shows "chains_sound env (snd (chain_append env new_id draft ac))"
proof (cases rule: chain_append_cases [of env new_id draft ac])
  case unchanged
  then show ?thesis using sound by (simp add: chains_sound_def)
next
  case (appended e)
  let ?task = "evd_task_id draft"
  let ?es = "chain_of ac ?task"
  let ?keys = "[(ac_key_id ac, sg_public (ee_signer env) (ac_signing_key ac))]"
  have "sev_draft e = draft"
    by (simp add: seal_event_Ok(7) [OF appended(1) signer] new_event_def)
  then have tenant: "chain_tenant (?es @ [e]) = evd_tenant_id draft"
    and before: "verify_events env ?keys (evd_tenant_id draft) ?task 0 zero_hash ?es = Ok ()"
    using appended(2) sound
    by (auto simp: chain_tenant_def chains_sound_def hd_append dest: spec [of _ ?task])
  have "event_fits env ?keys (evd_tenant_id draft) ?task (length ?es)
      (if ?es = [] then zero_hash else sev_event_hash (last ?es)) e"
    using seal_event_Ok [OF appended(1) signer]
    unfolding event_fits_def by (auto simp: new_event_def bt_get_def)
  with tenant before
  have "verify_events env ?keys (chain_tenant (?es @ [e])) ?task 0 zero_hash (?es @ [e]) = Ok ()"
    by (simp add: verify_events_snoc_iff)
  then show ?thesis
    using sound by (simp add: chains_sound_def appended(3) chain_of_insert)
qed

definition chain_step ::
  "('sk, 'vk) evidence_env \<Rightarrow> 'sk audit_chain \<Rightarrow> 'sk audit_chain \<Rightarrow> bool" where
  "chain_step env s t \<longleftrightarrow> (\<exists>new_id draft. t = snd (chain_append env new_id draft s))"

lemma chains_sound_new:
  "audit_chain_new key_id key maximum = Ok ac \<Longrightarrow> chains_sound env ac"
  by (auto simp: audit_chain_new_def chains_sound_def chain_of_def split: if_splits)

lemma chains_sound_steps:
  assumes "signer_correct (ee_signer env)" and "(chain_step env)\<^sup>*\<^sup>* ac ac'" and "chains_sound env ac"
  shows "chains_sound env ac'"
  using assms(2,3)
  by (induction rule: rtranclp_induct)
    (auto simp: chain_step_def intro: chains_sound_append [OF _ assms(1)])

text \<open>
  What is recorded verifies. Whatever drafts were offered to an audit chain, in whatever order
  and whichever were refused, a package built for a task and its tenant from the chain passes the
  offline verifier that knows the chain's key, with every event and artifact counted.
\<close>

theorem recorded_chain_verifies:
  assumes "audit_chain_new key_id key maximum = Ok ac0" and "(chain_step env)\<^sup>*\<^sup>* ac0 ac"
    and "signer_correct (ee_signer env)"
    and "build_package env codec new_id now tenant task artifacts ac = Ok p"
    and "\<forall>a \<in> set artifacts. sa_artifact_ref a = ''artifact:sha256:'' @ sa_sha256 a"
  shows "verify_package env codec [(ac_key_id ac, sg_public (ee_signer env) (ac_signing_key ac))] p
    = \<lparr>ir_valid = True, ir_verified_events = length (chain_of ac task),
       ir_verified_artifacts = length artifacts, ir_findings = []\<rparr>"
proof -
  have sound: "chains_sound env ac"
    using chains_sound_steps [OF assms(3,2) chains_sound_new [OF assms(1)]] .
  have p: "ep_events p = chain_of ac task" "ep_artifacts p = artifacts" "ep_tenant_id p = tenant"
      "ep_task_id p = task" "ep_schema_version p = EVIDENCE_EVENT_SCHEMA_VERSION"
      "package_hash env codec p = Ok (ep_package_hash p)"
    and tenants: "chain_of ac task \<noteq> []" "\<forall>e \<in> set (chain_of ac task). evd_tenant_id (sev_draft e) = tenant"
    using assms(4)
    by (auto simp: build_package_def Let_def res_bind_Ok_iff package_hash_def list_ex_iff
        split: if_splits)
  then have "chain_tenant (chain_of ac task) = tenant"
    by (simp add: chain_tenant_def)
  then have "verify_inner env codec [(ac_key_id ac, sg_public (ee_signer env) (ac_signing_key ac))] p = Ok ()"
    using sound p tenants(1) assms(5)
    by (auto simp: verify_inner_def chains_sound_def list_ex_iff)
  then show ?thesis
    by (simp add: verify_package_def p)
qed

subsection \<open>Tampering\<close>

text \<open>What the hash of an event covers: everything but the hash and the signature.\<close>

definition unsealed :: "signed_event \<Rightarrow> signed_event" where
  "unsealed e = e\<lparr>sev_event_hash := [], sev_signature := []\<rparr>"

definition unsigned :: "signed_event \<Rightarrow> signed_event" where
  "unsigned e = e\<lparr>sev_signature := []\<rparr>"

text \<open>
  The canonical text of an event is one of a record of strings and dates with one number, which JSON
  writes exactly below 2 ^ 53.
\<close>

definition codec_injective :: "('sk, 'vk) evidence_env \<Rightarrow> bool" where
  "codec_injective env \<longleftrightarrow>
     (\<forall>e e'. unat (sev_sequence e) < 2 ^ 53 \<and> unat (sev_sequence e') < 2 ^ 53
        \<and> ee_jcs_event env e = ee_jcs_event env e' \<and> ee_jcs_event env e \<noteq> None \<longrightarrow> e = e')"

text \<open>Two different texts, one hashed for each list of events, with the same digest.\<close>

definition digests_collide ::
  "('sk, 'vk) evidence_env \<Rightarrow> signed_event list \<Rightarrow> signed_event list \<Rightarrow> bool" where
  "digests_collide env es es' \<longleftrightarrow>
     (\<exists>e \<in> set es. \<exists>e' \<in> set es'. \<exists>x y.
        ee_jcs_event env (unsealed e) = Some x \<and> ee_jcs_event env (unsealed e') = Some y
        \<and> x \<noteq> y \<and> ee_sha256_hex env x = ee_sha256_hex env y)"

lemma event_expected_hash_Ok_iff:
  "event_expected_hash env e = Ok h \<longleftrightarrow>
     (\<exists>b. ee_jcs_event env (unsealed e) = Some b \<and> h = ee_sha256_hex env b)"
  by (auto simp: event_expected_hash_def event_signing_bytes_def unsealed_def canonical_digest_def
      split: option.splits)

lemma equal_hash_equal_event:
  assumes "event_expected_hash env e = Ok h" and "event_expected_hash env e' = Ok h"
    and "codec_injective env" and "\<not> digests_collide env es es'" and "e \<in> set es" and "e' \<in> set es'"
    and "unat (sev_sequence e) < 2 ^ 53" and "unat (sev_sequence e') < 2 ^ 53"
  shows "unsealed e = unsealed e'"
proof -
  obtain x where x: "ee_jcs_event env (unsealed e) = Some x" "h = ee_sha256_hex env x"
    using assms(1) unfolding event_expected_hash_Ok_iff by blast
  obtain y where y: "ee_jcs_event env (unsealed e') = Some y" "h = ee_sha256_hex env y"
    using assms(2) unfolding event_expected_hash_Ok_iff by blast
  have "x = y"
    using assms(4-6) x y unfolding digests_collide_def by blast
  moreover have "unat (sev_sequence (unsealed e)) < 2 ^ 53" "unat (sev_sequence (unsealed e')) < 2 ^ 53"
    using assms(7,8) by (simp_all add: unsealed_def)
  ultimately show ?thesis
    using assms(3) x(1) y(1) unfolding codec_injective_def by auto
qed

lemma digests_collide_prefix:
  "digests_collide env es es' \<Longrightarrow> digests_collide env (es @ fs) (es' @ fs')"
  unfolding digests_collide_def by auto

lemma unsealed_fields:
  assumes "unsealed e = unsealed e'"
  shows "sev_sequence e = sev_sequence e'" and "sev_previous_hash e = sev_previous_hash e'"
    and "sev_event_hash e = sev_event_hash e' \<Longrightarrow> unsigned e = unsigned e'"
  using assms by (cases e; cases e'; simp add: unsealed_def unsigned_def)+

lemma chains_with_equal_heads:
  assumes "verify_events env keys tenant task 0 zero_hash es = Ok ()"
    and "verify_events env keys' tenant' task' 0 zero_hash es' = Ok ()"
    and "es \<noteq> []" and "es' \<noteq> []" and "sev_event_hash (last es) = sev_event_hash (last es')"
    and "length es < 2 ^ 53" and "length es' < 2 ^ 53" and "\<not> digests_collide env es es'"
    and inj: "codec_injective env"
  shows "map unsigned es = map unsigned es'"
  using assms(1-8)
proof (induction es arbitrary: es' rule: rev_induct)
  case Nil
  then show ?case by simp
next
  case (snoc e es)
  then obtain fs f where es': "es' = fs @ [f]"
    by (metis rev_exhaust)
  have fits: "event_fits env keys tenant task (length es)
        (if es = [] then zero_hash else sev_event_hash (last es)) e"
      "event_fits env keys' tenant' task' (length fs)
        (if fs = [] then zero_hash else sev_event_hash (last fs)) f"
    and before: "verify_events env keys tenant task 0 zero_hash es = Ok ()"
      "verify_events env keys' tenant' task' 0 zero_hash fs = Ok ()"
    using snoc.prems by (auto simp: verify_events_snoc_iff es')
  have heads: "sev_event_hash e = sev_event_hash f"
    using snoc.prems(5) by (simp add: es')
  have small: "unat (of_nat n + 1 :: u64) = Suc n" if "Suc n < 2 ^ 53" for n
  proof -
    have "(of_nat n + 1 :: u64) = of_nat (Suc n)" by simp
    also have "unat \<dots> = Suc n" using that by (simp only: unat_of_nat) simp
    finally show ?thesis .
  qed
  have sequences: "unat (sev_sequence e) = Suc (length es)" "unat (sev_sequence f) = Suc (length fs)"
    using fits snoc.prems(6,7) small [of "length es"] small [of "length fs"]
    by (auto simp: event_fits_def es')
  have same: "unsealed e = unsealed f"
    using fits inj heads sequences snoc.prems(6-8)
    by (intro equal_hash_equal_event [of env e "sev_event_hash f" f "es @ [e]" es'])
      (auto simp: event_fits_def es')
  have len: "length es = length fs"
    using unsealed_fields(1) [OF same] sequences by simp
  have apart: "\<not> digests_collide env es fs"
    using snoc.prems(8) digests_collide_prefix [of env es fs "[e]" "[f]"] es' by blast
  have "map unsigned es = map unsigned fs"
  proof (cases "es = []")
    case False
    then have "sev_event_hash (last es) = sev_event_hash (last fs)"
      using unsealed_fields(2) [OF same] fits len by (auto simp: event_fits_def)
    with False len show ?thesis
      using snoc.prems(6,7) es' apart by (intro snoc.IH [OF before]) auto
  qed (use len in simp)
  then show ?case
    using unsealed_fields(3) [OF same heads] by (simp add: es')
qed

text \<open>
  C33: a chain cannot be rewritten behind its head. Two packages that the offline verifier accepts,
  with whatever keys, and whose last events have the same hash list the same events, up to the
  signature bytes, or two of the texts that were hashed for these very events are different and have
  one SHA-256 digest. No event was changed, dropped, inserted, reordered or cut off the front. The
  packages list fewer than 2 ^ 53 events each, for JSON to write the sequence numbers exactly.
\<close>

theorem chain_head_determines_history:
  assumes "ir_valid (verify_package env codec keys p)" and "ir_valid (verify_package env codec keys' q)"
    and "sev_event_hash (last (ep_events p)) = sev_event_hash (last (ep_events q))"
    and "length (ep_events p) < 2 ^ 53" and "length (ep_events q) < 2 ^ 53"
    and "codec_injective env"
  shows "map unsigned (ep_events p) = map unsigned (ep_events q)
    \<or> digests_collide env (ep_events p) (ep_events q)"
proof -
  have valid: "ep_events r \<noteq> [] \<and>
      verify_events env ks (ep_tenant_id r) (ep_task_id r) 0 zero_hash (ep_events r) = Ok ()"
    if "ir_valid (verify_package env codec ks r)" for ks r
    using that by (auto simp: verify_package_def verify_inner_def res_bind_Ok_iff
        split: sum.splits if_splits)
  show ?thesis
    using chains_with_equal_heads [of env keys _ _ "ep_events p" keys' _ _ "ep_events q"]
      valid [OF assms(1)] valid [OF assms(2)] assms(3-6) by blast
qed

subsection \<open>Evaluation\<close>

lemma bt_extend_ok: "bt_ok m \<Longrightarrow> bt_ok (bt_extend m n)"
  unfolding bt_extend_def by (induction n arbitrary: m) auto

lemma bt_get_extend:
  "distinct (map fst n) \<Longrightarrow> bt_ok m \<Longrightarrow>
   bt_get (bt_extend m n) k = (case map_of n k of None \<Rightarrow> bt_get m k | Some v \<Rightarrow> Some v)"
  using bt_of_list_aux [of n m k] by (simp add: bt_extend_def)

lemma evaluator_evaluate_OkD:
  assumes "evaluator_evaluate plugin utc_now i = Ok r"
  obtains d where "vp_evaluate plugin (vi_domain_input i) = Some (Ok d)"
    and "ev_hard_gate_results r = hard_gates i d"
    and "ev_status r = evaluation_verdict (hard_gates i d) (dom_uncertain d)"
    and "ev_evidence_refs r = vi_evidence_refs i @ dom_evidence_refs d"
    and "ev_status r \<noteq> Pass \<or> ev_evidence_refs r \<noteq> []"
  using assms
  by (auto simp: evaluator_evaluate_def Let_def res_bind_Ok_iff split: option.splits if_splits)

text \<open>
  A passing evaluation is one whose gates all hold, and it is what completes a task. Of every
  result the evaluator returns, the verdict is Pass exactly when every hard gate in it holds and the
  domain is certain; a Pass rests on evidence; and the task transition guard lets a verifying task
  complete on this result exactly when the verdict is Pass.
\<close>

theorem passing_evaluation_completes:
  assumes "evaluator_evaluate plugin utc_now i = Ok r"
  shows "(ev_status r = Pass \<longrightarrow>
            list_all id (bt_values (ev_hard_gate_results r)) \<and> ev_evidence_refs r \<noteq> [])
    \<and> (ev_status r = EvalNeedsHuman
         \<longleftrightarrow> (\<exists>d. vp_evaluate plugin (vi_domain_input i) = Some (Ok d) \<and> dom_uncertain d))
    \<and> (guard_allows TVerifying TCompleted (Some r) has_effects compensated \<longleftrightarrow> ev_status r = Pass)"
proof -
  obtain d where "vp_evaluate plugin (vi_domain_input i) = Some (Ok d)"
    and gates: "ev_hard_gate_results r = hard_gates i d"
    and status: "ev_status r = evaluation_verdict (hard_gates i d) (dom_uncertain d)"
    and "ev_evidence_refs r = vi_evidence_refs i @ dom_evidence_refs d"
    and "ev_status r \<noteq> Pass \<or> ev_evidence_refs r \<noteq> []"
    using assms by (rule evaluator_evaluate_OkD)
  then show ?thesis
    by (auto simp: evaluation_verdict_def guard_defs hard_gates_pass_def split: if_splits)
qed

text \<open>
  A domain plugin decides the core gates. A check of the plugin that carries the name of a core
  gate replaces it in the result, so an evaluation can pass although, say, the identity was invalid.
\<close>

theorem plugin_overrides_core_gates:
  assumes "evaluator_evaluate plugin utc_now i = Ok r"
    and "vp_evaluate plugin (vi_domain_input i) = Some (Ok d)" and "bt_ok (dom_checks d)"
    and "bt_get (dom_checks d) gate = Some verdict"
  shows "bt_get (ev_hard_gate_results r) gate = Some verdict"
proof -
  have "bt_ok (bt_of_list (core_gates i))"
    using bt_of_list_aux [of "core_gates i" bt_empty undefined]
    by (simp add: bt_of_list_def core_gates_def)
  moreover obtain d' where "vp_evaluate plugin (vi_domain_input i) = Some (Ok d')"
    and "ev_hard_gate_results r = hard_gates i d'"
    and "ev_status r = evaluation_verdict (hard_gates i d') (dom_uncertain d')"
    and "ev_evidence_refs r = vi_evidence_refs i @ dom_evidence_refs d'"
    and "ev_status r \<noteq> Pass \<or> ev_evidence_refs r \<noteq> []"
    using assms(1) by (rule evaluator_evaluate_OkD)
  ultimately show ?thesis
    using assms(2-4) bt_get_extend [OF bt_ok_distinct [OF assms(3)]]
    by (simp add: hard_gates_def bt_get_def)
qed

subsection \<open>Concrete runs\<close>

definition sample_evidence_codec :: evidence_codec where
  "sample_evidence_codec = \<lparr>vc_jcs_package = (\<lambda>_. Some []), vc_jcs_signed_package = (\<lambda>_. Some []),
     vc_jcs_event_request = (\<lambda>_. Some []), vc_jcs_package_request = (\<lambda>_. Some []),
     vc_jcs_evaluation_request = (\<lambda>_. Some []), vc_jcs_run = (\<lambda>_. Some [])\<rparr>"

definition sample_chain0 :: "string audit_chain" where
  "sample_chain0 = \<lparr>ac_key_id = ''key'', ac_signing_key = ''sk'', ac_maximum_events_per_task = 2,
     ac_events = bt_empty\<rparr>"

definition sample_chain1 :: "string audit_chain" where
  "sample_chain1 = snd (chain_append sample_evidence_env ''e1'' sample_draft sample_chain0)"

definition sample_chain2 :: "string audit_chain" where
  "sample_chain2 = snd (chain_append sample_evidence_env ''e2'' sample_draft sample_chain1)"

definition sample_package :: evidence_package where
  "sample_package = \<lparr>ep_schema_version = EVIDENCE_EVENT_SCHEMA_VERSION, ep_package_id = ''p'',
     ep_tenant_id = ''t'', ep_task_id = ''k'', ep_events = chain_of sample_chain2 ''k'',
     ep_artifacts = [], ep_package_hash = sample_sha, ep_built_at = 9\<rparr>"

lemma sample_package_built:
  "build_package sample_evidence_env sample_evidence_codec ''p'' 9 ''t'' ''k'' [] sample_chain2
     = Ok sample_package"
  by code_simp

lemma sample_chain_run: "(chain_step sample_evidence_env)\<^sup>*\<^sup>* sample_chain0 sample_chain2"
proof -
  have "chain_step sample_evidence_env sample_chain0 sample_chain1"
    and "chain_step sample_evidence_env sample_chain1 sample_chain2"
    by (auto simp: chain_step_def sample_chain1_def sample_chain2_def)
  then show ?thesis by (meson converse_rtranclp_into_rtranclp rtranclp.rtrancl_refl)
qed

theorem recorded_chain_verifies_witness:
  "verify_package sample_evidence_env sample_evidence_codec
     [(ac_key_id sample_chain2, sg_public (ee_signer sample_evidence_env) (ac_signing_key sample_chain2))]
     sample_package
    = \<lparr>ir_valid = True, ir_verified_events = length (chain_of sample_chain2 ''k''),
       ir_verified_artifacts = 0, ir_findings = []\<rparr> \<and> length (chain_of sample_chain2 ''k'') = 2"
proof -
  have "audit_chain_new ''key'' ''sk'' 2 = Ok sample_chain0"
    by (simp add: audit_chain_new_def sample_chain0_def)
  moreover have "length (chain_of sample_chain2 ''k'') = 2"
    by code_simp
  ultimately show ?thesis
    using recorded_chain_verifies [OF _ sample_chain_run sample_evidence_signer_correct sample_package_built]
    by simp
qed

text \<open>A serialization that only knows one event, so that it is injective; two packages with that event.\<close>

definition sample_sealed_event :: signed_event where
  "sample_sealed_event = \<lparr>sev_schema_version = EVIDENCE_EVENT_SCHEMA_VERSION, sev_event_id = ''e1'',
     sev_sequence = 1, sev_previous_hash = zero_hash, sev_event_hash = sample_sha,
     sev_key_id = ''key'', sev_signature = ''sk'' @ sample_sha, sev_draft = sample_draft\<rparr>"

definition narrow_env :: "(string, string) evidence_env" where
  "narrow_env = sample_evidence_env
     \<lparr>ee_jcs_event := (\<lambda>e. if e = unsealed sample_sealed_event then Some [] else None),
      ee_sha256_hex := (\<lambda>text. if text = [] then sample_sha else text)\<rparr>"

definition single_event_package :: evidence_package where
  "single_event_package = sample_package\<lparr>ep_events := [sample_sealed_event]\<rparr>"

lemma narrow_env_apart:
  "\<not> digests_collide narrow_env [sample_sealed_event] [sample_sealed_event]"
  by (simp add: digests_collide_def narrow_env_def)

theorem chain_head_determines_history_witness:
  "(map unsigned (ep_events single_event_package)
     = map unsigned (ep_events (single_event_package\<lparr>ep_package_id := ''q''\<rparr>))
   \<or> digests_collide narrow_env (ep_events single_event_package)
        (ep_events (single_event_package\<lparr>ep_package_id := ''q''\<rparr>)))
   \<and> \<not> digests_collide narrow_env (ep_events single_event_package)
        (ep_events (single_event_package\<lparr>ep_package_id := ''q''\<rparr>))"
proof (intro conjI chain_head_determines_history)
  show "ir_valid (verify_package narrow_env sample_evidence_codec [(''key'', ''sk'')] single_event_package)"
    by code_simp
  show "ir_valid (verify_package narrow_env sample_evidence_codec [(''key'', ''sk''), (''key2'', ''sk'')]
      (single_event_package\<lparr>ep_package_id := ''q''\<rparr>))"
    by code_simp
  show "codec_injective narrow_env"
    by (auto simp: codec_injective_def narrow_env_def split: if_splits)
qed (simp_all add: single_event_package_def narrow_env_apart)

definition sample_input :: evaluation_input where
  "sample_input = \<lparr>vi_tenant_id = ''t'', vi_task_id = ''k'', vi_identity_valid = False,
     vi_tool_registered = True, vi_policy_allowed = True, vi_approval_satisfied = True,
     vi_credential_valid = True, vi_trace_complete = True, vi_ledger_terminal_known = True,
     vi_unhandled_high_risk_alerts = 0, vi_evidence_refs = [''r''], vi_domain_input = JNull\<rparr>"

definition sample_domain :: domain_evaluation where
  "sample_domain = \<lparr>dom_checks = [(''identity_valid'', True)], dom_score_millionths = 7,
     dom_findings = [], dom_evidence_refs = [], dom_uncertain = False\<rparr>"

definition sample_plugin :: evaluator_plugin where
  "sample_plugin = \<lparr>vp_manifest = \<lparr>vm_evaluator_id = ''e'', vm_version = ''1'',
       vm_implementation_digest = ''sha256:0'', vm_calibration_dataset_ref = ''d'',
       vm_maximum_runtime_ms = 10, vm_signer_key_id = ''s'', vm_signature = ''g''\<rparr>,
     vp_evaluate = (\<lambda>_. Some (Ok sample_domain))\<rparr>"

definition sample_result :: evaluation_result where
  "sample_result = \<lparr>ev_schema_version = EVALUATION_RESULT_SCHEMA_VERSION, ev_status = Pass,
     ev_score_millionths = 7, ev_hard_gate_results = hard_gates sample_input sample_domain,
     ev_findings = [], ev_evidence_refs = [''r''], ev_evaluator_id = ''e'', ev_evaluator_version = ''1'',
     ev_evaluated_at = 5\<rparr>"

lemma sample_evaluated: "evaluator_evaluate sample_plugin 5 sample_input = Ok sample_result"
  by code_simp

theorem passing_evaluation_completes_witness:
  "ev_status sample_result = Pass \<and> guard_allows TVerifying TCompleted (Some sample_result) False False"
  using passing_evaluation_completes [OF sample_evaluated, of False False]
  by (simp add: sample_result_def)

theorem plugin_overrides_core_gates_witness:
  "\<not> vi_identity_valid sample_input
   \<and> bt_get (ev_hard_gate_results sample_result) ''identity_valid'' = Some True"
  using plugin_overrides_core_gates [OF sample_evaluated, of sample_domain "''identity_valid''" True]
  by (simp add: sample_input_def sample_plugin_def sample_domain_def bt_ok_def bt_get_def)

end
