(* ===== verification/Evidence_Store_Safety.thy ===== *)
theory Evidence_Store_Safety
  imports Evidence_Store Evidence_Authority_Safety
begin

text \<open>
  The promises of the production evidence store: in every state its calls can reach each chain is
  whole, a passing evaluation is backed by the ledger, and repeating an append gives the first answer.
\<close>

subsection \<open>What a call does to the chains\<close>

definition same_chain :: "evidence_db \<Rightarrow> evidence_db \<Rightarrow> bool" where
  "same_chain db db' \<longleftrightarrow>
     edb_audit_events db' = edb_audit_events db \<and> edb_heads db' = edb_heads db"

definition chain_extends ::
  "('sk, 'vk) evidence_env \<Rightarrow> ('sk, 'vk) evidence_store \<Rightarrow> evidence_db \<Rightarrow> evidence_db \<Rightarrow> bool" where
  "chain_extends env st db db' \<longleftrightarrow>
     (\<exists>event_id draft se n t row db1.
        sealed_event env st db (au_tenant row) (au_task row) event_id draft = Ok (au_event row)
        \<and> evd_tenant_id draft = au_tenant row \<and> evd_task_id draft = au_task row
        \<and> append_to_chain se n t row db = Ok db1 \<and> same_chain db1 db')"

lemma stmt_Ok_iff [simp]: "stmt se n k = Ok x \<longleftrightarrow> se_ok se n \<and> k = Ok x"
  by (simp add: stmt_def)

lemma stmts_Ok_iff [simp]: "stmts se a b k = Ok x \<longleftrightarrow> list_all (se_ok se) [a..<b] \<and> k = Ok x"
  by (simp add: stmts_def)

lemma uuid_check_Ok_iff [simp]: "uuid_check env vs = Ok u \<longleftrightarrow> list_all (canonical_uuid env) vs"
  by (simp add: uuid_check_def)

lemma run_tx_cases:
  obtains (rolled_back) "snd (run_tx se db r) = db"
  | (applied) x db' where "r = Ok (x, db')" and "snd (run_tx se db r) = db'"
proof (cases r)
  case (Inr p)
  then show ?thesis
    by (cases p; cases "se_commit_applied se") (auto simp: run_tx_def intro: that)
qed (auto simp: run_tx_def intro: that)

lemma run_tx_Ok_iff: "run_tx se db r = (Ok x, db') \<longleftrightarrow>
    r = Ok (x, db') \<and> se_commit_applied se \<and> se_commit_ok se"
  by (cases "se_commit_applied se"; cases "se_commit_ok se") (auto simp: run_tx_def split: sum.splits)

lemma same_chain_refl [simp]: "same_chain db db"
  by (simp add: same_chain_def)

lemma same_chain_outbox [simp]:
  "same_chain db (outbox_event se tenant task event_id event_type payload db') \<longleftrightarrow> same_chain db db'"
  by (simp add: same_chain_def outbox_event_def)

lemma same_chain_updates [simp]:
  "same_chain db (db'\<lparr>edb_event_requests := a\<rparr>) \<longleftrightarrow> same_chain db db'"
  "same_chain db (db'\<lparr>edb_authority_requests := b\<rparr>) \<longleftrightarrow> same_chain db db'"
  "same_chain db (db'\<lparr>edb_receipts := c\<rparr>) \<longleftrightarrow> same_chain db db'"
  "same_chain db (db'\<lparr>edb_packages := d\<rparr>) \<longleftrightarrow> same_chain db db'"
  "same_chain db (db'\<lparr>edb_evaluations := e\<rparr>) \<longleftrightarrow> same_chain db db'"
  by (simp_all add: same_chain_def)

lemma event_request_digest_OkD:
  "event_request_digest env codec utc r = Ok d \<Longrightarrow>
   evd_tenant_id (erq_event r) = erq_tenant_id r \<and> evd_task_id (erq_event r) = erq_task_id r"
  by (auto simp: event_request_digest_def split: if_splits)

lemma request_digest_OkD:
  "request_digest env utc a = Ok d \<Longrightarrow>
   evd_tenant_id (aer_event a) = aer_tenant_id a \<and> evd_task_id (aer_event a) = aer_task_id a"
  by (auto simp: request_digest_def res_bind_Ok_iff split: if_splits)

lemma execution_request_digest_OkD:
  "execution_request_digest env xj r = Ok d \<Longrightarrow>
   evd_tenant_id (xr_event r) = xr_tenant_id r \<and> evd_task_id (xr_event r) = xr_task_id r"
  by (auto simp: execution_request_digest_def split: if_splits)

lemma chain_extendsI:
  "append_to_chain se n t row db = Ok db1 \<Longrightarrow> same_chain db1 db' \<Longrightarrow>
   sealed_event env st db (au_tenant row) (au_task row) event_id draft = Ok (au_event row) \<Longrightarrow>
   evd_tenant_id draft = au_tenant row \<Longrightarrow> evd_task_id draft = au_task row \<Longrightarrow>
   chain_extends env st db db'"
  unfolding chain_extends_def by blast

lemma append_event_chain:
  assumes "append_event_tx env codec st se req db = Ok (x, db')"
  shows "same_chain db db' \<or> chain_extends env st db db'"
proof (cases "find (\<lambda>r. eq_tenant r = erq_tenant_id req \<and> eq_key r = erq_idempotency_key req)
    (edb_event_requests db)")
  case (Some row)
  then show ?thesis
    using assms by (auto simp: append_event_tx_def res_bind_Ok_iff split: if_splits)
next
  case None
  show ?thesis
  proof (cases "find (\<lambda>t. ot_tenant t = erq_tenant_id req \<and> ot_task t = erq_task_id req) (edb_tasks db)")
    case (Some t)
    have "chain_extends env st db db'"
      using assms None Some
      by (auto simp: append_event_tx_def res_bind_Ok_iff split: if_splits
          dest!: event_request_digest_OkD intro!: chain_extendsI)
    then show ?thesis ..
  qed (use assms None in \<open>simp add: append_event_tx_def res_bind_Ok_iff\<close>)
qed

lemma append_authority_chain:
  assumes "append_authority_event_tx env st se a db = Ok (x, db')"
  shows "same_chain db db' \<or> chain_extends env st db db'"
proof (cases "find_authority se a db")
  case (Some row)
  then show ?thesis
    using assms by (auto simp: append_authority_event_tx_def res_bind_Ok_iff split: if_splits sum.splits)
next
  case None
  have "chain_extends env st db db'"
    using assms None
    by (auto simp: append_authority_event_tx_def res_bind_Ok_iff split: sum.splits
        dest!: request_digest_OkD intro!: chain_extendsI)
  then show ?thesis ..
qed

lemma insert_receipt_same_chain: "insert_receipt row db = Ok db' \<Longrightarrow> same_chain db db'"
  by (auto simp: insert_receipt_def split: if_splits)

lemma append_execution_chain:
  assumes "append_execution_tx env xj st se req db = Ok (x, db')"
  shows "same_chain db db' \<or> chain_extends env st db db'"
proof (cases "find (\<lambda>r. rr_tenant r = xr_tenant_id req \<and> rr_key r = xr_idempotency_key req)
    (edb_receipts db)")
  case (Some row)
  then show ?thesis
    using assms by (auto simp: append_execution_tx_def res_bind_Ok_iff split: if_splits)
next
  case None
  have "chain_extends env st db db'"
    using assms None
    by (auto simp: append_execution_tx_def res_bind_Ok_iff split: if_splits
        dest!: execution_request_digest_OkD insert_receipt_same_chain intro!: chain_extendsI)
  then show ?thesis ..
qed

lemma packages_keep_chain:
  "store_build_package_tx env codec st se req db = Ok (x, db') \<Longrightarrow> same_chain db db'"
  by (auto simp: store_build_package_tx_def res_bind_Ok_iff Let_def split: option.splits if_splits)

lemma evaluations_keep_chain:
  "evaluate_task_tx env codec st se req db = Ok (x, db') \<Longrightarrow> same_chain db db'"
  by (auto simp: evaluate_task_tx_def res_bind_Ok_iff Let_def split: option.splits if_splits)

subsection \<open>The chain of a task\<close>

definition chain_rows :: "evidence_db \<Rightarrow> string \<Rightarrow> string \<Rightarrow> audit_row list" where
  "chain_rows db tenant task = filter (\<lambda>r. au_tenant r = tenant \<and> au_task r = task) (edb_audit_events db)"

definition chain_whole ::
  "('sk, 'vk) evidence_env \<Rightarrow> ('sk, 'vk) evidence_store \<Rightarrow> evidence_db \<Rightarrow> string \<Rightarrow> string \<Rightarrow> bool" where
  "chain_whole env st db tenant task \<longleftrightarrow>
     (let rows = chain_rows db tenant task; events = map au_event rows in
      map (\<lambda>e. unat (sev_sequence e)) events = [1..<Suc (length events)]
      \<and> length events < 2 ^ 63
      \<and> (\<forall>e \<in> set events. sev_key_id e = es_key_id st
           \<and> event_verify env e (sg_public (ee_signer env) (es_signing_key st)) = Ok ())
      \<and> (case bt_get (edb_heads db) (tenant, task) of
           None \<Rightarrow> events = []
         | Some h \<Rightarrow> events \<noteq> [] \<and> unat (hr_last_sequence h) = length events
             \<and> snapshot_head env tenant task 0 zero_hash events = Ok (hr_chain_hash h)))"

definition chains_whole ::
  "('sk, 'vk) evidence_env \<Rightarrow> ('sk, 'vk) evidence_store \<Rightarrow> evidence_db \<Rightarrow> bool" where
  "chains_whole env st db \<longleftrightarrow> (\<forall>tenant task. chain_whole env st db tenant task)"

lemma snapshot_head_snoc:
  "snapshot_head env tenant task index previous (es @ [e]) = Ok h \<longleftrightarrow>
     (\<exists>p. snapshot_head env tenant task index previous es = Ok p
        \<and> sev_sequence e = of_nat (index + length es) + 1 \<and> sev_previous_hash e = p
        \<and> event_expected_hash env e = Ok (sev_event_hash e)
        \<and> evd_tenant_id (sev_draft e) = tenant \<and> evd_task_id (sev_draft e) = task
        \<and> h = sev_event_hash e)"
  by (induction es arbitrary: index previous) (auto simp: res_bind_Ok_iff add.assoc)

lemma events_of_chain:
  assumes "map (\<lambda>e. unat (sev_sequence e)) (map au_event (chain_rows db tenant task)) = [1..<Suc n]"
  shows "events_of db tenant task = map au_event (chain_rows db tenant task)"
proof -
  have "sorted (map (\<lambda>r. unat (sev_sequence (au_event r))) (chain_rows db tenant task))"
    using assms sorted_upt [of 1 "Suc n"] by (simp add: comp_def del: upt_Suc)
  then show ?thesis
    by (simp add: events_of_def rows_of_def chain_rows_def sort_key_id_if_sorted)
qed

lemma append_to_chain_Ok:
  assumes "append_to_chain se n t row db = Ok db'"
  shows "chain_rows db' = (\<lambda>tenant task. chain_rows db tenant task
            @ (if au_tenant row = tenant \<and> au_task row = task then [row] else []))"
    and "bt_get (edb_heads db') = (bt_get (edb_heads db))
           ((au_tenant row, au_task row) \<mapsto>
              \<lparr>hr_last_sequence = sev_sequence (au_event row),
               hr_chain_hash = sev_event_hash (au_event row), hr_key_id = sev_key_id (au_event row),
               hr_updated_at = t\<rparr>)"
    and "unat (sev_sequence (au_event row)) < 2 ^ 63"
  using assms
  by (auto simp: append_to_chain_def insert_audit_def upsert_head_def chain_rows_def Let_def
      res_bind_Ok_iff fun_eq_iff bt.get_put not_le word_less_nat_alt split: option.splits if_splits)

lemma sealed_event_Ok:
  assumes "sealed_event env st db tenant task event_id draft = Ok e"
    and "signer_correct (ee_signer env)"
  shows "sev_sequence e = fst (next_position db tenant task)"
    and "sev_previous_hash e = snd (next_position db tenant task)"
    and "sev_key_id e = es_key_id st" and "sev_draft e = draft"
    and "event_expected_hash env e = Ok (sev_event_hash e)"
    and "event_verify env e (sg_public (ee_signer env) (es_signing_key st)) = Ok ()"
    and "sev_event_id e = event_id"
  using assms(1) seal_event_Ok [OF _ assms(2), of "es_signing_key st"
      "new_event event_id (fst (next_position db tenant task)) (snd (next_position db tenant task))
        (es_key_id st) draft" e]
  by (simp_all add: sealed_event_def res_bind_Ok_iff new_event_def)

lemma snapshot_head_last:
  "snapshot_head env tenant task index previous es = Ok h \<Longrightarrow>
   h = (if es = [] then previous else sev_event_hash (last es))"
  by (cases es rule: rev_cases) (auto simp: snapshot_head_snoc)

lemma chain_whole_same:
  "same_chain db db' \<Longrightarrow> chain_whole env st db' tenant task = chain_whole env st db tenant task"
  by (simp add: chain_whole_def chain_rows_def same_chain_def)

lemma chain_whole_position:
  assumes "chain_whole env st db tenant task"
  shows "fst (next_position db tenant task) = of_nat (length (chain_rows db tenant task)) + 1"
    and "snapshot_head env tenant task 0 zero_hash (map au_event (chain_rows db tenant task))
           = Ok (snd (next_position db tenant task))"
proof -
  have "of_nat (length (chain_rows db tenant task)) = hr_last_sequence h"
    if "bt_get (edb_heads db) (tenant, task) = Some h" for h
  proof -
    have "unat (hr_last_sequence h) = length (chain_rows db tenant task)"
      using assms that by (simp add: chain_whole_def Let_def)
    from arg_cong [OF this, of "of_nat :: nat \<Rightarrow> u64"] show ?thesis by simp
  qed
  then show "fst (next_position db tenant task) = of_nat (length (chain_rows db tenant task)) + 1"
    and "snapshot_head env tenant task 0 zero_hash (map au_event (chain_rows db tenant task))
           = Ok (snd (next_position db tenant task))"
    using assms by (auto simp: chain_whole_def Let_def next_position_def split: option.splits)
qed

lemma chain_extends_whole:
  assumes "chains_whole env st db" and "chain_extends env st db db'"
    and "signer_correct (ee_signer env)"
  shows "chains_whole env st db'"
proof -
  obtain event_id draft se n t row db1 where
    sealed: "sealed_event env st db (au_tenant row) (au_task row) event_id draft = Ok (au_event row)"
    and draft: "evd_tenant_id draft = au_tenant row" "evd_task_id draft = au_task row"
    and appended: "append_to_chain se n t row db = Ok db1" and same: "same_chain db1 db'"
    using assms(2) unfolding chain_extends_def by blast
  let ?tenant = "au_tenant row" and ?task = "au_task row" and ?e = "au_event row"
  let ?rows = "chain_rows db ?tenant ?task"
  have whole: "chain_whole env st db ?tenant ?task"
    using assms(1) by (simp add: chains_whole_def)
  note rows' = append_to_chain_Ok(1) [OF appended] and heads' = append_to_chain_Ok(2) [OF appended]
  have position: "sev_sequence ?e = of_nat (length ?rows) + 1"
    using chain_whole_position(1) [OF whole] sealed_event_Ok(1) [OF sealed assms(3)] by simp
  moreover have "length ?rows < 2 ^ 63"
    using whole by (simp add: chain_whole_def Let_def)
  ultimately have sequence: "unat (sev_sequence ?e) = Suc (length ?rows)"
    by (simp add: unat_word_ariths unat_of_nat)
  have fits: "snapshot_head env ?tenant ?task 0 zero_hash (map au_event (?rows @ [row]))
      = Ok (sev_event_hash ?e)"
    using chain_whole_position(2) [OF whole] position sealed_event_Ok [OF sealed assms(3)] draft
    by (simp add: snapshot_head_snoc)
  have "chain_whole env st db1 ?tenant ?task"
    using whole fits sequence append_to_chain_Ok(3) [OF appended]
      sealed_event_Ok(3,6) [OF sealed assms(3)]
    by (auto simp: chain_whole_def Let_def rows' heads')
  moreover have "chain_whole env st db1 tenant task" if "(tenant, task) \<noteq> (?tenant, ?task)" for tenant task
  proof -
    have "chain_rows db1 tenant task = chain_rows db tenant task"
      and "bt_get (edb_heads db1) (tenant, task) = bt_get (edb_heads db) (tenant, task)"
      using that by (auto simp: rows' heads')
    moreover have "chain_whole env st db tenant task"
      using assms(1) by (simp add: chains_whole_def)
    ultimately show ?thesis by (simp add: chain_whole_def)
  qed
  ultimately have "chain_whole env st db1 tenant task" for tenant task
    by (cases "(tenant, task) = (?tenant, ?task)") auto
  then show ?thesis
    using same by (simp add: chains_whole_def chain_whole_same)
qed

subsection \<open>Runs\<close>

text \<open>
  A step of the store: one of its calls, with any request, any clock, any failing statement and any
  outcome of the commit, or a write of another service to the tables that are its own.
\<close>

inductive evidence_step ::
  "('sk, 'vk) evidence_env \<Rightarrow> evidence_codec \<Rightarrow> 'c execution_codec \<Rightarrow> ('sk, 'vk) evidence_store
   \<Rightarrow> evidence_db \<Rightarrow> evidence_db \<Rightarrow> bool"
  for env codec xj st where
  step_lifecycle: "evidence_step env codec xj st db (snd (append_event env codec st se req db))"
| step_authority: "evidence_step env codec xj st db (snd (append_authority_event env st se a db))"
| step_execution: "evidence_step env codec xj st db (snd (append_execution env xj st se xreq db))"
| step_package: "evidence_step env codec xj st db (snd (store_build_package env codec st se preq db))"
| step_evaluate: "evidence_step env codec xj st db (snd (evaluate_task env codec st se vreq db))"
| step_others: "evidence_step env codec xj st db (db\<lparr>edb_tasks := ts, edb_owners := os,
     edb_authorizations := ps, edb_ledger := ldb, edb_artifacts := as\<rparr>)"

definition evidence_db_empty :: "evidence_db \<Rightarrow> bool" where
  "evidence_db_empty db \<longleftrightarrow>
     edb_audit_events db = [] \<and> edb_heads db = bt_empty \<and> edb_event_requests db = []
     \<and> edb_authority_requests db = [] \<and> edb_receipts db = [] \<and> edb_packages db = []
     \<and> edb_evaluations db = [] \<and> edb_outbox db = []"

lemma evidence_step_chain:
  assumes "evidence_step env codec xj st db db'"
  shows "same_chain db db' \<or> chain_extends env st db db'"
  using assms
proof cases
  case (step_lifecycle se req)
  then show ?thesis
    by (cases rule: run_tx_cases [of se db "append_event_tx env codec st se req db"])
      (auto simp: append_event_def dest: append_event_chain)
next
  case (step_authority se a)
  then show ?thesis
    by (cases rule: run_tx_cases [of se db "append_authority_event_tx env st se a db"])
      (auto simp: append_authority_event_def dest: append_authority_chain)
next
  case (step_execution se xreq)
  then show ?thesis
    by (cases rule: run_tx_cases [of se db "append_execution_tx env xj st se xreq db"])
      (auto simp: append_execution_def dest: append_execution_chain)
next
  case (step_package se preq)
  then show ?thesis
    by (cases rule: run_tx_cases [of se db "store_build_package_tx env codec st se preq db"])
      (auto simp: store_build_package_def dest: packages_keep_chain)
next
  case (step_evaluate se vreq)
  then show ?thesis
    by (cases rule: run_tx_cases [of se db "evaluate_task_tx env codec st se vreq db"])
      (auto simp: evaluate_task_def dest: evaluations_keep_chain)
qed (simp add: same_chain_def)

lemma evidence_step_whole:
  assumes "signer_correct (ee_signer env)" and "evidence_step env codec xj st db db'"
    and "chains_whole env st db"
  shows "chains_whole env st db'"
  using evidence_step_chain [OF assms(2)] assms(1,3)
  by (auto simp: chains_whole_def chain_whole_same dest: chain_extends_whole [unfolded chains_whole_def])

lemma evidence_empty_whole: "evidence_db_empty db \<Longrightarrow> chains_whole env st db"
  by (simp add: evidence_db_empty_def chains_whole_def chain_whole_def chain_rows_def)

lemma reach_chains_whole:
  assumes "reach evidence_db_empty (evidence_step env codec xj st) db"
    and "signer_correct (ee_signer env)"
  shows "chains_whole env st db"
  using assms(1)
  by induction (auto intro: evidence_empty_whole evidence_step_whole [OF assms(2)])

lemma whole_events_of:
  assumes "chain_whole env st db tenant task"
  shows "events_of db tenant task = map au_event (chain_rows db tenant task)"
  using assms
  by (intro events_of_chain [of _ _ _ "length (chain_rows db tenant task)"])
    (simp add: chain_whole_def Let_def del: upt_Suc)

lemma event_verify_OkD:
  assumes "event_verify env e key = Ok u"
  shows "event_expected_hash env e = Ok (sev_event_hash e)"
    and "sg_decodes (ee_signer env) (sev_signature e)"
    and "sg_verify (ee_signer env) key (sev_event_hash e) (sev_signature e)"
    and "draft_valid env (sev_draft e)"
  using assms
  by (auto simp: event_verify_def draft_validate_def res_bind_Ok_iff signature_ok_def split: if_splits)

lemma snapshot_verifies:
  assumes "snapshot_head env tenant task index previous es = Ok h"
    and "\<And>e. e \<in> set es \<Longrightarrow> sev_key_id e = key_id \<and> event_verify env e key = Ok ()"
  shows "verify_events env [(key_id, key)] tenant task index previous es = Ok ()"
  using assms
proof (induction es arbitrary: index previous)
  case Nil
  then show ?case by simp
next
  case (Cons e es)
  have "sev_key_id e = key_id" and verified: "event_verify env e key = Ok ()"
    using Cons.prems(2) [of e] by simp_all
  moreover have "snapshot_head env tenant task (Suc index) (sev_event_hash e) es = Ok h"
      "sev_sequence e = of_nat index + 1" "sev_previous_hash e = previous"
      "evd_task_id (sev_draft e) = task" "evd_tenant_id (sev_draft e) = tenant"
    using Cons.prems(1) by (auto simp: res_bind_Ok_iff split: if_splits)
  moreover have "verify_events env [(key_id, key)] tenant task (Suc index) (sev_event_hash e) es = Ok ()"
    using calculation(3) Cons.prems(2) by (intro Cons.IH) auto
  ultimately show ?case
    using event_verify_OkD [OF verified]
    by (simp add: verify_events_Cons_iff event_fits_def bt_get_def)
qed

text \<open>
  C3: the stored chains are whole. In every state the store can reach, under any interleaving of its
  calls, failing statements and lost commits, the events of a task stand in the order of their
  sequence numbers from one on, pass the snapshot check against the stored head and the offline
  verifier with the store's key, and there is a head exactly when there are events.
\<close>

theorem stored_chains_are_whole:
  assumes "reach evidence_db_empty (evidence_step env codec xj st) db"
    and "signer_correct (ee_signer env)"
  shows "case bt_get (edb_heads db) (tenant, task) of
      None \<Rightarrow> events_of db tenant task = []
    | Some h \<Rightarrow>
        validate_chain_snapshot env (events_of db tenant task) tenant task (hr_chain_hash h) = Ok ()
        \<and> verify_events env [(es_key_id st, sg_public (ee_signer env) (es_signing_key st))]
            tenant task 0 zero_hash (events_of db tenant task) = Ok ()
        \<and> map (\<lambda>e. unat (sev_sequence e)) (events_of db tenant task)
            = [1..<Suc (unat (hr_last_sequence h))]"
proof -
  have whole: "chain_whole env st db tenant task"
    using reach_chains_whole [OF assms] by (simp add: chains_whole_def)
  show ?thesis
  proof (cases "bt_get (edb_heads db) (tenant, task)")
    case None
    then show ?thesis
      using whole by (simp add: whole_events_of chain_whole_def Let_def)
  next
    case (Some h)
    let ?events = "map au_event (chain_rows db tenant task)"
    have facts: "snapshot_head env tenant task 0 zero_hash ?events = Ok (hr_chain_hash h)"
        "?events \<noteq> []" "unat (hr_last_sequence h) = length ?events"
        "map (\<lambda>e. unat (sev_sequence e)) ?events = [1..<Suc (length ?events)]"
      and good: "\<And>e. e \<in> set ?events \<Longrightarrow> sev_key_id e = es_key_id st
        \<and> event_verify env e (sg_public (ee_signer env) (es_signing_key st)) = Ok ()"
      using whole Some by (auto simp: chain_whole_def Let_def simp del: upt_Suc)
    then show ?thesis
      using snapshot_verifies [OF facts(1) good] Some
      by (simp add: whole_events_of [OF whole] validate_chain_snapshot_def del: upt_Suc)
  qed
qed

subsection \<open>Evaluation\<close>

lemma production_gates_values:
  "list_all id (bt_values (production_gates req types executions)) \<longleftrightarrow>
     list_all (\<lambda>t. event_type_name t \<in> set types) (vrq_required_event_types req)
     \<and> lifecycle_order_valid types \<and> ledger_terminal executions \<and> ''SECURITY_ALERT'' \<notin> set types"
  by (auto simp: production_gates_def bt_of_list_def bt_empty_def bt_values_def)

lemma production_result_pass:
  "ev_status (production_result req events executions t) = Pass \<longleftrightarrow>
     list_all id (bt_values (ev_hard_gate_results (production_result req events executions t)))"
  "ev_hard_gate_results (production_result req events executions t) =
     production_gates req (map (\<lambda>e. event_type_name (evd_event_type (sev_draft e))) events) executions"
  by (simp_all add: production_result_def Let_def)

lemma evaluate_task_fresh:
  assumes "evaluate_task_tx env codec st se req db = Ok (run, db')"
    and "find (\<lambda>r. vr_tenant r = vrq_tenant_id req \<and> vr_key r = vrq_idempotency_key req)
      (edb_evaluations db) = None"
  shows "validate_chain_snapshot env (events_of db (vrq_tenant_id req) (vrq_task_id req))
           (vrq_tenant_id req) (vrq_task_id req) (vrq_expected_chain_head req) = Ok ()"
    and "erun_result run = production_result req (events_of db (vrq_tenant_id req) (vrq_task_id req))
           (filter (\<lambda>x. px_tenant_id x = vrq_tenant_id req \<and> px_task_id x = vrq_task_id req)
             (bt_values (pd_executions (edb_ledger db)))) (se_clock se 2)"
    and "erun_chain_head run = vrq_expected_chain_head req"
    and "run_verify env codec (sg_public (ee_signer env) (es_signing_key st)) run = Ok ()"
    and "verify_all env st (events_of db (vrq_tenant_id req) (vrq_task_id req)) = Ok ()"
proof -
  from assms obtain head where head: "bt_get (edb_heads db) (vrq_tenant_id req, vrq_task_id req) = Some head"
    by (cases "bt_get (edb_heads db) (vrq_tenant_id req, vrq_task_id req)")
      (auto simp: evaluate_task_tx_def res_bind_Ok_iff)
  show "validate_chain_snapshot env (events_of db (vrq_tenant_id req) (vrq_task_id req))
           (vrq_tenant_id req) (vrq_task_id req) (vrq_expected_chain_head req) = Ok ()"
    and "erun_result run = production_result req (events_of db (vrq_tenant_id req) (vrq_task_id req))
           (filter (\<lambda>x. px_tenant_id x = vrq_tenant_id req \<and> px_task_id x = vrq_task_id req)
             (bt_values (pd_executions (edb_ledger db)))) (se_clock se 2)"
    and "erun_chain_head run = vrq_expected_chain_head req"
    and "run_verify env codec (sg_public (ee_signer env) (es_signing_key st)) run = Ok ()"
    and "verify_all env st (events_of db (vrq_tenant_id req) (vrq_task_id req)) = Ok ()"
    using assms head
    by (auto simp: evaluate_task_tx_def res_bind_Ok_iff Let_def run_sign_def split: if_splits)
qed

lemma verify_all_Ok:
  "verify_all env st es = Ok () \<Longrightarrow> e \<in> set es \<Longrightarrow>
   \<exists>key. bt_get (es_verifying_keys st) (sev_key_id e) = Some key \<and> event_verify env e key = Ok ()"
proof (induction es)
  case (Cons f es)
  then obtain key where "verification_key st (sev_key_id f) = Ok key" "event_verify env f key = Ok ()"
    and "verify_all env st es = Ok ()"
    by (auto simp: res_bind_Ok_iff contract_try_Ok_iff)
  with Cons show ?case
    by (auto simp: verification_key_def split: option.splits)
qed simp

lemma evaluate_task_stored:
  assumes "evaluate_task_tx env codec st se req db = Ok (run, db')"
    and "find (\<lambda>r. vr_tenant r = vrq_tenant_id req \<and> vr_key r = vrq_idempotency_key req)
      (edb_evaluations db) = Some row"
  shows "db' = db \<and> run = vr_run row
    \<and> evaluation_request_digest env codec (se_clock se 0) (se_clock se 1) req = Ok (vr_digest row)
    \<and> (\<exists>key. bt_get (es_verifying_keys st) (erun_key_id run) = Some key
         \<and> run_verify env codec key run = Ok ())"
  using assms
  by (auto simp: evaluate_task_tx_def res_bind_Ok_iff verification_key_def split: if_splits option.splits)

text \<open>
  C7: a passing evaluation is earned. An evaluation the store returns is either the one it recorded for
  the tenant and the idempotency key, for a request of the same digest, signed by one of the store's
  keys; or it is new, and if it passes then the chain it read is whole up to the expected head, every
  event of it is signed by a key of the store, it contains every required event in the order of the life
  cycle and no security alert, and the ledger holds at least one execution of the task, all of them
  succeeded with evidence. The result is what lets the task complete.
\<close>

theorem passing_run_is_earned:
  assumes "evaluate_task env codec st se req db = (Ok run, db')"
    and "ev_status (erun_result run) = Pass"
  shows "(\<exists>row \<in> set (edb_evaluations db).
        vr_tenant row = vrq_tenant_id req \<and> vr_key row = vrq_idempotency_key req \<and> vr_run row = run
        \<and> evaluation_request_digest env codec (se_clock se 0) (se_clock se 1) req = Ok (vr_digest row)
        \<and> (\<exists>key. bt_get (es_verifying_keys st) (erun_key_id run) = Some key
             \<and> run_verify env codec key run = Ok ())
        \<and> db' = db)
    \<or> (validate_chain_snapshot env (events_of db (vrq_tenant_id req) (vrq_task_id req))
           (vrq_tenant_id req) (vrq_task_id req) (vrq_expected_chain_head req) = Ok ()
        \<and> (\<forall>e \<in> set (events_of db (vrq_tenant_id req) (vrq_task_id req)).
             \<exists>key. bt_get (es_verifying_keys st) (sev_key_id e) = Some key \<and> event_verify env e key = Ok ())
        \<and> (let types = map (\<lambda>e. event_type_name (evd_event_type (sev_draft e)))
                 (events_of db (vrq_tenant_id req) (vrq_task_id req))
           in lifecycle_order_valid types \<and> ''SECURITY_ALERT'' \<notin> set types
              \<and> list_all (\<lambda>t. event_type_name t \<in> set types) (vrq_required_event_types req))
        \<and> ledger_terminal (filter (\<lambda>x. px_tenant_id x = vrq_tenant_id req \<and> px_task_id x = vrq_task_id req)
             (bt_values (pd_executions (edb_ledger db))))
        \<and> erun_chain_head run = vrq_expected_chain_head req
        \<and> run_verify env codec (sg_public (ee_signer env) (es_signing_key st)) run = Ok ()
        \<and> guard_allows TVerifying TCompleted (Some (erun_result run)) has_effects compensated)"
    (is "?stored \<or> ?earned")
proof (cases "find (\<lambda>r. vr_tenant r = vrq_tenant_id req \<and> vr_key r = vrq_idempotency_key req)
      (edb_evaluations db)")
  case None
  have tx: "evaluate_task_tx env codec st se req db = Ok (run, db')"
    using assms(1) by (simp add: evaluate_task_def run_tx_Ok_iff)
  note fresh = evaluate_task_fresh [OF tx None]
  have gates: "list_all id (bt_values (ev_hard_gate_results (erun_result run)))"
    using assms(2) by (simp add: fresh(2) production_result_pass)
  then have "guard_allows TVerifying TCompleted (Some (erun_result run)) has_effects compensated"
    using assms(2) by (simp add: guard_defs hard_gates_pass_def)
  moreover have "\<forall>e \<in> set (events_of db (vrq_tenant_id req) (vrq_task_id req)).
      \<exists>key. bt_get (es_verifying_keys st) (sev_key_id e) = Some key \<and> event_verify env e key = Ok ()"
    using verify_all_Ok [OF fresh(5)] by blast
  ultimately have ?earned
    using gates fresh(1,3,4)
    by (simp add: fresh(2) production_result_pass production_gates_values Let_def)
  then show ?thesis ..
next
  case (Some row)
  have tx: "evaluate_task_tx env codec st se req db = Ok (run, db')"
    using assms(1) by (simp add: evaluate_task_def run_tx_Ok_iff)
  from Some have "row \<in> set (edb_evaluations db)" "vr_tenant row = vrq_tenant_id req"
    "vr_key row = vrq_idempotency_key req"
    by (auto simp: find_Some_iff)
  with evaluate_task_stored [OF tx Some] have ?stored by blast
  then show ?thesis ..
qed

subsection \<open>Concrete runs\<close>

definition sample_evidence_store :: "(string, string) evidence_store" where
  "sample_evidence_store = \<lparr>es_issuer = ''evidence'', es_key_id = ''key'', es_signing_key = ''sk'',
     es_verifying_keys = [(''key'', ''sk'')]\<rparr>"

definition sample_store_env :: store_env where
  "sample_store_env = \<lparr>se_ok = (\<lambda>_. True), se_commit_applied = True, se_commit_ok = True,
     se_clock = (\<lambda>_. 5), se_new_id = ''e1'', se_outbox_id = ''o1'', se_pick = 0\<rparr>"

definition sample_ledger_db :: pg_db where
  "sample_ledger_db = \<lparr>pd_executions = [(''x'', \<lparr>px_execution_id = ''x'', px_tenant_id = ''t'',
       px_task_id = ''k'', px_step_id = ''s'', px_action_hash = sample_sha,
       px_idempotency_key = ''i'', px_fence_token = 1, px_status = ''SUCCEEDED'', px_intent = JNull,
       px_attempt = 0, px_external_operation_id = None, px_result_ref = None,
       px_evidence_ref = Some ''r'', px_last_error_code = None, px_manual_recovery = None,
       px_created_at = 0, px_updated_at = 0\<rparr>)],
     pd_idempotency_records = [], pd_outbox = [], pd_fence_seq = 1\<rparr>"

definition sample_evidence_db :: evidence_db where
  "sample_evidence_db = \<lparr>edb_audit_events = [], edb_heads = bt_empty, edb_event_requests = [],
     edb_authority_requests = [], edb_receipts = [], edb_artifacts = bt_empty, edb_packages = [],
     edb_evaluations = [], edb_outbox = [],
     edb_tasks = [\<lparr>ot_tenant = ''t'', ot_task = ''k'', ot_state_version = 3,
       ot_goal_digest = sample_sha, ot_plan_digest = sample_sha\<rparr>],
     edb_owners = bt_empty, edb_authorizations = [], edb_ledger = sample_ledger_db\<rparr>"

definition sample_execution_codec :: "unit execution_codec" where
  "sample_execution_codec = \<lparr>xj_request = (\<lambda>_. Some []), xj_receipt = (\<lambda>_. Some []),
     xj_fence = (\<lambda>_. Some [])\<rparr>"

definition sample_event_request :: event_request where
  "sample_event_request = \<lparr>erq_schema_version = EVIDENCE_EVENT_REQUEST_SCHEMA_VERSION,
     erq_tenant_id = ''t'', erq_task_id = ''k'', erq_idempotency_key = ''i'',
     erq_expected_task_state_version = 3, erq_event = sample_draft, erq_requested_at = 0\<rparr>"

definition sample_evidence_db1 :: evidence_db where
  "sample_evidence_db1 = snd (append_event sample_evidence_env sample_evidence_codec
     sample_evidence_store sample_store_env sample_event_request sample_evidence_db)"

definition sample_head :: head_row where
  "sample_head = \<lparr>hr_last_sequence = 1, hr_chain_hash = sample_sha, hr_key_id = ''key'', hr_updated_at = 5\<rparr>"

lemma sample_event_stored: "bt_get (edb_heads sample_evidence_db1) (''t'', ''k'') = Some sample_head"
  by code_simp

theorem stored_chains_are_whole_witness:
  "validate_chain_snapshot sample_evidence_env (events_of sample_evidence_db1 ''t'' ''k'') ''t'' ''k''
     sample_sha = Ok ()
   \<and> map (\<lambda>e. unat (sev_sequence e)) (events_of sample_evidence_db1 ''t'' ''k'') = [1]"
proof -
  have "evidence_db_empty sample_evidence_db"
    by (simp add: evidence_db_empty_def sample_evidence_db_def)
  then have "reach evidence_db_empty (evidence_step sample_evidence_env sample_evidence_codec
      sample_execution_codec sample_evidence_store) sample_evidence_db1"
    unfolding sample_evidence_db1_def
    using evidence_step.step_lifecycle reach_init reach_step by metis
  from stored_chains_are_whole [OF this sample_evidence_signer_correct, of "''t''" "''k''"]
  show ?thesis
    by (simp add: sample_event_stored sample_head_def)
qed

definition sample_run_types :: "evidence_event_type list" where
  "sample_run_types = [EvTaskCreated, EvPlanGenerated, EvPolicyEvaluated, EvApprovalDecision,
     EvCredentialIssued, EvToolPrepared, EvToolExecuted]"

definition sample_run_event :: "nat \<Rightarrow> evidence_event_type \<Rightarrow> signed_event" where
  "sample_run_event i ty = \<lparr>sev_schema_version = EVIDENCE_EVENT_SCHEMA_VERSION, sev_event_id = ''e'',
     sev_sequence = of_nat i + 1, sev_previous_hash = (if i = 0 then zero_hash else sample_sha),
     sev_event_hash = sample_sha, sev_key_id = ''key'', sev_signature = ''sk'' @ sample_sha,
     sev_draft = sample_draft\<lparr>evd_event_type := ty\<rparr>\<rparr>"

definition sample_run_db :: evidence_db where
  "sample_run_db = sample_evidence_db
     \<lparr>edb_audit_events := map (\<lambda>(i, ty). \<lparr>au_tenant = ''t'', au_task = ''k'',
         au_event = sample_run_event i ty, au_request_digest = sample_sha, au_execution_id = None,
         au_authorization_id = None, au_result_hash = None\<rparr>) (enumerate 0 sample_run_types),
      edb_heads := [((''t'', ''k''), sample_head\<lparr>hr_last_sequence := 7\<rparr>)]\<rparr>"

definition sample_evaluation_request :: evaluation_request where
  "sample_evaluation_request = \<lparr>vrq_schema_version = EVALUATION_REQUEST_SCHEMA_VERSION,
     vrq_tenant_id = ''t'', vrq_task_id = ''k'', vrq_idempotency_key = ''i'',
     vrq_expected_chain_head = sample_sha, vrq_required_event_types = sample_run_types,
     vrq_requested_at = 5\<rparr>"

theorem passing_run_is_earned_witness:
  "\<exists>run :: evaluation_run. ev_status (erun_result run) = Pass
     \<and> guard_allows TVerifying TCompleted (Some (erun_result run)) False False"
proof -
  define run where "run = (case fst (evaluate_task sample_evidence_env sample_evidence_codec
      sample_evidence_store sample_store_env sample_evaluation_request sample_run_db) of Inr r \<Rightarrow> r)"
  have "is_ok (fst (evaluate_task sample_evidence_env sample_evidence_codec
      sample_evidence_store sample_store_env sample_evaluation_request sample_run_db))"
    by code_simp
  then obtain db' where "evaluate_task sample_evidence_env sample_evidence_codec
      sample_evidence_store sample_store_env sample_evaluation_request sample_run_db = (Ok run, db')"
    unfolding run_def is_ok_iff by (metis prod.collapse sum.case(2))
  moreover have "ev_status (erun_result run) = Pass"
    unfolding run_def by code_simp
  moreover have "edb_evaluations sample_run_db = []"
    by (simp add: sample_run_db_def sample_evidence_db_def)
  ultimately have "ev_status (erun_result run) = Pass
      \<and> guard_allows TVerifying TCompleted (Some (erun_result run)) False False"
    using passing_run_is_earned [of sample_evidence_env sample_evidence_codec sample_evidence_store
        sample_store_env sample_evaluation_request sample_run_db run db' False False]
    by simp
  then show ?thesis ..
qed

end
