(* ===== verification/Approval.thy ===== *)
theory Approval
  imports Review_Evidence BTree_Map
begin

text \<open>
  The approval service (\<open>enterprise-approval/src/lib.rs\<close>, \<open>EnterpriseApprovalService\<close>): cases,
  policies, the directory of approvers, separation of duties, grants and their consumption, with the
  grant of \<open>contracts/src/lib.rs\<close>. A method runs under the lock of the state and is one step; the
  directory has a lock of its own, and an update of it between two lookups of one method is not
  interleaved. The identifiers that \<open>Uuid::new_v4\<close> makes are arguments. A \<open>BTreeSet<String>\<close> is a set.
\<close>

subsection \<open>Policies, approvers, cases\<close>

datatype approval_type = ActionApproval | ScopeApproval | EscalationApproval | DualApproval
  | EmergencyApproval

datatype approval_status = CasePending | CaseApproved | CaseRejected | CaseRevoked | CaseExpired
  | CaseConsumed | CasePostReviewRequired

record approval_policy =
  apo_policy_id :: string
  apo_policy_version :: string
  apo_approval_type :: approval_type
  apo_minimum_approvers :: u32
  apo_required_roles :: "string set"
  apo_prohibit_requester :: bool
  apo_prohibit_agent_owner :: bool
  apo_require_resource_owner :: bool
  apo_maximum_ttl_seconds :: u64
  apo_maximum_uses :: u32
  apo_maximum_risk :: risk_level

record approver_identity =
  ai_tenant_id :: string
  ai_subject :: string
  ai_roles :: "string set"
  ai_owned_resources :: "string set"
  ai_delegated_until :: "datetime option"
  ai_strong_auth :: bool
  ai_active :: bool

type_synonym approver_directory = "(string \<times> string, approver_identity) btree"

record decision_record =
  dcr_approver_subject :: string
  dcr_roles :: "string set"
  dcr_decision :: string
  dcr_reason :: string
  dcr_decided_at :: datetime
  dcr_strong_auth :: bool

record approval_case =
  ac_schema_version :: string
  ac_case_id :: string
  ac_request :: approval_request
  ac_policy :: approval_policy
  ac_status :: approval_status
  ac_decisions :: "decision_record list"
  ac_created_at :: datetime
  ac_expires_at :: datetime
  ac_post_review_due_at :: "datetime option"

record enterprise_grant =
  eg_schema_version :: string
  eg_grant_id :: string
  eg_case_id :: string
  eg_tenant_id :: string
  eg_task_id :: string
  eg_step_id :: string
  eg_action_hash :: string
  eg_plan_hash :: string
  eg_parameter_hash :: string
  eg_resource :: string
  eg_resource_version :: string
  eg_policy_version :: string
  eg_environment :: string
  eg_maximum_risk :: risk_level
  eg_approver_subjects :: "string list"
  eg_issued_at :: datetime
  eg_expires_at :: datetime
  eg_maximum_uses :: u32
  eg_break_glass :: bool
  eg_issuer :: string
  eg_key_id :: string
  eg_signature :: string

record minimal_grant =
  mg_schema_version :: string
  mg_approval_id :: string
  mg_task_id :: string
  mg_step_id :: string
  mg_action_hash :: string
  mg_resource_version :: string
  mg_policy_version :: string
  mg_approver_subject :: string
  mg_approver_roles :: "string list"
  mg_expires_at :: datetime
  mg_single_use :: bool

record execution_binding =
  eb_tenant_id :: string
  eb_task_id :: string
  eb_step_id :: string
  eb_action_hash :: string
  eb_plan_hash :: string
  eb_parameter_hash :: string
  eb_resource :: string
  eb_resource_version :: string
  eb_policy_version :: string
  eb_environment :: string
  eb_risk :: risk_level

text \<open>
  The state behind the lock and the service. \<open>ae_jcs_grant\<close> is the canonical JSON of a grant;
  \<open>ae_representable\<close> says which instants a \<open>DateTime<Utc>\<close> can hold.
\<close>

record approval_state =
  as_cases :: "(string, approval_case) btree"
  as_grants :: "(string, enterprise_grant) btree"
  as_remaining_uses :: "(string, u32) btree"
  as_revoked_grants :: "string set"
  as_ui_intents :: "string set"

record ('sk, 'vk) approval_service =
  sv_issuer :: string
  sv_key_id :: string
  sv_signing_key :: 'sk
  sv_keyring :: "'vk keyring"
  sv_directory :: approver_directory
  sv_state :: approval_state

record ('sk, 'vk) approval_env =
  ae_evidence :: "('sk, 'vk) evidence_env"
  ae_jcs_grant :: "enterprise_grant \<Rightarrow> string option"
  ae_representable :: "datetime \<Rightarrow> bool"

definition APPROVAL_SCHEMA_VERSION :: string where
  "APPROVAL_SCHEMA_VERSION = ''agenttrust.enterprise-approval.v1''"

definition APPROVAL_CASE_SCHEMA_VERSION :: string where
  "APPROVAL_CASE_SCHEMA_VERSION = ''agenttrust.enterprise-approval-case.v2''"

definition ENTERPRISE_APPROVAL_GRANT_SCHEMA_VERSION :: string where
  "ENTERPRISE_APPROVAL_GRANT_SCHEMA_VERSION = ''agenttrust.enterprise-approval.v1''"

definition MAX_APPROVAL_HUMAN_TEXT_UTF8_BYTES :: nat where
  "MAX_APPROVAL_HUMAN_TEXT_UTF8_BYTES = 4096"

definition approval_state_default :: approval_state where
  "approval_state_default = \<lparr>as_cases = bt_empty, as_grants = bt_empty, as_remaining_uses = bt_empty,
     as_revoked_grants = {}, as_ui_intents = {}\<rparr>"

definition approval_service_new ::
  "string \<Rightarrow> string \<Rightarrow> 'sk \<Rightarrow> 'vk keyring \<Rightarrow> approval_error + ('sk, 'vk) approval_service" where
  "approval_service_new issuer key_id signing_key ring =
     (if issuer = [] \<or> key_id = [] then Err PConfigurationInvalid
      else Ok \<lparr>sv_issuer = issuer, sv_key_id = key_id, sv_signing_key = signing_key,
        sv_keyring = ring, sv_directory = bt_empty, sv_state = approval_state_default\<rparr>)"

definition directory_upsert :: "approver_identity \<Rightarrow> approver_directory \<Rightarrow> approver_directory" where
  "directory_upsert i d = bt_insert (ai_tenant_id i, ai_subject i) i d"

definition directory_resolve ::
  "approver_directory \<Rightarrow> string \<Rightarrow> string \<Rightarrow> approval_error + approver_identity" where
  "directory_resolve d tenant subject =
     (case bt_get d (tenant, subject) of
        Some i \<Rightarrow> if ai_active i then Ok i else Err PApproverNotEligible
      | None \<Rightarrow> Err PApproverNotEligible)"

subsection \<open>Validation\<close>

definition valid_approval_human_text :: "string \<Rightarrow> bool" where
  "valid_approval_human_text value \<longleftrightarrow>
     \<not> trim_is_empty value \<and> CHR 0x00 \<notin> set value
     \<and> length value \<le> MAX_APPROVAL_HUMAN_TEXT_UTF8_BYTES"

definition validate_policy :: "approval_policy \<Rightarrow> approval_error + unit" where
  "validate_policy p =
     reject_if (apo_policy_id p = [] \<or> apo_policy_version p = [] \<or> apo_minimum_approvers p = 0
       \<or> apo_maximum_ttl_seconds p = 0 \<or> apo_maximum_uses p = 0
       \<or> (apo_approval_type p = DualApproval \<and> apo_minimum_approvers p < 2)) PPolicyInvalid"

definition request_is_industrial :: "approval_request \<Rightarrow> bool" where
  "request_is_industrial r \<longleftrightarrow>
     list_ex (\<lambda>p. strip_prefix p (to_ascii_lowercase (apr_resource r)) \<noteq> None) industrial_prefixes
     \<or> apr_environment r \<in> {''industrial'', ''physical-production''}"

definition validate_approval_request :: "approval_request \<Rightarrow> approval_policy \<Rightarrow> approval_error + unit" where
  "validate_approval_request r p =
     reject_if (length (apr_action_hash r) \<noteq> 64 \<or> length (apr_plan_hash r) \<noteq> 64
       \<or> length (apr_parameter_hash r) \<noteq> 64 \<or> apr_resource r = []
       \<or> \<not> context_valid (apr_review_context r)
       \<or> request_is_industrial r \<noteq> context_industrial (apr_review_context r)
       \<or> apr_requester_subject r = [] \<or> apr_agent_owner_subject r = []
       \<or> \<not> valid_approval_human_text (apr_justification r)
       \<or> apr_requested_ttl_seconds r = 0
       \<or> apo_maximum_ttl_seconds p < apr_requested_ttl_seconds r
       \<or> apr_requested_uses r = 0 \<or> apo_maximum_uses p < apr_requested_uses r
       \<or> apo_maximum_risk p < apr_risk r) PRequestInvalid"

text \<open>\<open>SoDEngine::validate\<close>.\<close>

definition sod_eligible :: "approval_case \<Rightarrow> approver_identity \<Rightarrow> datetime \<Rightarrow> bool" where
  "sod_eligible c a now \<longleftrightarrow>
     (let r = ac_request c; p = ac_policy c in
      ai_tenant_id a = apr_tenant_id r \<and> ai_active a \<and> ai_strong_auth a
      \<and> (case ai_delegated_until a of None \<Rightarrow> True | Some expiry \<Rightarrow> now < expiry)
      \<and> (apo_required_roles p = {} \<or> apo_required_roles p \<inter> ai_roles a \<noteq> {})
      \<and> \<not> (apo_prohibit_requester p \<and> ai_subject a = apr_requester_subject r)
      \<and> \<not> (apo_prohibit_agent_owner p \<and> ai_subject a = apr_agent_owner_subject r)
      \<and> \<not> (apo_require_resource_owner p \<and> apr_resource r \<notin> ai_owned_resources a))"

definition sod_validate ::
  "approval_case \<Rightarrow> approver_identity \<Rightarrow> datetime \<Rightarrow> approval_error + unit" where
  "sod_validate c a now = reject_if (\<not> sod_eligible c a now) PApproverNotEligible"

subsection \<open>Grants\<close>

definition grant_signing_bytes ::
  "('sk, 'vk) approval_env \<Rightarrow> enterprise_grant \<Rightarrow> contract_error + string" where
  "grant_signing_bytes env g =
     (case ae_jcs_grant env (g\<lparr>eg_signature := []\<rparr>) of
        None \<Rightarrow> Err Canonicalization | Some b \<Rightarrow> Ok b)"

text \<open>\<open>EnterpriseApprovalGrant::verify_signature\<close> of the contracts, the check of other services.\<close>

definition grant_well_scoped ::
  "('sk, 'vk) approval_env \<Rightarrow> enterprise_grant \<Rightarrow> string \<Rightarrow> string \<Rightarrow> datetime \<Rightarrow> bool" where
  "grant_well_scoped env g issuer key_id now \<longleftrightarrow>
     eg_schema_version g = ENTERPRISE_APPROVAL_GRANT_SCHEMA_VERSION
     \<and> eg_issuer g = issuer \<and> eg_key_id g = key_id
     \<and> list_all (canonical_uuid (ae_evidence env))
         [eg_grant_id g, eg_case_id g, eg_tenant_id g, eg_task_id g, eg_step_id g]
     \<and> is_lower_hex_digest (eg_action_hash g) \<and> is_lower_hex_digest (eg_plan_hash g)
     \<and> is_lower_hex_digest (eg_parameter_hash g)
     \<and> bounded_nonempty (eg_resource g) 2048 \<and> bounded_nonempty (eg_resource_version g) 256
     \<and> bounded_nonempty (eg_policy_version g) 256 \<and> bounded_nonempty (eg_environment g) 128
     \<and> eg_approver_subjects g \<noteq> [] \<and> length (eg_approver_subjects g) \<le> 64
     \<and> list_all (\<lambda>s. bounded_nonempty s 256) (eg_approver_subjects g)
     \<and> eg_maximum_uses g \<noteq> 0 \<and> eg_issued_at g < eg_expires_at g
     \<and> eg_expires_at g - eg_issued_at g \<le> chrono_days 7
     \<and> eg_issued_at g \<le> now \<and> now < eg_expires_at g
     \<and> bounded_nonempty (eg_issuer g) 256 \<and> bounded_nonempty (eg_key_id g) 128"

definition grant_verify_signature ::
  "('sk, 'vk) approval_env \<Rightarrow> enterprise_grant \<Rightarrow> string \<Rightarrow> string \<Rightarrow> 'vk \<Rightarrow> datetime
   \<Rightarrow> contract_error + unit" where
  "grant_verify_signature env g issuer key_id key now =
     (if \<not> grant_well_scoped env g issuer key_id now then Err ScopeExceeded
      else if \<not> sg_decodes (ee_signer (ae_evidence env)) (eg_signature g) then Err SignatureInvalid
      else res_bind (grant_signing_bytes env g) (\<lambda>b.
        signature_ok (ae_evidence env) key b (eg_signature g)))"

fun join_commas :: "string list \<Rightarrow> string" where
  "join_commas [] = []"
| "join_commas [s] = s"
| "join_commas (s # t # ss) = s @ '','' @ join_commas (t # ss)"

definition to_minimal_grant :: "enterprise_grant \<Rightarrow> minimal_grant" where
  "to_minimal_grant g =
     \<lparr>mg_schema_version = CONTRACT_SCHEMA_VERSION, mg_approval_id = eg_grant_id g,
      mg_task_id = eg_task_id g, mg_step_id = eg_step_id g, mg_action_hash = eg_action_hash g,
      mg_resource_version = eg_resource_version g, mg_policy_version = eg_policy_version g,
      mg_approver_subject = join_commas (eg_approver_subjects g),
      mg_approver_roles = [''enterprise-approved''], mg_expires_at = eg_expires_at g,
      mg_single_use = (eg_maximum_uses g = 1)\<rparr>"

definition approving_subjects :: "approval_case \<Rightarrow> string list" where
  "approving_subjects c =
     map dcr_approver_subject (filter (\<lambda>d. dcr_decision d = ''APPROVE'') (ac_decisions c))"

definition make_grant :: "string \<Rightarrow> string \<Rightarrow> approval_case \<Rightarrow> string \<Rightarrow> datetime \<Rightarrow> enterprise_grant" where
  "make_grant issuer key_id c grant_id now =
     (let r = ac_request c; p = ac_policy c in
      \<lparr>eg_schema_version = APPROVAL_SCHEMA_VERSION, eg_grant_id = grant_id,
       eg_case_id = ac_case_id c, eg_tenant_id = apr_tenant_id r, eg_task_id = apr_task_id r,
       eg_step_id = apr_step_id r, eg_action_hash = apr_action_hash r,
       eg_plan_hash = apr_plan_hash r, eg_parameter_hash = apr_parameter_hash r,
       eg_resource = apr_resource r, eg_resource_version = apr_resource_version r,
       eg_policy_version = apr_policy_version r, eg_environment = apr_environment r,
       eg_maximum_risk = apo_maximum_risk p, eg_approver_subjects = approving_subjects c,
       eg_issued_at = now, eg_expires_at = ac_expires_at c,
       eg_maximum_uses = min (apr_requested_uses r) (apo_maximum_uses p),
       eg_break_glass = (apo_approval_type p = EmergencyApproval),
       eg_issuer = issuer, eg_key_id = key_id, eg_signature = []\<rparr>)"

definition verify_grant_signature ::
  "('sk, 'vk) approval_env \<Rightarrow> enterprise_grant \<Rightarrow> string \<Rightarrow> string \<Rightarrow> 'vk \<Rightarrow> datetime
   \<Rightarrow> approval_error + unit" where
  "verify_grant_signature env g issuer key_id key now =
     (if eg_schema_version g \<noteq> APPROVAL_SCHEMA_VERSION \<or> eg_issuer g \<noteq> issuer \<or> eg_key_id g \<noteq> key_id
         \<or> now < eg_issued_at g \<or> eg_expires_at g \<le> now \<or> eg_maximum_uses g = 0
      then Err PGrantInvalid
      else if \<not> sg_decodes (ee_signer (ae_evidence env)) (eg_signature g) then Err PGrantInvalid
      else res_map_err PGrantInvalid (res_bind (grant_signing_bytes env g) (\<lambda>b.
        signature_ok (ae_evidence env) key b (eg_signature g))))"

definition binding_matches :: "execution_binding \<Rightarrow> enterprise_grant \<Rightarrow> bool" where
  "binding_matches b g \<longleftrightarrow>
     eb_tenant_id b = eg_tenant_id g \<and> eb_task_id b = eg_task_id g \<and> eb_step_id b = eg_step_id g
     \<and> eb_action_hash b = eg_action_hash g \<and> eb_plan_hash b = eg_plan_hash g
     \<and> eb_parameter_hash b = eg_parameter_hash g \<and> eb_resource b = eg_resource g
     \<and> eb_resource_version b = eg_resource_version g \<and> eb_policy_version b = eg_policy_version g
     \<and> eb_environment b = eg_environment g \<and> eb_risk b \<le> eg_maximum_risk g"

subsection \<open>Opening a case\<close>

text \<open>
  \<open>chrono::Duration::seconds\<close> panics beyond its range and adding to a \<open>DateTime\<close> panics when the sum
  is not representable; \<open>None\<close> is a panic. A number of seconds of \<open>2^63\<close> and more is negative as \<open>i64\<close>.
\<close>

definition duration_seconds :: "u64 \<Rightarrow> int option" where
  "duration_seconds n =
     (if - 9223372036854775 \<le> sint n \<and> sint n \<le> 9223372036854775
      then Some (chrono_seconds (sint n)) else None)"

definition datetime_add :: "('sk, 'vk) approval_env \<Rightarrow> datetime \<Rightarrow> int \<Rightarrow> datetime option" where
  "datetime_add env t d = (if ae_representable env (t + d) then Some (t + d) else None)"

definition put_case ::
  "string \<Rightarrow> approval_case \<Rightarrow> ('sk, 'vk) approval_service \<Rightarrow> ('sk, 'vk) approval_service" where
  "put_case case_id c sv = sv\<lparr>sv_state := (sv_state sv)\<lparr>as_cases :=
     bt_insert case_id c (as_cases (sv_state sv))\<rparr>\<rparr>"

definition open_case ::
  "string \<Rightarrow> approval_request \<Rightarrow> approval_policy \<Rightarrow> approval_status \<Rightarrow> datetime \<Rightarrow> datetime
   \<Rightarrow> datetime option \<Rightarrow> approval_case" where
  "open_case case_id r p status now expires_at post_review_due_at =
     \<lparr>ac_schema_version = APPROVAL_CASE_SCHEMA_VERSION, ac_case_id = case_id, ac_request = r,
      ac_policy = p, ac_status = status, ac_decisions = [], ac_created_at = now,
      ac_expires_at = expires_at, ac_post_review_due_at = post_review_due_at\<rparr>"

text \<open>The part of \<open>request\<close> after the checks: the status and the instants of the new case.\<close>

definition new_case ::
  "('sk, 'vk) approval_env \<Rightarrow> string \<Rightarrow> approval_request \<Rightarrow> approval_policy \<Rightarrow> datetime
   \<Rightarrow> (approval_error + approval_case) option" where
  "new_case env case_id r p now =
     (let ttl = min (apr_requested_ttl_seconds r) (apo_maximum_ttl_seconds p);
          expiry = Option.bind (duration_seconds ttl) (datetime_add env now) in
      if apo_approval_type p = EmergencyApproval then
        if 300 < ttl \<or> apo_maximum_risk p < apr_risk r then Some (Err PBreakGlassDenied)
        else Option.bind (datetime_add env now (chrono_hours 24)) (\<lambda>due.
          map_option (\<lambda>expires_at. Ok (open_case case_id r p CasePostReviewRequired now expires_at
            (Some due))) expiry)
      else map_option (\<lambda>expires_at. Ok (open_case case_id r p CasePending now expires_at None)) expiry)"

definition service_request ::
  "('sk, 'vk) approval_env \<Rightarrow> datetime \<Rightarrow> datetime \<Rightarrow> string \<Rightarrow> ('sk, 'vk) approval_service
   \<Rightarrow> approval_request \<Rightarrow> approval_policy \<Rightarrow> datetime
   \<Rightarrow> (approval_error + approval_case) option \<times> ('sk, 'vk) approval_service" where
  "service_request env utc1 utc2 case_id sv r p now =
     (case res_bind (validate_policy p) (\<lambda>_. res_bind (validate_approval_request r p) (\<lambda>_.
             verify_request (ae_evidence env) utc1 utc2 (sv_keyring sv) r now)) of
        Inl e \<Rightarrow> (Some (Err e), sv)
      | Inr _ \<Rightarrow>
          (case new_case env case_id r p now of
             Some (Inr c) \<Rightarrow> (Some (Ok c), put_case (ac_case_id c) c sv)
           | other \<Rightarrow> (other, sv)))"

definition submit_ui_intent ::
  "('sk, 'vk) approval_service \<Rightarrow> string \<Rightarrow> string
   \<Rightarrow> (approval_error + unit) \<times> ('sk, 'vk) approval_service" where
  "submit_ui_intent sv case_id user_session_id =
     (if bt_get (as_cases (sv_state sv)) case_id = None \<or> user_session_id = []
      then (Err PCaseNotFound, sv)
      else (Ok (), sv\<lparr>sv_state := (sv_state sv)\<lparr>as_ui_intents :=
        insert (case_id @ '':'' @ user_session_id) (as_ui_intents (sv_state sv))\<rparr>\<rparr>))"

subsection \<open>Decisions\<close>

definition decision_of ::
  "approver_identity \<Rightarrow> string \<Rightarrow> string \<Rightarrow> datetime \<Rightarrow> decision_record" where
  "decision_of a decision reason now =
     \<lparr>dcr_approver_subject = ai_subject a, dcr_roles = ai_roles a, dcr_decision = decision,
      dcr_reason = reason, dcr_decided_at = now, dcr_strong_auth = ai_strong_auth a\<rparr>"

definition decided ::
  "approval_case \<Rightarrow> decision_record \<Rightarrow> approval_case" where
  "decided c d = c\<lparr>ac_decisions := ac_decisions c @ [d]\<rparr>"

text \<open>The number of distinct approvers, as the code counts it (a \<open>usize\<close> cut to \<open>u32\<close>).\<close>

definition unique_approvals :: "approval_case \<Rightarrow> u32" where
  "unique_approvals c = of_nat (length (remdups (approving_subjects c)))"

text \<open>The check of an approver, shared by the three decisions.\<close>

definition eligible_approver ::
  "('sk, 'vk) approval_service \<Rightarrow> approval_case \<Rightarrow> string \<Rightarrow> datetime
   \<Rightarrow> approval_error + approver_identity" where
  "eligible_approver sv c subject now =
     res_bind (directory_resolve (sv_directory sv) (apr_tenant_id (ac_request c)) subject) (\<lambda>a.
     res_bind (sod_validate c a now) (\<lambda>_. Ok a))"

text \<open>Signing and storing the grant of a case that has its quorum.\<close>

definition issue_grant ::
  "('sk, 'vk) approval_env \<Rightarrow> string \<Rightarrow> ('sk, 'vk) approval_service \<Rightarrow> approval_case \<Rightarrow> datetime
   \<Rightarrow> (approval_error + enterprise_grant option) \<times> ('sk, 'vk) approval_service" where
  "issue_grant env grant_id sv c now =
     (let g = make_grant (sv_issuer sv) (sv_key_id sv) c grant_id now in
      case grant_signing_bytes env g of
        Inl _ \<Rightarrow> (Err PGrantInvalid, sv)
      | Inr b \<Rightarrow>
          (let g = g\<lparr>eg_signature := sg_sign (ee_signer (ae_evidence env)) (sv_signing_key sv) b\<rparr>;
               s = sv_state sv in
           (Ok (Some g), sv\<lparr>sv_state := s
              \<lparr>as_remaining_uses := bt_insert (eg_grant_id g) (eg_maximum_uses g) (as_remaining_uses s),
               as_grants := bt_insert (eg_grant_id g) g (as_grants s)\<rparr>\<rparr>)))"

text \<open>Recording an approval; with the quorum it closes the voting and issues a grant.\<close>

definition record_approval ::
  "('sk, 'vk) approval_env \<Rightarrow> string \<Rightarrow> ('sk, 'vk) approval_service \<Rightarrow> string \<Rightarrow> approval_case
   \<Rightarrow> approver_identity \<Rightarrow> string \<Rightarrow> datetime
   \<Rightarrow> (approval_error + enterprise_grant option) \<times> ('sk, 'vk) approval_service" where
  "record_approval env grant_id sv case_id c a reason now =
     (let c = decided c (decision_of a ''APPROVE'' reason now) in
      if unique_approvals c < apo_minimum_approvers (ac_policy c) then (Ok None, put_case case_id c sv)
      else (let c = c\<lparr>ac_status :=
              (if apo_approval_type (ac_policy c) = EmergencyApproval
               then CasePostReviewRequired else CaseApproved)\<rparr> in
            issue_grant env grant_id (put_case case_id c sv) c now))"

definition approve ::
  "('sk, 'vk) approval_env \<Rightarrow> string \<Rightarrow> ('sk, 'vk) approval_service \<Rightarrow> string \<Rightarrow> string \<Rightarrow> string
   \<Rightarrow> datetime \<Rightarrow> (approval_error + enterprise_grant option) \<times> ('sk, 'vk) approval_service" where
  "approve env grant_id sv case_id subject reason now =
     (case bt_get (as_cases (sv_state sv)) case_id of
        None \<Rightarrow> (Err PCaseNotFound, sv)
      | Some c \<Rightarrow>
          if ac_expires_at c \<le> now then (Err PExpired, put_case case_id (c\<lparr>ac_status := CaseExpired\<rparr>) sv)
          else if ac_status c \<notin> {CasePending, CasePostReviewRequired} then (Err PLifecycleInvalid, sv)
          else (case eligible_approver sv c subject now of
            Inl e \<Rightarrow> (Err e, sv)
          | Inr a \<Rightarrow>
              if list_ex (\<lambda>d. dcr_approver_subject d = ai_subject a) (ac_decisions c)
              then (Err PDuplicateApprover, sv)
              else record_approval env grant_id sv case_id c a reason now))"

definition reject ::
  "('sk, 'vk) approval_service \<Rightarrow> string \<Rightarrow> string \<Rightarrow> string \<Rightarrow> datetime
   \<Rightarrow> (approval_error + unit) \<times> ('sk, 'vk) approval_service" where
  "reject sv case_id subject reason now =
     (case bt_get (as_cases (sv_state sv)) case_id of
        None \<Rightarrow> (Err PCaseNotFound, sv)
      | Some c \<Rightarrow>
          (case eligible_approver sv c subject now of
             Inl e \<Rightarrow> (Err e, sv)
           | Inr a \<Rightarrow> (Ok (), put_case case_id ((decided c (decision_of a ''REJECT'' reason now))
               \<lparr>ac_status := CaseRejected\<rparr>) sv)))"

definition audit_emergency ::
  "('sk, 'vk) approval_service \<Rightarrow> string \<Rightarrow> string \<Rightarrow> string \<Rightarrow> datetime
   \<Rightarrow> (approval_error + unit) \<times> ('sk, 'vk) approval_service" where
  "audit_emergency sv case_id subject reason now =
     (case bt_get (as_cases (sv_state sv)) case_id of
        None \<Rightarrow> (Err PCaseNotFound, sv)
      | Some c \<Rightarrow>
          if apo_approval_type (ac_policy c) \<noteq> EmergencyApproval
             \<or> ac_status c \<noteq> CasePostReviewRequired
             \<or> (case ac_post_review_due_at c of None \<Rightarrow> False | Some due \<Rightarrow> due < now)
          then (Err PLifecycleInvalid, sv)
          else (case eligible_approver sv c subject now of
             Inl e \<Rightarrow> (Err e, sv)
           | Inr a \<Rightarrow> (Ok (), put_case case_id ((decided c (decision_of a ''POST_REVIEWED'' reason now))
               \<lparr>ac_status := CaseApproved\<rparr>) sv)))"

subsection \<open>Revocation and consumption\<close>

definition revoke_grants ::
  "(enterprise_grant \<Rightarrow> bool) \<Rightarrow> ('sk, 'vk) approval_service \<Rightarrow> ('sk, 'vk) approval_service" where
  "revoke_grants P sv = sv\<lparr>sv_state := (sv_state sv)\<lparr>as_revoked_grants :=
     as_revoked_grants (sv_state sv)
     \<union> set (map eg_grant_id (filter P (bt_values (as_grants (sv_state sv)))))\<rparr>\<rparr>"

definition revoke_case ::
  "('sk, 'vk) approval_service \<Rightarrow> string \<Rightarrow> (approval_error + unit) \<times> ('sk, 'vk) approval_service" where
  "revoke_case sv case_id =
     (case bt_get (as_cases (sv_state sv)) case_id of
        None \<Rightarrow> (Err PCaseNotFound, sv)
      | Some c \<Rightarrow> (Ok (), revoke_grants (\<lambda>g. eg_case_id g = case_id)
          (put_case case_id (c\<lparr>ac_status := CaseRevoked\<rparr>) sv)))"

definition revoke_task_grants ::
  "('sk, 'vk) approval_service \<Rightarrow> string \<Rightarrow> ('sk, 'vk) approval_service" where
  "revoke_task_grants sv task_id = revoke_grants (\<lambda>g. eg_task_id g = task_id) sv"

fun approvers_still_eligible ::
  "approver_directory \<Rightarrow> approval_case \<Rightarrow> string \<Rightarrow> string list \<Rightarrow> datetime \<Rightarrow> approval_error + unit" where
  "approvers_still_eligible d c tenant [] now = Ok ()"
| "approvers_still_eligible d c tenant (s # ss) now =
     res_bind (directory_resolve d tenant s) (\<lambda>current.
     res_bind (res_map_err PApproverRoleChanged (sod_validate c current now)) (\<lambda>_.
       approvers_still_eligible d c tenant ss now))"

text \<open>Everything \<open>verify_and_consume\<close> checks before it spends a use; the result is the uses left.\<close>

definition consumption_standing ::
  "('sk, 'vk) approval_env \<Rightarrow> ('sk, 'vk) approval_service \<Rightarrow> enterprise_grant \<Rightarrow> execution_binding
   \<Rightarrow> datetime \<Rightarrow> approval_error + u32" where
  "consumption_standing env sv g b now =
     res_bind (verify_grant_signature env g (sv_issuer sv) (sv_key_id sv)
         (sg_public (ee_signer (ae_evidence env)) (sv_signing_key sv)) now) (\<lambda>_.
     if \<not> binding_matches b g then Err PBindingChanged
     else let s = sv_state sv in
       if eg_grant_id g \<in> as_revoked_grants s then Err PRevoked
       else (case bt_get (as_grants s) (eg_grant_id g) of
          None \<Rightarrow> Err PGrantInvalid
        | Some stored \<Rightarrow>
            if stored \<noteq> g then Err PGrantInvalid
            else (case bt_get (as_cases s) (eg_case_id g) of
               None \<Rightarrow> Err PCaseNotFound
             | Some c \<Rightarrow>
                 if ac_status c \<in> {CaseRejected, CaseRevoked, CaseExpired} then Err PRevoked
                 else res_bind (approvers_still_eligible (sv_directory sv) c (eg_tenant_id g)
                      (eg_approver_subjects g) now) (\<lambda>_.
                   (case bt_get (as_remaining_uses s) (eg_grant_id g) of
                      None \<Rightarrow> Err PGrantInvalid
                    | Some n \<Rightarrow> if n = 0 then Err PGrantReplayed else Ok (n - 1))))))"

definition verify_and_consume ::
  "('sk, 'vk) approval_env \<Rightarrow> ('sk, 'vk) approval_service \<Rightarrow> enterprise_grant \<Rightarrow> execution_binding
   \<Rightarrow> datetime \<Rightarrow> (approval_error + u32) \<times> ('sk, 'vk) approval_service" where
  "verify_and_consume env sv g b now =
     (case consumption_standing env sv g b now of
        Inl e \<Rightarrow> (Err e, sv)
      | Inr n \<Rightarrow>
          (let sv1 = sv\<lparr>sv_state := (sv_state sv)\<lparr>as_remaining_uses :=
                 bt_insert (eg_grant_id g) n (as_remaining_uses (sv_state sv))\<rparr>\<rparr> in
           (Ok n,
            if n = 0 \<and> \<not> eg_break_glass g
            then (case bt_get (as_cases (sv_state sv1)) (eg_case_id g) of
                    None \<Rightarrow> sv1
                  | Some c \<Rightarrow> put_case (eg_case_id g) (c\<lparr>ac_status := CaseConsumed\<rparr>) sv1)
            else sv1)))"

subsection \<open>Notifications\<close>

datatype notification_kind = NotifyPending | NotifyApproved | NotifyRejected | NotifyExpiring
  | NotifyEscalated | NotifyPostReviewRequired

record approval_notification =
  an_schema_version :: string
  an_notification_id :: string
  an_tenant_id :: string
  an_case_id :: string
  an_recipient_subject :: string
  an_kind :: notification_kind
  an_safe_summary :: string
  an_evidence_refs :: "string list"

record delivery_record =
  dl_schema_version :: string
  dl_notification_id :: string
  dl_delivered :: bool
  dl_provider_message_id :: "string option"
  dl_failure_code :: "string option"

definition dispatch_notification ::
  "(approval_notification \<Rightarrow> approval_error + string) \<Rightarrow> approval_notification \<Rightarrow> delivery_record" where
  "dispatch_notification send n =
     (case send n of
        Inr message_id \<Rightarrow> \<lparr>dl_schema_version = APPROVAL_SCHEMA_VERSION,
          dl_notification_id = an_notification_id n, dl_delivered = True,
          dl_provider_message_id = Some message_id, dl_failure_code = None\<rparr>
      | Inl _ \<Rightarrow> \<lparr>dl_schema_version = APPROVAL_SCHEMA_VERSION,
          dl_notification_id = an_notification_id n, dl_delivered = False,
          dl_provider_message_id = None,
          dl_failure_code = Some ''APPROVAL_NOTIFICATION_DELIVERY_FAILED''\<rparr>)"

end
