(* ===== verification/Approval_Safety.thy ===== *)
theory Approval_Safety
  imports Approval Review_Evidence_Safety
begin

text \<open>
  What the approval service guarantees in every run: which cases it stores, that a grant had its
  quorum of distinct eligible approvers, that its uses are counted, that a closed case stays closed
  and a revoked grant unused, and that consumption is bound to the approved action.
\<close>

subsection \<open>Runs\<close>

text \<open>
  A state of a run is the service with the grants spent so far, one entry for each successful
  consumption. The identifiers of new cases and grants are fresh, as those of \<open>Uuid::new_v4\<close> are.
\<close>

type_synonym ('sk, 'vk) approval_run_state = "('sk, 'vk) approval_service \<times> string list"

inductive approval_step ::
  "('sk, 'vk) approval_env \<Rightarrow> ('sk, 'vk) approval_run_state \<Rightarrow> ('sk, 'vk) approval_run_state \<Rightarrow> bool"
  for env :: "('sk, 'vk) approval_env" where
  upsert_step:
    "approval_step env (sv, u) (sv\<lparr>sv_directory := directory_upsert i (sv_directory sv)\<rparr>, u)"
| request_step:
    "bt_get (as_cases (sv_state sv)) case_id = None \<Longrightarrow>
     snd (service_request env utc1 utc2 case_id sv r p now) = sv' \<Longrightarrow>
     approval_step env (sv, u) (sv', u)"
| intent_step:
    "snd (submit_ui_intent sv case_id session) = sv' \<Longrightarrow> approval_step env (sv, u) (sv', u)"
| approve_step:
    "bt_get (as_grants (sv_state sv)) grant_id = None \<Longrightarrow>
     snd (approve env grant_id sv case_id subject reason now) = sv' \<Longrightarrow>
     approval_step env (sv, u) (sv', u)"
| reject_step:
    "snd (reject sv case_id subject reason now) = sv' \<Longrightarrow> approval_step env (sv, u) (sv', u)"
| audit_step:
    "snd (audit_emergency sv case_id subject reason now) = sv' \<Longrightarrow> approval_step env (sv, u) (sv', u)"
| revoke_case_step:
    "snd (revoke_case sv case_id) = sv' \<Longrightarrow> approval_step env (sv, u) (sv', u)"
| revoke_task_step:
    "approval_step env (sv, u) (revoke_task_grants sv task_id, u)"
| consume_step:
    "verify_and_consume env sv g b now = (r, sv') \<Longrightarrow>
     approval_step env (sv, u) (sv', if is_ok r then eg_grant_id g # u else u)"

definition approval_init :: "('sk, 'vk) approval_run_state \<Rightarrow> bool" where
  "approval_init s \<longleftrightarrow>
     (\<exists>issuer key_id sk ring. approval_service_new issuer key_id sk ring = Ok (fst s)) \<and> snd s = []"

abbreviation approval_reach where
  "approval_reach env \<equiv> reach approval_init (approval_step env)"

abbreviation cases_of :: "('sk, 'vk) approval_service \<Rightarrow> (string, approval_case) btree" where
  "cases_of sv \<equiv> as_cases (sv_state sv)"

abbreviation grants_of :: "('sk, 'vk) approval_service \<Rightarrow> (string, enterprise_grant) btree" where
  "grants_of sv \<equiv> as_grants (sv_state sv)"

abbreviation remaining_of :: "('sk, 'vk) approval_service \<Rightarrow> (string, u32) btree" where
  "remaining_of sv \<equiv> as_remaining_uses (sv_state sv)"

subsection \<open>What a method does to the state\<close>

text \<open>
  Every change of a case is an update of the map at its identifier: a new case, a decision, a change
  of status. A grant is added with its uses, and a use is taken.
\<close>

lemma put_case_simps [simp]:
  "cases_of (put_case i c sv) = bt_insert i c (cases_of sv)"
  "grants_of (put_case i c sv) = grants_of sv"
  "remaining_of (put_case i c sv) = remaining_of sv"
  "as_revoked_grants (sv_state (put_case i c sv)) = as_revoked_grants (sv_state sv)"
  "sv_directory (put_case i c sv) = sv_directory sv"
  "sv_issuer (put_case i c sv) = sv_issuer sv" "sv_key_id (put_case i c sv) = sv_key_id sv"
  "sv_signing_key (put_case i c sv) = sv_signing_key sv" "sv_keyring (put_case i c sv) = sv_keyring sv"
  by (simp_all add: put_case_def)

lemma revoke_grants_simps [simp]:
  "cases_of (revoke_grants P sv) = cases_of sv"
  "grants_of (revoke_grants P sv) = grants_of sv"
  "remaining_of (revoke_grants P sv) = remaining_of sv"
  "as_revoked_grants (sv_state (revoke_grants P sv)) =
     as_revoked_grants (sv_state sv) \<union> eg_grant_id ` {g \<in> set (bt_values (grants_of sv)). P g}"
  by (auto simp: revoke_grants_def)

lemma decided_simps [simp]:
  "ac_case_id (decided c d) = ac_case_id c" "ac_request (decided c d) = ac_request c"
  "ac_policy (decided c d) = ac_policy c" "ac_status (decided c d) = ac_status c"
  "ac_created_at (decided c d) = ac_created_at c" "ac_expires_at (decided c d) = ac_expires_at c"
  "ac_decisions (decided c d) = ac_decisions c @ [d]"
  by (simp_all add: decided_def)

lemma decision_of_simps [simp]:
  "dcr_approver_subject (decision_of a t reason now) = ai_subject a"
  "dcr_roles (decision_of a t reason now) = ai_roles a"
  "dcr_decision (decision_of a t reason now) = t"
  "dcr_decided_at (decision_of a t reason now) = now"
  "dcr_strong_auth (decision_of a t reason now) = ai_strong_auth a"
  by (simp_all add: decision_of_def)

lemma approving_subjects_decided [simp]:
  "approving_subjects (decided c d) =
     approving_subjects c @ (if dcr_decision d = ''APPROVE'' then [dcr_approver_subject d] else [])"
  by (simp add: approving_subjects_def)

lemma approving_subjects_status [simp]: "approving_subjects (c\<lparr>ac_status := st\<rparr>) = approving_subjects c"
  by (simp add: approving_subjects_def)

lemma sod_validate_Ok_iff [simp]: "sod_validate c a now = Ok u \<longleftrightarrow> sod_eligible c a now"
  by (simp add: sod_validate_def)

text \<open>The effects of the methods: nothing but the parts named here changes.\<close>

inductive case_effect ::
  "('sk, 'vk) approval_env \<Rightarrow> ('sk, 'vk) approval_service \<Rightarrow> ('sk, 'vk) approval_service \<Rightarrow> bool"
  for env :: "('sk, 'vk) approval_env" where
  no_effect: "case_effect env sv sv"
| opens: "bt_get (cases_of sv) (ac_case_id c) = None \<Longrightarrow>
    validate_policy (ac_policy c) = Ok () \<Longrightarrow>
    validate_approval_request (ac_request c) (ac_policy c) = Ok () \<Longrightarrow>
    verify_request (ae_evidence env) utc1 utc2 (sv_keyring sv) (ac_request c) (ac_created_at c) = Ok () \<Longrightarrow>
    new_case env (ac_case_id c) (ac_request c) (ac_policy c) (ac_created_at c) = Some (Ok c) \<Longrightarrow>
    case_effect env sv (put_case (ac_case_id c) c sv)"
| decides: "bt_get (cases_of sv) case_id = Some c \<Longrightarrow> eligible_approver sv c subject now = Ok a \<Longrightarrow>
    dcr_decision d \<noteq> ''APPROVE''
      \<or> ac_status c \<in> {CasePending, CasePostReviewRequired} \<and> now < ac_expires_at c
        \<and> ai_subject a \<notin> dcr_approver_subject ` set (ac_decisions c) \<Longrightarrow>
    d = decision_of a t reason now \<Longrightarrow>
    st \<in> {CaseApproved, CasePostReviewRequired, CasePending}
      \<and> ac_status c \<in> {CasePending, CasePostReviewRequired} \<or> st = CaseRejected \<Longrightarrow>
    case_effect env sv (put_case case_id ((decided c d)\<lparr>ac_status := st\<rparr>) sv)"
| ends: "bt_get (cases_of sv) case_id = Some c \<Longrightarrow> st \<in> {CaseExpired, CaseRevoked} \<Longrightarrow>
    case_effect env sv (put_case case_id (c\<lparr>ac_status := st\<rparr>) sv)"

lemma new_case_Ok:
  assumes "new_case env case_id r p now = Some (Ok c)"
  shows "ac_case_id c = case_id" "ac_request c = r" "ac_policy c = p" "ac_created_at c = now"
    "ac_decisions c = []" "ac_status c \<in> {CasePending, CasePostReviewRequired}"
    "ac_expires_at c = now + chrono_seconds
       (sint (min (apr_requested_ttl_seconds r) (apo_maximum_ttl_seconds p)))"
  using assms
  by (auto simp: new_case_def Let_def open_case_def duration_seconds_def datetime_add_def bind_eq_Some_conv
      split: if_splits)

lemma request_effect:
  assumes "bt_get (cases_of sv) case_id = None"
    and "snd (service_request env utc1 utc2 case_id sv r p now) = sv'"
  shows "case_effect env sv sv'"
proof (cases "new_case env case_id r p now")
  case (Some x)
  then show ?thesis
    using assms
    by (cases x) (auto simp: service_request_def res_bind_Ok_iff new_case_Ok
        dest: new_case_Ok split: sum.splits intro!: no_effect opens)
qed (use assms in \<open>auto simp: service_request_def split: sum.splits intro: no_effect\<close>)


text \<open>Adding a grant to a case that reached its quorum.\<close>

inductive grant_effect ::
  "('sk, 'vk) approval_env \<Rightarrow> string \<Rightarrow> ('sk, 'vk) approval_service \<Rightarrow> ('sk, 'vk) approval_service \<Rightarrow> bool"
  for env :: "('sk, 'vk) approval_env" and grant_id :: string where
  no_grant: "grant_effect env grant_id sv sv"
| grants: "bt_get (cases_of sv) case_id = Some c \<Longrightarrow>
    ac_status c \<in> {CaseApproved, CasePostReviewRequired} \<Longrightarrow> now < ac_expires_at c \<Longrightarrow>
    apo_minimum_approvers (ac_policy c) \<le> unique_approvals c \<Longrightarrow>
    issue_grant env grant_id sv c now = (Ok (Some g), sv') \<Longrightarrow>
    grant_effect env grant_id sv sv'"

lemma issue_grant_cases:
  assumes "issue_grant env grant_id sv c now = (r, sv')"
  obtains (failed) "r = Err PGrantInvalid" "sv' = sv"
  | (issued) g where "r = Ok (Some g)"
  using assms by (auto simp: issue_grant_def Let_def split: sum.splits)

lemma decision_effect:
  assumes "bt_get (cases_of sv) case_id = Some c" and "eligible_approver sv c subject now = Ok a"
    and "t \<noteq> ''APPROVE'' \<or> ac_status c \<in> {CasePending, CasePostReviewRequired}
      \<and> now < ac_expires_at c \<and> ai_subject a \<notin> dcr_approver_subject ` set (ac_decisions c)"
    and "st \<in> {CaseApproved, CasePostReviewRequired, CasePending}
      \<and> ac_status c \<in> {CasePending, CasePostReviewRequired} \<or> st = CaseRejected"
  shows "case_effect env sv (put_case case_id ((decided c (decision_of a t reason now))\<lparr>ac_status := st\<rparr>) sv)"
  using assms by (intro decides [where a = a]) auto

lemma record_approval_effect:
  assumes found: "bt_get (cases_of sv) case_id = Some c"
    and eligible: "eligible_approver sv c subject now = Ok a"
    and pending: "ac_status c \<in> {CasePending, CasePostReviewRequired}" and live: "now < ac_expires_at c"
    and first: "ai_subject a \<notin> dcr_approver_subject ` set (ac_decisions c)"
  shows "\<exists>sv1. case_effect env sv sv1
    \<and> grant_effect env grant_id sv1 (snd (record_approval env grant_id sv case_id c a reason now))"
proof -
  define c1 where "c1 = decided c (decision_of a ''APPROVE'' reason now)"
  have effect: "case_effect env sv (put_case case_id (c1\<lparr>ac_status := st\<rparr>) sv)"
    if "st \<in> {CaseApproved, CasePostReviewRequired, CasePending}" for st
    unfolding c1_def
    by (rule decision_effect [OF found eligible]) (use that pending live first in auto)
  show ?thesis
  proof (cases "unique_approvals c1 < apo_minimum_approvers (ac_policy c1)")
    case True
    have same: "c1\<lparr>ac_status := ac_status c\<rparr> = c1" by (simp add: c1_def decided_def)
    have "case_effect env sv (put_case case_id (c1\<lparr>ac_status := ac_status c\<rparr>) sv)"
      by (rule effect) (use pending in auto)
    then have "case_effect env sv (put_case case_id c1 sv)" by (simp only: same)
    moreover have "snd (record_approval env grant_id sv case_id c a reason now) = put_case case_id c1 sv"
      using True by (simp add: record_approval_def c1_def Let_def)
    ultimately show ?thesis by (auto intro: no_grant)
  next
    case False
    define st where "st = (if apo_approval_type (ac_policy c1) = EmergencyApproval
      then CasePostReviewRequired else CaseApproved)"
    define c2 where "c2 = c1\<lparr>ac_status := st\<rparr>"
    obtain r sv' where r: "issue_grant env grant_id (put_case case_id c2 sv) c2 now = (r, sv')"
      by (metis prod.collapse)
    have "record_approval env grant_id sv case_id c a reason now = (r, sv')"
      using False r by (simp add: record_approval_def c1_def [symmetric] st_def [symmetric] c2_def [symmetric] Let_def)
    moreover have "grant_effect env grant_id (put_case case_id c2 sv) sv'"
      using r
    proof (cases rule: issue_grant_cases)
      case (issued g)
      have "\<not> unique_approvals c2 < apo_minimum_approvers (ac_policy c2)"
        using False by (simp add: c2_def unique_approvals_def)
      then show ?thesis
        using r issued live
        by (intro grants [of _ case_id c2]) (simp_all add: bt.get_put c2_def st_def c1_def)
    qed (simp add: no_grant)
    moreover have "case_effect env sv (put_case case_id c2 sv)"
      unfolding c2_def by (rule effect) (simp add: st_def)
    ultimately show ?thesis by auto
  qed
qed

lemma approve_pending:
  assumes "bt_get (cases_of sv) case_id = Some c" and "\<not> ac_expires_at c \<le> now"
    and "ac_status c \<in> {CasePending, CasePostReviewRequired}"
    and "eligible_approver sv c subject now = Ok a"
    and "\<not> list_ex (\<lambda>d. dcr_approver_subject d = ai_subject a) (ac_decisions c)"
  shows "approve env grant_id sv case_id subject reason now
    = record_approval env grant_id sv case_id c a reason now"
  using assms by (simp add: approve_def)

lemma approve_refused:
  assumes "bt_get (cases_of sv) case_id = Some c" and "\<not> ac_expires_at c \<le> now"
    and "ac_status c \<in> {CasePending, CasePostReviewRequired} \<Longrightarrow> eligible_approver sv c subject now = Ok a \<Longrightarrow>
      list_ex (\<lambda>d. dcr_approver_subject d = ai_subject a) (ac_decisions c)"
    and "eligible_approver sv c subject now = Ok a \<or> (\<exists>e. eligible_approver sv c subject now = Err e)"
  shows "snd (approve env grant_id sv case_id subject reason now) = sv"
  using assms by (auto simp: approve_def)

lemma approve_effect:
  assumes "snd (approve env grant_id sv case_id subject reason now) = sv'"
  shows "\<exists>sv1. case_effect env sv sv1 \<and> grant_effect env grant_id sv1 sv'"
proof -
  have kept: "sv' = sv \<Longrightarrow> ?thesis"
    by (auto intro: no_effect no_grant)
  show ?thesis
  proof (cases "bt_get (cases_of sv) case_id")
    case None
    then show ?thesis by (intro kept) (use assms in \<open>simp add: approve_def\<close>)
  next
    case (Some c)
    show ?thesis
    proof (cases "ac_expires_at c \<le> now")
      case True
      then have "sv' = put_case case_id (c\<lparr>ac_status := CaseExpired\<rparr>) sv"
        using assms Some by (simp add: approve_def)
      then show ?thesis using Some by (auto intro: ends no_grant)
    next
      case live: False
      obtain a where a: "eligible_approver sv c subject now = Ok a
          \<or> (\<exists>e. eligible_approver sv c subject now = Err e)"
        by (cases "eligible_approver sv c subject now") auto
      show ?thesis
      proof (cases "ac_status c \<in> {CasePending, CasePostReviewRequired}
          \<and> eligible_approver sv c subject now = Ok a
          \<and> \<not> list_ex (\<lambda>d. dcr_approver_subject d = ai_subject a) (ac_decisions c)")
        case True
        then have "ai_subject a \<notin> dcr_approver_subject ` set (ac_decisions c)"
          by (auto simp: list_ex_iff)
        moreover have "sv' = snd (record_approval env grant_id sv case_id c a reason now)"
          using True assms by (metis approve_pending [OF Some live])
        ultimately show ?thesis
          using True live record_approval_effect [OF Some] by (metis linorder_not_le)
      next
        case False
        then show ?thesis
          by (intro kept) (use assms approve_refused [OF Some live _ a] in auto)
      qed
    qed
  qed
qed

lemma reject_effect:
  assumes "snd (reject sv case_id subject reason now) = sv'"
  shows "case_effect env sv sv'"
  using assms
  by (auto simp: reject_def intro!: no_effect decision_effect split: option.splits sum.splits)

lemma audit_effect:
  assumes "snd (audit_emergency sv case_id subject reason now) = sv'"
  shows "case_effect env sv sv'"
  using assms
  by (auto simp: audit_emergency_def intro!: no_effect decision_effect split: option.splits sum.splits if_splits)

text \<open>The parts of the service the properties are about.\<close>

definition same_books :: "('sk, 'vk) approval_service \<Rightarrow> ('sk, 'vk) approval_service \<Rightarrow> bool" where
  "same_books sv sv' \<longleftrightarrow> cases_of sv' = cases_of sv \<and> grants_of sv' = grants_of sv
     \<and> remaining_of sv' = remaining_of sv
     \<and> as_revoked_grants (sv_state sv) \<subseteq> as_revoked_grants (sv_state sv')
     \<and> sv_keyring sv' = sv_keyring sv"

lemma same_books_refl [simp]: "same_books sv sv"
  by (simp add: same_books_def)

lemma intent_same_books: "snd (submit_ui_intent sv case_id session) = sv' \<Longrightarrow> same_books sv sv'"
  by (auto simp: submit_ui_intent_def same_books_def split: if_splits)

lemma revoke_same_books: "same_books sv (revoke_grants P sv)"
  by (simp add: same_books_def) (simp add: revoke_grants_def)

lemma revoke_case_effect:
  assumes "snd (revoke_case sv case_id) = sv'"
  shows "\<exists>sv1. case_effect env sv sv1 \<and> same_books sv1 sv'"
  using assms revoke_same_books
  by (auto simp: revoke_case_def intro: no_effect ends split: option.splits)

text \<open>A successful consumption writes the uses left and possibly the status of the case.\<close>

lemma verify_and_consume_Ok:
  assumes "verify_and_consume env sv g b now = (Ok n, sv')"
  shows "consumption_standing env sv g b now = Ok n"
    and "grants_of sv' = grants_of sv"
    and "remaining_of sv' = bt_insert (eg_grant_id g) n (remaining_of sv)"
    and "as_revoked_grants (sv_state sv') = as_revoked_grants (sv_state sv)"
    and "sv_keyring sv' = sv_keyring sv"
    and "cases_of sv' = cases_of sv
      \<or> n = 0 \<and> \<not> eg_break_glass g \<and> (\<exists>c. bt_get (cases_of sv) (eg_case_id g) = Some c
          \<and> cases_of sv' = bt_insert (eg_case_id g) (c\<lparr>ac_status := CaseConsumed\<rparr>) (cases_of sv))"
  using assms by (auto simp: verify_and_consume_def Let_def split: sum.splits if_splits option.splits)

lemma verify_and_consume_Err:
  "verify_and_consume env sv g b now = (Err e, sv') \<Longrightarrow> sv' = sv"
  by (auto simp: verify_and_consume_def Let_def split: sum.splits)

lemma consumption_standing_Ok_iff:
  "consumption_standing env sv g b now = Ok n \<longleftrightarrow>
     verify_grant_signature env g (sv_issuer sv) (sv_key_id sv)
       (sg_public (ee_signer (ae_evidence env)) (sv_signing_key sv)) now = Ok ()
     \<and> binding_matches b g \<and> eg_grant_id g \<notin> as_revoked_grants (sv_state sv)
     \<and> bt_get (grants_of sv) (eg_grant_id g) = Some g
     \<and> (\<exists>c. bt_get (cases_of sv) (eg_case_id g) = Some c
          \<and> ac_status c \<notin> {CaseRejected, CaseRevoked, CaseExpired}
          \<and> approvers_still_eligible (sv_directory sv) c (eg_tenant_id g) (eg_approver_subjects g) now
              = Ok ())
     \<and> (\<exists>m. bt_get (remaining_of sv) (eg_grant_id g) = Some m \<and> m \<noteq> 0 \<and> n = m - 1)"
  by (auto simp: consumption_standing_def res_bind_Ok_iff Let_def split: option.splits if_splits)

text \<open>Every step does one of three things.\<close>

lemma approval_step_effect:
  assumes "approval_step env (sv, u) (sv', u')"
  shows "(u' = u \<and> (\<exists>sv1. case_effect env sv sv1 \<and> same_books sv1 sv'))
    \<or> (u' = u \<and> (\<exists>grant_id sv1. bt_get (grants_of sv) grant_id = None \<and> case_effect env sv sv1
         \<and> grant_effect env grant_id sv1 sv'))
    \<or> (\<exists>g b now n. verify_and_consume env sv g b now = (Ok n, sv') \<and> u' = eg_grant_id g # u)"
  using assms
proof cases
  case (upsert_step i)
  then show ?thesis by (auto simp: same_books_def intro!: exI [of _ sv] no_effect)
next
  case (request_step case_id utc1 utc2 r p now)
  then show ?thesis by (metis request_effect same_books_refl)
next
  case (intent_step case_id session)
  then show ?thesis by (metis intent_same_books no_effect)
next
  case (approve_step grant_id case_id subject reason now)
  then show ?thesis by (metis approve_effect)
next
  case (reject_step case_id subject reason now)
  then show ?thesis by (metis reject_effect same_books_refl)
next
  case (audit_step case_id subject reason now)
  then show ?thesis by (metis audit_effect same_books_refl)
next
  case (revoke_case_step case_id)
  then show ?thesis by (metis revoke_case_effect)
next
  case (revoke_task_step task_id)
  then show ?thesis by (metis revoke_same_books no_effect revoke_task_grants_def)
next
  case (consume_step g b now r)
  show ?thesis
  proof (cases r)
    case (Inl e)
    then have "sv' = sv" "u' = u" using consume_step verify_and_consume_Err by auto
    then show ?thesis by (auto intro: no_effect)
  next
    case (Inr n)
    then show ?thesis using consume_step by auto
  qed
qed

lemma approval_step_cases:
  assumes "approval_step env (sv, u) (sv', u')"
  obtains (books) sv1 where "u' = u" "case_effect env sv sv1" "same_books sv1 sv'"
  | (granted) grant_id sv1 where "u' = u" "bt_get (grants_of sv) grant_id = None"
      "case_effect env sv sv1" "grant_effect env grant_id sv1 sv'"
  | (used) g b now n where "verify_and_consume env sv g b now = (Ok n, sv')" "u' = eg_grant_id g # u"
  using approval_step_effect [OF assms] by blast

subsection \<open>The invariant\<close>

definition case_ok ::
  "('sk, 'vk) approval_env \<Rightarrow> 'vk keyring \<Rightarrow> string \<Rightarrow> approval_case \<Rightarrow> bool" where
  "case_ok env ring case_id c \<longleftrightarrow>
     ac_case_id c = case_id \<and> validate_policy (ac_policy c) = Ok ()
     \<and> validate_approval_request (ac_request c) (ac_policy c) = Ok ()
     \<and> (\<exists>utc1 utc2. verify_request (ae_evidence env) utc1 utc2 ring (ac_request c) (ac_created_at c) = Ok ())
     \<and> ac_expires_at c = ac_created_at c + chrono_seconds (sint (apr_requested_ttl_seconds (ac_request c)))
     \<and> distinct (approving_subjects c)"

text \<open>What a grant takes from its case.\<close>

definition grant_covers :: "approval_case \<Rightarrow> enterprise_grant \<Rightarrow> bool" where
  "grant_covers c g \<longleftrightarrow>
     (let r = ac_request c; p = ac_policy c in
      eg_tenant_id g = apr_tenant_id r \<and> eg_task_id g = apr_task_id r \<and> eg_step_id g = apr_step_id r
      \<and> eg_action_hash g = apr_action_hash r \<and> eg_plan_hash g = apr_plan_hash r
      \<and> eg_parameter_hash g = apr_parameter_hash r \<and> eg_resource g = apr_resource r
      \<and> eg_resource_version g = apr_resource_version r \<and> eg_policy_version g = apr_policy_version r
      \<and> eg_environment g = apr_environment r \<and> eg_expires_at g = ac_expires_at c
      \<and> eg_maximum_uses g = apr_requested_uses r
      \<and> eg_break_glass g = (apo_approval_type p = EmergencyApproval)
      \<and> distinct (eg_approver_subjects g)
      \<and> unat (apo_minimum_approvers p) \<le> length (eg_approver_subjects g)
      \<and> set (eg_approver_subjects g) \<subseteq> set (approving_subjects c))"

definition grant_ok ::
  "('sk, 'vk) approval_service \<Rightarrow> string list \<Rightarrow> string \<Rightarrow> enterprise_grant \<Rightarrow> bool" where
  "grant_ok sv u grant_id g \<longleftrightarrow>
     eg_grant_id g = grant_id
     \<and> (\<exists>c. bt_get (cases_of sv) (eg_case_id g) = Some c \<and> grant_covers c g)
     \<and> (\<exists>n. bt_get (remaining_of sv) grant_id = Some n
          \<and> unat n + count_list u grant_id = unat (eg_maximum_uses g))"

definition approval_ok :: "('sk, 'vk) approval_env \<Rightarrow> ('sk, 'vk) approval_run_state \<Rightarrow> bool" where
  "approval_ok env s \<longleftrightarrow>
     (\<forall>i c. bt_get (cases_of (fst s)) i = Some c \<longrightarrow> case_ok env (sv_keyring (fst s)) i c)
     \<and> (\<forall>i g. bt_get (grants_of (fst s)) i = Some g \<longrightarrow> grant_ok (fst s) (snd s) i g)
     \<and> (\<forall>i. bt_get (grants_of (fst s)) i = None \<longrightarrow> count_list (snd s) i = 0)
     \<and> bt_ok (grants_of (fst s))"

text \<open>A case keeps its request and policy and never loses an approval.\<close>

definition case_evolves :: "approval_case \<Rightarrow> approval_case \<Rightarrow> bool" where
  "case_evolves c c' \<longleftrightarrow> ac_request c' = ac_request c \<and> ac_policy c' = ac_policy c
     \<and> ac_expires_at c' = ac_expires_at c \<and> set (approving_subjects c) \<subseteq> set (approving_subjects c')"

lemma case_evolves_refl [simp]: "case_evolves c c"
  by (simp add: case_evolves_def)

lemma grant_covers_evolves: "grant_covers c g \<Longrightarrow> case_evolves c c' \<Longrightarrow> grant_covers c' g"
  unfolding grant_covers_def case_evolves_def Let_def by auto

lemma case_ok_decided:
  assumes "case_ok env ring i c"
    and "t \<noteq> ''APPROVE'' \<or> ai_subject a \<notin> dcr_approver_subject ` set (ac_decisions c)"
  shows "case_ok env ring i ((decided c (decision_of a t reason now))\<lparr>ac_status := st\<rparr>)"
proof -
  have "ai_subject a \<notin> set (approving_subjects c)" if "t = ''APPROVE''"
    using assms(2) that by (auto simp: approving_subjects_def)
  then show ?thesis
    using assms(1) by (auto simp: case_ok_def)
qed

lemma case_ok_status: "case_ok env ring i c \<Longrightarrow> case_ok env ring i (c\<lparr>ac_status := st\<rparr>)"
  by (auto simp: case_ok_def)

lemma case_ok_new:
  assumes "validate_policy (ac_policy c) = Ok ()"
    and "validate_approval_request (ac_request c) (ac_policy c) = Ok ()"
    and "verify_request (ae_evidence env) utc1 utc2 ring (ac_request c) (ac_created_at c) = Ok ()"
    and "new_case env (ac_case_id c) (ac_request c) (ac_policy c) (ac_created_at c) = Some (Ok c)"
  shows "case_ok env ring (ac_case_id c) c"
proof -
  have "min (apr_requested_ttl_seconds (ac_request c)) (apo_maximum_ttl_seconds (ac_policy c))
      = apr_requested_ttl_seconds (ac_request c)"
    using assms(2) by (auto simp: validate_approval_request_def min_def)
  then show ?thesis
    using assms new_case_Ok [OF assms(4)] by (auto simp: case_ok_def approving_subjects_def)
qed

definition cases_ok ::
  "('sk, 'vk) approval_env \<Rightarrow> 'vk keyring \<Rightarrow> (string, approval_case) btree \<Rightarrow> bool" where
  "cases_ok env ring cs \<longleftrightarrow> (\<forall>i c. bt_get cs i = Some c \<longrightarrow> case_ok env ring i c)"

lemma cases_ok_insert:
  "cases_ok env ring cs \<Longrightarrow> case_ok env ring i c \<Longrightarrow> cases_ok env ring (bt_insert i c cs)"
  by (auto simp: cases_ok_def bt.get_put)

lemma case_effect_ok:
  assumes "case_effect env sv sv'" and "cases_ok env (sv_keyring sv) (cases_of sv)"
  shows "cases_ok env (sv_keyring sv) (cases_of sv')"
  using assms(1)
proof cases
  case (opens c utc1 utc2)
  then show ?thesis using assms(2) by (auto intro!: cases_ok_insert case_ok_new)
next
  case (decides case_id c subject now a d t reason st)
  then have "case_ok env (sv_keyring sv) case_id ((decided c d)\<lparr>ac_status := st\<rparr>)"
    using assms(2) by (auto simp: cases_ok_def intro!: case_ok_decided)
  then show ?thesis using decides assms(2) by (auto intro!: cases_ok_insert)
next
  case (ends case_id c st)
  then have "case_ok env (sv_keyring sv) case_id (c\<lparr>ac_status := st\<rparr>)"
    using assms(2) by (auto simp: cases_ok_def intro!: case_ok_status)
  then show ?thesis using ends assms(2) by (auto intro!: cases_ok_insert)
qed (use assms(2) in simp)

lemma case_effect_evolves:
  assumes "case_effect env sv sv'" and "bt_get (cases_of sv) i = Some c"
  shows "\<exists>c'. bt_get (cases_of sv') i = Some c' \<and> case_evolves c c'"
  using assms by cases (auto simp: bt.get_put case_evolves_def)

lemma case_effect_frame:
  assumes "case_effect env sv sv'"
  shows "grants_of sv' = grants_of sv" "remaining_of sv' = remaining_of sv"
    "as_revoked_grants (sv_state sv') = as_revoked_grants (sv_state sv)"
    "sv_keyring sv' = sv_keyring sv"
  using assms by (cases, simp_all)+

lemma grant_ok_evolves:
  assumes "grant_ok sv u i g" and "remaining_of sv' = remaining_of sv"
    and "\<And>j c. bt_get (cases_of sv) j = Some c \<Longrightarrow>
      \<exists>c'. bt_get (cases_of sv') j = Some c' \<and> case_evolves c c'"
  shows "grant_ok sv' u i g"
proof -
  obtain c where c: "bt_get (cases_of sv) (eg_case_id g) = Some c" "grant_covers c g"
    using assms(1) by (auto simp: grant_ok_def)
  then obtain c' where "bt_get (cases_of sv') (eg_case_id g) = Some c'" "grant_covers c' g"
    using assms(3) [OF c(1)] grant_covers_evolves by blast
  then show ?thesis using assms(1,2) by (simp add: grant_ok_def)
qed

lemma approval_ok_case_effect:
  assumes "approval_ok env (sv, u)" and "case_effect env sv sv'"
  shows "approval_ok env (sv', u)"
proof -
  note frame = case_effect_frame [OF assms(2)]
  have "grant_ok sv' u i g" if "grant_ok sv u i g" for i g
    using that frame(2) by (rule grant_ok_evolves) (rule case_effect_evolves [OF assms(2)])
  then show ?thesis
    using assms case_effect_ok [OF assms(2)] frame
    unfolding approval_ok_def cases_ok_def [symmetric] by simp
qed

lemma approval_ok_same_books:
  assumes "approval_ok env (sv, u)" and "same_books sv sv'"
  shows "approval_ok env (sv', u)"
  using assms unfolding approval_ok_def same_books_def grant_ok_def by simp

lemma issue_grant_Ok:
  assumes "issue_grant env grant_id sv c now = (Ok (Some g), sv')"
  shows "\<exists>b. grant_signing_bytes env (make_grant (sv_issuer sv) (sv_key_id sv) c grant_id now) = Ok b
      \<and> g = (make_grant (sv_issuer sv) (sv_key_id sv) c grant_id now)
          \<lparr>eg_signature := sg_sign (ee_signer (ae_evidence env)) (sv_signing_key sv) b\<rparr>"
    and "eg_grant_id g = grant_id" "eg_case_id g = ac_case_id c"
    and "cases_of sv' = cases_of sv" "grants_of sv' = bt_insert grant_id g (grants_of sv)"
    and "remaining_of sv' = bt_insert grant_id (eg_maximum_uses g) (remaining_of sv)"
    and "as_revoked_grants (sv_state sv') = as_revoked_grants (sv_state sv)"
    and "sv_keyring sv' = sv_keyring sv" "sv_directory sv' = sv_directory sv"
    and "sv_issuer sv' = sv_issuer sv" "sv_key_id sv' = sv_key_id sv" "sv_signing_key sv' = sv_signing_key sv"
  using assms by (auto simp: issue_grant_def make_grant_def Let_def split: sum.splits)

lemma issued_grant_covers:
  assumes "issue_grant env grant_id sv c now = (Ok (Some g), sv')" and "case_ok env ring i c"
    and "apo_minimum_approvers (ac_policy c) \<le> unique_approvals c"
  shows "grant_covers c g"
proof -
  let ?n = "length (approving_subjects c)"
  have "distinct (approving_subjects c)"
    using assms(2) by (simp add: case_ok_def)
  then have "unat (apo_minimum_approvers (ac_policy c)) \<le> unat (of_nat ?n :: u32)"
    using assms(3) by (simp add: unique_approvals_def distinct_remdups_id word_le_nat_alt)
  also have "\<dots> \<le> ?n" by (simp add: unat_of_nat)
  finally have "unat (apo_minimum_approvers (ac_policy c)) \<le> ?n" .
  moreover have "min (apr_requested_uses (ac_request c)) (apo_maximum_uses (ac_policy c))
      = apr_requested_uses (ac_request c)"
    using assms(2) by (auto simp: case_ok_def validate_approval_request_def min_def)
  ultimately show ?thesis
    using issue_grant_Ok(1) [OF assms(1)] \<open>distinct (approving_subjects c)\<close>
    by (auto simp: grant_covers_def make_grant_def Let_def)
qed

lemma approval_ok_grant_effect:
  assumes ok: "approval_ok env (sv, u)" and effect: "grant_effect env grant_id sv sv'"
    and fresh: "bt_get (grants_of sv) grant_id = None"
  shows "approval_ok env (sv', u)"
  using effect
proof cases
  case (grants case_id c now g)
  note issued = issue_grant_Ok [OF grants(5)]
  have case_ok: "case_ok env (sv_keyring sv) case_id c"
    using ok grants(1) by (simp add: approval_ok_def)
  then have "grant_ok sv' u grant_id g"
    using issued_grant_covers [OF grants(5) case_ok grants(4)] grants(1) ok fresh issued
    by (auto simp: grant_ok_def bt.get_put approval_ok_def case_ok_def)
  moreover have "grant_ok sv' u i h" if "bt_get (grants_of sv) i = Some h" for i h
    using that ok fresh issued by (auto simp: approval_ok_def grant_ok_def bt.get_put)
  ultimately show ?thesis
    using ok issued by (auto simp: approval_ok_def bt.get_put)
qed (use ok in simp)

lemma unat_minus_one: "(m :: u32) \<noteq> 0 \<Longrightarrow> unat m = Suc (unat (m - 1))"
  using unat_gt_0 [of m] by (simp add: unat_minus_one)

lemma approval_ok_consumed:
  assumes ok: "approval_ok env (sv, u)" and used: "verify_and_consume env sv g b now = (Ok n, sv')"
  shows "approval_ok env (sv', eg_grant_id g # u)"
proof -
  note books = verify_and_consume_Ok [OF used]
  obtain m c where m: "bt_get (remaining_of sv) (eg_grant_id g) = Some m" "m \<noteq> 0" "n = m - 1"
    and stored: "bt_get (grants_of sv) (eg_grant_id g) = Some g"
    using books(1) by (auto simp: consumption_standing_Ok_iff)
  have evolves: "\<exists>c'. bt_get (cases_of sv') i = Some c' \<and> case_evolves c c'"
    if "bt_get (cases_of sv) i = Some c" for i c
    using books(6) that by (auto simp: bt.get_put case_evolves_def)
  have "cases_ok env (sv_keyring sv') (cases_of sv')"
    using books(5,6) ok by (auto simp: approval_ok_def cases_ok_def bt.get_put intro!: case_ok_status split: if_splits)
  moreover have "grant_ok sv' (eg_grant_id g # u) i h" if "bt_get (grants_of sv) i = Some h" for i h
  proof -
    have "grant_ok sv u i h" using ok that by (simp add: approval_ok_def)
    then obtain c k where c: "bt_get (cases_of sv) (eg_case_id h) = Some c" "grant_covers c h"
      "eg_grant_id h = i" and k: "bt_get (remaining_of sv) i = Some k"
      "unat k + count_list u i = unat (eg_maximum_uses h)"
      by (auto simp: grant_ok_def)
    have "\<exists>k'. bt_get (remaining_of sv') i = Some k'
        \<and> unat k' + count_list (eg_grant_id g # u) i = unat (eg_maximum_uses h)"
      using books(3) m k unat_minus_one [of m] by (auto simp: bt.get_put)
    then show ?thesis
      using c evolves [OF c(1)] grant_covers_evolves by (auto simp: grant_ok_def)
  qed
  ultimately show ?thesis
    using ok books(2) stored by (auto simp: approval_ok_def cases_ok_def)
qed

lemma approval_ok_step:
  assumes "approval_step env s t" and "approval_ok env s"
  shows "approval_ok env t"
proof -
  obtain sv u sv' u' where s: "s = (sv, u)" and t: "t = (sv', u')"
    by (cases s, cases t)
  have ok: "approval_ok env (sv, u)" using assms(2) s by simp
  from assms(1) [unfolded s t] show ?thesis
  proof (cases rule: approval_step_cases)
    case books
    then show ?thesis
      unfolding t using approval_ok_same_books approval_ok_case_effect [OF ok] by blast
  next
    case granted
    then show ?thesis
      unfolding t using approval_ok_grant_effect approval_ok_case_effect [OF ok] case_effect_frame(1) by metis
  next
    case used
    then show ?thesis unfolding t using approval_ok_consumed [OF ok] by simp
  qed
qed

lemma approval_ok_init: "approval_init s \<Longrightarrow> approval_ok env s"
  by (cases s) (auto simp: approval_init_def approval_ok_def approval_service_new_def
      approval_state_default_def split: if_splits)

interpretation approvals: invariant_system "approval_step env" "approval_ok env" approval_init
  by unfold_locales (auto intro: approval_ok_step approval_ok_init)

subsection \<open>Who decided\<close>

text \<open>
  The rules a policy sets for the approver of a decision, read from the directory entry of that
  moment: of the tenant of the request, active, strongly authenticated, a delegation not yet expired,
  a required role, not the requester or the agent owner when those are excluded, and the owner of the
  resource when the policy asks for it. The decision records the roles and the authentication.
\<close>

definition decider_allowed :: "approver_directory \<Rightarrow> approval_case \<Rightarrow> decision_record \<Rightarrow> bool" where
  "decider_allowed dir c d \<longleftrightarrow>
     (case bt_get dir (apr_tenant_id (ac_request c), dcr_approver_subject d) of None \<Rightarrow> False
      | Some a \<Rightarrow>
          ai_tenant_id a = apr_tenant_id (ac_request c) \<and> ai_subject a = dcr_approver_subject d
          \<and> ai_active a \<and> ai_strong_auth a \<and> dcr_strong_auth d \<and> dcr_roles d = ai_roles a
          \<and> (\<forall>expiry. ai_delegated_until a = Some expiry \<longrightarrow> dcr_decided_at d < expiry)
          \<and> (apo_required_roles (ac_policy c) \<noteq> {} \<longrightarrow> (\<exists>r \<in> apo_required_roles (ac_policy c). r \<in> ai_roles a))
          \<and> (apo_prohibit_requester (ac_policy c) \<longrightarrow> ai_subject a \<noteq> apr_requester_subject (ac_request c))
          \<and> (apo_prohibit_agent_owner (ac_policy c) \<longrightarrow> ai_subject a \<noteq> apr_agent_owner_subject (ac_request c))
          \<and> (apo_require_resource_owner (ac_policy c) \<longrightarrow> apr_resource (ac_request c) \<in> ai_owned_resources a)
          \<and> (dcr_decision d = ''APPROVE'' \<longrightarrow> dcr_decided_at d < ac_expires_at c))"

text \<open>The step that recorded a decision, and that it was allowed by the directory it met.\<close>

definition recorded_by ::
  "('sk, 'vk) approval_run_state \<Rightarrow> ('sk, 'vk) approval_run_state \<Rightarrow> string \<Rightarrow> decision_record \<Rightarrow> bool" where
  "recorded_by s t i d \<longleftrightarrow> (\<exists>c c'. bt_get (cases_of (fst s)) i = Some c
     \<and> bt_get (cases_of (fst t)) i = Some c' \<and> ac_decisions c' = ac_decisions c @ [d])"

definition allowed_decision ::
  "('sk, 'vk) approval_env \<Rightarrow> ('sk, 'vk) approval_run_state \<Rightarrow> string \<Rightarrow> approval_case \<Rightarrow> decision_record \<Rightarrow> bool" where
  "allowed_decision env s i c d \<longleftrightarrow> (\<exists>s0 s1. approval_reach env s0 \<and> approval_step env s0 s1
     \<and> (approval_step env)\<^sup>*\<^sup>* s1 s \<and> recorded_by s0 s1 i d
     \<and> decider_allowed (sv_directory (fst s0)) c d)"

text \<open>The directory is filed under the names of its entries.\<close>

definition directory_filed :: "('sk, 'vk) approval_run_state \<Rightarrow> bool" where
  "directory_filed s \<longleftrightarrow> (\<forall>t n a. bt_get (sv_directory (fst s)) (t, n) = Some a \<longrightarrow>
     ai_tenant_id a = t \<and> ai_subject a = n)"

lemma case_effect_directory: "case_effect env sv sv' \<Longrightarrow> sv_directory sv' = sv_directory sv"
  by (erule case_effect.cases) (simp_all add: put_case_def)

lemma directory_filed_step:
  assumes "approval_step env s t" and "directory_filed s"
  shows "directory_filed t"
  using assms(1)
proof cases
  case (upsert_step sv i u)
  then show ?thesis using assms(2) by (auto simp: directory_filed_def directory_upsert_def bt.get_put)
next
  case (request_step sv case_id utc1 utc2 r p now sv' u)
  then show ?thesis using assms(2) case_effect_directory [OF request_effect [OF request_step(3,4)]]
    by (simp add: directory_filed_def)
next
  case (intent_step sv case_id session sv' u)
  then show ?thesis using assms(2)
    by (auto simp: directory_filed_def submit_ui_intent_def split: if_splits)
next
  case (approve_step sv grant_id case_id subject reason now sv' u)
  then obtain sv1 where "case_effect env sv sv1" "grant_effect env grant_id sv1 sv'"
    using approve_effect by blast
  then have "sv_directory sv' = sv_directory sv"
    by (auto simp: case_effect_directory issue_grant_Ok elim!: grant_effect.cases)
  then show ?thesis using assms(2) approve_step by (simp add: directory_filed_def)
next
  case (reject_step sv case_id subject reason now sv' u)
  then show ?thesis using assms(2) case_effect_directory [OF reject_effect [OF reject_step(3)]]
    by (simp add: directory_filed_def)
next
  case (audit_step sv case_id subject reason now sv' u)
  then show ?thesis using assms(2) case_effect_directory [OF audit_effect [OF audit_step(3)]]
    by (simp add: directory_filed_def)
next
  case (revoke_case_step sv case_id sv' u)
  then show ?thesis using assms(2)
    by (auto simp: directory_filed_def revoke_case_def revoke_grants_def put_case_def split: option.splits)
next
  case (revoke_task_step sv u task_id)
  then show ?thesis using assms(2)
    by (simp add: directory_filed_def revoke_task_grants_def revoke_grants_def)
next
  case (consume_step sv g b now r sv' u)
  then show ?thesis using assms(2)
    by (auto simp: directory_filed_def verify_and_consume_def Let_def put_case_def
        split: sum.splits if_splits option.splits)
qed

lemma directory_filed_init: "approval_init s \<Longrightarrow> directory_filed s"
  by (cases s) (auto simp: approval_init_def approval_service_new_def directory_filed_def split: if_splits)

interpretation approver_names: invariant_system "approval_step env" directory_filed approval_init
  by unfold_locales (auto intro: directory_filed_step directory_filed_init)

text \<open>An eligible approver, by the rules of the code, is allowed by the policy.\<close>

lemma eligible_is_allowed:
  assumes "eligible_approver sv c subject now = Ok a" and "directory_filed (sv, u)"
    and "t \<noteq> ''APPROVE'' \<or> now < ac_expires_at c"
  shows "decider_allowed (sv_directory sv) c (decision_of a t reason now)"
  using assms
  by (auto simp: decider_allowed_def eligible_approver_def directory_resolve_def sod_eligible_def Let_def
      decision_of_def directory_filed_def res_bind_Ok_iff split: option.splits if_splits)

lemma decider_allowed_cong:
  "ac_request c' = ac_request c \<Longrightarrow> ac_policy c' = ac_policy c \<Longrightarrow> ac_expires_at c' = ac_expires_at c \<Longrightarrow>
   decider_allowed dir c' d = decider_allowed dir c d"
  by (simp add: decider_allowed_def cong: option.case_cong)

text \<open>What one effect adds to the decisions of a case.\<close>

definition case_grows ::
  "approver_directory \<Rightarrow> (string, approval_case) btree \<Rightarrow> string \<Rightarrow> approval_case \<Rightarrow> bool" where
  "case_grows dir cs i c' \<longleftrightarrow> ac_decisions c' = []
     \<or> (\<exists>c. bt_get cs i = Some c \<and> ac_request c' = ac_request c \<and> ac_policy c' = ac_policy c
         \<and> ac_expires_at c' = ac_expires_at c
         \<and> (ac_decisions c' = ac_decisions c
            \<or> (\<exists>d. ac_decisions c' = ac_decisions c @ [d] \<and> decider_allowed dir c d)))"

lemma case_grows_same: "bt_get cs i = Some c \<Longrightarrow> case_grows dir cs i c"
  by (auto simp: case_grows_def)

lemma case_effect_grows:
  assumes "case_effect env sv sv'" and "directory_filed (sv, u)" and "bt_get (cases_of sv') i = Some c'"
  shows "case_grows (sv_directory sv) (cases_of sv) i c'"
  using assms(1)
proof cases
  case (opens c utc1 utc2)
  then show ?thesis
    using assms(3) new_case_Ok(5) [OF opens(6)]
    by (auto simp: bt.get_put case_grows_def split: if_splits)
next
  case (decides case_id c subject now a d t reason st)
  have "decider_allowed (sv_directory sv) c d"
    unfolding decides(5) using decides(3,4,5) by (intro eligible_is_allowed [OF decides(3) assms(2)]) (auto simp: decision_of_def)
  then show ?thesis
    using decides assms(3) by (auto simp: bt.get_put case_grows_def split: if_splits)
next
  case (ends case_id c st)
  then show ?thesis using assms(3) by (auto simp: bt.get_put case_grows_def split: if_splits)
qed (use assms(3) in \<open>auto intro: case_grows_same\<close>)

lemma approval_step_grows:
  assumes "approval_step env (sv, u) (sv', u')" and "directory_filed (sv, u)"
    and "bt_get (cases_of sv') i = Some c'"
  shows "case_grows (sv_directory sv) (cases_of sv) i c'"
  using assms(1)
proof (cases rule: approval_step_cases)
  case (books sv1)
  then have "bt_get (cases_of sv1) i = Some c'" using assms(3) by (simp add: same_books_def)
  then show ?thesis by (rule case_effect_grows [OF books(2) assms(2)])
next
  case (granted grant_id sv1)
  then have "bt_get (cases_of sv1) i = Some c'"
    using assms(3) by (auto simp: issue_grant_Ok elim!: grant_effect.cases)
  then show ?thesis by (rule case_effect_grows [OF granted(3) assms(2)])
next
  case (used g b now n)
  then show ?thesis
    using verify_and_consume_Ok(6) [OF used(1)] assms(3)
    by (auto simp: bt.get_put case_grows_def split: if_splits)
qed

text \<open>Every decision on record was allowed when it was recorded.\<close>

definition decisions_allowed :: "('sk, 'vk) approval_env \<Rightarrow> ('sk, 'vk) approval_run_state \<Rightarrow> bool" where
  "decisions_allowed env s \<longleftrightarrow> approval_reach env s
     \<and> (\<forall>i c d. bt_get (cases_of (fst s)) i = Some c \<longrightarrow> d \<in> set (ac_decisions c) \<longrightarrow>
          allowed_decision env s i c d)"

lemma allowed_decision_later:
  "allowed_decision env s i c d \<Longrightarrow> approval_step env s t \<Longrightarrow>
   allowed_decision env t i c d"
  unfolding allowed_decision_def by (meson rtranclp.rtrancl_into_rtrancl)

lemma decisions_allowed_step:
  assumes step: "approval_step env s t" and old: "decisions_allowed env s"
  shows "decisions_allowed env t"
proof -
  obtain sv u sv' u' where s: "s = (sv, u)" and t: "t = (sv', u')"
    by (cases s, cases t)
  have reached: "approval_reach env s" using old by (simp add: decisions_allowed_def)
  then have filed: "directory_filed (sv, u)" using approver_names.reach_inv s by blast
  have "allowed_decision env t i c' d"
    if c': "bt_get (cases_of sv') i = Some c'" and d: "d \<in> set (ac_decisions c')" for i c' d
  proof -
    obtain c where c: "bt_get (cases_of sv) i = Some c" and same: "ac_request c' = ac_request c"
        "ac_policy c' = ac_policy c" "ac_expires_at c' = ac_expires_at c"
      and ds: "ac_decisions c' = ac_decisions c
        \<or> (\<exists>d. ac_decisions c' = ac_decisions c @ [d] \<and> decider_allowed (sv_directory sv) c d)"
      using approval_step_grows [OF step [unfolded s t] filed c'] d by (auto simp: case_grows_def)
    have "d \<in> set (ac_decisions c)
        \<or> ac_decisions c' = ac_decisions c @ [d] \<and> decider_allowed (sv_directory sv) c d"
      using ds d by auto
    then show ?thesis
    proof
      assume "d \<in> set (ac_decisions c)"
      then have "allowed_decision env s i c d" using old c by (simp add: decisions_allowed_def s)
      then have "allowed_decision env s i c' d"
        by (simp add: allowed_decision_def decider_allowed_cong [OF same])
      then show ?thesis using step by (rule allowed_decision_later)
    next
      assume "ac_decisions c' = ac_decisions c @ [d] \<and> decider_allowed (sv_directory sv) c d"
      then have "recorded_by s t i d" "decider_allowed (sv_directory (fst s)) c' d"
        using c c' by (auto simp: recorded_by_def s t decider_allowed_cong [OF same])
      then show ?thesis
        unfolding allowed_decision_def using reached step by blast
    qed
  qed
  then show ?thesis
    unfolding decisions_allowed_def using reach_step [OF reached step] by (simp add: t)
qed

lemma decisions_allowed_init:
  assumes "approval_init s" shows "decisions_allowed env s"
proof -
  have "cases_of (fst s) = bt_empty"
    using assms by (cases s) (auto simp: approval_init_def approval_service_new_def approval_state_default_def split: if_splits)
  then show ?thesis using reach_init [where init = approval_init, OF assms] by (simp add: decisions_allowed_def)
qed

interpretation decisions: invariant_system "approval_step env" "decisions_allowed env" approval_init
  by unfold_locales (auto intro: decisions_allowed_step decisions_allowed_init)

subsection \<open>Closed cases and revoked grants\<close>

definition case_closed :: "approval_case \<Rightarrow> bool" where
  "case_closed c \<longleftrightarrow> ac_status c \<in> {CaseRejected, CaseRevoked, CaseExpired}"

text \<open>Since the state \<open>s0\<close> the case \<open>i\<close> is closed, has no new grant and spent no use.\<close>

definition closed_since ::
  "('sk, 'vk) approval_env \<Rightarrow> string \<Rightarrow> ('sk, 'vk) approval_run_state \<Rightarrow> ('sk, 'vk) approval_run_state \<Rightarrow> bool" where
  "closed_since env i s0 s \<longleftrightarrow> approval_ok env s
     \<and> (\<exists>c. bt_get (cases_of (fst s)) i = Some c \<and> case_closed c)
     \<and> (\<forall>j g. bt_get (grants_of (fst s)) j = Some g \<longrightarrow> eg_case_id g = i \<longrightarrow>
          bt_get (grants_of (fst s0)) j = Some g \<and> count_list (snd s) j = count_list (snd s0) j)"

definition unused_since :: "string \<Rightarrow> ('sk, 'vk) approval_run_state \<Rightarrow> ('sk, 'vk) approval_run_state \<Rightarrow> bool" where
  "unused_since j s0 s \<longleftrightarrow> j \<in> as_revoked_grants (sv_state (fst s))
     \<and> count_list (snd s) j = count_list (snd s0) j"

lemma case_effect_closed:
  assumes "case_effect env sv sv'" and "bt_get (cases_of sv) i = Some c" and "case_closed c"
  shows "\<exists>c'. bt_get (cases_of sv') i = Some c' \<and> case_closed c'"
  using assms by cases (auto simp: bt.get_put case_closed_def)

lemma closed_since_case_effect:
  assumes "closed_since env i s0 (sv, u)" and "case_effect env sv sv'"
  shows "closed_since env i s0 (sv', u)"
proof -
  obtain c where "bt_get (cases_of sv) i = Some c" "case_closed c" and ok: "approval_ok env (sv, u)"
    using assms(1) by (auto simp: closed_since_def)
  then have "\<exists>c'. bt_get (cases_of sv') i = Some c' \<and> case_closed c'"
    using case_effect_closed [OF assms(2)] by blast
  then show ?thesis
    using assms(1) approval_ok_case_effect [OF ok assms(2)] case_effect_frame [OF assms(2)]
    by (simp add: closed_since_def)
qed

lemma closed_since_same_books:
  "closed_since env i s0 (sv, u) \<Longrightarrow> same_books sv sv' \<Longrightarrow> closed_since env i s0 (sv', u)"
  by (auto simp: closed_since_def same_books_def dest: approval_ok_same_books [unfolded same_books_def])

lemma closed_since_grant_effect:
  assumes closed: "closed_since env i s0 (sv, u)" and effect: "grant_effect env j sv sv'"
    and fresh: "bt_get (grants_of sv) j = None"
  shows "closed_since env i s0 (sv', u)"
  using effect
proof cases
  case (grants case_id c now g)
  note issued = issue_grant_Ok [OF grants(5)]
  have ok: "approval_ok env (sv, u)" using closed by (simp add: closed_since_def)
  have "ac_case_id c = case_id"
    using ok grants(1) by (simp add: approval_ok_def case_ok_def)
  moreover have "case_id \<noteq> i"
    using closed grants(1,2) by (auto simp: closed_since_def case_closed_def)
  ultimately have "eg_case_id g \<noteq> i" using issued(3) by simp
  then show ?thesis
    using closed approval_ok_grant_effect [OF ok effect fresh] issued
    by (auto simp: closed_since_def bt.get_put)
qed (use closed in simp)

lemma closed_since_consumed:
  assumes closed: "closed_since env i s0 (sv, u)" and used: "verify_and_consume env sv g b now = (Ok n, sv')"
  shows "closed_since env i s0 (sv', eg_grant_id g # u)"
proof -
  note books = verify_and_consume_Ok [OF used]
  obtain c where stored: "bt_get (grants_of sv) (eg_grant_id g) = Some g"
    and c: "bt_get (cases_of sv) (eg_case_id g) = Some c" "\<not> case_closed c"
    using books(1) by (auto simp: consumption_standing_Ok_iff case_closed_def)
  have other: "eg_case_id g \<noteq> i"
    using closed c by (auto simp: closed_since_def)
  then have "bt_get (cases_of sv') i = bt_get (cases_of sv) i"
    using books(6) by (auto simp: bt.get_put)
  then show ?thesis
    using closed stored other books(2) approval_ok_consumed [OF _ used]
    by (auto simp: closed_since_def)
qed

lemma closed_since_step:
  assumes "approval_step env s t" and "closed_since env i s0 s"
  shows "closed_since env i s0 t"
proof -
  obtain sv u sv' u' where s: "s = (sv, u)" and t: "t = (sv', u')"
    by (cases s, cases t)
  have closed: "closed_since env i s0 (sv, u)" using assms(2) s by simp
  from assms(1) [unfolded s t] show ?thesis
    unfolding t
  proof (cases rule: approval_step_cases)
    case books
    then show "closed_since env i s0 (sv', u')"
      using closed_since_same_books closed_since_case_effect [OF closed] by blast
  next
    case granted
    then show "closed_since env i s0 (sv', u')"
      using closed_since_grant_effect closed_since_case_effect [OF closed] case_effect_frame(1) by metis
  next
    case used
    then show "closed_since env i s0 (sv', u')" using closed_since_consumed [OF closed] by simp
  qed
qed

lemma grant_effect_revoked:
  assumes "grant_effect env j sv sv'"
  shows "as_revoked_grants (sv_state sv') = as_revoked_grants (sv_state sv)"
  using assms by cases (auto simp: issue_grant_Ok)

lemma unused_since_step:
  assumes "approval_step env s t" and "unused_since j s0 s"
  shows "unused_since j s0 t"
proof -
  obtain sv u sv' u' where s: "s = (sv, u)" and t: "t = (sv', u')"
    by (cases s, cases t)
  have j: "j \<in> as_revoked_grants (sv_state sv)" "count_list u j = count_list (snd s0) j"
    using assms(2) by (simp_all add: s unused_since_def)
  from assms(1) [unfolded s t] show ?thesis
    unfolding t
  proof (cases rule: approval_step_cases)
    case books
    then show "unused_since j s0 (sv', u')"
      using j by (auto simp: unused_since_def same_books_def case_effect_frame(3))
  next
    case granted
    then show "unused_since j s0 (sv', u')"
      using j by (simp add: unused_since_def case_effect_frame(3) grant_effect_revoked)
  next
    case used
    then show "unused_since j s0 (sv', u')"
      using j verify_and_consume_Ok(1,4) [OF used(1)]
      by (auto simp: unused_since_def consumption_standing_Ok_iff)
  qed
qed

interpretation closed_cases: kept_by_steps "approval_step env" "closed_since env i s0"
  by unfold_locales (rule closed_since_step)

interpretation revoked_grants: kept_by_steps "approval_step env" "unused_since j s0"
  by unfold_locales (rule unused_since_step)

end
