(* ===== verification/Approval_Guarantees.thy ===== *)
theory Approval_Guarantees
  imports Approval_Safety
begin

text \<open>
  The guarantees of the approval service, stated over its runs, with a concrete service they hold of:
  two approvers, one request, on the sample libraries.
\<close>

subsection \<open>Cases, quorum, uses\<close>

text \<open>
  Every stored case is well formed: it is filed under its own identifier, its policy and request
  passed validation, its review evidence was verified when it was opened, it expires after the
  requested time to live, and it counts each approver once; every decision on it was allowed when it was
  recorded.
\<close>

theorem stored_cases_are_valid:
  assumes "approval_reach env (sv, u)" and "bt_get (cases_of sv) i = Some c"
  shows "ac_case_id c = i \<and> validate_policy (ac_policy c) = Ok ()
    \<and> validate_approval_request (ac_request c) (ac_policy c) = Ok ()
    \<and> (\<exists>utc1 utc2. verify_request (ae_evidence env) utc1 utc2 (sv_keyring sv) (ac_request c)
          (ac_created_at c) = Ok ())
    \<and> ac_expires_at c = ac_created_at c + chrono_seconds (sint (apr_requested_ttl_seconds (ac_request c)))
    \<and> distinct (approving_subjects c)
    \<and> (\<forall>d. d \<in> set (ac_decisions c) \<longrightarrow> allowed_decision env (sv, u) i c d)"
  using approvals.reach_inv [OF assms(1)] decisions.reach_inv [OF assms(1)] assms(2)
  by (simp add: approval_ok_def case_ok_def decisions_allowed_def)

text \<open>
  C2: a grant had its quorum. It belongs to a stored case, names exactly the action of its request,
  and lists at least the required number of distinct approvers, each with an approval on record. The
  step that recorded it met a directory in which the approver was a member of the tenant of the request,
  active, strongly authenticated, with a live delegation if any, in a required role, the owner of the
  resource when the policy demands it, and neither the requester nor the agent owner when those are
  excluded; the case had not expired.
\<close>

theorem grants_need_a_quorum:
  assumes "approval_reach env (sv, u)" and "bt_get (grants_of sv) i = Some g"
  shows "\<exists>c. bt_get (cases_of sv) (eg_case_id g) = Some c \<and> grant_covers c g
    \<and> unat (apo_minimum_approvers (ac_policy c)) \<le> card (set (eg_approver_subjects g))
    \<and> (\<forall>s. s \<in> set (eg_approver_subjects g) \<longrightarrow>
         (\<exists>d \<in> set (ac_decisions c). dcr_approver_subject d = s \<and> dcr_decision d = ''APPROVE''
            \<and> (\<exists>s0 s1. approval_reach env s0 \<and> approval_step env s0 s1
                 \<and> (approval_step env)\<^sup>*\<^sup>* s1 (sv, u) \<and> recorded_by s0 s1 (eg_case_id g) d
                 \<and> decider_allowed (sv_directory (fst s0)) c d)))"
proof -
  have ok: "approval_ok env (sv, u)" by (rule approvals.reach_inv [OF assms(1)])
  then have "grant_ok sv u i g" using assms(2) by (simp add: approval_ok_def)
  then obtain c where c: "bt_get (cases_of sv) (eg_case_id g) = Some c" "grant_covers c g"
    by (auto simp: grant_ok_def)
  then have "case_ok env (sv_keyring sv) (eg_case_id g) c"
    using ok by (simp add: approval_ok_def)
  moreover have "set (eg_approver_subjects g) \<subseteq> set (approving_subjects c)"
    "unat (apo_minimum_approvers (ac_policy c)) \<le> card (set (eg_approver_subjects g))"
    using c(2) by (simp_all add: grant_covers_def Let_def distinct_card)
  moreover have "\<exists>s0 s1. approval_reach env s0 \<and> approval_step env s0 s1
      \<and> (approval_step env)\<^sup>*\<^sup>* s1 (sv, u) \<and> recorded_by s0 s1 (eg_case_id g) d
      \<and> decider_allowed (sv_directory (fst s0)) c d" if "d \<in> set (ac_decisions c)" for d
    using decisions.reach_inv [OF assms(1)] c(1) that
    by (simp add: decisions_allowed_def allowed_decision_def)
  ultimately show ?thesis
    using c by (fastforce simp: approving_subjects_def)
qed

text \<open>
  C6: the uses of a grant are counted. In every run the successful consumptions of a grant and the
  uses it has left add up to its maximum, which is at most the maximum of its policy.
\<close>

theorem approval_uses_are_counted:
  assumes "approval_reach env (sv, u)" and "bt_get (grants_of sv) i = Some g"
  shows "\<exists>n c. bt_get (remaining_of sv) i = Some n
    \<and> unat n + count_list u i = unat (eg_maximum_uses g)
    \<and> bt_get (cases_of sv) (eg_case_id g) = Some c \<and> eg_maximum_uses g \<le> apo_maximum_uses (ac_policy c)"
proof -
  have ok: "approval_ok env (sv, u)" by (rule approvals.reach_inv [OF assms(1)])
  then have g: "grant_ok sv u i g" using assms(2) by (simp add: approval_ok_def)
  then obtain c where c: "bt_get (cases_of sv) (eg_case_id g) = Some c" "grant_covers c g"
    by (auto simp: grant_ok_def)
  then have "case_ok env (sv_keyring sv) (eg_case_id g) c"
    using ok by (simp add: approval_ok_def)
  then have "eg_maximum_uses g \<le> apo_maximum_uses (ac_policy c)"
    using c(2) by (auto simp: case_ok_def grant_covers_def validate_approval_request_def Let_def not_less)
  then show ?thesis using g c by (auto simp: grant_ok_def)
qed

subsection \<open>Revocation\<close>

text \<open>
  C23: a revoked or rejected case is over. Whatever happens later, it gets no further grant and no use
  of the grants it has is spent.
\<close>

theorem revoked_case_is_over:
  assumes "approval_reach env (sv0, u)"
    and "revoke_case sv0 i = (Ok (), sv) \<or> reject sv0 i subject reason now = (Ok (), sv)"
    and "(approval_step env)\<^sup>*\<^sup>* (sv, u) (sv', u')"
    and "bt_get (grants_of sv') j = Some g" and "eg_case_id g = i"
  shows "bt_get (grants_of sv0) j = Some g \<and> count_list u' j = count_list u j"
proof -
  have "approval_step env (sv0, u) (sv, u)"
    using assms(2) by (metis reject_step revoke_case_step snd_conv)
  then have ok: "approval_ok env (sv, u)"
    using approvals.reach_inv [OF assms(1)] approval_ok_step by blast
  have "grants_of sv = grants_of sv0 \<and> (\<exists>c. bt_get (cases_of sv) i = Some c \<and> case_closed c)"
    using assms(2)
    by (auto simp: revoke_case_def reject_def case_closed_def bt.get_put split: option.splits sum.splits)
  with ok have "closed_since env i (sv0, u) (sv, u)"
    by (simp add: closed_since_def)
  then have "closed_since env i (sv0, u) (sv', u')"
    by (rule closed_cases.steps_keep [OF assms(3)])
  then show ?thesis
    using assms(4,5) by (simp add: closed_since_def)
qed

text \<open>
  After the grants of a task are revoked none of them is consumed, whatever happens later.
\<close>

theorem revoked_task_grants_stay_unused:
  assumes "approval_reach env (sv, u)" and "bt_get (grants_of sv) j = Some g"
    and "(approval_step env)\<^sup>*\<^sup>* (revoke_task_grants sv (eg_task_id g), u) (sv', u')"
  shows "count_list u' j = count_list u j"
proof -
  have ok: "approval_ok env (sv, u)" by (rule approvals.reach_inv [OF assms(1)])
  then have "g \<in> set (bt_values (grants_of sv))" "eg_grant_id g = j"
    using assms(2) by (auto simp: approval_ok_def in_bt_values_iff grant_ok_def)
  then have "unused_since j (sv, u) (revoke_task_grants sv (eg_task_id g), u)"
    by (auto simp: unused_since_def revoke_task_grants_def)
  then show ?thesis
    using revoked_grants.steps_keep [OF assms(3), of j "(sv, u)"] by (simp add: unused_since_def)
qed

subsection \<open>Consumption\<close>

lemma approvers_still_eligible_iff:
  "approvers_still_eligible d c tenant ss now = Ok () \<longleftrightarrow>
     (\<forall>s \<in> set ss. \<exists>a. bt_get d (tenant, s) = Some a \<and> ai_active a \<and> sod_eligible c a now)"
  by (induction ss) (auto simp: res_bind_Ok_iff res_map_err_Ok_iff directory_resolve_def
      split: option.splits if_splits)

lemma verify_grant_signature_Ok_iff:
  "verify_grant_signature env g issuer key_id key now = Ok () \<longleftrightarrow>
     eg_schema_version g = APPROVAL_SCHEMA_VERSION \<and> eg_issuer g = issuer \<and> eg_key_id g = key_id
     \<and> eg_issued_at g \<le> now \<and> now < eg_expires_at g \<and> eg_maximum_uses g \<noteq> 0
     \<and> (\<exists>b. grant_signing_bytes env g = Ok b \<and> sg_decodes (ee_signer (ae_evidence env)) (eg_signature g)
          \<and> sg_verify (ee_signer (ae_evidence env)) key b (eg_signature g))"
  by (auto simp: verify_grant_signature_def res_map_err_Ok_iff res_bind_Ok_iff signature_ok_def
      not_less not_le split: if_splits)

text \<open>
  C27: a consumption spends one use of exactly the action that was approved. The grant is the stored
  one, signed by this service, live, not revoked, its case not closed, its binding equal in every
  field with a risk no higher; and each approver still is active and allowed at that moment.
\<close>

theorem consumption_is_bound:
  assumes "verify_and_consume env sv g b now = (Ok n, sv')"
  shows "bt_get (grants_of sv) (eg_grant_id g) = Some g \<and> binding_matches b g
    \<and> eg_grant_id g \<notin> as_revoked_grants (sv_state sv)
    \<and> eg_issued_at g \<le> now \<and> now < eg_expires_at g
    \<and> (\<exists>bytes. grant_signing_bytes env g = Ok bytes
         \<and> sg_verify (ee_signer (ae_evidence env))
             (sg_public (ee_signer (ae_evidence env)) (sv_signing_key sv)) bytes (eg_signature g))
    \<and> (\<exists>c. bt_get (cases_of sv) (eg_case_id g) = Some c \<and> \<not> case_closed c
         \<and> list_all (\<lambda>s. \<exists>a. bt_get (sv_directory sv) (eg_tenant_id g, s) = Some a
              \<and> ai_active a \<and> sod_eligible c a now) (eg_approver_subjects g))
    \<and> n + 1 \<noteq> 0 \<and> bt_get (remaining_of sv) (eg_grant_id g) = Some (n + 1)
    \<and> bt_get (remaining_of sv') (eg_grant_id g) = Some n"
  using verify_and_consume_Ok [OF assms]
  by (auto simp: consumption_standing_Ok_iff verify_grant_signature_Ok_iff case_closed_def
      approvers_still_eligible_iff list_all_iff bt.get_put)

text \<open>An approval that issues a grant goes through its case with the quorum reached.\<close>

lemma record_approval_grants:
  assumes "record_approval env grant_id sv i c a reason now = (Ok (Some g), sv')"
  shows "\<exists>c2. ac_request c2 = ac_request c \<and> ac_policy c2 = ac_policy c \<and> ac_case_id c2 = ac_case_id c
    \<and> ac_expires_at c2 = ac_expires_at c \<and> ac_status c2 \<in> {CaseApproved, CasePostReviewRequired}
    \<and> issue_grant env grant_id (put_case i c2 sv) c2 now = (Ok (Some g), sv')"
proof -
  let ?c2 = "(decided c (decision_of a ''APPROVE'' reason now))\<lparr>ac_status :=
    (if apo_approval_type (ac_policy c) = EmergencyApproval then CasePostReviewRequired else CaseApproved)\<rparr>"
  have "issue_grant env grant_id (put_case i ?c2 sv) ?c2 now = (Ok (Some g), sv')"
    using assms unfolding record_approval_def Let_def decided_simps(3) by (meson prod.inject sum.inject(2) option.distinct(1))
  then show ?thesis by (intro exI [of _ ?c2]) simp
qed

lemma approve_grants:
  assumes "approve env grant_id sv i subject reason now = (Ok (Some g), sv')"
    and "bt_get (cases_of sv) i = Some c"
  shows "now < ac_expires_at c \<and> (\<exists>c2. ac_request c2 = ac_request c \<and> ac_policy c2 = ac_policy c
    \<and> ac_case_id c2 = ac_case_id c \<and> ac_expires_at c2 = ac_expires_at c
    \<and> ac_status c2 \<in> {CaseApproved, CasePostReviewRequired}
    \<and> issue_grant env grant_id (put_case i c2 sv) c2 now = (Ok (Some g), sv'))"
  using assms
  by (simp add: approve_def not_le split: if_splits sum.splits) (auto dest: record_approval_grants)

text \<open>
  A grant just issued can be used. When a decision of an approver yields a grant, an action that
  matches it is let through at once, provided the approvers it lists are still allowed; one use of it
  is spent.
\<close>

theorem issued_grant_is_usable:
  assumes reached: "approval_reach env (sv, u)" and signer: "signer_correct (ee_signer (ae_evidence env))"
    and approved: "approve env grant_id sv i subject reason now = (Ok (Some g), sv')"
    and fresh: "grant_id \<notin> as_revoked_grants (sv_state sv)"
    and case_i: "bt_get (cases_of sv) i = Some c"
    and approvers: "\<forall>s \<in> set (eg_approver_subjects g). \<exists>a. bt_get (sv_directory sv) (eg_tenant_id g, s) = Some a
      \<and> ai_active a \<and> sod_eligible c a now"
    and binding: "binding_matches b g"
  shows "fst (verify_and_consume env sv' g b now) = Ok (eg_maximum_uses g - 1)"
proof -
  obtain c2 where live: "now < ac_expires_at c" and c2: "ac_request c2 = ac_request c"
    "ac_policy c2 = ac_policy c" "ac_case_id c2 = ac_case_id c" "ac_expires_at c2 = ac_expires_at c"
    "ac_status c2 \<in> {CaseApproved, CasePostReviewRequired}"
    and issue: "issue_grant env grant_id (put_case i c2 sv) c2 now = (Ok (Some g), sv')"
    using approve_grants [OF approved case_i] by blast
  note issued = issue_grant_Ok [OF issue]
  have valid: "case_ok env (sv_keyring sv) i c"
    using approvals.reach_inv [OF reached] case_i by (simp add: approval_ok_def)
  then have id: "eg_case_id g = i"
    using issued(3) c2(3) by (simp add: case_ok_def)
  have "eg_maximum_uses g = min (apr_requested_uses (ac_request c)) (apo_maximum_uses (ac_policy c))"
    using issued(1) c2(1,2) by (auto simp: make_grant_def Let_def)
  then have uses: "eg_maximum_uses g \<noteq> 0"
    using valid by (auto simp: case_ok_def validate_policy_def validate_approval_request_def min_def)
  obtain bytes where bytes: "grant_signing_bytes env g = Ok bytes"
    "eg_signature g = sg_sign (ee_signer (ae_evidence env)) (sv_signing_key sv) bytes"
    using issued(1) by (auto simp: grant_signing_bytes_def make_grant_def Let_def)
  have fields: "eg_schema_version g = APPROVAL_SCHEMA_VERSION" "eg_issuer g = sv_issuer sv"
    "eg_key_id g = sv_key_id sv" "eg_issued_at g = now" "eg_expires_at g = ac_expires_at c"
    using issued(1) c2(4) by (auto simp: make_grant_def Let_def)
  have signature: "verify_grant_signature env g (sv_issuer sv') (sv_key_id sv')
      (sg_public (ee_signer (ae_evidence env)) (sv_signing_key sv')) now = Ok ()"
    using fields issued(10-12) live uses bytes signer
    by (simp add: verify_grant_signature_Ok_iff signer_correct_def)
  have "sod_eligible c2 a now = sod_eligible c a now" for a
    by (simp add: sod_eligible_def c2)
  then have "approvers_still_eligible (sv_directory sv') c2 (eg_tenant_id g) (eg_approver_subjects g) now
      = Ok ()"
    using approvers issued(9) by (simp add: approvers_still_eligible_iff)
  moreover have "bt_get (cases_of sv') (eg_case_id g) = Some c2"
    and "bt_get (grants_of sv') (eg_grant_id g) = Some g"
    and "bt_get (remaining_of sv') (eg_grant_id g) = Some (eg_maximum_uses g)"
    and "eg_grant_id g \<notin> as_revoked_grants (sv_state sv')"
    by (simp_all add: issued(2,4-7) id fresh bt.get_put)
  moreover have "ac_status c2 \<notin> {CaseRejected, CaseRevoked, CaseExpired}"
    using c2(5) by auto
  ultimately have "consumption_standing env sv' g b now = Ok (eg_maximum_uses g - 1)"
    unfolding consumption_standing_Ok_iff using signature binding uses by blast
  then show ?thesis by (simp add: verify_and_consume_def Let_def)
qed

text \<open>
  An emergency case grants again and again. Its status never closes the voting, so after the
  quorum each further eligible approver is given a grant of its own with the full number of uses,
  although the policy bounds the uses of the case.
\<close>

theorem emergency_case_grants_again:
  assumes reached: "approval_reach env (sv, u)"
    and case_i: "bt_get (cases_of sv) i = Some c"
    and emergency: "apo_approval_type (ac_policy c) = EmergencyApproval"
      "ac_status c = CasePostReviewRequired" "now < ac_expires_at c"
    and quorum: "unat (apo_minimum_approvers (ac_policy c)) \<le> length (approving_subjects c)"
      "length (approving_subjects c) < 4294967295"
    and approver: "eligible_approver sv c subject now = Ok a"
      "ai_subject a \<notin> dcr_approver_subject ` set (ac_decisions c)"
    and serializes: "\<forall>g. ae_jcs_grant env g \<noteq> None"
  shows "\<exists>g. fst (approve env grant_id sv i subject reason now) = Ok (Some g)
    \<and> bt_get (remaining_of (snd (approve env grant_id sv i subject reason now))) grant_id
        = Some (apr_requested_uses (ac_request c))"
proof -
  have valid: "case_ok env (sv_keyring sv) i c"
    using approvals.reach_inv [OF reached] case_i by (simp add: approval_ok_def)
  define c1 where "c1 = decided c (decision_of a ''APPROVE'' reason now)"
  have "ai_subject a \<notin> set (approving_subjects c)"
    using approver(2) by (auto simp: approving_subjects_def)
  then have "remdups (approving_subjects c1) = approving_subjects c @ [ai_subject a]"
    using valid by (simp add: c1_def case_ok_def distinct_remdups_id)
  then have "unat (unique_approvals c1) = Suc (length (approving_subjects c))"
    using quorum(2) by (simp add: unique_approvals_def unat_of_nat take_bit_eq_mod del: of_nat_Suc)
  then have enough: "\<not> unique_approvals c1 < apo_minimum_approvers (ac_policy c)"
    using quorum(1) by (simp add: word_less_nat_alt)
  define c2 where "c2 = c1\<lparr>ac_status := CasePostReviewRequired\<rparr>"
  have "approve env grant_id sv i subject reason now = issue_grant env grant_id (put_case i c2 sv) c2 now"
  proof (subst approve_pending [OF case_i _ _ approver(1)])
    show "\<not> list_ex (\<lambda>d. dcr_approver_subject d = ai_subject a) (ac_decisions c)"
      using approver(2) unfolding list_ex_iff by (metis imageI)
  qed (use emergency enough in \<open>simp_all add: record_approval_def c2_def c1_def Let_def\<close>)
  moreover have "min (apr_requested_uses (ac_request c)) (apo_maximum_uses (ac_policy c))
      = apr_requested_uses (ac_request c)"
    using valid by (auto simp: case_ok_def validate_approval_request_def min_def)
  ultimately show ?thesis
    using serializes
    by (auto simp: issue_grant_def grant_signing_bytes_def Let_def bt.get_put make_grant_def c2_def c1_def
        split: option.splits)
qed

subsection \<open>A concrete service\<close>

definition sample_approval_env :: "(string, string) approval_env" where
  "sample_approval_env = \<lparr>ae_evidence = sample_evidence_env, ae_jcs_grant = (\<lambda>_. Some []),
     ae_representable = (\<lambda>_. True)\<rparr>"

definition sample_approval_policy :: "approval_type \<Rightarrow> approval_policy" where
  "sample_approval_policy t = \<lparr>apo_policy_id = ''p'', apo_policy_version = ''1'', apo_approval_type = t,
     apo_minimum_approvers = 1, apo_required_roles = {''reviewer''}, apo_prohibit_requester = True,
     apo_prohibit_agent_owner = True, apo_require_resource_owner = False,
     apo_maximum_ttl_seconds = 300, apo_maximum_uses = 1, apo_maximum_risk = High\<rparr>"

definition sample_approver :: "string \<Rightarrow> approver_identity" where
  "sample_approver s = \<lparr>ai_tenant_id = ''t'', ai_subject = s, ai_roles = {''reviewer''},
     ai_owned_resources = {}, ai_delegated_until = None, ai_strong_auth = True, ai_active = True\<rparr>"

definition sample_directory :: approver_directory where
  "sample_directory = [((''t'', ''ann''), sample_approver ''ann''), ((''t'', ''bob''), sample_approver ''bob'')]"

definition sample_case :: "approval_type \<Rightarrow> approval_case" where
  "sample_case t = open_case ''case-1'' sample_approval_request (sample_approval_policy t)
     (if t = EmergencyApproval then CasePostReviewRequired else CasePending) 0 (chrono_seconds 300)
     (if t = EmergencyApproval then Some (chrono_hours 24) else None)"

text \<open>The service after the case is opened, and after the first approval.\<close>

definition sample_opened :: "approval_type \<Rightarrow> (string, string) approval_service" where
  "sample_opened t = \<lparr>sv_issuer = ''approval'', sv_key_id = ''key-1'', sv_signing_key = ''k'',
     sv_keyring = sample_ring, sv_directory = sample_directory,
     sv_state = \<lparr>as_cases = [(''case-1'', sample_case t)], as_grants = [], as_remaining_uses = [],
       as_revoked_grants = {}, as_ui_intents = {}\<rparr>\<rparr>"

definition sample_approved :: "approval_type \<Rightarrow> (string, string) approval_service" where
  "sample_approved t = snd (approve sample_approval_env ''g1'' (sample_opened t) ''case-1'' ''ann'' ''fine'' 1)"

definition sample_grant :: "approval_type \<Rightarrow> enterprise_grant" where
  "sample_grant t = (make_grant ''approval'' ''key-1''
     (decided (sample_case t) (decision_of (sample_approver ''ann'') ''APPROVE'' ''fine'' 1)) ''g1'' 1)
     \<lparr>eg_signature := ''k''\<rparr>"

definition sample_execution_binding :: execution_binding where
  "sample_execution_binding = \<lparr>eb_tenant_id = ''t'', eb_task_id = ''k'', eb_step_id = ''s'',
     eb_action_hash = sample_sha, eb_plan_hash = sample_sha, eb_parameter_hash = sample_sha,
     eb_resource = ''repo/one'', eb_resource_version = ''v1'', eb_policy_version = ''p1'',
     eb_environment = ''staging'', eb_risk = Medium\<rparr>"

lemma sample_validates:
  assumes "t \<noteq> DualApproval"
  shows "validate_policy (sample_approval_policy t) = Ok ()"
    and "validate_approval_request sample_approval_request (sample_approval_policy t) = Ok ()"
proof -
  show "validate_policy (sample_approval_policy t) = Ok ()"
    using assms by (simp add: validate_policy_def sample_approval_policy_def)
  have "\<not> trim_is_empty ''release''"
    by (rule printable_text) code_simp
  moreover have "context_valid (arm_review_context sample_review_material)"
    using sample_material_valid by (simp add: material_valid_def)
  moreover have "\<not> request_is_industrial sample_approval_request"
    "\<not> context_industrial (arm_review_context sample_review_material)"
    by code_simp+
  ultimately show "validate_approval_request sample_approval_request (sample_approval_policy t) = Ok ()"
    by (simp add: validate_approval_request_def sample_approval_request_def sample_approval_policy_def
        sample_sha_def valid_approval_human_text_def MAX_APPROVAL_HUMAN_TEXT_UTF8_BYTES_def
        less_risk_level_def)
qed

lemma sample_new_case:
  "t \<in> {ActionApproval, EmergencyApproval} \<Longrightarrow>
   new_case sample_approval_env ''case-1'' sample_approval_request (sample_approval_policy t) 0
     = Some (Ok (sample_case t))"
  by (auto simp: new_case_def Let_def sample_case_def datetime_add_def duration_seconds_def
      sample_approval_env_def sample_approval_request_def sample_approval_policy_def less_risk_level_def)

lemma sample_opened_reach:
  assumes "t \<in> {ActionApproval, EmergencyApproval}"
  shows "approval_reach sample_approval_env (sample_opened t, [])"
proof -
  define sv0 where "sv0 = \<lparr>sv_issuer = ''approval'', sv_key_id = ''key-1'', sv_signing_key = ''k'',
     sv_keyring = sample_ring, sv_directory = bt_empty, sv_state = approval_state_default\<rparr>"
  define sv1 where "sv1 = sv0\<lparr>sv_directory := directory_upsert (sample_approver ''ann'') (sv_directory sv0)\<rparr>"
  define sv2 where "sv2 = sv0\<lparr>sv_directory := sample_directory\<rparr>"
  have "approval_service_new ''approval'' ''key-1'' ''k'' sample_ring = Ok sv0"
    by (simp add: approval_service_new_def sv0_def)
  then have "approval_reach sample_approval_env (sv0, [])"
    by (intro reach_init) (auto simp: approval_init_def)
  then have "approval_reach sample_approval_env (sv1, [])"
    unfolding sv1_def by (rule reach_step) (rule upsert_step)
  moreover have "sample_directory =
      directory_upsert (sample_approver ''bob'') (directory_upsert (sample_approver ''ann'') bt_empty)"
    by code_simp
  then have "sv2 = sv1\<lparr>sv_directory := directory_upsert (sample_approver ''bob'') (sv_directory sv1)\<rparr>"
    by (simp add: sv2_def sv1_def sv0_def)
  ultimately have "approval_reach sample_approval_env (sv2, [])"
    by (metis reach_step upsert_step)
  moreover have "service_request sample_approval_env 0 0 ''case-1'' sv2 sample_approval_request
      (sample_approval_policy t) 0 = (Some (Ok (sample_case t)), sample_opened t)"
  proof -
    have "t \<noteq> DualApproval" using assms by auto
    moreover have "sv_keyring sv2 = sample_ring" "ae_evidence sample_approval_env = sample_evidence_env"
      "ac_case_id (sample_case t) = ''case-1''"
      by (simp_all add: sv2_def sv0_def sample_approval_env_def sample_case_def open_case_def)
    moreover have "put_case ''case-1'' (sample_case t) sv2 = sample_opened t"
      by (simp add: put_case_def sample_opened_def sv2_def sv0_def approval_state_default_def bt_empty_def)
    ultimately show ?thesis
      using sample_new_case [OF assms] sample_request_verifies
      by (simp add: service_request_def sample_validates)
  qed
  moreover have "bt_get (cases_of sv2) ''case-1'' = None"
    by (simp add: sv2_def sv0_def approval_state_default_def)
  ultimately show ?thesis
    by (metis reach_step request_step snd_conv)
qed

text \<open>Ann approves, the grant is issued and used once.\<close>

lemma sample_ann_approves:
  "approve sample_approval_env ''g1'' (sample_opened ActionApproval) ''case-1'' ''ann'' ''fine'' 1
     = (Ok (Some (sample_grant ActionApproval)), sample_approved ActionApproval)"
  "fst (approve sample_approval_env ''g1'' (sample_opened EmergencyApproval) ''case-1'' ''ann'' ''fine'' 1)
     = Ok (Some (sample_grant EmergencyApproval))"
  by code_simp+

lemma sample_approved_reach:
  assumes "t \<in> {ActionApproval, EmergencyApproval}"
  shows "approval_reach sample_approval_env (sample_approved t, [])"
  using sample_opened_reach [OF assms]
  by (rule reach_step) (auto simp: sample_approved_def sample_opened_def bt_get_def intro!: approve_step)

lemma sample_lookups:
  "bt_get (cases_of (sample_opened t)) ''case-1'' = Some (sample_case t)"
  "bt_get (grants_of (sample_approved ActionApproval)) ''g1'' = Some (sample_grant ActionApproval)"
  "eg_case_id (sample_grant ActionApproval) = ''case-1''"
  by (simp add: sample_opened_def bt_get_def) code_simp+

lemma sample_action_reach: "approval_reach sample_approval_env (sample_approved ActionApproval, [])"
  by (rule sample_approved_reach) simp

theorem stored_cases_are_valid_witness:
  "ac_case_id (sample_case ActionApproval) = ''case-1''
   \<and> distinct (approving_subjects (sample_case ActionApproval))"
  using stored_cases_are_valid [OF sample_opened_reach sample_lookups(1), of ActionApproval] by simp

theorem grants_need_a_quorum_witness:
  "\<exists>c. bt_get (cases_of (sample_approved ActionApproval)) ''case-1'' = Some c
     \<and> grant_covers c (sample_grant ActionApproval)"
  using grants_need_a_quorum [OF sample_action_reach sample_lookups(2)]
  unfolding sample_lookups(3) by blast

theorem approval_uses_are_counted_witness:
  "\<exists>n. bt_get (remaining_of (sample_approved ActionApproval)) ''g1'' = Some n
     \<and> unat n = unat (eg_maximum_uses (sample_grant ActionApproval))"
  using approval_uses_are_counted [OF sample_action_reach sample_lookups(2)] by auto

theorem revoked_case_is_over_witness:
  "count_list [] ''g1'' = (0 :: nat)
   \<and> bt_get (grants_of (sample_approved ActionApproval)) ''g1'' = Some (sample_grant ActionApproval)"
proof -
  obtain sv where sv: "revoke_case (sample_approved ActionApproval) ''case-1'' = (Ok (), sv)"
    and same: "grants_of sv = grants_of (sample_approved ActionApproval)"
  proof -
    have "bt_get (cases_of (sample_approved ActionApproval)) ''case-1'' \<noteq> None"
      by code_simp
    then show ?thesis by (auto simp: revoke_case_def intro: that)
  qed
  have "bt_get (grants_of sv) ''g1'' = Some (sample_grant ActionApproval)"
    using sample_lookups(2) same by simp
  then show ?thesis
    using revoked_case_is_over [OF sample_action_reach disjI1 [OF sv] rtranclp.rtrancl_refl _ sample_lookups(3)]
    by simp
qed

theorem revoked_task_grants_stay_unused_witness:
  "count_list [] ''g1'' = count_list ([] :: string list) ''g1''"
  by (rule revoked_task_grants_stay_unused [OF sample_action_reach sample_lookups(2) rtranclp.rtrancl_refl])

lemma sample_consumed:
  "fst (verify_and_consume sample_approval_env (sample_approved ActionApproval)
     (sample_grant ActionApproval) sample_execution_binding 2) = Ok 0"
  by code_simp

theorem consumption_is_bound_witness:
  "binding_matches sample_execution_binding (sample_grant ActionApproval)
   \<and> bt_get (remaining_of (sample_approved ActionApproval)) (eg_grant_id (sample_grant ActionApproval)) = Some 1"
proof -
  obtain sv' where "verify_and_consume sample_approval_env (sample_approved ActionApproval)
      (sample_grant ActionApproval) sample_execution_binding 2 = (Ok 0, sv')"
    using sample_consumed by (metis prod.collapse)
  from consumption_is_bound [OF this] show ?thesis by simp
qed

theorem issued_grant_is_usable_witness:
  "fst (verify_and_consume sample_approval_env (sample_approved ActionApproval)
     (sample_grant ActionApproval) sample_execution_binding 1)
   = Ok (eg_maximum_uses (sample_grant ActionApproval) - 1)"
proof (rule issued_grant_is_usable [OF sample_opened_reach _ sample_ann_approves(1) _ sample_lookups(1)])
  have "list_all (\<lambda>s. case bt_get (sv_directory (sample_opened ActionApproval))
      (eg_tenant_id (sample_grant ActionApproval), s) of None \<Rightarrow> False
      | Some a \<Rightarrow> ai_active a \<and> sod_eligible (sample_case ActionApproval) a 1)
      (eg_approver_subjects (sample_grant ActionApproval))"
    by code_simp
  then show "\<forall>s \<in> set (eg_approver_subjects (sample_grant ActionApproval)).
      \<exists>a. bt_get (sv_directory (sample_opened ActionApproval)) (eg_tenant_id (sample_grant ActionApproval), s) = Some a
        \<and> ai_active a \<and> sod_eligible (sample_case ActionApproval) a 1"
    by (auto simp: list_all_iff split: option.splits)
  show "binding_matches sample_execution_binding (sample_grant ActionApproval)"
    by code_simp
qed (simp_all add: sample_approval_env_def sample_opened_def)

theorem emergency_case_grants_again_witness:
  "\<exists>g. fst (approve sample_approval_env ''g2'' (sample_approved EmergencyApproval) ''case-1'' ''bob'' ''fine'' 2)
     = Ok (Some g)"
proof -
  define c where "c = (decided (sample_case EmergencyApproval)
    (decision_of (sample_approver ''ann'') ''APPROVE'' ''fine'' 1))\<lparr>ac_status := CasePostReviewRequired\<rparr>"
  have "bt_get (cases_of (sample_approved EmergencyApproval)) ''case-1'' = Some c"
    "eligible_approver (sample_approved EmergencyApproval) c ''bob'' 2 = Ok (sample_approver ''bob'')"
    unfolding c_def by code_simp+
  moreover have "apo_approval_type (ac_policy c) = EmergencyApproval" "ac_status c = CasePostReviewRequired"
    "2 < ac_expires_at c" "unat (apo_minimum_approvers (ac_policy c)) \<le> length (approving_subjects c)"
    "length (approving_subjects c) < 4294967295"
    "ai_subject (sample_approver ''bob'') \<notin> dcr_approver_subject ` set (ac_decisions c)"
    by (simp_all add: c_def sample_case_def open_case_def sample_approval_policy_def chrono_seconds_def
        approving_subjects_def sample_approver_def decided_def decision_of_def)
  moreover have "approval_reach sample_approval_env (sample_approved EmergencyApproval, [])"
    by (rule sample_approved_reach) simp
  ultimately show ?thesis
    using emergency_case_grants_again [of sample_approval_env "sample_approved EmergencyApproval" "[]"
        "''case-1''" c 2 "''bob''" "sample_approver ''bob''" "''g2''" "''fine''"]
    by (auto simp: sample_approval_env_def)
qed

end
