(* ===== verification/Action_Ir.thy ===== *)
theory Action_Ir
  imports Contracts Utf8_Text Decimal_Text
begin

text \<open>
  The action language (\<open>action-ir/src/lib.rs\<close>): strict JSON, drafts and canonical actions,
  normalization, validation, the action hash, signed envelopes and the policy input. The records of
  \<open>contracts/src/lib.rs\<close> an action is made of are here too.

  Parameters of \<open>action_env\<close>: \<open>ai_text\<close> is UTF-8 validity, \<open>ai_read\<close> the JSON reader of the library
  (a tree with \<open>RBroken\<close> where the text stops being JSON, and whether anything follows it),
  \<open>ai_draft\<close> the derived deserializer, \<open>ai_nfc\<close> Unicode normalization, \<open>ai_url\<close> the URL parser,
  \<open>ai_jcs_*\<close> canonical JSON and \<open>ai_sha256_hex\<close> the digest.
\<close>

subsection \<open>Errors and limits\<close>

datatype action_error = IParseFailed string string | IDuplicateKey string | IUnknownVersion
  | IUnknownEnum string | ISizeLimitExceeded string string | INormalizationFailed
  | ISemanticInvalid string string | ISecretInline string | ICanonicalizationFailed
  | IHashMismatch | ISignatureInvalid | ISignerUntrusted | IExpired | IMigrationLossy
  | IPolicyInputFailed

record parse_limits =
  pl_max_body_bytes :: nat
  pl_max_depth :: nat
  pl_max_array_items :: nat
  pl_max_string_bytes :: nat
  pl_max_object_keys :: nat
  pl_max_number_chars :: nat

definition parse_limits_default :: parse_limits where
  "parse_limits_default = \<lparr>pl_max_body_bytes = 1048576, pl_max_depth = 32, pl_max_array_items = 1024,
     pl_max_string_bytes = 65536, pl_max_object_keys = 256, pl_max_number_chars = 128\<rparr>"

subsection \<open>Strict JSON values\<close>

text \<open>
  What the reader hands to the visitor, in the order of the text; an object may repeat a key. The
  visitor's own errors are told apart by the marker in their message.
\<close>

datatype raw_json = RNull | RBool bool | RNumber string | RString string
  | RArray "raw_json list" | RObject "(string \<times> raw_json) list" | RBroken

datatype strict_error = StrictSize | StrictDuplicate | StrictMalformed

fun strict_value :: "parse_limits \<Rightarrow> nat \<Rightarrow> raw_json \<Rightarrow> strict_error + json"
  and strict_items :: "parse_limits \<Rightarrow> nat \<Rightarrow> raw_json list \<Rightarrow> json list \<Rightarrow> strict_error + json list"
  and strict_fields ::
    "parse_limits \<Rightarrow> nat \<Rightarrow> (string \<times> raw_json) list \<Rightarrow> (string, json) btree
     \<Rightarrow> strict_error + (string, json) btree" where
  "strict_value lim depth v =
     (if depth > pl_max_depth lim then Err StrictSize
      else (case v of
         RNull \<Rightarrow> Ok JNull
       | RBool b \<Rightarrow> Ok (JBool b)
       | RNumber n \<Rightarrow> Ok (JNumber n)
       | RString s \<Rightarrow> if length s > pl_max_string_bytes lim then Err StrictSize else Ok (JString s)
       | RArray vs \<Rightarrow> res_bind (strict_items lim (Suc depth) vs []) (\<lambda>js. Ok (JArray js))
       | RObject fs \<Rightarrow> res_bind (strict_fields lim (Suc depth) fs []) (\<lambda>m. Ok (JObject m))
       | RBroken \<Rightarrow> Err StrictMalformed))"
| "strict_items lim depth [] acc = Ok acc"
| "strict_items lim depth (v # vs) acc =
     res_bind (strict_value lim depth v) (\<lambda>j.
       if length acc \<ge> pl_max_array_items lim then Err StrictSize
       else strict_items lim depth vs (acc @ [j]))"
| "strict_fields lim depth [] acc = Ok acc"
| "strict_fields lim depth ((k, v) # fs) acc =
     (if length k > pl_max_string_bytes lim then Err StrictSize
      else if bt_contains acc k then Err StrictDuplicate
      else if bt_len acc \<ge> pl_max_object_keys lim then Err StrictSize
      else res_bind (strict_value lim depth v) (\<lambda>j. strict_fields lim depth fs (bt_insert k j acc)))"

declare strict_value.simps [simp del]

fun map_parse_error :: "strict_error \<Rightarrow> action_error" where
  "map_parse_error StrictDuplicate = IDuplicateKey ''$''"
| "map_parse_error StrictSize = ISizeLimitExceeded ''$'' ''json_limit''"
| "map_parse_error StrictMalformed = IParseFailed ''$'' ''malformed_json''"

subsection \<open>Actions\<close>

record agent_identity =
  aid_schema_version :: string
  aid_agent_type :: string
  aid_agent_instance_id :: string
  aid_organization_id :: string
  aid_tenant_id :: string
  aid_owner_subject :: string
  aid_model_provider :: string
  aid_model_id :: string
  aid_agent_version :: string
  aid_deployment_environment :: string
  aid_trust_level :: string
  aid_auth_context_ref :: string
  aid_issued_at :: datetime
  aid_expires_at :: datetime

record action_intent =
  int_goal_hash :: string
  int_operation :: string
  int_justification_code :: string
  int_safe_summary :: "string option"

record resource_selector =
  rsl_scheme :: string
  rsl_tenant_id :: string
  rsl_locator :: string
  rsl_version :: "string option"

record execution_environment =
  exe_tenant_id :: string
  exe_deployment :: string
  exe_region :: string
  exe_zone :: "string option"
  exe_simulation :: bool

record risk_context =
  rkc_declared_risk :: risk_level
  rkc_trajectory_risk_ref :: "string option"
  rkc_scope_delta :: u32
  rkc_automation_allowed :: bool

record data_context =
  dcx_classification :: data_classification
  dcx_jurisdiction :: string
  dcx_export_constraints :: "string list"

record expected_outcome =
  eoc_metric :: string
  eoc_operator :: string
  eoc_target :: json

record credential_ref =
  crf_profile :: string
  crf_resource_prefix :: string
  crf_operations :: "string list"

record typed_payload =
  tpl_type_id :: string
  tpl_schema_version :: string
  tpl_data :: "(string, json) btree"

text \<open>\<open>ActionDraft\<close> and \<open>CanonicalAction\<close> have the same fields.\<close>

record action_fields =
  act_schema_version :: string
  act_action_id :: string
  act_task_id :: string
  act_step_id :: string
  act_agent :: agent_identity
  act_intent :: action_intent
  act_tool :: tool_ref
  act_payload :: typed_payload
  act_resource :: resource_selector
  act_environment :: execution_environment
  act_current_state_version :: "string option"
  act_risk :: risk_context
  act_data :: data_context
  act_expected_outcome :: expected_outcome
  act_credential_refs :: "credential_ref list"
  act_requested_at :: datetime
  act_extensions :: "(string, json) btree"

type_synonym action_draft = action_fields
type_synonym canonical_action = action_fields

definition ACTION_SCHEMA_VERSION :: string where
  "ACTION_SCHEMA_VERSION = ''agenttrust.action.v1''"

definition action_arguments :: "canonical_action \<Rightarrow> (string, json) btree" where
  "action_arguments a = tpl_data (act_payload a)"

record action_envelope =
  env_canonical_action :: canonical_action
  env_action_hash :: string
  env_signer_id :: string
  env_signature_algorithm :: string
  env_key_id :: string
  env_signature :: string
  env_signed_at :: datetime
  env_expires_at :: datetime

text \<open>What is signed of an envelope.\<close>

record envelope_material =
  evm_action_hash :: string
  evm_signer_id :: string
  evm_signature_algorithm :: string
  evm_key_id :: string
  evm_signed_at :: datetime
  evm_expires_at :: datetime

record parsed_url =
  pu_username :: string
  pu_password :: "string option"
  pu_text :: string

datatype draft_error = UnknownVariant | SchemaInvalid

record ('sk, 'vk) action_env =
  ai_signer :: "('sk, 'vk) signer"
  ai_text :: "string \<Rightarrow> bool"
  ai_read :: "string \<Rightarrow> raw_json \<times> bool"
  ai_draft :: "json \<Rightarrow> draft_error + action_draft"
  ai_nfc :: "string \<Rightarrow> string"
  ai_url :: "string \<Rightarrow> parsed_url option"
  ai_jcs_action :: "canonical_action \<Rightarrow> string option"
  ai_jcs_envelope :: "envelope_material \<Rightarrow> string option"
  ai_sha256_hex :: "string \<Rightarrow> string"

subsection \<open>Parsing\<close>

definition parse_strict_json ::
  "('sk, 'vk) action_env \<Rightarrow> string \<Rightarrow> parse_limits \<Rightarrow> action_error + json" where
  "parse_strict_json env bytes lim =
     (if length bytes > pl_max_body_bytes lim then Err (ISizeLimitExceeded ''$'' ''body'')
      else if \<not> ai_text env bytes then Err (IParseFailed ''$'' ''invalid_utf8'')
      else (case strict_value lim 0 (fst (ai_read env bytes)) of
              Inl e \<Rightarrow> Err (map_parse_error e)
            | Inr v \<Rightarrow>
                if snd (ai_read env bytes) then Err (map_parse_error StrictMalformed) else Ok v))"

definition parse_draft ::
  "('sk, 'vk) action_env \<Rightarrow> string \<Rightarrow> parse_limits \<Rightarrow> action_error + action_draft" where
  "parse_draft env bytes lim =
     res_bind (parse_strict_json env bytes lim) (\<lambda>v.
       (case ai_draft env v of
          Inl UnknownVariant \<Rightarrow> Err (IUnknownEnum ''$'')
        | Inl SchemaInvalid \<Rightarrow> Err (IParseFailed ''$'' ''schema_invalid'')
        | Inr draft \<Rightarrow>
            if act_schema_version draft \<noteq> ACTION_SCHEMA_VERSION then Err IUnknownVersion else Ok draft))"

subsection \<open>Validation\<close>

record validation_finding =
  vf_field_path :: string
  vf_reason_code :: string

record validation_report =
  vr_valid :: bool
  vr_findings :: "validation_finding list"

definition finding_at :: "string \<Rightarrow> string \<Rightarrow> validation_finding" where
  "finding_at path reason = \<lparr>vf_field_path = path, vf_reason_code = reason\<rparr>"

definition finding_if :: "bool \<Rightarrow> string \<Rightarrow> string \<Rightarrow> validation_finding list" where
  "finding_if b path reason = (if b then [finding_at path reason] else [])"

definition read_operations :: "string list" where
  "read_operations = [''read'', ''get'', ''list'', ''search'', ''inspect'']"

definition is_write_operation :: "canonical_action \<Rightarrow> bool" where
  "is_write_operation a \<longleftrightarrow> to_ascii_lowercase (int_operation (act_intent a)) \<notin> set read_operations"

fun json_text :: "json \<Rightarrow> string option" where
  "json_text (JString s) = Some s"
| "json_text _ = None"

definition plan_hash_extension :: "canonical_action \<Rightarrow> string option" where
  "plan_hash_extension a = Option.bind (bt_get (act_extensions a) ''x-plan-hash'') json_text"

definition credential_findings :: "canonical_action \<Rightarrow> validation_finding list" where
  "credential_findings a = concat (map (\<lambda>(index, c).
     finding_if (strip_prefix (crf_resource_prefix c) (rsl_locator (act_resource a)) = None)
       (''$.credential_refs['' @ decimal index @ '']'') ''CREDENTIAL_SCOPE_EXCEEDED'')
     (enumerate 0 (act_credential_refs a)))"

definition action_findings :: "bool \<Rightarrow> canonical_action \<Rightarrow> validation_finding list" where
  "action_findings require_state a =
     finding_if (aid_tenant_id (act_agent a) \<noteq> exe_tenant_id (act_environment a)
         \<or> rsl_tenant_id (act_resource a) \<noteq> exe_tenant_id (act_environment a))
       ''$.environment.tenant_id'' ''TENANT_MISMATCH''
     @ finding_if (to_ascii_lowercase (exe_deployment (act_environment a)) = ''production''
         \<and> exe_simulation (act_environment a))
       ''$.environment.simulation'' ''PRODUCTION_SIMULATION_CONFLICT''
     @ finding_if (trim_is_empty (eoc_metric (act_expected_outcome a))
         \<or> eoc_target (act_expected_outcome a) = JNull)
       ''$.expected_outcome'' ''EXPECTED_OUTCOME_NOT_MACHINE_EVALUABLE''
     @ finding_if (rkc_declared_risk (act_risk a) = Critical \<and> rkc_automation_allowed (act_risk a))
       ''$.risk.automation_allowed'' ''CRITICAL_AUTO_EXECUTION_DENIED''
     @ finding_if (is_write_operation a \<and> require_state
         \<and> act_current_state_version a \<in> {None, Some []})
       ''$.current_state_version'' ''RESOURCE_VERSION_REQUIRED''
     @ finding_if (case act_current_state_version a of None \<Rightarrow> False
         | Some version \<Rightarrow> length version > 128 \<or> any_control version)
       ''$.current_state_version'' ''RESOURCE_VERSION_INVALID''
     @ finding_if (bt_len (act_extensions a) > 32) ''$.extensions'' ''TOO_MANY_EXTENSIONS''
     @ finding_if (is_write_operation a
         \<and> \<not> (case plan_hash_extension a of None \<Rightarrow> False | Some h \<Rightarrow> is_lower_hex_digest h))
       ''$.extensions.x-plan-hash'' ''EXECUTION_PLAN_HASH_REQUIRED''
     @ credential_findings a"

definition validate_action :: "bool \<Rightarrow> canonical_action \<Rightarrow> validation_report" where
  "validate_action require_state a =
     (let fs = action_findings require_state a in \<lparr>vr_valid = (fs = []), vr_findings = fs\<rparr>)"

subsection \<open>Normalization\<close>

text \<open>
  \<open>str::trim\<close>: the groups of bytes of the characters, without the white space at both ends.
\<close>

fun utf8_groups :: "string \<Rightarrow> string list" where
  "utf8_groups [] = []"
| "utf8_groups (a # s) =
     (let n = (of_char a :: nat) in
      if n < 192 then [a] # utf8_groups s
      else if n < 224 then
        (case s of b # r \<Rightarrow> [a, b] # utf8_groups r | _ \<Rightarrow> [a # s])
      else if n < 240 then
        (case s of b # c # r \<Rightarrow> [a, b, c] # utf8_groups r | _ \<Rightarrow> [a # s])
      else
        (case s of b # c # d # r \<Rightarrow> [a, b, c, d] # utf8_groups r | _ \<Rightarrow> [a # s]))"

definition group_is_space :: "string \<Rightarrow> bool" where
  "group_is_space g \<longleftrightarrow> list_all is_whitespace_char (utf8_chars g)"

definition str_trim :: "string \<Rightarrow> string" where
  "str_trim s =
     concat (rev (dropWhile group_is_space (rev (dropWhile group_is_space (utf8_groups s)))))"

definition to_ascii_upper :: "char \<Rightarrow> char" where
  "to_ascii_upper c = (if is_ascii_lowercase c then char_of (of_char c - (32 :: nat)) else c)"

definition to_ascii_uppercase :: "string \<Rightarrow> string" where
  "to_ascii_uppercase s = map to_ascii_upper s"

record normalization_context =
  nc_allowed_resource_schemes :: "string set"
  nc_payload_types :: "(string, string set) btree"

definition register_type ::
  "string \<Rightarrow> string \<Rightarrow> (string, string set) btree \<Rightarrow> (string, string set) btree" where
  "register_type type_id version types =
     bt_insert type_id (insert version (case bt_get types type_id of None \<Rightarrow> {} | Some vs \<Rightarrow> vs)) types"

definition type_known :: "(string, string set) btree \<Rightarrow> string \<Rightarrow> string \<Rightarrow> bool" where
  "type_known types type_id version \<longleftrightarrow>
     (case bt_get types type_id of None \<Rightarrow> False | Some versions \<Rightarrow> version \<in> versions)"

definition default_payload_types :: "(string, string set) btree" where
  "default_payload_types = fold (\<lambda>t. register_type t ''1'')
     [''coding.patch.v1'', ''coding.command.v1'', ''industrial.read.v1'', ''industrial.setpoint.v1'',
      ''enterprise.control.mutation.v1''] bt_empty"

definition normalization_context_default :: normalization_context where
  "normalization_context_default = \<lparr>nc_allowed_resource_schemes =
       {''repo'', ''file'', ''database'', ''opcua'', ''mqtt'', ''http''},
     nc_payload_types = default_payload_types\<rparr>"

fun join_slashes :: "string list \<Rightarrow> string" where
  "join_slashes [] = []"
| "join_slashes [s] = s"
| "join_slashes (s # t # ss) = s @ ''/'' @ join_slashes (t # ss)"

definition locator_error :: "string \<Rightarrow> action_error" where
  "locator_error reason = ISemanticInvalid ''$.resource.locator'' reason"

text \<open>The segments of a path, without empty ones and dots; two dots are refused.\<close>

fun path_segments :: "string list \<Rightarrow> action_error + string list" where
  "path_segments [] = Ok []"
| "path_segments (s # ss) =
     (if s = [] \<or> s = ''.'' then path_segments ss
      else if s = ''..'' then Err (locator_error ''PATH_TRAVERSAL'')
      else res_bind (path_segments ss) (\<lambda>rest. Ok (s # rest)))"

definition normalize_locator ::
  "('sk, 'vk) action_env \<Rightarrow> string \<Rightarrow> string \<Rightarrow> action_error + string" where
  "normalize_locator env scheme locator =
     (let nfc = ai_nfc env locator in
      if CHR 0x00 \<in> set nfc then Err (locator_error ''NUL_BYTE'')
      else if scheme = ''http'' then
        (case ai_url env nfc of
           None \<Rightarrow> Err (locator_error ''URL_INVALID'')
         | Some url \<Rightarrow>
             if pu_username url \<noteq> [] \<or> pu_password url \<noteq> None
             then Err (locator_error ''URL_CREDENTIALS_DENIED'') else Ok (pu_text url))
      else res_bind (path_segments (split_bytes (\<lambda>c. c = CHR ''/'') nfc)) (\<lambda>ss. Ok (join_slashes ss)))"

definition sensitive_keys :: "string list" where
  "sensitive_keys = [''password'', ''token'', ''secret'', ''private_key'', ''api_key'']"

fun reject_sensitive_keys :: "json \<Rightarrow> string \<Rightarrow> action_error + unit"
  and reject_in_fields :: "(string \<times> json) list \<Rightarrow> string \<Rightarrow> action_error + unit"
  and reject_in_items :: "nat \<Rightarrow> json list \<Rightarrow> string \<Rightarrow> action_error + unit" where
  "reject_sensitive_keys (JObject m) path = reject_in_fields m path"
| "reject_sensitive_keys (JArray vs) path = reject_in_items 0 vs path"
| "reject_sensitive_keys _ path = Ok ()"
| "reject_in_fields [] path = Ok ()"
| "reject_in_fields ((key, child) # m) path =
     (if to_ascii_lowercase key \<in> set sensitive_keys then Err (ISecretInline (path @ ''.'' @ key))
      else res_bind (reject_sensitive_keys child (path @ ''.'' @ key)) (\<lambda>_. reject_in_fields m path))"
| "reject_in_items index [] path = Ok ()"
| "reject_in_items index (child # vs) path =
     res_bind (reject_sensitive_keys child (path @ ''['' @ decimal index @ '']'')) (\<lambda>_.
       reject_in_items (Suc index) vs path)"

text \<open>Truncation to milliseconds, by the nanosecond within the second.\<close>

definition truncate_millis :: "datetime \<Rightarrow> datetime" where
  "truncate_millis t = t - t mod 1000000"

definition normalized_fields :: "action_draft \<Rightarrow> string \<Rightarrow> string \<Rightarrow> canonical_action" where
  "normalized_fields d scheme locator =
     d\<lparr>act_resource := (act_resource d)\<lparr>rsl_scheme := scheme, rsl_locator := locator\<rparr>,
       act_intent := (act_intent d)
         \<lparr>int_operation := to_ascii_lowercase (str_trim (int_operation (act_intent d))),
          int_justification_code := to_ascii_uppercase (str_trim (int_justification_code (act_intent d)))\<rparr>,
       act_payload := (act_payload d)
         \<lparr>tpl_type_id := to_ascii_lowercase (str_trim (tpl_type_id (act_payload d)))\<rparr>,
       act_requested_at := truncate_millis (act_requested_at d)\<rparr>"

definition normalize ::
  "('sk, 'vk) action_env \<Rightarrow> action_draft \<Rightarrow> normalization_context \<Rightarrow> action_error + canonical_action" where
  "normalize env d ctx =
     (case validate_exact (act_tool d) of
        Inl _ \<Rightarrow> Err (ISemanticInvalid ''$.tool.tool_version'' ''VERSION_REQUIRED'')
      | Inr _ \<Rightarrow>
        (let scheme = to_ascii_lowercase (str_trim (rsl_scheme (act_resource d))) in
         if scheme \<notin> nc_allowed_resource_schemes ctx
           then Err (ISemanticInvalid ''$.resource.scheme'' ''UNKNOWN_RESOURCE_SCHEME'')
         else if \<not> type_known (nc_payload_types ctx) (tpl_type_id (act_payload d))
             (tpl_schema_version (act_payload d))
           then Err (ISemanticInvalid ''$.payload'' ''UNKNOWN_PAYLOAD_TYPE'')
         else res_bind (normalize_locator env scheme (rsl_locator (act_resource d))) (\<lambda>locator.
           res_bind (reject_sensitive_keys (JObject (tpl_data (act_payload d))) ''$.payload.data'') (\<lambda>_.
           if \<not> list_all (\<lambda>key. strip_prefix ''x-'' key \<noteq> None) (bt_keys (act_extensions d))
             then Err (ISemanticInvalid ''$.extensions'' ''EXTENSION_NAMESPACE_REQUIRED'')
           else (let a = normalized_fields d scheme locator in
             case vr_findings (validate_action True a) of
               [] \<Rightarrow> Ok a
             | f # _ \<Rightarrow> Err (ISemanticInvalid (vf_field_path f) (vf_reason_code f)))))))"

subsection \<open>Hash and envelope\<close>

text \<open>
  The hash material is every field but the action identifier and the time of the request: they are
  cleared before serialization.
\<close>

definition hash_material :: "canonical_action \<Rightarrow> canonical_action" where
  "hash_material a = a\<lparr>act_action_id := [], act_requested_at := 0\<rparr>"

definition canonical_bytes ::
  "('sk, 'vk) action_env \<Rightarrow> canonical_action \<Rightarrow> action_error + string" where
  "canonical_bytes env a =
     (case ai_jcs_action env (hash_material a) of
        None \<Rightarrow> Err ICanonicalizationFailed | Some b \<Rightarrow> Ok b)"

definition action_hash :: "('sk, 'vk) action_env \<Rightarrow> canonical_action \<Rightarrow> action_error + string" where
  "action_hash env a = res_bind (canonical_bytes env a) (\<lambda>b. Ok (ai_sha256_hex env b))"

definition envelope_material_of :: "action_envelope \<Rightarrow> envelope_material" where
  "envelope_material_of e =
     \<lparr>evm_action_hash = env_action_hash e, evm_signer_id = env_signer_id e,
      evm_signature_algorithm = env_signature_algorithm e, evm_key_id = env_key_id e,
      evm_signed_at = env_signed_at e, evm_expires_at = env_expires_at e\<rparr>"

definition envelope_signing_bytes ::
  "('sk, 'vk) action_env \<Rightarrow> action_envelope \<Rightarrow> action_error + string" where
  "envelope_signing_bytes env e =
     (case ai_jcs_envelope env (envelope_material_of e) of
        None \<Rightarrow> Err ICanonicalizationFailed | Some b \<Rightarrow> Ok b)"

definition sign_envelope ::
  "('sk, 'vk) action_env \<Rightarrow> canonical_action \<Rightarrow> string \<Rightarrow> string \<Rightarrow> 'sk \<Rightarrow> int \<Rightarrow> datetime
   \<Rightarrow> action_error + action_envelope" where
  "sign_envelope env a signer_id key_id key ttl now =
     res_bind (action_hash env a) (\<lambda>h.
       let e = \<lparr>env_canonical_action = a, env_action_hash = h, env_signer_id = signer_id,
         env_signature_algorithm = ''Ed25519'', env_key_id = key_id, env_signature = [],
         env_signed_at = now, env_expires_at = now + ttl\<rparr>
       in res_bind (envelope_signing_bytes env e) (\<lambda>b.
         Ok (e\<lparr>env_signature := sg_sign (ai_signer env) key b\<rparr>)))"

text \<open>The key provider of the caller.\<close>

record 'vk key_provider =
  kp_verifying_key :: "string \<Rightarrow> string \<Rightarrow> action_error + 'vk"
  kp_is_revoked :: "string \<Rightarrow> bool"
  kp_signer_is_bound :: "string \<Rightarrow> agent_identity \<Rightarrow> bool"

definition verify_envelope ::
  "('sk, 'vk) action_env \<Rightarrow> action_envelope \<Rightarrow> 'vk key_provider \<Rightarrow> datetime
   \<Rightarrow> action_error + canonical_action" where
  "verify_envelope env e keys now =
     (if act_schema_version (env_canonical_action e) \<noteq> ACTION_SCHEMA_VERSION then Err IUnknownVersion
      else res_bind (action_hash env (env_canonical_action e)) (\<lambda>h.
        if h \<noteq> env_action_hash e then Err IHashMismatch
        else if env_signature_algorithm e \<noteq> ''Ed25519'' then Err ISignatureInvalid
        else if kp_is_revoked keys (env_key_id e) then Err ISignerUntrusted
        else if now < env_signed_at e \<or> env_expires_at e \<le> now then Err IExpired
        else if \<not> kp_signer_is_bound keys (env_signer_id e) (act_agent (env_canonical_action e))
          then Err ISignerUntrusted
        else res_bind (kp_verifying_key keys (env_key_id e) (env_signer_id e)) (\<lambda>key.
          if \<not> sg_decodes (ai_signer env) (env_signature e) then Err ISignatureInvalid
          else res_bind (envelope_signing_bytes env e) (\<lambda>b.
            if sg_verify (ai_signer env) key b (env_signature e) then Ok (env_canonical_action e)
            else Err ISignatureInvalid))))"

subsection \<open>Policy input\<close>

record registry_policy_snapshot =
  rps_snapshot_hash :: string
  rps_tool_id :: string
  rps_tool_version :: string
  rps_risk :: risk_level
  rps_effect :: effect_class
  rps_implementation_digest :: string

record runtime_context =
  rtc_identity_subject :: string
  rtc_prior_approvals :: "string list"
  rtc_budget_remaining_microunits :: u64

record trajectory_risk =
  trk_version :: string
  trk_accumulated_resources :: "string list"
  trk_anomaly_score_millionths :: u32

text \<open>The subject is the JSON value of the agent identity; the model keeps the identity.\<close>

record policy_input =
  pin_subject :: agent_identity
  pin_intent :: action_intent
  pin_tool :: registry_policy_snapshot
  pin_arguments :: "(string, json) btree"
  pin_resource :: resource_selector
  pin_environment :: execution_environment
  pin_current_state_version :: "string option"
  pin_execution_plan_hash :: "string option"
  pin_data_classification :: data_classification
  pin_trajectory_risk :: trajectory_risk
  pin_registry_snapshot_hash :: string
  pin_runtime :: runtime_context

definition to_policy_input ::
  "canonical_action \<Rightarrow> registry_policy_snapshot \<Rightarrow> runtime_context \<Rightarrow> trajectory_risk
   \<Rightarrow> action_error + policy_input" where
  "to_policy_input a registry runtime trajectory =
     (if tr_tool_id (act_tool a) \<noteq> rps_tool_id registry
         \<or> tr_tool_version (act_tool a) \<noteq> rps_tool_version registry
      then Err IPolicyInputFailed
      else Ok \<lparr>pin_subject = act_agent a, pin_intent = act_intent a, pin_tool = registry,
        pin_arguments = action_arguments a, pin_resource = act_resource a,
        pin_environment = act_environment a,
        pin_current_state_version = act_current_state_version a,
        pin_execution_plan_hash = plan_hash_extension a,
        pin_data_classification = dcx_classification (act_data a),
        pin_trajectory_risk = trajectory,
        pin_registry_snapshot_hash = rps_snapshot_hash registry, pin_runtime = runtime\<rparr>)"

subsection \<open>Migration\<close>

record migration_record =
  amr_source_version :: string
  amr_target_version :: string
  amr_migration_id :: string
  amr_before_hash :: string
  amr_after_hash :: string

fun json_object :: "json \<Rightarrow> (string, json) btree option" where
  "json_object (JObject m) = Some m"
| "json_object _ = None"

text \<open>\<open>jcs\<close> is the canonical JSON of a value.\<close>

definition migrate_v0_to_v1 ::
  "(json \<Rightarrow> string option) \<Rightarrow> (string \<Rightarrow> string) \<Rightarrow> json \<Rightarrow> action_error + (json \<times> migration_record)" where
  "migrate_v0_to_v1 jcs sha256_hex v =
     (case jcs v of
        None \<Rightarrow> Err IMigrationLossy
      | Some before \<Rightarrow>
        (case json_object v of
           None \<Rightarrow> Err IMigrationLossy
         | Some m \<Rightarrow>
           (case Option.bind (bt_get m ''schema_version'') json_text of
              None \<Rightarrow> Err IMigrationLossy
            | Some version \<Rightarrow>
                if version \<noteq> ''agenttrust.action.v0'' then Err IUnknownVersion
                else if bt_contains m ''arguments'' \<and> bt_contains m ''payload'' then Err IMigrationLossy
                else (case Option.bind (bt_get m ''arguments'') json_object of
                   None \<Rightarrow> Err IMigrationLossy
                 | Some data \<Rightarrow>
                   (let payload = JObject [(''data'', JObject data), (''schema_version'', JString ''1''),
                          (''type_id'', JString ''coding.command.v1'')];
                        m1 = bt_insert ''schema_version'' (JString ACTION_SCHEMA_VERSION)
                               (bt_insert ''payload'' payload (bt_remove ''arguments'' m)) in
                    case jcs (JObject m1) of
                      None \<Rightarrow> Err IMigrationLossy
                    | Some after \<Rightarrow> Ok (JObject m1,
                        \<lparr>amr_source_version = ''agenttrust.action.v0'',
                         amr_target_version = ACTION_SCHEMA_VERSION,
                         amr_migration_id = ''action-v0-to-v1-001'',
                         amr_before_hash = sha256_hex before, amr_after_hash = sha256_hex after\<rparr>))))))"

end
