(* ===== verification/Action_Text.thy ===== *)
theory Action_Text
  imports Action_Ir
begin

text \<open>
  Lemmas on the texts the action language normalizes: trimming and changing the case of a text twice
  is doing it once, and a normalized locator is made of plain segments and normalizes to itself.
\<close>

subsection \<open>Trimmed texts\<close>

text \<open>A Rust \<open>String\<close>: the bytes after the first of every group are not ASCII.\<close>

definition well_formed_text :: "string \<Rightarrow> bool" where
  "well_formed_text s \<longleftrightarrow> list_all (\<lambda>g. list_all (\<lambda>c. (128 :: nat) \<le> of_char c) (tl g)) (utf8_groups s)"

definition group_width :: "char \<Rightarrow> nat" where
  "group_width a = (let n = (of_char a :: nat) in if n < 192 then 1 else if n < 224 then 2 else if n < 240 then 3 else 4)"

lemma utf8_groups_Cons:
  "utf8_groups (a # s) = take (group_width a) (a # s) # utf8_groups (drop (group_width a) (a # s))"
proof -
  consider "s = []" | b where "s = [b]" | b c where "s = [b, c]" | b c d r where "s = b # c # d # r"
    by (metis neq_Nil_conv)
  then show ?thesis
    by cases (simp_all add: group_width_def Let_def utf8_groups.simps(2) [of a] del: utf8_groups.simps(2))
qed

declare utf8_groups.simps(2) [simp del]

lemma group_width_pos: "0 < group_width a"
  by (simp add: group_width_def Let_def)

lemma utf8_groups_induct [case_names Nil Cons]:
  assumes "P []" and "\<And>a s. P (drop (group_width a) (a # s)) \<Longrightarrow> P (a # s)"
  shows "P s"
proof (induction s rule: length_induct)
  case (1 s)
  then show ?case
    using assms group_width_pos by (cases s) auto
qed

lemma concat_utf8_groups: "concat (utf8_groups s) = s"
  by (induction s rule: utf8_groups_induct) (simp_all add: utf8_groups_Cons)

lemma utf8_groups_tail: "utf8_groups s = g # gs \<Longrightarrow> utf8_groups (concat gs) = gs"
  by (cases s) (auto simp: utf8_groups_Cons concat_utf8_groups)

lemma utf8_groups_drop: "utf8_groups s = gs @ hs \<Longrightarrow> utf8_groups (concat hs) = hs"
proof (induction gs arbitrary: s)
  case Nil
  then show ?case by (metis append_Nil concat_utf8_groups)
next
  case (Cons g gs)
  then show ?case by (metis append_Cons utf8_groups_tail)
qed

lemma utf8_groups_take: "utf8_groups s = gs @ hs \<Longrightarrow> utf8_groups (concat gs) = gs"
proof (induction s arbitrary: gs rule: utf8_groups_induct)
  case (Cons a s)
  let ?w = "group_width a"
  show ?case
  proof (cases gs)
    case (Cons g gs')
    then have g: "g = take ?w (a # s)" and rest: "utf8_groups (drop ?w (a # s)) = gs' @ hs"
      using Cons.prems by (auto simp: utf8_groups_Cons)
    have tail: "utf8_groups (concat gs') = gs'"
      using rest by (rule Cons.IH)
    have short: "gs' = []" if "length (a # s) < ?w"
      using rest that by simp
    obtain r where a: "g = a # r"
      using g group_width_pos [of a] by (cases ?w) auto
    have "take ?w (g @ concat gs') = g \<and> drop ?w (g @ concat gs') = concat gs'"
      using g short by (cases "length (a # s) < ?w") auto
    then show ?thesis
      using utf8_groups_Cons [of a "r @ concat gs'"] Cons a tail by simp
  qed simp
qed simp

definition trimmed_groups :: "string list \<Rightarrow> bool" where
  "trimmed_groups gs \<longleftrightarrow> gs = [] \<or> \<not> group_is_space (hd gs) \<and> \<not> group_is_space (last gs)"

lemma utf8_groups_trim:
  "\<exists>us vs. utf8_groups s = us @ utf8_groups (str_trim s) @ vs" "trimmed_groups (utf8_groups (str_trim s))"
proof -
  let ?f = "dropWhile group_is_space" let ?hs = "?f (utf8_groups s)" let ?ks = "rev (?f (rev ?hs))"
  have front: "utf8_groups s = takeWhile group_is_space (utf8_groups s) @ ?hs"
    by simp
  have rear: "?hs = ?ks @ rev (takeWhile group_is_space (rev ?hs))"
    by (metis rev_append rev_rev_ident takeWhile_dropWhile_id)
  have "utf8_groups (concat ?hs) = ?hs"
    using front by (rule utf8_groups_drop)
  then have "utf8_groups (concat ?hs) = ?ks @ rev (takeWhile group_is_space (rev ?hs))"
    using rear by simp
  then have groups: "utf8_groups (str_trim s) = ?ks"
    unfolding str_trim_def by (rule utf8_groups_take)
  show "\<exists>us vs. utf8_groups s = us @ utf8_groups (str_trim s) @ vs"
    unfolding groups using front rear by metis
  have "\<not> group_is_space (hd ?ks)" "\<not> group_is_space (last ?ks)" if "?ks \<noteq> []"
  proof -
    have "hd ?hs = hd ?ks" using rear that by (metis hd_append2)
    moreover have "?hs \<noteq> []" using that by (auto dest: set_dropWhileD)
    ultimately show "\<not> group_is_space (hd ?ks)" by (metis hd_dropWhile)
    show "\<not> group_is_space (last ?ks)"
      using that by (simp add: last_rev hd_dropWhile)
  qed
  then show "trimmed_groups (utf8_groups (str_trim s))"
    unfolding groups trimmed_groups_def by blast
qed

lemma str_trim_fixed: "trimmed_groups (utf8_groups s) \<Longrightarrow> str_trim s = s"
proof -
  assume "trimmed_groups (utf8_groups s)"
  then have "dropWhile group_is_space (utf8_groups s) = utf8_groups s"
    "dropWhile group_is_space (rev (utf8_groups s)) = rev (utf8_groups s)"
    unfolding dropWhile_eq_self_iff trimmed_groups_def by (auto simp: hd_rev)
  then show ?thesis
    by (simp add: str_trim_def concat_utf8_groups)
qed

lemma str_trim_twice [simp]: "str_trim (str_trim s) = str_trim s"
  by (rule str_trim_fixed) (rule utf8_groups_trim)

lemma well_formed_trim: "well_formed_text s \<Longrightarrow> well_formed_text (str_trim s)"
  using utf8_groups_trim(1) [of s] by (auto simp: well_formed_text_def)

text \<open>Changing the case of ASCII letters keeps the groups.\<close>

lemma lower_byte:
  "is_ascii_uppercase c \<longleftrightarrow> (65 :: nat) \<le> of_char c \<and> of_char c \<le> (90 :: nat)"
  "is_ascii_lowercase c \<longleftrightarrow> (97 :: nat) \<le> of_char c \<and> of_char c \<le> (122 :: nat)"
  by (auto simp: byte_defs less_eq_char_def)

lemma of_char_lower:
  "of_char (to_ascii_lower c) = (if is_ascii_uppercase c then of_char c + 32 else (of_char c :: nat))"
  by (auto simp: to_ascii_lower_def lower_byte)

lemma of_char_upper:
  "of_char (to_ascii_upper c) = (if is_ascii_lowercase c then of_char c - 32 else (of_char c :: nat))"
  by (auto simp: to_ascii_upper_def lower_byte)

lemma lower_twice [simp]: "to_ascii_lowercase (to_ascii_lowercase s) = to_ascii_lowercase s"
  by (auto simp: to_ascii_lowercase_def to_ascii_lower_def lower_byte)

lemma upper_twice [simp]: "to_ascii_uppercase (to_ascii_uppercase s) = to_ascii_uppercase s"
  by (auto simp: to_ascii_uppercase_def to_ascii_upper_def lower_byte)

text \<open>A map on bytes that moves ASCII letters only.\<close>

definition letter_map :: "(char \<Rightarrow> char) \<Rightarrow> bool" where
  "letter_map f \<longleftrightarrow> (\<forall>c. f c = c \<or> ((33 :: nat) \<le> of_char c \<and> of_char c < (128 :: nat)
     \<and> (33 :: nat) \<le> of_char (f c) \<and> of_char (f c) < (127 :: nat)))"

lemma letter_map_case: "letter_map to_ascii_lower" "letter_map to_ascii_upper"
  by (auto simp: letter_map_def to_ascii_lower_def to_ascii_upper_def lower_byte)

lemma letter_map_width: "letter_map f \<Longrightarrow> group_width (f a) = group_width a"
  unfolding letter_map_def group_width_def Let_def by (drule spec [of _ a]) auto

lemma utf8_groups_map: "letter_map f \<Longrightarrow> utf8_groups (map f s) = map (map f) (utf8_groups s)"
proof (induction s rule: utf8_groups_induct)
  case (Cons a s)
  then show ?case
    using utf8_groups_Cons [of "f a" "map f s"]
    by (simp add: utf8_groups_Cons [of a s] letter_map_width take_map drop_map flip: list.map(2) del: list.map(2))
qed simp

lemma utf8_groups_shape:
  "g \<in> set (utf8_groups s) \<Longrightarrow> \<exists>a t. g = a # t \<and> (of_char a < (192 :: nat) \<longrightarrow> t = [])"
proof (induction s rule: utf8_groups_induct)
  case (Cons a s)
  have narrow: "of_char a < (192 :: nat) \<Longrightarrow> group_width a = 1"
    by (simp add: group_width_def)
  consider "g = take (group_width a) (a # s)" | "g \<in> set (utf8_groups (drop (group_width a) (a # s)))"
    using Cons.prems unfolding utf8_groups_Cons set_simps by blast
  then show ?case
  proof cases
    case 1
    then have "g = a # take (group_width a - 1) s"
      using group_width_pos [of a] by (cases "group_width a") auto
    then show ?thesis
      using narrow by auto
  qed (rule Cons.IH)
qed simp

lemma visible_ascii: "33 \<le> n \<Longrightarrow> n < 128 \<Longrightarrow> \<not> is_whitespace_char n"
  by (auto simp: is_whitespace_char_def)

lemma group_is_space_map:
  assumes "letter_map f" and "g = a # t" and "of_char a < (192 :: nat) \<longrightarrow> t = []"
    and "list_all (\<lambda>c. (128 :: nat) \<le> of_char c) t"
  shows "group_is_space (map f g) = group_is_space g"
proof (cases "f a = a")
  case True
  have "f c = c" if "c \<in> set t" for c
    using assms(1,4) that unfolding letter_map_def list_all_iff by (metis not_le)
  then have "map f g = g"
    using assms(2) True by (simp add: map_idI)
  then show ?thesis by simp
next
  case False
  then have bytes: "(33 :: nat) \<le> of_char a" "of_char a < (128 :: nat)" "(33 :: nat) \<le> of_char (f a)"
      "of_char (f a) < (127 :: nat)"
    using assms(1) unfolding letter_map_def by metis+
  then have "t = []" using assms(3) by simp
  moreover have "group_is_space [a] = False" "group_is_space [f a] = False"
    using bytes by (simp_all add: group_is_space_def visible_ascii)
  ultimately show ?thesis
    using assms(2) by simp
qed

lemma str_trim_map:
  assumes "letter_map f" and "well_formed_text s"
  shows "str_trim (map f (str_trim s)) = map f (str_trim s)"
proof -
  let ?gs = "utf8_groups (str_trim s)"
  have space: "group_is_space (map f g) = group_is_space g" if g: "g \<in> set ?gs" for g
  proof -
    obtain a t where "g = a # t" "of_char a < (192 :: nat) \<longrightarrow> t = []"
      using utf8_groups_shape [OF g] by blast
    moreover have "list_all (\<lambda>c. (128 :: nat) \<le> of_char c) (tl g)"
      using well_formed_trim [OF assms(2)] g by (simp add: well_formed_text_def list_all_iff)
    ultimately show ?thesis
      using assms(1) by (intro group_is_space_map) auto
  qed
  have "trimmed_groups (map (map f) ?gs)"
    using utf8_groups_trim(2) [of s] space by (auto simp: trimmed_groups_def hd_map last_map)
  then show ?thesis
    using assms(1) by (intro str_trim_fixed) (simp add: utf8_groups_map)
qed

lemma lower_trim_twice [simp]:
  assumes "well_formed_text s"
  shows "to_ascii_lowercase (str_trim (to_ascii_lowercase (str_trim s))) = to_ascii_lowercase (str_trim s)"
  using str_trim_map [OF letter_map_case(1) assms] lower_twice [of "str_trim s"]
  by (simp add: to_ascii_lowercase_def)

lemma upper_trim_twice [simp]:
  assumes "well_formed_text s"
  shows "to_ascii_uppercase (str_trim (to_ascii_uppercase (str_trim s))) = to_ascii_uppercase (str_trim s)"
  using str_trim_map [OF letter_map_case(2) assms] upper_twice [of "str_trim s"]
  by (simp add: to_ascii_uppercase_def)

text \<open>A printable text is trimmed.\<close>

lemma ascii_groups: "ascii s \<Longrightarrow> utf8_groups s = map (\<lambda>c. [c]) s"
  by (induction s) (auto simp: ascii_def utf8_groups_Cons group_width_def)

lemma printable_trim:
  assumes "printable s"
  shows "str_trim s = s" and "well_formed_text s"
proof -
  have "ascii s"
    using assms by (auto simp: printable_def ascii_def list_all_iff)
  then have groups: "utf8_groups s = map (\<lambda>c. [c]) s"
    by (rule ascii_groups)
  have "\<not> group_is_space [c]" if "c \<in> set s" for c
    using assms that by (auto simp: printable_def list_all_iff group_is_space_def visible_ascii)
  then have "trimmed_groups (utf8_groups s)"
    using assms by (auto simp: groups trimmed_groups_def hd_map last_map printable_def)
  then show "str_trim s = s"
    by (rule str_trim_fixed)
  show "well_formed_text s"
    by (simp add: well_formed_text_def groups list_all_iff)
qed

subsection \<open>Locators\<close>

text \<open>A segment of a normalized path.\<close>

definition plain_segment :: "string \<Rightarrow> bool" where
  "plain_segment s \<longleftrightarrow> s \<noteq> [] \<and> s \<noteq> ''.'' \<and> s \<noteq> ''..'' \<and> CHR ''/'' \<notin> set s"

abbreviation split_slashes :: "string \<Rightarrow> string list" where
  "split_slashes \<equiv> split_bytes (\<lambda>c. c = CHR ''/'')"

lemma path_segments_plain:
  "path_segments ss = Ok rs \<Longrightarrow> list_all (\<lambda>s. CHR ''/'' \<notin> set s) ss
     \<Longrightarrow> list_all plain_segment rs \<and> set rs \<subseteq> set ss"
  by (induction ss arbitrary: rs) (auto simp: res_bind_Ok_iff plain_segment_def split: if_splits)

lemma path_segments_fixed: "list_all plain_segment ss \<Longrightarrow> path_segments ss = Ok ss"
  by (induction ss) (auto simp: plain_segment_def)

lemma split_no_slash: "CHR ''/'' \<notin> set s \<Longrightarrow> split_slashes s = [s]"
  by (induction s) auto

lemma split_slash: "CHR ''/'' \<notin> set s \<Longrightarrow> split_slashes (s @ CHR ''/'' # t) = s # split_slashes t"
  by (induction s) auto

lemma split_join_slashes:
  "ss \<noteq> [] \<Longrightarrow> list_all plain_segment ss \<Longrightarrow> split_slashes (join_slashes ss) = ss"
  by (induction ss rule: join_slashes.induct) (auto simp: plain_segment_def split_no_slash split_slash)

lemma join_slashes_bytes: "set (join_slashes ss) \<subseteq> insert (CHR ''/'') (\<Union> (set ` set ss))"
  by (induction ss rule: join_slashes.induct) auto

lemma path_segments_join: "list_all plain_segment ss \<Longrightarrow> path_segments (split_slashes (join_slashes ss)) = Ok ss"
  by (cases "ss = []") (simp_all add: split_join_slashes path_segments_fixed)

text \<open>What a normalized locator is.\<close>

definition canonical_locator :: "('sk, 'vk) action_env \<Rightarrow> string \<Rightarrow> string \<Rightarrow> bool" where
  "canonical_locator env scheme locator \<longleftrightarrow>
     (if scheme = ''http''
      then \<exists>s url. ai_url env s = Some url \<and> locator = pu_text url \<and> pu_username url = [] \<and> pu_password url = None
      else \<exists>ss. locator = join_slashes ss \<and> list_all plain_segment ss \<and> CHR 0x00 \<notin> set locator)"

lemma normalize_locator_canonical:
  assumes "normalize_locator env scheme x = Ok locator"
  shows "canonical_locator env scheme locator"
proof (cases "scheme = ''http''")
  case True
  then show ?thesis
    using assms by (auto simp: normalize_locator_def canonical_locator_def Let_def split: if_splits option.splits)
next
  case False
  then obtain ss where ss: "path_segments (split_slashes (ai_nfc env x)) = Ok ss" "locator = join_slashes ss"
    and nul: "CHR 0x00 \<notin> set (ai_nfc env x)"
    using assms by (auto simp: normalize_locator_def Let_def res_bind_Ok_iff split: if_splits)
  have "list_all (\<lambda>s. CHR ''/'' \<notin> set s) (split_slashes (ai_nfc env x))"
    using split_bytes_no_sep by (fastforce simp: list_all_iff)
  then have plain: "list_all plain_segment ss" "set ss \<subseteq> set (split_slashes (ai_nfc env x))"
    using path_segments_plain [OF ss(1)] by auto
  have "\<Union> (set ` set (split_slashes (ai_nfc env x))) \<subseteq> set (ai_nfc env x)"
    using concat_split_bytes [of "\<lambda>c. c = CHR ''/''" "ai_nfc env x"]
    by (metis (no_types, lifting) filter_is_subset set_concat)
  then have "CHR 0x00 \<notin> set locator"
    using join_slashes_bytes [of ss] plain(2) nul ss(2) by blast
  then show ?thesis
    using False plain(1) ss(2) by (auto simp: canonical_locator_def)
qed

lemma normalize_locator_fixed:
  assumes "canonical_locator env scheme locator" and "ai_nfc env locator = locator"
    and "CHR 0x00 \<notin> set locator"
    and "\<And>s url. ai_url env s = Some url \<Longrightarrow> ai_url env (pu_text url) = Some url"
  shows "normalize_locator env scheme locator = Ok locator"
  using assms by (auto simp: normalize_locator_def canonical_locator_def Let_def path_segments_join split: if_splits)

end
