(* ===== verification/Action_Ir_Safety.thy ===== *)
theory Action_Ir_Safety
  imports Action_Text Authorization
begin

text \<open>
  What the action language guarantees: which JSON the strict parser accepts, what a canonical action
  looks like and that normalizing it again changes nothing, which actions share a hash, and what a
  verified envelope is bound to.
\<close>

subsection \<open>Strict JSON\<close>

text \<open>The reference: the value a tree stands for, and the trees within the limits.\<close>

fun raw_value :: "raw_json \<Rightarrow> json" where
  "raw_value RNull = JNull"
| "raw_value (RBool b) = JBool b"
| "raw_value (RNumber n) = JNumber n"
| "raw_value (RString s) = JString s"
| "raw_value (RArray vs) = JArray (map raw_value vs)"
| "raw_value (RObject fs) = JObject (bt_of_list (map (\<lambda>(k, v). (k, raw_value v)) fs))"
| "raw_value RBroken = JNull"

fun raw_within :: "parse_limits \<Rightarrow> nat \<Rightarrow> raw_json \<Rightarrow> bool" where
  "raw_within lim depth RBroken = False"
| "raw_within lim depth (RString s) = (depth \<le> pl_max_depth lim \<and> length s \<le> pl_max_string_bytes lim)"
| "raw_within lim depth (RArray vs) = (depth \<le> pl_max_depth lim \<and> length vs \<le> pl_max_array_items lim
     \<and> list_all (raw_within lim (Suc depth)) vs)"
| "raw_within lim depth (RObject fs) = (depth \<le> pl_max_depth lim \<and> length fs \<le> pl_max_object_keys lim
     \<and> distinct (map fst fs) \<and> list_all (\<lambda>(k, _). length k \<le> pl_max_string_bytes lim) fs
     \<and> list_all (\<lambda>(_, v). raw_within lim (Suc depth) v) fs)"
| "raw_within lim depth _ = (depth \<le> pl_max_depth lim)"

abbreviation field_values :: "(string \<times> raw_json) list \<Rightarrow> (string \<times> json) list" where
  "field_values fs \<equiv> map (\<lambda>(k, v). (k, raw_value v)) fs"

abbreviation bt_add_all :: "('k::linorder \<times> 'v) list \<Rightarrow> ('k, 'v) btree \<Rightarrow> ('k, 'v) btree" where
  "bt_add_all kvs m \<equiv> fold (\<lambda>(k, v) m. bt_insert k v m) kvs m"

lemma strict_value_iff:
  "strict_value lim depth v = Ok j \<longleftrightarrow> raw_within lim depth v \<and> j = raw_value v"
  "length acc \<le> pl_max_array_items lim \<Longrightarrow> strict_items lim depth vs acc = Ok js \<longleftrightarrow>
     length acc + length vs \<le> pl_max_array_items lim \<and> list_all (raw_within lim depth) vs
     \<and> js = acc @ map raw_value vs"
  "bt_ok m \<Longrightarrow> bt_len m \<le> pl_max_object_keys lim \<Longrightarrow> strict_fields lim depth fs m = Ok m' \<longleftrightarrow>
     bt_len m + length fs \<le> pl_max_object_keys lim \<and> distinct (map fst fs)
     \<and> list_all (\<lambda>(k, v). length k \<le> pl_max_string_bytes lim \<and> \<not> bt_contains m k) fs
     \<and> list_all (\<lambda>(_, v). raw_within lim depth v) fs \<and> m' = bt_add_all (field_values fs) m"
proof (induction lim depth v and lim depth vs acc and lim depth fs m
    arbitrary: j and js and m' rule: strict_value_strict_items_strict_fields.induct)
  case (1 lim depth v)
  show ?case
  proof (cases v)
    case (RArray vs)
    then show ?thesis
      using 1(1) [of vs] by (subst strict_value.simps) (auto simp: res_bind_Ok_iff not_le)
  next
    case (RObject fs)
    have "list_all (\<lambda>(k, v). length k \<le> pl_max_string_bytes lim \<and> \<not> bt_contains [] k) fs
        \<longleftrightarrow> list_all (\<lambda>(k, _). length k \<le> pl_max_string_bytes lim) fs"
      by (simp add: bt_contains_def bt_get_def)
    then show ?thesis
      using 1(2) [of fs] RObject
      by (subst strict_value.simps)
        (auto simp: res_bind_Ok_iff not_le bt_of_list_def bt_empty_def bt_ok_def bt_len_def)
  qed (subst strict_value.simps; auto simp: not_le)+
next
  case (3 lim depth v vs acc)
  then show ?case by (auto simp: res_bind_Ok_iff not_le)
next
  case (5 lim depth k v fs acc)
  show ?case
  proof (cases "length k \<le> pl_max_string_bytes lim \<and> \<not> bt_contains acc k \<and> bt_len acc < pl_max_object_keys lim")
    case True
    have len: "bt_len (bt_insert k j acc) = Suc (bt_len acc)" for j
      using True 5(3) by (simp add: bt.len_put bt_contains_def)
    have contains: "bt_contains (bt_insert k j acc) k' \<longleftrightarrow> k' = k \<or> bt_contains acc k'" for j k'
      by (simp add: bt_contains_def bt.get_put)
    have fresh: "list_all (\<lambda>(k', v). length k' \<le> pl_max_string_bytes lim \<and> \<not> bt_contains (bt_insert k j acc) k') fs
        \<longleftrightarrow> k \<notin> fst ` set fs
          \<and> list_all (\<lambda>(k', v). length k' \<le> pl_max_string_bytes lim \<and> \<not> bt_contains acc k') fs" for j
      by (induction fs) (auto simp: contains)
    have step: "strict_fields lim depth fs (bt_insert k (raw_value v) acc) = Ok m' \<longleftrightarrow>
        bt_len acc + Suc (length fs) \<le> pl_max_object_keys lim \<and> distinct (map fst fs)
        \<and> list_all (\<lambda>(k', _). length k' \<le> pl_max_string_bytes lim \<and> \<not> bt_contains (bt_insert k (raw_value v) acc) k') fs
        \<and> list_all (\<lambda>(_, v). raw_within lim depth v) fs
        \<and> m' = bt_add_all (field_values fs) (bt_insert k (raw_value v) acc)" if "raw_within lim depth v"
      using True 5(1) [of "raw_value v"] 5(2) [of "raw_value v" m'] 5(3) that by (simp add: not_le not_less len)
    have "strict_fields lim depth ((k, v) # fs) acc = Ok m' \<longleftrightarrow>
        raw_within lim depth v \<and> strict_fields lim depth fs (bt_insert k (raw_value v) acc) = Ok m'"
      using True 5(1) by (auto simp: res_bind_Ok_iff not_le)
    then show ?thesis
      using True by (cases "raw_within lim depth v") (simp_all add: step fresh conj_ac)
  qed (use 5 in \<open>auto simp: bt_contains_def not_le\<close>)
qed auto

text \<open>
  The strict parser accepts exactly the texts within its limits. A body is accepted just when it
  is short enough, well-formed UTF-8 and JSON with nothing after it, no value is nested too deeply, no
  string, array or object too large and no object repeats a key; the result is the value it denotes.
\<close>

theorem strict_parser_spec:
  "parse_strict_json env bytes lim = Ok j \<longleftrightarrow>
     length bytes \<le> pl_max_body_bytes lim \<and> ai_text env bytes
     \<and> raw_within lim 0 (fst (ai_read env bytes)) \<and> \<not> snd (ai_read env bytes)
     \<and> j = raw_value (fst (ai_read env bytes))"
  using strict_value_iff(1) [of lim 0 "fst (ai_read env bytes)"]
  by (cases "strict_value lim 0 (fst (ai_read env bytes))")
    (auto simp: parse_strict_json_def not_less split: if_splits)

subsection \<open>Canonical actions\<close>

text \<open>The reference for the search for inline secrets: no key of an object, at any depth, is sensitive.\<close>

fun clean_json :: "json \<Rightarrow> bool" where
  "clean_json (JObject m) = list_all (\<lambda>(k, v). to_ascii_lowercase k \<notin> set sensitive_keys \<and> clean_json v) m"
| "clean_json (JArray vs) = list_all clean_json vs"
| "clean_json _ = True"

lemma reject_sensitive_iff:
  "reject_sensitive_keys j path = Ok () \<longleftrightarrow> clean_json j"
  "reject_in_fields m path = Ok () \<longleftrightarrow>
     list_all (\<lambda>(k, v). to_ascii_lowercase k \<notin> set sensitive_keys \<and> clean_json v) m"
  "reject_in_items i vs path = Ok () \<longleftrightarrow> list_all clean_json vs"
  by (induction j path and m path and i vs path rule: reject_sensitive_keys_reject_in_fields_reject_in_items.induct)
    (auto simp: res_bind_Ok_iff)

lemma findings_nil_iff: "finding_if b path reason = [] \<longleftrightarrow> \<not> b"
  by (simp add: finding_if_def)

lemma credential_findings_nil_iff:
  "credential_findings a = [] \<longleftrightarrow>
     (\<forall>c \<in> set (act_credential_refs a). strip_prefix (crf_resource_prefix c) (rsl_locator (act_resource a)) \<noteq> None)"
proof -
  have "credential_findings a = [] \<longleftrightarrow> (\<forall>c \<in> snd ` set (enumerate 0 (act_credential_refs a)).
      strip_prefix (crf_resource_prefix c) (rsl_locator (act_resource a)) \<noteq> None)"
    by (auto simp: credential_findings_def findings_nil_iff)
  then show ?thesis
    by (simp flip: set_map)
qed

lemma findings_Ok_iff:
  "(case fs of [] \<Rightarrow> Ok a | f # _ \<Rightarrow> Err (g f)) = Ok b \<longleftrightarrow> fs = [] \<and> b = a"
  by (auto split: list.splits)

lemma normalize_Ok_iff:
  "normalize env d ctx = Ok a \<longleftrightarrow>
     (\<exists>u locator. validate_exact (act_tool d) = Ok u
       \<and> to_ascii_lowercase (str_trim (rsl_scheme (act_resource d))) \<in> nc_allowed_resource_schemes ctx
       \<and> type_known (nc_payload_types ctx) (tpl_type_id (act_payload d)) (tpl_schema_version (act_payload d))
       \<and> normalize_locator env (to_ascii_lowercase (str_trim (rsl_scheme (act_resource d))))
           (rsl_locator (act_resource d)) = Ok locator
       \<and> clean_json (JObject (tpl_data (act_payload d)))
       \<and> list_all (\<lambda>key. strip_prefix ''x-'' key \<noteq> None) (bt_keys (act_extensions d))
       \<and> a = normalized_fields d (to_ascii_lowercase (str_trim (rsl_scheme (act_resource d)))) locator
       \<and> action_findings True a = [])"
  unfolding normalize_def Let_def validate_action_def
  by (cases "validate_exact (act_tool d)")
    (auto simp: res_bind_Ok_iff reject_sensitive_iff findings_Ok_iff simp del: clean_json.simps reject_sensitive_keys.simps
      split: if_splits)

lemma normalized_field_simps [simp]:
  "act_schema_version (normalized_fields d s l) = act_schema_version d"
  "act_tool (normalized_fields d s l) = act_tool d"
  "act_extensions (normalized_fields d s l) = act_extensions d"
  "tpl_data (act_payload (normalized_fields d s l)) = tpl_data (act_payload d)"
  "tpl_schema_version (act_payload (normalized_fields d s l)) = tpl_schema_version (act_payload d)"
  "tpl_type_id (act_payload (normalized_fields d s l)) = to_ascii_lowercase (str_trim (tpl_type_id (act_payload d)))"
  "rsl_scheme (act_resource (normalized_fields d s l)) = s"
  "rsl_locator (act_resource (normalized_fields d s l)) = l"
  "act_requested_at (normalized_fields d s l) = truncate_millis (act_requested_at d)"
  by (simp_all add: normalized_fields_def)

text \<open>
  C28: what a canonical action guarantees. A draft that normalizes names an exact tool version and an
  allowed scheme; its locator has no dot, empty or parent segment (or is a parsed URL without
  credentials); no object of its arguments has a sensitive key at any depth; its extensions are
  namespaced; all three tenants agree; it is neither a simulation in production nor an automated
  critical action; every credential is scoped to the resource; an action that is not a read carries a
  state version and a well-formed plan hash; and its time is a whole number of milliseconds.
\<close>

theorem canonical_action_is_canonical:
  assumes "normalize env d ctx = Ok a"
  shows "is_ok (validate_exact (act_tool a)) \<and> rsl_scheme (act_resource a) \<in> nc_allowed_resource_schemes ctx
    \<and> canonical_locator env (rsl_scheme (act_resource a)) (rsl_locator (act_resource a))
    \<and> action_arguments a = action_arguments d \<and> clean_json (JObject (action_arguments a))
    \<and> (\<forall>k \<in> set (bt_keys (act_extensions a)). strip_prefix ''x-'' k \<noteq> None)
    \<and> aid_tenant_id (act_agent a) = exe_tenant_id (act_environment a)
    \<and> rsl_tenant_id (act_resource a) = exe_tenant_id (act_environment a)
    \<and> \<not> (to_ascii_lowercase (exe_deployment (act_environment a)) = ''production'' \<and> exe_simulation (act_environment a))
    \<and> \<not> (rkc_declared_risk (act_risk a) = Critical \<and> rkc_automation_allowed (act_risk a))
    \<and> (\<forall>c \<in> set (act_credential_refs a).
         strip_prefix (crf_resource_prefix c) (rsl_locator (act_resource a)) \<noteq> None)
    \<and> (is_write_operation a \<longrightarrow>
         (\<exists>v. act_current_state_version a = Some v \<and> v \<noteq> [] \<and> length v \<le> 128 \<and> \<not> any_control v)
         \<and> (\<exists>h. plan_hash_extension a = Some h \<and> is_lower_hex_digest h))
    \<and> act_requested_at a mod 1000000 = 0 \<and> act_requested_at a \<le> act_requested_at d"
proof -
  obtain u locator where n: "validate_exact (act_tool d) = Ok u"
      "normalize_locator env (rsl_scheme (act_resource a)) (rsl_locator (act_resource d)) = Ok locator"
      "rsl_scheme (act_resource a) \<in> nc_allowed_resource_schemes ctx"
      "rsl_locator (act_resource a) = locator" "act_tool a = act_tool d" "action_arguments a = action_arguments d"
      "act_extensions a = act_extensions d" "act_requested_at a = truncate_millis (act_requested_at d)"
      "clean_json (JObject (tpl_data (act_payload d)))"
      "list_all (\<lambda>key. strip_prefix ''x-'' key \<noteq> None) (bt_keys (act_extensions d))"
      "action_findings True a = []"
    using assms unfolding normalize_Ok_iff by (auto simp: action_arguments_def)
  have "canonical_locator env (rsl_scheme (act_resource a)) (rsl_locator (act_resource a))"
    using n(2) unfolding n(4) by (rule normalize_locator_canonical)
  moreover have "is_write_operation a \<longrightarrow>
       (\<exists>v. act_current_state_version a = Some v \<and> v \<noteq> [] \<and> length v \<le> 128 \<and> \<not> any_control v)
       \<and> (\<exists>h. plan_hash_extension a = Some h \<and> is_lower_hex_digest h)"
    using n(11) by (auto simp: action_findings_def findings_nil_iff not_less split: option.splits)
  moreover have "\<forall>c \<in> set (act_credential_refs a).
       strip_prefix (crf_resource_prefix c) (rsl_locator (act_resource a)) \<noteq> None"
    using n(11) by (simp add: action_findings_def credential_findings_nil_iff)
  moreover have "\<not> (rkc_declared_risk (act_risk a) = Critical \<and> rkc_automation_allowed (act_risk a))"
    "\<not> (to_ascii_lowercase (exe_deployment (act_environment a)) = ''production'' \<and> exe_simulation (act_environment a))"
    "aid_tenant_id (act_agent a) = exe_tenant_id (act_environment a)"
    "rsl_tenant_id (act_resource a) = exe_tenant_id (act_environment a)"
    using n(11) by (simp_all add: action_findings_def findings_nil_iff)
  moreover have "act_requested_at a mod 1000000 = 0" "act_requested_at a \<le> act_requested_at d"
    using n(8) by (simp_all add: truncate_millis_def minus_mod_eq_mult_div)
  ultimately show ?thesis
    using n by (simp add: list_all_iff action_arguments_def del: clean_json.simps)
qed

text \<open>
  What the URL parser does: parsing the text of a URL gives that URL again, and the text is ASCII
  without control characters, so Unicode normalization keeps it.
\<close>

definition url_parser_stable :: "('sk, 'vk) action_env \<Rightarrow> bool" where
  "url_parser_stable env \<longleftrightarrow> (\<forall>s url. ai_url env s = Some url \<longrightarrow>
     ai_url env (pu_text url) = Some url \<and> ai_nfc env (pu_text url) = pu_text url
     \<and> CHR 0x00 \<notin> set (pu_text url))"

text \<open>
  Normalization is idempotent. Normalizing a canonical action again gives the same action, when
  the registered types are known by their normalized names, Unicode normalization leaves the
  normalized path alone and the URL parser is stable.
\<close>

theorem normalization_is_idempotent:
  assumes "normalize env d ctx = Ok a"
    and "list_all well_formed_text [rsl_scheme (act_resource d), int_operation (act_intent d),
           int_justification_code (act_intent d), tpl_type_id (act_payload d)]"
    and "type_known (nc_payload_types ctx) (tpl_type_id (act_payload a)) (tpl_schema_version (act_payload a))"
    and "rsl_scheme (act_resource a) \<noteq> ''http'' \<Longrightarrow>
           ai_nfc env (rsl_locator (act_resource a)) = rsl_locator (act_resource a)"
    and "url_parser_stable env"
  shows "normalize env a ctx = Ok a"
proof -
  let ?s = "rsl_scheme (act_resource a)"
  obtain u locator where n: "validate_exact (act_tool d) = Ok u" "?s \<in> nc_allowed_resource_schemes ctx"
      "normalize_locator env ?s (rsl_locator (act_resource d)) = Ok locator"
      "clean_json (JObject (tpl_data (act_payload d)))"
      "list_all (\<lambda>key. strip_prefix ''x-'' key \<noteq> None) (bt_keys (act_extensions d))"
      "a = normalized_fields d ?s locator" "?s = to_ascii_lowercase (str_trim (rsl_scheme (act_resource d)))"
      "action_findings True a = []"
    using assms(1) unfolding normalize_Ok_iff by auto
  have scheme: "to_ascii_lowercase (str_trim ?s) = ?s"
    using assms(2) by (simp add: n(7))
  have fields: "act_tool a = act_tool d" "act_extensions a = act_extensions d"
      "tpl_data (act_payload a) = tpl_data (act_payload d)" "rsl_locator (act_resource a) = locator"
    by (subst n(6), simp)+
  have canonical: "canonical_locator env ?s locator"
    using n(3) by (rule normalize_locator_canonical)
  have "ai_nfc env locator = locator \<and> CHR 0x00 \<notin> set locator"
    using assms(4,5) canonical unfolding fields(4)
    by (cases "?s = ''http''") (auto simp: url_parser_stable_def canonical_locator_def)
  then have "normalize_locator env ?s locator = Ok locator"
    using assms(5) canonical by (intro normalize_locator_fixed) (auto simp: url_parser_stable_def)
  moreover have "normalized_fields a ?s locator = a"
    using assms(2) by (subst (1 2) n(6)) (simp add: normalized_fields_def truncate_millis_def)
  ultimately show ?thesis
    using n assms(3) unfolding normalize_Ok_iff scheme fields by (auto simp del: clean_json.simps)
qed

subsection \<open>Hash and envelopes\<close>

text \<open>
  What canonical JSON keeps of an action. RFC 8785 writes a number as the text \<open>num\<close> of the double it
  denotes, so 1 and 1.0 have one text; everything else it keeps. Maps are listed in the order of their
  keys, as \<open>BTreeMap\<close> and \<open>serde_json::Map\<close> hold them.
\<close>

fun number_form :: "(string \<Rightarrow> string) \<Rightarrow> json \<Rightarrow> json"
  and field_forms :: "(string \<Rightarrow> string) \<Rightarrow> (string, json) btree \<Rightarrow> (string, json) btree"
  and item_forms :: "(string \<Rightarrow> string) \<Rightarrow> json list \<Rightarrow> json list" where
  "number_form num (JNumber t) = JNumber (num t)"
| "number_form num (JObject m) = JObject (field_forms num m)"
| "number_form num (JArray vs) = JArray (item_forms num vs)"
| "number_form num v = v"
| "field_forms num [] = []"
| "field_forms num ((key, v) # m) = (key, number_form num v) # field_forms num m"
| "item_forms num [] = []"
| "item_forms num (v # vs) = number_form num v # item_forms num vs"

fun keys_ordered :: "json \<Rightarrow> bool"
  and fields_ordered :: "(string, json) btree \<Rightarrow> bool"
  and items_ordered :: "json list \<Rightarrow> bool" where
  "keys_ordered (JObject m) = (if bt_ok m then fields_ordered m else False)"
| "keys_ordered (JArray vs) = items_ordered vs"
| "keys_ordered v = True"
| "fields_ordered [] = True"
| "fields_ordered ((key, v) # m) = (if keys_ordered v then fields_ordered m else False)"
| "items_ordered [] = True"
| "items_ordered (v # vs) = (if keys_ordered v then items_ordered vs else False)"

definition action_form :: "(string \<Rightarrow> string) \<Rightarrow> canonical_action \<Rightarrow> canonical_action" where
  "action_form num a =
     a\<lparr>act_payload := (act_payload a)\<lparr>tpl_data := field_forms num (tpl_data (act_payload a))\<rparr>,
       act_expected_outcome :=
         (act_expected_outcome a)\<lparr>eoc_target := number_form num (eoc_target (act_expected_outcome a))\<rparr>,
       act_extensions := field_forms num (act_extensions a)\<rparr>"

definition action_ordered :: "canonical_action \<Rightarrow> bool" where
  "action_ordered a \<longleftrightarrow> keys_ordered (JObject (tpl_data (act_payload a)))
     \<and> keys_ordered (eoc_target (act_expected_outcome a)) \<and> keys_ordered (JObject (act_extensions a))"

text \<open>Canonical JSON gives two actions one text exactly when they agree up to their numbers.\<close>

definition action_codec :: "('sk, 'vk) action_env \<Rightarrow> (string \<Rightarrow> string) \<Rightarrow> bool" where
  "action_codec env num \<longleftrightarrow>
     (\<forall>a b. action_ordered a \<and> action_ordered b \<and> ai_jcs_action env a \<noteq> None \<longrightarrow>
        (ai_jcs_action env a = ai_jcs_action env b) = (action_form num a = action_form num b))"

definition hashes_apart :: "('sk, 'vk) action_env \<Rightarrow> canonical_action \<Rightarrow> canonical_action \<Rightarrow> bool" where
  "hashes_apart env a b \<longleftrightarrow> (\<forall>s t. canonical_bytes env a = Ok s \<and> canonical_bytes env b = Ok t
     \<and> ai_sha256_hex env s = ai_sha256_hex env t \<longrightarrow> s = t)"

lemma action_hash_Ok_iff: "action_hash env a = Ok h \<longleftrightarrow>
    (\<exists>t. ai_jcs_action env (hash_material a) = Some t \<and> h = ai_sha256_hex env t)"
  by (auto simp: action_hash_def canonical_bytes_def split: option.splits)

lemma canonical_bytes_Ok_iff: "canonical_bytes env a = Ok t \<longleftrightarrow> ai_jcs_action env (hash_material a) = Some t"
  by (auto simp: canonical_bytes_def split: option.splits)

lemma action_form_material_eq_iff:
  "action_form num (hash_material b) = action_form num (hash_material a) \<longleftrightarrow>
     action_form num b
       = (action_form num a)\<lparr>act_action_id := act_action_id b, act_requested_at := act_requested_at b\<rparr>"
  for a b :: canonical_action
  by (cases a; cases b) (auto simp: hash_material_def action_form_def)

lemma action_ordered_material [simp]: "action_ordered (hash_material a) = action_ordered a"
  by (simp add: action_ordered_def hash_material_def)

text \<open>
  C17: the action hash binds exactly the action. Two actions share a hash just when they agree in every
  field but the action identifier and the time of the request, numbers in the payload, the expected
  outcome and the extensions being compared by the text RFC 8785 writes for them (1 and 1.0 are one).
  Canonical JSON is asked to behave as that document says, and SHA-256 not to collide on the two texts.
  So an approval or a signature for one action holds for none that differs in agent, tool, payload,
  resource, state version or any other field.
\<close>

theorem hash_binds_exactly_the_action:
  assumes "action_codec env num" and "action_ordered a" and "action_ordered b"
    and "hashes_apart env a b" and "action_hash env a = Ok h"
  shows "action_hash env b = Ok h \<longleftrightarrow> action_form num b
    = (action_form num a)\<lparr>act_action_id := act_action_id b, act_requested_at := act_requested_at b\<rparr>"
proof -
  obtain t where t: "ai_jcs_action env (hash_material a) = Some t" "h = ai_sha256_hex env t"
    using assms(5) by (auto simp: action_hash_Ok_iff)
  have same: "(ai_jcs_action env (hash_material a) = ai_jcs_action env (hash_material b))
      = (action_form num (hash_material a) = action_form num (hash_material b))"
    using assms(1) [unfolded action_codec_def, rule_format, of "hash_material a" "hash_material b"]
      assms(2,3) t(1) by simp
  have "action_hash env b = Ok h \<longleftrightarrow> ai_jcs_action env (hash_material a) = ai_jcs_action env (hash_material b)"
  proof
    assume "action_hash env b = Ok h"
    then obtain u where u: "ai_jcs_action env (hash_material b) = Some u" "h = ai_sha256_hex env u"
      by (auto simp: action_hash_Ok_iff)
    with assms(4) t have "t = u"
      unfolding hashes_apart_def canonical_bytes_Ok_iff by blast
    with t u show "ai_jcs_action env (hash_material a) = ai_jcs_action env (hash_material b)" by simp
  next
    assume "ai_jcs_action env (hash_material a) = ai_jcs_action env (hash_material b)"
    with t show "action_hash env b = Ok h" unfolding action_hash_Ok_iff by auto
  qed
  then show ?thesis
    using same action_form_material_eq_iff [of num b a] by (auto simp: eq_commute)
qed

lemma envelope_signing_bytes_Ok_iff:
  "envelope_signing_bytes env e = Ok b \<longleftrightarrow> ai_jcs_envelope env (envelope_material_of e) = Some b"
  by (auto simp: envelope_signing_bytes_def split: option.splits)

text \<open>
  What a verified envelope is bound to. Verification returns the action of the envelope only for
  the current schema, a hash that is the one of that action, an Ed25519 signature by an unrevoked key
  over the hash, the signer, the key and the period, a signer bound to the action's agent, at an instant
  within the period.
\<close>

theorem verified_envelope_is_bound:
  assumes "verify_envelope env e keys now = Ok a"
  shows "a = env_canonical_action e \<and> act_schema_version a = ACTION_SCHEMA_VERSION
    \<and> action_hash env a = Ok (env_action_hash e) \<and> env_signature_algorithm e = ''Ed25519''
    \<and> \<not> kp_is_revoked keys (env_key_id e) \<and> env_signed_at e \<le> now \<and> now < env_expires_at e
    \<and> kp_signer_is_bound keys (env_signer_id e) (act_agent a)
    \<and> (\<exists>key bytes. kp_verifying_key keys (env_key_id e) (env_signer_id e) = Ok key
         \<and> ai_jcs_envelope env (envelope_material_of e) = Some bytes
         \<and> sg_verify (ai_signer env) key bytes (env_signature e))"
  using assms by (auto simp: verify_envelope_def res_bind_Ok_iff envelope_signing_bytes_Ok_iff split: if_splits)

text \<open>
  Signing and verifying round trip. A freshly signed envelope verifies, and gives the action back,
  exactly from the instant it was signed until its period is over, for a correct signer and a key
  provider that knows the key, has not revoked it and binds the signer to the agent.
\<close>

theorem signed_envelope_verifies:
  assumes "signer_correct (ai_signer env)" and "sign_envelope env a signer_id key_id key ttl now = Ok e"
    and "act_schema_version a = ACTION_SCHEMA_VERSION"
    and "kp_verifying_key keys key_id signer_id = Ok (sg_public (ai_signer env) key)"
    and "\<not> kp_is_revoked keys key_id" and "kp_signer_is_bound keys signer_id (act_agent a)"
  shows "verify_envelope env e keys t = Ok a \<longleftrightarrow> now \<le> t \<and> t < now + ttl"
proof -
  obtain h e' b where s: "action_hash env a = Ok h"
      "e' = \<lparr>env_canonical_action = a, env_action_hash = h, env_signer_id = signer_id,
         env_signature_algorithm = ''Ed25519'', env_key_id = key_id, env_signature = [],
         env_signed_at = now, env_expires_at = now + ttl\<rparr>"
      "ai_jcs_envelope env (envelope_material_of e') = Some b"
      "e = e'\<lparr>env_signature := sg_sign (ai_signer env) key b\<rparr>"
    using assms(2) by (auto simp: sign_envelope_def Let_def res_bind_Ok_iff envelope_signing_bytes_Ok_iff)
  have "envelope_signing_bytes env e = Ok b"
    using s by (simp add: envelope_signing_bytes_Ok_iff envelope_material_of_def)
  then show ?thesis
    using assms s by (auto simp: verify_envelope_def signer_correct_def)
qed

subsection \<open>Samples\<close>

definition sample_action_draft :: action_draft where
  "sample_action_draft =
     \<lparr>act_schema_version = ACTION_SCHEMA_VERSION, act_action_id = ''a-1'', act_task_id = ''t-1'',
      act_step_id = ''s-1'',
      act_agent = \<lparr>aid_schema_version = ''v1'', aid_agent_type = ''coder'', aid_agent_instance_id = ''i-1'',
        aid_organization_id = ''o'', aid_tenant_id = ''acme'', aid_owner_subject = ''bob'',
        aid_model_provider = ''p'', aid_model_id = ''m'', aid_agent_version = ''1'',
        aid_deployment_environment = ''staging'', aid_trust_level = ''low'', aid_auth_context_ref = ''r'',
        aid_issued_at = 0, aid_expires_at = 10\<rparr>,
      act_intent = \<lparr>int_goal_hash = ''g'', int_operation = ''Write'', int_justification_code = ''fix'',
        int_safe_summary = None\<rparr>,
      act_tool = \<lparr>tr_tool_id = ''patch'', tr_tool_version = ''1.2.0''\<rparr>,
      act_payload = \<lparr>tpl_type_id = ''coding.patch.v1'', tpl_schema_version = ''1'',
        tpl_data = [(''diff'', JString ''+x'')]\<rparr>,
      act_resource = \<lparr>rsl_scheme = ''File'', rsl_tenant_id = ''acme'', rsl_locator = ''src//./main.rs'',
        rsl_version = None\<rparr>,
      act_environment = \<lparr>exe_tenant_id = ''acme'', exe_deployment = ''staging'', exe_region = ''eu'',
        exe_zone = None, exe_simulation = False\<rparr>,
      act_current_state_version = Some ''v7'',
      act_risk = \<lparr>rkc_declared_risk = Low, rkc_trajectory_risk_ref = None, rkc_scope_delta = 0,
        rkc_automation_allowed = True\<rparr>,
      act_data = \<lparr>dcx_classification = Internal, dcx_jurisdiction = ''eu'', dcx_export_constraints = []\<rparr>,
      act_expected_outcome = \<lparr>eoc_metric = ''tests'', eoc_operator = ''eq'', eoc_target = JNumber ''0''\<rparr>,
      act_credential_refs = [\<lparr>crf_profile = ''git'', crf_resource_prefix = ''src/'', crf_operations = [''write'']\<rparr>],
      act_requested_at = 1234567,
      act_extensions = [(''x-plan-hash'', JString sample_digest)]\<rparr>"

definition sample_canonical :: canonical_action where
  "sample_canonical = normalized_fields sample_action_draft ''file'' ''src/main.rs''"

definition sample_action_env :: "(unit, unit) action_env" where
  "sample_action_env = \<lparr>ai_signer = sample_signer, ai_text = \<lambda>_. True, ai_read = \<lambda>_. (RNull, False),
     ai_draft = \<lambda>_. Inr sample_action_draft, ai_nfc = \<lambda>s. s, ai_url = \<lambda>_. None,
     ai_jcs_action = \<lambda>a. if a = hash_material sample_canonical then Some ''action'' else None,
     ai_jcs_envelope = \<lambda>m. Some (evm_action_hash m), ai_sha256_hex = \<lambda>s. s\<rparr>"

lemmas sample_action_simps = sample_action_env_def sample_action_draft_def

lemma sample_printable:
  "printable ''Write''" "printable ''fix''" "printable ''coding.patch.v1''" "printable ''File''"
  "printable ''tests''" "printable ''v7''" "printable ''write''" "printable ''FIX''" "printable ''file''"
  by (simp_all add: printable_def)

lemma sample_case:
  "to_ascii_lowercase ''Write'' = ''write''" "to_ascii_lowercase ''write'' = ''write''"
  "to_ascii_uppercase ''fix'' = ''FIX''" "to_ascii_lowercase ''coding.patch.v1'' = ''coding.patch.v1''"
  "to_ascii_lowercase ''File'' = ''file''" "to_ascii_lowercase ''staging'' = ''staging''"
  "to_ascii_lowercase ''diff'' = ''diff''" "to_ascii_lowercase ''1.2.0'' = ''1.2.0''"
  by code_simp+

lemma sample_type_known: "type_known default_payload_types ''coding.patch.v1'' ''1''"
  by code_simp

lemmas sample_trims = sample_printable [THEN printable_trim(1)] sample_printable [THEN printable_trim(2)]
  sample_printable [THEN printable_text(1)] sample_printable [THEN printable_text(2)]

lemma sample_locator: "path_segments (split_slashes ''src//./main.rs'') = Ok [''src'', ''main.rs'']"
  by code_simp

lemma sample_findings: "action_findings True sample_canonical = []"
  by (simp add: action_findings_def findings_nil_iff credential_findings_nil_iff sample_canonical_def
      normalized_fields_def sample_action_draft_def sample_trims sample_case plan_hash_extension_def
      bt_get_def bt_len_def strip_prefix_def)

lemma sample_normalizes:
  "normalize sample_action_env sample_action_draft normalization_context_default = Ok sample_canonical"
proof -
  let ?s = "to_ascii_lowercase (str_trim (rsl_scheme (act_resource sample_action_draft)))"
  have scheme: "?s = ''file''"
    by (simp add: sample_action_draft_def sample_trims sample_case)
  have "validate_exact (act_tool sample_action_draft) = Ok ()"
    "normalize_locator sample_action_env ?s (rsl_locator (act_resource sample_action_draft)) = Ok ''src/main.rs''"
    "type_known (nc_payload_types normalization_context_default) (tpl_type_id (act_payload sample_action_draft))
       (tpl_schema_version (act_payload sample_action_draft))"
    "?s \<in> nc_allowed_resource_schemes normalization_context_default"
    "clean_json (JObject (tpl_data (act_payload sample_action_draft)))"
    "list_all (\<lambda>key. strip_prefix ''x-'' key \<noteq> None) (bt_keys (act_extensions sample_action_draft))"
    unfolding scheme
    by (simp_all add: sample_action_draft_def sample_action_env_def validate_exact_def sample_case sample_type_known
        normalize_locator_def sample_locator sensitive_keys_def bt_keys_def strip_prefix_def
        normalization_context_default_def)
  then show ?thesis
    using sample_findings unfolding normalize_Ok_iff sample_canonical_def scheme by blast
qed

lemma canonical_action_is_canonical_witness:
  "aid_tenant_id (act_agent sample_canonical) = exe_tenant_id (act_environment sample_canonical)
   \<and> clean_json (JObject (action_arguments sample_canonical))"
  using canonical_action_is_canonical [OF sample_normalizes] by blast

lemma normalization_is_idempotent_witness:
  "normalize sample_action_env sample_canonical normalization_context_default = Ok sample_canonical"
proof (rule normalization_is_idempotent [OF sample_normalizes])
  show "list_all well_formed_text [rsl_scheme (act_resource sample_action_draft),
      int_operation (act_intent sample_action_draft), int_justification_code (act_intent sample_action_draft),
      tpl_type_id (act_payload sample_action_draft)]"
    by (simp add: sample_action_draft_def sample_trims)
  show "type_known (nc_payload_types normalization_context_default) (tpl_type_id (act_payload sample_canonical))
      (tpl_schema_version (act_payload sample_canonical))"
    by (simp add: sample_canonical_def sample_action_draft_def sample_trims sample_case sample_type_known
        normalization_context_default_def)
qed (simp_all add: sample_action_env_def url_parser_stable_def)

lemma sample_action_hash: "action_hash sample_action_env sample_canonical = Ok ''action''"
  by (simp add: action_hash_Ok_iff sample_action_env_def)

text \<open>Canonical JSON on the actions that agree with the sample but for writing its zero as 0.0.\<close>

definition sample_number :: "string \<Rightarrow> string" where
  "sample_number t = (if t = ''0.0'' then ''0'' else t)"

definition number_action_env :: "(unit, unit) action_env" where
  "number_action_env = sample_action_env\<lparr>ai_jcs_action := (\<lambda>a.
     if action_form sample_number a = action_form sample_number (hash_material sample_canonical)
     then Some ''action'' else None)\<rparr>"

definition respelt_action :: canonical_action where
  "respelt_action = sample_canonical\<lparr>act_action_id := ''a-2'',
     act_expected_outcome := (act_expected_outcome sample_canonical)\<lparr>eoc_target := JNumber ''0.0''\<rparr>\<rparr>"

lemma hash_binds_exactly_the_action_witness:
  "action_hash number_action_env respelt_action = Ok ''action''"
proof (subst hash_binds_exactly_the_action [where a = sample_canonical and num = sample_number])
  show "action_codec number_action_env sample_number"
    by (auto simp: action_codec_def number_action_env_def split: if_splits)
  show "action_ordered sample_canonical" "action_ordered respelt_action"
    by (simp_all add: action_ordered_def respelt_action_def sample_canonical_def normalized_fields_def
        sample_action_draft_def bt_ok_def)
  show "hashes_apart number_action_env sample_canonical respelt_action"
    by (auto simp: hashes_apart_def canonical_bytes_def number_action_env_def split: if_splits option.splits)
  show "action_hash number_action_env sample_canonical = Ok ''action''"
    by (simp add: action_hash_Ok_iff number_action_env_def sample_action_env_def)
qed (simp add: action_form_def respelt_action_def sample_number_def sample_canonical_def
    normalized_fields_def sample_action_draft_def)

definition sample_envelope :: action_envelope where
  "sample_envelope = \<lparr>env_canonical_action = sample_canonical, env_action_hash = ''action'',
     env_signer_id = ''svc'', env_signature_algorithm = ''Ed25519'', env_key_id = ''k1'',
     env_signature = ''action'', env_signed_at = 5, env_expires_at = 5 + 20\<rparr>"

definition sample_key_provider :: "unit key_provider" where
  "sample_key_provider = \<lparr>kp_verifying_key = \<lambda>_ _. Ok (), kp_is_revoked = \<lambda>_. False,
     kp_signer_is_bound = \<lambda>_ _. True\<rparr>"

lemma sample_signs: "sign_envelope sample_action_env sample_canonical ''svc'' ''k1'' () 20 5 = Ok sample_envelope"
  unfolding sign_envelope_def sample_action_hash
  by (simp add: envelope_signing_bytes_def sample_action_env_def sample_signer_def sample_envelope_def
      envelope_material_of_def)

lemma sample_canonical_schema: "act_schema_version sample_canonical = ACTION_SCHEMA_VERSION"
  by (simp add: sample_canonical_def sample_action_draft_def)

lemma signed_envelope_verifies_witness:
  "verify_envelope sample_action_env sample_envelope sample_key_provider 7 = Ok sample_canonical"
proof (subst signed_envelope_verifies [OF _ sample_signs sample_canonical_schema])
  show "signer_correct (ai_signer sample_action_env)"
    using sample_signer_correct by (simp add: sample_action_env_def)
qed (simp_all add: sample_key_provider_def)

lemma sample_envelope_verifies:
  "verify_envelope sample_action_env sample_envelope sample_key_provider 7 = Ok sample_canonical"
  by (simp add: verify_envelope_def sample_envelope_def sample_canonical_schema sample_action_hash sample_key_provider_def
      envelope_signing_bytes_def envelope_material_of_def)
    (simp add: sample_action_env_def sample_signer_def)

lemma verified_envelope_is_bound_witness:
  "action_hash sample_action_env sample_canonical = Ok (env_action_hash sample_envelope)
   \<and> env_signed_at sample_envelope \<le> 7"
  using verified_envelope_is_bound [OF sample_envelope_verifies] by simp

end
