(* ===== verification/Tool_Registry.thy ===== *)
theory Tool_Registry
  imports Action_Ir
begin

text \<open>
  The tool registry in memory (\<open>registry/src/lib.rs\<close>): manifests, their lifecycle from draft to
  revoked, the checks of a manifest and of its JSON schemas, exact resolution, snapshots and the
  discovery of capabilities.

  Parameters of \<open>registry_env\<close>: \<open>rg_jcs_*\<close> is canonical JSON, \<open>rg_uuid\<close> the UUID a text parses to,
  \<open>rg_compiles\<close> and \<open>rg_accepts\<close> are the JSON Schema library. A tool reference is a key of the
  registry by its identifier and version.
\<close>

subsection \<open>Manifests\<close>

datatype registry_error = RgToolNotFound | RgVersionRequired | RgVersionNotActive | RgToolRevoked
  | RgSchemaInvalid | RgArgumentInvalid | RgOutputInvalid | RgManifestHashMismatch
  | RgSignatureInvalid | RgImplementationDigestMismatch | RgCompensationInvalid | RgProfileNotFound
  | RgUnavailableFailClosed | RgVersionConflict | RgLifecycleInvalid | RgStoreFailure
  | RgManagementIdentityNotConfigured | RgManagementForbidden | RgInMemoryProductionForbidden
  | RgPublisherNotConfigured | RgPublisherInvalid | RgPublisherConflict | RgPublisherInUse
  | RgIdempotencyInvalid | RgIdempotencyConflict | RgTenantRequired

datatype tool_version_status = VDraft | VValidated | VSigned | VActive | VDeprecated | VRevoked

datatype implementation_kind = WasmComponent | OciContainer | InternalService | HttpProxy
  | McpServer | IndustrialGateway

record manifest_signature =
  msg_publisher_id :: string
  msg_key_id :: string
  msg_algorithm :: string
  msg_signature :: string

record compensation_binding =
  cob_tool :: tool_ref
  cob_precondition_kind :: string

record tool_limits =
  tli_timeout_ms :: u64
  tli_max_result_bytes :: u64

record tool_implementation =
  tim_kind :: implementation_kind
  tim_digest :: string
  tim_executor_id :: string

record tool_manifest =
  tm_schema_version :: string
  tm_tool_id :: string
  tm_tool_version :: string
  tm_status :: tool_version_status
  tm_domain :: string
  tm_display_name :: string
  tm_description :: string
  tm_input_schema :: json
  tm_output_schema :: json
  tm_effect_class :: effect_class
  tm_risk_level :: risk_level
  tm_executor_profile :: string
  tm_credential_profile :: string
  tm_approval_profile :: string
  tm_compensation :: "compensation_binding option"
  tm_limits :: tool_limits
  tm_network_profile_ref :: string
  tm_filesystem_profile_ref :: string
  tm_implementation :: tool_implementation
  tm_allowed_tenants :: "string set"
  tm_signature :: "manifest_signature option"

record capability_manifest =
  cm_schema_version :: string
  cm_capability_id :: string
  cm_capability_version :: string
  cm_description :: string
  cm_required_tools :: "tool_ref list"
  cm_optional_tools :: "tool_ref list"
  cm_risk_summary :: risk_level
  cm_supported_protocols :: "string set"
  cm_allowed_tenants :: "string set"
  cm_signature :: manifest_signature

record capability_descriptor =
  cds_manifest :: capability_manifest
  cds_discovery_only :: bool
  cds_authorization_required :: bool

record capability_query =
  cq_tenant_id :: string
  cq_protocol :: "string option"
  cq_maximum_risk :: risk_level

record resolved_tool =
  rto_schema_version :: string
  rto_tool_id :: string
  rto_tool_version :: string
  rto_schema_hash :: string
  rto_manifest_hash :: string
  rto_effect_class :: effect_class
  rto_risk_level :: risk_level
  rto_executor_profile :: string
  rto_credential_profile :: string
  rto_approval_profile :: string
  rto_compensation :: "compensation_binding option"
  rto_limits :: tool_limits
  rto_network_profile_ref :: string
  rto_filesystem_profile_ref :: string
  rto_implementation :: tool_implementation
  rto_registry_revision :: u64
  rto_resolved_at :: datetime
  rto_snapshot_hash :: string
  rto_input_schema :: json
  rto_output_schema :: json

definition policy_snapshot :: "resolved_tool \<Rightarrow> registry_policy_snapshot" where
  "policy_snapshot t = \<lparr>rps_snapshot_hash = rto_snapshot_hash t, rps_tool_id = rto_tool_id t,
     rps_tool_version = rto_tool_version t, rps_risk = rto_risk_level t, rps_effect = rto_effect_class t,
     rps_implementation_digest = tim_digest (rto_implementation t)\<rparr>"

record registry_snapshot =
  rsn_schema_version :: string
  rsn_tenant_id :: string
  rsn_revision :: u64
  rsn_tools :: "resolved_tool list"
  rsn_snapshot_hash :: string
  rsn_signed_at :: datetime
  rsn_signature :: "manifest_signature option"

definition REGISTRY_SCHEMA_VERSION :: string where
  "REGISTRY_SCHEMA_VERSION = ''agenttrust.registry.v1''"

definition manifest_tool_ref :: "tool_manifest \<Rightarrow> tool_ref" where
  "manifest_tool_ref m = \<lparr>tr_tool_id = tm_tool_id m, tr_tool_version = tm_tool_version m\<rparr>"

type_synonym tool_key = "string \<times> string"

definition tool_key :: "tool_ref \<Rightarrow> tool_key" where
  "tool_key t = (tr_tool_id t, tr_tool_version t)"

record ('sk, 'vk) registry_env =
  rg_signer :: "('sk, 'vk) signer"
  rg_jcs_manifest :: "tool_manifest \<Rightarrow> string option"
  rg_jcs_schemas :: "json \<times> json \<Rightarrow> string option"
  rg_jcs_tool :: "resolved_tool \<Rightarrow> string option"
  rg_jcs_registry :: "registry_snapshot \<Rightarrow> string option"
  rg_sha256_hex :: "string \<Rightarrow> string"
  rg_uuid :: "string \<Rightarrow> string option"
  rg_compiles :: "json \<Rightarrow> bool"
  rg_accepts :: "json \<Rightarrow> json \<Rightarrow> bool"

definition hash_or :: "(string \<Rightarrow> string) \<Rightarrow> registry_error \<Rightarrow> string option \<Rightarrow> registry_error + string" where
  "hash_or sha256_hex e bytes = (case bytes of None \<Rightarrow> Err e | Some b \<Rightarrow> Ok (sha256_hex b))"

definition canonical_manifest_hash ::
  "('sk, 'vk) registry_env \<Rightarrow> tool_manifest \<Rightarrow> registry_error + string" where
  "canonical_manifest_hash env m =
     hash_or (rg_sha256_hex env) RgManifestHashMismatch
       (rg_jcs_manifest env (m\<lparr>tm_signature := None, tm_status := VDraft\<rparr>))"

definition canonical_schema_pair_hash ::
  "('sk, 'vk) registry_env \<Rightarrow> tool_manifest \<Rightarrow> registry_error + string" where
  "canonical_schema_pair_hash env m =
     hash_or (rg_sha256_hex env) RgSchemaInvalid
       (rg_jcs_schemas env (tm_input_schema m, tm_output_schema m))"

subsection \<open>Texts\<close>

definition valid_text :: "string \<Rightarrow> nat \<Rightarrow> bool" where
  "valid_text value maximum \<longleftrightarrow> value \<noteq> [] \<and> length (utf8_chars value) \<le> maximum
     \<and> value = str_trim value \<and> \<not> any_control value"

definition first_byte :: "(char \<Rightarrow> bool) \<Rightarrow> string \<Rightarrow> bool" where
  "first_byte p s = (case s of [] \<Rightarrow> False | c # _ \<Rightarrow> p c)"

definition valid_identifier :: "string \<Rightarrow> nat \<Rightarrow> bool" where
  "valid_identifier value maximum \<longleftrightarrow> valid_text value maximum \<and> first_byte is_ascii_alphanumeric value
     \<and> list_all (\<lambda>b. is_ascii_alphanumeric b \<or> b \<in> set ''._:-'') value"

definition valid_domain :: "string \<Rightarrow> bool" where
  "valid_domain value \<longleftrightarrow> value \<noteq> [] \<and> length value \<le> 64 \<and> first_byte is_ascii_lowercase value
     \<and> list_all (\<lambda>b. is_ascii_lowercase b \<or> is_ascii_digit b \<or> b = CHR ''-'') value"

definition valid_profile_ref :: "string \<Rightarrow> bool" where
  "valid_profile_ref value \<longleftrightarrow> valid_text value 256 \<and> first_byte is_ascii_alphanumeric value
     \<and> list_all (\<lambda>b. is_ascii_alphanumeric b \<or> b \<in> set ''._:/-'') value"

abbreviation split_dots :: "string \<Rightarrow> string list" where
  "split_dots \<equiv> split_bytes (\<lambda>c. c = CHR ''.'')"

definition valid_tool_segment :: "string \<Rightarrow> bool" where
  "valid_tool_segment s \<longleftrightarrow> s \<noteq> [] \<and> length s \<le> 63 \<and> first_byte is_ascii_lowercase s
     \<and> list_all (\<lambda>b. is_ascii_lowercase b \<or> is_ascii_digit b \<or> b = CHR ''-'') s
     \<and> last s \<noteq> CHR ''-''"

definition valid_tool_id :: "string \<Rightarrow> bool" where
  "valid_tool_id value \<longleftrightarrow> length value \<le> 128 \<and> length (split_dots value) \<ge> 2
     \<and> list_all valid_tool_segment (split_dots value)"

fun split_once :: "char \<Rightarrow> string \<Rightarrow> (string \<times> string) option" where
  "split_once sep [] = None"
| "split_once sep (c # cs) =
     (if c = sep then Some ([], cs)
      else map_option (\<lambda>(a, b). (c # a, b)) (split_once sep cs))"

definition valid_semver_number :: "string \<Rightarrow> bool" where
  "valid_semver_number value \<longleftrightarrow> value \<noteq> [] \<and> (value = ''0'' \<or> hd value \<noteq> CHR ''0'')
     \<and> list_all is_ascii_digit value"

definition valid_semver_identifiers :: "string \<Rightarrow> bool \<Rightarrow> bool" where
  "valid_semver_identifiers value reject_numeric_leading_zero \<longleftrightarrow> value \<noteq> []
     \<and> list_all (\<lambda>i. i \<noteq> [] \<and> list_all (\<lambda>b. is_ascii_alphanumeric b \<or> b = CHR ''-'') i
         \<and> (\<not> reject_numeric_leading_zero \<or> \<not> list_all is_ascii_digit i \<or> i = ''0'' \<or> hd i \<noteq> CHR ''0''))
       (split_dots value)"

definition split_optional :: "char \<Rightarrow> string \<Rightarrow> string \<times> string option" where
  "split_optional sep value =
     (case split_once sep value of None \<Rightarrow> (value, None) | Some (a, b) \<Rightarrow> (a, Some b))"

definition valid_semver :: "string \<Rightarrow> bool" where
  "valid_semver value =
     (if value = [] \<or> length value > 128 then False
      else (case split_optional (CHR ''+'') value of
        (version, build) \<Rightarrow>
          if (case build of None \<Rightarrow> False
                | Some i \<Rightarrow> CHR ''+'' \<in> set i \<or> \<not> valid_semver_identifiers i False)
          then False
          else (case split_optional (CHR ''-'') version of
            (core, prerelease) \<Rightarrow>
              if (case prerelease of None \<Rightarrow> False | Some i \<Rightarrow> \<not> valid_semver_identifiers i True)
              then False
              else length (split_dots core) = 3 \<and> list_all valid_semver_number (split_dots core))))"

subsection \<open>Schemas\<close>

definition declares_object :: "(string, json) btree \<Rightarrow> bool" where
  "declares_object m =
     (case bt_get m ''type'' of
        Some (JString s) \<Rightarrow> s = ''object''
      | Some (JArray vs) \<Rightarrow> list_ex (\<lambda>v. json_text v = Some ''object'') vs
      | _ \<Rightarrow> False)"

definition closed_object :: "(string, json) btree \<Rightarrow> bool" where
  "closed_object m \<longleftrightarrow> \<not> declares_object m \<or> bt_get m ''additionalProperties'' = Some (JBool False)"

definition local_reference :: "(string, json) btree \<Rightarrow> string \<Rightarrow> bool" where
  "local_reference m keyword =
     (case bt_get m keyword of None \<Rightarrow> True
      | Some r \<Rightarrow> (case json_text r of None \<Rightarrow> False | Some t \<Rightarrow> strip_prefix ''#'' t \<noteq> None))"

definition reference_keywords :: "string list" where
  "reference_keywords = [''$ref'', ''$dynamicRef'', ''$recursiveRef'']"

fun schema_walk :: "nat \<Rightarrow> json \<Rightarrow> registry_error + unit"
  and schema_walk_fields :: "nat \<Rightarrow> (string \<times> json) list \<Rightarrow> registry_error + unit"
  and schema_walk_items :: "nat \<Rightarrow> json list \<Rightarrow> registry_error + unit" where
  "schema_walk depth v =
     (if depth > 32 then Err RgSchemaInvalid
      else (case v of
         JObject m \<Rightarrow>
           if \<not> closed_object m then Err RgSchemaInvalid
           else if \<not> list_all (local_reference m) reference_keywords then Err RgSchemaInvalid
           else schema_walk_fields (Suc depth) m
       | JArray vs \<Rightarrow> schema_walk_items (Suc depth) vs
       | _ \<Rightarrow> Ok ()))"
| "schema_walk_fields depth [] = Ok ()"
| "schema_walk_fields depth ((k, v) # m) =
     res_bind (schema_walk depth v) (\<lambda>_. schema_walk_fields depth m)"
| "schema_walk_items depth [] = Ok ()"
| "schema_walk_items depth (v # vs) =
     res_bind (schema_walk depth v) (\<lambda>_. schema_walk_items depth vs)"

declare schema_walk.simps [simp del]

definition validate_schema_security :: "json \<Rightarrow> registry_error + unit" where
  "validate_schema_security schema =
     (case json_object schema of
        None \<Rightarrow> Err RgSchemaInvalid
      | Some root \<Rightarrow>
          if root = []
             \<or> (case bt_get root ''$schema'' of None \<Rightarrow> False
                | Some v \<Rightarrow> json_text v \<noteq> Some ''https://json-schema.org/draft/2020-12/schema'')
             \<or> \<not> closed_object root
          then Err RgSchemaInvalid else schema_walk 0 schema)"

definition compile_schema :: "('sk, 'vk) registry_env \<Rightarrow> json \<Rightarrow> registry_error + unit" where
  "compile_schema env schema = reject_if (\<not> rg_compiles env schema) RgSchemaInvalid"

definition validate_schema_instance ::
  "('sk, 'vk) registry_env \<Rightarrow> json \<Rightarrow> json \<Rightarrow> bool \<Rightarrow> registry_error + unit" where
  "validate_schema_instance env schema value output =
     res_bind (compile_schema env schema) (\<lambda>_.
       reject_if (\<not> rg_accepts env schema value) (if output then RgOutputInvalid else RgArgumentInvalid))"

subsection \<open>Checks of a manifest\<close>

definition tenants_valid :: "('sk, 'vk) registry_env \<Rightarrow> string set \<Rightarrow> bool" where
  "tenants_valid env tenants \<longleftrightarrow> tenants \<noteq> {} \<and> (\<forall>t \<in> tenants. rg_uuid env t = Some t)"

definition texts_valid :: "tool_manifest \<Rightarrow> bool" where
  "texts_valid m \<longleftrightarrow> tm_schema_version m = REGISTRY_SCHEMA_VERSION \<and> valid_tool_id (tm_tool_id m)
     \<and> valid_semver (tm_tool_version m) \<and> valid_domain (tm_domain m)
     \<and> valid_text (tm_display_name m) 256 \<and> valid_text (tm_description m) 8192
     \<and> list_all valid_profile_ref [tm_executor_profile m, tm_credential_profile m, tm_approval_profile m,
          tm_network_profile_ref m, tm_filesystem_profile_ref m, tim_executor_id (tm_implementation m)]"

definition compensation_valid :: "tool_manifest \<Rightarrow> bool" where
  "compensation_valid m =
     (case tm_compensation m of None \<Rightarrow> True
      | Some c \<Rightarrow> valid_tool_id (tr_tool_id (cob_tool c)) \<and> valid_semver (tr_tool_version (cob_tool c))
          \<and> valid_profile_ref (cob_precondition_kind c))"

definition signature_shape_valid :: "('sk, 'vk) registry_env \<Rightarrow> tool_manifest \<Rightarrow> bool" where
  "signature_shape_valid env m =
     (case tm_signature m of None \<Rightarrow> True
      | Some g \<Rightarrow> sg_decodes (rg_signer env) (msg_signature g) \<and> msg_algorithm g = ''Ed25519''
          \<and> valid_identifier (msg_publisher_id g) 128 \<and> valid_identifier (msg_key_id g) 128)"

definition tool_limits_valid :: "tool_limits \<Rightarrow> bool" where
  "tool_limits_valid l \<longleftrightarrow> tli_timeout_ms l \<noteq> 0 \<and> tli_timeout_ms l \<le> 86400000
     \<and> tli_max_result_bytes l \<noteq> 0 \<and> tli_max_result_bytes l \<le> 1073741824"

definition effects_valid :: "tool_manifest \<Rightarrow> bool" where
  "effects_valid m \<longleftrightarrow> \<not> (tm_effect_class m = Pure \<and> tm_credential_profile m \<noteq> ''none'')
     \<and> \<not> (tm_effect_class m = Compensatable \<and> tm_compensation m = None)
     \<and> \<not> (tm_effect_class m = Irreversible
          \<and> (tm_risk_level m < High \<or> tm_approval_profile m = ''none''))"

definition validate_manifest_shape ::
  "('sk, 'vk) registry_env \<Rightarrow> tool_manifest \<Rightarrow> registry_error + unit" where
  "validate_manifest_shape env m =
     (if \<not> texts_valid m then Err RgSchemaInvalid
      else if \<not> tenants_valid env (tm_allowed_tenants m) then Err RgSchemaInvalid
      else if \<not> compensation_valid m then Err RgCompensationInvalid
      else if \<not> signature_shape_valid env m then Err RgSignatureInvalid
      else res_bind (validate_schema_security (tm_input_schema m)) (\<lambda>_.
        res_bind (validate_schema_security (tm_output_schema m)) (\<lambda>_.
        res_bind (compile_schema env (tm_input_schema m)) (\<lambda>_.
        res_bind (compile_schema env (tm_output_schema m)) (\<lambda>_.
        if \<not> valid_implementation_digest (tim_digest (tm_implementation m))
          then Err RgImplementationDigestMismatch
        else if \<not> tool_limits_valid (tm_limits m) then Err RgSchemaInvalid
        else if \<not> effects_valid m then Err RgCompensationInvalid
        else Ok ())))))"

subsection \<open>The registry\<close>

record tool_record =
  trc_manifest :: tool_manifest
  trc_manifest_hash :: string
  trc_schema_hash :: string
  trc_revision :: u64

record 'vk tool_registry =
  trg_tools :: "(tool_key, tool_record) btree"
  trg_capabilities :: "(string \<times> string, capability_manifest) btree"
  trg_publisher_keys :: "(string, 'vk) btree"
  trg_revision :: u64
  trg_available :: bool

definition tool_registry_new :: "'vk tool_registry" where
  "tool_registry_new = \<lparr>trg_tools = bt_empty, trg_capabilities = bt_empty,
     trg_publisher_keys = bt_empty, trg_revision = 0, trg_available = True\<rparr>"

definition add_publisher_key :: "string \<Rightarrow> 'vk \<Rightarrow> 'vk tool_registry \<Rightarrow> 'vk tool_registry" where
  "add_publisher_key key_id key s =
     s\<lparr>trg_publisher_keys := bt_insert key_id key (trg_publisher_keys s)\<rparr>"

definition set_available :: "bool \<Rightarrow> 'vk tool_registry \<Rightarrow> 'vk tool_registry" where
  "set_available available s = s\<lparr>trg_available := available\<rparr>"

text \<open>The registry with the record, written at the next revision.\<close>

definition store_record :: "tool_key \<Rightarrow> tool_record \<Rightarrow> 'vk tool_registry \<Rightarrow> 'vk tool_registry" where
  "store_record k r s =
     s\<lparr>trg_revision := trg_revision s + 1,
       trg_tools := bt_insert k (r\<lparr>trc_revision := trg_revision s + 1\<rparr>) (trg_tools s)\<rparr>"

definition create_tool_draft ::
  "('sk, 'vk) registry_env \<Rightarrow> tool_manifest \<Rightarrow> 'vk tool_registry
   \<Rightarrow> (registry_error + unit) \<times> 'vk tool_registry" where
  "create_tool_draft env manifest s =
     (let m = manifest\<lparr>tm_status := VDraft, tm_signature := None\<rparr>; k = tool_key (manifest_tool_ref m) in
      if \<not> is_ok (validate_exact (manifest_tool_ref m)) then (Err RgVersionRequired, s)
      else if bt_contains (trg_tools s) k then (Err RgVersionConflict, s)
      else (case (canonical_manifest_hash env m, canonical_schema_pair_hash env m) of
          (Inl e, _) \<Rightarrow> (Err e, s\<lparr>trg_revision := trg_revision s + 1\<rparr>)
        | (_, Inl e) \<Rightarrow> (Err e, s\<lparr>trg_revision := trg_revision s + 1\<rparr>)
        | (Inr manifest_hash, Inr schema_hash) \<Rightarrow>
            (Ok (), store_record k \<lparr>trc_manifest = m, trc_manifest_hash = manifest_hash,
               trc_schema_hash = schema_hash, trc_revision = 0\<rparr> s)))"

definition validate_tool_manifest ::
  "('sk, 'vk) registry_env \<Rightarrow> tool_manifest \<Rightarrow> (tool_key, tool_record) btree \<Rightarrow> registry_error + unit" where
  "validate_tool_manifest env m tools =
     res_bind (validate_manifest_shape env m) (\<lambda>_.
       if tm_effect_class m = Compensatable
       then (case tm_compensation m of
               None \<Rightarrow> Err RgCompensationInvalid
             | Some c \<Rightarrow> reject_if (\<not> bt_contains tools (tool_key (cob_tool c))
                 \<and> cob_tool c \<noteq> manifest_tool_ref m) RgCompensationInvalid)
       else Ok ())"

text \<open>
  A record with the status of a lifecycle step, written at the next revision. Every step looks the
  record up and refuses a status it does not start from.
\<close>

definition with_status :: "tool_version_status \<Rightarrow> tool_record \<Rightarrow> tool_record" where
  "with_status status r = r\<lparr>trc_manifest := (trc_manifest r)\<lparr>tm_status := status\<rparr>\<rparr>"

definition lifecycle_step ::
  "tool_version_status set \<Rightarrow> (tool_record \<Rightarrow> registry_error + tool_record) \<Rightarrow> tool_ref
   \<Rightarrow> 'vk tool_registry \<Rightarrow> (registry_error + unit) \<times> 'vk tool_registry" where
  "lifecycle_step from_statuses change tool s =
     (case bt_get (trg_tools s) (tool_key tool) of
        None \<Rightarrow> (Err RgToolNotFound, s)
      | Some r \<Rightarrow>
          if tm_status (trc_manifest r) \<notin> from_statuses then (Err RgLifecycleInvalid, s)
          else (case change r of
                  Inl e \<Rightarrow> (Err e, s)
                | Inr r' \<Rightarrow> (Ok (), store_record (tool_key tool) r' s)))"

definition validate_version ::
  "('sk, 'vk) registry_env \<Rightarrow> tool_ref \<Rightarrow> 'vk tool_registry
   \<Rightarrow> (registry_error + unit) \<times> 'vk tool_registry" where
  "validate_version env tool s =
     lifecycle_step {VDraft} (\<lambda>r. res_bind (validate_tool_manifest env (trc_manifest r) (trg_tools s))
       (\<lambda>_. Ok (with_status VValidated r))) tool s"

definition sign_version ::
  "('sk, 'vk) registry_env \<Rightarrow> tool_ref \<Rightarrow> string \<Rightarrow> string \<Rightarrow> 'sk \<Rightarrow> 'vk tool_registry
   \<Rightarrow> (registry_error + unit) \<times> 'vk tool_registry" where
  "sign_version env tool publisher_id key_id key s =
     lifecycle_step {VValidated} (\<lambda>r. Ok (with_status VSigned
       (r\<lparr>trc_manifest := (trc_manifest r)\<lparr>tm_signature := Some
          \<lparr>msg_publisher_id = publisher_id, msg_key_id = key_id, msg_algorithm = ''Ed25519'',
           msg_signature = sg_sign (rg_signer env) key (trc_manifest_hash r)\<rparr>\<rparr>\<rparr>))) tool s"

definition verify_manifest_signature ::
  "('sk, 'vk) registry_env \<Rightarrow> tool_record \<Rightarrow> (string, 'vk) btree \<Rightarrow> registry_error + unit" where
  "verify_manifest_signature env r keys =
     (case tm_signature (trc_manifest r) of
        None \<Rightarrow> Err RgSignatureInvalid
      | Some g \<Rightarrow>
          if msg_algorithm g \<noteq> ''Ed25519'' then Err RgSignatureInvalid
          else (case bt_get keys (msg_key_id g) of
                  None \<Rightarrow> Err RgSignatureInvalid
                | Some key \<Rightarrow> reject_if (\<not> sg_decodes (rg_signer env) (msg_signature g)
                    \<or> \<not> sg_verify (rg_signer env) key (trc_manifest_hash r) (msg_signature g))
                    RgSignatureInvalid))"

definition activate ::
  "('sk, 'vk) registry_env \<Rightarrow> tool_ref \<Rightarrow> 'vk tool_registry
   \<Rightarrow> (registry_error + unit) \<times> 'vk tool_registry" where
  "activate env tool s =
     lifecycle_step {VSigned} (\<lambda>r. res_bind (verify_manifest_signature env r (trg_publisher_keys s))
       (\<lambda>_. Ok (with_status VActive r))) tool s"

definition registry_transition ::
  "tool_ref \<Rightarrow> tool_version_status \<Rightarrow> tool_version_status \<Rightarrow> 'vk tool_registry
   \<Rightarrow> (registry_error + unit) \<times> 'vk tool_registry" where
  "registry_transition tool from_status to_status s =
     lifecycle_step {from_status} (\<lambda>r. Ok (with_status to_status r)) tool s"

definition deprecate ::
  "tool_ref \<Rightarrow> 'vk tool_registry \<Rightarrow> (registry_error + unit) \<times> 'vk tool_registry" where
  "deprecate tool s = registry_transition tool VActive VDeprecated s"

definition revoke_tool ::
  "tool_ref \<Rightarrow> 'vk tool_registry \<Rightarrow> (registry_error + unit) \<times> 'vk tool_registry" where
  "revoke_tool tool s = lifecycle_step {VActive, VDeprecated} (\<lambda>r. Ok (with_status VRevoked r)) tool s"

definition register_capability ::
  "capability_manifest \<Rightarrow> 'vk tool_registry \<Rightarrow> (registry_error + unit) \<times> 'vk tool_registry" where
  "register_capability m s =
     (if cm_schema_version m \<noteq> REGISTRY_SCHEMA_VERSION then (Err RgSchemaInvalid, s)
      else (Ok (), s\<lparr>trg_capabilities :=
        bt_insert (cm_capability_id m, cm_capability_version m) m (trg_capabilities s)\<rparr>))"

subsection \<open>Resolution\<close>

definition tool_snapshot_hash ::
  "('sk, 'vk) registry_env \<Rightarrow> resolved_tool \<Rightarrow> registry_error + string" where
  "tool_snapshot_hash env t =
     hash_or (rg_sha256_hex env) RgManifestHashMismatch
       (rg_jcs_tool env (t\<lparr>rto_snapshot_hash := [], rto_resolved_at := 0\<rparr>))"

definition resolved_of ::
  "tool_manifest \<Rightarrow> string \<Rightarrow> string \<Rightarrow> u64 \<Rightarrow> datetime \<Rightarrow> resolved_tool" where
  "resolved_of m schema_hash manifest_hash revision now =
     \<lparr>rto_schema_version = REGISTRY_SCHEMA_VERSION, rto_tool_id = tm_tool_id m,
      rto_tool_version = tm_tool_version m, rto_schema_hash = schema_hash,
      rto_manifest_hash = manifest_hash, rto_effect_class = tm_effect_class m,
      rto_risk_level = tm_risk_level m, rto_executor_profile = tm_executor_profile m,
      rto_credential_profile = tm_credential_profile m, rto_approval_profile = tm_approval_profile m,
      rto_compensation = tm_compensation m, rto_limits = tm_limits m,
      rto_network_profile_ref = tm_network_profile_ref m,
      rto_filesystem_profile_ref = tm_filesystem_profile_ref m,
      rto_implementation = tm_implementation m, rto_registry_revision = revision,
      rto_resolved_at = now, rto_snapshot_hash = [], rto_input_schema = tm_input_schema m,
      rto_output_schema = tm_output_schema m\<rparr>"

definition seal_resolved ::
  "('sk, 'vk) registry_env \<Rightarrow> resolved_tool \<Rightarrow> registry_error + resolved_tool" where
  "seal_resolved env t = res_bind (tool_snapshot_hash env t) (\<lambda>h. Ok (t\<lparr>rto_snapshot_hash := h\<rparr>))"

definition resolve_exact ::
  "('sk, 'vk) registry_env \<Rightarrow> string \<Rightarrow> tool_ref \<Rightarrow> datetime \<Rightarrow> 'vk tool_registry
   \<Rightarrow> registry_error + resolved_tool" where
  "resolve_exact env tenant tool now s =
     (if \<not> trg_available s then Err RgUnavailableFailClosed
      else if \<not> is_ok (validate_exact tool) then Err RgVersionRequired
      else (case bt_get (trg_tools s) (tool_key tool) of
          None \<Rightarrow> Err RgToolNotFound
        | Some r \<Rightarrow>
            if tm_status (trc_manifest r) = VRevoked then Err RgToolRevoked
            else if tm_status (trc_manifest r) \<noteq> VActive then Err RgVersionNotActive
            else if tm_allowed_tenants (trc_manifest r) \<noteq> {}
                \<and> tenant \<notin> tm_allowed_tenants (trc_manifest r) then Err RgToolNotFound
            else seal_resolved env (resolved_of (trc_manifest r) (trc_schema_hash r)
                   (trc_manifest_hash r) (trc_revision r) now)))"

definition resolved_snapshot_from_active_manifest ::
  "('sk, 'vk) registry_env \<Rightarrow> string \<Rightarrow> tool_manifest \<Rightarrow> bool \<Rightarrow> datetime
   \<Rightarrow> registry_error + resolved_tool" where
  "resolved_snapshot_from_active_manifest env tenant m compensation_target_active now =
     (if tm_status m \<noteq> VActive \<or> (tm_allowed_tenants m \<noteq> {} \<and> tenant \<notin> tm_allowed_tenants m)
      then Err RgVersionNotActive
      else res_bind (validate_manifest_shape env m) (\<lambda>_.
        if tm_effect_class m = Compensatable
           \<and> (case tm_compensation m of None \<Rightarrow> False | Some c \<Rightarrow> cob_tool c \<noteq> manifest_tool_ref m)
           \<and> \<not> compensation_target_active
        then Err RgCompensationInvalid
        else res_bind (canonical_schema_pair_hash env m) (\<lambda>schema_hash.
          res_bind (canonical_manifest_hash env m) (\<lambda>manifest_hash.
            seal_resolved env (resolved_of m schema_hash manifest_hash 0 now)))))"

definition validate_arguments ::
  "('sk, 'vk) registry_env \<Rightarrow> resolved_tool \<Rightarrow> (string, json) btree \<Rightarrow> registry_error + unit" where
  "validate_arguments env t args = validate_schema_instance env (rto_input_schema t) (JObject args) False"

definition validate_output ::
  "('sk, 'vk) registry_env \<Rightarrow> resolved_tool \<Rightarrow> json \<Rightarrow> registry_error + unit" where
  "validate_output env t output = validate_schema_instance env (rto_output_schema t) output True"

definition discoverable :: "capability_query \<Rightarrow> capability_manifest \<Rightarrow> bool" where
  "discoverable q m \<longleftrightarrow> (cm_allowed_tenants m = {} \<or> cq_tenant_id q \<in> cm_allowed_tenants m)
     \<and> cm_risk_summary m \<le> cq_maximum_risk q
     \<and> (case cq_protocol q of None \<Rightarrow> True | Some p \<Rightarrow> p \<in> cm_supported_protocols m)"

definition discover_capabilities ::
  "capability_query \<Rightarrow> 'vk tool_registry \<Rightarrow> registry_error + capability_descriptor list" where
  "discover_capabilities q s =
     (if \<not> trg_available s then Err RgUnavailableFailClosed
      else Ok (map (\<lambda>m. \<lparr>cds_manifest = m, cds_discovery_only = True, cds_authorization_required = True\<rparr>)
        (filter (discoverable q) (bt_values (trg_capabilities s)))))"

fun resolve_all ::
  "('sk, 'vk) registry_env \<Rightarrow> string \<Rightarrow> (tool_ref \<times> datetime) list \<Rightarrow> 'vk tool_registry
   \<Rightarrow> registry_error + resolved_tool list" where
  "resolve_all env tenant [] s = Ok []"
| "resolve_all env tenant ((t, now) # ts) s =
     res_bind (resolve_exact env tenant t now s) (\<lambda>r.
       res_bind (resolve_all env tenant ts s) (\<lambda>rs. Ok (r # rs)))"

definition canonical_registry_snapshot_hash ::
  "('sk, 'vk) registry_env \<Rightarrow> registry_snapshot \<Rightarrow> registry_error + string" where
  "canonical_registry_snapshot_hash env n =
     hash_or (rg_sha256_hex env) RgManifestHashMismatch
       (rg_jcs_registry env (n\<lparr>rsn_snapshot_hash := [], rsn_signature := None\<rparr>))"

text \<open>The clock is read at each resolution and once more at the end.\<close>

definition registry_snapshot_of ::
  "('sk, 'vk) registry_env \<Rightarrow> string \<Rightarrow> (tool_ref \<times> datetime) list \<Rightarrow> datetime \<Rightarrow> 'vk tool_registry
   \<Rightarrow> registry_error + registry_snapshot" where
  "registry_snapshot_of env tenant refs now s =
     res_bind (resolve_all env tenant refs s) (\<lambda>tools.
       let n = \<lparr>rsn_schema_version = REGISTRY_SCHEMA_VERSION, rsn_tenant_id = tenant,
         rsn_revision = trg_revision s,
         rsn_tools = sort_key (\<lambda>t. (rto_tool_id t, rto_tool_version t)) tools,
         rsn_snapshot_hash = [], rsn_signed_at = now, rsn_signature = None\<rparr>
       in res_bind (canonical_registry_snapshot_hash env n) (\<lambda>h. Ok (n\<lparr>rsn_snapshot_hash := h\<rparr>)))"

definition is_revoked :: "tool_ref \<Rightarrow> string \<Rightarrow> 'vk tool_registry \<Rightarrow> registry_error + bool" where
  "is_revoked tool digest s =
     (if \<not> trg_available s then Err RgUnavailableFailClosed
      else (case bt_get (trg_tools s) (tool_key tool) of
          None \<Rightarrow> Err RgToolNotFound
        | Some r \<Rightarrow> Ok (tm_status (trc_manifest r) = VRevoked
            \<or> tim_digest (tm_implementation (trc_manifest r)) \<noteq> digest)))"

end
