(* ===== verification/Tool_Registry_Safety.thy ===== *)
theory Tool_Registry_Safety
  imports Tool_Registry Action_Ir_Safety
begin

text \<open>
  What the registry guarantees in every run: a tool that resolves was validated and its manifest is
  the one that was signed, its resolution never changes, a revoked tool stays revoked. Also the
  references for the check of a schema and for the syntax of a version.
\<close>

subsection \<open>Runs\<close>

inductive registry_step ::
  "('sk, 'vk) registry_env \<Rightarrow> 'vk tool_registry \<Rightarrow> 'vk tool_registry \<Rightarrow> bool" for env where
  "registry_step env s (snd (create_tool_draft env m s))"
| "registry_step env s (snd (validate_version env tool s))"
| "registry_step env s (snd (sign_version env tool publisher_id key_id key s))"
| "registry_step env s (snd (activate env tool s))"
| "registry_step env s (snd (deprecate tool s))"
| "registry_step env s (snd (revoke_tool tool s))"
| "registry_step env s (snd (register_capability c s))"
| "registry_step env s (add_publisher_key key_id vk s)"
| "registry_step env s (set_available b s)"

definition unsigned :: "tool_manifest \<Rightarrow> tool_manifest" where
  "unsigned m = m\<lparr>tm_signature := None, tm_status := VDraft\<rparr>"

text \<open>A manifest whose hash somebody signed with a key.\<close>

definition signed_with :: "('sk, 'vk) registry_env \<Rightarrow> 'vk \<Rightarrow> tool_record \<Rightarrow> bool" where
  "signed_with env key r \<longleftrightarrow> (\<exists>g. tm_signature (trc_manifest r) = Some g
     \<and> msg_algorithm g = ''Ed25519'' \<and> sg_decodes (rg_signer env) (msg_signature g)
     \<and> sg_verify (rg_signer env) key (trc_manifest_hash r) (msg_signature g))"

definition record_ok :: "('sk, 'vk) registry_env \<Rightarrow> tool_key \<Rightarrow> tool_record \<Rightarrow> bool" where
  "record_ok env k r \<longleftrightarrow> (let m = trc_manifest r in
     k = tool_key (manifest_tool_ref m) \<and> is_ok (validate_exact (manifest_tool_ref m))
     \<and> canonical_manifest_hash env m = Ok (trc_manifest_hash r)
     \<and> canonical_schema_pair_hash env m = Ok (trc_schema_hash r)
     \<and> (tm_status m \<noteq> VDraft \<longrightarrow> is_ok (validate_manifest_shape env (unsigned m)))
     \<and> (tm_status m = VDraft \<or> tm_status m = VValidated \<longrightarrow> tm_signature m = None)
     \<and> (tm_status m \<in> {VActive, VDeprecated, VRevoked} \<longrightarrow> (\<exists>key. signed_with env key r)))"

definition registry_ok :: "('sk, 'vk) registry_env \<Rightarrow> 'vk tool_registry \<Rightarrow> bool" where
  "registry_ok env s \<longleftrightarrow> (\<forall>k r. bt_get (trg_tools s) k = Some r \<longrightarrow> record_ok env k r)"

text \<open>The two hashes and the checks see neither the status nor the revision.\<close>

lemma manifest_hash_ignores [simp]:
  "canonical_manifest_hash env (m\<lparr>tm_status := st\<rparr>) = canonical_manifest_hash env m"
  "canonical_manifest_hash env (m\<lparr>tm_signature := g\<rparr>) = canonical_manifest_hash env m"
  "canonical_schema_pair_hash env (m\<lparr>tm_status := st\<rparr>) = canonical_schema_pair_hash env m"
  "canonical_schema_pair_hash env (m\<lparr>tm_signature := g\<rparr>) = canonical_schema_pair_hash env m"
  "manifest_tool_ref (m\<lparr>tm_status := st\<rparr>) = manifest_tool_ref m"
  "manifest_tool_ref (m\<lparr>tm_signature := g\<rparr>) = manifest_tool_ref m"
  "unsigned (m\<lparr>tm_status := st\<rparr>) = unsigned m"
  "unsigned (m\<lparr>tm_signature := g\<rparr>) = unsigned m"
  by (simp_all add: canonical_manifest_hash_def canonical_schema_pair_hash_def manifest_tool_ref_def unsigned_def)

lemma shape_ignores_status: "validate_manifest_shape env (m\<lparr>tm_status := st\<rparr>) = validate_manifest_shape env m"
  by (simp add: validate_manifest_shape_def texts_valid_def compensation_valid_def signature_shape_valid_def
      effects_valid_def)

lemma shape_of_unsigned: "tm_signature m = None \<Longrightarrow> validate_manifest_shape env (unsigned m) = validate_manifest_shape env m"
  using shape_ignores_status [where m = m and st = VDraft and env = env] by (cases m) (simp add: unsigned_def)

lemma record_ok_revision [simp]: "record_ok env k (r\<lparr>trc_revision := v\<rparr>) = record_ok env k r"
  by (simp add: record_ok_def signed_with_def)

lemma store_record_ok:
  assumes "registry_ok env s" and "record_ok env k r"
  shows "registry_ok env (store_record k r s)"
  using assms by (simp add: registry_ok_def store_record_def bt_get_insert)

lemma lifecycle_step_cases:
  obtains (same) "snd (lifecycle_step froms change tool s) = s"
  | (changed) r r' where "bt_get (trg_tools s) (tool_key tool) = Some r" "tm_status (trc_manifest r) \<in> froms"
      "change r = Ok r'" "snd (lifecycle_step froms change tool s) = store_record (tool_key tool) r' s"
  unfolding lifecycle_step_def by (fastforce split: option.splits sum.splits if_splits)

lemma lifecycle_step_ok:
  assumes "registry_ok env s"
    and "\<And>k r r'. record_ok env k r \<Longrightarrow> tm_status (trc_manifest r) \<in> froms \<Longrightarrow> change r = Ok r' \<Longrightarrow> record_ok env k r'"
  shows "registry_ok env (snd (lifecycle_step froms change tool s))"
proof (cases rule: lifecycle_step_cases [of froms change tool s])
  case (changed r r')
  have "record_ok env (tool_key tool) r"
    using assms(1) changed(1) unfolding registry_ok_def by blast
  then show ?thesis
    using changed assms by (simp add: store_record_ok)
qed (use assms in simp)

lemma create_tool_draft_cases:
  obtains (same) v where "snd (create_tool_draft env m s) = s\<lparr>trg_revision := v\<rparr>"
  | (created) m' h g where "m' = unsigned m" "bt_get (trg_tools s) (tool_key (manifest_tool_ref m')) = None"
      "is_ok (validate_exact (manifest_tool_ref m'))" "canonical_manifest_hash env m' = Ok h"
      "canonical_schema_pair_hash env m' = Ok g"
      "snd (create_tool_draft env m s) = store_record (tool_key (manifest_tool_ref m'))
         \<lparr>trc_manifest = m', trc_manifest_hash = h, trc_schema_hash = g, trc_revision = 0\<rparr> s"
proof -
  let ?m = "m\<lparr>tm_status := VDraft, tm_signature := None\<rparr>"
  have u: "?m = unsigned m" by (simp add: unsigned_def)
  show thesis
  proof (cases "is_ok (validate_exact (manifest_tool_ref ?m)) \<and> \<not> bt_contains (trg_tools s) (tool_key (manifest_tool_ref ?m))")
    case True
    show ?thesis
    proof (cases "canonical_manifest_hash env ?m")
      case (Inr h)
      show ?thesis
      proof (cases "canonical_schema_pair_hash env ?m")
        case (Inr g)
        show ?thesis
          using created [of ?m h g] True Inr \<open>canonical_manifest_hash env ?m = Ok h\<close> u
          by (simp add: create_tool_draft_def Let_def bt_contains_def)
      qed (use same [of "trg_revision s + 1"] True Inr in \<open>simp add: create_tool_draft_def Let_def\<close>)
    qed (use same [of "trg_revision s + 1"] True in \<open>simp add: create_tool_draft_def Let_def\<close>)
  qed (use same [of "trg_revision s"] in \<open>auto simp: create_tool_draft_def Let_def\<close>)
qed

lemma registry_step_ok:
  assumes "registry_step env s t" and "registry_ok env s"
  shows "registry_ok env t"
  using assms
proof (induction rule: registry_step.induct)
  case (1 s m)
  then show ?case
  proof (cases rule: create_tool_draft_cases [of env m s])
    case (created m' h g)
    then show ?thesis
      using 1 by (auto intro!: store_record_ok simp: record_ok_def Let_def unsigned_def)
  qed (simp add: registry_ok_def)
next
  case (2 s tool)
  have "is_ok (validate_manifest_shape env (trc_manifest r))"
    if "validate_tool_manifest env (trc_manifest r) tools = Ok u" for r tools u
    using that by (auto simp: validate_tool_manifest_def res_bind_Ok_iff)
  then show ?case
    using 2 unfolding validate_version_def
    by (intro lifecycle_step_ok)
      (auto simp: record_ok_def with_status_def Let_def res_bind_Ok_iff shape_of_unsigned)
next
  case (3 s tool publisher_id key_id key)
  then show ?case
    unfolding sign_version_def
    by (intro lifecycle_step_ok) (auto simp: record_ok_def with_status_def Let_def)
next
  case (4 s tool)
  have "\<exists>key. signed_with env key r" if "verify_manifest_signature env r keys = Ok u" for r keys u
    using that by (auto simp: verify_manifest_signature_def signed_with_def split: option.splits if_splits)
  then show ?case
    using 4 unfolding activate_def
    by (intro lifecycle_step_ok)
      (auto simp: record_ok_def with_status_def Let_def res_bind_Ok_iff signed_with_def)
next
  case (5 s tool)
  then show ?case
    unfolding deprecate_def registry_transition_def
    by (intro lifecycle_step_ok) (auto simp: record_ok_def with_status_def Let_def signed_with_def)
next
  case (6 s tool)
  then show ?case
    unfolding revoke_tool_def
    by (intro lifecycle_step_ok) (auto simp: record_ok_def with_status_def Let_def signed_with_def)
qed (simp_all add: registry_ok_def register_capability_def add_publisher_key_def set_available_def)

interpretation registry_machine: invariant_system "registry_step env" "registry_ok env" "\<lambda>s. s = tool_registry_new" for env
proof unfold_locales
  show "registry_ok env s" if "s = tool_registry_new" for s
    using that by (simp add: registry_ok_def tool_registry_new_def bt_get_def bt_empty_def)
qed (rule registry_step_ok)

subsection \<open>Resolution\<close>

lemma resolve_exact_Ok_iff:
  "resolve_exact env tenant tool now s = Ok t \<longleftrightarrow> trg_available s \<and> is_ok (validate_exact tool)
     \<and> (\<exists>r. bt_get (trg_tools s) (tool_key tool) = Some r \<and> tm_status (trc_manifest r) = VActive
         \<and> (tm_allowed_tenants (trc_manifest r) = {} \<or> tenant \<in> tm_allowed_tenants (trc_manifest r))
         \<and> seal_resolved env (resolved_of (trc_manifest r) (trc_schema_hash r) (trc_manifest_hash r)
              (trc_revision r) now) = Ok t)"
  by (auto simp: resolve_exact_def split: option.splits)

lemma seal_resolved_Ok:
  "seal_resolved env t = Ok u \<Longrightarrow> tool_snapshot_hash env u = Ok (rto_snapshot_hash u) \<and> u = t\<lparr>rto_snapshot_hash := rto_snapshot_hash u\<rparr>"
  by (auto simp: seal_resolved_def res_bind_Ok_iff tool_snapshot_hash_def)

lemma shape_valid_unsigned:
  assumes "is_ok (validate_manifest_shape env (unsigned m))"
  shows "texts_valid m" "tenants_valid env (tm_allowed_tenants m)" "tool_limits_valid (tm_limits m)"
    "effects_valid m" "valid_implementation_digest (tim_digest (tm_implementation m))"
    "is_ok (validate_schema_security (tm_input_schema m))" "is_ok (validate_schema_security (tm_output_schema m))"
  using assms by (auto simp: validate_manifest_shape_def is_ok_iff res_bind_Ok_iff unsigned_def texts_valid_def
      effects_valid_def split: if_splits)

text \<open>
  An active record was verified when it was activated, against the publisher keys of that moment; later
  steps change neither its signature nor its hash.
\<close>

lemma verify_signature_cong:
  assumes "tm_signature (trc_manifest r) = tm_signature (trc_manifest r')" and "trc_manifest_hash r = trc_manifest_hash r'"
  shows "verify_manifest_signature env r keys = verify_manifest_signature env r' keys"
  by (simp only: verify_manifest_signature_def assms)

lemma active_origin:
  assumes "registry_step env s t" and "bt_get (trg_tools t) k = Some r" and "tm_status (trc_manifest r) = VActive"
  shows "(\<exists>r0. bt_get (trg_tools s) k = Some r0 \<and> tm_status (trc_manifest r0) = VActive
            \<and> tm_signature (trc_manifest r0) = tm_signature (trc_manifest r)
            \<and> trc_manifest_hash r0 = trc_manifest_hash r)
    \<or> verify_manifest_signature env r (trg_publisher_keys s) = Ok ()"
    (is "?old r \<or> ?verified r")
proof -
  have step: "?old r \<or> ?verified r"
    if "bt_get (trg_tools (snd (lifecycle_step froms change tool s))) k = Some r"
      "\<And>q q'. change q = Ok q' \<Longrightarrow> tm_status (trc_manifest q') = VActive \<Longrightarrow> ?verified q'"
    for froms change tool
  proof (cases rule: lifecycle_step_cases [of froms change tool s])
    case same
    then show ?thesis using that(1) assms(3) by auto
  next
    case (changed q q')
    show ?thesis
    proof (cases "k = tool_key tool")
      case True
      then have r: "r = q'\<lparr>trc_revision := trg_revision s + 1\<rparr>"
        using changed(4) that(1) by (simp add: store_record_def bt_get_insert)
      then have "?verified q'"
        using that(2) [OF changed(3)] assms(3) by simp
      then show ?thesis
        using verify_signature_cong [of r q' env] by (simp add: r)
    next
      case False
      then show ?thesis
        using changed(4) that(1) assms(3) by (auto simp: store_record_def bt_get_insert)
    qed
  qed
  from assms(1) show ?thesis
  proof (cases rule: registry_step.cases)
    case (1 m)
    then show ?thesis
    proof (cases rule: create_tool_draft_cases [of env m s])
      case (same v)
      then show ?thesis using 1 assms(2,3) by auto
    next
      case (created m' h g)
      then show ?thesis
        using 1 assms(2,3) by (auto simp: store_record_def bt_get_insert unsigned_def split: if_splits)
    qed
  next
    case (2 tool)
    then show ?thesis
      using assms(2) unfolding validate_version_def
      by (intro step) (auto simp: res_bind_Ok_iff with_status_def)
  next
    case (3 tool publisher_id key_id key)
    then show ?thesis
      using assms(2) unfolding sign_version_def by (intro step) (auto simp: with_status_def)
  next
    case (4 tool)
    have "?verified (with_status st q)" if "verify_manifest_signature env q (trg_publisher_keys s) = Ok ()" for st q
      using that verify_signature_cong [of "with_status st q" q env] by (simp add: with_status_def)
    then show ?thesis
      using 4 assms(2) unfolding activate_def by (intro step) (auto simp: res_bind_Ok_iff)
  next
    case (5 tool)
    then show ?thesis
      using assms(2) unfolding deprecate_def registry_transition_def
      by (intro step) (auto simp: with_status_def)
  next
    case (6 tool)
    then show ?thesis
      using assms(2) unfolding revoke_tool_def by (intro step) (auto simp: with_status_def)
  next
    case (7 c)
    then show ?thesis using assms(2,3) by (auto simp: register_capability_def split: if_splits)
  next
    case (8 key_id vk)
    then show ?thesis using assms(2,3) by (auto simp: add_publisher_key_def)
  next
    case (9 b)
    then show ?thesis using assms(2,3) by (auto simp: set_available_def)
  qed
qed

lemma active_was_verified:
  assumes "reach (\<lambda>s. s = tool_registry_new) (registry_step env) s"
    and "bt_get (trg_tools s) k = Some r" and "tm_status (trc_manifest r) = VActive"
  shows "\<exists>s0. reach (\<lambda>s. s = tool_registry_new) (registry_step env) s0 \<and> (registry_step env)\<^sup>*\<^sup>* s0 s
    \<and> verify_manifest_signature env r (trg_publisher_keys s0) = Ok ()"
  using assms
proof (induction arbitrary: r)
  case (reach_init s)
  then show ?case by (simp add: tool_registry_new_def bt_get_def bt_empty_def)
next
  case (reach_step s t)
  from active_origin [OF reach_step.hyps(2) reach_step.prems] show ?case
  proof (elim disjE exE conjE)
    fix r0
    assume r0: "bt_get (trg_tools s) k = Some r0" "tm_status (trc_manifest r0) = VActive"
      "tm_signature (trc_manifest r0) = tm_signature (trc_manifest r)" "trc_manifest_hash r0 = trc_manifest_hash r"
    from reach_step.IH [OF r0(1,2)] obtain s0 where
      "reach (\<lambda>s. s = tool_registry_new) (registry_step env) s0" "(registry_step env)\<^sup>*\<^sup>* s0 s"
      "verify_manifest_signature env r0 (trg_publisher_keys s0) = Ok ()" by blast
    then show ?case
      using reach_step.hyps(2) verify_signature_cong [OF r0(3,4), of env]
      by (metis rtranclp.rtrancl_into_rtrancl)
  next
    assume "verify_manifest_signature env r (trg_publisher_keys s) = Ok ()"
    then show ?case
      using reach_step.hyps by blast
  qed
qed

text \<open>
  C18: a tool that resolves is the validated and signed one. Whatever sequence of registrations,
  validations, signatures, activations, revocations and key changes happened, when a reference resolves
  for a tenant the registry holds a manifest under exactly that reference whose texts, limits, effects,
  digest and schemas passed validation and that lists the tenant. Its signature verified against the
  publisher keys the registry had at an earlier moment of the run, for the canonical hash of the
  manifest, which is the one of the snapshot. Every field of the snapshot is the manifest's, with the
  revision of the record and the time, and its own hash is sealed in it.
\<close>

theorem resolved_tool_is_proven:
  assumes "reach (\<lambda>s. s = tool_registry_new) (registry_step env) s"
    and "resolve_exact env tenant tool now s = Ok t"
  shows "\<exists>r. bt_get (trg_tools s) (tool_key tool) = Some r
    \<and> (let m = trc_manifest r in
        tm_status m = VActive \<and> tool_key tool = (tm_tool_id m, tm_tool_version m)
        \<and> texts_valid m \<and> tenant \<in> tm_allowed_tenants m \<and> tool_limits_valid (tm_limits m) \<and> effects_valid m
        \<and> valid_implementation_digest (tim_digest (tm_implementation m))
        \<and> is_ok (validate_schema_security (tm_input_schema m))
        \<and> is_ok (validate_schema_security (tm_output_schema m))
        \<and> canonical_manifest_hash env m = Ok (rto_manifest_hash t)
        \<and> canonical_schema_pair_hash env m = Ok (rto_schema_hash t)
        \<and> (\<exists>s0 g key. reach (\<lambda>s. s = tool_registry_new) (registry_step env) s0 \<and> (registry_step env)\<^sup>*\<^sup>* s0 s
             \<and> tm_signature m = Some g \<and> msg_algorithm g = ''Ed25519''
             \<and> bt_get (trg_publisher_keys s0) (msg_key_id g) = Some key
             \<and> sg_decodes (rg_signer env) (msg_signature g)
             \<and> sg_verify (rg_signer env) key (rto_manifest_hash t) (msg_signature g))
        \<and> rto_schema_version t = REGISTRY_SCHEMA_VERSION
        \<and> rto_tool_id t = tm_tool_id m \<and> rto_tool_version t = tm_tool_version m
        \<and> rto_effect_class t = tm_effect_class m \<and> rto_risk_level t = tm_risk_level m
        \<and> rto_executor_profile t = tm_executor_profile m \<and> rto_credential_profile t = tm_credential_profile m
        \<and> rto_approval_profile t = tm_approval_profile m \<and> rto_compensation t = tm_compensation m
        \<and> rto_network_profile_ref t = tm_network_profile_ref m
        \<and> rto_filesystem_profile_ref t = tm_filesystem_profile_ref m
        \<and> rto_implementation t = tm_implementation m \<and> rto_limits t = tm_limits m
        \<and> rto_input_schema t = tm_input_schema m \<and> rto_output_schema t = tm_output_schema m
        \<and> rto_registry_revision t = trc_revision r \<and> rto_resolved_at t = now)
    \<and> tool_snapshot_hash env t = Ok (rto_snapshot_hash t)"
proof -
  have ok: "registry_ok env s"
    using assms(1) by (rule registry_machine.reach_inv)
  obtain r where r: "bt_get (trg_tools s) (tool_key tool) = Some r" "tm_status (trc_manifest r) = VActive"
      "tm_allowed_tenants (trc_manifest r) = {} \<or> tenant \<in> tm_allowed_tenants (trc_manifest r)"
      "seal_resolved env (resolved_of (trc_manifest r) (trc_schema_hash r) (trc_manifest_hash r) (trc_revision r) now) = Ok t"
    using assms(2) unfolding resolve_exact_Ok_iff by blast
  have rec: "record_ok env (tool_key tool) r"
    using ok r(1) unfolding registry_ok_def by blast
  then have "is_ok (validate_manifest_shape env (unsigned (trc_manifest r)))"
    using r(2) by (simp add: record_ok_def Let_def)
  note shape = shape_valid_unsigned [OF this]
  have sealed: "tool_snapshot_hash env t = Ok (rto_snapshot_hash t)"
    and fields: "t = (resolved_of (trc_manifest r) (trc_schema_hash r) (trc_manifest_hash r) (trc_revision r) now)
      \<lparr>rto_snapshot_hash := rto_snapshot_hash t\<rparr>"
    using seal_resolved_Ok [OF r(4)] by blast+
  obtain s0 where s0: "reach (\<lambda>s. s = tool_registry_new) (registry_step env) s0" "(registry_step env)\<^sup>*\<^sup>* s0 s"
    "verify_manifest_signature env r (trg_publisher_keys s0) = Ok ()"
    using active_was_verified [OF assms(1) r(1,2)] by blast
  have hash: "rto_manifest_hash t = trc_manifest_hash r"
    by (subst fields, simp add: resolved_of_def)
  have signed: "\<exists>g key. tm_signature (trc_manifest r) = Some g \<and> msg_algorithm g = ''Ed25519''
      \<and> bt_get (trg_publisher_keys s0) (msg_key_id g) = Some key
      \<and> sg_decodes (rg_signer env) (msg_signature g)
      \<and> sg_verify (rg_signer env) key (rto_manifest_hash t) (msg_signature g)"
    using s0(3) unfolding hash
    by (auto simp: verify_manifest_signature_def reject_if_def split: option.splits if_splits)
  have same: "rto_schema_version t = REGISTRY_SCHEMA_VERSION"
    "rto_tool_id t = tm_tool_id (trc_manifest r)" "rto_tool_version t = tm_tool_version (trc_manifest r)"
    "rto_effect_class t = tm_effect_class (trc_manifest r)" "rto_risk_level t = tm_risk_level (trc_manifest r)"
    "rto_executor_profile t = tm_executor_profile (trc_manifest r)"
    "rto_credential_profile t = tm_credential_profile (trc_manifest r)"
    "rto_approval_profile t = tm_approval_profile (trc_manifest r)"
    "rto_compensation t = tm_compensation (trc_manifest r)"
    "rto_network_profile_ref t = tm_network_profile_ref (trc_manifest r)"
    "rto_filesystem_profile_ref t = tm_filesystem_profile_ref (trc_manifest r)"
    "rto_implementation t = tm_implementation (trc_manifest r)" "rto_limits t = tm_limits (trc_manifest r)"
    "rto_input_schema t = tm_input_schema (trc_manifest r)" "rto_output_schema t = tm_output_schema (trc_manifest r)"
    "rto_schema_hash t = trc_schema_hash r" "rto_registry_revision t = trc_revision r" "rto_resolved_at t = now"
    by (subst fields, simp add: resolved_of_def)+
  have "\<exists>s0 g key. reach (\<lambda>s. s = tool_registry_new) (registry_step env) s0 \<and> (registry_step env)\<^sup>*\<^sup>* s0 s
      \<and> tm_signature (trc_manifest r) = Some g \<and> msg_algorithm g = ''Ed25519''
      \<and> bt_get (trg_publisher_keys s0) (msg_key_id g) = Some key
      \<and> sg_decodes (rg_signer env) (msg_signature g)
      \<and> sg_verify (rg_signer env) key (rto_manifest_hash t) (msg_signature g)"
    using s0(1,2) signed by blast
  then show ?thesis
    using r(1-3) rec shape sealed
    by (intro exI [of _ r])
      (simp add: record_ok_def Let_def tenants_valid_def tool_key_def manifest_tool_ref_def same hash)
qed

subsection \<open>Lifecycle\<close>

fun status_rank :: "tool_version_status \<Rightarrow> nat" where
  "status_rank VDraft = 0"
| "status_rank VValidated = 1"
| "status_rank VSigned = 2"
| "status_rank VActive = 3"
| "status_rank VDeprecated = 4"
| "status_rank VRevoked = 5"

lemma status_rank_le: "status_rank st \<le> 5"
  by (cases st) auto

text \<open>The record of a tool is the one it was, or its lifecycle has moved on; its manifest is the same.\<close>

definition since :: "tool_key \<Rightarrow> tool_record \<Rightarrow> 'vk tool_registry \<Rightarrow> bool" where
  "since k r0 s \<longleftrightarrow> (\<exists>r. bt_get (trg_tools s) k = Some r \<and> unsigned (trc_manifest r) = unsigned (trc_manifest r0)
     \<and> (r = r0 \<or> status_rank (tm_status (trc_manifest r0)) < status_rank (tm_status (trc_manifest r))))"

lemma lifecycle_step_since:
  assumes "since k r0 s"
    and "\<And>r r'. tm_status (trc_manifest r) \<in> froms \<Longrightarrow> change r = Ok r' \<Longrightarrow>
      unsigned (trc_manifest r') = unsigned (trc_manifest r)
      \<and> status_rank (tm_status (trc_manifest r)) < status_rank (tm_status (trc_manifest r'))"
  shows "since k r0 (snd (lifecycle_step froms change tool s))"
proof (cases rule: lifecycle_step_cases [of froms change tool s])
  case (changed r r')
  show ?thesis
  proof (cases "k = tool_key tool")
    case True
    then have "unsigned (trc_manifest r') = unsigned (trc_manifest r0)
        \<and> status_rank (tm_status (trc_manifest r0)) < status_rank (tm_status (trc_manifest r'))"
      using assms(1) assms(2) [OF changed(2,3)] changed(1) by (auto simp: since_def)
    then show ?thesis
      using True changed(4) by (simp add: since_def store_record_def bt_get_insert)
  next
    case False
    then show ?thesis
      using assms(1) changed(4) by (auto simp: since_def store_record_def bt_get_insert)
  qed
qed (use assms in simp)

lemma registry_step_since:
  assumes "registry_step env s t" and "since k r0 s"
  shows "since k r0 t"
  using assms
proof (induction rule: registry_step.induct)
  case (1 s m)
  then show ?case
    by (cases rule: create_tool_draft_cases [of env m s]) (auto simp: since_def store_record_def bt_get_insert)
next
  case (2 s tool)
  then show ?case
    unfolding validate_version_def
    by (intro lifecycle_step_since) (auto simp: with_status_def res_bind_Ok_iff)
next
  case (3 s tool publisher_id key_id key)
  then show ?case
    unfolding sign_version_def by (intro lifecycle_step_since) (auto simp: with_status_def)
next
  case (4 s tool)
  then show ?case
    unfolding activate_def by (intro lifecycle_step_since) (auto simp: with_status_def res_bind_Ok_iff)
next
  case (5 s tool)
  then show ?case
    unfolding deprecate_def registry_transition_def by (intro lifecycle_step_since) (auto simp: with_status_def)
next
  case (6 s tool)
  then show ?case
    unfolding revoke_tool_def by (intro lifecycle_step_since) (auto simp: with_status_def)
qed (simp_all add: since_def register_capability_def add_publisher_key_def set_available_def)

interpretation tool_history: kept_by_steps "registry_step env" "since k r0" for env k r0
  by unfold_locales (rule registry_step_since)

lemma revoked_record_stays:
  assumes "fst (revoke_tool tool s) = Ok ()" and "(registry_step env)\<^sup>*\<^sup>* (snd (revoke_tool tool s)) t"
  shows "\<exists>r. bt_get (trg_tools t) (tool_key tool) = Some r \<and> tm_status (trc_manifest r) = VRevoked"
proof -
  obtain r where r: "bt_get (trg_tools (snd (revoke_tool tool s))) (tool_key tool) = Some r"
      "tm_status (trc_manifest r) = VRevoked"
    using assms(1) by (auto simp: revoke_tool_def lifecycle_step_def store_record_def with_status_def bt_get_insert
        split: option.splits if_splits)
  then have "since (tool_key tool) r (snd (revoke_tool tool s))"
    by (auto simp: since_def)
  then have "since (tool_key tool) r t"
    using assms(2) tool_history.steps_keep by blast
  then show ?thesis
    using r(2) status_rank_le [THEN leD] by (auto simp: since_def)
qed

text \<open>
  C30: revocation is final. Once a tool is revoked, no later sequence of operations makes it resolve
  again for any tenant, and as long as the registry answers, every digest of it is reported revoked.
\<close>

theorem revoked_tool_never_resolves:
  assumes "fst (revoke_tool tool s) = Ok ()" and "(registry_step env)\<^sup>*\<^sup>* (snd (revoke_tool tool s)) t"
  shows "\<not> is_ok (resolve_exact env tenant tool now t) \<and> is_revoked tool digest t \<noteq> Ok False"
  using revoked_record_stays [OF assms]
  by (auto simp: is_ok_iff resolve_exact_Ok_iff is_revoked_def)

text \<open>
  A tool resolves to one thing. Two resolutions of the same reference at different moments of a run
  give the same snapshot with the same hash, but for the instant of the resolution; so an authorization
  bound to a snapshot hash means the same tool for as long as it resolves.
\<close>

theorem resolution_is_stable:
  assumes "resolve_exact env tenant tool now s = Ok t" and "(registry_step env)\<^sup>*\<^sup>* s s'"
    and "resolve_exact env tenant' tool now' s' = Ok t'"
  shows "t' = t\<lparr>rto_resolved_at := now'\<rparr>"
proof -
  obtain r where r: "bt_get (trg_tools s) (tool_key tool) = Some r" "tm_status (trc_manifest r) = VActive"
      "seal_resolved env (resolved_of (trc_manifest r) (trc_schema_hash r) (trc_manifest_hash r) (trc_revision r) now) = Ok t"
    using assms(1) unfolding resolve_exact_Ok_iff by blast
  obtain r' where r': "bt_get (trg_tools s') (tool_key tool) = Some r'" "tm_status (trc_manifest r') = VActive"
      "seal_resolved env (resolved_of (trc_manifest r') (trc_schema_hash r') (trc_manifest_hash r') (trc_revision r') now') = Ok t'"
    using assms(3) unfolding resolve_exact_Ok_iff by blast
  have "since (tool_key tool) r s"
    using r(1) by (simp add: since_def)
  then have "since (tool_key tool) r s'"
    using assms(2) tool_history.steps_keep by blast
  then have "r' = r"
    using r(2) r'(1,2) by (auto simp: since_def)
  then have "tool_snapshot_hash env (resolved_of (trc_manifest r) (trc_schema_hash r) (trc_manifest_hash r) (trc_revision r) now)
      = tool_snapshot_hash env (resolved_of (trc_manifest r') (trc_schema_hash r') (trc_manifest_hash r') (trc_revision r') now')"
    by (simp add: tool_snapshot_hash_def resolved_of_def)
  then obtain h where
    "t = (resolved_of (trc_manifest r) (trc_schema_hash r) (trc_manifest_hash r) (trc_revision r) now)\<lparr>rto_snapshot_hash := h\<rparr>"
    "t' = (resolved_of (trc_manifest r) (trc_schema_hash r) (trc_manifest_hash r) (trc_revision r) now')\<lparr>rto_snapshot_hash := h\<rparr>"
    using r(3) r'(3) \<open>r' = r\<close> by (auto simp: seal_resolved_def res_bind_Ok_iff)
  then show ?thesis
    by (simp add: resolved_of_def)
qed

subsection \<open>Samples\<close>

lemma printable_valid_text: "printable s \<Longrightarrow> length s \<le> n \<Longrightarrow> valid_text s n"
proof -
  assume s: "printable s" "length s \<le> n"
  then have "ascii s"
    by (auto simp: printable_def ascii_def list_all_iff)
  then show ?thesis
    using s printable_text [OF s(1)] printable_trim [OF s(1)]
    by (auto simp: valid_text_def utf8_chars_ascii printable_def)
qed

definition sample_object_schema :: json where
  "sample_object_schema = JObject [(''additionalProperties'', JBool False), (''type'', JString ''object'')]"

definition sample_tool_manifest :: tool_manifest where
  "sample_tool_manifest = \<lparr>tm_schema_version = REGISTRY_SCHEMA_VERSION, tm_tool_id = ''acme.patch'',
     tm_tool_version = ''1.2.0'', tm_status = VDraft, tm_domain = ''coding'', tm_display_name = ''Patch'',
     tm_description = ''patches'', tm_input_schema = sample_object_schema,
     tm_output_schema = sample_object_schema, tm_effect_class = Idempotent, tm_risk_level = Low,
     tm_executor_profile = ''sandbox'', tm_credential_profile = ''git'', tm_approval_profile = ''none'',
     tm_compensation = None, tm_limits = \<lparr>tli_timeout_ms = 1000, tli_max_result_bytes = 4096\<rparr>,
     tm_network_profile_ref = ''none'', tm_filesystem_profile_ref = ''repo'',
     tm_implementation = \<lparr>tim_kind = OciContainer, tim_digest = ''sha256:'' @ sample_digest, tim_executor_id = ''e1''\<rparr>,
     tm_allowed_tenants = {''acme''}, tm_signature = None\<rparr>"

definition sample_registry_env :: "(unit, unit) registry_env" where
  "sample_registry_env = \<lparr>rg_signer = sample_signer, rg_jcs_manifest = \<lambda>_. Some ''manifest'',
     rg_jcs_schemas = \<lambda>_. Some ''schemas'', rg_jcs_tool = \<lambda>_. Some ''tool'',
     rg_jcs_registry = \<lambda>_. Some ''registry'', rg_sha256_hex = \<lambda>s. s, rg_uuid = Some,
     rg_compiles = \<lambda>_. True, rg_accepts = \<lambda>_ _. True\<rparr>"

lemma sample_manifest_texts:
  "valid_tool_id ''acme.patch''" "valid_domain ''coding''" "valid_semver ''1.2.0''"
  by code_simp+

lemma sample_profiles:
  "valid_profile_ref ''sandbox''" "valid_profile_ref ''git''" "valid_profile_ref ''none''" "valid_profile_ref ''repo''"
  "valid_profile_ref ''e1''" "valid_text ''Patch'' 256" "valid_text ''patches'' 8192"
  by (simp_all add: valid_profile_ref_def first_byte_def printable_valid_text printable_def byte_defs less_eq_char_def)

lemma sample_schema_ok: "validate_schema_security sample_object_schema = Ok ()"
  by code_simp

lemma sample_tool_ref: "validate_exact (manifest_tool_ref sample_tool_manifest) = Ok ()"
  by (simp add: manifest_tool_ref_def sample_tool_manifest_def validate_exact_def sample_case)

lemma sample_shape: "validate_manifest_shape sample_registry_env sample_tool_manifest = Ok ()"
  by (simp add: validate_manifest_shape_def texts_valid_def tenants_valid_def compensation_valid_def
      signature_shape_valid_def tool_limits_valid_def effects_valid_def sample_tool_manifest_def
      sample_manifest_texts sample_profiles sample_schema_ok sample_registry_env_def compile_schema_def
      valid_implementation_digest_def strip_prefix_def)

definition sample_tool :: tool_ref where
  "sample_tool = \<lparr>tr_tool_id = ''acme.patch'', tr_tool_version = ''1.2.0''\<rparr>"

definition sample_tool_record :: "tool_version_status \<Rightarrow> bool \<Rightarrow> u64 \<Rightarrow> tool_record" where
  "sample_tool_record status is_signed revision = \<lparr>trc_manifest = sample_tool_manifest\<lparr>tm_status := status,
       tm_signature := (if is_signed then Some \<lparr>msg_publisher_id = ''p'', msg_key_id = ''k'', msg_algorithm = ''Ed25519'',
         msg_signature = ''manifest''\<rparr> else None)\<rparr>,
     trc_manifest_hash = ''manifest'', trc_schema_hash = ''schemas'', trc_revision = revision\<rparr>"

definition sample_registry :: "tool_version_status \<Rightarrow> bool \<Rightarrow> u64 \<Rightarrow> unit tool_registry" where
  "sample_registry status is_signed revision = \<lparr>trg_tools = [(tool_key sample_tool, sample_tool_record status is_signed revision)],
     trg_capabilities = [], trg_publisher_keys = [(''k'', ())], trg_revision = revision, trg_available = True\<rparr>"

text \<open>The life of the sample tool, one operation after the other.\<close>

lemma sample_created:
  "create_tool_draft sample_registry_env sample_tool_manifest (add_publisher_key ''k'' () tool_registry_new)
     = (Ok (), sample_registry VDraft False 1)"
proof -
  have "sample_tool_manifest\<lparr>tm_status := VDraft, tm_signature := None\<rparr> = sample_tool_manifest"
    by (simp add: sample_tool_manifest_def)
  moreover have "sample_tool_manifest\<lparr>tm_signature := None\<rparr> = sample_tool_manifest"
    by (simp add: sample_tool_manifest_def)
  moreover have "tool_key (manifest_tool_ref sample_tool_manifest) = tool_key sample_tool"
    by (simp add: tool_key_def sample_tool_def manifest_tool_ref_def sample_tool_manifest_def)
  ultimately show ?thesis
    using sample_tool_ref
    by (simp add: create_tool_draft_def Let_def tool_registry_new_def add_publisher_key_def bt_contains_def bt_get_def
        canonical_manifest_hash_def canonical_schema_pair_hash_def hash_or_def sample_registry_env_def store_record_def
        sample_registry_def sample_tool_record_def bt_empty_def)
qed

lemma sample_get: "bt_get (trg_tools (sample_registry st b v)) (tool_key sample_tool) = Some (sample_tool_record st b v)"
  by (simp add: sample_registry_def bt_get_def)

lemma sample_store:
  "store_record (tool_key sample_tool) (sample_tool_record st' b' w) (sample_registry st b v) = sample_registry st' b' (v + 1)"
  by (simp add: store_record_def sample_registry_def sample_tool_record_def)

lemma sample_status: "tm_status (trc_manifest (sample_tool_record st b v)) = st"
  "with_status st' (sample_tool_record st b v) = sample_tool_record st' b v"
  by (simp_all add: sample_tool_record_def with_status_def)

lemma sample_validated:
  "validate_version sample_registry_env sample_tool (sample_registry VDraft False 1) = (Ok (), sample_registry VValidated False 2)"
proof -
  have "validate_manifest_shape sample_registry_env (trc_manifest (sample_tool_record VDraft False 1)) = Ok ()"
    using sample_shape by (simp add: sample_tool_record_def shape_ignores_status sample_tool_manifest_def)
  then show ?thesis
    by (simp add: validate_version_def lifecycle_step_def sample_get sample_status validate_tool_manifest_def sample_store)
      (simp add: sample_tool_record_def sample_tool_manifest_def)
qed

lemma sample_signed:
  "sign_version sample_registry_env sample_tool ''p'' ''k'' () (sample_registry VValidated False 2) = (Ok (), sample_registry VSigned True 3)"
proof -
  have "with_status VSigned (r\<lparr>trc_manifest := (trc_manifest r)\<lparr>tm_signature := Some \<lparr>msg_publisher_id = ''p'', msg_key_id = ''k'',
      msg_algorithm = ''Ed25519'', msg_signature = sg_sign (rg_signer sample_registry_env) () (trc_manifest_hash r)\<rparr>\<rparr>\<rparr>)
    = sample_tool_record VSigned True 2" if "r = sample_tool_record VValidated False 2" for r
    using that by (simp add: with_status_def sample_tool_record_def sample_registry_env_def sample_signer_def)
  then show ?thesis
    by (simp add: sign_version_def lifecycle_step_def sample_get sample_status sample_store)
qed

lemma sample_activated:
  "activate sample_registry_env sample_tool (sample_registry VSigned True 3) = (Ok (), sample_registry VActive True 4)"
proof -
  have "verify_manifest_signature sample_registry_env (sample_tool_record VSigned True 3) (trg_publisher_keys (sample_registry VSigned True 3)) = Ok ()"
    by (simp add: verify_manifest_signature_def sample_tool_record_def sample_registry_def bt_get_def sample_registry_env_def
        sample_signer_def)
  then show ?thesis
    by (simp add: activate_def lifecycle_step_def sample_get sample_status sample_store)
qed

lemma sample_revoked: "revoke_tool sample_tool (sample_registry VActive True 4) = (Ok (), sample_registry VRevoked True 5)"
  by (simp add: revoke_tool_def lifecycle_step_def sample_get sample_status sample_store)

lemma sample_registry_reach:
  "reach (\<lambda>s. s = tool_registry_new) (registry_step sample_registry_env) (sample_registry VActive True 4)"
proof -
  let ?R = "reach (\<lambda>s. s = tool_registry_new) (registry_step sample_registry_env)"
  have "?R (add_publisher_key ''k'' () tool_registry_new)"
    by (rule reach_step [OF reach_init], rule refl) (rule registry_step.intros(8))
  then have "?R (sample_registry VDraft False 1)"
    by (rule reach_step) (metis registry_step.intros(1) sample_created snd_conv)
  then have "?R (sample_registry VValidated False 2)"
    by (rule reach_step) (metis registry_step.intros(2) sample_validated snd_conv)
  then have "?R (sample_registry VSigned True 3)"
    by (rule reach_step) (metis registry_step.intros(3) sample_signed snd_conv)
  then show ?thesis
    by (rule reach_step) (metis registry_step.intros(4) sample_activated snd_conv)
qed

definition sample_resolved :: "datetime \<Rightarrow> resolved_tool" where
  "sample_resolved now = (resolved_of (trc_manifest (sample_tool_record VActive True 4)) ''schemas'' ''manifest'' 4 now)
     \<lparr>rto_snapshot_hash := ''tool''\<rparr>"

lemma sample_resolves:
  "resolve_exact sample_registry_env ''acme'' sample_tool now (sample_registry VActive True 4) = Ok (sample_resolved now)"
  using sample_tool_ref
  by (simp add: resolve_exact_def sample_get sample_status)
    (simp add: sample_registry_def sample_tool_record_def sample_tool_manifest_def sample_tool_def manifest_tool_ref_def
      seal_resolved_def tool_snapshot_hash_def hash_or_def sample_registry_env_def sample_resolved_def)

lemma resolved_tool_is_proven_witness:
  "tool_snapshot_hash sample_registry_env (sample_resolved 9) = Ok (rto_snapshot_hash (sample_resolved 9))
   \<and> (\<exists>r. bt_get (trg_tools (sample_registry VActive True 4)) (tool_key sample_tool) = Some r
        \<and> rto_risk_level (sample_resolved 9) = tm_risk_level (trc_manifest r))"
  using resolved_tool_is_proven [OF sample_registry_reach sample_resolves, of 9] by (auto simp: Let_def)

lemma revoked_tool_never_resolves_witness:
  "\<not> is_ok (resolve_exact sample_registry_env ''acme'' sample_tool 9 (sample_registry VRevoked True 5))"
  using revoked_tool_never_resolves [of sample_tool "sample_registry VActive True 4" sample_registry_env
      "sample_registry VRevoked True 5" "''acme''" 9] sample_revoked by simp

lemma resolution_is_stable_witness:
  "sample_resolved 12 = (sample_resolved 9)\<lparr>rto_resolved_at := 12\<rparr>"
  by (rule resolution_is_stable [OF sample_resolves _ sample_resolves]) simp

end
