(* ===== verification/Registry_Checks.thy ===== *)
theory Registry_Checks
  imports Tool_Registry
begin

text \<open>
  References for the two checks of a manifest that are programs of their own: the walk over a JSON
  schema and the syntax of a semantic version.
\<close>

subsection \<open>Schemas\<close>

text \<open>\<open>subvalue v d w\<close>: \<open>w\<close> occurs in \<open>v\<close> at depth \<open>d\<close>.\<close>

inductive subvalue :: "json \<Rightarrow> nat \<Rightarrow> json \<Rightarrow> bool" where
  subvalue_self: "subvalue v 0 v"
| subvalue_field: "(k, c) \<in> set m \<Longrightarrow> subvalue c d w \<Longrightarrow> subvalue (JObject m) (Suc d) w"
| subvalue_item: "c \<in> set vs \<Longrightarrow> subvalue c d w \<Longrightarrow> subvalue (JArray vs) (Suc d) w"

inductive_cases subvalue_objectE: "subvalue (JObject m) d w"
inductive_cases subvalue_arrayE: "subvalue (JArray vs) d w"
inductive_cases subvalue_leafE: "subvalue JNull d w" "subvalue (JBool b) d w" "subvalue (JNumber n) d w"
  "subvalue (JString s) d w"

text \<open>An object schema says what it accepts and refers only to itself.\<close>

definition self_contained :: "json \<Rightarrow> bool" where
  "self_contained w \<longleftrightarrow> (case json_object w of None \<Rightarrow> True
     | Some m \<Rightarrow> closed_object m \<and> list_all (local_reference m) reference_keywords)"

definition walk_ok :: "nat \<Rightarrow> json \<Rightarrow> bool" where
  "walk_ok depth v \<longleftrightarrow> (\<forall>d w. subvalue v d w \<longrightarrow> depth + d \<le> 32 \<and> self_contained w)"

lemma walk_ok_object:
  "walk_ok depth (JObject m) \<longleftrightarrow> depth \<le> 32 \<and> self_contained (JObject m)
     \<and> (\<forall>(k, c) \<in> set m. walk_ok (Suc depth) c)"
  unfolding walk_ok_def by (fastforce intro: subvalue.intros elim: subvalue_objectE)

lemma walk_ok_array:
  "walk_ok depth (JArray vs) \<longleftrightarrow> depth \<le> 32 \<and> (\<forall>c \<in> set vs. walk_ok (Suc depth) c)"
  unfolding walk_ok_def by (fastforce simp: self_contained_def intro: subvalue.intros elim: subvalue_arrayE)

lemma walk_ok_leaf [simp]:
  "walk_ok depth JNull \<longleftrightarrow> depth \<le> 32" "walk_ok depth (JBool b) \<longleftrightarrow> depth \<le> 32"
  "walk_ok depth (JNumber n) \<longleftrightarrow> depth \<le> 32" "walk_ok depth (JString s) \<longleftrightarrow> depth \<le> 32"
  unfolding walk_ok_def by (fastforce simp: self_contained_def intro: subvalue.intros elim: subvalue_leafE)+

lemma schema_walk_iff:
  "schema_walk depth v = Ok u \<longleftrightarrow> walk_ok depth v"
  "schema_walk_fields depth m = Ok u \<longleftrightarrow> (\<forall>(k, c) \<in> set m. walk_ok depth c)"
  "schema_walk_items depth vs = Ok u \<longleftrightarrow> (\<forall>c \<in> set vs. walk_ok depth c)"
proof (induction depth v and depth m and depth vs arbitrary: u and u and u
    rule: schema_walk_schema_walk_fields_schema_walk_items.induct)
  case (1 depth v)
  show ?case
  proof (cases v)
    case (JObject m)
    then show ?thesis
      using 1(2) [of m] by (subst schema_walk.simps) (auto simp: walk_ok_object self_contained_def not_le)
  next
    case (JArray vs)
    then show ?thesis
      using 1(1) [of vs] by (subst schema_walk.simps) (auto simp: walk_ok_array not_le)
  qed (subst schema_walk.simps; auto simp: not_le)+
qed (auto simp: res_bind_Ok_iff)

text \<open>
  The schema check is exact. A schema passes just when it is a non-empty object with no foreign
  dialect and every value in it lies at most 32 levels deep and, if it is an object that declares the
  object type, forbids additional properties, and refers by \<open>$ref\<close> and its kin only into itself. So a
  schema that passes can neither fetch another document nor let undeclared arguments through where
  an object type is declared.
\<close>

theorem schema_security_spec:
  "validate_schema_security schema = Ok u \<longleftrightarrow>
     (\<exists>root. schema = JObject root \<and> root \<noteq> []
        \<and> bt_get root ''$schema'' \<in> {None, Some (JString ''https://json-schema.org/draft/2020-12/schema'')})
     \<and> (\<forall>d w. \<not> (subvalue schema d w \<and> \<not> (d \<le> 32 \<and> self_contained w)))"
proof (cases schema)
  case (JObject root)
  have dialect: "(case bt_get root ''$schema'' of None \<Rightarrow> False
      | Some v \<Rightarrow> json_text v \<noteq> Some ''https://json-schema.org/draft/2020-12/schema'') \<longleftrightarrow>
      bt_get root ''$schema'' \<notin> {None, Some (JString ''https://json-schema.org/draft/2020-12/schema'')}"
    by (auto split: option.splits json.splits elim!: json_text.elims)
  have "walk_ok 0 schema \<Longrightarrow> closed_object root"
    using JObject by (simp add: walk_ok_object self_contained_def)
  then show ?thesis
    using JObject by (auto simp: validate_schema_security_def dialect schema_walk_iff walk_ok_def)
qed (simp_all add: validate_schema_security_def)

subsection \<open>Versions\<close>

definition semver_tail :: "char \<Rightarrow> string option \<Rightarrow> string" where
  "semver_tail c t = (case t of None \<Rightarrow> [] | Some s \<Rightarrow> c # s)"

text \<open>The grammar: three numbers, an optional pre-release, optional build metadata.\<close>

definition semver_text :: "string \<Rightarrow> string \<Rightarrow> string \<Rightarrow> string option \<Rightarrow> string option \<Rightarrow> string" where
  "semver_text x y z pre build =
     x @ ''.'' @ y @ ''.'' @ z @ semver_tail (CHR ''-'') pre @ semver_tail (CHR ''+'') build"

definition optionally :: "('a \<Rightarrow> bool) \<Rightarrow> 'a option \<Rightarrow> bool" where
  "optionally p t = (case t of None \<Rightarrow> True | Some s \<Rightarrow> p s)"

lemma split_once_append [simp]: "c \<notin> set a \<Longrightarrow> split_once c (a @ c # b) = Some (a, b)"
  by (induction a) auto

lemma split_once_none [simp]: "c \<notin> set s \<Longrightarrow> split_once c s = None"
  by (induction s) auto

lemma split_once_Some: "split_once c s = Some (a, b) \<Longrightarrow> s = a @ c # b \<and> c \<notin> set a"
proof (induction s arbitrary: a)
  case (Cons d s)
  then show ?case
    by (cases "split_once c s") (auto split: if_splits)
qed simp

lemma split_once_None: "split_once c s = None \<Longrightarrow> c \<notin> set s"
  by (induction s) (auto split: if_splits)

lemma split_optional_iff:
  "split_optional c s = (a, t) \<longleftrightarrow> s = a @ semver_tail c t \<and> c \<notin> set a"
proof
  assume "split_optional c s = (a, t)"
  then show "s = a @ semver_tail c t \<and> c \<notin> set a"
    by (auto simp: split_optional_def semver_tail_def dest: split_once_Some split_once_None split: option.splits)
next
  assume "s = a @ semver_tail c t \<and> c \<notin> set a"
  then show "split_optional c s = (a, t)"
    by (cases t) (auto simp: split_optional_def semver_tail_def)
qed

lemma split_no_sep: "c \<notin> set s \<Longrightarrow> split_bytes (\<lambda>x. x = c) s = [s]"
  by (induction s) auto

lemma split_sep: "c \<notin> set a \<Longrightarrow> split_bytes (\<lambda>x. x = c) (a @ c # b) = a # split_bytes (\<lambda>x. x = c) b"
  by (induction a) auto

lemma join_dots:
  "split_dots s = w # ws \<longleftrightarrow> CHR ''.'' \<notin> set w
     \<and> (ws = [] \<and> s = w \<or> (\<exists>r. s = w @ CHR ''.'' # r \<and> split_dots r = ws))"
proof (cases "split_once (CHR ''.'') s")
  case None
  then have "split_dots s = [s]" and "CHR ''.'' \<notin> set s"
    by (auto dest!: split_once_None intro: split_no_sep)
  then show ?thesis by auto
next
  case (Some p)
  then obtain a b where s: "s = a @ CHR ''.'' # b" "CHR ''.'' \<notin> set a"
    by (cases p) (auto dest: split_once_Some)
  then have parts: "split_dots s = a # split_dots b"
    by (simp add: split_sep)
  have same: "w = a \<and> r = b" if "s = w @ CHR ''.'' # r" "CHR ''.'' \<notin> set w" for r
    using that s split_once_append by (metis Pair_inject option.inject)
  show ?thesis
  proof
    assume "split_dots s = w # ws"
    then show "CHR ''.'' \<notin> set w \<and> (ws = [] \<and> s = w \<or> (\<exists>r. s = w @ CHR ''.'' # r \<and> split_dots r = ws))"
      using parts s by simp
  next
    assume *: "CHR ''.'' \<notin> set w \<and> (ws = [] \<and> s = w \<or> (\<exists>r. s = w @ CHR ''.'' # r \<and> split_dots r = ws))"
    then have "s \<noteq> w"
      using s(1) by (metis in_set_conv_decomp)
    then show "split_dots s = w # ws"
      using * parts same by metis
  qed
qed

lemma split_dots_three:
  "split_dots s = [x, y, z] \<longleftrightarrow> s = x @ ''.'' @ y @ ''.'' @ z
     \<and> CHR ''.'' \<notin> set x \<and> CHR ''.'' \<notin> set y \<and> CHR ''.'' \<notin> set z"
  by (auto simp: join_dots)

lemma digits_no_punctuation:
  "valid_semver_number x \<Longrightarrow> CHR ''.'' \<notin> set x \<and> CHR ''-'' \<notin> set x \<and> CHR ''+'' \<notin> set x"
  by (auto simp: valid_semver_number_def list_all_iff byte_defs less_eq_char_def)

lemma identifiers_no_plus:
  assumes "valid_semver_identifiers i b"
  shows "CHR ''+'' \<notin> set i"
proof
  assume plus: "CHR ''+'' \<in> set i"
  then have "CHR ''+'' \<in> set (concat (split_dots i))"
    by (simp add: concat_split_bytes)
  then show False
    using assms by (fastforce simp: valid_semver_identifiers_def list_all_iff byte_defs less_eq_char_def)
qed

lemma valid_semver_iff:
  assumes "split_optional (CHR ''+'') s = (version, build)" and "split_optional (CHR ''-'') version = (core, pre)"
  shows "valid_semver s \<longleftrightarrow> length s \<le> 128 \<and> optionally (\<lambda>i. valid_semver_identifiers i False) build
    \<and> optionally (\<lambda>i. valid_semver_identifiers i True) pre
    \<and> (\<exists>x y z. core = x @ ''.'' @ y @ ''.'' @ z \<and> list_all valid_semver_number [x, y, z])"
proof -
  have "valid_semver s \<longleftrightarrow> s \<noteq> [] \<and> length s \<le> 128 \<and> optionally (\<lambda>i. valid_semver_identifiers i False) build
      \<and> optionally (\<lambda>i. valid_semver_identifiers i True) pre
      \<and> (\<exists>x y z. split_dots core = [x, y, z] \<and> list_all valid_semver_number [x, y, z])"
    using identifiers_no_plus
    by (auto simp: valid_semver_def assms optionally_def numeral_3_eq_3 length_Suc_conv split: option.splits)
  moreover have "s \<noteq> []" if "core = x @ ''.'' @ y @ ''.'' @ z" for x y z
    using assms that by (auto simp: split_optional_iff)
  moreover have "split_dots core = [x, y, z] \<and> list_all valid_semver_number [x, y, z] \<longleftrightarrow>
      core = x @ ''.'' @ y @ ''.'' @ z \<and> list_all valid_semver_number [x, y, z]" for x y z
    using digits_no_punctuation by (auto simp: split_dots_three)
  ultimately show ?thesis
    by metis
qed

lemma semver_text_split:
  assumes "list_all valid_semver_number [x, y, z]" and "optionally (\<lambda>i. valid_semver_identifiers i True) pre"
  shows "split_optional (CHR ''+'') (semver_text x y z pre build) = (x @ ''.'' @ y @ ''.'' @ z @ semver_tail (CHR ''-'') pre, build)"
    and "split_optional (CHR ''-'') (x @ ''.'' @ y @ ''.'' @ z @ semver_tail (CHR ''-'') pre) = (x @ ''.'' @ y @ ''.'' @ z, pre)"
  using assms digits_no_punctuation identifiers_no_plus
  by (auto simp: split_optional_iff semver_text_def semver_tail_def optionally_def split: option.splits)

text \<open>
  A version passes exactly when it follows the grammar. It is at most 128 bytes long and made of
  three numbers without leading zeros, an optional pre-release whose numeric identifiers have no leading
  zero either, and optional build metadata, with no empty identifier.
\<close>

theorem semver_spec:
  "valid_semver s \<longleftrightarrow> length s \<le> 128 \<and> (\<exists>x y z pre build. s = semver_text x y z pre build
     \<and> list_all valid_semver_number [x, y, z]
     \<and> optionally (\<lambda>i. valid_semver_identifiers i True) pre
     \<and> optionally (\<lambda>i. valid_semver_identifiers i False) build)"
proof -
  obtain version build where b: "split_optional (CHR ''+'') s = (version, build)"
    by force
  obtain core pre where p: "split_optional (CHR ''-'') version = (core, pre)"
    by force
  show ?thesis (is "_ \<longleftrightarrow> ?grammar")
  proof
    assume "valid_semver s"
    moreover have "s = core @ semver_tail (CHR ''-'') pre @ semver_tail (CHR ''+'') build"
      using b p by (simp add: split_optional_iff)
    ultimately show ?grammar
      unfolding valid_semver_iff [OF b p] semver_text_def by force
  next
    assume ?grammar
    then obtain x y z pre' build' where g: "length s \<le> 128" "s = semver_text x y z pre' build'"
        "list_all valid_semver_number [x, y, z]" "optionally (\<lambda>i. valid_semver_identifiers i True) pre'"
        "optionally (\<lambda>i. valid_semver_identifiers i False) build'"
      by blast
    note parts = semver_text_split [OF g(3,4)]
    show "valid_semver s"
      using g valid_semver_iff [OF parts(1) parts(2), of build'] by blast
  qed
qed

end
