(* ===== verification/Policy_Enforcement.thy ===== *)
theory Policy_Enforcement
  imports Approval Authorization Tool_Registry
begin

text \<open>
  The policy enforcement point (\<open>policy-pep/src/lib.rs\<close>): the local guard, the decision of the policy
  decision point, obligations, single-use approvals and the execution authorization it issues.

  The registry, the decision point and the runtime are behind traits. \<open>pep_port\<close> holds what the
  enforcement point calls of them and the libraries it uses; the runtime's calls are recorded in the
  order they are made. \<open>Uuid::new_v4\<close> is an argument.
\<close>

subsection \<open>Requests and outcomes\<close>

datatype policy_error = LocalGuardDenied | PdpUnavailable | DecisionInvalid | InputHashMismatch
  | UnknownObligation | ObligationFailed | PApprovalRequired | ApprovalMismatch
  | ResourceStateStale | RegistryRevoked | ExecutionAuthInvalid | FailClosed

record authorization_context =
  axc_ledger_execution_id :: string
  axc_ledger_event_id :: string
  axc_ledger_event_digest :: string
  axc_fence_digest :: string
  axc_target_profile :: string
  axc_preapproval_digest :: string
  axc_approval_consumption_ref :: "string option"
  axc_approval_receipt_digest :: "string option"
  axc_workload_credential_id :: string
  axc_workload_credential_claims_digest :: string
  axc_workload_credential_audience :: string
  axc_workload_credential_revocation_epoch :: u64

record enforcement_request =
  erq_stage :: enforcement_stage
  erq_action :: canonical_action
  erq_action_hash :: string
  erq_tool :: resolved_tool
  erq_policy_input :: policy_input
  erq_approval :: "minimal_grant option"
  erq_idempotency_key :: "string option"
  erq_execution_context :: "authorization_context option"
  erq_identity_uses_dev_verifier :: bool
  erq_resource_state_fresh :: bool
  erq_now :: datetime

record enforcement_receipt =
  erc_obligation_kind :: string
  erc_receipt_hash :: string
  erc_enforced_at :: datetime

datatype enforcement_outcome =
    Denied policy_decision
  | PreApprovalPassed policy_decision "enforcement_receipt list"
  | ApprovalNeeded policy_decision
  | ExecutionAuthorized policy_decision execution_authorization "enforcement_receipt list"
  | PauseRequired policy_decision "enforcement_receipt list"
  | KillRequired policy_decision "enforcement_receipt list"

text \<open>The runtime control port and the calls made to it.\<close>

datatype runtime_call = CallPause string | CallKill string | CallAlert string string

record ('sk, 'vk) pep_port =
  pp_action :: "('sk, 'vk) action_env"
  pp_is_revoked :: "tool_ref \<Rightarrow> string \<Rightarrow> registry_error + bool"
  pp_validate_arguments :: "resolved_tool \<Rightarrow> (string, json) btree \<Rightarrow> registry_error + unit"
  pp_evaluate :: "policy_input \<Rightarrow> enforcement_stage \<Rightarrow> policy_error + policy_decision"
  pp_runtime :: "runtime_call \<Rightarrow> policy_error + unit"
  pp_uuid_ok :: "string \<Rightarrow> bool"
  pp_sha256_hex :: "string \<Rightarrow> string"
  pp_jcs_arguments :: "(string, json) btree \<Rightarrow> string option"
  pp_jcs_decision :: "policy_decision \<Rightarrow> string option"
  pp_jcs_input :: "policy_input \<Rightarrow> string option"
  pp_jcs_authorization :: "execution_authorization \<Rightarrow> string option"

record 'sk pep_config =
  pc_issuer :: string
  pc_key_id :: string
  pc_signing_key :: 'sk
  pc_active_policy_bundle_digest :: string
  pc_has_runtime_handler :: bool

text \<open>The approvals used up, and the calls made to the runtime.\<close>

record pep_state =
  ps_used :: "string set"
  ps_runtime_calls :: "runtime_call list"

definition pep_init :: pep_state where
  "pep_init = \<lparr>ps_used = {}, ps_runtime_calls = []\<rparr>"

definition POLICY_SCHEMA_VERSION :: string where
  "POLICY_SCHEMA_VERSION = ''agenttrust.policy.v1''"

subsection \<open>Approvals\<close>

definition unwrap_text :: "string option \<Rightarrow> string" where
  "unwrap_text t = (case t of None \<Rightarrow> [] | Some s \<Rightarrow> s)"

definition kernel_matches :: "minimal_grant \<Rightarrow> enforcement_request \<Rightarrow> string \<Rightarrow> bool" where
  "kernel_matches g r policy_version \<longleftrightarrow>
     erq_now r < mg_expires_at g \<and> mg_action_hash g = erq_action_hash r
     \<and> mg_resource_version g = unwrap_text (act_current_state_version (erq_action r))
     \<and> mg_policy_version g = policy_version
     \<and> mg_task_id g = act_task_id (erq_action r) \<and> mg_step_id g = act_step_id (erq_action r)"

definition kernel_verify_and_consume ::
  "minimal_grant \<Rightarrow> enforcement_request \<Rightarrow> string \<Rightarrow> pep_state \<Rightarrow> (policy_error + unit) \<times> pep_state" where
  "kernel_verify_and_consume g r policy_version st =
     (if \<not> kernel_matches g r policy_version then (Err ApprovalMismatch, st)
      else if mg_single_use g
      then (if mg_approval_id g \<in> ps_used st then (Err ApprovalMismatch, st)
            else (Ok (), st\<lparr>ps_used := insert (mg_approval_id g) (ps_used st)\<rparr>))
      else (Ok (), st))"

subsection \<open>The local guard\<close>

definition context_valid :: "('sk, 'vk) pep_port \<Rightarrow> authorization_context \<Rightarrow> bool" where
  "context_valid port c \<longleftrightarrow>
     pp_uuid_ok port (axc_ledger_execution_id c) \<and> pp_uuid_ok port (axc_ledger_event_id c)
     \<and> is_lower_hex_digest (axc_ledger_event_digest c) \<and> is_lower_hex_digest (axc_fence_digest c)
     \<and> is_lower_hex_digest (axc_preapproval_digest c)
     \<and> axc_target_profile c \<noteq> [] \<and> length (axc_target_profile c) \<le> 256
     \<and> pp_uuid_ok port (axc_workload_credential_id c)
     \<and> is_lower_hex_digest (axc_workload_credential_claims_digest c)
     \<and> axc_workload_credential_audience c = ''tool-proxy''
     \<and> (case axc_approval_receipt_digest c of None \<Rightarrow> True | Some d \<Rightarrow> is_lower_hex_digest d)
     \<and> (case axc_approval_consumption_ref c of None \<Rightarrow> True | Some t \<Rightarrow> t \<noteq> [] \<and> length t \<le> 2048)"

definition tenants_agree :: "canonical_action \<Rightarrow> bool" where
  "tenants_agree a \<longleftrightarrow> exe_tenant_id (act_environment a) = aid_tenant_id (act_agent a)
     \<and> rsl_tenant_id (act_resource a) = exe_tenant_id (act_environment a)"

definition is_production :: "canonical_action \<Rightarrow> bool" where
  "is_production a \<longleftrightarrow> to_ascii_lowercase (exe_deployment (act_environment a)) = ''production''"

definition tool_guard :: "enforcement_request \<Rightarrow> policy_error + unit" where
  "tool_guard r =
     (let t = erq_tool r; a = erq_action r in
      if rto_effect_class t \<noteq> Pure \<and> unwrap_text (erq_idempotency_key r) = [] then Err LocalGuardDenied
      else if High \<le> rto_risk_level t
          \<and> (\<not> erq_resource_state_fresh r \<or> unwrap_text (act_current_state_version a) = [])
        then Err ResourceStateStale
      else if rto_effect_class t = Irreversible \<and> rto_approval_profile t = ''none'' then Err LocalGuardDenied
      else if list_ex (\<lambda>c. crf_profile c = ''inline'') (act_credential_refs a) then Err LocalGuardDenied
      else Ok ())"

definition local_hard_guard :: "('sk, 'vk) pep_port \<Rightarrow> enforcement_request \<Rightarrow> policy_error + unit" where
  "local_hard_guard port r =
     (if (erq_stage r = PreExecution) \<noteq> (erq_execution_context r \<noteq> None) then Err LocalGuardDenied
      else if (case erq_execution_context r of None \<Rightarrow> False | Some c \<Rightarrow> \<not> context_valid port c)
        then Err ExecutionAuthInvalid
      else if erq_stage r = PreExecution
          \<and> \<not> (case erq_idempotency_key r of None \<Rightarrow> False | Some k \<Rightarrow> valid_idempotency_key k)
        then Err LocalGuardDenied
      else (case action_hash (pp_action port) (erq_action r) of
          Inl _ \<Rightarrow> Err LocalGuardDenied
        | Inr h \<Rightarrow>
            if h \<noteq> erq_action_hash r then Err InputHashMismatch
            else if \<not> tenants_agree (erq_action r) then Err LocalGuardDenied
            else if is_production (erq_action r) \<and> erq_identity_uses_dev_verifier r then Err LocalGuardDenied
            else (case pp_is_revoked port (act_tool (erq_action r)) (tim_digest (rto_implementation (erq_tool r))) of
                Inl _ \<Rightarrow> Err RegistryRevoked
              | Inr revoked \<Rightarrow>
                  if revoked then Err RegistryRevoked
                  else (case pp_validate_arguments port (erq_tool r) (action_arguments (erq_action r)) of
                      Inl _ \<Rightarrow> Err LocalGuardDenied
                    | Inr _ \<Rightarrow> tool_guard r))))"

subsection \<open>Obligations\<close>

fun obligation_name :: "obligation \<Rightarrow> string" where
  "obligation_name (ObRequireApproval _) = ''REQUIRE_APPROVAL''"
| "obligation_name (UseSandboxProfile _) = ''USE_SANDBOX_PROFILE''"
| "obligation_name (UseNetworkProfile _) = ''USE_NETWORK_PROFILE''"
| "obligation_name (UseFilesystemProfile _) = ''USE_FILESYSTEM_PROFILE''"
| "obligation_name (UseCredentialProfile _) = ''USE_CREDENTIAL_PROFILE''"
| "obligation_name (MaxExecutionTime _) = ''MAX_EXECUTION_TIME''"
| "obligation_name (MaxResultBytes _) = ''MAX_RESULT_BYTES''"
| "obligation_name (RedactFields _) = ''REDACT_FIELDS''"
| "obligation_name RequireFreshResourceState = ''REQUIRE_FRESH_RESOURCE_STATE''"
| "obligation_name RequireResourceVersion = ''REQUIRE_RESOURCE_VERSION''"
| "obligation_name RequireSimulation = ''REQUIRE_SIMULATION''"
| "obligation_name PauseTask = ''PAUSE_TASK''"
| "obligation_name KillTask = ''KILL_TASK''"
| "obligation_name (EmitSecurityAlert _) = ''EMIT_SECURITY_ALERT''"
| "obligation_name (SetRetryLimit _) = ''SET_RETRY_LIMIT''"
| "obligation_name (RequireEvaluator _) = ''REQUIRE_EVALUATOR''"

fun stage_debug :: "enforcement_stage \<Rightarrow> string" where
  "stage_debug PreApproval = ''PreApproval''"
| "stage_debug PreExecution = ''PreExecution''"
| "stage_debug Continuous = ''Continuous''"

definition receipt_of ::
  "('sk, 'vk) pep_port \<Rightarrow> string \<Rightarrow> enforcement_request \<Rightarrow> enforcement_receipt" where
  "receipt_of port kind r =
     \<lparr>erc_obligation_kind = kind,
      erc_receipt_hash = pp_sha256_hex port
        (kind @ '':'' @ erq_action_hash r @ '':'' @ stage_debug (erq_stage r)),
      erc_enforced_at = erq_now r\<rparr>"

text \<open>The runtime handler: the call an obligation makes, if it is one for the runtime.\<close>

fun runtime_call_of :: "string \<Rightarrow> obligation \<Rightarrow> runtime_call option" where
  "runtime_call_of h PauseTask = Some (CallPause h)"
| "runtime_call_of h KillTask = Some (CallKill h)"
| "runtime_call_of h (EmitSecurityAlert code) = Some (CallAlert code h)"
| "runtime_call_of h _ = None"

definition runtime_handler_enforce ::
  "('sk, 'vk) pep_port \<Rightarrow> obligation \<Rightarrow> enforcement_request \<Rightarrow> pep_state
   \<Rightarrow> (policy_error + enforcement_receipt) \<times> pep_state" where
  "runtime_handler_enforce port ob r st =
     (case runtime_call_of (erq_action_hash r) ob of
        None \<Rightarrow> (Err UnknownObligation, st)
      | Some c \<Rightarrow> (res_bind (pp_runtime port c) (\<lambda>_. Ok (receipt_of port (obligation_name ob) r)),
                   st\<lparr>ps_runtime_calls := ps_runtime_calls st @ [c]\<rparr>))"

definition enforce_obligation ::
  "('sk, 'vk) pep_port \<Rightarrow> 'sk pep_config \<Rightarrow> enforcement_request \<Rightarrow> obligation \<Rightarrow> pep_state
   \<Rightarrow> (policy_error + enforcement_receipt) \<times> pep_state" where
  "enforce_obligation port cfg r ob st =
     (if runtime_call_of (erq_action_hash r) ob \<noteq> None
      then (if pc_has_runtime_handler cfg then runtime_handler_enforce port ob r st
            else (Err ObligationFailed, st))
      else if ob = RequireSimulation \<and> \<not> exe_simulation (act_environment (erq_action r))
        then (Err ObligationFailed, st)
      else if ob = RequireFreshResourceState \<and> \<not> erq_resource_state_fresh r
        then (Err ResourceStateStale, st)
      else if ob = RequireResourceVersion \<and> unwrap_text (act_current_state_version (erq_action r)) = []
        then (Err ResourceStateStale, st)
      else (Ok (receipt_of port (obligation_name ob) r), st))"

fun enforce_obligations ::
  "('sk, 'vk) pep_port \<Rightarrow> 'sk pep_config \<Rightarrow> enforcement_request \<Rightarrow> obligation list \<Rightarrow> pep_state
   \<Rightarrow> (policy_error + enforcement_receipt list) \<times> pep_state" where
  "enforce_obligations port cfg r [] st = (Ok [], st)"
| "enforce_obligations port cfg r (ob # obs) st =
     (case enforce_obligation port cfg r ob st of
        (Inl e, st') \<Rightarrow> (Err e, st')
      | (Inr x, st') \<Rightarrow>
          (case enforce_obligations port cfg r obs st' of
             (Inl e, st'') \<Rightarrow> (Err e, st'')
           | (Inr xs, st'') \<Rightarrow> (Ok (x # xs), st'')))"

record obligation_config =
  obc_sandbox_profile :: string
  obc_network_profile :: string
  obc_credential_profile :: string
  obc_max_execution_ms :: u64
  obc_max_result_bytes :: u64

fun apply_obligation :: "obligation \<Rightarrow> obligation_config \<Rightarrow> obligation_config" where
  "apply_obligation (UseSandboxProfile p) c = c\<lparr>obc_sandbox_profile := p\<rparr>"
| "apply_obligation (UseNetworkProfile p) c = c\<lparr>obc_network_profile := p\<rparr>"
| "apply_obligation (UseCredentialProfile p) c = c\<lparr>obc_credential_profile := p\<rparr>"
| "apply_obligation (MaxExecutionTime ms) c = c\<lparr>obc_max_execution_ms := min (obc_max_execution_ms c) ms\<rparr>"
| "apply_obligation (MaxResultBytes b) c = c\<lparr>obc_max_result_bytes := min (obc_max_result_bytes c) b\<rparr>"
| "apply_obligation _ c = c"

definition config_from_obligations :: "obligation list \<Rightarrow> resolved_tool \<Rightarrow> obligation_config" where
  "config_from_obligations obs t = fold apply_obligation obs
     \<lparr>obc_sandbox_profile = rto_executor_profile t, obc_network_profile = rto_network_profile_ref t,
      obc_credential_profile = rto_credential_profile t,
      obc_max_execution_ms = tli_timeout_ms (rto_limits t),
      obc_max_result_bytes = tli_max_result_bytes (rto_limits t)\<rparr>"

subsection \<open>The execution authorization\<close>

definition resource_version_of :: "canonical_action \<Rightarrow> string" where
  "resource_version_of a =
     (case act_current_state_version a of Some v \<Rightarrow> v
      | None \<Rightarrow> (case rsl_version (act_resource a) of Some v \<Rightarrow> v | None \<Rightarrow> ''unversioned-read''))"

definition draft_authorization ::
  "('sk, 'vk) pep_port \<Rightarrow> 'sk pep_config \<Rightarrow> string \<Rightarrow> enforcement_request \<Rightarrow> policy_decision
   \<Rightarrow> authorization_context \<Rightarrow> string \<Rightarrow> string \<Rightarrow> string \<Rightarrow> execution_authorization" where
  "draft_authorization port cfg uuid r d c key arguments decision_text =
     (let a = erq_action r; t = erq_tool r; obs = config_from_obligations (pd_obligations d) t in
      \<lparr>xa_schema_version = EXECUTION_AUTHORIZATION_SCHEMA_VERSION, xa_authorization_id = uuid,
       xa_tenant_id = exe_tenant_id (act_environment a), xa_task_id = act_task_id a,
       xa_step_id = act_step_id a, xa_agent_instance_id = aid_agent_instance_id (act_agent a),
       xa_action_hash = erq_action_hash r, xa_tool_id = rto_tool_id t,
       xa_tool_version = rto_tool_version t, xa_tool_snapshot_hash = rto_snapshot_hash t,
       xa_implementation_digest = tim_digest (rto_implementation t),
       xa_executor_profile = rto_executor_profile t, xa_operation = int_operation (act_intent a),
       xa_resource = rsl_locator (act_resource a),
       xa_canonical_arguments_hash = pp_sha256_hex port arguments,
       xa_target_profile = axc_target_profile c, xa_environment = exe_deployment (act_environment a),
       xa_idempotency_key = key, xa_ledger_execution_id = axc_ledger_execution_id c,
       xa_ledger_event_id = axc_ledger_event_id c, xa_ledger_event_digest = axc_ledger_event_digest c,
       xa_fence_digest = axc_fence_digest c, xa_policy_decision_id = pd_decision_id d,
       xa_policy_decision_digest = pp_sha256_hex port decision_text,
       xa_policy_version = pd_policy_version d, xa_policy_bundle_hash = pd_policy_bundle_hash d,
       xa_policy_input_hash = pd_input_hash d, xa_authorization_evidence_ref = [],
       xa_authorization_evidence_digest = [], xa_preapproval_digest = axc_preapproval_digest c,
       xa_approval_ids = (case erq_approval r of None \<Rightarrow> [] | Some g \<Rightarrow> [mg_approval_id g]),
       xa_approval_consumption_ref = axc_approval_consumption_ref c,
       xa_approval_receipt_digest = axc_approval_receipt_digest c,
       xa_resource_version = resource_version_of a,
       xa_sandbox_profile = obc_sandbox_profile obs, xa_network_profile = obc_network_profile obs,
       xa_credential_profile = obc_credential_profile obs,
       xa_workload_credential_id = axc_workload_credential_id c,
       xa_workload_credential_claims_digest = axc_workload_credential_claims_digest c,
       xa_workload_credential_audience = axc_workload_credential_audience c,
       xa_workload_credential_revocation_epoch = axc_workload_credential_revocation_epoch c,
       xa_max_execution_ms = min (obc_max_execution_ms obs) (tli_timeout_ms (rto_limits t)),
       xa_max_result_bytes = min (obc_max_result_bytes obs) (tli_max_result_bytes (rto_limits t)),
       xa_issued_at = erq_now r, xa_expires_at = erq_now r + chrono_seconds 60, xa_single_use = True,
       xa_issuer = pc_issuer cfg, xa_key_id = pc_key_id cfg,
       xa_key_usage = PEP_EXECUTION_AUTHORIZATION_KEY_USAGE, xa_signature = []\<rparr>)"

definition approval_binding_consistent :: "enforcement_request \<Rightarrow> authorization_context \<Rightarrow> bool" where
  "approval_binding_consistent r c \<longleftrightarrow>
     (erq_approval r \<noteq> None) = (axc_approval_consumption_ref c \<noteq> None \<and> axc_approval_receipt_digest c \<noteq> None)
     \<and> (axc_approval_consumption_ref c \<noteq> None) = (axc_approval_receipt_digest c \<noteq> None)"

definition issue_execution_authorization ::
  "('sk, 'vk) pep_port \<Rightarrow> 'sk pep_config \<Rightarrow> string \<Rightarrow> enforcement_request \<Rightarrow> policy_decision
   \<Rightarrow> policy_error + execution_authorization" where
  "issue_execution_authorization port cfg uuid r d =
     (case erq_execution_context r of
        None \<Rightarrow> Err ExecutionAuthInvalid
      | Some c \<Rightarrow>
          if unwrap_text (erq_idempotency_key r) = [] then Err ExecutionAuthInvalid
          else if \<not> approval_binding_consistent r c then Err ExecutionAuthInvalid
          else (case (pp_jcs_arguments port (action_arguments (erq_action r)), pp_jcs_decision port d) of
              (Some arguments, Some decision_text) \<Rightarrow>
                (let draft = draft_authorization port cfg uuid r d c (unwrap_text (erq_idempotency_key r))
                       arguments decision_text in
                 case bind_evidence (pp_jcs_authorization port) (pp_sha256_hex port) draft of
                   (Inl _, _) \<Rightarrow> Err ExecutionAuthInvalid
                 | (Inr _, bound) \<Rightarrow>
                     (case authorization_sign (ai_signer (pp_action port)) (pp_jcs_authorization port)
                             (pc_signing_key cfg) bound of
                        (Inl _, _) \<Rightarrow> Err ExecutionAuthInvalid
                      | (Inr _, signed_authorization) \<Rightarrow> Ok signed_authorization))
            | _ \<Rightarrow> Err ExecutionAuthInvalid))"

subsection \<open>Decisions\<close>

definition policy_input_hash :: "('sk, 'vk) pep_port \<Rightarrow> policy_input \<Rightarrow> policy_error + string" where
  "policy_input_hash port input =
     (case pp_jcs_input port input of None \<Rightarrow> Err DecisionInvalid | Some b \<Rightarrow> Ok (pp_sha256_hex port b))"

definition validate_policy_decision ::
  "policy_decision \<Rightarrow> string \<Rightarrow> datetime \<Rightarrow> string \<Rightarrow> policy_error + unit" where
  "validate_policy_decision d input_hash now active_bundle_digest =
     reject_if (pd_schema_version d \<noteq> POLICY_SCHEMA_VERSION \<or> pd_input_hash d \<noteq> input_hash
       \<or> now < pd_evaluated_at d \<or> pd_expires_at d \<le> now
       \<or> pd_policy_bundle_hash d \<noteq> active_bundle_digest) DecisionInvalid"

fun requires_approval :: "obligation \<Rightarrow> bool" where
  "requires_approval (ObRequireApproval _) = True"
| "requires_approval _ = False"

definition approval_required :: "policy_decision \<Rightarrow> resolved_tool \<Rightarrow> bool" where
  "approval_required d t \<longleftrightarrow> pd_decision d = RequireApproval
     \<or> list_ex requires_approval (pd_obligations d) \<or> rto_approval_profile t \<noteq> ''none''"

text \<open>What the HTTP decision point makes of the answer it gets.\<close>

datatype http_answer = SendFailed | Answered bool "string option"

definition http_evaluate :: "(string \<Rightarrow> policy_decision option) \<Rightarrow> http_answer \<Rightarrow> policy_error + policy_decision" where
  "http_evaluate parse answer =
     (case answer of
        SendFailed \<Rightarrow> Err PdpUnavailable
      | Answered success body \<Rightarrow>
          if \<not> success then Err PdpUnavailable
          else (case body of
              None \<Rightarrow> Err DecisionInvalid
            | Some bytes \<Rightarrow>
                if length bytes > 262144 then Err DecisionInvalid
                else (case parse bytes of None \<Rightarrow> Err DecisionInvalid | Some d \<Rightarrow> Ok d)))"

subsection \<open>Enforcement\<close>

definition with_obligations ::
  "('sk, 'vk) pep_port \<Rightarrow> 'sk pep_config \<Rightarrow> enforcement_request \<Rightarrow> policy_decision \<Rightarrow> pep_state
   \<Rightarrow> (enforcement_receipt list \<Rightarrow> policy_error + enforcement_outcome)
   \<Rightarrow> (policy_error + enforcement_outcome) \<times> pep_state" where
  "with_obligations port cfg r d st rest =
     (case enforce_obligations port cfg r (pd_obligations d) st of
        (Inl e, st') \<Rightarrow> (Err e, st')
      | (Inr receipts, st') \<Rightarrow> (rest receipts, st'))"

definition continuous_outcome ::
  "policy_decision \<Rightarrow> enforcement_receipt list \<Rightarrow> policy_error + enforcement_outcome" where
  "continuous_outcome d receipts =
     (case pd_decision d of
        Pause \<Rightarrow> Ok (PauseRequired d receipts)
      | Kill \<Rightarrow> Ok (KillRequired d receipts)
      | Allow \<Rightarrow> Ok (PreApprovalPassed d receipts)
      | _ \<Rightarrow> Err FailClosed)"

definition use_approval ::
  "enforcement_request \<Rightarrow> policy_decision \<Rightarrow> pep_state \<Rightarrow> (policy_error + unit) \<times> pep_state" where
  "use_approval r d st =
     (if approval_required d (erq_tool r)
      then (case erq_approval r of
              None \<Rightarrow> (Err PApprovalRequired, st)
            | Some g \<Rightarrow> kernel_verify_and_consume g r (pd_policy_version d) st)
      else (Ok (), st))"

definition authorize_execution ::
  "('sk, 'vk) pep_port \<Rightarrow> 'sk pep_config \<Rightarrow> string \<Rightarrow> enforcement_request \<Rightarrow> policy_decision \<Rightarrow> pep_state
   \<Rightarrow> (policy_error + enforcement_outcome) \<times> pep_state" where
  "authorize_execution port cfg uuid r d st =
     (case use_approval r d st of
        (Inl e, st1) \<Rightarrow> (Err e, st1)
      | (Inr _, st1) \<Rightarrow>
          if pd_decision d \<noteq> Allow \<and> pd_decision d \<noteq> RequireApproval then (Err FailClosed, st1)
          else with_obligations port cfg r d st1 (\<lambda>receipts.
            res_bind (issue_execution_authorization port cfg uuid r d) (\<lambda>x.
              Ok (ExecutionAuthorized d x receipts))))"

definition enforce ::
  "('sk, 'vk) pep_port \<Rightarrow> 'sk pep_config \<Rightarrow> string \<Rightarrow> enforcement_request \<Rightarrow> pep_state
   \<Rightarrow> (policy_error + enforcement_outcome) \<times> pep_state" where
  "enforce port cfg uuid r st =
     (case res_bind (local_hard_guard port r) (\<lambda>_.
             res_bind (policy_input_hash port (erq_policy_input r)) (\<lambda>input_hash.
             res_bind (pp_evaluate port (erq_policy_input r) (erq_stage r)) (\<lambda>d.
             res_bind (validate_policy_decision d input_hash (erq_now r) (pc_active_policy_bundle_digest cfg))
               (\<lambda>_. Ok d)))) of
        Inl e \<Rightarrow> (Err e, st)
      | Inr d \<Rightarrow>
          if pd_decision d = Deny then (Ok (Denied d), st)
          else (case erq_stage r of
              PreApproval \<Rightarrow>
                if approval_required d (erq_tool r) then (Ok (ApprovalNeeded d), st)
                else with_obligations port cfg r d st (\<lambda>receipts. Ok (PreApprovalPassed d receipts))
            | Continuous \<Rightarrow> with_obligations port cfg r d st (continuous_outcome d)
            | PreExecution \<Rightarrow> authorize_execution port cfg uuid r d st))"

end
