(* ===== verification/Policy_Enforcement_Safety.thy ===== *)
theory Policy_Enforcement_Safety
  imports Policy_Enforcement Tool_Registry_Safety
begin

text \<open>
  What an execution authorization is worth: what the enforcement point checked before it issued one,
  that a single-use approval pays for one, that it verifies, that the runtime is only called for valid
  decisions, and that a tool revoked in the registry is never authorized.
\<close>

subsection \<open>One call\<close>

lemma local_hard_guard_Ok:
  assumes "local_hard_guard port r = Ok u"
  shows "(erq_stage r = PreExecution) = (erq_execution_context r \<noteq> None)"
    "erq_execution_context r = Some c \<Longrightarrow> context_valid port c"
    "erq_stage r = PreExecution \<Longrightarrow> \<exists>k. erq_idempotency_key r = Some k \<and> valid_idempotency_key k"
    "action_hash (pp_action port) (erq_action r) = Ok (erq_action_hash r)"
    "tenants_agree (erq_action r)" "is_production (erq_action r) \<Longrightarrow> \<not> erq_identity_uses_dev_verifier r"
    "pp_is_revoked port (act_tool (erq_action r)) (tim_digest (rto_implementation (erq_tool r))) = Ok False"
    "is_ok (pp_validate_arguments port (erq_tool r) (action_arguments (erq_action r)))"
    "tool_guard r = Ok u"
  using assms by (auto simp: local_hard_guard_def split: sum.splits if_splits option.splits)

lemma tool_guard_Ok_iff:
  "tool_guard r = Ok u \<longleftrightarrow> (rto_effect_class (erq_tool r) \<noteq> Pure \<longrightarrow> unwrap_text (erq_idempotency_key r) \<noteq> [])
     \<and> (High \<le> rto_risk_level (erq_tool r) \<longrightarrow> erq_resource_state_fresh r
          \<and> unwrap_text (act_current_state_version (erq_action r)) \<noteq> [])
     \<and> \<not> (rto_effect_class (erq_tool r) = Irreversible \<and> rto_approval_profile (erq_tool r) = ''none'')
     \<and> (\<forall>c \<in> set (act_credential_refs (erq_action r)). crf_profile c \<noteq> ''inline'')"
  by (auto simp: tool_guard_def Let_def list_ex_iff)

definition decision_for :: "('sk, 'vk) pep_port \<Rightarrow> 'sk pep_config \<Rightarrow> enforcement_request \<Rightarrow> policy_decision \<Rightarrow> bool" where
  "decision_for port cfg r d \<longleftrightarrow> local_hard_guard port r = Ok ()
     \<and> pp_evaluate port (erq_policy_input r) (erq_stage r) = Ok d
     \<and> policy_input_hash port (erq_policy_input r) = Ok (pd_input_hash d)
     \<and> pd_schema_version d = POLICY_SCHEMA_VERSION
     \<and> pd_policy_bundle_hash d = pc_active_policy_bundle_digest cfg
     \<and> pd_evaluated_at d \<le> erq_now r \<and> erq_now r < pd_expires_at d"

text \<open>A call either stops with an error and leaves the state alone, or has a decision for the request.\<close>

lemma enforce_cases:
  obtains (stopped) e where "enforce port cfg uuid r st = (Err e, st)"
  | (denied) d where "decision_for port cfg r d" "pd_decision d = Deny" "enforce port cfg uuid r st = (Ok (Denied d), st)"
  | (waiting) d where "decision_for port cfg r d" "pd_decision d \<noteq> Deny" "erq_stage r = PreApproval"
      "approval_required d (erq_tool r)" "enforce port cfg uuid r st = (Ok (ApprovalNeeded d), st)"
  | (passed) d where "decision_for port cfg r d" "pd_decision d \<noteq> Deny" "erq_stage r = PreApproval"
      "\<not> approval_required d (erq_tool r)"
      "enforce port cfg uuid r st = with_obligations port cfg r d st (\<lambda>receipts. Ok (PreApprovalPassed d receipts))"
  | (watched) d where "decision_for port cfg r d" "pd_decision d \<noteq> Deny" "erq_stage r = Continuous"
      "enforce port cfg uuid r st = with_obligations port cfg r d st (continuous_outcome d)"
  | (executing) d where "decision_for port cfg r d" "pd_decision d \<noteq> Deny" "erq_stage r = PreExecution"
      "enforce port cfg uuid r st = authorize_execution port cfg uuid r d st"
proof -
  let ?d = "res_bind (local_hard_guard port r) (\<lambda>_.
             res_bind (policy_input_hash port (erq_policy_input r)) (\<lambda>input_hash.
             res_bind (pp_evaluate port (erq_policy_input r) (erq_stage r)) (\<lambda>d.
             res_bind (validate_policy_decision d input_hash (erq_now r) (pc_active_policy_bundle_digest cfg))
               (\<lambda>_. Ok d))))"
  show thesis
  proof (cases ?d)
    case (Inl e)
    then show ?thesis
      by (intro stopped) (simp add: enforce_def)
  next
    case (Inr d)
    then have "decision_for port cfg r d"
      by (auto simp: res_bind_Ok_iff decision_for_def validate_policy_decision_def)
    then show ?thesis
      using Inr denied waiting passed watched executing
      by (cases "pd_decision d = Deny"; cases "erq_stage r"; cases "approval_required d (erq_tool r)")
        (simp_all add: enforce_def)
  qed
qed

lemma enforce_obligations_used [simp]:
  "ps_used (snd (enforce_obligations port cfg r obs st)) = ps_used st"
proof (induction obs arbitrary: st)
  case (Cons ob obs)
  have "ps_used (snd (enforce_obligation port cfg r ob st)) = ps_used st"
    by (simp add: enforce_obligation_def runtime_handler_enforce_def split: option.splits)
  moreover obtain x st' where one: "enforce_obligation port cfg r ob st = (x, st')"
    by force
  moreover obtain xs st'' where rest: "enforce_obligations port cfg r obs st' = (xs, st'')"
    by force
  ultimately show ?case
    using Cons [of st'] by (cases x; cases xs) simp_all
qed simp

lemma with_obligations_used [simp]:
  "ps_used (snd (with_obligations port cfg r d st rest)) = ps_used st"
proof -
  obtain x st' where run: "enforce_obligations port cfg r (pd_obligations d) st = (x, st')"
    by force
  then show ?thesis
    using enforce_obligations_used [of port cfg r "pd_obligations d" st]
    by (cases x) (simp_all add: with_obligations_def)
qed

lemma with_obligations_Ok:
  "with_obligations port cfg r d st rest = (Ok o', st') \<Longrightarrow> \<exists>receipts. rest receipts = Ok o'"
  by (auto simp: with_obligations_def split: prod.splits sum.splits)

lemma use_approval_Ok:
  assumes "use_approval r d st = (Ok u, st')"
  shows "approval_required d (erq_tool r) \<Longrightarrow> \<exists>g. erq_approval r = Some g \<and> kernel_matches g r (pd_policy_version d)
      \<and> (mg_single_use g \<longrightarrow> mg_approval_id g \<notin> ps_used st \<and> mg_approval_id g \<in> ps_used st')"
    and "ps_used st \<subseteq> ps_used st'" and "ps_runtime_calls st' = ps_runtime_calls st"
  using assms by (auto simp: use_approval_def kernel_verify_and_consume_def split: if_splits option.splits)

lemma authorize_execution_Ok:
  assumes "authorize_execution port cfg uuid r d st = (Ok out, st')"
  shows "\<exists>x receipts st1. out = ExecutionAuthorized d x receipts \<and> use_approval r d st = (Ok (), st1)
    \<and> ps_used st' = ps_used st1 \<and> pd_decision d \<in> {Allow, RequireApproval}
    \<and> issue_execution_authorization port cfg uuid r d = Ok x"
proof -
  obtain st1 where st1: "use_approval r d st = (Ok (), st1)" "pd_decision d = Allow \<or> pd_decision d = RequireApproval"
      "with_obligations port cfg r d st1 (\<lambda>receipts. res_bind (issue_execution_authorization port cfg uuid r d)
         (\<lambda>x. Ok (ExecutionAuthorized d x receipts))) = (Ok out, st')"
    using assms by (auto simp: authorize_execution_def split: prod.splits sum.splits if_splits)
  have "ps_used st' = ps_used st1"
    using with_obligations_used [of port cfg r d st1] st1(3) by (metis snd_conv)
  then show ?thesis
    using st1 with_obligations_Ok [OF st1(3)] by (auto simp: res_bind_Ok_iff)
qed

lemma enforce_authorized:
  assumes "enforce port cfg uuid r st = (Ok (ExecutionAuthorized d x receipts), st')"
  shows "decision_for port cfg r d \<and> erq_stage r = PreExecution
    \<and> authorize_execution port cfg uuid r d st = (Ok (ExecutionAuthorized d x receipts), st')"
proof (cases rule: enforce_cases [of port cfg uuid r st])
  case (passed d')
  then show ?thesis
    using assms by (auto dest: with_obligations_Ok [OF sym])
next
  case (watched d')
  then show ?thesis
    using assms by (auto simp: continuous_outcome_def dest!: with_obligations_Ok [OF sym] split: decision.splits)
next
  case (executing d')
  then show ?thesis
    using assms authorize_execution_Ok [of port cfg uuid r d' st "ExecutionAuthorized d x receipts" st'] by auto
qed (use assms in auto)



text \<open>The limits and the approvals an authorization carries.\<close>

lemma issued_fields:
  assumes "issue_execution_authorization port cfg uuid r d = Ok x"
  shows "\<exists>c arguments decision_text bound.
    erq_execution_context r = Some c \<and> unwrap_text (erq_idempotency_key r) \<noteq> [] \<and> approval_binding_consistent r c
    \<and> pp_jcs_decision port d = Some decision_text
    \<and> bind_evidence (pp_jcs_authorization port) (pp_sha256_hex port)
        (draft_authorization port cfg uuid r d c (unwrap_text (erq_idempotency_key r)) arguments decision_text) = (Ok (), bound)
    \<and> authorization_sign (ai_signer (pp_action port)) (pp_jcs_authorization port) (pc_signing_key cfg) bound = (Ok (), x)"
  using assms unfolding issue_execution_authorization_def Let_def
  by (fastforce split: option.splits if_splits prod.splits sum.splits)




subsection \<open>Runs\<close>

text \<open>A run with the authorizations issued so far, each with its request and decision.\<close>

type_synonym pep_run = "pep_state \<times> (enforcement_request \<times> policy_decision) list"

definition issued_now ::
  "enforcement_request \<Rightarrow> policy_error + enforcement_outcome \<Rightarrow> (enforcement_request \<times> policy_decision) list" where
  "issued_now r res = (case res of Inr (ExecutionAuthorized d _ _) \<Rightarrow> [(r, d)] | _ \<Rightarrow> [])"

inductive pep_step :: "('sk, 'vk) pep_port \<Rightarrow> 'sk pep_config \<Rightarrow> pep_run \<Rightarrow> pep_run \<Rightarrow> bool" where
  "enforce port' cfg uuid r st = (res, st') \<Longrightarrow> pp_action port' = pp_action port
     \<Longrightarrow> pep_step port cfg (st, hist) (st', hist @ issued_now r res)"

text \<open>The authorizations a single-use approval paid for.\<close>

definition paid_with :: "string \<Rightarrow> enforcement_request \<times> policy_decision \<Rightarrow> bool" where
  "paid_with i p \<longleftrightarrow> (case p of (r, d) \<Rightarrow> approval_required d (erq_tool r)
     \<and> (case erq_approval r of None \<Rightarrow> False | Some g \<Rightarrow> mg_single_use g \<and> mg_approval_id g = i))"

definition paid_once :: "string \<Rightarrow> pep_run \<Rightarrow> bool" where
  "paid_once i run \<longleftrightarrow> length (filter (paid_with i) (snd run)) \<le> (if i \<in> ps_used (fst run) then 1 else 0)"

lemma use_approval_used:
  "ps_used st \<subseteq> ps_used (snd (use_approval r d st))"
  by (auto simp: use_approval_def kernel_verify_and_consume_def split: option.splits)

lemma enforce_used_grows:
  assumes "enforce port cfg uuid r st = (res, st')"
  shows "ps_used st \<subseteq> ps_used st'"
proof (cases rule: enforce_cases [of port cfg uuid r st])
  case (passed d)
  then show ?thesis
    using assms with_obligations_used [of port cfg r d st] by (metis order_refl snd_conv)
next
  case (watched d)
  then show ?thesis
    using assms with_obligations_used [of port cfg r d st] by (metis order_refl snd_conv)
next
  case (executing d)
  obtain a st1 where a: "use_approval r d st = (a, st1)"
    by force
  have "ps_used st \<subseteq> ps_used st1"
    using use_approval_used [of st r d] a by simp
  moreover have "ps_used (snd (authorize_execution port cfg uuid r d st)) = ps_used st1"
    using a by (cases a) (simp_all add: authorize_execution_def)
  ultimately show ?thesis
    using executing(4) assms by (metis snd_conv)
qed (use assms in auto)

lemma enforce_pays:
  assumes "enforce port cfg uuid r st = (res, st')" and "p \<in> set (issued_now r res)" and "paid_with i p"
  shows "i \<notin> ps_used st \<and> i \<in> ps_used st'"
proof -
  obtain d x receipts where res: "res = Ok (ExecutionAuthorized d x receipts)" and p: "p = (r, d)"
    using assms(2) by (auto simp: issued_now_def split: sum.splits enforcement_outcome.splits)
  have run: "authorize_execution port cfg uuid r d st = (Ok (ExecutionAuthorized d x receipts), st')"
    using enforce_authorized assms(1) res by blast
  obtain st1 where "use_approval r d st = (Ok (), st1)" "ps_used st' = ps_used st1"
    using authorize_execution_Ok [OF run] by auto
  then show ?thesis
    using use_approval_Ok(1) [of r d st "()" st1] assms(3) unfolding p paid_with_def
    by (auto split: option.splits)
qed

lemma pep_step_paid_once:
  assumes "pep_step port cfg run run'" and "paid_once i run"
  shows "paid_once i run'"
  using assms
proof (induction rule: pep_step.induct)
  case (1 port' cfg uuid r st res st' port hist)
  have short: "length (issued_now r res) \<le> 1"
    by (auto simp: issued_now_def split: sum.splits enforcement_outcome.splits)
  show ?case
  proof (cases "filter (paid_with i) (issued_now r res)")
    case Nil
    then show ?thesis
      using 1(3) enforce_used_grows [OF 1(1)] by (auto simp: paid_once_def split: if_splits)
  next
    case (Cons p ps)
    then have p: "p \<in> set (issued_now r res)" "paid_with i p"
      by (auto simp: filter_eq_Cons_iff)
    then have "i \<notin> ps_used st" "i \<in> ps_used st'"
      using enforce_pays [OF 1(1)] by auto
    moreover have "length (filter (paid_with i) (issued_now r res)) \<le> 1"
      using short length_filter_le le_trans by blast
    ultimately show ?thesis
      using 1(3) by (auto simp: paid_once_def)
  qed
qed

interpretation pep_machine: invariant_system "pep_step port cfg" "paid_once i" "\<lambda>run. run = (pep_init, [])" for port cfg i
proof unfold_locales
  show "paid_once i run" if "run = (pep_init, [])" for run
    using that by (simp add: paid_once_def pep_init_def)
qed (rule pep_step_paid_once)

text \<open>
  C9: where an approval is required, a single-use approval pays for one execution. In every run of the
  enforcement point, whatever the registry, the decision point and the runtime answer at each call, at
  most one of the authorizations it issued for decisions that require an approval lists a given
  single-use approval. Authorizations whose decision requires none are not counted: there the code
  neither checks nor spends the approval the request lists.
\<close>

theorem single_use_approval_pays_once:
  assumes "reach (\<lambda>run. run = (pep_init, [])) (pep_step port cfg) (st, issued)"
  shows "length (filter (paid_with i) issued) \<le> 1"
  using pep_machine.reach_inv [OF assms, of i] by (auto simp: paid_once_def split: if_splits)

subsection \<open>Guarded effects\<close>

definition obligation_calls :: "enforcement_request \<Rightarrow> obligation list \<Rightarrow> runtime_call list" where
  "obligation_calls r obs = List.map_filter (runtime_call_of (erq_action_hash r)) obs"

lemma enforce_obligations_calls:
  "\<exists>n. ps_runtime_calls (snd (enforce_obligations port cfg r obs st)) = ps_runtime_calls st @ take n (obligation_calls r obs)"
proof (induction obs arbitrary: st)
  case (Cons ob obs)
  obtain x st1 where one: "enforce_obligation port cfg r ob st = (x, st1)"
    by force
  obtain xs st2 where rest: "enforce_obligations port cfg r obs st1 = (xs, st2)"
    by force
  have calls: "obligation_calls r (ob # obs) =
      (case runtime_call_of (erq_action_hash r) ob of None \<Rightarrow> [] | Some c \<Rightarrow> [c]) @ obligation_calls r obs"
    by (simp add: obligation_calls_def List.map_filter_simps split: option.splits)
  have first: "ps_runtime_calls st1 = ps_runtime_calls st \<and> (runtime_call_of (erq_action_hash r) ob = None \<or> \<not> is_ok x)
      \<or> (\<exists>c. runtime_call_of (erq_action_hash r) ob = Some c \<and> ps_runtime_calls st1 = ps_runtime_calls st @ [c])"
    using one by (auto simp: enforce_obligation_def runtime_handler_enforce_def split: if_splits option.splits)
  obtain n where n: "ps_runtime_calls st2 = ps_runtime_calls st1 @ take n (obligation_calls r obs)"
    using Cons [of st1] rest by auto
  show ?case
  proof (cases x)
    case (Inl e)
    then have final: "snd (enforce_obligations port cfg r (ob # obs) st) = st1"
      using one by simp
    from first show ?thesis
    proof
      assume "ps_runtime_calls st1 = ps_runtime_calls st \<and> (runtime_call_of (erq_action_hash r) ob = None \<or> \<not> is_ok x)"
      then show ?thesis
        unfolding final by (intro exI [of _ 0]) simp
    next
      assume "\<exists>c. runtime_call_of (erq_action_hash r) ob = Some c \<and> ps_runtime_calls st1 = ps_runtime_calls st @ [c]"
      then show ?thesis
        unfolding final calls by (intro exI [of _ 1]) auto
    qed
  next
    case (Inr a)
    then have final: "snd (enforce_obligations port cfg r (ob # obs) st) = st2"
      using one rest by (cases xs) simp_all
    show ?thesis
    proof (cases "runtime_call_of (erq_action_hash r) ob")
      case None
      then show ?thesis
        unfolding final calls using first n by auto
    next
      case (Some c)
      then show ?thesis
        unfolding final calls using first n Inr by (intro exI [of _ "Suc n"]) auto
    qed
  qed
qed simp

lemma with_obligations_calls:
  "\<exists>n. ps_runtime_calls (snd (with_obligations port cfg r d st rest)) =
     ps_runtime_calls st @ take n (obligation_calls r (pd_obligations d))"
proof -
  obtain x st' where run: "enforce_obligations port cfg r (pd_obligations d) st = (x, st')"
    by force
  then show ?thesis
    using enforce_obligations_calls [of port cfg r "pd_obligations d" st]
    by (cases x) (simp_all add: with_obligations_def)
qed

lemma use_approval_calls: "ps_runtime_calls (snd (use_approval r d st)) = ps_runtime_calls st"
  by (auto simp: use_approval_def kernel_verify_and_consume_def split: option.splits)

lemma authorize_execution_calls:
  "\<exists>n. ps_runtime_calls (snd (authorize_execution port cfg uuid r d st)) =
     ps_runtime_calls st @ take n (obligation_calls r (pd_obligations d))"
proof -
  obtain a st1 where a: "use_approval r d st = (a, st1)"
    by force
  have same: "ps_runtime_calls st1 = ps_runtime_calls st"
    using use_approval_calls [of r d st] a by simp
  show ?thesis
  proof (cases "is_ok a \<and> (pd_decision d = Allow \<or> pd_decision d = RequireApproval)")
    case True
    then show ?thesis
      using a same with_obligations_calls [of port cfg r d st1 "\<lambda>receipts. res_bind
          (issue_execution_authorization port cfg uuid r d) (\<lambda>x. Ok (ExecutionAuthorized d x receipts))"]
      by (auto simp: authorize_execution_def is_ok_iff)
  next
    case False
    then show ?thesis
      using a same by (intro exI [of _ 0]) (cases a; simp add: authorize_execution_def)
  qed
qed

text \<open>
  C29: the runtime acts only on valid decisions. Whatever a call to the enforcement point does, it adds to
  the pauses, kills and alerts sent to the runtime only the first of those that the obligations of a
  valid decision for that request ask for, in their order and for the request's action; when the guard
  fails or the decision is invalid or a denial, the runtime and the approvals are left alone.
\<close>

theorem runtime_acts_on_valid_decisions:
  assumes "enforce port cfg uuid r st = (res, st')"
  shows "st' = st \<or> (\<exists>d n. decision_for port cfg r d \<and> pd_decision d \<noteq> Deny
    \<and> ps_runtime_calls st' = ps_runtime_calls st @ take n (obligation_calls r (pd_obligations d)))"
proof (cases rule: enforce_cases [of port cfg uuid r st])
  case (passed d)
  then show ?thesis
    using assms with_obligations_calls [of port cfg r d st] by (metis snd_conv)
next
  case (watched d)
  then show ?thesis
    using assms with_obligations_calls [of port cfg r d st] by (metis snd_conv)
next
  case (executing d)
  then show ?thesis
    using assms authorize_execution_calls [of port cfg uuid r d st] by (metis snd_conv)
qed (use assms in auto)

subsection \<open>The registry behind the enforcement point\<close>

definition with_registry :: "('sk, 'vk) registry_env \<Rightarrow> 'vk tool_registry \<Rightarrow> ('sk, 'vk) pep_port \<Rightarrow> ('sk, 'vk) pep_port" where
  "with_registry env s port = port\<lparr>pp_is_revoked := \<lambda>tool digest. is_revoked tool digest s,
     pp_validate_arguments := validate_arguments env\<rparr>"

lemma with_registry_simps [simp]:
  "pp_is_revoked (with_registry env s port) = (\<lambda>tool digest. is_revoked tool digest s)"
  "pp_validate_arguments (with_registry env s port) = validate_arguments env"
  by (simp_all add: with_registry_def)

text \<open>
  C14: revoking a tool stops its actions. From the moment the registry revoked a tool, and after any
  further operations on the registry, the enforcement point refuses every request for an action with
  that tool, at every stage and whatever snapshot of the tool it carries, and calls nothing.
\<close>

theorem revoked_tool_is_not_enforced:
  assumes "fst (revoke_tool (act_tool (erq_action r)) s) = Ok ()"
    and "(registry_step env)\<^sup>*\<^sup>* (snd (revoke_tool (act_tool (erq_action r)) s)) t"
  shows "\<exists>e. enforce (with_registry env t port) cfg uuid r st = (Err e, st)"
proof -
  obtain rec where "bt_get (trg_tools t) (tool_key (act_tool (erq_action r))) = Some rec"
      "tm_status (trc_manifest rec) = VRevoked"
    using revoked_record_stays [OF assms] by blast
  then have "is_revoked (act_tool (erq_action r)) digest t \<noteq> Ok False" for digest
    by (simp add: is_revoked_def)
  then have "local_hard_guard (with_registry env t port) r \<noteq> Ok u" for u
    using local_hard_guard_Ok(7) [of "with_registry env t port" r u] by auto
  then show ?thesis
    by (cases "local_hard_guard (with_registry env t port) r") (simp_all add: enforce_def)
qed

subsection \<open>What is issued is accepted\<close>

text \<open>
  The format rules of an execution authorization that the guard does not check: identifiers are UUIDs,
  texts are bounded, digests are digests and no limit is zero.
\<close>

definition within_format :: "('sk, 'vk) pep_port \<Rightarrow> 'sk pep_config \<Rightarrow> string \<Rightarrow> enforcement_request \<Rightarrow> policy_decision \<Rightarrow> bool" where
  "within_format port cfg uuid r d \<longleftrightarrow> (let a = erq_action r; t = erq_tool r;
       obs = config_from_obligations (pd_obligations d) t in
     list_all (pp_uuid_ok port) [uuid, exe_tenant_id (act_environment a), act_task_id a, act_step_id a,
       aid_agent_instance_id (act_agent a)]
     \<and> (case erq_approval r of None \<Rightarrow> True | Some g \<Rightarrow> pp_uuid_ok port (mg_approval_id g))
     \<and> list_all is_lower_hex_digest [erq_action_hash r, rto_snapshot_hash t, pd_policy_bundle_hash d]
     \<and> valid_implementation_digest (tim_digest (rto_implementation t))
     \<and> list_all (\<lambda>x. bounded_nonempty x 256) [rto_tool_id t, rto_tool_version t, rto_executor_profile t,
          int_operation (act_intent a), pd_decision_id d, pd_policy_version d, resource_version_of a,
          obc_sandbox_profile obs, obc_network_profile obs, obc_credential_profile obs, pc_issuer cfg, pc_key_id cfg]
     \<and> bounded_nonempty (rsl_locator (act_resource a)) 2048
     \<and> bounded_nonempty (exe_deployment (act_environment a)) 128
     \<and> 0 < obc_max_execution_ms obs \<and> tli_timeout_ms (rto_limits t) \<in> {1..86400000}
     \<and> 0 < obc_max_result_bytes obs \<and> tli_max_result_bytes (rto_limits t) \<in> {1..1073741824})"

lemma draft_well_scoped:
  assumes "within_format port cfg uuid r d" and "decision_for port cfg r d" and "erq_stage r = PreExecution"
    and "erq_execution_context r = Some c" and "approval_binding_consistent r c"
    and "\<And>x. is_lower_hex_digest (pp_sha256_hex port x)"
  shows "well_scoped (pp_uuid_ok port)
    (draft_authorization port cfg uuid r d c (unwrap_text (erq_idempotency_key r)) arguments decision_text)"
proof -
  let ?x = "draft_authorization port cfg uuid r d c (unwrap_text (erq_idempotency_key r)) arguments decision_text"
  have guard: "local_hard_guard port r = Ok ()" and input: "policy_input_hash port (erq_policy_input r) = Ok (pd_input_hash d)"
    using assms(2) by (simp_all add: decision_for_def)
  have context_ok: "context_valid port c"
    using local_hard_guard_Ok(2) [OF guard] assms(4) by simp
  obtain key where key: "erq_idempotency_key r = Some key" "valid_idempotency_key key"
    using local_hard_guard_Ok(3) [OF guard assms(3)] by auto
  have "is_lower_hex_digest h" if "policy_input_hash port i = Ok h" for h i
    using that assms(6) by (auto simp: policy_input_hash_def split: option.splits)
  then have "is_lower_hex_digest (pd_input_hash d)"
    using input by blast
  then have "digests_valid ?x"
    using assms(1,6) context_ok by (simp add: digests_valid_def draft_authorization_def Let_def within_format_def context_valid_def)
  moreover have "identifiers_valid (pp_uuid_ok port) ?x"
    using assms(1) context_ok by (simp add: identifiers_valid_def draft_authorization_def Let_def within_format_def context_valid_def)
  moreover have "approvals_valid (pp_uuid_ok port) ?x"
    using assms(1,5) context_ok
    by (auto simp: approvals_valid_def approval_binding_present_def draft_authorization_def Let_def within_format_def
        context_valid_def approval_binding_consistent_def bounded_nonempty_def split: option.splits)
  moreover have "texts_bounded ?x"
    using assms(1) context_ok key
    by (simp add: texts_bounded_def draft_authorization_def Let_def within_format_def context_valid_def
        unwrap_text_def bounded_nonempty_def)
  moreover have "limits_valid ?x"
    using assms(1) by (auto simp: limits_valid_def draft_authorization_def Let_def within_format_def min_def
        chrono_seconds_def chrono_minutes_def word_neq_0_conv [symmetric])
  ultimately show ?thesis
    by (simp add: well_scoped_def)
qed

text \<open>
  C25: what is issued is accepted. An authorization the enforcement point issued for a request within the
  format rules verifies, under the point's public key and with the verifier of the contracts, at every
  instant of the sixty seconds after it was issued.
\<close>

theorem issued_authorization_verifies:
  assumes "enforce port cfg uuid r st = (Ok (ExecutionAuthorized d x receipts), st')"
    and "within_format port cfg uuid r d" and "signer_correct (ai_signer (pp_action port))"
    and "\<And>y. is_lower_hex_digest (pp_sha256_hex port y)"
    and "erq_now r \<le> t" and "t < erq_now r + chrono_seconds 60"
  shows "authorization_verify (ai_signer (pp_action port)) (pp_jcs_authorization port) (pp_sha256_hex port)
    (pp_uuid_ok port) (sg_public (ai_signer (pp_action port)) (pc_signing_key cfg)) t x = Ok ()"
proof -
  have dec: "decision_for port cfg r d" "erq_stage r = PreExecution"
    and "issue_execution_authorization port cfg uuid r d = Ok x"
    using enforce_authorized [OF assms(1)] authorize_execution_Ok by blast+
  then obtain c arguments decision_text bound where i: "erq_execution_context r = Some c" "approval_binding_consistent r c"
      "bind_evidence (pp_jcs_authorization port) (pp_sha256_hex port)
        (draft_authorization port cfg uuid r d c (unwrap_text (erq_idempotency_key r)) arguments decision_text) = (Ok (), bound)"
      "authorization_sign (ai_signer (pp_action port)) (pp_jcs_authorization port) (pc_signing_key cfg) bound = (Ok (), x)"
    using issued_fields by blast
  show ?thesis
    by (rule signed_authorization_verifies [OF assms(3,4) draft_well_scoped [OF assms(2) dec i(1,2) assms(4)] _ _ i(3,4)])
      (use assms(5,6) in \<open>simp_all add: draft_authorization_def Let_def\<close>)
qed

subsection \<open>Samples\<close>

definition sample_pep_action_env :: "(unit, unit) action_env" where
  "sample_pep_action_env = sample_action_env\<lparr>ai_jcs_action := \<lambda>_. Some ''action'', ai_sha256_hex := \<lambda>_. sample_digest\<rparr>"

definition sample_pep_tool :: resolved_tool where
  "sample_pep_tool = (sample_resolved 9)\<lparr>rto_snapshot_hash := sample_digest, rto_approval_profile := ''dual''\<rparr>"

definition sample_policy_input :: policy_input where
  "sample_policy_input = \<lparr>pin_subject = act_agent sample_canonical, pin_intent = act_intent sample_canonical,
     pin_tool = policy_snapshot sample_pep_tool, pin_arguments = [], pin_resource = act_resource sample_canonical,
     pin_environment = act_environment sample_canonical, pin_current_state_version = Some ''v7'',
     pin_execution_plan_hash = None, pin_data_classification = Internal,
     pin_trajectory_risk = \<lparr>trk_version = ''1'', trk_accumulated_resources = [], trk_anomaly_score_millionths = 0\<rparr>,
     pin_registry_snapshot_hash = sample_digest,
     pin_runtime = \<lparr>rtc_identity_subject = ''bob'', rtc_prior_approvals = [], rtc_budget_remaining_microunits = 5\<rparr>\<rparr>"

definition sample_decision :: policy_decision where
  "sample_decision = \<lparr>pd_schema_version = POLICY_SCHEMA_VERSION, pd_decision_id = ''d1'', pd_decision = RequireApproval,
     pd_reason_codes = [], pd_policy_version = ''p1'', pd_policy_bundle_hash = sample_digest,
     pd_input_hash = sample_digest, pd_evaluated_at = 5, pd_expires_at = 50,
     pd_obligations = [MaxExecutionTime 500, EmitSecurityAlert ''c''], pd_risk_summary = Low\<rparr>"

definition sample_pep_port :: "(unit, unit) pep_port" where
  "sample_pep_port = \<lparr>pp_action = sample_pep_action_env, pp_is_revoked = \<lambda>_ _. Ok False,
     pp_validate_arguments = \<lambda>_ _. Ok (), pp_evaluate = \<lambda>_ _. Ok sample_decision, pp_runtime = \<lambda>_. Ok (),
     pp_uuid_ok = \<lambda>_. True, pp_sha256_hex = \<lambda>_. sample_digest, pp_jcs_arguments = \<lambda>_. Some ''args'',
     pp_jcs_decision = \<lambda>_. Some ''decision'', pp_jcs_input = \<lambda>_. Some ''input'', pp_jcs_authorization = sample_jcs\<rparr>"

definition sample_pep_config :: "unit pep_config" where
  "sample_pep_config = \<lparr>pc_issuer = ''pep'', pc_key_id = ''k'', pc_signing_key = (),
     pc_active_policy_bundle_digest = sample_digest, pc_has_runtime_handler = True\<rparr>"

definition sample_kernel_grant :: minimal_grant where
  "sample_kernel_grant = \<lparr>mg_schema_version = ''1'', mg_approval_id = ''g1'', mg_task_id = ''t-1'', mg_step_id = ''s-1'',
     mg_action_hash = sample_digest, mg_resource_version = ''v7'', mg_policy_version = ''p1'',
     mg_approver_subject = ''eve'', mg_approver_roles = [], mg_expires_at = 30, mg_single_use = True\<rparr>"

definition sample_context :: authorization_context where
  "sample_context = \<lparr>axc_ledger_execution_id = ''u'', axc_ledger_event_id = ''u'', axc_ledger_event_digest = sample_digest,
     axc_fence_digest = sample_digest, axc_target_profile = ''p'', axc_preapproval_digest = sample_digest,
     axc_approval_consumption_ref = Some ''c'', axc_approval_receipt_digest = Some sample_digest,
     axc_workload_credential_id = ''u'', axc_workload_credential_claims_digest = sample_digest,
     axc_workload_credential_audience = ''tool-proxy'', axc_workload_credential_revocation_epoch = 0\<rparr>"

definition sample_enforcement :: enforcement_request where
  "sample_enforcement = \<lparr>erq_stage = PreExecution, erq_action = sample_canonical, erq_action_hash = sample_digest,
     erq_tool = sample_pep_tool, erq_policy_input = sample_policy_input, erq_approval = Some sample_kernel_grant,
     erq_idempotency_key = Some ''k1'', erq_execution_context = Some sample_context,
     erq_identity_uses_dev_verifier = False, erq_resource_state_fresh = True, erq_now = 10\<rparr>"

lemma sample_key_ok: "valid_idempotency_key ''k1''"
  by code_simp

lemma sample_guard: "local_hard_guard sample_pep_port sample_enforcement = Ok ()"
proof -
  have "action_hash sample_pep_action_env sample_canonical = Ok sample_digest"
    by (simp add: action_hash_Ok_iff sample_pep_action_env_def)
  moreover have "tenants_agree sample_canonical" "\<not> is_production sample_canonical"
    by (simp_all add: tenants_agree_def is_production_def sample_canonical_def normalized_fields_def
        sample_action_draft_def sample_case)
  moreover have "tool_guard sample_enforcement = Ok ()"
    by (simp add: tool_guard_Ok_iff sample_enforcement_def sample_pep_tool_def sample_resolved_def resolved_of_def
        sample_tool_record_def sample_tool_manifest_def unwrap_text_def sample_canonical_def normalized_fields_def
        sample_action_draft_def less_eq_risk_level_def)
  moreover have "context_valid sample_pep_port sample_context"
    by (simp add: context_valid_def sample_context_def sample_pep_port_def)
  ultimately show ?thesis
    by (simp add: local_hard_guard_def sample_key_ok)
      (simp add: sample_enforcement_def sample_pep_port_def sample_key_ok)
qed

lemma sample_decision_for: "decision_for sample_pep_port sample_pep_config sample_enforcement sample_decision"
  using sample_guard
  by (simp add: decision_for_def policy_input_hash_def)
    (simp add: sample_pep_port_def sample_pep_config_def sample_enforcement_def sample_decision_def)

definition sample_pep_state :: pep_state where
  "sample_pep_state = \<lparr>ps_used = {''g1''}, ps_runtime_calls = [CallAlert ''c'' sample_digest]\<rparr>"

lemma sample_enforced:
  "\<exists>x receipts. enforce sample_pep_port sample_pep_config ''u1'' sample_enforcement pep_init
     = (Ok (ExecutionAuthorized sample_decision x receipts), sample_pep_state)"
proof -
  have grant: "erq_approval sample_enforcement = Some sample_kernel_grant" "mg_single_use sample_kernel_grant"
      "mg_approval_id sample_kernel_grant = ''g1''"
    by (simp_all add: sample_enforcement_def sample_kernel_grant_def)
  have "approval_required sample_decision (erq_tool sample_enforcement)"
    by (simp add: approval_required_def sample_decision_def)
  moreover have "kernel_matches sample_kernel_grant sample_enforcement (pd_policy_version sample_decision)"
    by (simp add: kernel_matches_def sample_kernel_grant_def sample_enforcement_def sample_decision_def unwrap_text_def
        sample_canonical_def normalized_fields_def sample_action_draft_def)
  ultimately have approved: "use_approval sample_enforcement sample_decision pep_init = (Ok (), \<lparr>ps_used = {''g1''}, ps_runtime_calls = []\<rparr>)"
    by (simp add: use_approval_def kernel_verify_and_consume_def pep_init_def grant)
  have "\<exists>receipts. enforce_obligations sample_pep_port sample_pep_config sample_enforcement
      (pd_obligations sample_decision) \<lparr>ps_used = {''g1''}, ps_runtime_calls = []\<rparr> = (Ok receipts, sample_pep_state)"
    by (simp add: sample_decision_def enforce_obligation_def runtime_handler_enforce_def sample_pep_config_def
        sample_pep_port_def sample_pep_state_def sample_enforcement_def)
  moreover have "is_ok (issue_execution_authorization sample_pep_port sample_pep_config ''u1'' sample_enforcement sample_decision)"
    by (simp add: issue_execution_authorization_def approval_binding_consistent_def unwrap_text_def bind_evidence_def
        compute_evidence_digest_def authorization_sign_def signing_bytes_def sample_jcs_def Let_def
        sample_enforcement_def sample_context_def sample_pep_port_def)
  ultimately have "\<exists>x receipts. authorize_execution sample_pep_port sample_pep_config ''u1'' sample_enforcement sample_decision pep_init
      = (Ok (ExecutionAuthorized sample_decision x receipts), sample_pep_state)"
    using approved by (auto simp: authorize_execution_def with_obligations_def is_ok_iff) (auto simp: sample_decision_def)
  moreover have "enforce sample_pep_port sample_pep_config ''u1'' sample_enforcement pep_init
      = authorize_execution sample_pep_port sample_pep_config ''u1'' sample_enforcement sample_decision pep_init"
    using sample_decision_for unfolding decision_for_def
    by (simp add: enforce_def validate_policy_decision_def)
      (simp add: sample_decision_def sample_enforcement_def)
  ultimately show ?thesis by simp
qed


lemma single_use_approval_pays_once_witness:
  "length (filter (paid_with ''g1'') [(sample_enforcement, sample_decision)]) \<le> 1"
proof (rule single_use_approval_pays_once)
  obtain x receipts where run: "enforce sample_pep_port sample_pep_config ''u1'' sample_enforcement pep_init
      = (Ok (ExecutionAuthorized sample_decision x receipts), sample_pep_state)"
    using sample_enforced by blast
  have "pep_step sample_pep_port sample_pep_config (pep_init, []) (sample_pep_state,
      [] @ issued_now sample_enforcement (Ok (ExecutionAuthorized sample_decision x receipts)))"
    by (rule pep_step.intros [OF run refl])
  then show "reach (\<lambda>run. run = (pep_init, [])) (pep_step sample_pep_port sample_pep_config)
      (sample_pep_state, [(sample_enforcement, sample_decision)])"
    by (intro reach_step [OF reach_init [of _ "(pep_init, [])"]]) (simp_all add: issued_now_def)
qed

lemma runtime_acts_on_valid_decisions_witness:
  "\<exists>n. ps_runtime_calls sample_pep_state = take n (obligation_calls sample_enforcement (pd_obligations sample_decision))"
proof -
  obtain x receipts where "enforce sample_pep_port sample_pep_config ''u1'' sample_enforcement pep_init
      = (Ok (ExecutionAuthorized sample_decision x receipts), sample_pep_state)"
    using sample_enforced by blast
  from runtime_acts_on_valid_decisions [OF this] obtain d n where
    "decision_for sample_pep_port sample_pep_config sample_enforcement d"
    "ps_runtime_calls sample_pep_state = ps_runtime_calls pep_init @ take n (obligation_calls sample_enforcement (pd_obligations d))"
    by (auto simp: pep_init_def sample_pep_state_def)
  moreover from this(1) have "d = sample_decision"
    by (simp add: decision_for_def) (simp add: sample_pep_port_def)
  ultimately show ?thesis
    by (auto simp: pep_init_def)
qed

lemma revoked_tool_is_not_enforced_witness:
  "\<exists>e. enforce (with_registry sample_registry_env (sample_registry VRevoked True 5) sample_pep_port) sample_pep_config ''u1''
     (sample_enforcement\<lparr>erq_action := sample_canonical\<lparr>act_tool := sample_tool\<rparr>\<rparr>) pep_init = (Err e, pep_init)"
proof (rule revoked_tool_is_not_enforced [where s = "sample_registry VActive True 4"])
  show "fst (revoke_tool (act_tool (erq_action (sample_enforcement\<lparr>erq_action := sample_canonical\<lparr>act_tool := sample_tool\<rparr>\<rparr>)))
      (sample_registry VActive True 4)) = Ok ()"
    by (simp add: sample_revoked)
qed (simp add: sample_revoked)

lemma issued_authorization_verifies_witness:
  "\<exists>x :: execution_authorization. authorization_verify sample_signer sample_jcs (\<lambda>_. sample_digest) (\<lambda>_. True) () 12 x = Ok ()"
proof -
  obtain x receipts where run: "enforce sample_pep_port sample_pep_config ''u1'' sample_enforcement pep_init
      = (Ok (ExecutionAuthorized sample_decision x receipts), sample_pep_state)"
    using sample_enforced by blast
  have "within_format sample_pep_port sample_pep_config ''u1'' sample_enforcement sample_decision"
    by (simp add: within_format_def Let_def config_from_obligations_def sample_pep_port_def sample_pep_config_def
        sample_enforcement_def sample_decision_def sample_pep_tool_def sample_resolved_def resolved_of_def
        sample_tool_record_def sample_tool_manifest_def bounded_nonempty_def valid_implementation_digest_def
        strip_prefix_def sample_canonical_def normalized_fields_def sample_action_draft_def sample_trims sample_case
        resource_version_of_def sample_kernel_grant_def)
  from issued_authorization_verifies [OF run this, of 12] show ?thesis
    using sample_signer_correct
    by (intro exI [of _ x]) (simp add: sample_pep_port_def sample_pep_action_env_def sample_action_env_def
        sample_enforcement_def sample_pep_config_def chrono_seconds_def sample_signer_def)
qed

end
