(* ===== verification/Utf8_Bytes.thy ===== *)
theory Utf8_Bytes
  imports Prelude
begin

text \<open>
  Byte strings that need not be UTF-8: \<open>str::from_utf8(..).is_ok()\<close> and \<open>String::from_utf8_lossy\<close> of the
  Rust standard library. A step reads the first character, or the longest prefix of a character that
  cannot be completed, which is one invalid chunk and becomes one replacement character.
\<close>

definition in_range :: "nat \<Rightarrow> nat \<Rightarrow> char \<Rightarrow> bool" where
  "in_range lo hi c \<longleftrightarrow> lo \<le> of_char c \<and> of_char c \<le> hi"

text \<open>The second byte a three or four byte character may have after its first byte.\<close>

definition second_byte_ok :: "char \<Rightarrow> char \<Rightarrow> bool" where
  "second_byte_ok a b =
     (if of_char a = (224 :: nat) then in_range 160 191 b
      else if of_char a = (237 :: nat) then in_range 128 159 b
      else if of_char a = (240 :: nat) then in_range 144 191 b
      else if of_char a = (244 :: nat) then in_range 128 143 b
      else in_range 128 191 b)"

text \<open>How many continuation bytes of \<open>s\<close> a character with \<open>n\<close> of them gets to read.\<close>

fun continuation_run :: "nat \<Rightarrow> string \<Rightarrow> nat" where
  "continuation_run 0 s = 0"
| "continuation_run (Suc n) [] = 0"
| "continuation_run (Suc n) (b # s) =
     (if in_range 128 191 b then Suc (continuation_run n s) else 0)"

text \<open>The length of the first chunk and whether it is a character.\<close>

fun utf8_step :: "string \<Rightarrow> nat \<times> bool" where
  "utf8_step [] = (0, True)"
| "utf8_step (a # s) =
     (if of_char a < (128 :: nat) then (1, True)
      else if in_range 194 223 a then
        (let r = continuation_run 1 s in (1 + r, r = 1))
      else if in_range 224 239 a \<or> in_range 240 244 a then
        (let n = (if in_range 224 239 a then 2 else 3) in
         case s of
           [] \<Rightarrow> (1, False)
         | b # s' \<Rightarrow>
             (if second_byte_ok a b
              then (let r = continuation_run (n - 1) s' in (2 + r, r = n - 1))
              else (1, False)))
      else (1, False))"

lemma utf8_step_pos: "s \<noteq> [] \<Longrightarrow> 0 < fst (utf8_step s)"
  by (cases s) (auto simp: Let_def split: list.split)

lemma drop_step_less: "s \<noteq> [] \<Longrightarrow> length s - fst (utf8_step s) < length s"
  using utf8_step_pos [of s] by simp

function utf8_valid :: "string \<Rightarrow> bool" where
  "utf8_valid s =
     (if s = [] then True
      else if snd (utf8_step s) then utf8_valid (drop (fst (utf8_step s)) s)
      else False)"
  by auto
termination
  by (relation "measure length") (simp_all add: drop_step_less)

definition replacement_character :: string where
  "replacement_character = [CHR 0xEF, CHR 0xBF, CHR 0xBD]"

function utf8_lossy :: "string \<Rightarrow> string" where
  "utf8_lossy s =
     (if s = [] then []
      else (if snd (utf8_step s) then take (fst (utf8_step s)) s else replacement_character)
           @ utf8_lossy (drop (fst (utf8_step s)) s))"
  by auto
termination
  by (relation "measure length") (simp_all add: drop_step_less)

declare utf8_valid.simps [simp del] utf8_lossy.simps [simp del]

lemma utf8_Nil [simp]: "utf8_valid []" "utf8_lossy [] = []"
  by (subst utf8_valid.simps utf8_lossy.simps, simp)+

text \<open>On well-formed text the lossy conversion changes nothing.\<close>

lemma utf8_lossy_valid: "utf8_valid s \<Longrightarrow> utf8_lossy s = s"
proof (induction s rule: utf8_lossy.induct)
  case (1 s)
  show ?case
  proof (cases "s = []")
    case False
    with 1(2) have "snd (utf8_step s)" "utf8_valid (drop (fst (utf8_step s)) s)"
      by (metis utf8_valid.simps)+
    with 1(1) [OF False] False show ?thesis
      by (subst utf8_lossy.simps) simp
  qed simp
qed

lemma utf8_ascii: "list_all (\<lambda>c. of_char c < (128 :: nat)) s \<Longrightarrow> utf8_valid s"
proof (induction s)
  case (Cons a s)
  then show ?case by (subst utf8_valid.simps) simp
qed simp

lemma utf8_lossy_ascii: "list_all (\<lambda>c. of_char c < (128 :: nat)) s \<Longrightarrow> utf8_lossy s = s"
  by (simp add: utf8_ascii utf8_lossy_valid)

text \<open>What the conversion leaves is empty only for the empty input.\<close>

lemma utf8_lossy_empty_iff: "utf8_lossy s = [] \<longleftrightarrow> s = []"
proof (cases "s = []")
  case False
  then have "0 < length (take (fst (utf8_step s)) s)"
    using utf8_step_pos by (simp add: min_def)
  then show ?thesis
    using False by (subst utf8_lossy.simps) (auto simp: replacement_character_def)
qed simp

end
