(* ===== verification/Data_Governance.thy ===== *)
theory Data_Governance
  imports Action_Ir Decimal_Text Utf8_Bytes
begin

text \<open>
  Data governance (\<open>data-governance/src/lib.rs\<close>): labels and their propagation, the classifier, the
  DLP scanner, deployment profiles, the data policy decision, prompt and export guards, cross-domain
  grants and retention; and the two records of \<open>contracts/src/lib.rs\<close> that cross the policy port.

  Parameters (\<open>data_env\<close>): SHA-256, canonical JSON of a list of labels, the text \<open>serde_json\<close> writes
  for a value, \<open>Uuid::parse_str(..).to_string()\<close>, the \<open>url\<close> crate and the four base64 engines. A
  compiled regular expression is what the code uses of it: \<open>is_match\<close> and \<open>replace_all\<close>.
\<close>

subsection \<open>Records\<close>

datatype data_error = LabelInvalid | DlpUnavailable | DlpDenied | SecretDenied | FlowDenied
  | DPolicyInvalid | DeploymentInvalid | ContentInvalid | CrossDomainInvalid | CrossDomainReplayed

datatype label_confidence = ConfUnknown | Inferred | Deterministic | HumanVerified

fun confidence_rank :: "label_confidence \<Rightarrow> nat" where
  "confidence_rank ConfUnknown = 0"
| "confidence_rank Inferred = 1"
| "confidence_rank Deterministic = 2"
| "confidence_rank HumanVerified = 3"

lemma confidence_rank_inj: "confidence_rank a = confidence_rank b \<Longrightarrow> a = b"
  by (cases a; cases b) auto

instantiation label_confidence :: linorder
begin

definition less_eq_label_confidence :: "label_confidence \<Rightarrow> label_confidence \<Rightarrow> bool" where
  "a \<le> b \<longleftrightarrow> confidence_rank a \<le> confidence_rank b"

definition less_label_confidence :: "label_confidence \<Rightarrow> label_confidence \<Rightarrow> bool" where
  "a < b \<longleftrightarrow> confidence_rank a < confidence_rank b"

instance
  by standard
    (auto simp: less_eq_label_confidence_def less_label_confidence_def dest: confidence_rank_inj)

end

record data_lineage_ref =
  dln_source_id :: string
  dln_source_hash :: string
  dln_transformation_hashes :: "string list"

record data_label =
  dlb_schema_version :: string
  dlb_classification :: data_classification
  dlb_domain_tags :: "string set"
  dlb_jurisdictions :: "string set"
  dlb_contains_secret :: bool
  dlb_contains_personal_data :: bool
  dlb_export_restricted :: bool
  dlb_retention_label :: string
  dlb_confidence :: label_confidence
  dlb_lineage :: data_lineage_ref

datatype dlp_finding_kind = DlpSecret | DlpPersonalData | DlpIndustrialSensitive
  | DlpEncodedPayload | DlpCompressedPayload

record dlp_finding =
  dfi_kind :: dlp_finding_kind
  dfi_path :: string
  dfi_value_hash :: string
  dfi_blocking :: bool

record url_parts =
  uv_scheme :: string
  uv_host :: "string option"
  uv_username :: string
  uv_password :: "string option"
  uv_path :: string
  uv_query :: "string option"
  uv_fragment :: "string option"
  uv_as_str :: string

record data_env =
  dge_sha256_hex :: "string \<Rightarrow> string"
  dge_jcs_labels :: "data_label list \<Rightarrow> string option"
  dge_uuid_parse :: "string \<Rightarrow> string option"
  dge_url_parse :: "string \<Rightarrow> url_parts option"
  dge_url_origin :: "url_parts \<Rightarrow> string"
  dge_json_text :: "json \<Rightarrow> string"
  dge_base64 :: "(string \<Rightarrow> string option) list"

text \<open>\<open>dge_url_origin u\<close> is \<open>as_str()\<close> after \<open>set_path("/")\<close>, \<open>set_query(None)\<close>, \<open>set_fragment(None)\<close>.\<close>

definition DATA_SCHEMA_VERSION :: string where
  "DATA_SCHEMA_VERSION = ''agenttrust.data-governance.v1''"

definition MAX_INSPECTION_BYTES :: nat where
  "MAX_INSPECTION_BYTES = 8 * 1024 * 1024"

definition MAX_JSON_SCAN_DEPTH :: nat where
  "MAX_JSON_SCAN_DEPTH = 32"

definition MAX_JSON_SCAN_NODES :: nat where
  "MAX_JSON_SCAN_NODES = 100000"

definition MAX_DLP_FINDINGS :: nat where
  "MAX_DLP_FINDINGS = 4096"

subsection \<open>Checks\<close>

definition is_ascii_graphic :: "char \<Rightarrow> bool" where
  "is_ascii_graphic c \<longleftrightarrow> byte_between CHR ''!'' CHR ''~'' c"

definition graphic_text :: "string \<Rightarrow> bool" where
  "graphic_text s \<longleftrightarrow> list_all is_ascii_graphic s"

definition is_hash_text :: "string \<Rightarrow> bool" where
  "is_hash_text value \<longleftrightarrow> length value = 64
     \<and> list_all (\<lambda>b. is_ascii_hexdigit b \<and> \<not> is_ascii_uppercase b) value"

definition valid_jurisdiction :: "string \<Rightarrow> bool" where
  "valid_jurisdiction value \<longleftrightarrow> value \<noteq> [] \<and> length value \<le> 64
     \<and> list_all (\<lambda>b. is_ascii_alphanumeric b \<or> b \<in> {CHR ''-'', CHR ''_''}) value"

definition valid_tag :: "string \<Rightarrow> bool" where
  "valid_tag value \<longleftrightarrow> value \<noteq> [] \<and> length value \<le> 256 \<and> graphic_text value"

definition profile_token :: "string \<Rightarrow> bool" where
  "profile_token value \<longleftrightarrow> value \<noteq> [] \<and> length value \<le> 128
     \<and> list_all (\<lambda>b. is_ascii_alphanumeric b \<or> b \<in> {CHR ''-'', CHR ''_'', CHR ''.''}) value"

definition validate_label :: "data_label \<Rightarrow> data_error + unit" where
  "validate_label l =
     (if dlb_schema_version l \<noteq> DATA_SCHEMA_VERSION
         \<or> dlb_retention_label l = [] \<or> length (dlb_retention_label l) > 128
         \<or> \<not> graphic_text (dlb_retention_label l)
         \<or> dln_source_id (dlb_lineage l) = [] \<or> length (dln_source_id (dlb_lineage l)) > 512
         \<or> \<not> graphic_text (dln_source_id (dlb_lineage l))
         \<or> \<not> is_hash_text (dln_source_hash (dlb_lineage l))
         \<or> length (dln_transformation_hashes (dlb_lineage l)) > 1024
         \<or> list_ex (\<lambda>h. \<not> is_hash_text h) (dln_transformation_hashes (dlb_lineage l))
         \<or> card (set (dln_transformation_hashes (dlb_lineage l)))
            \<noteq> length (dln_transformation_hashes (dlb_lineage l))
         \<or> card (dlb_domain_tags l) > 64 \<or> (\<exists>t \<in> dlb_domain_tags l. \<not> valid_tag t)
         \<or> dlb_jurisdictions l = {} \<or> card (dlb_jurisdictions l) > 32
         \<or> (\<exists>j \<in> dlb_jurisdictions l. \<not> valid_jurisdiction j)
         \<or> (dlb_confidence l = ConfUnknown \<and> dlb_classification l < Restricted)
         \<or> (dlb_contains_secret l \<and> (dlb_classification l < Restricted \<or> \<not> dlb_export_restricted l))
         \<or> (dlb_contains_personal_data l
            \<and> (dlb_classification l \<noteq> Regulated \<or> \<not> dlb_export_restricted l))
      then Err LabelInvalid else Ok ())"

fun retention_for :: "data_classification \<Rightarrow> u64" where
  "retention_for Public = 365 * 24 * 3600"
| "retention_for Internal = 180 * 24 * 3600"
| "retention_for Confidential = 90 * 24 * 3600"
| "retention_for Restricted = 30 * 24 * 3600"
| "retention_for Regulated = 7 * 24 * 3600"

fun retention_label_for :: "data_classification \<Rightarrow> string" where
  "retention_label_for Public = ''PUBLIC_365D''"
| "retention_label_for Internal = ''INTERNAL_180D''"
| "retention_label_for Confidential = ''CONFIDENTIAL_90D''"
| "retention_label_for Restricted = ''RESTRICTED_30D''"
| "retention_label_for Regulated = ''REGULATED_7D_REVIEW''"

definition retention_resolve :: "data_label \<Rightarrow> bool \<Rightarrow> data_error + u64" where
  "retention_resolve label legal_hold =
     res_bind (validate_label label)
       (\<lambda>_. Ok (if legal_hold then - 1 else retention_for (dlb_classification label)))"

subsection \<open>Propagation\<close>

text \<open>One turn of the loop over the labels: tags, jurisdictions and transformations so far.\<close>

fun merge_loop ::
  "data_label list \<Rightarrow> string set \<Rightarrow> string set \<Rightarrow> string list
   \<Rightarrow> data_error + (string set \<times> string set \<times> string list)" where
  "merge_loop [] tags jurisdictions transforms = Ok (tags, jurisdictions, transforms)"
| "merge_loop (l # ls) tags jurisdictions transforms =
     res_bind (validate_label l) (\<lambda>_.
       if length transforms + length (dln_transformation_hashes (dlb_lineage l)) \<ge> 1024
       then Err LabelInvalid
       else merge_loop ls (tags \<union> dlb_domain_tags l) (jurisdictions \<union> dlb_jurisdictions l)
              (transforms @ dln_transformation_hashes (dlb_lineage l)))"

definition merge_labels :: "data_env \<Rightarrow> data_label list \<Rightarrow> string \<Rightarrow> data_error + data_label" where
  "merge_labels env ls transformation_hash =
     (if ls = [] \<or> length ls > 64 \<or> \<not> is_hash_text transformation_hash then Err LabelInvalid
      else
        (let classification = Max (set (map dlb_classification ls)) in
         res_bind (merge_loop ls {} {} []) (\<lambda>(tags, jurisdictions, transforms).
           if card tags > 64 \<or> card jurisdictions > 32 \<or> length transforms \<ge> 1024
           then Err LabelInvalid
           else
             (let transforms = transforms @ [transformation_hash] in
              if card (set transforms) \<noteq> length transforms then Err LabelInvalid
              else
                (case dge_jcs_labels env ls of
                   None \<Rightarrow> Err LabelInvalid
                 | Some bytes \<Rightarrow>
                     Ok \<lparr>dlb_schema_version = DATA_SCHEMA_VERSION,
                         dlb_classification = classification, dlb_domain_tags = tags,
                         dlb_jurisdictions = jurisdictions,
                         dlb_contains_secret = list_ex dlb_contains_secret ls,
                         dlb_contains_personal_data = list_ex dlb_contains_personal_data ls,
                         dlb_export_restricted = list_ex dlb_export_restricted ls,
                         dlb_retention_label = retention_label_for classification,
                         dlb_confidence = Min (set (map dlb_confidence ls)),
                         dlb_lineage =
                           \<lparr>dln_source_id = ''derived'', dln_source_hash = dge_sha256_hex env bytes,
                            dln_transformation_hashes = transforms\<rparr>\<rparr>)))))"

subsection \<open>The DLP scanner\<close>

record regex =
  rg_is_match :: "string \<Rightarrow> bool"
  rg_replace_all :: "string \<Rightarrow> string \<Rightarrow> string"

record dlp_scanner =
  dsc_available :: bool
  dsc_patterns_valid :: bool
  dsc_secret_patterns :: "regex list"
  dsc_personal_patterns :: "regex list"

definition backslash :: string where
  "backslash = [CHR 0x5C]"

definition secret_pattern_texts :: "string list" where
  "secret_pattern_texts =
     [''(?i)password'' @ backslash @ ''s*[:=]'',
      ''(?i)api[_-]?key'' @ backslash @ ''s*[:=]'',
      ''(?i)authorization'' @ backslash @ ''s*:'' @ backslash @ ''s*bearer'',
      ''-----BEGIN [A-Z ]*PRIVATE KEY-----'']"

definition personal_pattern_texts :: "string list" where
  "personal_pattern_texts =
     [backslash @ ''b'' @ backslash @ ''d{17}[0-9Xx]'' @ backslash @ ''b'',
      backslash @ ''b1[3-9]'' @ backslash @ ''d{9}'' @ backslash @ ''b'',
      backslash @ ''b[A-Za-z0-9._%+-]+@[A-Za-z0-9.-]+'' @ backslash @ ''.[A-Za-z]{2,}''
        @ backslash @ ''b'']"

definition unwrap_or_default :: "'a list option \<Rightarrow> 'a list" where
  "unwrap_or_default r = (case r of None \<Rightarrow> [] | Some xs \<Rightarrow> xs)"

definition default_scanner :: "(string \<Rightarrow> regex option) \<Rightarrow> dlp_scanner" where
  "default_scanner regex_new =
     (let secret = those (map regex_new secret_pattern_texts);
          personal = those (map regex_new personal_pattern_texts);
          ok = (secret \<noteq> None \<and> personal \<noteq> None)
      in \<lparr>dsc_available = ok, dsc_patterns_valid = ok,
          dsc_secret_patterns = unwrap_or_default secret,
          dsc_personal_patterns = unwrap_or_default personal\<rparr>)"

definition set_scanner_available :: "bool \<Rightarrow> dlp_scanner \<Rightarrow> dlp_scanner" where
  "set_scanner_available available sc = sc\<lparr>dsc_available := available \<and> dsc_patterns_valid sc\<rparr>"

definition scanner_available :: "dlp_scanner \<Rightarrow> bool" where
  "scanner_available sc \<longleftrightarrow> dsc_patterns_valid sc \<and> dsc_available sc"

definition dlp_finding_of :: "data_env \<Rightarrow> dlp_finding_kind \<Rightarrow> string \<Rightarrow> string \<Rightarrow> bool \<Rightarrow> dlp_finding" where
  "dlp_finding_of env kind path bytes blocking =
     \<lparr>dfi_kind = kind, dfi_path = path, dfi_value_hash = dge_sha256_hex env bytes,
      dfi_blocking = blocking\<rparr>"

definition compressed_magic :: "string \<Rightarrow> bool" where
  "compressed_magic bytes \<longleftrightarrow>
     take 2 bytes = [CHR 0x1F, CHR 0x8B] \<or> take 4 bytes = ''PK'' @ [CHR 0x03, CHR 0x04]"

definition scan_text :: "data_env \<Rightarrow> dlp_scanner \<Rightarrow> string \<Rightarrow> string \<Rightarrow> bool \<Rightarrow> dlp_finding list" where
  "scan_text env sc txt path blocking =
     (if list_ex (\<lambda>p. rg_is_match p txt) (dsc_secret_patterns sc)
      then [dlp_finding_of env DlpSecret path txt True] else [])
     @ (if list_ex (\<lambda>p. rg_is_match p txt) (dsc_personal_patterns sc)
        then [dlp_finding_of env DlpPersonalData path txt blocking] else [])
     @ (if str_contains (to_ascii_lowercase txt) ''plc-password''
           \<or> str_contains (to_ascii_lowercase txt) ''sis-bypass''
        then [dlp_finding_of env DlpIndustrialSensitive path txt True] else [])"

definition looks_base64 :: "string \<Rightarrow> bool" where
  "looks_base64 txt =
     (let value = str_trim txt in
      length value \<ge> 8
      \<and> list_all (\<lambda>b. is_ascii_alphanumeric b \<or> b \<in> set ''+/_-='') value
      \<and> length (filter (\<lambda>b. b = CHR ''='') value) \<le> 2
      \<and> list_all (\<lambda>b. b = CHR ''='') (dropWhile (\<lambda>b. b \<noteq> CHR ''='') value))"

fun find_map :: "('a \<Rightarrow> 'b option) \<Rightarrow> 'a list \<Rightarrow> 'b option" where
  "find_map f [] = None"
| "find_map f (x # xs) = (case f x of Some y \<Rightarrow> Some y | None \<Rightarrow> find_map f xs)"

definition decode_base64_layer :: "data_env \<Rightarrow> string \<Rightarrow> string option" where
  "decode_base64_layer env value = find_map (\<lambda>decode. decode value) (dge_base64 env)"

definition layer_path :: "nat \<Rightarrow> string" where
  "layer_path depth = ''$[base64:'' @ decimal depth @ '']''"

text \<open>The loop over the layers; \<open>depths\<close> holds the turns that are left.\<close>

fun scan_layers ::
  "data_env \<Rightarrow> dlp_scanner \<Rightarrow> string \<Rightarrow> nat list \<Rightarrow> string \<Rightarrow> dlp_finding list \<Rightarrow> dlp_finding list" where
  "scan_layers env sc bytes [] encoded findings = findings"
| "scan_layers env sc bytes (depth # depths) encoded findings =
     (let encoded_text = utf8_lossy encoded in
      if \<not> looks_base64 encoded_text then findings
      else
        (case decode_base64_layer env (str_trim encoded_text) of
           None \<Rightarrow> findings
         | Some decoded \<Rightarrow>
             if decoded = [] \<or> length decoded > MAX_INSPECTION_BYTES
             then findings @ [dlp_finding_of env DlpEncodedPayload ''$'' bytes True]
             else if compressed_magic decoded
             then findings @ [dlp_finding_of env DlpEncodedPayload ''$'' bytes True,
                              dlp_finding_of env DlpCompressedPayload (layer_path depth) decoded True]
             else
               (let decoded_findings = scan_text env sc (utf8_lossy decoded) (layer_path depth) True in
                scan_layers env sc bytes depths decoded
                  (if decoded_findings \<noteq> []
                   then findings @ [dlp_finding_of env DlpEncodedPayload ''$'' bytes True]
                        @ decoded_findings
                   else findings))))"

definition scan_bytes :: "data_env \<Rightarrow> dlp_scanner \<Rightarrow> string \<Rightarrow> data_error + dlp_finding list" where
  "scan_bytes env sc bytes =
     (if \<not> scanner_available sc then Err DlpUnavailable
      else if bytes = [] \<or> length bytes > MAX_INSPECTION_BYTES then Err ContentInvalid
      else if compressed_magic bytes
      then Ok [dlp_finding_of env DlpCompressedPayload ''$'' bytes True]
      else
        (let txt = utf8_lossy bytes in
         Ok (scan_layers env sc bytes [1, 2, 3] (str_trim txt) (scan_text env sc txt ''$'' True))))"

subsection \<open>Scanning a JSON value\<close>

definition secret_keys :: "string list" where
  "secret_keys = [''password'', ''token'', ''secret'', ''api_key'', ''authorization'']"

text \<open>The node counter and the findings are the two accumulators of the recursion.\<close>

type_synonym scan_state = "nat \<times> dlp_finding list"

definition scan_exhausted :: "string \<Rightarrow> nat \<Rightarrow> scan_state \<Rightarrow> bool" where
  "scan_exhausted path depth st \<longleftrightarrow>
     depth > MAX_JSON_SCAN_DEPTH \<or> fst st + 1 > MAX_JSON_SCAN_NODES \<or> length path > 4096
     \<or> length (snd st) > MAX_DLP_FINDINGS"

definition scan_enter :: "string \<Rightarrow> nat \<Rightarrow> scan_state \<Rightarrow> data_error + scan_state" where
  "scan_enter path depth st =
     (if scan_exhausted path depth st then Err ContentInvalid else Ok (fst st + 1, snd st))"

definition scan_key :: "data_env \<Rightarrow> string \<Rightarrow> json \<Rightarrow> string \<Rightarrow> scan_state \<Rightarrow> data_error + scan_state" where
  "scan_key env key value child st =
     (if to_ascii_lowercase key \<in> set secret_keys
      then (if length (snd st) = MAX_DLP_FINDINGS then Err ContentInvalid
            else Ok (fst st, snd st @ [dlp_finding_of env DlpSecret child (dge_json_text env value) True]))
      else Ok st)"

definition scan_string ::
  "data_env \<Rightarrow> dlp_scanner \<Rightarrow> string \<Rightarrow> string \<Rightarrow> scan_state \<Rightarrow> data_error + scan_state" where
  "scan_string env sc txt path st =
     res_bind (if txt = [] then Ok [] else scan_bytes env sc txt)
       (\<lambda>found.
          if length (snd st) + length found > MAX_DLP_FINDINGS then Err ContentInvalid
          else Ok (fst st, snd st @ map (\<lambda>f. f\<lparr>dfi_path := path\<rparr>) found))"

fun scan_json_value ::
    "data_env \<Rightarrow> dlp_scanner \<Rightarrow> json \<Rightarrow> string \<Rightarrow> nat \<Rightarrow> scan_state \<Rightarrow> data_error + scan_state"
  and scan_json_fields ::
    "data_env \<Rightarrow> dlp_scanner \<Rightarrow> (string \<times> json) list \<Rightarrow> string \<Rightarrow> nat \<Rightarrow> scan_state \<Rightarrow> data_error + scan_state"
  and scan_json_items ::
    "data_env \<Rightarrow> dlp_scanner \<Rightarrow> json list \<Rightarrow> nat \<Rightarrow> string \<Rightarrow> nat \<Rightarrow> scan_state \<Rightarrow> data_error + scan_state"
where
  "scan_json_value env sc (JObject kvs) path depth st =
     res_bind (scan_enter path depth st) (scan_json_fields env sc kvs path depth)"
| "scan_json_value env sc (JArray vs) path depth st =
     res_bind (scan_enter path depth st) (scan_json_items env sc vs 0 path depth)"
| "scan_json_value env sc (JString txt) path depth st =
     res_bind (scan_enter path depth st) (scan_string env sc txt path)"
| "scan_json_value env sc JNull path depth st = scan_enter path depth st"
| "scan_json_value env sc (JBool b) path depth st = scan_enter path depth st"
| "scan_json_value env sc (JNumber n) path depth st = scan_enter path depth st"
| "scan_json_fields env sc [] path depth st = Ok st"
| "scan_json_fields env sc ((key, v) # kvs) path depth st =
     res_bind (scan_key env key v (path @ ''.'' @ key) st) (\<lambda>st.
     res_bind (scan_json_value env sc v (path @ ''.'' @ key) (depth + 1) st) (\<lambda>st.
       scan_json_fields env sc kvs path depth st))"
| "scan_json_items env sc [] index path depth st = Ok st"
| "scan_json_items env sc (v # vs) index path depth st =
     res_bind (scan_json_value env sc v (path @ ''['' @ decimal index @ '']'') (depth + 1) st) (\<lambda>st.
       scan_json_items env sc vs (index + 1) path depth st)"

definition scan_json :: "data_env \<Rightarrow> dlp_scanner \<Rightarrow> json \<Rightarrow> data_error + dlp_finding list" where
  "scan_json env sc value =
     (if \<not> scanner_available sc then Err DlpUnavailable
      else res_bind (scan_json_value env sc value ''$'' 0 (0, [])) (\<lambda>st. Ok (snd st)))"

subsection \<open>Classification\<close>

record classification_request =
  cfr_schema_version :: string
  cfr_source_id :: string
  cfr_jurisdiction :: string
  cfr_source_trusted :: bool
  cfr_domain_tags :: "string set"
  cfr_human_override :: "data_classification option"
  cfr_human_override_evidence_ref :: "string option"

fun override_ref_ok :: "data_classification option \<Rightarrow> string option \<Rightarrow> bool" where
  "override_ref_ok None None = True"
| "override_ref_ok (Some _) (Some value) =
     (take 11 value = ''evidence://'' \<and> length value \<le> 2048 \<and> graphic_text value)"
| "override_ref_ok _ _ = False"

definition classification_request_ok :: "classification_request \<Rightarrow> bool" where
  "classification_request_ok r \<longleftrightarrow>
     cfr_schema_version r = DATA_SCHEMA_VERSION
     \<and> cfr_source_id r \<noteq> [] \<and> length (cfr_source_id r) \<le> 512 \<and> graphic_text (cfr_source_id r)
     \<and> valid_jurisdiction (cfr_jurisdiction r)
     \<and> card (cfr_domain_tags r) \<le> 64 \<and> (\<forall>t \<in> cfr_domain_tags r. valid_tag t)
     \<and> override_ref_ok (cfr_human_override r) (cfr_human_override_evidence_ref r)"

definition has_finding :: "dlp_finding_kind \<Rightarrow> dlp_finding list \<Rightarrow> bool" where
  "has_finding kind findings = list_ex (\<lambda>f. dfi_kind f = kind) findings"

definition deterministic_class :: "classification_request \<Rightarrow> dlp_finding list \<Rightarrow> data_classification" where
  "deterministic_class r findings =
     (if has_finding DlpPersonalData findings then Regulated
      else if has_finding DlpSecret findings \<or> has_finding DlpIndustrialSensitive findings
              \<or> list_ex dfi_blocking findings then Restricted
      else if cfr_source_trusted r then Internal
      else Restricted)"

definition classify ::
  "data_env \<Rightarrow> dlp_scanner \<Rightarrow> classification_request \<Rightarrow> string \<Rightarrow> data_error + data_label" where
  "classify env sc r content =
     (if \<not> classification_request_ok r then Err LabelInvalid
      else res_bind (scan_bytes env sc content) (\<lambda>findings.
        let classification =
              (case cfr_human_override r of
                 Some c \<Rightarrow> max c (deterministic_class r findings)
               | None \<Rightarrow> deterministic_class r findings)
        in Ok \<lparr>dlb_schema_version = DATA_SCHEMA_VERSION, dlb_classification = classification,
               dlb_domain_tags = cfr_domain_tags r, dlb_jurisdictions = {cfr_jurisdiction r},
               dlb_contains_secret = has_finding DlpSecret findings,
               dlb_contains_personal_data = has_finding DlpPersonalData findings,
               dlb_export_restricted = (classification \<ge> Restricted),
               dlb_retention_label = retention_label_for classification,
               dlb_confidence =
                 (if cfr_human_override r \<noteq> None then HumanVerified else Deterministic),
               dlb_lineage =
                 \<lparr>dln_source_id = cfr_source_id r, dln_source_hash = dge_sha256_hex env content,
                  dln_transformation_hashes = []\<rparr>\<rparr>))"

subsection \<open>Deployment profiles\<close>

datatype deployment_mode = ModeSaas | ModeVpc | ModeOnPrem | ModeOffline | ModeHybrid

record deployment_policy =
  dpo_profile_id :: string
  dpo_mode :: deployment_mode
  dpo_allowed_external_endpoints :: "string set"
  dpo_telemetry_export :: bool
  dpo_update_channel :: string
  dpo_maximum_classification :: data_classification

definition endpoint_ok :: "data_env \<Rightarrow> string \<Rightarrow> bool" where
  "endpoint_ok env endpoint =
     (case dge_url_parse env endpoint of
        None \<Rightarrow> False
      | Some u \<Rightarrow>
          uv_scheme u = ''https'' \<and> uv_host u \<noteq> None \<and> uv_username u = [] \<and> uv_password u = None
          \<and> uv_path u = ''/'' \<and> uv_query u = None \<and> uv_fragment u = None
          \<and> uv_as_str u = endpoint)"

definition deployment_validate :: "data_env \<Rightarrow> deployment_policy \<Rightarrow> data_error + unit" where
  "deployment_validate env p =
     (if \<not> profile_token (dpo_profile_id p) \<or> \<not> profile_token (dpo_update_channel p)
         \<or> card (dpo_allowed_external_endpoints p) > 100
         \<or> (\<exists>e \<in> dpo_allowed_external_endpoints p. \<not> endpoint_ok env e)
      then Err DeploymentInvalid
      else if dpo_mode p = ModeOffline
              \<and> (dpo_allowed_external_endpoints p \<noteq> {} \<or> dpo_telemetry_export p
                 \<or> dpo_update_channel p \<noteq> ''offline-bundle'')
      then Err DeploymentInvalid
      else Ok ())"

text \<open>The resolver, and the port with its policy version.\<close>

type_synonym deployments = "(string, deployment_policy) btree"

definition register_deployment ::
  "data_env \<Rightarrow> deployment_policy \<Rightarrow> deployments \<Rightarrow> (data_error + unit) \<times> deployments" where
  "register_deployment env p ds =
     (case deployment_validate env p of
        Inl e \<Rightarrow> (Err e, ds)
      | Inr _ \<Rightarrow> (Ok (), bt_insert (dpo_profile_id p) p ds))"

definition resolve_deployment :: "string \<Rightarrow> deployments \<Rightarrow> data_error + deployment_policy" where
  "resolve_deployment profile ds =
     (case bt_get ds profile of None \<Rightarrow> Err DeploymentInvalid | Some p \<Rightarrow> Ok p)"

record data_policy_port =
  dpi_policy_version :: string
  dpi_deployments :: deployments

definition data_policy_port_new :: "string \<Rightarrow> data_error + data_policy_port" where
  "data_policy_port_new version =
     (if version = [] then Err DPolicyInvalid
      else Ok \<lparr>dpi_policy_version = version, dpi_deployments = bt_empty\<rparr>)"

subsection \<open>The data policy decision\<close>

record data_policy_request =
  dpq_schema_version :: string
  dpq_tenant_id :: string
  dpq_classification :: data_classification
  dpq_source_jurisdiction :: string
  dpq_destination_jurisdiction :: string
  dpq_destination_kind :: string
  dpq_deployment_profile :: string
  dpq_contains_secret :: bool
  dpq_cross_domain_approval_id :: "string option"

record data_policy_decision =
  dpd_schema_version :: string
  dpd_allowed :: bool
  dpd_policy_version :: string
  dpd_reason_codes :: "string list"
  dpd_required_transformations :: "string list"
  dpd_maximum_retention_seconds :: u64

definition uuid_is_canonical :: "data_env \<Rightarrow> string \<Rightarrow> bool" where
  "uuid_is_canonical env t \<longleftrightarrow> dge_uuid_parse env t = Some t"

definition data_request_ok :: "data_env \<Rightarrow> data_policy_request \<Rightarrow> bool" where
  "data_request_ok env r \<longleftrightarrow>
     dpq_schema_version r = CONTRACT_SCHEMA_VERSION
     \<and> uuid_is_canonical env (dpq_tenant_id r)
     \<and> valid_jurisdiction (dpq_source_jurisdiction r)
     \<and> valid_jurisdiction (dpq_destination_jurisdiction r)
     \<and> dpq_destination_kind r \<noteq> [] \<and> length (dpq_destination_kind r) \<le> 2048
     \<and> graphic_text (dpq_destination_kind r)
     \<and> profile_token (dpq_deployment_profile r)
     \<and> (case dpq_cross_domain_approval_id r of None \<Rightarrow> True | Some a \<Rightarrow> uuid_is_canonical env a)"

text \<open>\<open>allowed\<close> and \<open>reasons\<close> of the function body: a failed rule clears one and extends the other.\<close>

type_synonym verdict = "bool \<times> string list"

definition deny_if :: "bool \<Rightarrow> string \<Rightarrow> verdict \<Rightarrow> verdict" where
  "deny_if b reason v = (if b then (False, snd v @ [reason]) else v)"

definition destination_text :: "data_policy_request \<Rightarrow> string" where
  "destination_text r = to_ascii_lowercase (dpq_destination_kind r)"

definition named_private_boundary_crossing :: "data_policy_request \<Rightarrow> bool" where
  "named_private_boundary_crossing r \<longleftrightarrow>
     str_contains (destination_text r) ''public'' \<or> str_contains (destination_text r) ''external''
     \<or> str_contains (destination_text r) ''saas''"

definition url_is_private :: "deployment_policy \<Rightarrow> url_parts option \<Rightarrow> bool" where
  "url_is_private p u \<longleftrightarrow> u \<noteq> None \<and> dpo_mode p \<in> {ModeVpc, ModeOnPrem}"

definition crosses_private_boundary ::
  "deployment_policy \<Rightarrow> url_parts option \<Rightarrow> data_policy_request \<Rightarrow> bool" where
  "crosses_private_boundary p u r \<longleftrightarrow>
     named_private_boundary_crossing r \<or> (u \<noteq> None \<and> dpo_mode p = ModeSaas)"

definition external_egress :: "deployment_policy \<Rightarrow> url_parts option \<Rightarrow> data_policy_request \<Rightarrow> bool" where
  "external_egress p u r \<longleftrightarrow>
     crosses_private_boundary p u r
     \<or> str_contains (destination_text r) ''internet''
     \<or> str_contains (destination_text r) ''cross-region''
     \<or> (u \<noteq> None \<and> \<not> url_is_private p u)"

definition private_words :: "string list" where
  "private_words = [''onprem'', ''on-prem'', ''private'', ''vpc'', ''internal'', ''offline'', ''local'',
     ''opcua'', ''mqtt'', ''modbus'']"

definition remains_private :: "deployment_policy \<Rightarrow> url_parts option \<Rightarrow> data_policy_request \<Rightarrow> bool" where
  "remains_private p u r \<longleftrightarrow>
     list_ex (\<lambda>w. str_contains (destination_text r) w) private_words \<or> url_is_private p u"

definition endpoint_denied :: "data_env \<Rightarrow> deployment_policy \<Rightarrow> url_parts option \<Rightarrow> bool" where
  "endpoint_denied env p u =
     (case u of
        None \<Rightarrow> False
      | Some v \<Rightarrow>
          uv_scheme v \<noteq> ''https'' \<or> uv_username v \<noteq> [] \<or> uv_password v \<noteq> None
          \<or> dge_url_origin env v \<notin> dpo_allowed_external_endpoints p)"

text \<open>The rules before the destination is parsed, and those after.\<close>

definition content_rules :: "deployment_policy \<Rightarrow> data_policy_request \<Rightarrow> verdict" where
  "content_rules p r =
     deny_if (dpq_source_jurisdiction r \<noteq> dpq_destination_jurisdiction r
              \<and> dpq_cross_domain_approval_id r = None) ''CROSS_DOMAIN_APPROVAL_REQUIRED''
     (deny_if (dpq_classification r \<in> {Restricted, Regulated}
               \<and> str_contains (to_ascii_lowercase (dpq_destination_kind r)) ''publicapi'')
        ''PUBLIC_MODEL_DENIED''
     (deny_if (dpq_classification r > dpo_maximum_classification p) ''DEPLOYMENT_CLASSIFICATION_LIMIT''
     (deny_if (dpq_contains_secret r) ''SECRET_OUTBOUND_DENIED'' (True, []))))"

definition destination_rules ::
  "data_env \<Rightarrow> deployment_policy \<Rightarrow> url_parts option \<Rightarrow> data_policy_request \<Rightarrow> verdict \<Rightarrow> verdict" where
  "destination_rules env p u r v =
     deny_if (dpo_mode p = ModeOffline \<and> external_egress p u r) ''OFFLINE_EGRESS_DENIED''
     (deny_if (endpoint_denied env p u) ''DESTINATION_ENDPOINT_DENIED''
     (deny_if (\<not> external_egress p u r \<and> \<not> remains_private p u r) ''DESTINATION_KIND_UNKNOWN'' v))"

definition destination_url :: "data_env \<Rightarrow> data_policy_request \<Rightarrow> data_error + url_parts option" where
  "destination_url env r =
     (if str_contains (destination_text r) ''://''
      then (case dge_url_parse env (dpq_destination_kind r) of
              None \<Rightarrow> Err DeploymentInvalid
            | Some u \<Rightarrow> Ok (Some u))
      else Ok None)"

definition evaluate_checked ::
  "data_env \<Rightarrow> data_policy_port \<Rightarrow> data_policy_request \<Rightarrow> data_error + data_policy_decision" where
  "evaluate_checked env port r =
     (if \<not> data_request_ok env r then Err DPolicyInvalid
      else res_bind (resolve_deployment (dpq_deployment_profile r) (dpi_deployments port)) (\<lambda>p.
        res_bind (destination_url env r) (\<lambda>u.
          let v = destination_rules env p u r (content_rules p r) in
          Ok \<lparr>dpd_schema_version = DATA_SCHEMA_VERSION, dpd_allowed = fst v,
              dpd_policy_version = dpi_policy_version port,
              dpd_reason_codes = (if snd v = [] then [''DATA_FLOW_ALLOWED''] else snd v),
              dpd_required_transformations =
                (if dpq_classification r \<ge> Confidential \<and> crosses_private_boundary p u r
                 then [''REDACT_PII'', ''HASH_TRACE_PAYLOAD''] else []),
              dpd_maximum_retention_seconds = retention_for (dpq_classification r)\<rparr>)))"

definition data_policy_evaluate ::
  "data_env \<Rightarrow> data_policy_port \<Rightarrow> data_policy_request \<Rightarrow> contract_error + data_policy_decision" where
  "data_policy_evaluate env port r =
     (case evaluate_checked env port r of Inl _ \<Rightarrow> Err ScopeExceeded | Inr d \<Rightarrow> Ok d)"

subsection \<open>Guards\<close>

record prompt_transform_result =
  ptr_schema_version :: string
  ptr_sanitized_prompt :: string
  ptr_original_hash :: string
  ptr_transformed_hash :: string
  ptr_transformations :: "string list"
  ptr_reversible :: bool

definition redact_all :: "dlp_scanner \<Rightarrow> string \<Rightarrow> string" where
  "redact_all sc txt = fold (\<lambda>p t. rg_replace_all p t ''[PII_REDACTED]'') (dsc_personal_patterns sc) txt"

definition sanitize ::
  "data_env \<Rightarrow> dlp_scanner \<Rightarrow> string \<Rightarrow> data_label \<Rightarrow> bool \<Rightarrow> data_error + prompt_transform_result" where
  "sanitize env sc prompt label private_processing =
     res_bind (validate_label label) (\<lambda>_.
     res_bind (scan_bytes env sc prompt) (\<lambda>findings.
       if has_finding DlpSecret findings \<or> dlb_contains_secret label then Err SecretDenied
       else if dlb_classification label \<ge> Restricted \<and> \<not> private_processing then Err FlowDenied
       else if \<not> utf8_valid prompt then Err ContentInvalid
       else
         (let personal = has_finding DlpPersonalData findings;
              sanitized = (if personal then redact_all sc prompt else prompt)
          in Ok \<lparr>ptr_schema_version = DATA_SCHEMA_VERSION, ptr_sanitized_prompt = sanitized,
                 ptr_original_hash = dge_sha256_hex env prompt,
                 ptr_transformed_hash = dge_sha256_hex env sanitized,
                 ptr_transformations = (if personal then [''REDACT_PII''] else []),
                 ptr_reversible = False\<rparr>)))"

definition export_inspect ::
  "data_env \<Rightarrow> dlp_scanner \<Rightarrow> data_policy_port \<Rightarrow> string \<Rightarrow> data_label \<Rightarrow> data_policy_request
   \<Rightarrow> data_error + data_policy_decision" where
  "export_inspect env sc port bytes label r =
     res_bind (validate_label label) (\<lambda>_.
     res_bind (scan_bytes env sc bytes) (\<lambda>findings.
       if list_ex dfi_blocking findings then Err DlpDenied
       else res_bind (evaluate_checked env port r) (\<lambda>decision.
         if \<not> dpd_allowed decision then Err FlowDenied else Ok decision)))"

subsection \<open>Cross-domain grants\<close>

record cross_domain_grant =
  cdg_schema_version :: string
  cdg_grant_id :: string
  cdg_tenant_id :: string
  cdg_source_zone :: string
  cdg_target_zone :: string
  cdg_data_hash :: string
  cdg_classification :: data_classification
  cdg_expires_at :: datetime
  cdg_single_use :: bool

record cross_domain_service =
  cds_grants :: "(string, cross_domain_grant) btree"
  cds_used :: "string set"

definition cross_domain_init :: cross_domain_service where
  "cross_domain_init = \<lparr>cds_grants = bt_empty, cds_used = {}\<rparr>"

definition cross_domain_issue ::
  "datetime \<Rightarrow> cross_domain_grant \<Rightarrow> cross_domain_service
   \<Rightarrow> (data_error + unit) \<times> cross_domain_service" where
  "cross_domain_issue now g st =
     (if cdg_schema_version g \<noteq> DATA_SCHEMA_VERSION \<or> cdg_source_zone g = cdg_target_zone g
         \<or> length (cdg_data_hash g) \<noteq> 64 \<or> \<not> cdg_single_use g \<or> cdg_expires_at g \<le> now
      then (Err CrossDomainInvalid, st)
      else (Ok (), st\<lparr>cds_grants := bt_insert (cdg_grant_id g) g (cds_grants st)\<rparr>))"

definition cross_domain_matches ::
  "cross_domain_grant \<Rightarrow> string \<Rightarrow> string \<Rightarrow> string \<Rightarrow> string \<Rightarrow> datetime \<Rightarrow> bool" where
  "cross_domain_matches g tenant source target data_hash now \<longleftrightarrow>
     cdg_tenant_id g = tenant \<and> cdg_source_zone g = source \<and> cdg_target_zone g = target
     \<and> cdg_data_hash g = data_hash \<and> now < cdg_expires_at g"

text \<open>The grant is read under one lock and the use is inserted under another; the insertion is the only
  write, so the two can be taken together.\<close>

definition cross_domain_consume ::
  "string \<Rightarrow> string \<Rightarrow> string \<Rightarrow> string \<Rightarrow> string \<Rightarrow> datetime \<Rightarrow> cross_domain_service
   \<Rightarrow> (data_error + unit) \<times> cross_domain_service" where
  "cross_domain_consume grant_id tenant source target data_hash now st =
     (case bt_get (cds_grants st) grant_id of
        None \<Rightarrow> (Err CrossDomainInvalid, st)
      | Some g \<Rightarrow>
          if \<not> cross_domain_matches g tenant source target data_hash now
          then (Err CrossDomainInvalid, st)
          else if grant_id \<in> cds_used st then (Err CrossDomainReplayed, st)
          else (Ok (), st\<lparr>cds_used := insert grant_id (cds_used st)\<rparr>))"

end
