(* ===== verification/Data_Governance_Safety.thy ===== *)
theory Data_Governance_Safety
  imports Data_Governance Action_Text
begin

text \<open>
  What data governance guarantees: a merged label is valid and at least as restrictive as each of its
  sources, a classified label is valid and an override only raises it, a flow is allowed only under
  every rule of the policy, the scan of a JSON value is bounded and misses no node, and a cross-domain
  grant is used once.
\<close>

subsection \<open>Labels\<close>

definition hashes_are_digests :: "data_env \<Rightarrow> bool" where
  "hashes_are_digests env \<longleftrightarrow> (\<forall>b. is_hash_text (dge_sha256_hex env b))"

text \<open>One label keeps everything another one demands.\<close>

definition label_at_least :: "data_label \<Rightarrow> data_label \<Rightarrow> bool" where
  "label_at_least x l \<longleftrightarrow>
     dlb_classification x \<le> dlb_classification l
     \<and> dlb_domain_tags x \<subseteq> dlb_domain_tags l \<and> dlb_jurisdictions x \<subseteq> dlb_jurisdictions l
     \<and> (dlb_contains_secret x \<longrightarrow> dlb_contains_secret l)
     \<and> (dlb_contains_personal_data x \<longrightarrow> dlb_contains_personal_data l)
     \<and> (dlb_export_restricted x \<longrightarrow> dlb_export_restricted l)
     \<and> dlb_confidence l \<le> dlb_confidence x
     \<and> set (dln_transformation_hashes (dlb_lineage x)) \<subseteq> set (dln_transformation_hashes (dlb_lineage l))"

lemma validate_label_Ok:
  "validate_label l = Ok u \<longleftrightarrow>
     dlb_schema_version l = DATA_SCHEMA_VERSION
     \<and> dlb_retention_label l \<noteq> [] \<and> length (dlb_retention_label l) \<le> 128
     \<and> graphic_text (dlb_retention_label l)
     \<and> dln_source_id (dlb_lineage l) \<noteq> [] \<and> length (dln_source_id (dlb_lineage l)) \<le> 512
     \<and> graphic_text (dln_source_id (dlb_lineage l))
     \<and> is_hash_text (dln_source_hash (dlb_lineage l))
     \<and> length (dln_transformation_hashes (dlb_lineage l)) \<le> 1024
     \<and> (\<forall>h \<in> set (dln_transformation_hashes (dlb_lineage l)). is_hash_text h)
     \<and> distinct (dln_transformation_hashes (dlb_lineage l))
     \<and> card (dlb_domain_tags l) \<le> 64 \<and> (\<forall>t \<in> dlb_domain_tags l. valid_tag t)
     \<and> dlb_jurisdictions l \<noteq> {} \<and> card (dlb_jurisdictions l) \<le> 32
     \<and> (\<forall>j \<in> dlb_jurisdictions l. valid_jurisdiction j)
     \<and> (dlb_confidence l = ConfUnknown \<longrightarrow> Restricted \<le> dlb_classification l)
     \<and> (dlb_contains_secret l \<longrightarrow> Restricted \<le> dlb_classification l \<and> dlb_export_restricted l)
     \<and> (dlb_contains_personal_data l \<longrightarrow> dlb_classification l = Regulated \<and> dlb_export_restricted l)"
  by (auto simp: validate_label_def list_ex_iff not_less distinct_card card_distinct)

lemma retention_label_text:
  "retention_label_for c \<noteq> []" "length (retention_label_for c) \<le> 128"
  "graphic_text (retention_label_for c)"
  by (cases c; simp add: graphic_text_def is_ascii_graphic_def byte_between_def less_eq_char_def)+

lemma class_le_Regulated [simp]: "c \<le> Regulated"
  by (cases c) (auto simp: less_eq_data_classification_def)

lemma Regulated_le [simp]: "Regulated \<le> c \<longleftrightarrow> c = Regulated"
  by (cases c) (auto simp: less_eq_data_classification_def)

lemma ConfUnknown_le [simp]: "ConfUnknown \<le> c"
  by (cases c) (auto simp: less_eq_label_confidence_def)

text \<open>What the loop over the sources has checked and gathered.\<close>

lemma merge_loop_Ok:
  assumes "merge_loop ls tags jurisdictions transforms = Ok (t, j, h)"
  shows "(\<forall>l \<in> set ls. validate_label l = Ok ())
    \<and> t = tags \<union> (\<Union>l \<in> set ls. dlb_domain_tags l)
    \<and> j = jurisdictions \<union> (\<Union>l \<in> set ls. dlb_jurisdictions l)
    \<and> h = transforms @ concat (map (\<lambda>l. dln_transformation_hashes (dlb_lineage l)) ls)"
  using assms
proof (induction ls arbitrary: tags jurisdictions transforms)
  case (Cons l ls)
  then have valid: "validate_label l = Ok ()"
    by (cases "validate_label l") auto
  with Cons.prems have rest: "merge_loop ls (tags \<union> dlb_domain_tags l)
      (jurisdictions \<union> dlb_jurisdictions l)
      (transforms @ dln_transformation_hashes (dlb_lineage l)) = Ok (t, j, h)"
    by (simp split: if_splits)
  show ?case using Cons.IH [OF rest] valid by auto
qed simp

lemma max_class_mem: "ls \<noteq> [] \<Longrightarrow> \<exists>l \<in> set ls. dlb_classification l = Max (set (map dlb_classification ls))"
proof -
  assume "ls \<noteq> []"
  then have "Max (set (map dlb_classification ls)) \<in> set (map dlb_classification ls)"
    by (intro Max_in) auto
  then show ?thesis by auto
qed

lemma min_confidence_mem:
  "ls \<noteq> [] \<Longrightarrow> \<exists>l \<in> set ls. dlb_confidence l = Min (set (map dlb_confidence ls))"
proof -
  assume "ls \<noteq> []"
  then have "Min (set (map dlb_confidence ls)) \<in> set (map dlb_confidence ls)"
    by (intro Min_in) auto
  then show ?thesis by auto
qed

lemma max_class_ge: "l \<in> set ls \<Longrightarrow> dlb_classification l \<le> Max (set (map dlb_classification ls))"
  by (simp add: Max_ge)

lemma min_confidence_le: "l \<in> set ls \<Longrightarrow> Min (set (map dlb_confidence ls)) \<le> dlb_confidence l"
  by (simp add: Min_le)

text \<open>The parts of a merge that succeeded.\<close>

lemma merge_labels_Ok:
  assumes "merge_labels env ls h = Ok l"
  obtains transforms bytes where
    "ls \<noteq> []" "is_hash_text h" "\<forall>x \<in> set ls. validate_label x = Ok ()"
    "transforms = concat (map (\<lambda>x. dln_transformation_hashes (dlb_lineage x)) ls) @ [h]"
    "distinct transforms" "length transforms \<le> 1024"
    "card (\<Union>x \<in> set ls. dlb_domain_tags x) \<le> 64" "card (\<Union>x \<in> set ls. dlb_jurisdictions x) \<le> 32"
    "l = \<lparr>dlb_schema_version = DATA_SCHEMA_VERSION,
          dlb_classification = Max (set (map dlb_classification ls)),
          dlb_domain_tags = (\<Union>x \<in> set ls. dlb_domain_tags x),
          dlb_jurisdictions = (\<Union>x \<in> set ls. dlb_jurisdictions x),
          dlb_contains_secret = list_ex dlb_contains_secret ls,
          dlb_contains_personal_data = list_ex dlb_contains_personal_data ls,
          dlb_export_restricted = list_ex dlb_export_restricted ls,
          dlb_retention_label = retention_label_for (Max (set (map dlb_classification ls))),
          dlb_confidence = Min (set (map dlb_confidence ls)),
          dlb_lineage = \<lparr>dln_source_id = ''derived'', dln_source_hash = dge_sha256_hex env bytes,
                         dln_transformation_hashes = transforms\<rparr>\<rparr>"
proof -
  have start: "ls \<noteq> []" "is_hash_text h"
    using assms by (auto simp: merge_labels_def split: if_splits)
  obtain t j ts where loop: "merge_loop ls {} {} [] = Ok (t, j, ts)"
    using assms by (cases "merge_loop ls {} {} []") (auto simp: merge_labels_def split: if_splits)
  obtain bytes where bytes: "dge_jcs_labels env ls = Some bytes"
    using assms loop by (auto simp: merge_labels_def Let_def split: if_splits option.splits)
  have checks: "card t \<le> 64 \<and> card j \<le> 32 \<and> length ts < 1024
      \<and> card (set (ts @ [h])) = length (ts @ [h])"
    using assms start loop bytes
    by (simp add: merge_labels_def Let_def not_less not_le del: set_append split: if_splits)
  then have "distinct (ts @ [h])"
    using card_distinct by blast
  then show thesis
    using assms start loop bytes checks merge_loop_Ok [OF loop]
    by (intro that [of "ts @ [h]" bytes])
      (simp_all add: merge_labels_def Let_def distinct_card split: if_splits)
qed

text \<open>C19: a merged label passes the label check and is at least as restrictive as every source in class,
  tags, jurisdictions, secret, personal and export marks, confidence and history, and no more than they
  ask for. Its retention is the one of its class: a retention label by which a source goes beyond its
  class is not kept (\<open>stricter_retention_is_lost\<close>).\<close>

theorem merged_label_is_no_weaker:
  assumes "merge_labels env ls h = Ok l" and "hashes_are_digests env"
  shows "validate_label l = Ok () \<and> (\<forall>x \<in> set ls. label_at_least x l)
    \<and> dlb_classification l \<in> dlb_classification ` set ls
    \<and> dlb_confidence l \<in> dlb_confidence ` set ls
    \<and> dlb_domain_tags l = (\<Union>x \<in> set ls. dlb_domain_tags x)
    \<and> dlb_jurisdictions l = (\<Union>x \<in> set ls. dlb_jurisdictions x)
    \<and> dlb_contains_secret l = (\<exists>x \<in> set ls. dlb_contains_secret x)
    \<and> dlb_contains_personal_data l = (\<exists>x \<in> set ls. dlb_contains_personal_data x)
    \<and> dlb_export_restricted l = (\<exists>x \<in> set ls. dlb_export_restricted x)
    \<and> dlb_retention_label l = retention_label_for (dlb_classification l)
    \<and> last (dln_transformation_hashes (dlb_lineage l)) = h"
proof -
  obtain ts bytes where
    ne: "ls \<noteq> []" and h: "is_hash_text h" and valid: "\<forall>x \<in> set ls. validate_label x = Ok ()"
    and ts: "ts = concat (map (\<lambda>x. dln_transformation_hashes (dlb_lineage x)) ls) @ [h]"
    and bounds: "distinct ts" "length ts \<le> 1024"
      "card (\<Union>x \<in> set ls. dlb_domain_tags x) \<le> 64" "card (\<Union>x \<in> set ls. dlb_jurisdictions x) \<le> 32"
    and l: "l = \<lparr>dlb_schema_version = DATA_SCHEMA_VERSION,
          dlb_classification = Max (set (map dlb_classification ls)),
          dlb_domain_tags = (\<Union>x \<in> set ls. dlb_domain_tags x),
          dlb_jurisdictions = (\<Union>x \<in> set ls. dlb_jurisdictions x),
          dlb_contains_secret = list_ex dlb_contains_secret ls,
          dlb_contains_personal_data = list_ex dlb_contains_personal_data ls,
          dlb_export_restricted = list_ex dlb_export_restricted ls,
          dlb_retention_label = retention_label_for (Max (set (map dlb_classification ls))),
          dlb_confidence = Min (set (map dlb_confidence ls)),
          dlb_lineage = \<lparr>dln_source_id = ''derived'', dln_source_hash = dge_sha256_hex env bytes,
                         dln_transformation_hashes = ts\<rparr>\<rparr>"
    using assms(1) by (rule merge_labels_Ok)
  have least: "\<forall>x \<in> set ls. label_at_least x l"
    using max_class_ge min_confidence_le by (auto simp: label_at_least_def l ts list_ex_iff)
  have hashes: "\<forall>k \<in> set ts. is_hash_text k"
    using valid h by (auto simp: ts validate_label_Ok)
  obtain top where top: "top \<in> set ls" "dlb_classification top = dlb_classification l"
    using max_class_mem [OF ne] by (auto simp: l)
  obtain low where low: "low \<in> set ls" "dlb_confidence low = dlb_confidence l"
    using min_confidence_mem [OF ne] by (auto simp: l)
  have up: "\<And>x. x \<in> set ls \<Longrightarrow> dlb_classification x \<le> dlb_classification l
      \<and> (dlb_export_restricted x \<longrightarrow> dlb_export_restricted l)"
    using least by (auto simp: label_at_least_def)
  have flags: "(dlb_confidence x = ConfUnknown \<longrightarrow> Restricted \<le> dlb_classification x)
      \<and> (dlb_contains_secret x \<longrightarrow> Restricted \<le> dlb_classification x \<and> dlb_export_restricted x)
      \<and> (dlb_contains_personal_data x \<longrightarrow> dlb_classification x = Regulated \<and> dlb_export_restricted x)"
    if "x \<in> set ls" for x
    using valid that by (simp add: validate_label_Ok)
  have "dlb_confidence l = ConfUnknown \<longrightarrow> Restricted \<le> dlb_classification l"
    using low flags [OF low(1)] up [OF low(1)] by (auto intro: order_trans)
  moreover have "dlb_contains_secret l \<longrightarrow> Restricted \<le> dlb_classification l \<and> dlb_export_restricted l"
  proof
    assume "dlb_contains_secret l"
    then obtain x where "x \<in> set ls" "dlb_contains_secret x" by (auto simp: l list_ex_iff)
    then show "Restricted \<le> dlb_classification l \<and> dlb_export_restricted l"
      using flags up by (blast intro: order_trans)
  qed
  moreover have "dlb_contains_personal_data l \<longrightarrow> dlb_classification l = Regulated \<and> dlb_export_restricted l"
  proof
    assume "dlb_contains_personal_data l"
    then obtain x where x: "x \<in> set ls" "dlb_contains_personal_data x" by (auto simp: l list_ex_iff)
    then show "dlb_classification l = Regulated \<and> dlb_export_restricted l"
      using flags [OF x(1)] up [OF x(1)] by simp
  qed
  moreover have "dlb_jurisdictions l \<noteq> {}"
    using top valid by (force simp: l validate_label_Ok)
  moreover have "\<forall>t \<in> dlb_domain_tags l. valid_tag t" "\<forall>j \<in> dlb_jurisdictions l. valid_jurisdiction j"
    using valid by (auto simp: l validate_label_Ok)
  moreover have "dlb_schema_version l = DATA_SCHEMA_VERSION"
    "dlb_retention_label l = retention_label_for (dlb_classification l)"
    "dln_source_id (dlb_lineage l) = ''derived''" "is_hash_text (dln_source_hash (dlb_lineage l))"
    "dln_transformation_hashes (dlb_lineage l) = ts"
    "card (dlb_domain_tags l) \<le> 64" "card (dlb_jurisdictions l) \<le> 32"
    using bounds assms(2) by (simp_all add: l hashes_are_digests_def)
  moreover have "graphic_text ''derived''"
    by (simp add: graphic_text_def is_ascii_graphic_def byte_between_def less_eq_char_def)
  ultimately have "validate_label l = Ok ()"
    unfolding validate_label_Ok using bounds(1,2) hashes retention_label_text by simp
  moreover have "dlb_classification l \<in> dlb_classification ` set ls" "dlb_confidence l \<in> dlb_confidence ` set ls"
    using top low by (metis image_eqI)+
  ultimately show ?thesis using least by (simp add: l ts list_ex_iff)
qed

text \<open>A concrete environment for the witnesses.\<close>

definition sample_data_env :: data_env where
  "sample_data_env =
     \<lparr>dge_sha256_hex = \<lambda>_. replicate 64 CHR ''a'', dge_jcs_labels = \<lambda>_. Some ''labels'',
      dge_uuid_parse = Some, dge_url_parse = \<lambda>_. None, dge_url_origin = uv_as_str,
      dge_json_text = \<lambda>_. ''json'', dge_base64 = []\<rparr>"

lemma is_hash_text_replicate: "is_hash_text (replicate 64 CHR ''a'')"
  by (simp add: is_hash_text_def byte_defs less_eq_char_def list_all_iff)

lemma sample_hashes: "hashes_are_digests sample_data_env"
  by (simp add: hashes_are_digests_def sample_data_env_def is_hash_text_replicate)

lemmas text_checks = graphic_text_def is_ascii_graphic_def byte_defs less_eq_char_def
  valid_jurisdiction_def valid_tag_def profile_token_def

definition sample_label :: "data_classification \<Rightarrow> bool \<Rightarrow> data_label" where
  "sample_label c secret =
     \<lparr>dlb_schema_version = DATA_SCHEMA_VERSION, dlb_classification = c, dlb_domain_tags = {''hr''},
      dlb_jurisdictions = {''CN''}, dlb_contains_secret = secret, dlb_contains_personal_data = False,
      dlb_export_restricted = secret, dlb_retention_label = retention_label_for c,
      dlb_confidence = Deterministic,
      dlb_lineage = \<lparr>dln_source_id = ''db'', dln_source_hash = replicate 64 CHR ''a'',
                     dln_transformation_hashes = []\<rparr>\<rparr>"

lemma sample_label_valid:
  "validate_label (sample_label Internal False) = Ok ()"
  "validate_label (sample_label Restricted True) = Ok ()"
  by (simp_all add: validate_label_Ok sample_label_def is_hash_text_replicate text_checks
      less_eq_data_classification_def)

definition sample_merge :: "data_error + data_label" where
  "sample_merge = merge_labels sample_data_env [sample_label Internal False, sample_label Restricted True]
     (replicate 64 CHR ''a'')"

lemma sample_merge_Ok: "\<exists>l. sample_merge = Ok l"
  unfolding sample_merge_def merge_labels_def
  by (simp add: sample_label_valid is_hash_text_replicate)
    (simp add: sample_label_def sample_data_env_def Let_def)

text \<open>A source may be kept for less time than its class asks; what is merged from it is not.\<close>

lemma stricter_retention_is_lost:
  "\<exists>x l. validate_label x = Ok () \<and> dlb_retention_label x = ''REGULATED_7D_REVIEW''
     \<and> merge_labels sample_data_env [x] (replicate 64 CHR ''a'') = Ok l
     \<and> dlb_retention_label l = ''INTERNAL_180D''"
proof -
  let ?x = "(sample_label Internal False)\<lparr>dlb_retention_label := ''REGULATED_7D_REVIEW''\<rparr>"
  have valid: "validate_label ?x = Ok ()"
    by (simp add: validate_label_Ok sample_label_def is_hash_text_replicate text_checks
        graphic_text_def is_ascii_graphic_def byte_between_def less_eq_char_def)
  have "\<exists>l. merge_labels sample_data_env [?x] (replicate 64 CHR ''a'') = Ok l
      \<and> dlb_retention_label l = ''INTERNAL_180D''"
    unfolding merge_labels_def
    by (simp add: valid is_hash_text_replicate)
      (simp add: sample_label_def sample_data_env_def Let_def)
  then obtain l where "merge_labels sample_data_env [?x] (replicate 64 CHR ''a'') = Ok l"
    "dlb_retention_label l = ''INTERNAL_180D''" by blast
  with valid show ?thesis by (intro exI [of _ ?x] exI [of _ l] conjI) simp_all
qed

theorem merged_label_is_no_weaker_witness:
  "\<exists>l. sample_merge = Ok l \<and> dlb_contains_secret l \<and> Restricted \<le> dlb_classification l"
proof -
  obtain l where l: "sample_merge = Ok l" using sample_merge_Ok by blast
  have "label_at_least (sample_label Restricted True) l"
    using merged_label_is_no_weaker [OF l [unfolded sample_merge_def] sample_hashes] by simp
  then show ?thesis
    using l by (auto simp: label_at_least_def sample_label_def)
qed

subsection \<open>Classification\<close>

lemma classify_Ok:
  assumes "classify env sc r content = Ok l"
  obtains findings where
    "classification_request_ok r" "scan_bytes env sc content = Ok findings"
    "dlb_classification l =
       (case cfr_human_override r of Some c \<Rightarrow> max c (deterministic_class r findings)
        | None \<Rightarrow> deterministic_class r findings)"
    "dlb_contains_secret l = has_finding DlpSecret findings"
    "dlb_contains_personal_data l = has_finding DlpPersonalData findings"
    "dlb_export_restricted l = (Restricted \<le> dlb_classification l)"
    "dlb_schema_version l = DATA_SCHEMA_VERSION"
    "dlb_retention_label l = retention_label_for (dlb_classification l)"
    "dlb_confidence l \<noteq> ConfUnknown" "dlb_domain_tags l = cfr_domain_tags r"
    "dlb_jurisdictions l = {cfr_jurisdiction r}"
    "dlb_lineage l = \<lparr>dln_source_id = cfr_source_id r, dln_source_hash = dge_sha256_hex env content,
                      dln_transformation_hashes = []\<rparr>"
  using assms by (auto simp: classify_def Let_def res_bind_Ok_iff split: if_splits)

lemma deterministic_class_ge:
  "has_finding DlpPersonalData fs \<Longrightarrow> deterministic_class r fs = Regulated"
  "has_finding DlpSecret fs \<Longrightarrow> Restricted \<le> deterministic_class r fs"
  "\<not> cfr_source_trusted r \<Longrightarrow> Restricted \<le> deterministic_class r fs"
  by (simp_all add: deterministic_class_def)

text \<open>A classified label passes the label check; it is at least the class the findings force and at
  least a human override, and untrusted or secret material is never below restricted.\<close>

theorem classified_label_is_valid:
  assumes "classify env sc r content = Ok l" and "hashes_are_digests env"
  shows "validate_label l = Ok ()
    \<and> (\<exists>findings. scan_bytes env sc content = Ok findings
         \<and> deterministic_class r findings \<le> dlb_classification l
         \<and> (has_finding DlpSecret findings \<longrightarrow> dlb_contains_secret l)
         \<and> (has_finding DlpPersonalData findings \<longrightarrow> dlb_classification l = Regulated))
    \<and> (\<forall>c. cfr_human_override r = Some c \<longrightarrow> c \<le> dlb_classification l)
    \<and> (cfr_source_trusted r \<or> Restricted \<le> dlb_classification l)"
proof -
  obtain fs where request: "classification_request_ok r" and scan: "scan_bytes env sc content = Ok fs"
    and level: "dlb_classification l =
       (case cfr_human_override r of Some c \<Rightarrow> max c (deterministic_class r fs)
        | None \<Rightarrow> deterministic_class r fs)"
    and marks: "dlb_contains_secret l = has_finding DlpSecret fs"
      "dlb_contains_personal_data l = has_finding DlpPersonalData fs"
      "dlb_export_restricted l = (Restricted \<le> dlb_classification l)"
      "dlb_schema_version l = DATA_SCHEMA_VERSION"
      "dlb_retention_label l = retention_label_for (dlb_classification l)"
      "dlb_confidence l \<noteq> ConfUnknown" "dlb_domain_tags l = cfr_domain_tags r"
      "dlb_jurisdictions l = {cfr_jurisdiction r}"
      "dlb_lineage l = \<lparr>dln_source_id = cfr_source_id r, dln_source_hash = dge_sha256_hex env content,
                      dln_transformation_hashes = []\<rparr>"
    using assms(1) by (rule classify_Ok)
  have up: "deterministic_class r fs \<le> dlb_classification l"
    "\<forall>c. cfr_human_override r = Some c \<longrightarrow> c \<le> dlb_classification l"
    by (auto simp: level split: option.splits)
  have secret: "has_finding DlpSecret fs \<longrightarrow> Restricted \<le> dlb_classification l"
    and personal: "has_finding DlpPersonalData fs \<longrightarrow> dlb_classification l = Regulated"
    and untrusted: "cfr_source_trusted r \<or> Restricted \<le> dlb_classification l"
    using up(1) deterministic_class_ge(1) [of fs r] deterministic_class_ge(2) [of fs r]
      deterministic_class_ge(3) [of r fs]
    by (auto intro: order_trans)
  have "validate_label l = Ok ()"
    using request secret personal assms(2) marks retention_label_text
    by (simp add: validate_label_Ok classification_request_ok_def hashes_are_digests_def)
  then show ?thesis
    using scan up secret personal untrusted marks by auto
qed

definition sample_regex :: "string \<Rightarrow> regex" where
  "sample_regex needle = \<lparr>rg_is_match = \<lambda>t. str_contains t needle, rg_replace_all = \<lambda>t r. r\<rparr>"

definition sample_scanner :: dlp_scanner where
  "sample_scanner =
     \<lparr>dsc_available = True, dsc_patterns_valid = True,
      dsc_secret_patterns = [sample_regex ''password''],
      dsc_personal_patterns = [sample_regex ''@'']\<rparr>"

definition sample_classification :: classification_request where
  "sample_classification =
     \<lparr>cfr_schema_version = DATA_SCHEMA_VERSION, cfr_source_id = ''db'', cfr_jurisdiction = ''CN'',
      cfr_source_trusted = True, cfr_domain_tags = {}, cfr_human_override = Some Regulated,
      cfr_human_override_evidence_ref = Some ''evidence://7''\<rparr>"

lemma sample_scan: "\<exists>fs. scan_bytes sample_data_env sample_scanner ''text'' = Ok fs"
  by (simp add: scan_bytes_def scanner_available_def sample_scanner_def MAX_INSPECTION_BYTES_def
      compressed_magic_def Let_def)

lemma sample_classify: "\<exists>l. classify sample_data_env sample_scanner sample_classification ''text'' = Ok l"
  using sample_scan
  by (auto simp: classify_def classification_request_ok_def sample_classification_def text_checks
      res_bind_Ok_iff Let_def)

theorem classified_label_is_valid_witness:
  "\<exists>l. classify sample_data_env sample_scanner sample_classification ''text'' = Ok l
     \<and> dlb_classification l = Regulated"
proof -
  obtain l where l: "classify sample_data_env sample_scanner sample_classification ''text'' = Ok l"
    using sample_classify by blast
  show ?thesis
    using classified_label_is_valid [OF l sample_hashes] l by (simp add: sample_classification_def)
qed

subsection \<open>Scanning\<close>

text \<open>The size and the height of a JSON value, and what a value with nothing to report looks like.\<close>

fun json_nodes :: "json \<Rightarrow> nat" and fields_nodes :: "(string \<times> json) list \<Rightarrow> nat"
  and items_nodes :: "json list \<Rightarrow> nat" where
  "json_nodes (JObject kvs) = Suc (fields_nodes kvs)"
| "json_nodes (JArray vs) = Suc (items_nodes vs)"
| "json_nodes (JString t) = 1"
| "json_nodes JNull = 1"
| "json_nodes (JBool b) = 1"
| "json_nodes (JNumber n) = 1"
| "fields_nodes [] = 0"
| "fields_nodes ((k, v) # kvs) = json_nodes v + fields_nodes kvs"
| "items_nodes [] = 0"
| "items_nodes (v # vs) = json_nodes v + items_nodes vs"

fun json_height :: "json \<Rightarrow> nat" and fields_height :: "(string \<times> json) list \<Rightarrow> nat"
  and items_height :: "json list \<Rightarrow> nat" where
  "json_height (JObject kvs) = fields_height kvs"
| "json_height (JArray vs) = items_height vs"
| "json_height (JString t) = 0"
| "json_height JNull = 0"
| "json_height (JBool b) = 0"
| "json_height (JNumber n) = 0"
| "fields_height [] = 0"
| "fields_height ((k, v) # kvs) = max (Suc (json_height v)) (fields_height kvs)"
| "items_height [] = 0"
| "items_height (v # vs) = max (Suc (json_height v)) (items_height vs)"

fun json_clean :: "data_env \<Rightarrow> dlp_scanner \<Rightarrow> json \<Rightarrow> bool"
  and fields_clean :: "data_env \<Rightarrow> dlp_scanner \<Rightarrow> (string \<times> json) list \<Rightarrow> bool"
  and items_clean :: "data_env \<Rightarrow> dlp_scanner \<Rightarrow> json list \<Rightarrow> bool" where
  "json_clean env sc (JObject kvs) = fields_clean env sc kvs"
| "json_clean env sc (JArray vs) = items_clean env sc vs"
| "json_clean env sc (JString t) = (t = [] \<or> scan_bytes env sc t = Ok [])"
| "json_clean env sc JNull = True"
| "json_clean env sc (JBool b) = True"
| "json_clean env sc (JNumber n) = True"
| "fields_clean env sc [] = True"
| "fields_clean env sc ((k, v) # kvs) =
     (to_ascii_lowercase k \<notin> set secret_keys \<and> json_clean env sc v \<and> fields_clean env sc kvs)"
| "items_clean env sc [] = True"
| "items_clean env sc (v # vs) = (json_clean env sc v \<and> items_clean env sc vs)"

text \<open>What a part of the scan adds to its state.\<close>

definition scan_adds :: "nat \<Rightarrow> bool \<Rightarrow> scan_state \<Rightarrow> scan_state \<Rightarrow> bool" where
  "scan_adds n clean st st' \<longleftrightarrow>
     fst st' = fst st + n \<and> length (snd st) \<le> length (snd st')
     \<and> (length (snd st') = length (snd st) \<longrightarrow> clean)"

definition scan_within :: "scan_state \<Rightarrow> bool" where
  "scan_within st \<longleftrightarrow> fst st \<le> MAX_JSON_SCAN_NODES \<and> length (snd st) \<le> MAX_DLP_FINDINGS"

lemma scan_enter_Ok:
  "scan_enter path depth st = Ok st' \<longleftrightarrow>
     depth \<le> MAX_JSON_SCAN_DEPTH \<and> length path \<le> 4096 \<and> st' = (fst st + 1, snd st) \<and> scan_within st'"
  by (auto simp: scan_enter_def scan_exhausted_def scan_within_def not_less)

lemma scan_string_Ok:
  assumes "scan_string env sc t path st = Ok st'" and "scan_within st"
  shows "scan_within st' \<and> scan_adds 0 (t = [] \<or> scan_bytes env sc t = Ok []) st st'"
  using assms
  by (cases "scan_bytes env sc t")
    (auto simp: scan_string_def scan_within_def scan_adds_def split: if_splits)

lemma scan_key_Ok:
  assumes "scan_key env k v child st = Ok st'" and "scan_within st"
  shows "scan_within st' \<and> scan_adds 0 (to_ascii_lowercase k \<notin> set secret_keys) st st'"
  using assms by (auto simp: scan_key_def scan_within_def scan_adds_def split: if_splits)

lemma scan_adds_trans:
  "scan_adds m c st st' \<Longrightarrow> scan_adds n d st' st'' \<Longrightarrow> scan_adds (m + n) (c \<and> d) st st''"
  by (auto simp: scan_adds_def)

lemma scan_adds_refl [simp]: "scan_adds 0 True st st"
  by (simp add: scan_adds_def)

lemma scan_adds_enter:
  "scan_adds n c (Suc (fst st), snd st) st' \<Longrightarrow> scan_adds (Suc n) c st st'"
  by (simp add: scan_adds_def)

lemma scan_json_spec:
  "scan_json_value env sc v path depth st = Ok st' \<Longrightarrow>
     scan_within st' \<and> scan_adds (json_nodes v) (json_clean env sc v) st st'
     \<and> depth + json_height v \<le> MAX_JSON_SCAN_DEPTH"
  "scan_json_fields env sc kvs path depth st = Ok st' \<Longrightarrow> scan_within st \<Longrightarrow> depth \<le> MAX_JSON_SCAN_DEPTH \<Longrightarrow>
     scan_within st' \<and> scan_adds (fields_nodes kvs) (fields_clean env sc kvs) st st'
     \<and> depth + fields_height kvs \<le> MAX_JSON_SCAN_DEPTH"
  "scan_json_items env sc vs index path depth st = Ok st' \<Longrightarrow> scan_within st \<Longrightarrow> depth \<le> MAX_JSON_SCAN_DEPTH \<Longrightarrow>
     scan_within st' \<and> scan_adds (items_nodes vs) (items_clean env sc vs) st st'
     \<and> depth + items_height vs \<le> MAX_JSON_SCAN_DEPTH"
proof (induction env sc v path depth st and env sc kvs path depth st and env sc vs index path depth st
    arbitrary: st' and st' and st'
    rule: scan_json_value_scan_json_fields_scan_json_items.induct)
  case (1 env sc kvs path depth st)
  then obtain a where a: "scan_enter path depth st = Ok a" and f: "scan_json_fields env sc kvs path depth a = Ok st'"
    by (auto simp: res_bind_Ok_iff)
  show ?case
    using "1.IH" [OF f] a by (auto simp: scan_enter_Ok intro: scan_adds_enter)
next
  case (2 env sc vs path depth st)
  then obtain a where a: "scan_enter path depth st = Ok a" and f: "scan_json_items env sc vs 0 path depth a = Ok st'"
    by (auto simp: res_bind_Ok_iff)
  show ?case
    using "2.IH" [OF f] a by (auto simp: scan_enter_Ok intro: scan_adds_enter)
next
  case (3 env sc t path depth st)
  then obtain a where a: "scan_enter path depth st = Ok a" and f: "scan_string env sc t path a = Ok st'"
    by (auto simp: res_bind_Ok_iff)
  show ?case
    using scan_string_Ok [OF f] a by (auto simp: scan_enter_Ok dest: scan_adds_enter)
next
  case (8 env sc key v kvs path depth st)
  from "8.prems"(1) obtain a b where
    a: "scan_key env key v (path @ ''.'' @ key) st = Ok a"
    and b: "scan_json_value env sc v (path @ ''.'' @ key) (depth + 1) a = Ok b"
    and rest: "scan_json_fields env sc kvs path depth b = Ok st'"
    by (auto simp: res_bind_Ok_iff)
  have ka: "scan_within a" "scan_adds 0 (to_ascii_lowercase key \<notin> set secret_keys) st a"
    using scan_key_Ok [OF a "8.prems"(2)] by auto
  have kb: "scan_within b" "scan_adds (json_nodes v) (json_clean env sc v) a b"
    "depth + 1 + json_height v \<le> MAX_JSON_SCAN_DEPTH"
    using "8.IH"(1) [OF b] by auto
  have kc: "scan_within st'" "scan_adds (fields_nodes kvs) (fields_clean env sc kvs) b st'"
    "depth + fields_height kvs \<le> MAX_JSON_SCAN_DEPTH"
    using "8.IH"(2) [OF rest kb(1) "8.prems"(3)] by auto
  show ?case
    using scan_adds_trans [OF ka(2) scan_adds_trans [OF kb(2) kc(2)]] kb(3) kc(1,3) by simp
next
  case (10 env sc v vs index path depth st)
  from "10.prems"(1) obtain b where
    b: "scan_json_value env sc v (path @ ''['' @ decimal index @ '']'') (depth + 1) st = Ok b"
    and rest: "scan_json_items env sc vs (index + 1) path depth b = Ok st'"
    by (auto simp: res_bind_Ok_iff)
  have kb: "scan_within b" "scan_adds (json_nodes v) (json_clean env sc v) st b"
    "depth + 1 + json_height v \<le> MAX_JSON_SCAN_DEPTH"
    using "10.IH"(1) [OF b] by auto
  have kc: "scan_within st'" "scan_adds (items_nodes vs) (items_clean env sc vs) b st'"
    "depth + items_height vs \<le> MAX_JSON_SCAN_DEPTH"
    using "10.IH"(2) [OF rest kb(1) "10.prems"(3)] by auto
  show ?case
    using scan_adds_trans [OF kb(2) kc(2)] kb(3) kc(1,3) by simp
qed (auto simp: scan_enter_Ok scan_adds_def)

text \<open>C21: a JSON value whose scan succeeds has at most 100000 nodes, each visited once, and is at most 32
  deep; there are at most 4096 findings, and without one no key is a secret's name and no string at
  any depth has something to report.\<close>

theorem scanned_json_is_bounded:
  assumes "scan_json env sc v = Ok findings"
  shows "json_nodes v \<le> 100000 \<and> json_height v \<le> 32 \<and> length findings \<le> 4096
    \<and> (findings = [] \<longrightarrow> json_clean env sc v)"
proof -
  obtain n where "scan_json_value env sc v ''$'' 0 (0, []) = Ok (n, findings)"
    using assms by (auto simp: scan_json_def res_bind_Ok_iff split: if_splits)
  from scan_json_spec(1) [OF this] show ?thesis
    by (auto simp: scan_within_def scan_adds_def MAX_JSON_SCAN_DEPTH_def MAX_JSON_SCAN_NODES_def
        MAX_DLP_FINDINGS_def)
qed

definition sample_json :: json where
  "sample_json = JObject [(''note'', JArray [JNull, JString ''hi'']), (''Token'', JNumber ''7'')]"

lemma sample_lower: "to_ascii_lowercase ''note'' = ''note''" "to_ascii_lowercase ''Token'' = ''token''"
  by code_simp+

lemma sample_scan_hi: "scan_bytes sample_data_env sample_scanner ''hi'' = Ok []"
proof -
  have "str_trim ''hi'' = ''hi''"
    by (rule printable_trim) (simp add: printable_def)
  then have "\<not> looks_base64 ''hi''"
    by (simp add: looks_base64_def)
  moreover have "utf8_lossy ''hi'' = ''hi''"
    by (simp add: utf8_lossy_ascii)
  moreover have "scan_text sample_data_env sample_scanner ''hi'' ''$'' True = []"
    by (simp add: scan_text_def sample_scanner_def sample_regex_def to_ascii_lowercase_def
        to_ascii_lower_def byte_defs less_eq_char_def)
  ultimately show ?thesis
    using \<open>str_trim ''hi'' = ''hi''\<close>
    by (simp add: scan_bytes_def scanner_available_def sample_scanner_def MAX_INSPECTION_BYTES_def
        compressed_magic_def Let_def)
qed

lemma sample_available: "dsc_available sample_scanner" "dsc_patterns_valid sample_scanner"
  by (simp_all add: sample_scanner_def)

theorem scanned_json_is_bounded_witness:
  "\<exists>findings. scan_json sample_data_env sample_scanner sample_json = Ok findings
     \<and> findings \<noteq> [] \<and> json_nodes sample_json \<le> 100000"
proof -
  have "\<exists>findings. scan_json sample_data_env sample_scanner sample_json = Ok findings \<and> findings \<noteq> []"
    using sample_scan_hi
    by (simp add: scan_json_def sample_json_def scanner_available_def scan_enter_def sample_available
        scan_key_def secret_keys_def sample_lower scan_string_def sample_scan_hi decimal.simps
        scan_exhausted_def MAX_JSON_SCAN_DEPTH_def MAX_JSON_SCAN_NODES_def MAX_DLP_FINDINGS_def)
  then show ?thesis using scanned_json_is_bounded by blast
qed

text \<open>
  The layers of a text, without the scan: what is decoded while the text looks like base64, at most
  \<open>n\<close> times and not beyond a layer that is empty, too long or compressed.
\<close>

definition peel :: "data_env \<Rightarrow> string \<Rightarrow> string option" where
  "peel env t = (if looks_base64 (utf8_lossy t) then decode_base64_layer env (str_trim (utf8_lossy t)) else None)"

definition unreadable_layer :: "string \<Rightarrow> bool" where
  "unreadable_layer t \<longleftrightarrow> t = [] \<or> length t > MAX_INSPECTION_BYTES \<or> compressed_magic t"

fun peels :: "data_env \<Rightarrow> nat \<Rightarrow> string \<Rightarrow> string list" where
  "peels env 0 t = []"
| "peels env (Suc n) t =
     (case peel env t of
        None \<Rightarrow> []
      | Some d \<Rightarrow> d # (if unreadable_layer d then [] else peels env n d))"

text \<open>The findings of one layer, each set announced by a finding on the whole content.\<close>

definition layer_findings :: "data_env \<Rightarrow> dlp_scanner \<Rightarrow> string \<Rightarrow> nat \<Rightarrow> string \<Rightarrow> dlp_finding list" where
  "layer_findings env sc bytes depth d =
     (let inside = (if d = [] \<or> length d > MAX_INSPECTION_BYTES then []
                    else if compressed_magic d then [dlp_finding_of env DlpCompressedPayload (layer_path depth) d True]
                    else scan_text env sc (utf8_lossy d) (layer_path depth) True)
      in if unreadable_layer d \<or> inside \<noteq> []
         then dlp_finding_of env DlpEncodedPayload ''$'' bytes True # inside else [])"

lemma length_peels: "length (peels env n t) \<le> n"
  by (induction n arbitrary: t) (auto split: option.splits)

lemma scan_layers_peels:
  "scan_layers env sc bytes depths t findings =
     findings @ concat (map2 (layer_findings env sc bytes) depths (peels env (length depths) t))"
proof (induction env sc bytes depths t findings rule: scan_layers.induct)
  case (2 env sc bytes depth depths encoded findings)
  show ?case
  proof (cases "peel env encoded")
    case None
    then show ?thesis by (auto simp: peel_def Let_def split: if_splits)
  next
    case (Some d)
    then have looks: "looks_base64 (utf8_lossy encoded)"
      and decoded: "decode_base64_layer env (str_trim (utf8_lossy encoded)) = Some d"
      by (auto simp: peel_def split: if_splits)
    show ?thesis
    proof (cases "unreadable_layer d")
      case True
      then show ?thesis
        using Some looks decoded by (auto simp: unreadable_layer_def layer_findings_def Let_def)
    next
      case False
      then have "\<not> (d = [] \<or> length d > MAX_INSPECTION_BYTES)" "\<not> compressed_magic d"
        by (auto simp: unreadable_layer_def)
      with 2 [OF refl _ decoded _ _ refl] Some looks decoded False show ?thesis
        by (simp add: layer_findings_def Let_def)
    qed
  qed
qed simp

lemma length_concat_le: "(\<And>x. x \<in> set xs \<Longrightarrow> length x \<le> n) \<Longrightarrow> length (concat xs) \<le> length xs * n"
proof (induction xs)
  case (Cons x xs)
  then have "length x \<le> n" "length (concat xs) \<le> length xs * n" by auto
  then show ?case by simp
qed simp

lemma length_layer_findings: "length (layer_findings env sc bytes depth d) \<le> 4"
  by (auto simp: layer_findings_def scan_text_def Let_def)

text \<open>
  C36: content is decoded through at most three layers of base64. A scan fails only with an unavailable
  scanner or on empty or oversized content. Of compressed content it reports that; of any other it
  reports the findings of the text itself and of its layers, in order, where the layers are those
  decoded while they look like base64, at most three, the last one being empty, too long or compressed
  if it is not decoded further for that; so there are at most fifteen findings.
\<close>

theorem content_layers_are_bounded:
  "case scan_bytes env sc bytes of
     Inl e \<Rightarrow> (e = DlpUnavailable \<and> \<not> scanner_available sc)
       \<or> (e = ContentInvalid \<and> scanner_available sc \<and> length bytes \<notin> {1..MAX_INSPECTION_BYTES})
   | Inr findings \<Rightarrow> scanner_available sc \<and> length bytes \<in> {1..MAX_INSPECTION_BYTES}
       \<and> findings =
           (if compressed_magic bytes then [dlp_finding_of env DlpCompressedPayload ''$'' bytes True]
            else scan_text env sc (utf8_lossy bytes) ''$'' True
              @ concat (map2 (layer_findings env sc bytes) [1, 2, 3]
                          (peels env 3 (str_trim (utf8_lossy bytes)))))
       \<and> length findings \<le> 15"
proof -
  let ?t = "utf8_lossy bytes"
  let ?layers = "map2 (layer_findings env sc bytes) [1, 2, 3] (peels env 3 (str_trim ?t))"
  have "length (concat ?layers) \<le> length ?layers * 4"
    by (rule length_concat_le) (auto simp: length_layer_findings)
  also have "length ?layers \<le> 3" by simp
  finally have "length (concat ?layers) \<le> 12" by simp
  moreover have "length (scan_text env sc ?t ''$'' True) \<le> 3" by (simp add: scan_text_def)
  ultimately show ?thesis
    by (auto simp: scan_bytes_def Let_def Suc_le_eq scan_layers_peels numeral_3_eq_3)
qed

subsection \<open>Flows\<close>

definition deployments_ok :: "data_env \<Rightarrow> deployments \<Rightarrow> bool" where
  "deployments_ok env ds \<longleftrightarrow>
     bt_ok ds \<and> (\<forall>k p. bt_get ds k = Some p \<longrightarrow> deployment_validate env p = Ok () \<and> dpo_profile_id p = k)"

lemma register_keeps_deployments:
  "deployments_ok env ds \<Longrightarrow> deployments_ok env (snd (register_deployment env p ds))"
  by (auto simp: register_deployment_def deployments_ok_def bt.get_put split: sum.splits if_splits)

lemma data_policy_port_new_ok:
  "data_policy_port_new v = Ok port \<Longrightarrow> deployments_ok env (dpi_deployments port)"
  by (auto simp: data_policy_port_new_def deployments_ok_def split: if_splits)

lemma deny_if_chain:
  "fst (deny_if b reason v) \<longleftrightarrow> \<not> b \<and> fst v"
  "snd (deny_if b reason v) = [] \<longleftrightarrow> \<not> b \<and> snd v = []"
  "set (snd (deny_if b reason v)) = (if b then {reason} else {}) \<union> set (snd v)"
  by (auto simp: deny_if_def)

text \<open>Every rule of the policy, on the profile and the parsed destination.\<close>

definition flow_rules :: "data_env \<Rightarrow> deployment_policy \<Rightarrow> url_parts option \<Rightarrow> data_policy_request \<Rightarrow> bool" where
  "flow_rules env p u r \<longleftrightarrow>
     \<not> dpq_contains_secret r
     \<and> dpq_classification r \<le> dpo_maximum_classification p
     \<and> (dpq_classification r < Restricted \<or> \<not> str_contains (destination_text r) ''publicapi'')
     \<and> (dpq_source_jurisdiction r = dpq_destination_jurisdiction r
        \<or> dpq_cross_domain_approval_id r \<noteq> None)
     \<and> (external_egress p u r \<or> remains_private p u r)
     \<and> \<not> endpoint_denied env p u
     \<and> \<not> (dpo_mode p = ModeOffline \<and> external_egress p u r)"

lemma class_restricted: "c \<in> {Restricted, Regulated} \<longleftrightarrow> \<not> c < Restricted"
  by (cases c) (auto simp: less_data_classification_def)

lemma verdict_rules:
  "fst (destination_rules env p u r (content_rules p r)) \<longleftrightarrow> flow_rules env p u r"
  "snd (destination_rules env p u r (content_rules p r)) = [] \<longleftrightarrow> flow_rules env p u r"
  unfolding destination_rules_def content_rules_def deny_if_chain flow_rules_def class_restricted
    destination_text_def
  by auto

lemma verdict_reasons:
  "set (snd (destination_rules env p u r (content_rules p r)))
     \<subseteq> {''SECRET_OUTBOUND_DENIED'', ''DEPLOYMENT_CLASSIFICATION_LIMIT'', ''PUBLIC_MODEL_DENIED'',
        ''CROSS_DOMAIN_APPROVAL_REQUIRED'', ''DESTINATION_KIND_UNKNOWN'',
        ''DESTINATION_ENDPOINT_DENIED'', ''OFFLINE_EGRESS_DENIED''}"
  unfolding destination_rules_def content_rules_def deny_if_chain by auto

lemma evaluate_checked_Ok:
  assumes "evaluate_checked env port r = Ok d"
  obtains p u where "data_request_ok env r"
    "bt_get (dpi_deployments port) (dpq_deployment_profile r) = Some p" "destination_url env r = Ok u"
    "dpd_allowed d \<longleftrightarrow> flow_rules env p u r"
    "dpd_reason_codes d = [''DATA_FLOW_ALLOWED''] \<longleftrightarrow> flow_rules env p u r"
    "dpd_required_transformations d =
       (if dpq_classification r \<ge> Confidential \<and> crosses_private_boundary p u r
        then [''REDACT_PII'', ''HASH_TRACE_PAYLOAD''] else [])"
    "dpd_maximum_retention_seconds d = retention_for (dpq_classification r)"
proof -
  have ok: "data_request_ok env r"
    using assms by (auto simp: evaluate_checked_def split: if_splits)
  obtain p where p: "bt_get (dpi_deployments port) (dpq_deployment_profile r) = Some p"
    using assms ok by (auto simp: evaluate_checked_def resolve_deployment_def split: option.splits)
  obtain u where u: "destination_url env r = Ok u"
    using assms ok p
    by (cases "destination_url env r") (auto simp: evaluate_checked_def resolve_deployment_def)
  let ?v = "destination_rules env p u r (content_rules p r)"
  have d: "d = \<lparr>dpd_schema_version = DATA_SCHEMA_VERSION, dpd_allowed = fst ?v,
              dpd_policy_version = dpi_policy_version port,
              dpd_reason_codes = (if snd ?v = [] then [''DATA_FLOW_ALLOWED''] else snd ?v),
              dpd_required_transformations =
                (if dpq_classification r \<ge> Confidential \<and> crosses_private_boundary p u r
                 then [''REDACT_PII'', ''HASH_TRACE_PAYLOAD''] else []),
              dpd_maximum_retention_seconds = retention_for (dpq_classification r)\<rparr>"
    using assms ok p u by (simp add: evaluate_checked_def resolve_deployment_def Let_def)
  have "snd ?v \<noteq> [''DATA_FLOW_ALLOWED'']"
    using verdict_reasons [of env p u r] by auto
  then have "dpd_reason_codes d = [''DATA_FLOW_ALLOWED''] \<longleftrightarrow> flow_rules env p u r"
    using verdict_rules(2) [of env p u r] by (simp add: d)
  then show thesis
    using that [OF ok p u] verdict_rules(1) [of env p u r] by (simp add: d)
qed

text \<open>C20: a flow is allowed exactly when every rule of the registered profile holds, and then the reason
  says so; an offline profile lets nothing out, and a network destination is an https origin that
  the profile lists.\<close>

theorem allowed_flow_is_compliant:
  assumes "evaluate_checked env port r = Ok d" and "deployments_ok env (dpi_deployments port)"
  shows "\<exists>p u. bt_get (dpi_deployments port) (dpq_deployment_profile r) = Some p
    \<and> destination_url env r = Ok u
    \<and> (dpd_allowed d \<longleftrightarrow> flow_rules env p u r)
    \<and> (dpd_allowed d \<longleftrightarrow> dpd_reason_codes d = [''DATA_FLOW_ALLOWED''])
    \<and> (dpd_allowed d \<and> dpo_mode p = ModeOffline \<longrightarrow> u = None)
    \<and> (\<forall>v. dpd_allowed d \<and> u = Some v \<longrightarrow>
         uv_scheme v = ''https'' \<and> dge_url_origin env v \<in> dpo_allowed_external_endpoints p
         \<and> endpoint_ok env (dge_url_origin env v))"
proof -
  obtain p u where p: "bt_get (dpi_deployments port) (dpq_deployment_profile r) = Some p"
    and u: "destination_url env r = Ok u"
    and rules: "dpd_allowed d \<longleftrightarrow> flow_rules env p u r"
      "dpd_reason_codes d = [''DATA_FLOW_ALLOWED''] \<longleftrightarrow> flow_rules env p u r"
    using assms(1) by (rule evaluate_checked_Ok)
  have valid: "deployment_validate env p = Ok ()"
    using assms(2) p by (auto simp: deployments_ok_def)
  have endpoints: "\<forall>e \<in> dpo_allowed_external_endpoints p. endpoint_ok env e"
    "dpo_mode p = ModeOffline \<Longrightarrow> dpo_allowed_external_endpoints p = {}"
    using valid by (auto simp: deployment_validate_def split: if_splits)
  have "flow_rules env p u r \<and> u = Some v \<Longrightarrow>
      uv_scheme v = ''https'' \<and> dge_url_origin env v \<in> dpo_allowed_external_endpoints p" for v
    by (auto simp: flow_rules_def endpoint_denied_def)
  with endpoints rules p u show ?thesis
    by (intro exI [of _ p] exI [of _ u]) (cases u; auto)
qed

definition sample_profile :: "deployment_mode \<Rightarrow> deployment_policy" where
  "sample_profile mode =
     \<lparr>dpo_profile_id = ''site'', dpo_mode = mode, dpo_allowed_external_endpoints = {},
      dpo_telemetry_export = False, dpo_update_channel = ''offline-bundle'',
      dpo_maximum_classification = Restricted\<rparr>"

definition sample_data_port :: data_policy_port where
  "sample_data_port =
     \<lparr>dpi_policy_version = ''p1'',
      dpi_deployments = snd (register_deployment sample_data_env (sample_profile ModeOnPrem) bt_empty)\<rparr>"

definition sample_data_request :: data_policy_request where
  "sample_data_request =
     \<lparr>dpq_schema_version = CONTRACT_SCHEMA_VERSION, dpq_tenant_id = ''t'',
      dpq_classification = Restricted, dpq_source_jurisdiction = ''CN'',
      dpq_destination_jurisdiction = ''CN'', dpq_destination_kind = ''model:onprem'',
      dpq_deployment_profile = ''site'', dpq_contains_secret = False,
      dpq_cross_domain_approval_id = None\<rparr>"

lemma sample_deployments:
  "deployments_ok sample_data_env (dpi_deployments sample_data_port)"
proof -
  have "deployments_ok sample_data_env bt_empty"
    by (simp add: deployments_ok_def)
  then show ?thesis
    by (simp add: sample_data_port_def register_keeps_deployments)
qed

lemma sample_profile_valid: "deployment_validate sample_data_env (sample_profile ModeOnPrem) = Ok ()"
  by (simp add: deployment_validate_def sample_profile_def text_checks)

lemma sample_profile_found: "bt_get (dpi_deployments sample_data_port) ''site'' = Some (sample_profile ModeOnPrem)"
  using sample_profile_valid
  by (simp add: sample_data_port_def register_deployment_def)
    (simp add: sample_profile_def)

lemma sample_destination: "destination_url sample_data_env sample_data_request = Ok None"
  by (simp add: destination_url_def destination_text_def sample_data_request_def to_ascii_lowercase_def
      to_ascii_lower_def byte_defs less_eq_char_def)

lemma sample_flow:
  "\<exists>d. evaluate_checked sample_data_env sample_data_port sample_data_request = Ok d"
proof -
  have "data_request_ok sample_data_env sample_data_request"
    by (simp add: data_request_ok_def sample_data_request_def uuid_is_canonical_def sample_data_env_def text_checks)
  then show ?thesis
    using sample_profile_found sample_destination
    by (simp add: evaluate_checked_def resolve_deployment_def Let_def)
      (simp add: sample_data_request_def)
qed

lemma sample_rules: "flow_rules sample_data_env (sample_profile ModeOnPrem) None sample_data_request"
  by (simp add: flow_rules_def sample_data_request_def sample_profile_def destination_text_def
      to_ascii_lowercase_def to_ascii_lower_def byte_defs less_eq_char_def remains_private_def
      private_words_def endpoint_denied_def)

theorem allowed_flow_is_compliant_witness:
  "\<exists>d. evaluate_checked sample_data_env sample_data_port sample_data_request = Ok d \<and> dpd_allowed d
     \<and> dpd_reason_codes d = [''DATA_FLOW_ALLOWED'']"
proof -
  obtain d where d: "evaluate_checked sample_data_env sample_data_port sample_data_request = Ok d"
    using sample_flow by blast
  show ?thesis
    using allowed_flow_is_compliant [OF d sample_deployments] d sample_rules sample_destination
      sample_profile_found
    by (auto simp: sample_data_request_def)
qed

subsection \<open>Guards\<close>

lemma sanitize_Ok:
  assumes "sanitize env sc prompt label private = Ok t"
  shows "\<exists>findings. scan_bytes env sc prompt = Ok findings \<and> validate_label label = Ok ()
       \<and> \<not> has_finding DlpSecret findings \<and> \<not> dlb_contains_secret label
       \<and> (dlb_classification label < Restricted \<or> private) \<and> utf8_valid prompt
       \<and> ptr_sanitized_prompt t =
           (if has_finding DlpPersonalData findings then redact_all sc prompt else prompt)"
proof -
  obtain findings where f: "validate_label label = Ok ()" "scan_bytes env sc prompt = Ok findings"
    using assms by (auto simp: sanitize_def res_bind_Ok_iff)
  with assms have ok: "\<not> (has_finding DlpSecret findings \<or> dlb_contains_secret label)"
    "\<not> (Restricted \<le> dlb_classification label \<and> \<not> private)" "utf8_valid prompt"
    by (simp_all add: sanitize_def split: if_split_asm)
  with assms f show ?thesis
    by (simp add: sanitize_def Let_def not_le) auto
qed

text \<open>A personal-data pattern is redacted by its own pass when its replacement leaves no match; the
  passes after it must not bring one back.\<close>

definition redacts :: "regex \<Rightarrow> bool" where
  "redacts p \<longleftrightarrow> (\<forall>t. \<not> rg_is_match p (rg_replace_all p t ''[PII_REDACTED]''))"

definition keeps_clean :: "regex \<Rightarrow> regex \<Rightarrow> bool" where
  "keeps_clean p q \<longleftrightarrow>
     (\<forall>t. \<not> rg_is_match q t \<longrightarrow> \<not> rg_is_match q (rg_replace_all p t ''[PII_REDACTED]''))"

lemma redact_fold:
  assumes "\<forall>p \<in> set ps. redacts p" and "\<forall>p \<in> set ps. \<forall>q \<in> set ps. keeps_clean p q"
    and "q \<in> set ps"
  shows "\<not> rg_is_match q (fold (\<lambda>p t. rg_replace_all p t ''[PII_REDACTED]'') ps t)"
proof -
  have kept: "\<forall>p \<in> set rs. keeps_clean p q \<Longrightarrow> \<not> rg_is_match q t \<Longrightarrow>
      \<not> rg_is_match q (fold (\<lambda>p t. rg_replace_all p t ''[PII_REDACTED]'') rs t)" for rs t
    by (induction rs arbitrary: t) (auto simp: keeps_clean_def)
  obtain as bs where ps: "ps = as @ q # bs"
    using assms(3) by (meson split_list)
  show ?thesis
    using assms kept [of bs] by (simp add: ps redacts_def)
qed

text \<open>A prompt leaves the guard only when its label is valid, neither the scan nor the label knows a
  secret and restricted data stays in private processing; a clean prompt is unchanged, and when the
  patterns redact, no personal-data pattern matches the result.\<close>

theorem sanitized_prompt_is_safe:
  assumes "sanitize env sc prompt label private = Ok t"
    and "\<forall>p \<in> set (dsc_personal_patterns sc). redacts p"
    and "\<forall>p \<in> set (dsc_personal_patterns sc). \<forall>q \<in> set (dsc_personal_patterns sc). keeps_clean p q"
  shows "\<exists>findings. scan_bytes env sc prompt = Ok findings \<and> \<not> has_finding DlpSecret findings
    \<and> \<not> dlb_contains_secret label \<and> (dlb_classification label < Restricted \<or> private)
    \<and> (has_finding DlpPersonalData findings \<or> ptr_sanitized_prompt t = prompt)
    \<and> (has_finding DlpPersonalData findings \<longrightarrow>
         (\<forall>q \<in> set (dsc_personal_patterns sc). \<not> rg_is_match q (ptr_sanitized_prompt t)))"
  using sanitize_Ok [OF assms(1)] redact_fold [OF assms(2,3)] by (auto simp: redact_all_def)

definition redacting_scanner :: dlp_scanner where
  "redacting_scanner = sample_scanner
     \<lparr>dsc_personal_patterns := [\<lparr>rg_is_match = (\<lambda>t. CHR ''@'' \<in> set t),
        rg_replace_all = (\<lambda>t r. filter (\<lambda>c. c \<noteq> CHR ''@'') t)\<rparr>]\<rparr>"

theorem sanitized_prompt_is_safe_witness:
  "\<exists>t. sanitize sample_data_env redacting_scanner ''a@b'' (sample_label Internal False) False = Ok t
     \<and> CHR ''@'' \<notin> set (ptr_sanitized_prompt t)"
proof -
  have trim: "str_trim ''a@b'' = ''a@b''"
    by (rule printable_trim) (simp add: printable_def)
  have lossy: "utf8_lossy ''a@b'' = ''a@b''" "utf8_valid ''a@b''"
    by (simp_all add: utf8_lossy_ascii utf8_ascii)
  have low: "to_ascii_lowercase ''a@b'' = ''a@b''"
    by (simp add: to_ascii_lowercase_def to_ascii_lower_def byte_defs less_eq_char_def)
  have scan: "scan_bytes sample_data_env redacting_scanner ''a@b''
      = Ok [dlp_finding_of sample_data_env DlpPersonalData ''$'' ''a@b'' True]"
    by (simp add: scan_bytes_def scanner_available_def redacting_scanner_def sample_scanner_def
        MAX_INSPECTION_BYTES_def compressed_magic_def Let_def lossy trim looks_base64_def scan_text_def
        sample_regex_def low)
  have "\<exists>t. sanitize sample_data_env redacting_scanner ''a@b'' (sample_label Internal False) False = Ok t"
    by (simp add: sanitize_def sample_label_valid scan has_finding_def dlp_finding_of_def lossy Let_def)
      (simp add: sample_label_def less_eq_data_classification_def)
  then obtain t where t: "sanitize sample_data_env redacting_scanner ''a@b'' (sample_label Internal False) False = Ok t"
    by blast
  show ?thesis
    using sanitized_prompt_is_safe [OF t] t scan
    by (auto simp: redacting_scanner_def redacts_def keeps_clean_def has_finding_def dlp_finding_of_def)
qed

subsection \<open>Cross-domain grants\<close>

text \<open>The service with the grants it has let through, in order.\<close>

inductive cross_domain_step ::
  "cross_domain_service \<times> string list \<Rightarrow> cross_domain_service \<times> string list \<Rightarrow> bool" where
  cds_issue: "cross_domain_issue now g st = (r, st') \<Longrightarrow> cross_domain_step (st, passed) (st', passed)"
| cds_refuse: "cross_domain_consume grant_id t s d h now st = (Err e, st') \<Longrightarrow>
     cross_domain_step (st, passed) (st', passed)"
| cds_pass: "cross_domain_consume grant_id t s d h now st = (Ok (), st') \<Longrightarrow>
     cross_domain_step (st, passed) (st', passed @ [grant_id])"

definition cross_domain_kept :: "cross_domain_service \<times> string list \<Rightarrow> bool" where
  "cross_domain_kept m \<longleftrightarrow> distinct (snd m) \<and> set (snd m) = cds_used (fst m)
     \<and> bt_ok (cds_grants (fst m))
     \<and> (\<forall>k g. bt_get (cds_grants (fst m)) k = Some g \<longrightarrow>
          cdg_grant_id g = k \<and> cdg_single_use g \<and> cdg_source_zone g \<noteq> cdg_target_zone g)"

lemma cross_domain_step_kept: "cross_domain_step m m' \<Longrightarrow> cross_domain_kept m \<Longrightarrow> cross_domain_kept m'"
  by (induction rule: cross_domain_step.induct)
    (auto simp: cross_domain_kept_def cross_domain_issue_def cross_domain_consume_def bt.get_put
      split: if_splits option.splits)

interpretation cross_domain: invariant_system cross_domain_step cross_domain_kept
  "\<lambda>m. m = (cross_domain_init, [])"
proof
  show "cross_domain_kept m" if "m = (cross_domain_init, [])" for m
    using that by (simp add: cross_domain_kept_def cross_domain_init_def)
qed (rule cross_domain_step_kept)

text \<open>C22: in every run a cross-domain grant is let through at most once, and only for the tenant, the two
  different zones and the data it was issued for, before it expires.\<close>

theorem cross_domain_grant_used_once:
  assumes "reach (\<lambda>m. m = (cross_domain_init, [])) cross_domain_step (st, passed)"
  shows "distinct passed
    \<and> (\<forall>k t s d h now st'. cross_domain_consume k t s d h now st = (Ok (), st') \<longrightarrow>
         k \<notin> set passed \<and> (\<exists>g. bt_get (cds_grants st) k = Some g \<and> cdg_tenant_id g = t
           \<and> cdg_source_zone g = s \<and> cdg_target_zone g = d \<and> s \<noteq> d \<and> cdg_data_hash g = h
           \<and> now < cdg_expires_at g))"
  using cross_domain.reach_inv [OF assms]
  by (auto simp: cross_domain_kept_def cross_domain_consume_def cross_domain_matches_def
      split: if_splits option.splits)

definition sample_cross_grant :: cross_domain_grant where
  "sample_cross_grant =
     \<lparr>cdg_schema_version = DATA_SCHEMA_VERSION, cdg_grant_id = ''g1'', cdg_tenant_id = ''t'',
      cdg_source_zone = ''it'', cdg_target_zone = ''ot'', cdg_data_hash = replicate 64 CHR ''a'',
      cdg_classification = Internal, cdg_expires_at = 100, cdg_single_use = True\<rparr>"

definition sample_cross_state :: cross_domain_service where
  "sample_cross_state = \<lparr>cds_grants = [(''g1'', sample_cross_grant)], cds_used = {''g1''}\<rparr>"

theorem cross_domain_grant_used_once_witness:
  "reach (\<lambda>m. m = (cross_domain_init, [])) cross_domain_step (sample_cross_state, [''g1''])
   \<and> distinct [''g1'']"
proof -
  let ?mid = "\<lparr>cds_grants = [(''g1'', sample_cross_grant)], cds_used = {}\<rparr>"
  have issue: "cross_domain_step (cross_domain_init, []) (?mid, [])"
    by (rule cds_issue [of 5 sample_cross_grant _ "Ok ()"])
      (simp add: cross_domain_issue_def cross_domain_init_def sample_cross_grant_def bt_empty_def)
  have "cross_domain_step (?mid, []) (sample_cross_state, [] @ [''g1''])"
    by (rule cds_pass [of "''g1''" "''t''" "''it''" "''ot''" "replicate 64 CHR ''a''" 7])
      (simp add: cross_domain_consume_def bt_get_def cross_domain_matches_def sample_cross_grant_def
        sample_cross_state_def)
  then have pass: "cross_domain_step (?mid, []) (sample_cross_state, [''g1''])"
    by (simp only: append_Nil)
  have start: "reach (\<lambda>m. m = (cross_domain_init, [])) cross_domain_step (cross_domain_init, [])"
    by (rule reach_init) (rule refl)
  have run: "reach (\<lambda>m. m = (cross_domain_init, [])) cross_domain_step (sample_cross_state, [''g1''])"
    by (rule reach_step [where step = cross_domain_step,
          OF reach_step [where step = cross_domain_step, OF start issue] pass])
  show ?thesis
    by (rule conjI [OF run cross_domain_grant_used_once [OF run, THEN conjunct1]])
qed

end
