(* ===== verification/Model_Gateway.thy ===== *)
theory Model_Gateway
  imports Data_Governance BTree_Sum
begin

text \<open>
  The model gateway (\<open>model-gateway/src/lib.rs\<close>): the provider registry, the deterministic route
  planner, the budget manager, the prompt and response guards, the selection of compliant providers,
  \<open>generate\<close> and \<open>stream\<close>, billing reconciliation and the two wire adapters.

  Parameters (\<open>model_env\<close>): SHA-256, canonical JSON, the data policy port and the route planner, which
  are traits; what a provider answers is an argument of the step that calls it, \<open>None\<close> when the call
  times out. \<open>wire_env\<close> holds what the adapters use of \<open>serde_json\<close>. Identifiers and the time are
  arguments. \<open>usize\<close> is a natural number: it holds lengths of vectors and limits checked against small
  constants. \<open>generate\<close> releases every lock while the provider works, so it comes in three parts,
  \<open>admit_request\<close>, \<open>pick_route\<close> and \<open>settle\<close>, each with the registry and the budget of its moment.
\<close>

subsection \<open>Providers\<close>

datatype model_error = MConfigurationInvalid | ProviderInvalid | ProviderDenied | ProviderNotFound
  | ProviderUnavailable | ProviderOutcomeUnknown | ProviderProtocolInvalid | MVersionConflict
  | MRequestInvalid | RoutePlanInvalid | PromptDenied | SecretDetected | DataPolicyDenied
  | DataTransformationRequired | NoCompliantProvider | CapabilityMissing | MBudgetExceeded
  | BudgetReservationNotFound | BudgetReservationReplayed | ResponseTooLarge | StreamInvalid
  | BillingMismatch

datatype deployment_kind = PublicApi | VpcDeployment | OnPremDeployment | LocalDeployment

datatype model_capability = CapGenerate | CapStream | CapEmbeddings | CapToolCalling
  | CapStructuredOutput

fun deployment_debug :: "deployment_kind \<Rightarrow> string" where
  "deployment_debug PublicApi = ''PublicApi''"
| "deployment_debug VpcDeployment = ''Vpc''"
| "deployment_debug OnPremDeployment = ''OnPrem''"
| "deployment_debug LocalDeployment = ''Local''"

record provider_profile =
  pvf_schema_version :: string
  pvf_provider_id :: string
  pvf_model_id :: string
  pvf_model_version :: string
  pvf_region :: string
  pvf_jurisdiction :: string
  pvf_deployment :: deployment_kind
  pvf_capabilities :: "model_capability set"
  pvf_endpoint_digest :: string
  pvf_data_terms_version :: string
  pvf_approved_tenants :: "string set"
  pvf_approved :: bool
  pvf_revoked :: bool
  pvf_maximum_context_bytes :: nat
  pvf_maximum_output_bytes :: nat
  pvf_cost_microunits_per_token :: u64

definition MODEL_SCHEMA_VERSION :: string where
  "MODEL_SCHEMA_VERSION = ''agenttrust.model.v1''"

definition provider_key :: "provider_profile \<Rightarrow> string" where
  "provider_key p = pvf_provider_id p @ '':'' @ pvf_model_id p @ '':'' @ pvf_model_version p"

definition validate_profile :: "provider_profile \<Rightarrow> model_error + unit" where
  "validate_profile p =
     (if pvf_schema_version p \<noteq> MODEL_SCHEMA_VERSION
         \<or> \<not> bounded_nonempty (pvf_provider_id p) 128
         \<or> \<not> bounded_nonempty (pvf_model_id p) 256
         \<or> \<not> bounded_nonempty (pvf_model_version p) 256
         \<or> \<not> bounded_nonempty (pvf_region p) 128
         \<or> \<not> bounded_nonempty (pvf_jurisdiction p) 128
         \<or> \<not> bounded_nonempty (pvf_data_terms_version p) 256
         \<or> pvf_capabilities p = {} \<or> card (pvf_capabilities p) > 16
         \<or> pvf_approved_tenants p = {} \<or> card (pvf_approved_tenants p) > 10000
         \<or> pvf_maximum_context_bytes p = 0 \<or> pvf_maximum_context_bytes p > 16 * 1024 * 1024
         \<or> pvf_maximum_output_bytes p = 0 \<or> pvf_maximum_output_bytes p > 32 * 1024 * 1024
         \<or> \<not> valid_implementation_digest (pvf_endpoint_digest p)
      then Err ProviderInvalid else Ok ())"

type_synonym provider_registry = "(string, provider_profile) btree"

definition approve_provider ::
  "provider_profile \<Rightarrow> provider_registry \<Rightarrow> (model_error + unit) \<times> provider_registry" where
  "approve_provider p reg =
     (case validate_profile p of
        Inl e \<Rightarrow> (Err e, reg)
      | Inr _ \<Rightarrow>
          if \<not> pvf_approved p \<or> pvf_revoked p then (Err ProviderDenied, reg)
          else if bt_contains reg (provider_key p) then (Err MVersionConflict, reg)
          else (Ok (), bt_insert (provider_key p) p reg))"

definition revoke_provider ::
  "string \<Rightarrow> provider_registry \<Rightarrow> (model_error + unit) \<times> provider_registry" where
  "revoke_provider key reg =
     (case bt_get reg key of
        None \<Rightarrow> (Err ProviderNotFound, reg)
      | Some p \<Rightarrow> (Ok (), bt_insert key (p\<lparr>pvf_revoked := True\<rparr>) reg))"

definition usable :: "provider_profile \<Rightarrow> bool" where
  "usable p \<longleftrightarrow> pvf_approved p \<and> \<not> pvf_revoked p"

definition active_providers :: "provider_registry \<Rightarrow> provider_profile list" where
  "active_providers reg = filter usable (bt_values reg)"

definition resolve_provider :: "provider_registry \<Rightarrow> string \<Rightarrow> model_error + provider_profile" where
  "resolve_provider reg key =
     (case bt_get reg key of
        None \<Rightarrow> Err ProviderNotFound
      | Some p \<Rightarrow> if usable p then Ok p else Err ProviderNotFound)"

subsection \<open>Requests and routes\<close>

record model_request =
  mrq_schema_version :: string
  mrq_tenant_id :: string
  mrq_task_id :: string
  mrq_task_type :: string
  mrq_classification :: data_classification
  mrq_source_jurisdiction :: string
  mrq_deployment_profile :: string
  mrq_required_capabilities :: "model_capability set"
  mrq_allowed_provider_ids :: "string set"
  mrq_maximum_latency_ms :: u64
  mrq_maximum_cost_microunits :: u64
  mrq_maximum_output_bytes :: nat
  mrq_prompt :: string
  mrq_idempotency_key :: string

definition validate_model_request :: "model_request \<Rightarrow> model_error + unit" where
  "validate_model_request r =
     (if mrq_schema_version r \<noteq> MODEL_SCHEMA_VERSION
         \<or> \<not> bounded_nonempty (mrq_task_type r) 128
         \<or> \<not> bounded_nonempty (mrq_source_jurisdiction r) 128
         \<or> \<not> bounded_nonempty (mrq_deployment_profile r) 128
         \<or> mrq_allowed_provider_ids r = {} \<or> card (mrq_allowed_provider_ids r) > 100
         \<or> (\<exists>i \<in> mrq_allowed_provider_ids r. \<not> bounded_nonempty i 128)
         \<or> mrq_required_capabilities r = {} \<or> card (mrq_required_capabilities r) > 16
         \<or> mrq_maximum_latency_ms r = 0 \<or> mrq_maximum_latency_ms r > 300000
         \<or> mrq_maximum_cost_microunits r = 0 \<or> mrq_maximum_cost_microunits r > 9223372036854775807
         \<or> mrq_maximum_output_bytes r = 0 \<or> mrq_maximum_output_bytes r > 32 * 1024 * 1024
         \<or> mrq_prompt r = [] \<or> length (mrq_prompt r) > 4 * 1024 * 1024
         \<or> \<not> utf8_valid (mrq_prompt r)
         \<or> \<not> valid_contract_identifier (mrq_idempotency_key r) 128
      then Err MRequestInvalid else Ok ())"

record route_candidate =
  rtc_provider_key :: string
  rtc_score_millionths :: u32
  rtc_reasons :: "string list"

definition saturating_sub :: "'l::len word \<Rightarrow> 'l word \<Rightarrow> 'l word" where
  "saturating_sub x y = (if y \<le> x then x - y else 0)"

fun deployment_score :: "deployment_kind \<Rightarrow> u32" where
  "deployment_score LocalDeployment = 1000000"
| "deployment_score OnPremDeployment = 900000"
| "deployment_score VpcDeployment = 750000"
| "deployment_score PublicApi = 500000"

definition candidate_of :: "provider_profile \<Rightarrow> route_candidate" where
  "candidate_of p =
     \<lparr>rtc_provider_key = provider_key p,
      rtc_score_millionths =
        saturating_sub (deployment_score (pvf_deployment p))
          (ucast (min (pvf_cost_microunits_per_token p) 100000 * 2)),
      rtc_reasons =
        [''deployment:'' @ deployment_debug (pvf_deployment p),
         ''unit_cost:'' @ decimal (unat (pvf_cost_microunits_per_token p))]\<rparr>"

text \<open>A higher score first, then the smaller key; the sort is stable.\<close>

definition route_order :: "route_candidate \<Rightarrow> int \<times> string" where
  "route_order c = (- int (unat (rtc_score_millionths c)), rtc_provider_key c)"

definition deterministic_rank ::
  "model_request \<Rightarrow> provider_profile list \<Rightarrow> model_error + route_candidate list" where
  "deterministic_rank r candidates = Ok (sort_key route_order (map candidate_of candidates))"

definition route_ok :: "string set \<Rightarrow> route_candidate \<Rightarrow> bool" where
  "route_ok allowed c \<longleftrightarrow>
     rtc_provider_key c \<in> allowed \<and> bounded_nonempty (rtc_provider_key c) 768
     \<and> rtc_score_millionths c \<le> 1000000
     \<and> rtc_reasons c \<noteq> [] \<and> length (rtc_reasons c) \<le> 32
     \<and> list_all (\<lambda>reason. bounded_nonempty reason 256) (rtc_reasons c)"

fun route_loop :: "string set \<Rightarrow> string set \<Rightarrow> route_candidate list \<Rightarrow> model_error + unit" where
  "route_loop allowed seen [] = Ok ()"
| "route_loop allowed seen (c # cs) =
     (if \<not> route_ok allowed c \<or> rtc_provider_key c \<in> seen then Err RoutePlanInvalid
      else route_loop allowed (insert (rtc_provider_key c) seen) cs)"

definition validate_route_plan ::
  "provider_profile list \<Rightarrow> route_candidate list \<Rightarrow> model_error + unit" where
  "validate_route_plan candidates ranked =
     (if candidates = [] \<or> ranked = [] \<or> length ranked > length candidates then Err RoutePlanInvalid
      else route_loop (set (map provider_key candidates)) {} ranked)"

subsection \<open>Budgets\<close>

record budget_reservation =
  brs_reservation_id :: string
  brs_tenant_id :: string
  brs_task_id :: string
  brs_amount_microunits :: u64

record budget_state =
  bds_limits :: "(string, u64) btree"
  bds_reserved :: "(string, u64) btree"
  bds_reservations :: "(string, budget_reservation) btree"
  bds_finalized :: "string set"

definition budget_default :: budget_state where
  "budget_default = \<lparr>bds_limits = bt_empty, bds_reserved = bt_empty, bds_reservations = bt_empty,
     bds_finalized = {}\<rparr>"

definition set_budget_limit :: "string \<Rightarrow> u64 \<Rightarrow> budget_state \<Rightarrow> budget_state" where
  "set_budget_limit tenant microunits st = st\<lparr>bds_limits := bt_insert tenant microunits (bds_limits st)\<rparr>"

definition reserved_of :: "budget_state \<Rightarrow> string \<Rightarrow> u64" where
  "reserved_of st tenant = (case bt_get (bds_reserved st) tenant of None \<Rightarrow> 0 | Some used \<Rightarrow> used)"

definition budget_reserve ::
  "string \<Rightarrow> string \<Rightarrow> string \<Rightarrow> u64 \<Rightarrow> budget_state \<Rightarrow> (model_error + budget_reservation) \<times> budget_state" where
  "budget_reserve new_id tenant task amount st =
     (if amount = 0 then (Err MBudgetExceeded, st)
      else
        (case bt_get (bds_limits st) tenant of
           None \<Rightarrow> (Err MBudgetExceeded, st)
         | Some limit \<Rightarrow>
             (let used = reserved_of st tenant in
              if saturating_add used amount > limit then (Err MBudgetExceeded, st)
              else
                (let r = \<lparr>brs_reservation_id = new_id, brs_tenant_id = tenant, brs_task_id = task,
                          brs_amount_microunits = amount\<rparr>
                 in (Ok r, st\<lparr>bds_reserved := bt_insert tenant (used + amount) (bds_reserved st),
                              bds_reservations := bt_insert new_id r (bds_reservations st)\<rparr>)))))"

definition budget_finalize ::
  "string \<Rightarrow> u64 \<Rightarrow> budget_state \<Rightarrow> (model_error + unit) \<times> budget_state" where
  "budget_finalize reservation_id actual st =
     (if reservation_id \<in> bds_finalized st then (Err BudgetReservationReplayed, st)
      else
        (case bt_get (bds_reservations st) reservation_id of
           None \<Rightarrow> (Err BudgetReservationNotFound, st)
         | Some r \<Rightarrow>
             (let st = st\<lparr>bds_reservations := bt_remove reservation_id (bds_reservations st),
                          bds_finalized := insert reservation_id (bds_finalized st)\<rparr>
              in if actual > brs_amount_microunits r then (Err MBudgetExceeded, st)
                 else (Ok (), st\<lparr>bds_reserved :=
                         bt_insert (brs_tenant_id r)
                           (reserved_of st (brs_tenant_id r) - brs_amount_microunits r + actual)
                           (bds_reserved st)\<rparr>))))"

subsection \<open>Guards\<close>

definition model_secret_markers :: "string list" where
  "model_secret_markers = [''password='', ''api_key='', ''authorization: bearer'', ''-----begin private key-----'']"

definition has_secret_marker :: "string \<Rightarrow> bool" where
  "has_secret_marker bytes =
     list_ex (\<lambda>marker. str_contains (to_ascii_lowercase (utf8_lossy bytes)) marker) model_secret_markers"

definition prompt_inspect :: "(string \<Rightarrow> string) \<Rightarrow> string \<Rightarrow> nat \<Rightarrow> model_error + string" where
  "prompt_inspect sha256_hex prompt maximum_bytes =
     (if prompt = [] \<or> length prompt > maximum_bytes then Err PromptDenied
      else if has_secret_marker prompt then Err SecretDetected
      else Ok (sha256_hex prompt))"

definition response_inspect :: "(string \<Rightarrow> string) \<Rightarrow> string \<Rightarrow> nat \<Rightarrow> model_error + string" where
  "response_inspect sha256_hex response maximum_bytes =
     (if response = [] \<or> length response > maximum_bytes then Err ResponseTooLarge
      else if has_secret_marker response then Err SecretDetected
      else Ok (sha256_hex response))"

subsection \<open>Evidence and billing\<close>

record model_evidence =
  mev_request_hash :: string
  mev_provider_key :: string
  mev_provider_request_id :: string
  mev_route_reasons :: "string list"
  mev_data_policy_version :: string
  mev_data_policy_decision_digest :: string
  mev_input_tokens :: u64
  mev_output_tokens :: u64
  mev_cost_microunits :: u64
  mev_output_hash :: string
  mev_created_at :: datetime

record provider_usage_line =
  pul_provider_key :: string
  pul_provider_request_id :: string
  pul_input_tokens :: u64
  pul_output_tokens :: u64
  pul_billed_microunits :: u64

record billing_reconciliation =
  brc_schema_version :: string
  brc_matched_requests :: nat
  brc_total_metered_microunits :: u64
  brc_total_billed_microunits :: u64
  brc_statement_digest :: string

record model_env =
  mge_sha256_hex :: "string \<Rightarrow> string"
  mge_jcs_decision :: "data_policy_decision \<Rightarrow> string option"
  mge_jcs_statement :: "provider_usage_line list \<Rightarrow> string option"
  mge_data_policy :: "data_policy_request \<Rightarrow> contract_error + data_policy_decision"
  mge_rank :: "model_request \<Rightarrow> provider_profile list \<Rightarrow> model_error + route_candidate list"

fun statement_index ::
  "provider_usage_line list \<Rightarrow> (string, provider_usage_line) btree
   \<Rightarrow> model_error + (string, provider_usage_line) btree" where
  "statement_index [] by_request = Ok by_request"
| "statement_index (line # ls) by_request =
     (if pul_provider_request_id line = [] \<or> pul_provider_key line = []
         \<or> bt_contains by_request (pul_provider_request_id line)
      then Err BillingMismatch
      else statement_index ls (bt_insert (pul_provider_request_id line) line by_request))"

definition line_matches :: "provider_usage_line \<Rightarrow> model_evidence \<Rightarrow> bool" where
  "line_matches line item \<longleftrightarrow>
     pul_provider_key line = mev_provider_key item
     \<and> pul_input_tokens line = mev_input_tokens item
     \<and> pul_output_tokens line = mev_output_tokens item
     \<and> pul_billed_microunits line = mev_cost_microunits item"

fun reconcile_loop ::
  "(string, provider_usage_line) btree \<Rightarrow> model_evidence list \<Rightarrow> u64 \<Rightarrow> u64 \<Rightarrow> model_error + (u64 \<times> u64)" where
  "reconcile_loop by_request [] metered billed = Ok (metered, billed)"
| "reconcile_loop by_request (item # items) metered billed =
     (case bt_get by_request (mev_provider_request_id item) of
        None \<Rightarrow> Err BillingMismatch
      | Some line \<Rightarrow>
          if \<not> line_matches line item then Err BillingMismatch
          else
            (case checked_add metered (mev_cost_microunits item) of
               None \<Rightarrow> Err BillingMismatch
             | Some metered' \<Rightarrow>
                 (case checked_add billed (pul_billed_microunits line) of
                    None \<Rightarrow> Err BillingMismatch
                  | Some billed' \<Rightarrow> reconcile_loop by_request items metered' billed')))"

definition reconcile_provider_billing ::
  "model_env \<Rightarrow> model_evidence list \<Rightarrow> provider_usage_line list \<Rightarrow> model_error + billing_reconciliation" where
  "reconcile_provider_billing env evidence statement =
     (if evidence = [] \<or> length evidence \<noteq> length statement \<or> length evidence > 1000000
      then Err BillingMismatch
      else
        res_bind (statement_index statement bt_empty) (\<lambda>by_request.
        res_bind (reconcile_loop by_request evidence 0 0) (\<lambda>(metered, billed).
          (case mge_jcs_statement env statement of
             None \<Rightarrow> Err BillingMismatch
           | Some bytes \<Rightarrow>
               Ok \<lparr>brc_schema_version = MODEL_SCHEMA_VERSION, brc_matched_requests = length evidence,
                   brc_total_metered_microunits = metered, brc_total_billed_microunits = billed,
                   brc_statement_digest = mge_sha256_hex env bytes\<rparr>))))"

subsection \<open>Compliant providers\<close>

definition model_data_request :: "model_request \<Rightarrow> provider_profile \<Rightarrow> data_policy_request" where
  "model_data_request r p =
     \<lparr>dpq_schema_version = ''agenttrust.contracts.v1'', dpq_tenant_id = mrq_tenant_id r,
      dpq_classification = mrq_classification r,
      dpq_source_jurisdiction = mrq_source_jurisdiction r,
      dpq_destination_jurisdiction = pvf_jurisdiction p,
      dpq_destination_kind = ''model:'' @ deployment_debug (pvf_deployment p),
      dpq_deployment_profile = mrq_deployment_profile r, dpq_contains_secret = False,
      dpq_cross_domain_approval_id = None\<rparr>"

definition validate_data_policy_decision :: "data_policy_decision \<Rightarrow> model_error + unit" where
  "validate_data_policy_decision d =
     (if \<not> bounded_nonempty (dpd_schema_version d) 128
         \<or> \<not> bounded_nonempty (dpd_policy_version d) 256
         \<or> dpd_reason_codes d = [] \<or> length (dpd_reason_codes d) > 64
         \<or> list_ex (\<lambda>reason. \<not> bounded_nonempty reason 256) (dpd_reason_codes d)
         \<or> length (dpd_required_transformations d) > 64
         \<or> list_ex (\<lambda>t. \<not> bounded_nonempty t 128) (dpd_required_transformations d)
         \<or> dpd_maximum_retention_seconds d = 0 \<or> dpd_maximum_retention_seconds d > 315576000
      then Err DataPolicyDenied else Ok ())"

definition provider_fits :: "model_request \<Rightarrow> provider_profile \<Rightarrow> bool" where
  "provider_fits r p \<longleftrightarrow>
     mrq_tenant_id r \<in> pvf_approved_tenants p
     \<and> pvf_provider_id p \<in> mrq_allowed_provider_ids r
     \<and> mrq_required_capabilities r \<subseteq> pvf_capabilities p
     \<and> length (mrq_prompt r) \<le> pvf_maximum_context_bytes p"

type_synonym decisions = "(string, data_policy_decision) btree"

text \<open>The loop over the active providers: allowed so far, their decisions, and whether a
  transformation was asked for.\<close>

fun candidate_loop ::
  "model_env \<Rightarrow> model_request \<Rightarrow> provider_profile list \<Rightarrow> provider_profile list \<Rightarrow> decisions \<Rightarrow> bool
   \<Rightarrow> model_error + (provider_profile list \<times> decisions \<times> bool)" where
  "candidate_loop env r [] allowed ds transformation_required = Ok (allowed, ds, transformation_required)"
| "candidate_loop env r (p # ps) allowed ds transformation_required =
     (if \<not> provider_fits r p then candidate_loop env r ps allowed ds transformation_required
      else
        (case mge_data_policy env (model_data_request r p) of
           Inl _ \<Rightarrow> Err DataPolicyDenied
         | Inr d \<Rightarrow>
             res_bind (validate_data_policy_decision d) (\<lambda>_.
               if dpd_allowed d
               then (if dpd_required_transformations d = []
                     then candidate_loop env r ps (allowed @ [p]) (bt_insert (provider_key p) d ds)
                            transformation_required
                     else candidate_loop env r ps allowed ds True)
               else candidate_loop env r ps allowed ds transformation_required)))"

definition allowed_candidates ::
  "model_env \<Rightarrow> provider_registry \<Rightarrow> model_request \<Rightarrow> model_error + (provider_profile list \<times> decisions)" where
  "allowed_candidates env reg r =
     res_bind (candidate_loop env r (active_providers reg) [] bt_empty False)
       (\<lambda>(allowed, ds, transformation_required).
          if allowed = []
          then (if transformation_required then Err DataTransformationRequired
                else Err NoCompliantProvider)
          else Ok (allowed, ds))"

subsection \<open>The request\<close>

record provider_request =
  pvr_request_hash :: string
  pvr_prompt :: string
  pvr_maximum_output_bytes :: nat
  pvr_idempotency_key :: string

record provider_response =
  pvs_provider_request_id :: string
  pvs_output :: string
  pvs_input_tokens :: u64
  pvs_output_tokens :: u64
  pvs_finish_reason :: string

record model_stream_chunk =
  msc_schema_version :: string
  msc_sequence :: u64
  msc_bytes :: string
  msc_finish_reason :: "string option"

record provider_stream_response =
  pst_provider_request_id :: string
  pst_chunks :: "model_stream_chunk list"
  pst_input_tokens :: u64
  pst_output_tokens :: u64

text \<open>What a request holds after its checks: the route plan, the decisions and the reservation.\<close>

record flight =
  flt_request :: model_request
  flt_prompt_hash :: string
  flt_ranked :: "route_candidate list"
  flt_decisions :: decisions
  flt_reservation :: budget_reservation

definition provider_request_of :: "flight \<Rightarrow> provider_request" where
  "provider_request_of f =
     \<lparr>pvr_request_hash = flt_prompt_hash f, pvr_prompt = mrq_prompt (flt_request f),
      pvr_maximum_output_bytes = mrq_maximum_output_bytes (flt_request f),
      pvr_idempotency_key = mrq_idempotency_key (flt_request f)\<rparr>"

text \<open>The checks and the reservation both operations start with; \<open>streaming\<close> adds the capability.\<close>

definition admit_request ::
  "model_env \<Rightarrow> provider_registry \<Rightarrow> string \<Rightarrow> bool \<Rightarrow> model_request \<Rightarrow> budget_state
   \<Rightarrow> (model_error + flight) \<times> budget_state" where
  "admit_request env reg new_id streaming r budget =
     (case validate_model_request r of
        Inl e \<Rightarrow> (Err e, budget)
      | Inr _ \<Rightarrow>
      if streaming \<and> CapStream \<notin> mrq_required_capabilities r then (Err CapabilityMissing, budget)
      else
        (case prompt_inspect (mge_sha256_hex env) (mrq_prompt r) (4 * 1024 * 1024) of
           Inl e \<Rightarrow> (Err e, budget)
         | Inr prompt_hash \<Rightarrow>
        (case allowed_candidates env reg r of
           Inl e \<Rightarrow> (Err e, budget)
         | Inr (candidates, ds) \<Rightarrow>
        (case mge_rank env r candidates of
           Inl e \<Rightarrow> (Err e, budget)
         | Inr ranked \<Rightarrow>
        (case validate_route_plan candidates ranked of
           Inl e \<Rightarrow> (Err e, budget)
         | Inr _ \<Rightarrow>
        (case budget_reserve new_id (mrq_tenant_id r) (mrq_task_id r) (mrq_maximum_cost_microunits r) budget of
           (Inl e, budget') \<Rightarrow> (Err e, budget')
         | (Inr reservation, budget') \<Rightarrow>
             (Ok \<lparr>flt_request = r, flt_prompt_hash = prompt_hash, flt_ranked = ranked,
                  flt_decisions = ds, flt_reservation = reservation\<rparr>, budget')))))))"

text \<open>The loop over the plan up to the first provider that can be called; every later turn of the code's
  loop ends in a return, so this is the only place where it goes on.\<close>

fun pick_route ::
  "provider_registry \<Rightarrow> string set \<Rightarrow> route_candidate list \<Rightarrow> model_error
   \<Rightarrow> model_error + (route_candidate \<times> provider_profile)" where
  "pick_route reg adapters [] last_error = Err last_error"
| "pick_route reg adapters (route # routes) last_error =
     (case resolve_provider reg (rtc_provider_key route) of
        Inl e \<Rightarrow> pick_route reg adapters routes e
      | Inr p \<Rightarrow>
          if rtc_provider_key route \<notin> adapters
          then pick_route reg adapters routes ProviderUnavailable
          else Ok (route, p))"

definition saturating_mul :: "u64 \<Rightarrow> u64 \<Rightarrow> u64" where
  "saturating_mul x y = (if unat x * unat y < 2 ^ 64 then x * y else - 1)"

definition evidence_of ::
  "model_env \<Rightarrow> datetime \<Rightarrow> flight \<Rightarrow> route_candidate \<Rightarrow> provider_profile \<Rightarrow> string \<Rightarrow> u64 \<Rightarrow> u64 \<Rightarrow> u64
   \<Rightarrow> string \<Rightarrow> model_error + model_evidence" where
  "evidence_of env now f route p provider_request_id input_tokens output_tokens cost output_hash =
     (case bt_get (flt_decisions f) (provider_key p) of
        None \<Rightarrow> Err DataPolicyDenied
      | Some d \<Rightarrow>
          (case mge_jcs_decision env d of
             None \<Rightarrow> Err DataPolicyDenied
           | Some bytes \<Rightarrow>
               Ok \<lparr>mev_request_hash = flt_prompt_hash f, mev_provider_key = provider_key p,
                   mev_provider_request_id = provider_request_id, mev_route_reasons = rtc_reasons route,
                   mev_data_policy_version = dpd_policy_version d,
                   mev_data_policy_decision_digest = mge_sha256_hex env bytes,
                   mev_input_tokens = input_tokens, mev_output_tokens = output_tokens,
                   mev_cost_microunits = cost, mev_output_hash = output_hash,
                   mev_created_at = now\<rparr>))"

text \<open>\<open>ModelGatewayResult\<close> and \<open>ModelStreamGatewayResult\<close>; both mark the content untrusted.\<close>

record model_gateway_result =
  mgr_output :: string
  mgr_untrusted_content :: bool
  mgr_evidence :: model_evidence

record model_stream_result =
  msr_chunks :: "model_stream_chunk list"
  msr_untrusted_content :: bool
  msr_evidence :: model_evidence

text \<open>What the answer costs the reservation, and what the request returns once that is accounted.\<close>

definition judge_response ::
  "model_env \<Rightarrow> datetime \<Rightarrow> flight \<Rightarrow> route_candidate \<Rightarrow> provider_profile \<Rightarrow> provider_response
   \<Rightarrow> u64 \<times> (model_error + model_gateway_result)" where
  "judge_response env now f route p resp =
     (let tokens = saturating_add (pvs_input_tokens resp) (pvs_output_tokens resp);
          cost = saturating_mul tokens (pvf_cost_microunits_per_token p);
          r = flt_request f
      in if tokens = 0 \<or> \<not> bounded_nonempty (pvs_provider_request_id resp) 512
            \<or> \<not> bounded_nonempty (pvs_finish_reason resp) 64 \<or> \<not> utf8_valid (pvs_output resp)
         then (brs_amount_microunits (flt_reservation f), Err ProviderProtocolInvalid)
         else if length (pvs_output resp) > mrq_maximum_output_bytes r
                 \<or> length (pvs_output resp) > pvf_maximum_output_bytes p
         then (cost, Err ResponseTooLarge)
         else
           (cost,
            res_bind (response_inspect (mge_sha256_hex env) (pvs_output resp)
                        (min (mrq_maximum_output_bytes r) (pvf_maximum_output_bytes p)))
              (\<lambda>output_hash.
                 res_bind (evidence_of env now f route p (pvs_provider_request_id resp)
                             (pvs_input_tokens resp) (pvs_output_tokens resp) cost output_hash)
                   (\<lambda>ev. Ok \<lparr>mgr_output = pvs_output resp, mgr_untrusted_content = True,
                            mgr_evidence = ev\<rparr>))))"

definition chunk_ok :: "model_stream_chunk \<Rightarrow> u64 \<Rightarrow> bool \<Rightarrow> bool" where
  "chunk_ok c expected_sequence final_chunk \<longleftrightarrow>
     msc_schema_version c = MODEL_SCHEMA_VERSION \<and> msc_sequence c = expected_sequence
     \<and> msc_bytes c \<noteq> [] \<and> length (msc_bytes c) \<le> 1048576 \<and> utf8_valid (msc_bytes c)
     \<and> (msc_finish_reason c \<noteq> None \<longleftrightarrow> final_chunk)
     \<and> (case msc_finish_reason c of None \<Rightarrow> True | Some reason \<Rightarrow> bounded_nonempty reason 64)"

fun chunk_loop :: "nat \<Rightarrow> model_stream_chunk list \<Rightarrow> u64 \<Rightarrow> string \<Rightarrow> model_error + string" where
  "chunk_loop limit [] expected_sequence output = Ok output"
| "chunk_loop limit (c # cs) expected_sequence output =
     (if \<not> chunk_ok c expected_sequence (cs = []) then Err StreamInvalid
      else if length (output @ msc_bytes c) > limit then Err ResponseTooLarge
      else chunk_loop limit cs (expected_sequence + 1) (output @ msc_bytes c))"

definition judge_stream ::
  "model_env \<Rightarrow> datetime \<Rightarrow> flight \<Rightarrow> route_candidate \<Rightarrow> provider_profile \<Rightarrow> provider_stream_response
   \<Rightarrow> u64 \<times> (model_error + model_stream_result)" where
  "judge_stream env now f route p resp =
     (let tokens = saturating_add (pst_input_tokens resp) (pst_output_tokens resp);
          cost = saturating_mul tokens (pvf_cost_microunits_per_token p);
          ambiguous_cost = (if tokens = 0 then brs_amount_microunits (flt_reservation f) else cost);
          limit = min (mrq_maximum_output_bytes (flt_request f)) (pvf_maximum_output_bytes p)
      in if pst_chunks resp = [] \<or> length (pst_chunks resp) > 10000
         then (ambiguous_cost, Err StreamInvalid)
         else
           (case chunk_loop limit (pst_chunks resp) 1 [] of
              Inl e \<Rightarrow> (ambiguous_cost, Err e)
            | Inr output \<Rightarrow>
                if \<not> bounded_nonempty (pst_provider_request_id resp) 512 \<or> tokens = 0
                then (ambiguous_cost, Err ProviderProtocolInvalid)
                else
                  (cost,
                   res_bind (response_inspect (mge_sha256_hex env) output limit) (\<lambda>output_hash.
                     res_bind (evidence_of env now f route p (pst_provider_request_id resp)
                                 (pst_input_tokens resp) (pst_output_tokens resp) cost output_hash)
                       (\<lambda>ev. Ok \<lparr>msr_chunks = pst_chunks resp, msr_untrusted_content = True,
                                msr_evidence = ev\<rparr>)))))"

text \<open>An error of \<open>finalize\<close> is returned before the result; without a provider it is dropped. An answer
  \<open>None\<close> is a timeout and \<open>Some (Err _)\<close> a transport error.\<close>

definition settle ::
  "flight \<Rightarrow> (model_error + 'r) option \<Rightarrow> ('r \<Rightarrow> u64 \<times> (model_error + 'a)) \<Rightarrow> budget_state
   \<Rightarrow> (model_error + 'a) \<times> budget_state" where
  "settle f answer judge budget =
     (let (cost, result) =
            (case answer of
               Some (Inr resp) \<Rightarrow> judge resp
             | _ \<Rightarrow> (brs_amount_microunits (flt_reservation f), Err ProviderOutcomeUnknown))
      in case budget_finalize (brs_reservation_id (flt_reservation f)) cost budget of
           (Inl e, budget') \<Rightarrow> (Err e, budget')
         | (Inr _, budget') \<Rightarrow> (result, budget'))"

definition give_up :: "flight \<Rightarrow> model_error \<Rightarrow> budget_state \<Rightarrow> (model_error + 'a) \<times> budget_state" where
  "give_up f e budget =
     (Err e, snd (budget_finalize (brs_reservation_id (flt_reservation f)) 0 budget))"

text \<open>
  The whole request when nothing else touches the budget meanwhile. The registry may have changed
  between the selection and the route loop; \<open>calls\<close> collects the provider calls.
\<close>

definition run_request ::
  "model_env \<Rightarrow> provider_registry \<Rightarrow> provider_registry \<Rightarrow> string set \<Rightarrow> string \<Rightarrow> bool
   \<Rightarrow> (string \<Rightarrow> provider_request \<Rightarrow> (model_error + 'r) option)
   \<Rightarrow> (flight \<Rightarrow> route_candidate \<Rightarrow> provider_profile \<Rightarrow> 'r \<Rightarrow> u64 \<times> (model_error + 'a))
   \<Rightarrow> model_request \<Rightarrow> budget_state
   \<Rightarrow> (model_error + 'a) \<times> budget_state \<times> (string \<times> provider_request) list" where
  "run_request env reg reg' adapters new_id streaming ask judge r budget =
     (case admit_request env reg new_id streaming r budget of
        (Inl e, budget') \<Rightarrow> (Err e, budget', [])
      | (Inr f, budget') \<Rightarrow>
          (case pick_route reg' adapters (flt_ranked f) ProviderUnavailable of
             Inl e \<Rightarrow> (let (result, budget'') = give_up f e budget' in (result, budget'', []))
           | Inr (route, p) \<Rightarrow>
               (let (result, budget'') =
                      settle f (ask (rtc_provider_key route) (provider_request_of f)) (judge f route p) budget'
                in (result, budget'', [(rtc_provider_key route, provider_request_of f)]))))"

definition model_generate ::
  "model_env \<Rightarrow> provider_registry \<Rightarrow> provider_registry \<Rightarrow> string set \<Rightarrow> string \<Rightarrow> datetime
   \<Rightarrow> (string \<Rightarrow> provider_request \<Rightarrow> (model_error + provider_response) option)
   \<Rightarrow> model_request \<Rightarrow> budget_state
   \<Rightarrow> (model_error + model_gateway_result) \<times> budget_state \<times> (string \<times> provider_request) list" where
  "model_generate env reg reg' adapters new_id now ask r budget =
     run_request env reg reg' adapters new_id False ask (judge_response env now) r budget"

definition model_stream ::
  "model_env \<Rightarrow> provider_registry \<Rightarrow> provider_registry \<Rightarrow> string set \<Rightarrow> string \<Rightarrow> datetime
   \<Rightarrow> (string \<Rightarrow> provider_request \<Rightarrow> (model_error + provider_stream_response) option)
   \<Rightarrow> model_request \<Rightarrow> budget_state
   \<Rightarrow> (model_error + model_stream_result) \<times> budget_state \<times> (string \<times> provider_request) list" where
  "model_stream env reg reg' adapters new_id now ask r budget =
     run_request env reg reg' adapters new_id True ask (judge_stream env now) r budget"

subsection \<open>Adapters\<close>

text \<open>\<open>adapter_stream\<close> is the trait's default: one chunk made of the whole response.\<close>

definition adapter_stream :: "(model_error + provider_response) \<Rightarrow> model_error + provider_stream_response" where
  "adapter_stream answer =
     res_bind answer (\<lambda>resp.
       Ok \<lparr>pst_provider_request_id = pvs_provider_request_id resp,
           pst_chunks = [\<lparr>msc_schema_version = MODEL_SCHEMA_VERSION, msc_sequence = 1,
                          msc_bytes = pvs_output resp,
                          msc_finish_reason = Some (pvs_finish_reason resp)\<rparr>],
           pst_input_tokens = pvs_input_tokens resp, pst_output_tokens = pvs_output_tokens resp\<rparr>)"

record wire_env =
  wre_pointer :: "json \<Rightarrow> string \<Rightarrow> json option"
  wre_as_u64 :: "json \<Rightarrow> u64 option"
  wre_number :: "nat \<Rightarrow> json"

fun json_as_str :: "json \<Rightarrow> string option" where
  "json_as_str (JString s) = Some s"
| "json_as_str _ = None"

definition string_pointer :: "wire_env \<Rightarrow> json \<Rightarrow> string \<Rightarrow> model_error + string" where
  "string_pointer w value pointer =
     (case Option.bind (wre_pointer w value pointer) json_as_str of
        None \<Rightarrow> Err ProviderProtocolInvalid | Some s \<Rightarrow> Ok s)"

definition string_field :: "wire_env \<Rightarrow> json \<Rightarrow> string \<Rightarrow> model_error + string" where
  "string_field w value field = string_pointer w value (''/'' @ field)"

definition u64_field :: "wire_env \<Rightarrow> json \<Rightarrow> string \<Rightarrow> model_error + u64" where
  "u64_field w value pointer =
     (case Option.bind (wre_pointer w value pointer) (wre_as_u64 w) of
        None \<Rightarrow> Err ProviderProtocolInvalid | Some n \<Rightarrow> Ok n)"

definition openai_adapter_new :: "string \<Rightarrow> string \<Rightarrow> string \<Rightarrow> model_error + (string \<times> string \<times> string)" where
  "openai_adapter_new key endpoint_profile model =
     (if key = [] \<or> endpoint_profile = [] \<or> model = [] then Err MConfigurationInvalid
      else Ok (key, endpoint_profile, model))"

definition openai_body :: "string \<Rightarrow> provider_request \<Rightarrow> json" where
  "openai_body model r =
     JObject
       [(''model'', JString model),
        (''messages'', JArray [JObject [(''role'', JString ''user''),
                                     (''content'', JString (utf8_lossy (pvr_prompt r)))]]),
        (''stream'', JBool False),
        (''metadata'', JObject [(''request_hash'', JString (pvr_request_hash r)),
                              (''idempotency_key'', JString (pvr_idempotency_key r))])]"

definition openai_generate ::
  "wire_env \<Rightarrow> (string \<Rightarrow> json \<Rightarrow> nat \<Rightarrow> model_error + json) \<Rightarrow> string \<Rightarrow> string \<Rightarrow> provider_request
   \<Rightarrow> model_error + provider_response" where
  "openai_generate w send endpoint_profile model r =
     res_bind (send endpoint_profile (openai_body model r) (pvr_maximum_output_bytes r)) (\<lambda>value.
     res_bind (string_pointer w value ''/choices/0/message/content'') (\<lambda>output.
     res_bind (string_field w value ''id'') (\<lambda>request_id.
     res_bind (u64_field w value ''/usage/prompt_tokens'') (\<lambda>input_tokens.
     res_bind (u64_field w value ''/usage/completion_tokens'') (\<lambda>output_tokens.
       Ok \<lparr>pvs_provider_request_id = request_id, pvs_output = output,
           pvs_input_tokens = input_tokens, pvs_output_tokens = output_tokens,
           pvs_finish_reason =
             (case Option.bind (wre_pointer w value ''/choices/0/finish_reason'') json_as_str of
                None \<Rightarrow> ''unknown'' | Some reason \<Rightarrow> reason)\<rparr>)))))"

definition local_adapter_new :: "string \<Rightarrow> string \<Rightarrow> string \<Rightarrow> model_error + (string \<times> string \<times> string)" where
  "local_adapter_new key endpoint_profile model_digest =
     (if key = [] \<or> endpoint_profile = []
         \<or> (case strip_prefix ''sha256:'' model_digest of None \<Rightarrow> True | Some d \<Rightarrow> length d \<noteq> 64)
      then Err MConfigurationInvalid
      else Ok (key, endpoint_profile, model_digest))"

definition local_body :: "wire_env \<Rightarrow> string \<Rightarrow> provider_request \<Rightarrow> json" where
  "local_body w model_digest r =
     JObject
       [(''schema_version'', JString MODEL_SCHEMA_VERSION), (''model_digest'', JString model_digest),
        (''prompt_utf8'', JString (utf8_lossy (pvr_prompt r))),
        (''request_hash'', JString (pvr_request_hash r)),
        (''idempotency_key'', JString (pvr_idempotency_key r)),
        (''maximum_output_bytes'', wre_number w (pvr_maximum_output_bytes r))]"

definition local_generate ::
  "wire_env \<Rightarrow> (string \<Rightarrow> json \<Rightarrow> nat \<Rightarrow> model_error + json) \<Rightarrow> string \<Rightarrow> string \<Rightarrow> provider_request
   \<Rightarrow> model_error + provider_response" where
  "local_generate w send endpoint_profile model_digest r =
     res_bind (send endpoint_profile (local_body w model_digest r) (pvr_maximum_output_bytes r)) (\<lambda>value.
     res_bind (string_pointer w value ''/output'') (\<lambda>output.
     res_bind (string_field w value ''request_id'') (\<lambda>request_id.
     res_bind (u64_field w value ''/input_tokens'') (\<lambda>input_tokens.
     res_bind (u64_field w value ''/output_tokens'') (\<lambda>output_tokens.
     res_bind (string_pointer w value ''/finish_reason'') (\<lambda>finish_reason.
       Ok \<lparr>pvs_provider_request_id = request_id, pvs_output = output,
           pvs_input_tokens = input_tokens, pvs_output_tokens = output_tokens,
           pvs_finish_reason = finish_reason\<rparr>))))))"

end
