(* ===== verification/Model_Gateway_Safety.thy ===== *)
theory Model_Gateway_Safety
  imports Model_Gateway Data_Governance_Safety
begin

text \<open>
  What the model gateway guarantees: budgets are conserved and never wrap, a request makes at most one
  provider call and closes its reservation, only a compliant provider is called and confidential data
  never reaches a public API, the planner's routes pass the plan check, a stream is in order and within
  its limit, and a reconciled statement matches the evidence.
\<close>

subsection \<open>Budgets\<close>

definition open_total :: "budget_state \<Rightarrow> string \<Rightarrow> nat" where
  "open_total st tenant =
     bt_total (\<lambda>_ r. if brs_tenant_id r = tenant then unat (brs_amount_microunits r) else 0)
       (bds_reservations st)"

definition spent_total :: "(string \<times> nat) list \<Rightarrow> string \<Rightarrow> nat" where
  "spent_total spent tenant = sum_list (map snd (filter (\<lambda>(t, _). t = tenant) spent))"

lemma spent_total_append [simp]:
  "spent_total (spent @ [(t, n)]) tenant = spent_total spent tenant + (if t = tenant then n else 0)"
  by (simp add: spent_total_def)

text \<open>
  The budget with what has been accounted, oldest first (the actual cost, or the whole reservation when
  the cost overran it), and the tenants that were ever given the limit \<open>u64::MAX\<close>: for those alone the
  comparison of a reservation with the limit cannot fail and the sum may wrap around. A new identifier
  is unused.
\<close>

definition accounted :: "budget_reservation \<Rightarrow> u64 \<Rightarrow> nat" where
  "accounted r actual = (if actual > brs_amount_microunits r then unat (brs_amount_microunits r) else unat actual)"

type_synonym budget_run = "budget_state \<times> (string \<times> nat) list \<times> string set"

definition budget_start :: budget_run where
  "budget_start = (budget_default, [], {})"

inductive budget_step :: "budget_run \<Rightarrow> budget_run \<Rightarrow> bool" where
  bd_limit: "budget_step (st, spent, unlimited) (set_budget_limit tenant microunits st, spent,
     if microunits = - 1 then insert tenant unlimited else unlimited)"
| bd_reserve: "budget_reserve new_id tenant task amount st = (res, st') \<Longrightarrow>
     bt_get (bds_reservations st) new_id = None \<Longrightarrow> new_id \<notin> bds_finalized st \<Longrightarrow>
     budget_step (st, spent, unlimited) (st', spent, unlimited)"
| bd_refused: "budget_finalize rid actual st = (res, st) \<Longrightarrow>
     budget_step (st, spent, unlimited) (st, spent, unlimited)"
| bd_finalize: "bt_get (bds_reservations st) rid = Some r \<Longrightarrow>
     budget_finalize rid actual st = (res, st') \<Longrightarrow> rid \<notin> bds_finalized st \<Longrightarrow>
     budget_step (st, spent, unlimited) (st', spent @ [(brs_tenant_id r, accounted r actual)], unlimited)"

fun budget_kept :: "budget_run \<Rightarrow> bool" where
  "budget_kept (st, spent, unlimited) \<longleftrightarrow>
     bt_ok (bds_reservations st)
     \<and> (\<forall>k r. bt_get (bds_reservations st) k = Some r \<longrightarrow>
          brs_reservation_id r = k \<and> k \<notin> bds_finalized st)
     \<and> (\<forall>t l. bt_get (bds_limits st) t = Some l \<longrightarrow> t \<notin> unlimited \<longrightarrow> unat l < 2 ^ 64 - 1)
     \<and> (\<forall>t. reserved_of st t = of_nat (open_total st t + spent_total spent t))
     \<and> (\<forall>t. t \<notin> unlimited \<longrightarrow> unat (reserved_of st t) = open_total st t + spent_total spent t)"

lemma reserved_of_insert [simp]:
  "reserved_of (st\<lparr>bds_reserved := bt_insert t n (bds_reserved st)\<rparr>) t' = (if t' = t then n else reserved_of st t')"
  by (simp add: reserved_of_def bt.get_put)

lemma budget_reserve_Ok:
  assumes "budget_reserve new_id tenant task amount st = (Ok r, st')"
  obtains limit where "bt_get (bds_limits st) tenant = Some limit" "amount \<noteq> 0"
    "saturating_add (reserved_of st tenant) amount \<le> limit"
    "r = \<lparr>brs_reservation_id = new_id, brs_tenant_id = tenant, brs_task_id = task,
          brs_amount_microunits = amount\<rparr>"
    "st' = st\<lparr>bds_reserved := bt_insert tenant (reserved_of st tenant + amount) (bds_reserved st),
              bds_reservations := bt_insert new_id r (bds_reservations st)\<rparr>"
  using assms by (auto simp: budget_reserve_def Let_def split: if_splits option.splits)

lemma budget_reserve_Err: "budget_reserve new_id tenant task amount st = (Err e, st') \<Longrightarrow> st' = st"
  by (auto simp: budget_reserve_def Let_def split: if_splits option.splits)

lemma saturating_add_no_wrap:
  fixes x y l :: u64
  assumes "saturating_add x y \<le> l" and "unat l < 2 ^ 64 - 1"
  shows "unat (x + y) = unat x + unat y \<and> unat x + unat y \<le> unat l"
proof -
  have "min (unat x + unat y) (2 ^ 64 - 1) \<le> unat l"
    using assms(1) by (simp add: word_le_nat_alt unat_saturating_add)
  then have le: "unat x + unat y \<le> unat l"
    using assms(2) by linarith
  then have "unat x + unat y < 2 ^ LENGTH(64)"
    using assms(2) by simp
  then show ?thesis using le unat_add_no_wrap [of x y] by simp
qed

lemma open_total_insert:
  assumes "bt_get (bds_reservations st) k = None"
  shows "open_total (st\<lparr>bds_reserved := x, bds_reservations := bt_insert k r (bds_reservations st)\<rparr>) t
    = (if brs_tenant_id r = t then unat (brs_amount_microunits r) else 0) + open_total st t"
  using assms by (simp add: open_total_def bt_total_insert_fresh)

lemma bt_total_remove:
  "bt_ok m \<Longrightarrow> bt_get m k = Some v \<Longrightarrow> bt_total w (bt_remove k m) + w k v = bt_total w m"
proof -
  assume ok: "bt_ok m" and get: "bt_get m k = Some v"
  have "bt_get (bt_remove k m) k = None" by (simp add: bt.get_del)
  moreover have "bt_insert k v (bt_remove k m) = m"
    using ok get by (intro bt_ext) (auto simp: bt.get_put bt.get_del)
  ultimately show "bt_total w (bt_remove k m) + w k v = bt_total w m"
    using bt_total_insert_fresh [of "bt_remove k m" k w v] by simp
qed

lemma bounded_refund:
  fixes used amount actual :: u64
  assumes "amount \<le> used" and "actual \<le> amount"
  shows "unat (used - amount + actual) = unat used - unat amount + unat actual"
proof -
  have less: "unat amount \<le> unat used" "unat actual \<le> unat amount"
    using assms by (simp_all add: word_le_nat_alt)
  have sub: "unat (used - amount) = unat used - unat amount"
    using assms(1) by (simp add: unat_sub)
  have "unat (used - amount) + unat actual < 2 ^ LENGTH(64)"
    using less sub unat_bound [of used] by linarith
  then show ?thesis using unat_add_no_wrap [of "used - amount" actual] sub by simp
qed

lemma budget_finalize_cases:
  assumes "bt_get (bds_reservations st) rid = Some r" and "rid \<notin> bds_finalized st"
  shows "budget_finalize rid actual st =
    (if actual > brs_amount_microunits r
     then (Err MBudgetExceeded,
           st\<lparr>bds_reservations := bt_remove rid (bds_reservations st),
              bds_finalized := insert rid (bds_finalized st)\<rparr>)
     else (Ok (),
           st\<lparr>bds_reserved := bt_insert (brs_tenant_id r)
                (reserved_of st (brs_tenant_id r) - brs_amount_microunits r + actual) (bds_reserved st),
              bds_reservations := bt_remove rid (bds_reservations st),
              bds_finalized := insert rid (bds_finalized st)\<rparr>))"
  using assms by (simp add: budget_finalize_def Let_def reserved_of_def)

lemma budget_finalize_unknown:
  "bt_get (bds_reservations st) rid = None \<or> rid \<in> bds_finalized st \<Longrightarrow> snd (budget_finalize rid actual st) = st"
  by (auto simp: budget_finalize_def)

lemma unat_saturating_mul: "unat (saturating_mul x y) = min (2 ^ 64 - 1) (unat x * unat y)"
proof (cases "unat x * unat y < 2 ^ 64")
  case True
  then have "unat (x * y) = unat x * unat y"
    by (simp add: unat_word_ariths)
  with True show ?thesis by (simp add: saturating_mul_def)
next
  case False
  then show ?thesis by (simp add: saturating_mul_def unat_max_word)
qed

lemma below_max: "l \<noteq> - 1 \<Longrightarrow> unat l < 2 ^ 64 - 1" for l :: u64
proof -
  assume "l \<noteq> - 1"
  then have "unat l \<noteq> unat (- 1 :: u64)" by (metis unsigned_word_eqI)
  moreover have "unat (- 1 :: u64) = 2 ^ 64 - 1" by (simp add: unat_max_word)
  ultimately show ?thesis using unat_bound [of l] by simp
qed

lemma budget_step_kept: "budget_step m m' \<Longrightarrow> budget_kept m \<Longrightarrow> budget_kept m'"
proof (induction rule: budget_step.induct)
  case (bd_limit st spent unlimited tenant microunits)
  then show ?case
    using below_max [of microunits]
    by (auto simp: set_budget_limit_def bt.get_put reserved_of_def open_total_def split: if_splits)
next
  case (bd_reserve new_id tenant task amount st res st' spent unlimited)
  show ?case
  proof (cases res)
    case (Inl e)
    then show ?thesis
      using bd_reserve.prems bd_reserve.hyps(1) budget_reserve_Err [of new_id tenant task amount st e st']
      by (simp del: budget_kept.simps)
  next
    case (Inr r)
    then obtain limit where limit: "bt_get (bds_limits st) tenant = Some limit"
      and fits: "saturating_add (reserved_of st tenant) amount \<le> limit"
      and r: "r = \<lparr>brs_reservation_id = new_id, brs_tenant_id = tenant, brs_task_id = task,
          brs_amount_microunits = amount\<rparr>"
      and st': "st' = st\<lparr>bds_reserved := bt_insert tenant (reserved_of st tenant + amount) (bds_reserved st),
              bds_reservations := bt_insert new_id r (bds_reservations st)\<rparr>"
      using bd_reserve.hyps(1) by (auto elim: budget_reserve_Ok)
    have reserved: "reserved_of st' t = (if t = tenant then reserved_of st tenant + amount else reserved_of st t)" for t
      by (simp add: st' reserved_of_def bt.get_put)
    have total: "open_total st' t = (if t = tenant then unat amount else 0) + open_total st t" for t
      using bd_reserve.hyps(2) by (simp add: st' open_total_insert r)
    have "unat (reserved_of st tenant + amount) = unat (reserved_of st tenant) + unat amount"
      if "tenant \<notin> unlimited"
    proof -
      have "unat limit < 2 ^ 64 - 1"
        using bd_reserve.prems limit that by simp
      then show ?thesis using saturating_add_no_wrap [OF fits] by blast
    qed
    moreover have before: "t \<notin> unlimited \<longrightarrow> unat (reserved_of st t) = open_total st t + spent_total spent t" for t
      using bd_reserve.prems unfolding budget_kept.simps by blast
    ultimately have exact: "\<forall>t. t \<notin> unlimited \<longrightarrow> unat (reserved_of st' t) = open_total st' t + spent_total spent t"
      by (simp add: reserved total)
    have "\<forall>t. reserved_of st' t = of_nat (open_total st' t + spent_total spent t)"
      using bd_reserve.prems by (simp add: reserved total)
    with exact show ?thesis
      using bd_reserve.prems bd_reserve.hyps(2,3)
      by (auto simp: st' bt.get_put r)
  qed
next
  case (bd_refused rid actual st res spent unlimited)
  then show ?case by (simp del: budget_kept.simps)
next
  case (bd_finalize st rid r actual res st' spent unlimited)
  let ?t = "brs_tenant_id r" and ?w = "\<lambda>t. (\<lambda>_ r. if brs_tenant_id r = t then unat (brs_amount_microunits r) else 0)"
  have ok: "bt_ok (bds_reservations st)" using bd_finalize.prems by simp
  have open': "open_total st t = open_total st' t + ?w t rid r" for t
    using bt_total_remove [OF ok bd_finalize.hyps(1), of "?w t"] bd_finalize.hyps
    by (auto simp: open_total_def budget_finalize_cases split: if_splits)
  have words: "reserved_of st t = of_nat (open_total st t + spent_total spent t)" for t
    using bd_finalize.prems by simp
  have reserved: "reserved_of st' t =
      (if t = ?t \<and> \<not> actual > brs_amount_microunits r
       then reserved_of st ?t - brs_amount_microunits r + actual else reserved_of st t)" for t
    using bd_finalize.hyps by (auto simp: budget_finalize_cases reserved_of_def bt.get_put split: if_splits)
  have word: "reserved_of st' t
      = of_nat (open_total st' t + spent_total (spent @ [(?t, accounted r actual)]) t)" for t
    using open' [of t] words [of t] by (auto simp: reserved accounted_def)
  have "unat (reserved_of st' t)
      = open_total st' t + spent_total (spent @ [(?t, accounted r actual)]) t" if "t \<notin> unlimited" for t
  proof -
    have total: "unat (reserved_of st t) = open_total st t + spent_total spent t"
      using bd_finalize.prems that unfolding budget_kept.simps by blast
    show ?thesis
    proof (cases "t = ?t \<and> \<not> actual > brs_amount_microunits r")
      case True
      then have "unat (brs_amount_microunits r) \<le> unat (reserved_of st ?t)"
        using open' [of ?t] total by simp
      then have "unat (reserved_of st ?t - brs_amount_microunits r + actual)
          = unat (reserved_of st ?t) - unat (brs_amount_microunits r) + unat actual"
        using True by (intro bounded_refund) (simp_all add: word_le_nat_alt not_less)
      then show ?thesis
        using True open' [of t] total by (simp add: reserved accounted_def)
    next
      case False
      then show ?thesis
        using open' [of t] total by (auto simp: reserved accounted_def)
    qed
  qed
  with word show ?case
    using bd_finalize
    by (auto simp: budget_finalize_cases bt.get_del split: if_splits)
qed

interpretation model_budget: invariant_system budget_step budget_kept "\<lambda>m. m = budget_start"
proof
  show "budget_kept m" if "m = budget_start" for m
    using that by (simp add: budget_start_def budget_default_def reserved_of_def open_total_def
        spent_total_def)
qed (rule budget_step_kept)

text \<open>
  C10: in every run of the budget manager, whatever limits are set, what is reserved for a tenant is the
  sum of its open reservations and of what has been accounted, as a 64-bit word. For a tenant that was
  never given the limit \<open>u64::MAX\<close> the sum does not wrap around, and a new reservation is granted only
  while that sum and the new amount stay within the tenant's limit. With that limit it may wrap
  (\<open>unlimited_budget_wraps\<close>).
\<close>

theorem budget_is_conserved:
  assumes "reach (\<lambda>m. m = budget_start) budget_step (st, spent, unlimited)"
  shows "reserved_of st t = of_nat (open_total st t + spent_total spent t)
    \<and> (t \<notin> unlimited \<longrightarrow>
         unat (reserved_of st t) = open_total st t + spent_total spent t
         \<and> (\<forall>new_id task amount r st'. budget_reserve new_id t task amount st = (Ok r, st') \<longrightarrow>
              (\<exists>limit. bt_get (bds_limits st) t = Some limit
                 \<and> open_total st t + spent_total spent t + unat amount \<le> unat limit)))"
proof -
  have kept: "budget_kept (st, spent, unlimited)"
    by (rule model_budget.reach_inv [OF assms])
  have "\<exists>limit. bt_get (bds_limits st) t = Some limit
      \<and> open_total st t + spent_total spent t + unat amount \<le> unat limit"
    if reserve: "budget_reserve new_id t task amount st = (Ok r, st')" and "t \<notin> unlimited"
    for new_id task amount r st'
  proof -
    obtain limit where limit: "bt_get (bds_limits st) t = Some limit"
      and fits: "saturating_add (reserved_of st t) amount \<le> limit"
      using reserve by (rule budget_reserve_Ok)
    have "unat limit < 2 ^ 64 - 1" "unat (reserved_of st t) = open_total st t + spent_total spent t"
      using kept limit that(2) by auto
    then show ?thesis
      using saturating_add_no_wrap [OF fits] limit by auto
  qed
  moreover have "reserved_of st t = of_nat (open_total st t + spent_total spent t)"
    "t \<notin> unlimited \<Longrightarrow> unat (reserved_of st t) = open_total st t + spent_total spent t"
    using kept unfolding budget_kept.simps by blast+
  ultimately show ?thesis by blast
qed

lemma unlimited_budget_wraps:
  "let st = set_budget_limit ''t'' (- 1) budget_default;
       st = snd (budget_reserve ''r1'' ''t'' ''k'' (- 1) st);
       st = snd (budget_reserve ''r2'' ''t'' ''k'' 2 st)
   in reserved_of st ''t'' = 1 \<and> bt_len (bds_reservations st) = 2"
  by (simp add: budget_reserve_def set_budget_limit_def budget_default_def bt_get_def bt_empty_def
      bt_len_def reserved_of_def saturating_add_def Let_def)

definition sample_budget :: budget_state where
  "sample_budget = snd (budget_reserve ''r1'' ''t'' ''k'' 40 (set_budget_limit ''t'' 100 budget_default))"

lemma sample_budget_value:
  "sample_budget =
     \<lparr>bds_limits = [(''t'', 100)], bds_reserved = [(''t'', 40)],
      bds_reservations = [(''r1'', \<lparr>brs_reservation_id = ''r1'', brs_tenant_id = ''t'',
         brs_task_id = ''k'', brs_amount_microunits = 40\<rparr>)], bds_finalized = {}\<rparr>"
  by (simp add: sample_budget_def budget_reserve_def set_budget_limit_def budget_default_def bt_get_def
      bt_empty_def reserved_of_def saturating_add_def Let_def)

lemma sample_budget_reach: "reach (\<lambda>m. m = budget_start) budget_step (sample_budget, [], {})"
proof -
  have start: "reach (\<lambda>m. m = budget_start) budget_step (budget_default, [], {})"
    by (rule reach_init) (rule budget_start_def [symmetric])
  have limit: "budget_step (budget_default, [], {}) (set_budget_limit ''t'' 100 budget_default, [], {})"
    using bd_limit [of budget_default "[]" "{}" "''t''" 100] by simp
  have reserve: "budget_step (set_budget_limit ''t'' 100 budget_default, [], {}) (sample_budget, [], {})"
    unfolding sample_budget_def
    by (rule bd_reserve [of "''r1''" "''t''" "''k''" 40 _
          "fst (budget_reserve ''r1'' ''t'' ''k'' 40 (set_budget_limit ''t'' 100 budget_default))"])
      (simp_all add: set_budget_limit_def budget_default_def)
  show ?thesis
    by (rule reach_step [where step = budget_step,
          OF reach_step [where step = budget_step, OF start limit] reserve])
qed

theorem budget_is_conserved_witness:
  "unat (reserved_of sample_budget ''t'') = 40 \<and> open_total sample_budget ''t'' = 40
   \<and> unat (reserved_of sample_budget ''t'') = open_total sample_budget ''t'' + spent_total [] ''t''"
  using budget_is_conserved [OF sample_budget_reach, of "''t''"]
  by (simp add: sample_budget_value reserved_of_def bt_get_def spent_total_def)

subsection \<open>The registry\<close>

text \<open>Providers are stored under their key and only valid ones get in.\<close>

definition registry_kept :: "provider_registry \<Rightarrow> bool" where
  "registry_kept reg \<longleftrightarrow>
     bt_ok reg \<and> (\<forall>k p. bt_get reg k = Some p \<longrightarrow> provider_key p = k \<and> validate_profile p = Ok ())"

inductive registry_step :: "provider_registry \<Rightarrow> provider_registry \<Rightarrow> bool" where
  rgs_approve: "registry_step reg (snd (approve_provider p reg))"
| rgs_revoke: "registry_step reg (snd (revoke_provider k reg))"

lemma validate_profile_revoked [simp]: "validate_profile (p\<lparr>pvf_revoked := b\<rparr>) = validate_profile p"
  by (simp add: validate_profile_def)

lemma provider_key_revoked [simp]: "provider_key (p\<lparr>pvf_revoked := b\<rparr>) = provider_key p"
  by (simp add: provider_key_def)

lemma registry_step_kept: "registry_step reg reg' \<Longrightarrow> registry_kept reg \<Longrightarrow> registry_kept reg'"
  by (induction rule: registry_step.induct)
    (auto simp: registry_kept_def approve_provider_def revoke_provider_def bt.get_put
      split: sum.splits option.splits if_splits)

interpretation provider_reg: invariant_system registry_step registry_kept "\<lambda>r. r = bt_empty"
proof
  show "registry_kept r" if "r = bt_empty" for r
    using that by (simp add: registry_kept_def)
qed (rule registry_step_kept)

text \<open>A profile that is stored stays the same, except that it may become revoked.\<close>

lemma registry_step_same:
  "registry_step reg reg' \<Longrightarrow> bt_get reg k = Some p \<Longrightarrow>
     \<exists>b. bt_get reg' k = Some (p\<lparr>pvf_revoked := b\<rparr>) \<and> (pvf_revoked p \<longrightarrow> b)"
proof (induction rule: registry_step.induct)
  case (rgs_approve reg q)
  then have "\<exists>b. p = p\<lparr>pvf_revoked := b\<rparr> \<and> (pvf_revoked p \<longrightarrow> b)"
    by (intro exI [of _ "pvf_revoked p"]) simp
  with rgs_approve show ?case
    by (auto simp: approve_provider_def bt.get_put bt_contains_def split: sum.splits)
next
  case (rgs_revoke reg k')
  have same: "\<exists>b. p = p\<lparr>pvf_revoked := b\<rparr> \<and> (pvf_revoked p \<longrightarrow> b)"
    by (intro exI [of _ "pvf_revoked p"]) simp
  with rgs_revoke show ?case
    by (cases "k' = k") (auto simp: revoke_provider_def bt.get_put split: option.splits)
qed

lemma registry_steps_same:
  "registry_step\<^sup>*\<^sup>* reg reg' \<Longrightarrow> bt_get reg k = Some p \<Longrightarrow>
     \<exists>b. bt_get reg' k = Some (p\<lparr>pvf_revoked := b\<rparr>) \<and> (pvf_revoked p \<longrightarrow> b)"
proof (induction rule: rtranclp_induct)
  case base
  then show ?case by (intro exI [of _ "pvf_revoked p"]) simp
next
  case (step reg' reg'')
  then obtain b where b: "bt_get reg' k = Some (p\<lparr>pvf_revoked := b\<rparr>)" "pvf_revoked p \<longrightarrow> b"
    by blast
  from registry_step_same [OF step.hyps(2) b(1)] b(2) show ?case by auto
qed

subsection \<open>Choosing a provider\<close>

lemma active_provider:
  "registry_kept reg \<Longrightarrow> p \<in> set (active_providers reg) \<longleftrightarrow> usable p \<and> bt_get reg (provider_key p) = Some p"
  by (auto simp: active_providers_def registry_kept_def in_bt_values_iff)

text \<open>What the selection has checked of every provider it lets through.\<close>

definition compliant :: "model_env \<Rightarrow> model_request \<Rightarrow> provider_profile \<Rightarrow> data_policy_decision \<Rightarrow> bool" where
  "compliant env r p d \<longleftrightarrow>
     provider_fits r p \<and> mge_data_policy env (model_data_request r p) = Ok d \<and> dpd_allowed d
     \<and> dpd_required_transformations d = [] \<and> validate_data_policy_decision d = Ok ()"

lemma candidate_loop_Ok:
  assumes "candidate_loop env r ps allowed ds t = Ok (allowed', ds', t')"
    and "\<forall>p \<in> set ps. bt_get reg (provider_key p) = Some p"
    and "\<forall>p \<in> set allowed. bt_get reg (provider_key p) = Some p
           \<and> (\<exists>d. bt_get ds (provider_key p) = Some d \<and> compliant env r p d)"
  shows "(\<forall>p \<in> set allowed'. bt_get reg (provider_key p) = Some p
           \<and> (\<exists>d. bt_get ds' (provider_key p) = Some d \<and> compliant env r p d))
       \<and> set allowed' \<subseteq> set allowed \<union> set ps"
  using assms
proof (induction ps arbitrary: allowed ds t)
  case (Cons p ps)
  show ?case
  proof (cases "provider_fits r p")
    case False
    then have rest: "candidate_loop env r ps allowed ds t = Ok (allowed', ds', t')"
      using Cons.prems(1) by simp
    from Cons.IH [OF rest _ Cons.prems(3)] Cons.prems(2) show ?thesis by auto
  next
    case fits: True
    obtain d where d: "mge_data_policy env (model_data_request r p) = Ok d"
      "validate_data_policy_decision d = Ok ()"
      using Cons.prems(1) fits by (auto simp: res_bind_Ok_iff split: sum.splits)
    show ?thesis
    proof (cases "dpd_allowed d \<and> dpd_required_transformations d = []")
      case True
      then have rest: "candidate_loop env r ps (allowed @ [p]) (bt_insert (provider_key p) d ds) t
          = Ok (allowed', ds', t')"
        using Cons.prems(1) fits d by simp
      have "compliant env r p d" using True fits d by (simp add: compliant_def)
      have "\<forall>q \<in> set (allowed @ [p]). bt_get reg (provider_key q) = Some q
          \<and> (\<exists>e. bt_get (bt_insert (provider_key p) d ds) (provider_key q) = Some e \<and> compliant env r q e)"
      proof
        fix q assume "q \<in> set (allowed @ [p])"
        then have q: "q \<in> set allowed \<or> q = p" by auto
        then have stored: "bt_get reg (provider_key q) = Some q"
          using Cons.prems(2,3) by auto
        have p: "bt_get reg (provider_key p) = Some p" using Cons.prems(2) by simp
        show "bt_get reg (provider_key q) = Some q
          \<and> (\<exists>e. bt_get (bt_insert (provider_key p) d ds) (provider_key q) = Some e \<and> compliant env r q e)"
        proof (cases "provider_key q = provider_key p")
          case True
          then have "Some q = Some p" by (metis stored p)
          then have "q = p" by (rule option.inject [THEN iffD1])
          then show ?thesis using p \<open>compliant env r p d\<close> by (simp only: bt.get_put_same) blast
        next
          case False
          then have "q \<in> set allowed" using q by auto
          then obtain e where "bt_get ds (provider_key q) = Some e" "compliant env r q e"
            using Cons.prems(3) by blast
          then show ?thesis using False stored by (simp add: bt.get_put)
        qed
      qed
      note kept = this
      have "(\<forall>p \<in> set allowed'. bt_get reg (provider_key p) = Some p
          \<and> (\<exists>d. bt_get ds' (provider_key p) = Some d \<and> compliant env r p d))
        \<and> set allowed' \<subseteq> set (allowed @ [p]) \<union> set ps"
        by (rule Cons.IH [OF rest _ kept]) (use Cons.prems(2) in simp)
      then show ?thesis by auto
    next
      case False
      then obtain t'' where rest: "candidate_loop env r ps allowed ds t'' = Ok (allowed', ds', t')"
        using Cons.prems(1) fits d by (auto split: if_splits)
      from Cons.IH [OF rest _ Cons.prems(3)] Cons.prems(2) show ?thesis by auto
    qed
  qed
qed auto

lemma allowed_candidates_Ok:
  assumes "allowed_candidates env reg r = Ok (allowed, ds)" and "registry_kept reg"
  shows "allowed \<noteq> [] \<and> (\<forall>p \<in> set allowed. usable p \<and> bt_get reg (provider_key p) = Some p
    \<and> (\<exists>d. bt_get ds (provider_key p) = Some d \<and> compliant env r p d))"
proof -
  obtain t where loop: "candidate_loop env r (active_providers reg) [] bt_empty False = Ok (allowed, ds, t)"
    and ne: "allowed \<noteq> []"
    using assms(1)
    by (cases "candidate_loop env r (active_providers reg) [] bt_empty False")
      (auto simp: allowed_candidates_def split: if_splits)
  have "\<forall>p \<in> set (active_providers reg). bt_get reg (provider_key p) = Some p"
    using active_provider [OF assms(2)] by auto
  from candidate_loop_Ok [OF loop this] show ?thesis
    using ne active_provider [OF assms(2)] by auto
qed

lemma route_loop_Ok:
  "route_loop allowed seen cs = Ok () \<longleftrightarrow>
     (\<forall>c \<in> set cs. route_ok allowed c) \<and> distinct (map rtc_provider_key cs)
     \<and> set (map rtc_provider_key cs) \<inter> seen = {}"
  by (induction cs arbitrary: seen) auto

lemma validate_route_plan_Ok:
  "validate_route_plan candidates ranked = Ok () \<longleftrightarrow>
     candidates \<noteq> [] \<and> ranked \<noteq> [] \<and> length ranked \<le> length candidates
     \<and> (\<forall>c \<in> set ranked. route_ok (set (map provider_key candidates)) c)
     \<and> distinct (map rtc_provider_key ranked)"
  by (auto simp: validate_route_plan_def route_loop_Ok)

lemma admit_request_Ok:
  assumes "admit_request env reg new_id streaming r budget = (Ok f, budget')"
  obtains candidates where
    "validate_model_request r = Ok ()" "streaming \<longrightarrow> CapStream \<in> mrq_required_capabilities r"
    "\<not> has_secret_marker (mrq_prompt r)" "flt_prompt_hash f = mge_sha256_hex env (mrq_prompt r)"
    "allowed_candidates env reg r = Ok (candidates, flt_decisions f)"
    "validate_route_plan candidates (flt_ranked f) = Ok ()"
    "budget_reserve new_id (mrq_tenant_id r) (mrq_task_id r) (mrq_maximum_cost_microunits r) budget
       = (Ok (flt_reservation f), budget')"
    "flt_request f = r"
proof -
  obtain h where h: "validate_model_request r = Ok ()" "streaming \<longrightarrow> CapStream \<in> mrq_required_capabilities r"
    "prompt_inspect (mge_sha256_hex env) (mrq_prompt r) (4 * 1024 * 1024) = Ok h"
    using assms unfolding admit_request_def
    by (cases "prompt_inspect (mge_sha256_hex env) (mrq_prompt r) (4 * 1024 * 1024)")
      (auto split: sum.splits if_splits)
  obtain candidates ds where c: "allowed_candidates env reg r = Ok (candidates, ds)"
    using assms h unfolding admit_request_def by (auto split: sum.splits if_splits)
  obtain ranked where k: "mge_rank env r candidates = Ok ranked"
    "validate_route_plan candidates ranked = Ok ()"
    using assms h c unfolding admit_request_def by (auto split: sum.splits if_splits)
  obtain res b where b: "budget_reserve new_id (mrq_tenant_id r) (mrq_task_id r)
      (mrq_maximum_cost_microunits r) budget = (res, b)" by force
  obtain rs where rs: "res = Ok rs"
    using assms h c k b unfolding admit_request_def by (cases res) (auto split: if_splits)
  have f: "f = \<lparr>flt_request = r, flt_prompt_hash = h, flt_ranked = ranked, flt_decisions = ds,
      flt_reservation = rs\<rparr>" "b = budget'"
    using assms h c k b rs unfolding admit_request_def by (auto split: if_splits)
  have "\<not> has_secret_marker (mrq_prompt r) \<and> h = mge_sha256_hex env (mrq_prompt r)"
    using h(3) by (auto simp: prompt_inspect_def split: if_splits)
  then show thesis
    using that [of candidates] h c k b rs f by simp
qed

lemma pick_route_Ok:
  "pick_route reg adapters routes e = Ok (route, p) \<Longrightarrow>
     route \<in> set routes \<and> rtc_provider_key route \<in> adapters \<and> usable p
     \<and> bt_get reg (rtc_provider_key route) = Some p"
  by (induction routes arbitrary: e)
    (auto simp: resolve_provider_def split: sum.splits option.splits if_splits)

text \<open>The provider that is called was among the candidates, is the profile the registry approved, and
  is not revoked at the moment of the call.\<close>

lemma called_provider_compliant:
  assumes "admit_request env reg new_id streaming r budget = (Ok f, budget')" and "registry_kept reg"
    and "registry_step\<^sup>*\<^sup>* reg reg'"
    and "pick_route reg' adapters (flt_ranked f) e = Ok (route, p)"
  shows "usable p \<and> provider_key p = rtc_provider_key route \<and> rtc_provider_key route \<in> adapters
    \<and> bt_get reg (provider_key p) = Some p \<and> route \<in> set (flt_ranked f)
    \<and> (\<exists>d. bt_get (flt_decisions f) (provider_key p) = Some d \<and> compliant env r p d)"
proof -
  obtain candidates where c: "allowed_candidates env reg r = Ok (candidates, flt_decisions f)"
    and plan: "validate_route_plan candidates (flt_ranked f) = Ok ()"
    using assms(1) by (rule admit_request_Ok)
  note picked = pick_route_Ok [OF assms(4)]
  then obtain q where q: "q \<in> set candidates" "provider_key q = rtc_provider_key route"
    using plan by (auto simp: validate_route_plan_Ok route_ok_def)
  have old: "usable q" "bt_get reg (provider_key q) = Some q"
    "\<exists>d. bt_get (flt_decisions f) (provider_key q) = Some d \<and> compliant env r q d"
    using allowed_candidates_Ok [OF c assms(2)] q(1) by auto
  obtain b where "bt_get reg' (provider_key q) = Some (q\<lparr>pvf_revoked := b\<rparr>)"
    using registry_steps_same [OF assms(3) old(2)] by blast
  then have "p = q\<lparr>pvf_revoked := b\<rparr>" using picked q(2) by simp
  then have "p = q" using old(1) picked by (simp add: usable_def)
  then show ?thesis using old q picked by simp
qed

subsection \<open>The request\<close>

text \<open>How a request can go: refused before anything happens, admitted without a provider, or one call.\<close>

lemma run_request_cases:
  assumes "run_request env reg reg' adapters new_id streaming ask judge r budget = (result, budget', calls)"
  obtains (refused) e where "admit_request env reg new_id streaming r budget = (Err e, budget')"
      "result = Err e" "calls = []"
    | (unrouted) f e budget1 where
      "admit_request env reg new_id streaming r budget = (Ok f, budget1)"
      "pick_route reg' adapters (flt_ranked f) ProviderUnavailable = Err e" "calls = []"
      "give_up f e budget1 = (result, budget')"
    | (called) f route p budget1 where
      "admit_request env reg new_id streaming r budget = (Ok f, budget1)"
      "pick_route reg' adapters (flt_ranked f) ProviderUnavailable = Ok (route, p)"
      "calls = [(rtc_provider_key route, provider_request_of f)]"
      "settle f (ask (rtc_provider_key route) (provider_request_of f)) (judge f route p) budget1 = (result, budget')"
proof -
  obtain a budget1 where a: "admit_request env reg new_id streaming r budget = (a, budget1)" by force
  show thesis
  proof (cases a)
    case (Inl e)
    then show thesis using assms a refused by (simp add: run_request_def)
  next
    case (Inr f)
    show thesis
    proof (cases "pick_route reg' adapters (flt_ranked f) ProviderUnavailable")
      case (Inl e)
      obtain x y where g: "give_up f e budget1 = (x :: model_error + 'a, y)" by force
      then have "result = x" "budget' = y" "calls = []"
        using assms a \<open>a = Inr f\<close> Inl by (simp_all add: run_request_def)
      then show thesis using unrouted a \<open>a = Inr f\<close> Inl g by simp
    next
      case (Inr rp)
      obtain route p where rp: "rp = (route, p)" by (cases rp)
      obtain x y where g: "settle f (ask (rtc_provider_key route) (provider_request_of f)) (judge f route p) budget1 = (x, y)"
        by force
      then have "result = x" "budget' = y" "calls = [(rtc_provider_key route, provider_request_of f)]"
        using assms a \<open>a = Inr f\<close> Inr rp by (simp_all add: run_request_def)
      then show thesis using called a \<open>a = Inr f\<close> Inr g rp by simp
    qed
  qed
qed

text \<open>A provider is called only when the registry has it approved and not revoked at that moment, the
  tenant, the provider list, the capabilities and the context size admit it, the data policy allowed it
  without a transformation, and the prompt it gets is the checked one.\<close>

theorem only_compliant_provider_is_called:
  assumes "run_request env reg reg' adapters new_id streaming ask judge r budget = (result, budget', calls)"
    and "(key, q) \<in> set calls" and "registry_kept reg" and "registry_step\<^sup>*\<^sup>* reg reg'"
  shows "\<exists>p d. bt_get reg key = Some p \<and> bt_get reg' key = Some p \<and> usable p \<and> key \<in> adapters
    \<and> compliant env r p d \<and> pvr_prompt q = mrq_prompt r \<and> \<not> has_secret_marker (pvr_prompt q)
    \<and> pvr_request_hash q = mge_sha256_hex env (pvr_prompt q)
    \<and> pvr_maximum_output_bytes q = mrq_maximum_output_bytes r"
  using assms(1)
proof (cases rule: run_request_cases)
  case (called f route p budget1)
  have c: "usable p \<and> provider_key p = rtc_provider_key route \<and> rtc_provider_key route \<in> adapters
    \<and> bt_get reg (provider_key p) = Some p \<and> route \<in> set (flt_ranked f)
    \<and> (\<exists>d. bt_get (flt_decisions f) (provider_key p) = Some d \<and> compliant env r p d)"
    by (rule called_provider_compliant [OF called(1) assms(3,4) called(2)])
  have f: "flt_request f = r" "\<not> has_secret_marker (mrq_prompt r)"
    "flt_prompt_hash f = mge_sha256_hex env (mrq_prompt r)"
    using called(1) by (auto elim: admit_request_Ok)
  have kq: "key = rtc_provider_key route" "q = provider_request_of f"
    using assms(2) called(3) by auto
  obtain d where "compliant env r p d" using c by blast
  moreover have "bt_get reg (rtc_provider_key route) = Some p" using c by metis
  ultimately show ?thesis
    using c f kq pick_route_Ok [OF called(2)]
    by (intro exI [of _ p] exI [of _ d]) (simp add: provider_request_of_def)
qed (use assms(2) in auto)

text \<open>What a reservation that is finalized leaves of the budget.\<close>

lemma budget_reserve_finalize:
  assumes "budget_reserve new_id t k amount st = (Ok r, st1)"
    and "bt_get (bds_reservations st) new_id = None" and "new_id \<notin> bds_finalized st"
    and "bt_ok (bds_reservations st)" and "budget_finalize (brs_reservation_id r) actual st1 = (res, st2)"
  shows "new_id \<in> bds_finalized st2 \<and> bds_reservations st2 = bds_reservations st
    \<and> reserved_of st2 t = reserved_of st t + (if actual > amount then amount else actual)
    \<and> (\<forall>t'. t' \<noteq> t \<longrightarrow> reserved_of st2 t' = reserved_of st t')
    \<and> (is_ok res \<longleftrightarrow> actual \<le> amount)"
proof -
  have r: "r = \<lparr>brs_reservation_id = new_id, brs_tenant_id = t, brs_task_id = k,
          brs_amount_microunits = amount\<rparr>"
    and st1: "st1 = st\<lparr>bds_reserved := bt_insert t (reserved_of st t + amount) (bds_reserved st),
              bds_reservations := bt_insert new_id r (bds_reservations st)\<rparr>"
    using assms(1) by (auto elim: budget_reserve_Ok)
  have gone: "bt_remove new_id (bt_insert new_id r (bds_reservations st)) = bds_reservations st"
    using assms(2,4) by (rule bt_remove_insert_fresh [rotated])
  have "budget_finalize new_id actual st1 = (res, st2)"
    using assms(5) r by simp
  moreover have "bt_get (bds_reservations st1) new_id = Some r" "new_id \<notin> bds_finalized st1"
    using assms(3) by (simp_all add: st1)
  ultimately show ?thesis
    using gone by (auto simp: budget_finalize_cases st1 r reserved_of_def bt.get_put not_le)
qed

text \<open>C13: whatever the registry, the planner and the provider do, a request that runs to its end, with
  nothing else touching the budget meanwhile, makes at most one provider call and leaves no reservation
  open: it is charged nothing without a call, the actual cost when that is covered, and the whole
  reservation otherwise; a result is returned only after a call.\<close>

theorem request_closes_its_reservation:
  assumes "run_request env reg reg' adapters new_id streaming ask judge r budget = (result, budget', calls)"
    and "bt_get (bds_reservations budget) new_id = None" and "new_id \<notin> bds_finalized budget"
    and "bt_ok (bds_reservations budget)"
  shows "length calls \<le> 1 \<and> bds_reservations budget' = bds_reservations budget
    \<and> (\<exists>charged \<le> mrq_maximum_cost_microunits r.
         reserved_of budget' (mrq_tenant_id r) = reserved_of budget (mrq_tenant_id r) + charged
         \<and> (calls = [] \<longrightarrow> charged = 0))
    \<and> (is_ok result \<longrightarrow> calls \<noteq> [])"
  using assms(1)
proof (cases rule: run_request_cases)
  case (refused e)
  have "budget' = budget"
    using refused(1) budget_reserve_Err
    by (fastforce simp: admit_request_def split: sum.splits prod.splits if_splits)
  then show ?thesis using refused by simp
next
  case (unrouted f e budget1)
  have reserve: "budget_reserve new_id (mrq_tenant_id r) (mrq_task_id r) (mrq_maximum_cost_microunits r) budget
       = (Ok (flt_reservation f), budget1)"
    using unrouted(1) by (rule admit_request_Ok)
  obtain res b where fin: "budget_finalize (brs_reservation_id (flt_reservation f)) 0 budget1 = (res, b)"
    by force
  then have "budget' = b" "\<not> is_ok result"
    using unrouted(4) by (auto simp: give_up_def)
  then show ?thesis
    using budget_reserve_finalize [OF reserve assms(2,3,4) fin] unrouted(3)
    by (auto simp: word_neq_0_conv)
next
  case (called f route p budget1)
  have reserve: "budget_reserve new_id (mrq_tenant_id r) (mrq_task_id r) (mrq_maximum_cost_microunits r) budget
       = (Ok (flt_reservation f), budget1)"
    using called(1) by (rule admit_request_Ok)
  obtain cost out where cost: "(case ask (rtc_provider_key route) (provider_request_of f) of
               Some (Inr resp) \<Rightarrow> judge f route p resp
             | _ \<Rightarrow> (brs_amount_microunits (flt_reservation f), Err ProviderOutcomeUnknown)) = (cost, out)"
    by force
  obtain res b where fin: "budget_finalize (brs_reservation_id (flt_reservation f)) cost budget1 = (res, b)"
    by force
  have "budget' = b"
    using called(4) fin unfolding settle_def cost by (cases res) simp_all
  then show ?thesis
    using budget_reserve_finalize [OF reserve assms(2,3,4) fin] called(3)
    by (intro conjI exI [of _ "if cost > mrq_maximum_cost_microunits r then mrq_maximum_cost_microunits r else cost"])
      (auto simp: not_less)
qed

subsection \<open>Results\<close>

lemma response_inspect_Ok:
  "response_inspect sha out limit = Ok h \<longleftrightarrow>
     out \<noteq> [] \<and> length out \<le> limit \<and> \<not> has_secret_marker out \<and> h = sha out"
  by (auto simp: response_inspect_def)

lemma evidence_of_Ok:
  assumes "evidence_of env now f route p rid i t cost h = Ok ev"
  obtains d bytes where "bt_get (flt_decisions f) (provider_key p) = Some d"
    "mge_jcs_decision env d = Some bytes"
    "ev = \<lparr>mev_request_hash = flt_prompt_hash f, mev_provider_key = provider_key p,
           mev_provider_request_id = rid, mev_route_reasons = rtc_reasons route,
           mev_data_policy_version = dpd_policy_version d,
           mev_data_policy_decision_digest = mge_sha256_hex env bytes, mev_input_tokens = i,
           mev_output_tokens = t, mev_cost_microunits = cost, mev_output_hash = h, mev_created_at = now\<rparr>"
  using assms by (auto simp: evidence_of_def split: option.splits)

lemma settle_Ok:
  assumes "settle f answer judge budget = (Ok x, budget')"
  obtains resp cost where "answer = Some (Ok resp)" "judge resp = (cost, Ok x)"
    "fst (budget_finalize (brs_reservation_id (flt_reservation f)) cost budget) = Ok ()"
proof -
  obtain cost out where co: "(case answer of
               Some (Inr resp) \<Rightarrow> judge resp
             | _ \<Rightarrow> (brs_amount_microunits (flt_reservation f), Err ProviderOutcomeUnknown)) = (cost, out)"
    by force
  obtain res b where fin: "budget_finalize (brs_reservation_id (flt_reservation f)) cost budget = (res, b)"
    by force
  have "res = Ok ()" "out = Ok x"
    using assms fin unfolding settle_def co by (cases res; simp)+
  with co fin show thesis
    using that by (auto split: option.splits sum.splits)
qed

text \<open>The evidence binds the request, the provider, the decision, the answer and its cost.\<close>

definition evidence_binds ::
  "model_env \<Rightarrow> model_request \<Rightarrow> string \<Rightarrow> data_policy_decision \<Rightarrow> string \<Rightarrow> model_evidence \<Rightarrow> bool" where
  "evidence_binds env r key d output ev \<longleftrightarrow>
     mev_request_hash ev = mge_sha256_hex env (mrq_prompt r) \<and> mev_provider_key ev = key
     \<and> mev_data_policy_version ev = dpd_policy_version d
     \<and> (\<exists>bytes. mge_jcs_decision env d = Some bytes
          \<and> mev_data_policy_decision_digest ev = mge_sha256_hex env bytes)
     \<and> mev_output_hash ev = mge_sha256_hex env output
     \<and> mev_cost_microunits ev \<le> mrq_maximum_cost_microunits r"

text \<open>What every run with a result comes down to.\<close>

lemma run_request_Ok:
  assumes "run_request env reg reg' adapters new_id streaming ask judge r budget = (Ok res, budget', calls)"
    and "registry_kept reg" and "registry_step\<^sup>*\<^sup>* reg reg'"
    and "bt_get (bds_reservations budget) new_id = None" and "new_id \<notin> bds_finalized budget"
    and "bt_ok (bds_reservations budget)"
  obtains f route p resp cost d where "calls = [(provider_key p, provider_request_of f)]"
    "ask (provider_key p) (provider_request_of f) = Some (Ok resp)" "judge f route p resp = (cost, Ok res)"
    "cost \<le> mrq_maximum_cost_microunits r" "usable p" "bt_get reg (provider_key p) = Some p"
    "bt_get (flt_decisions f) (provider_key p) = Some d" "compliant env r p d"
    "flt_request f = r" "flt_prompt_hash f = mge_sha256_hex env (mrq_prompt r)"
    "streaming \<longrightarrow> CapStream \<in> mrq_required_capabilities r"
  using assms(1)
proof (cases rule: run_request_cases)
  case (unrouted f e budget1)
  then show thesis by (simp add: give_up_def)
next
  case (called f route p budget1)
  have c: "usable p \<and> provider_key p = rtc_provider_key route \<and> rtc_provider_key route \<in> adapters
    \<and> bt_get reg (provider_key p) = Some p \<and> route \<in> set (flt_ranked f)
    \<and> (\<exists>d. bt_get (flt_decisions f) (provider_key p) = Some d \<and> compliant env r p d)"
    by (rule called_provider_compliant [OF called(1) assms(2,3) called(2)])
  then obtain d where d: "bt_get (flt_decisions f) (provider_key p) = Some d" "compliant env r p d" by blast
  obtain resp cost where settled: "ask (rtc_provider_key route) (provider_request_of f) = Some (Ok resp)"
    "judge f route p resp = (cost, Ok res)"
    "fst (budget_finalize (brs_reservation_id (flt_reservation f)) cost budget1) = Ok ()"
    using called(4) by (rule settle_Ok)
  have reserve: "budget_reserve new_id (mrq_tenant_id r) (mrq_task_id r) (mrq_maximum_cost_microunits r) budget
       = (Ok (flt_reservation f), budget1)"
    and f: "flt_request f = r" "flt_prompt_hash f = mge_sha256_hex env (mrq_prompt r)"
      "streaming \<longrightarrow> CapStream \<in> mrq_required_capabilities r"
    using called(1) by (auto elim: admit_request_Ok)
  obtain x b where fin: "budget_finalize (brs_reservation_id (flt_reservation f)) cost budget1 = (x, b)"
    by force
  have "cost \<le> mrq_maximum_cost_microunits r"
    using budget_reserve_finalize [OF reserve assms(4,5,6) fin] settled(3) fin by simp
  moreover have "provider_key p = rtc_provider_key route" "usable p" "bt_get reg (provider_key p) = Some p"
    using c by blast+
  ultimately show thesis
    using that [of p f resp route cost d] called(3) settled(1,2) c d f by simp
qed auto

text \<open>C11: a result of \<open>generate\<close> is the output of exactly one answered call to a compliant provider: it is
  UTF-8, within both size limits and free of secret markers, marked untrusted, and its evidence binds
  request, provider, decision, the provider's request identifier and token counts, and the cost: the
  tokens in and out times the provider's price per token, in saturating arithmetic, which is within the
  cost limit of the request.\<close>

theorem generated_result_is_bound:
  assumes "model_generate env reg reg' adapters new_id now ask r budget = (Ok res, budget', calls)"
    and "registry_kept reg" and "registry_step\<^sup>*\<^sup>* reg reg'"
    and "bt_get (bds_reservations budget) new_id = None" and "new_id \<notin> bds_finalized budget"
    and "bt_ok (bds_reservations budget)"
  shows "\<exists>key q resp p d. calls = [(key, q)] \<and> ask key q = Some (Ok resp)
    \<and> bt_get reg key = Some p \<and> usable p \<and> compliant env r p d
    \<and> mgr_output res = pvs_output resp \<and> mgr_untrusted_content res \<and> utf8_valid (mgr_output res)
    \<and> length (mgr_output res) \<le> min (mrq_maximum_output_bytes r) (pvf_maximum_output_bytes p)
    \<and> \<not> has_secret_marker (mgr_output res)
    \<and> evidence_binds env r key d (mgr_output res) (mgr_evidence res)
    \<and> mev_input_tokens (mgr_evidence res) = pvs_input_tokens resp
    \<and> mev_output_tokens (mgr_evidence res) = pvs_output_tokens resp
    \<and> mev_provider_request_id (mgr_evidence res) = pvs_provider_request_id resp
    \<and> unat (mev_cost_microunits (mgr_evidence res))
        = min (2 ^ 64 - 1) (min (2 ^ 64 - 1) (unat (pvs_input_tokens resp) + unat (pvs_output_tokens resp))
                              * unat (pvf_cost_microunits_per_token p))"
proof -
  obtain f route p resp cost d where
    run: "calls = [(provider_key p, provider_request_of f)]"
      "ask (provider_key p) (provider_request_of f) = Some (Ok resp)"
      "judge_response env now f route p resp = (cost, Ok res)"
      "cost \<le> mrq_maximum_cost_microunits r" "usable p" "bt_get reg (provider_key p) = Some p"
      "bt_get (flt_decisions f) (provider_key p) = Some d" "compliant env r p d"
    and f: "flt_request f = r" "flt_prompt_hash f = mge_sha256_hex env (mrq_prompt r)"
    using assms(1) [unfolded model_generate_def] assms(2-6) by (rule run_request_Ok)
  define out where "out = pvs_output resp"
  have judged: "utf8_valid out" "length out \<le> mrq_maximum_output_bytes r"
      "length out \<le> pvf_maximum_output_bytes p"
    using run(3) f(1) by (auto simp: judge_response_def Let_def out_def split: if_splits)
  obtain h ev where h: "response_inspect (mge_sha256_hex env) out
        (min (mrq_maximum_output_bytes r) (pvf_maximum_output_bytes p)) = Ok h"
    and ev: "evidence_of env now f route p (pvs_provider_request_id resp) (pvs_input_tokens resp)
        (pvs_output_tokens resp) cost h = Ok ev"
    and res: "res = \<lparr>mgr_output = out, mgr_untrusted_content = True, mgr_evidence = ev\<rparr>"
    using run(3) f(1)
    by (auto simp: judge_response_def Let_def out_def res_bind_Ok_iff split: if_splits)
  have cost: "unat cost = min (2 ^ 64 - 1) (min (2 ^ 64 - 1)
      (unat (pvs_input_tokens resp) + unat (pvs_output_tokens resp)) * unat (pvf_cost_microunits_per_token p))"
  proof -
    have "cost = saturating_mul (saturating_add (pvs_input_tokens resp) (pvs_output_tokens resp))
        (pvf_cost_microunits_per_token p)"
      using run(3) by (auto simp: judge_response_def Let_def split: if_splits)
    then show ?thesis by (simp add: unat_saturating_mul unat_saturating_add min.commute)
  qed
  from ev have "evidence_binds env r (provider_key p) d out ev
      \<and> mev_input_tokens ev = pvs_input_tokens resp \<and> mev_output_tokens ev = pvs_output_tokens resp
      \<and> mev_provider_request_id ev = pvs_provider_request_id resp \<and> mev_cost_microunits ev = cost"
    using run(4,7) f(2) h by (auto simp: evidence_binds_def response_inspect_Ok elim!: evidence_of_Ok)
  then show ?thesis
    using run judged h cost
    by (intro exI [of _ "provider_key p"] exI [of _ "provider_request_of f"] exI [of _ resp]
        exI [of _ p] exI [of _ d])
      (simp add: res response_inspect_Ok out_def)
qed

lemma chunk_loop_Ok:
  "chunk_loop limit cs n out = Ok out' \<Longrightarrow> length out \<le> limit \<Longrightarrow>
     out' = out @ concat (map msc_bytes cs) \<and> length out' \<le> limit
     \<and> (\<forall>i < length cs. msc_sequence (cs ! i) = n + of_nat i
          \<and> msc_bytes (cs ! i) \<noteq> [] \<and> utf8_valid (msc_bytes (cs ! i))
          \<and> (msc_finish_reason (cs ! i) \<noteq> None \<longleftrightarrow> Suc i = length cs))"
proof (induction cs arbitrary: n out)
  case (Cons c cs)
  then have c: "chunk_ok c n (cs = [])" "length (out @ msc_bytes c) \<le> limit"
    and rest: "chunk_loop limit cs (n + 1) (out @ msc_bytes c) = Ok out'"
    by (auto split: if_splits)
  note IH = Cons.IH [OF rest c(2)]
  have "msc_sequence ((c # cs) ! i) = n + of_nat i \<and> msc_bytes ((c # cs) ! i) \<noteq> []
      \<and> utf8_valid (msc_bytes ((c # cs) ! i))
      \<and> (msc_finish_reason ((c # cs) ! i) \<noteq> None \<longleftrightarrow> Suc i = length (c # cs))"
    if "i < length (c # cs)" for i
    using that c(1) IH by (cases i) (auto simp: chunk_ok_def)
  with IH show ?case by auto
qed simp

text \<open>A result of \<open>stream\<close> has its chunks numbered from one without a gap, a finish reason on the last
  one only, and a content that is within both size limits, free of secret markers and bound by the
  evidence; streaming was among the capabilities asked for.\<close>

theorem streamed_result_is_ordered:
  assumes "model_stream env reg reg' adapters new_id now ask r budget = (Ok res, budget', calls)"
    and "registry_kept reg" and "registry_step\<^sup>*\<^sup>* reg reg'"
    and "bt_get (bds_reservations budget) new_id = None" and "new_id \<notin> bds_finalized budget"
    and "bt_ok (bds_reservations budget)"
  shows "CapStream \<in> mrq_required_capabilities r \<and> msr_chunks res \<noteq> [] \<and> length (msr_chunks res) \<le> 10000
    \<and> (\<forall>i < length (msr_chunks res). msc_sequence (msr_chunks res ! i) = 1 + of_nat i
         \<and> utf8_valid (msc_bytes (msr_chunks res ! i))
         \<and> (msc_finish_reason (msr_chunks res ! i) \<noteq> None \<longleftrightarrow> Suc i = length (msr_chunks res)))
    \<and> (\<exists>key q p d out. calls = [(key, q)] \<and> bt_get reg key = Some p \<and> compliant env r p d
         \<and> out = concat (map msc_bytes (msr_chunks res))
         \<and> length out \<le> min (mrq_maximum_output_bytes r) (pvf_maximum_output_bytes p)
         \<and> \<not> has_secret_marker out \<and> evidence_binds env r key d out (msr_evidence res))"
proof -
  obtain f route p resp cost d where
    run: "calls = [(provider_key p, provider_request_of f)]"
      "ask (provider_key p) (provider_request_of f) = Some (Ok resp)"
      "judge_stream env now f route p resp = (cost, Ok res)"
      "cost \<le> mrq_maximum_cost_microunits r" "usable p" "bt_get reg (provider_key p) = Some p"
      "bt_get (flt_decisions f) (provider_key p) = Some d" "compliant env r p d"
    and f: "flt_request f = r" "flt_prompt_hash f = mge_sha256_hex env (mrq_prompt r)"
      "True \<longrightarrow> CapStream \<in> mrq_required_capabilities r"
    using assms(1) [unfolded model_stream_def] assms(2-6) by (rule run_request_Ok)
  define limit where "limit = min (mrq_maximum_output_bytes r) (pvf_maximum_output_bytes p)"
  have size: "pst_chunks resp \<noteq> []" "length (pst_chunks resp) \<le> 10000"
    using run(3) by (auto simp: judge_stream_def Let_def split: if_splits)
  obtain out where out: "chunk_loop limit (pst_chunks resp) 1 [] = Ok out"
    using run(3) size f(1)
    by (cases "chunk_loop limit (pst_chunks resp) 1 []") (auto simp: judge_stream_def Let_def limit_def)
  obtain h ev where h: "response_inspect (mge_sha256_hex env) out limit = Ok h"
    and ev: "evidence_of env now f route p (pst_provider_request_id resp) (pst_input_tokens resp)
        (pst_output_tokens resp) cost h = Ok ev"
    and res: "res = \<lparr>msr_chunks = pst_chunks resp, msr_untrusted_content = True, msr_evidence = ev\<rparr>"
    using run(3) size out f(1)
    by (auto simp: judge_stream_def Let_def limit_def res_bind_Ok_iff split: if_splits)
  from ev have binds: "evidence_binds env r (provider_key p) d out ev"
    using run(4,7) f(2) h by (auto simp: evidence_binds_def response_inspect_Ok elim!: evidence_of_Ok)
  note chunks = chunk_loop_Ok [OF out]
  have "\<exists>key q p d out. calls = [(key, q)] \<and> bt_get reg key = Some p \<and> compliant env r p d
         \<and> out = concat (map msc_bytes (msr_chunks res))
         \<and> length out \<le> min (mrq_maximum_output_bytes r) (pvf_maximum_output_bytes p)
         \<and> \<not> has_secret_marker out \<and> evidence_binds env r key d out (msr_evidence res)"
    using run binds h chunks
    by (intro exI [of _ "provider_key p"] exI [of _ "provider_request_of f"] exI [of _ p]
        exI [of _ d] exI [of _ out])
      (simp add: res response_inspect_Ok limit_def)
  then show ?thesis
    using f(3) size chunks by (simp add: res)
qed

subsection \<open>With the data policy of the repository\<close>

lemma public_destination:
  "pvf_deployment p = PublicApi \<Longrightarrow>
     str_contains (destination_text (model_data_request r p)) ''public''"
proof -
  have "to_ascii_lowercase ''model:PublicApi'' = ''model:publicapi''"
    by code_simp
  then show "pvf_deployment p = PublicApi \<Longrightarrow>
     str_contains (destination_text (model_data_request r p)) ''public''"
    by (simp add: destination_text_def model_data_request_def)
qed

text \<open>C12: when the gateway's policy port is the data policy of \<open>data-governance\<close>, a provider that is called
  lies in the source's jurisdiction, the data is within the profile's limit, and confidential data never
  goes to a public API.\<close>

theorem confidential_data_stays_private:
  assumes "run_request env reg reg' adapters new_id streaming ask judge r budget = (result, budget', calls)"
    and "(key, q) \<in> set calls" and "registry_kept reg" and "registry_step\<^sup>*\<^sup>* reg reg'"
    and "mge_data_policy env = data_policy_evaluate denv port"
  shows "\<exists>p profile. bt_get reg key = Some p
    \<and> bt_get (dpi_deployments port) (mrq_deployment_profile r) = Some profile
    \<and> mrq_classification r \<le> dpo_maximum_classification profile
    \<and> pvf_jurisdiction p = mrq_source_jurisdiction r
    \<and> (Confidential \<le> mrq_classification r \<longrightarrow> pvf_deployment p \<noteq> PublicApi)"
proof -
  obtain p d where p: "bt_get reg key = Some p" and c: "compliant env r p d"
    using only_compliant_provider_is_called [OF assms(1-4)] by blast
  let ?req = "model_data_request r p"
  have "evaluate_checked denv port ?req = Ok d"
    using c assms(5) by (auto simp: compliant_def data_policy_evaluate_def split: sum.splits)
  then obtain profile u where
    profile: "bt_get (dpi_deployments port) (dpq_deployment_profile ?req) = Some profile"
    and allowed: "dpd_allowed d \<longleftrightarrow> flow_rules denv profile u ?req"
    and changes: "dpd_required_transformations d =
       (if dpq_classification ?req \<ge> Confidential \<and> crosses_private_boundary profile u ?req
        then [''REDACT_PII'', ''HASH_TRACE_PAYLOAD''] else [])"
    by (rule evaluate_checked_Ok)
  have rules: "flow_rules denv profile u ?req"
    using allowed c by (simp add: compliant_def)
  have "\<not> (Confidential \<le> mrq_classification r \<and> crosses_private_boundary profile u ?req)"
    using changes c by (auto simp: compliant_def model_data_request_def split: if_splits)
  then have "Confidential \<le> mrq_classification r \<longrightarrow> pvf_deployment p \<noteq> PublicApi"
    using public_destination [of p r]
    by (auto simp: crosses_private_boundary_def named_private_boundary_crossing_def)
  then show ?thesis
    using p profile rules
    by (intro exI [of _ p] exI [of _ profile]) (simp add: flow_rules_def model_data_request_def)
qed

subsection \<open>The planner\<close>

lemma decimal_length: "n < 10 ^ k \<Longrightarrow> 0 < k \<Longrightarrow> length (decimal n) \<le> k"
proof (induction k arbitrary: n)
  case (Suc k)
  show ?case
  proof (cases "n < 10")
    case True
    then show ?thesis by (subst decimal.simps) simp
  next
    case False
    then have "n div 10 < 10 ^ k" "0 < k"
      using Suc.prems by (cases k; auto simp: less_mult_imp_div_less mult.commute)+
    then have "length (decimal (n div 10)) \<le> k" by (rule Suc.IH)
    then show ?thesis using False by (subst decimal.simps) simp
  qed
qed simp

lemma decimal_nonempty: "decimal n \<noteq> []"
  by (subst decimal.simps) simp

lemma u64_decimal_length: "length (decimal (unat (x :: u64))) \<le> 20"
proof -
  have "unat x < 2 ^ 64" using unat_bound [of x] by simp
  also have "(2 :: nat) ^ 64 < 10 ^ 20" by simp
  finally show ?thesis by (rule decimal_length) simp
qed

lemma saturating_sub_le: "saturating_sub x y \<le> (x :: 'l::len word)"
  by (auto simp: saturating_sub_def word_sub_le)

lemma deployment_score_le: "deployment_score d \<le> 1000000"
  by (cases d) simp_all

lemma candidate_of_ok:
  assumes "validate_profile p = Ok ()" and "provider_key p \<in> allowed"
  shows "route_ok allowed (candidate_of p)"
proof -
  have "bounded_nonempty (provider_key p) 768"
    using assms(1) by (auto simp: validate_profile_def provider_key_def bounded_nonempty_def split: if_splits)
  moreover have "length (''deployment:'' @ deployment_debug (pvf_deployment p)) \<le> 256"
    by (cases "pvf_deployment p") simp_all
  moreover have "length (''unit_cost:'' @ decimal (unat (pvf_cost_microunits_per_token p))) \<le> 256"
    using u64_decimal_length [of "pvf_cost_microunits_per_token p"] by simp
  ultimately show ?thesis
    using assms(2) order_trans [OF saturating_sub_le deployment_score_le]
    by (simp add: route_ok_def candidate_of_def bounded_nonempty_def)
qed

text \<open>On approved candidates with different keys the deterministic planner returns a plan that the
  gateway accepts: one route per candidate, the best score first and the smaller key on a tie.\<close>

theorem planner_routes_are_accepted:
  assumes "candidates \<noteq> []" and "distinct (map provider_key candidates)"
    and "\<forall>p \<in> set candidates. validate_profile p = Ok ()"
  shows "\<exists>ranked. deterministic_rank r candidates = Ok ranked
    \<and> validate_route_plan candidates ranked = Ok ()
    \<and> sorted (map route_order ranked)
    \<and> set (map rtc_provider_key ranked) = set (map provider_key candidates)
    \<and> length ranked = length candidates"
proof -
  let ?ranked = "sort_key route_order (map candidate_of candidates)"
  have keys: "map rtc_provider_key (map candidate_of candidates) = map provider_key candidates"
    by (simp add: candidate_of_def)
  have "distinct (map rtc_provider_key ?ranked) \<longleftrightarrow> distinct (map provider_key candidates)"
    unfolding keys [symmetric] distinct_map distinct_sort set_sort by (rule refl)
  moreover have "\<forall>c \<in> set ?ranked. route_ok (set (map provider_key candidates)) c"
    using assms(3) candidate_of_ok by auto
  ultimately have "validate_route_plan candidates ?ranked = Ok ()"
    using assms(1,2) by (auto simp: validate_route_plan_Ok dest: arg_cong [where f = length])
  moreover have "set (map rtc_provider_key ?ranked) = set (map provider_key candidates)"
    by (force simp: candidate_of_def)
  ultimately show ?thesis
    by (simp add: deterministic_rank_def)
qed

subsection \<open>Billing\<close>

lemma statement_index_Ok:
  "statement_index ls m = Ok by_request \<Longrightarrow> bt_ok m \<Longrightarrow>
     (\<forall>k line. bt_get by_request k = Some line \<longleftrightarrow>
        (line \<in> set ls \<and> pul_provider_request_id line = k) \<or> bt_get m k = Some line)
     \<and> distinct (map pul_provider_request_id ls)
     \<and> (\<forall>line \<in> set ls. bt_get m (pul_provider_request_id line) = None)"
proof (induction ls arbitrary: m)
  case (Cons l ls)
  let ?m = "bt_insert (pul_provider_request_id l) l m"
  have fresh: "bt_get m (pul_provider_request_id l) = None"
    and rest: "statement_index ls ?m = Ok by_request"
    using Cons.prems(1) by (auto simp: bt_contains_def split: if_splits)
  have ok: "bt_ok ?m" using Cons.prems(2) by simp
  note IH = Cons.IH [OF rest ok]
  have other: "pul_provider_request_id l \<noteq> pul_provider_request_id x \<and> bt_get m (pul_provider_request_id x) = None"
    if "x \<in> set ls" for x
    using IH that by (auto simp: bt.get_put split: if_splits)
  have "bt_get by_request k = Some line \<longleftrightarrow>
      (line \<in> set (l # ls) \<and> pul_provider_request_id line = k) \<or> bt_get m k = Some line" for k line
    using IH fresh by (auto simp: bt.get_put)
  then show ?case using IH other fresh by auto
qed simp

lemma reconcile_loop_Ok:
  "reconcile_loop by_request items metered billed = Ok (m, b) \<Longrightarrow>
     (\<forall>item \<in> set items. \<exists>line. bt_get by_request (mev_provider_request_id item) = Some line
        \<and> line_matches line item)
     \<and> unat m = unat metered + (\<Sum>item \<leftarrow> items. unat (mev_cost_microunits item))
     \<and> unat b = unat billed + (\<Sum>item \<leftarrow> items. unat (mev_cost_microunits item))"
proof (induction items arbitrary: metered billed)
  case (Cons item items)
  obtain line where line: "bt_get by_request (mev_provider_request_id item) = Some line"
    "line_matches line item"
    using Cons.prems by (auto split: option.splits if_splits)
  obtain m1 where m1: "checked_add metered (mev_cost_microunits item) = Some m1"
    using Cons.prems line by (auto split: option.splits)
  obtain b1 where b1: "checked_add billed (pul_billed_microunits line) = Some b1"
    using Cons.prems line m1 by (auto split: option.splits)
  have rest: "reconcile_loop by_request items m1 b1 = Ok (m, b)"
    using Cons.prems line m1 b1 by simp
  have "unat m1 = unat metered + unat (mev_cost_microunits item)"
    "unat b1 = unat billed + unat (mev_cost_microunits item)"
    using m1 b1 line(2) by (auto simp: checked_add_Some_iff unat_add_no_wrap line_matches_def)
  then show ?case using Cons.IH [OF rest] line by auto
qed simp

text \<open>A reconciliation succeeds only when every item of evidence has a line with the same provider,
  tokens and amount, and its totals are the exact sums; when no request identifier repeats in the
  evidence, every line of the statement is matched and billed once.\<close>

theorem reconciled_statement_matches:
  assumes "reconcile_provider_billing env evidence statement = Ok rec"
  shows "(\<forall>item \<in> set evidence. \<exists>line \<in> set statement.
       pul_provider_request_id line = mev_provider_request_id item \<and> line_matches line item)
    \<and> unat (brc_total_metered_microunits rec) = (\<Sum>item \<leftarrow> evidence. unat (mev_cost_microunits item))
    \<and> brc_total_billed_microunits rec = brc_total_metered_microunits rec
    \<and> (distinct (map mev_provider_request_id evidence) \<longrightarrow>
         (\<forall>line \<in> set statement. \<exists>item \<in> set evidence.
            pul_provider_request_id line = mev_provider_request_id item \<and> line_matches line item))"
proof -
  obtain by_request m b where index: "statement_index statement bt_empty = Ok by_request"
    and loop: "reconcile_loop by_request evidence 0 0 = Ok (m, b)"
    and len: "length evidence = length statement"
    and totals: "brc_total_metered_microunits rec = m" "brc_total_billed_microunits rec = b"
    using assms
    by (auto simp: reconcile_provider_billing_def res_bind_Ok_iff split: if_splits option.splits prod.splits)
  note idx = statement_index_Ok [OF index bt.ok_none] and lp = reconcile_loop_Ok [OF loop]
  have matched: "\<exists>line \<in> set statement. pul_provider_request_id line = mev_provider_request_id item
      \<and> line_matches line item" if "item \<in> set evidence" for item
    using lp idx that by auto
  have all: "\<exists>item \<in> set evidence. pul_provider_request_id line = mev_provider_request_id item \<and> line_matches line item"
    if dist: "distinct (map mev_provider_request_id evidence)" and line: "line \<in> set statement" for line
  proof -
    let ?E = "set (map mev_provider_request_id evidence)" and ?S = "set (map pul_provider_request_id statement)"
    have "?E \<subseteq> ?S" using matched by force
    moreover have "card ?E = length evidence" "card ?S = length statement"
      using distinct_card [OF dist] idx distinct_card [of "map pul_provider_request_id statement"] by simp_all
    ultimately have "?E = ?S" using len by (intro card_subset_eq) auto
    then obtain item where item: "item \<in> set evidence" "mev_provider_request_id item = pul_provider_request_id line"
      using line by force
    then obtain l where l: "l \<in> set statement" "pul_provider_request_id l = mev_provider_request_id item"
      "line_matches l item" using matched by blast
    have "inj_on pul_provider_request_id (set statement)"
      using idx by (simp add: distinct_map)
    then have "l = line" using l(1,2) line item(2) by (simp add: inj_on_def)
    then show ?thesis using item l by (intro bexI [of _ item]) simp_all
  qed
  have "m = b" using lp by (simp add: word_unat_eq_iff)
  then show ?thesis using matched all lp totals by auto
qed

subsection \<open>A concrete gateway\<close>

definition sample_provider :: provider_profile where
  "sample_provider =
     \<lparr>pvf_schema_version = MODEL_SCHEMA_VERSION, pvf_provider_id = ''p'', pvf_model_id = ''m'',
      pvf_model_version = ''1'', pvf_region = ''cn'', pvf_jurisdiction = ''CN'',
      pvf_deployment = OnPremDeployment, pvf_capabilities = {CapGenerate, CapStream},
      pvf_endpoint_digest = ''sha256:'' @ replicate 64 CHR ''a'', pvf_data_terms_version = ''1'',
      pvf_approved_tenants = {''t''}, pvf_approved = True, pvf_revoked = False,
      pvf_maximum_context_bytes = 1000, pvf_maximum_output_bytes = 1000,
      pvf_cost_microunits_per_token = 2\<rparr>"

definition sample_provider_registry :: provider_registry where
  "sample_provider_registry = [(''p:m:1'', sample_provider)]"

definition sample_model_env :: model_env where
  "sample_model_env =
     \<lparr>mge_sha256_hex = \<lambda>_. replicate 64 CHR ''a'', mge_jcs_decision = \<lambda>_. Some ''d'',
      mge_jcs_statement = \<lambda>_. Some ''s'',
      mge_data_policy = data_policy_evaluate sample_data_env sample_data_port,
      mge_rank = deterministic_rank\<rparr>"

definition sample_model_request :: model_request where
  "sample_model_request =
     \<lparr>mrq_schema_version = MODEL_SCHEMA_VERSION, mrq_tenant_id = ''t'', mrq_task_id = ''k'',
      mrq_task_type = ''chat'', mrq_classification = Restricted, mrq_source_jurisdiction = ''CN'',
      mrq_deployment_profile = ''site'', mrq_required_capabilities = {CapGenerate, CapStream},
      mrq_allowed_provider_ids = {''p''}, mrq_maximum_latency_ms = 1000,
      mrq_maximum_cost_microunits = 40, mrq_maximum_output_bytes = 100, mrq_prompt = ''hi'',
      mrq_idempotency_key = ''k1''\<rparr>"

definition sample_answer :: provider_response where
  "sample_answer = \<lparr>pvs_provider_request_id = ''x1'', pvs_output = ''hello'', pvs_input_tokens = 3,
     pvs_output_tokens = 4, pvs_finish_reason = ''stop''\<rparr>"

definition sample_model_budget :: budget_state where
  "sample_model_budget = set_budget_limit ''t'' 100 budget_default"

lemma sample_endpoint_digest_valid: "valid_implementation_digest (''sha256:'' @ replicate 64 CHR ''a'')"
  using is_lower_hex_digest_replicate by (simp add: valid_implementation_digest_def strip_prefix_def)

lemma sample_provider_valid: "validate_profile sample_provider = Ok ()"
  using sample_endpoint_digest_valid
  by (simp add: validate_profile_def sample_provider_def bounded_nonempty_def)

lemma sample_provider_approved:
  "approve_provider sample_provider bt_empty = (Ok (), sample_provider_registry)"
  by (simp add: approve_provider_def sample_provider_valid bt_contains_def)
    (simp add: sample_provider_registry_def bt_empty_def provider_key_def sample_provider_def)

lemma sample_registry_kept: "registry_kept sample_provider_registry"
  using registry_step_kept [OF rgs_approve [of bt_empty sample_provider]]
  by (simp add: sample_provider_approved registry_kept_def)

lemma sample_model_request_valid: "validate_model_request sample_model_request = Ok ()"
  by (simp add: validate_model_request_def sample_model_request_def bounded_nonempty_def utf8_ascii
      valid_contract_identifier_def byte_defs less_eq_char_def)

lemma sample_no_marker: "\<not> has_secret_marker ''hi''" "\<not> has_secret_marker ''hello''"
  by (simp_all add: has_secret_marker_def model_secret_markers_def utf8_lossy_ascii to_ascii_lowercase_def
      to_ascii_lower_def byte_defs less_eq_char_def)

lemma sample_onprem: "to_ascii_lowercase ''model:OnPrem'' = ''model:onprem''"
  by code_simp

definition sample_model_decision :: data_policy_decision where
  "sample_model_decision =
     \<lparr>dpd_schema_version = DATA_SCHEMA_VERSION, dpd_allowed = True, dpd_policy_version = ''p1'',
      dpd_reason_codes = [''DATA_FLOW_ALLOWED''], dpd_required_transformations = [],
      dpd_maximum_retention_seconds = retention_for Restricted\<rparr>"

lemma sample_model_policy:
  "mge_data_policy sample_model_env (model_data_request sample_model_request sample_provider)
     = Ok sample_model_decision"
proof -
  let ?r = "model_data_request sample_model_request sample_provider"
  let ?p = "sample_profile ModeOnPrem"
  have r: "dpq_deployment_profile ?r = ''site''" "dpq_destination_kind ?r = ''model:OnPrem''"
    "dpq_classification ?r = Restricted" "dpq_tenant_id ?r = ''t''" "dpq_source_jurisdiction ?r = ''CN''"
    "dpq_destination_jurisdiction ?r = ''CN''" "\<not> dpq_contains_secret ?r"
    "dpq_cross_domain_approval_id ?r = None" "dpq_schema_version ?r = CONTRACT_SCHEMA_VERSION"
    by (simp_all add: model_data_request_def sample_model_request_def sample_provider_def
        CONTRACT_SCHEMA_VERSION_def)
  have ok: "data_request_ok sample_data_env ?r"
    by (simp add: data_request_ok_def r uuid_is_canonical_def sample_data_env_def text_checks)
  have dest: "destination_text ?r = ''model:onprem''"
    by (simp add: destination_text_def r sample_onprem)
  have url: "destination_url sample_data_env ?r = Ok None"
    by (simp add: destination_url_def dest)
  have cross: "\<not> crosses_private_boundary ?p None ?r"
    by (simp add: crosses_private_boundary_def named_private_boundary_crossing_def dest)
  have rules: "flow_rules sample_data_env ?p None ?r"
    by (simp add: flow_rules_def r dest cross sample_profile_def remains_private_def private_words_def
        endpoint_denied_def external_egress_def url_is_private_def)
  have "evaluate_checked sample_data_env sample_data_port ?r = Ok sample_model_decision"
    using ok url rules cross sample_profile_found verdict_rules [of sample_data_env ?p None ?r]
    by (simp add: evaluate_checked_def resolve_deployment_def Let_def r sample_model_decision_def)
      (simp add: sample_data_port_def)
  then show ?thesis by (simp add: sample_model_env_def data_policy_evaluate_def)
qed

lemma sample_decision_valid: "validate_data_policy_decision sample_model_decision = Ok ()"
  by (simp add: validate_data_policy_decision_def sample_model_decision_def bounded_nonempty_def
      DATA_SCHEMA_VERSION_def)

lemma sample_candidates:
  "allowed_candidates sample_model_env sample_provider_registry sample_model_request
     = Ok ([sample_provider], [(''p:m:1'', sample_model_decision)])"
proof -
  have active: "active_providers sample_provider_registry = [sample_provider]"
    by (simp add: active_providers_def sample_provider_registry_def bt_values_def usable_def sample_provider_def)
  have fits: "provider_fits sample_model_request sample_provider"
    by (simp add: provider_fits_def sample_model_request_def sample_provider_def)
  have key: "provider_key sample_provider = ''p:m:1''"
    by (simp add: provider_key_def sample_provider_def)
  have "dpd_allowed sample_model_decision" "dpd_required_transformations sample_model_decision = []"
    by (simp_all add: sample_model_decision_def)
  then show ?thesis
    by (simp add: allowed_candidates_def active fits sample_model_policy sample_decision_valid key bt_empty_def)
qed

definition sample_flight :: flight where
  "sample_flight =
     \<lparr>flt_request = sample_model_request, flt_prompt_hash = replicate 64 CHR ''a'',
      flt_ranked = [candidate_of sample_provider],
      flt_decisions = [(''p:m:1'', sample_model_decision)],
      flt_reservation = \<lparr>brs_reservation_id = ''r1'', brs_tenant_id = ''t'', brs_task_id = ''k'',
                         brs_amount_microunits = 40\<rparr>\<rparr>"

lemma sample_plan_valid:
  "validate_route_plan [sample_provider] [candidate_of sample_provider] = Ok ()"
  using candidate_of_ok [OF sample_provider_valid]
  by (simp add: validate_route_plan_Ok)

lemma sample_admit:
  "\<exists>b. admit_request sample_model_env sample_provider_registry ''r1'' streaming sample_model_request
      sample_model_budget = (Ok sample_flight, b)"
proof -
  have "prompt_inspect (mge_sha256_hex sample_model_env) (mrq_prompt sample_model_request) (4 * 1024 * 1024)
      = Ok (replicate 64 CHR ''a'')"
    by (simp add: prompt_inspect_def sample_model_request_def sample_no_marker sample_model_env_def)
  moreover have "mge_rank sample_model_env sample_model_request [sample_provider] = Ok [candidate_of sample_provider]"
    by (simp add: sample_model_env_def deterministic_rank_def)
  moreover have "CapStream \<in> mrq_required_capabilities sample_model_request"
    by (simp add: sample_model_request_def)
  ultimately show ?thesis
    by (simp add: admit_request_def sample_model_request_valid sample_candidates sample_plan_valid)
      (simp add: sample_flight_def sample_model_request_def sample_model_budget_def budget_reserve_def
        set_budget_limit_def budget_default_def reserved_of_def saturating_add_def Let_def)
qed

lemma sample_route:
  "pick_route sample_provider_registry {''p:m:1''} (flt_ranked sample_flight) e
     = Ok (candidate_of sample_provider, sample_provider)"
  by (simp add: sample_flight_def resolve_provider_def candidate_of_def provider_key_def sample_provider_registry_def
      bt_get_def) (simp add: sample_provider_def usable_def)

abbreviation sample_ask :: "string \<Rightarrow> provider_request \<Rightarrow> (model_error + provider_response) option" where
  "sample_ask \<equiv> \<lambda>_ _. Some (Ok sample_answer)"

lemma sample_judge:
  "\<exists>res. judge_response sample_model_env 7 sample_flight (candidate_of sample_provider) sample_provider sample_answer
     = (14, Ok res)"
proof -
  have key: "provider_key sample_provider = ''p:m:1''"
    by (simp add: provider_key_def sample_provider_def)
  have "\<exists>ev. evidence_of sample_model_env 7 sample_flight (candidate_of sample_provider) sample_provider ''x1'' 3 4 14
      (replicate 64 CHR ''a'') = Ok ev"
    by (simp add: evidence_of_def key sample_flight_def bt_get_def sample_model_env_def)
  moreover have "saturating_add 3 4 = (7 :: u64)" "saturating_mul 7 2 = 14"
    by (simp_all add: saturating_add_def saturating_mul_def)
  ultimately show ?thesis
    by (auto simp: judge_response_def Let_def sample_answer_def response_inspect_def sample_no_marker
        bounded_nonempty_def utf8_ascii sample_provider_def sample_flight_def sample_model_request_def
        sample_model_env_def)
qed

lemma sample_generate:
  "\<exists>res b. model_generate sample_model_env sample_provider_registry sample_provider_registry {''p:m:1''} ''r1'' 7
     sample_ask sample_model_request sample_model_budget
     = (Ok res, b, [(''p:m:1'', provider_request_of sample_flight)])"
proof -
  obtain b where admit: "admit_request sample_model_env sample_provider_registry ''r1'' False sample_model_request
      sample_model_budget = (Ok sample_flight, b)" using sample_admit by blast
  obtain res where judge: "judge_response sample_model_env 7 sample_flight (candidate_of sample_provider)
      sample_provider sample_answer = (14, Ok res)" using sample_judge by blast
  have reserve: "budget_reserve ''r1'' ''t'' ''k'' 40 sample_model_budget = (Ok (flt_reservation sample_flight), b)"
    using admit by (rule admit_request_Ok) (simp add: sample_model_request_def)
  obtain x b2 where fin: "budget_finalize ''r1'' 14 b = (x, b2)" by force
  have fin': "budget_finalize (brs_reservation_id (flt_reservation sample_flight)) 14 b = (x, b2)"
    using fin by (simp add: sample_flight_def)
  have "is_ok x"
    using budget_reserve_finalize [OF reserve _ _ _ fin']
    by (simp add: sample_model_budget_def set_budget_limit_def budget_default_def)
  then have "fst (budget_finalize ''r1'' 14 b) = Ok ()" using fin by (cases x) auto
  then have settle: "settle sample_flight (Some (Ok sample_answer))
      (judge_response sample_model_env 7 sample_flight (candidate_of sample_provider) sample_provider) b = (Ok res, b2)"
    using judge fin by (simp add: settle_def sample_flight_def)
  have "rtc_provider_key (candidate_of sample_provider) = ''p:m:1''"
    by (simp add: candidate_of_def provider_key_def sample_provider_def)
  then show ?thesis
    using admit sample_route settle by (simp add: model_generate_def run_request_def)
qed

lemma sample_budget_fresh:
  "bt_get (bds_reservations sample_model_budget) ''r1'' = None" "''r1'' \<notin> bds_finalized sample_model_budget"
  "bt_ok (bds_reservations sample_model_budget)"
  by (simp_all add: sample_model_budget_def set_budget_limit_def budget_default_def)

lemma sample_unchanged: "registry_step\<^sup>*\<^sup>* sample_provider_registry sample_provider_registry"
  by (rule rtranclp.rtrancl_refl)

theorem only_compliant_provider_is_called_witness:
  "\<exists>p d. bt_get sample_provider_registry ''p:m:1'' = Some p \<and> compliant sample_model_env sample_model_request p d"
proof -
  obtain res b where run: "run_request sample_model_env sample_provider_registry sample_provider_registry {''p:m:1''}
      ''r1'' False sample_ask (judge_response sample_model_env 7) sample_model_request sample_model_budget
      = (Ok res, b, [(''p:m:1'', provider_request_of sample_flight)])"
    using sample_generate unfolding model_generate_def by blast
  show ?thesis
    using only_compliant_provider_is_called [OF run list.set_intros(1) sample_registry_kept sample_unchanged]
    by blast
qed

theorem request_closes_its_reservation_witness:
  "\<exists>res b. run_request sample_model_env sample_provider_registry sample_provider_registry {''p:m:1''}
      ''r1'' False sample_ask (judge_response sample_model_env 7) sample_model_request sample_model_budget
      = (Ok res, b, [(''p:m:1'', provider_request_of sample_flight)])
    \<and> bds_reservations b = bds_reservations sample_model_budget"
proof -
  obtain res b where run: "run_request sample_model_env sample_provider_registry sample_provider_registry {''p:m:1''}
      ''r1'' False sample_ask (judge_response sample_model_env 7) sample_model_request sample_model_budget
      = (Ok res, b, [(''p:m:1'', provider_request_of sample_flight)])"
    using sample_generate unfolding model_generate_def by blast
  show ?thesis
    using request_closes_its_reservation [OF run sample_budget_fresh] run by blast
qed

theorem generated_result_is_bound_witness:
  "\<exists>res b calls. model_generate sample_model_env sample_provider_registry sample_provider_registry {''p:m:1''}
      ''r1'' 7 sample_ask sample_model_request sample_model_budget = (Ok res, b, calls)
    \<and> mgr_output res = ''hello''"
proof -
  obtain res b where run: "model_generate sample_model_env sample_provider_registry sample_provider_registry
      {''p:m:1''} ''r1'' 7 sample_ask sample_model_request sample_model_budget
      = (Ok res, b, [(''p:m:1'', provider_request_of sample_flight)])"
    using sample_generate by blast
  show ?thesis
    using generated_result_is_bound [OF run sample_registry_kept sample_unchanged sample_budget_fresh] run
    by (auto simp: sample_answer_def)
qed

theorem confidential_data_stays_private_witness:
  "\<exists>p. bt_get sample_provider_registry ''p:m:1'' = Some p \<and> pvf_deployment p \<noteq> PublicApi"
proof -
  obtain res b where run: "run_request sample_model_env sample_provider_registry sample_provider_registry {''p:m:1''}
      ''r1'' False sample_ask (judge_response sample_model_env 7) sample_model_request sample_model_budget
      = (Ok res, b, [(''p:m:1'', provider_request_of sample_flight)])"
    using sample_generate unfolding model_generate_def by blast
  have policy: "mge_data_policy sample_model_env = data_policy_evaluate sample_data_env sample_data_port"
    by (simp add: sample_model_env_def)
  have "Confidential \<le> mrq_classification sample_model_request"
    by (simp add: sample_model_request_def less_eq_data_classification_def)
  then show ?thesis
    using confidential_data_stays_private [OF run list.set_intros(1) sample_registry_kept sample_unchanged policy]
    by blast
qed

theorem planner_routes_are_accepted_witness:
  "\<exists>ranked. deterministic_rank sample_model_request [sample_provider] = Ok ranked
     \<and> validate_route_plan [sample_provider] ranked = Ok ()"
  using planner_routes_are_accepted [of "[sample_provider]" sample_model_request] sample_provider_valid
  by (simp add: deterministic_rank_def)

text \<open>A stream of one chunk, through the default of the adapter trait.\<close>

lemma sample_adapter_stream:
  "adapter_stream (Ok sample_answer) =
     Ok \<lparr>pst_provider_request_id = ''x1'',
         pst_chunks = [\<lparr>msc_schema_version = MODEL_SCHEMA_VERSION, msc_sequence = 1, msc_bytes = ''hello'',
                        msc_finish_reason = Some ''stop''\<rparr>],
         pst_input_tokens = 3, pst_output_tokens = 4\<rparr>"
  by (simp add: adapter_stream_def sample_answer_def)

lemma sample_judge_stream:
  "\<exists>res. judge_stream sample_model_env 7 sample_flight (candidate_of sample_provider) sample_provider
     (case adapter_stream (Ok sample_answer) of Inr s \<Rightarrow> s) = (14, Ok res)"
proof -
  have key: "provider_key sample_provider = ''p:m:1''"
    by (simp add: provider_key_def sample_provider_def)
  have "\<exists>ev. evidence_of sample_model_env 7 sample_flight (candidate_of sample_provider) sample_provider ''x1'' 3 4 14
      (replicate 64 CHR ''a'') = Ok ev"
    by (simp add: evidence_of_def key sample_flight_def bt_get_def sample_model_env_def)
  moreover have "saturating_add 3 4 = (7 :: u64)" "saturating_mul 7 2 = 14"
    by (simp_all add: saturating_add_def saturating_mul_def)
  ultimately show ?thesis
    by (auto simp: judge_stream_def sample_adapter_stream Let_def response_inspect_def sample_no_marker
        chunk_ok_def bounded_nonempty_def utf8_ascii sample_provider_def sample_flight_def
        sample_model_request_def sample_model_env_def)
qed

lemma sample_stream:
  "\<exists>res b. model_stream sample_model_env sample_provider_registry sample_provider_registry {''p:m:1''} ''r1'' 7
     (\<lambda>_ _. Some (adapter_stream (Ok sample_answer))) sample_model_request sample_model_budget
     = (Ok res, b, [(''p:m:1'', provider_request_of sample_flight)])"
proof -
  obtain b where admit: "admit_request sample_model_env sample_provider_registry ''r1'' True sample_model_request
      sample_model_budget = (Ok sample_flight, b)" using sample_admit by blast
  obtain s where s: "adapter_stream (Ok sample_answer) = Ok s" by (simp add: sample_adapter_stream)
  obtain res where judge: "judge_stream sample_model_env 7 sample_flight (candidate_of sample_provider)
      sample_provider s = (14, Ok res)" using sample_judge_stream s by auto
  have reserve: "budget_reserve ''r1'' ''t'' ''k'' 40 sample_model_budget = (Ok (flt_reservation sample_flight), b)"
    using admit by (rule admit_request_Ok) (simp add: sample_model_request_def)
  obtain x b2 where fin: "budget_finalize (brs_reservation_id (flt_reservation sample_flight)) 14 b = (x, b2)"
    by force
  have "is_ok x"
    using budget_reserve_finalize [OF reserve sample_budget_fresh fin] by simp
  then obtain "x = Ok ()" by (cases x) auto
  then have settle: "settle sample_flight (Some (adapter_stream (Ok sample_answer)))
      (judge_stream sample_model_env 7 sample_flight (candidate_of sample_provider) sample_provider) b = (Ok res, b2)"
    using judge fin s by (simp add: settle_def)
  have "rtc_provider_key (candidate_of sample_provider) = ''p:m:1''"
    by (simp add: candidate_of_def provider_key_def sample_provider_def)
  then show ?thesis
    using admit sample_route settle by (simp add: model_stream_def run_request_def)
qed

theorem streamed_result_is_ordered_witness:
  "\<exists>res b calls. model_stream sample_model_env sample_provider_registry sample_provider_registry {''p:m:1''} ''r1'' 7
     (\<lambda>_ _. Some (adapter_stream (Ok sample_answer))) sample_model_request sample_model_budget = (Ok res, b, calls)
     \<and> msr_chunks res \<noteq> []"
proof -
  obtain res b where run: "model_stream sample_model_env sample_provider_registry sample_provider_registry {''p:m:1''}
      ''r1'' 7 (\<lambda>_ _. Some (adapter_stream (Ok sample_answer))) sample_model_request sample_model_budget
      = (Ok res, b, [(''p:m:1'', provider_request_of sample_flight)])"
    using sample_stream by blast
  show ?thesis
    using streamed_result_is_ordered [OF run sample_registry_kept sample_unchanged sample_budget_fresh] run
    by blast
qed

text \<open>Two items of evidence for one request and a statement with a second, unrelated line.\<close>

definition sample_line :: "string \<Rightarrow> u64 \<Rightarrow> provider_usage_line" where
  "sample_line rid billed = \<lparr>pul_provider_key = ''p:m:1'', pul_provider_request_id = rid, pul_input_tokens = 3,
     pul_output_tokens = 4, pul_billed_microunits = billed\<rparr>"

definition sample_item :: "string \<Rightarrow> model_evidence" where
  "sample_item rid = \<lparr>mev_request_hash = [], mev_provider_key = ''p:m:1'', mev_provider_request_id = rid,
     mev_route_reasons = [], mev_data_policy_version = [], mev_data_policy_decision_digest = [],
     mev_input_tokens = 3, mev_output_tokens = 4, mev_cost_microunits = 14, mev_output_hash = [],
     mev_created_at = 7\<rparr>"

text \<open>A repeated item of evidence lets a line of the statement pass that nothing in the evidence explains.\<close>

lemma repeated_evidence_hides_a_line:
  "\<exists>rec. reconcile_provider_billing sample_model_env [sample_item ''x1'', sample_item ''x1'']
           [sample_line ''x1'' 14, sample_line ''x2'' 5000] = Ok rec
     \<and> brc_total_billed_microunits rec = 28"
  by (simp add: reconcile_provider_billing_def bt_contains_def bt_empty_def bt_get_def sample_line_def
      sample_item_def line_matches_def checked_add_def sample_model_env_def)

theorem reconciled_statement_matches_witness:
  "\<exists>rec. reconcile_provider_billing sample_model_env [sample_item ''x1''] [sample_line ''x1'' 14] = Ok rec
     \<and> unat (brc_total_metered_microunits rec) = 14"
proof -
  obtain rec where rec: "reconcile_provider_billing sample_model_env [sample_item ''x1''] [sample_line ''x1'' 14] = Ok rec"
    by (simp add: reconcile_provider_billing_def bt_contains_def bt_empty_def bt_get_def sample_line_def
        sample_item_def line_matches_def checked_add_def sample_model_env_def)
  show ?thesis
    using reconciled_statement_matches [OF rec] rec by (simp add: sample_item_def)
qed

end
