(* ===== verification/Spec2Isabelle.thy ===== *)
theory Spec2Isabelle
  imports Task_Lifecycle Ledger_Invariant Ledger_Recovery Ledger_Postgres Authorization
    Gateway_Admission Runtime_Safety Orchestrator
    Delegation_Safety Agui_Safety A2a_Task_Safety
    Review_Evidence_Safety Evidence_Store_Safety Approval_Guarantees Action_Ir_Safety
    Tool_Registry_Safety Registry_Checks Policy_Enforcement_Safety
    Data_Governance_Safety Model_Gateway_Safety
begin

text \<open>
  A model of the trust core of AgentSphere: the Rust services under \<open>rust/crates\<close> that decide
  whether an agent may act, keep an action from happening twice, and record what happened so that it
  can be checked later.

  \<^bold>\<open>The program.\<close> A client's action enters through the gateway, which limits rate and concurrency
  and binds an idempotency key to a payload. It is written in the action language, normalized, and
  named by its hash. The tool it uses comes from the registry, which resolves only validated and
  signed manifests. The orchestrator drives a task through its lifecycle; every step that acts is
  authorized by a signed execution authorization of the policy enforcement point and reserved in the
  transaction ledger, whose fence decides who may write. Work that needs a person goes through the
  approval service, on facts bound to signed review evidence. A model is called through the model
  gateway, within a budget and where the data policy of data governance lets the labelled data go.
  Agents of other parties are reached through the A2A adapter with delegation tokens that only
  narrow. Every decision and execution is appended to the evidence chain of its task; a task completes
  only on an evaluation of that chain.

  \<^bold>\<open>Theories and sources.\<close>
  \<^item> \<open>Prelude\<close>, \<open>BTree_Map\<close>, \<open>BTree_Sum\<close>, \<open>Utf8_Text\<close>, \<open>Utf8_Bytes\<close>, \<open>Decimal_Text\<close>: results,
    machine integers, instants, reachable states, ordered maps with their lookup interface, sums over
    a map, characters of a string, bytes that need not be UTF-8, decimal texts. The locale \<open>lookup_map\<close> and its extension \<open>counted_map\<close> are interpreted on the
    association list that stands for a \<open>BTreeMap\<close>; the two machine locales of \<open>Prelude\<close> give every
    state machine of the development its invariant rule.
  \<^item> \<open>Contracts\<close>, \<open>Task_Lifecycle\<close>, \<open>Authorization\<close>: \<open>contracts/src/lib.rs\<close>, the shared vocabulary,
    \<open>StateTransitionGuard::allows\<close>, \<open>ExecutionAuthorization\<close> and its signing and verification.
  \<^item> \<open>Ledger\<close>, \<open>Ledger_Invariant\<close>, \<open>Ledger_Recovery\<close>, \<open>Ledger_Postgres\<close>:
    \<open>transaction-ledger/src/lib.rs\<close>. \<open>InMemoryLedger\<close> is the record \<open>in_memory_ledger\<close>; \<open>reserve\<close>,
    \<open>transition\<close>, the markers and the snapshots are functions on it. \<open>PostgresLedger\<close> is a
    transaction on \<open>pg_db\<close> whose statements may fail and whose commit may be lost.
  \<^item> \<open>Gateway\<close>, \<open>Gateway_Admission\<close>: \<open>gateway/src/lib.rs\<close>, the admission controller and the handlers.
    A handler that waits for another service is split into what it does before and after the call.
  \<^item> \<open>Runtime\<close>, \<open>Runtime_Safety\<close>: \<open>durable-orchestrator/src/runtime.rs\<close>, the authoritative
    transition engine; the facts it reads are arguments.
  \<^item> \<open>Orchestrator\<close>: \<open>durable-orchestrator/src/lib.rs\<close>, the task service with leases and versions.
  \<^item> \<open>A2a_Base\<close>, \<open>Delegation\<close>, \<open>Agui\<close>, \<open>A2a_Tasks\<close> and their \<open>_Safety\<close> theories:
    \<open>a2a-agui-adapter/src/lib.rs\<close>, agent cards, delegation tokens, the AG-UI event stream, remote
    tasks. A durable store behind a trait is a record of functions over a store state.
  \<^item> \<open>Evidence\<close>, \<open>Evidence_Authority\<close>, \<open>Evidence_Store\<close> and their \<open>_Safety\<close> theories: the evidence
    wire of \<open>contracts/src/lib.rs\<close>, \<open>evidence-evaluator/src/lib.rs\<close>, and
    \<open>evidence-evaluator/src/postgres.rs\<close>.
  \<^item> \<open>Review_Evidence\<close>, \<open>Review_Evidence_Safety\<close>: \<open>enterprise-approval/src/review_evidence.rs\<close>.
  \<^item> \<open>Approval\<close>, \<open>Approval_Safety\<close>, \<open>Approval_Guarantees\<close>: \<open>enterprise-approval/src/lib.rs\<close>, the
    approval service as a record with its directory and the state behind its lock.
  \<^item> \<open>Action_Ir\<close>, \<open>Action_Text\<close>, \<open>Action_Ir_Safety\<close>: \<open>action-ir/src/lib.rs\<close>, the strict JSON reader,
    drafts, normalization, the action hash and signed envelopes.
  \<^item> \<open>Tool_Registry\<close>, \<open>Registry_Checks\<close>, \<open>Tool_Registry_Safety\<close>: \<open>registry/src/lib.rs\<close>, manifests and
    their lifecycle, the checks of schemas and versions, exact resolution. The maps behind the
    registry's lock are the record \<open>tool_registry\<close>.
  \<^item> \<open>Policy_Enforcement\<close>, \<open>Policy_Enforcement_Safety\<close>: \<open>policy-pep/src/lib.rs\<close>, the enforcement point;
    \<open>enforce\<close> is the whole of \<open>PolicyEnforcementPoint::enforce\<close>, its state the used approvals and the
    calls made to the runtime.
  \<^item> \<open>Data_Governance\<close>, \<open>Data_Governance_Safety\<close>: \<open>data-governance/src/lib.rs\<close>, labels, the classifier
    and scanner, the data policy, the prompt and export guards, cross-domain grants.
  \<^item> \<open>Model_Gateway\<close>, \<open>Model_Gateway_Safety\<close>: \<open>model-gateway/src/lib.rs\<close>, providers, the planner, budgets,
    \<open>generate\<close> and \<open>stream\<close>, billing and the wire adapters.

  \<^bold>\<open>What the lemmas show.\<close> For the ledger: an action is reserved once, only the holder of the current
  fence writes, settled records never change, a snapshot restores the state, compensation runs every
  step backwards once, and the PostgreSQL ledger refines the one in memory. For the gateway: no more
  calls run at once than the limits allow, no more enter in a minute than the rate allows over two
  windows, and a key is bound to its payload. For the orchestrator: a task that completes passed every
  gate, completion rests on a proof, a task can always be killed, a revoked lease stays revoked. For
  the A2A adapter: calls are conserved over a delegation tree, scopes only narrow, revocation is
  final, a snapshot and its resume token lose no event. For evidence: every stored chain is whole, the
  head hash commits to the whole history, and a passing evaluation was earned. For approvals: a
  grant had its quorum, its uses are counted, a closed case stays closed, consumption is bound to the
  approved action, and an accepted review is bound to its request. For actions: a canonical action is
  canonical, and its hash binds every field but the identifier and the time. For the registry: a tool
  that resolves was validated and signed, and a revoked one never resolves again. For the enforcement
  point: an authorization was earned, verifies with the contracts' verifier, spends the approval it
  needs, and the runtime is called only as a valid decision asks. For data governance: merging labels
  never weakens one (its retention apart), a flow is allowed exactly when every rule holds, scans are
  bounded, a cross-domain grant is used once. For the model gateway: budgets are conserved, a request
  closes its reservation, a provider is called only where policy lets the data go, and a result is
  bound by its evidence.

  Some lemmas record what the code does where its name or its documentation suggests otherwise; the
  manifest's findings name them, among them \<open>stricter_retention_is_lost\<close>, \<open>unlimited_budget_wraps\<close>,
  \<open>manual_recovery_diverges\<close>, \<open>repeated_step_is_skipped\<close>, \<open>emergency_case_grants_again\<close>,
  \<open>plugin_overrides_core_gates\<close> and \<open>revoking_parent_spares_children\<close>.

  \<^bold>\<open>Conventions.\<close> Machine integers are words and wrap, saturate or are checked where the code does.
  A \<open>String\<close> is the list of its bytes, an instant the number of nanoseconds since the epoch. A
  method behind a lock is one step; so is a method that takes two locks one after the other
  (approving a provider, consuming a cross-domain grant). A model request runs with nothing else
  touching its budget between reserving and settling, and a dropped request future is not a path of
  the model. Clock readings, fresh identifiers and the outcomes of
  statements, commits and calls to other services are arguments. There is no fuel: every loop of
  the modelled code ranges over a collection or a text, so every function is total.

  \<^bold>\<open>Parameters.\<close> The libraries that are not under \<open>src/\<close> (canonical JSON, SHA-256, Ed25519, base64,
  UUID and URL parsing, JSON Schema, Unicode normalization, regular expressions) are fields of
  environment records, and so are the services behind traits: the policy decision point, the agent
  runtime, model providers, the route planner, stores. Where a property needs more of a library than
  that it is a function, it says so as a hypothesis: a signature made with a key verifies under its
  public key, canonical JSON writes what RFC 8785 says, decoding inverts encoding. SHA-256 is never
  assumed injective: a property that compares digests either supposes that two named texts do not
  collide or has the explicit collision as its other case. Each hypothesis is met by the concrete
  libraries of the witnesses.

  \<^bold>\<open>Not modelled.\<close> HTTP servers and clients, process entry points, configuration files and schema
  libraries; SQL authorities other than the ledger's and the evidence store's (those of the registry,
  the enforcement point, data governance and the model gateway among them); row level security of the
  database; the readiness probes; persisting and replaying artifacts; the crates listed as not modelled
  in the manifest.
\<close>

end
